(* ===== verification/PyValue.thy ===== *)
theory PyValue
  imports Prelude
begin

text \<open>
  The dynamically typed values the program reads from JSON files and passes between its layers:
  None, bool, int, float, str, list and dict. A dict is an association list in insertion order,
  which is what a Python dict is; keys are strings, as in every JSON object. A float carries its
  exact value and the text \<open>repr\<close> prints for it, so that \<open>int\<close>, \<open>bool\<close> and \<open>str\<close> of a float
  are defined without a model of float printing.
\<close>

section \<open>Values\<close>

datatype pyfloat = Finite rat string | Infinite bool | NotANumber

datatype py = PNone | PBool bool | PInt int | PFloat pyfloat | PStr string
  | PList "py list" | PDict "(string \<times> py) list"

type_synonym dict = "(string \<times> py) list"

named_theorems py_simps \<open>unfolding of the accessors of Python values\<close>

fun truthy :: "py \<Rightarrow> bool" where
  "truthy PNone = False"
| "truthy (PBool b) = b"
| "truthy (PInt n) = (n \<noteq> 0)"
| "truthy (PFloat (Finite r _)) = (r \<noteq> 0)"
| "truthy (PFloat _) = True"
| "truthy (PStr s) = (s \<noteq> [])"
| "truthy (PList xs) = (xs \<noteq> [])"
| "truthy (PDict d) = (d \<noteq> [])"

text \<open>\<open>a or b\<close>\<close>

definition por :: "py \<Rightarrow> py \<Rightarrow> py" where
  "por a b = (if truthy a then a else b)"

fun is_str :: "py \<Rightarrow> bool" where "is_str (PStr _) = True" | "is_str _ = False"
fun is_bool :: "py \<Rightarrow> bool" where "is_bool (PBool _) = True" | "is_bool _ = False"
fun is_list :: "py \<Rightarrow> bool" where "is_list (PList _) = True" | "is_list _ = False"
fun is_dict :: "py \<Rightarrow> bool" where "is_dict (PDict _) = True" | "is_dict _ = False"

text \<open>\<open>isinstance(v, int)\<close> is true of bool as well.\<close>

fun is_int :: "py \<Rightarrow> bool" where
  "is_int (PInt _) = True" | "is_int (PBool _) = True" | "is_int _ = False"

lemma is_str_iff: "is_str v \<longleftrightarrow> (\<exists>s. v = PStr s)" by (cases v) auto
lemma is_bool_iff: "is_bool v \<longleftrightarrow> (\<exists>b. v = PBool b)" by (cases v) auto
lemma is_list_iff: "is_list v \<longleftrightarrow> (\<exists>xs. v = PList xs)" by (cases v) auto
lemma is_dict_iff: "is_dict v \<longleftrightarrow> (\<exists>d. v = PDict d)" by (cases v) auto

fun the_str :: "py \<Rightarrow> string" where "the_str (PStr s) = s" | "the_str _ = []"
fun the_list :: "py \<Rightarrow> py list" where "the_list (PList xs) = xs" | "the_list _ = []"
fun the_dict :: "py \<Rightarrow> dict" where "the_dict (PDict d) = d" | "the_dict _ = []"

definition pstrs :: "string list \<Rightarrow> py" where
  "pstrs xs = PList (map PStr xs)"

fun popt :: "string option \<Rightarrow> py" where
  "popt None = PNone" | "popt (Some s) = PStr s"

section \<open>Dictionaries\<close>

definition has_key :: "dict \<Rightarrow> string \<Rightarrow> bool" where
  "has_key d k = (map_of d k \<noteq> None)"

text \<open>\<open>d.get(k, v)\<close> and \<open>d.get(k)\<close>\<close>

definition get_or :: "dict \<Rightarrow> string \<Rightarrow> py \<Rightarrow> py" where
  "get_or d k v = (case map_of d k of None \<Rightarrow> v | Some x \<Rightarrow> x)"

definition get :: "dict \<Rightarrow> string \<Rightarrow> py" where
  "get d k = get_or d k PNone"

text \<open>\<open>d[k] = v\<close>: an existing key keeps its place, a new one goes last.\<close>

definition dput :: "dict \<Rightarrow> string \<Rightarrow> py \<Rightarrow> dict" where
  "dput d k v = AList.update k v d"

text \<open>\<open>d.setdefault(k, v)\<close> and \<open>d.pop(k, None)\<close>\<close>

definition dsetdefault :: "dict \<Rightarrow> string \<Rightarrow> py \<Rightarrow> dict" where
  "dsetdefault d k v = (if has_key d k then d else dput d k v)"

definition dpop :: "dict \<Rightarrow> string \<Rightarrow> dict" where
  "dpop d k = AList.delete k d"

text \<open>\<open>{**d, **e}\<close> and \<open>d.update(e)\<close>\<close>

definition dmerge :: "dict \<Rightarrow> dict \<Rightarrow> dict" where
  "dmerge d e = fold (\<lambda>(k, v) acc. dput acc k v) e d"

definition wf_dict :: "dict \<Rightarrow> bool" where
  "wf_dict d = distinct (map fst d)"

lemma get_or_Nil [simp]: "get_or [] k v = v"
  by (simp add: get_or_def)

lemma get_or_Cons [simp]: "get_or ((k', v') # d) k v = (if k' = k then v' else get_or d k v)"
  by (simp add: get_or_def)

lemma get_Nil [simp]: "get [] k = PNone"
  by (simp add: get_def)

lemma get_Cons [simp]: "get ((k', v') # d) k = (if k' = k then v' else get d k)"
  by (simp add: get_def)

lemma has_key_Nil [simp]: "\<not> has_key [] k"
  by (simp add: has_key_def)

lemma has_key_Cons [simp]: "has_key ((k', v') # d) k \<longleftrightarrow> k' = k \<or> has_key d k"
  by (simp add: has_key_def)

lemma get_or_dput [simp]: "get_or (dput d k v) k' u = (if k' = k then v else get_or d k' u)"
  by (simp add: get_or_def dput_def update_conv')

lemma get_dput [simp]: "get (dput d k v) k' = (if k' = k then v else get d k')"
  by (simp add: get_def)

lemma has_key_dput [simp]: "has_key (dput d k v) k' \<longleftrightarrow> k' = k \<or> has_key d k'"
  by (simp add: has_key_def dput_def update_conv')

lemma get_or_dpop [simp]: "get_or (dpop d k) k' u = (if k' = k then u else get_or d k' u)"
  by (simp add: get_or_def dpop_def delete_conv')

lemma get_dpop [simp]: "get (dpop d k) k' = (if k' = k then PNone else get d k')"
  by (simp add: get_def)

lemma has_key_dpop [simp]: "has_key (dpop d k) k' \<longleftrightarrow> k' \<noteq> k \<and> has_key d k'"
  by (simp add: has_key_def dpop_def delete_conv')

lemma get_no_key: "\<not> has_key d k \<Longrightarrow> get d k = PNone"
  by (simp add: has_key_def get_def get_or_def)

lemma get_dsetdefault [simp]:
  "get (dsetdefault d k v) k' = (if k' = k \<and> \<not> has_key d k then v else get d k')"
  by (simp add: dsetdefault_def)

lemma has_key_dsetdefault [simp]: "has_key (dsetdefault d k v) k' \<longleftrightarrow> k' = k \<or> has_key d k'"
  by (auto simp: dsetdefault_def)

lemma wf_dict_Nil [simp]: "wf_dict []"
  by (simp add: wf_dict_def)

lemma wf_dict_dput [simp]: "wf_dict d \<Longrightarrow> wf_dict (dput d k v)"
  by (simp add: wf_dict_def dput_def distinct_update)

lemma wf_dict_dpop [simp]: "wf_dict d \<Longrightarrow> wf_dict (dpop d k)"
  by (simp add: wf_dict_def dpop_def distinct_delete)

lemma dmerge_Nil [simp]: "dmerge d [] = d"
  by (simp add: dmerge_def)

lemma dmerge_Cons [simp]: "dmerge d ((k, v) # e) = dmerge (dput d k v) e"
  by (simp add: dmerge_def)

lemma map_of_dmerge:
  "wf_dict e \<Longrightarrow> map_of (dmerge d e) k = (case map_of e k of None \<Rightarrow> map_of d k | Some v \<Rightarrow> Some v)"
  unfolding wf_dict_def
proof (induction e arbitrary: d)
  case (Cons kv e)
  obtain k' v' where kv: "kv = (k', v')" by (cases kv)
  with Cons.prems have "k' \<notin> fst ` set e" and "distinct (map fst e)" by auto
  then have none: "map_of e k' = None" by (simp add: map_of_eq_None_iff)
  show ?case
    using Cons.IH [OF \<open>distinct (map fst e)\<close>, of "dput d k' v'"] kv none
    by (auto simp: dput_def update_conv' split: option.splits)
qed simp

section \<open>Conversions\<close>

definition hex_digit :: "nat \<Rightarrow> char" where
  "hex_digit n = (if n < 10 then char_of (48 + n) else char_of (87 + n))"

text \<open>\<open>repr\<close> of a string: single quotes unless the text has a single quote and no double quote;
  backslash, the chosen quote and unprintable code points are escaped.\<close>

definition repr_char :: "char \<Rightarrow> char \<Rightarrow> string" where
  "repr_char q c = (let n = code c in
     if c = q \<or> n = 92 then [CHR 0x5C, c]
     else if n = 9 then [CHR 0x5C, CHR ''t'']
     else if n = 10 then [CHR 0x5C, CHR ''n'']
     else if n = 13 then [CHR 0x5C, CHR ''r'']
     else if n < 32 \<or> (127 \<le> n \<and> n \<le> 160) \<or> n = 173
       then [CHR 0x5C, CHR ''x'', hex_digit (n div 16), hex_digit (n mod 16)]
     else [c])"

definition repr_str :: "string \<Rightarrow> string" where
  "repr_str s = (let q = (if CHR 0x27 \<in> set s \<and> CHR 0x22 \<notin> set s then CHR 0x22 else CHR 0x27)
     in q # concat (map (repr_char q) s) @ [q])"

fun repr_float :: "pyfloat \<Rightarrow> string" where
  "repr_float (Finite _ t) = t"
| "repr_float (Infinite neg) = (if neg then ''-inf'' else ''inf'')"
| "repr_float NotANumber = ''nan''"

fun repr :: "py \<Rightarrow> string"
  and repr_items :: "py list \<Rightarrow> string list"
  and repr_pairs :: "dict \<Rightarrow> string list" where
  "repr PNone = ''None''"
| "repr (PBool b) = (if b then ''True'' else ''False'')"
| "repr (PInt n) = int_str n"
| "repr (PFloat f) = repr_float f"
| "repr (PStr s) = repr_str s"
| "repr (PList xs) = ''['' @ join '', '' (repr_items xs) @ '']''"
| "repr (PDict d) = ''{'' @ join '', '' (repr_pairs d) @ ''}''"
| "repr_items [] = []"
| "repr_items (x # xs) = repr x # repr_items xs"
| "repr_pairs [] = []"
| "repr_pairs ((k, v) # d) = (repr_str k @ '': '' @ repr v) # repr_pairs d"

text \<open>\<open>str(v)\<close>\<close>

fun py_str :: "py \<Rightarrow> string" where
  "py_str (PStr s) = s"
| "py_str v = repr v"

text \<open>\<open>str(v or "")\<close>, the idiom of the queue modules, and its stripped and lowered forms\<close>

definition str_or_empty :: "py \<Rightarrow> string" where
  "str_or_empty v = py_str (por v (PStr []))"

lemma str_or_empty_PNone [simp]: "str_or_empty PNone = []"
  by (simp add: str_or_empty_def por_def)

lemma str_or_empty_PStr [simp]: "str_or_empty (PStr s) = s"
  by (simp add: str_or_empty_def por_def)

definition type_name :: "py \<Rightarrow> string" where
  "type_name v = (case v of PNone \<Rightarrow> ''NoneType'' | PBool _ \<Rightarrow> ''bool'' | PInt _ \<Rightarrow> ''int''
     | PFloat _ \<Rightarrow> ''float'' | PStr _ \<Rightarrow> ''str'' | PList _ \<Rightarrow> ''list'' | PDict _ \<Rightarrow> ''dict'')"

definition is_digit :: "char \<Rightarrow> bool" where
  "is_digit c = (48 \<le> code c \<and> code c \<le> 57)"

text \<open>Digits with single underscores between them, as \<open>int\<close> and \<open>float\<close> read them.\<close>

fun read_digits :: "nat \<Rightarrow> string \<Rightarrow> nat option" where
  "read_digits acc [] = None"
| "read_digits acc [c] = (if is_digit c then Some (10 * acc + (code c - 48)) else None)"
| "read_digits acc (c # d # cs) =
     (if is_digit c then
        (if d = CHR ''_'' then read_digits (10 * acc + (code c - 48)) cs
         else read_digits (10 * acc + (code c - 48)) (d # cs))
      else None)"

definition read_int :: "string \<Rightarrow> int option" where
  "read_int s = (case strip s of
     [] \<Rightarrow> None
   | c # cs \<Rightarrow>
       if c = CHR ''-'' then map_option (\<lambda>n. - int n) (read_digits 0 cs)
       else if c = CHR ''+'' then map_option int (read_digits 0 cs)
       else map_option int (read_digits 0 (c # cs)))"

subsection \<open>Decimal text reads back\<close>

lemma code_char_of [simp]: "n < 256 \<Longrightarrow> code (char_of n) = n"
  by (simp add: code_def)

lemma digits_of_digits: "c \<in> set (digits_of n) \<Longrightarrow> is_digit c"
proof (induction n rule: digits_of.induct)
  case (1 n)
  then show ?case
    by (subst (asm) (2) digits_of.simps) (auto simp: is_digit_def split: if_splits)
qed

lemma digit_plain:
  assumes "is_digit c"
  shows "\<not> is_space c" "lower_char c = c" "c \<noteq> CHR ''-''" "c \<noteq> CHR ''+''" "c \<noteq> CHR ''_''"
    "c \<noteq> CHR ''.''" "c \<noteq> CHR ''e''" "c \<noteq> CHR ''i''" "c \<noteq> CHR ''n''"
  using assms by (auto simp: is_digit_def is_space_def lower_char_def code_def Let_def)

lemma strip_no_space: "(\<And>c. c \<in> set s \<Longrightarrow> \<not> is_space c) \<Longrightarrow> strip s = s"
proof -
  assume a: "\<And>c. c \<in> set s \<Longrightarrow> \<not> is_space c"
  then have l: "lstrip s = s" by (cases s) (simp_all add: lstrip_def)
  from a have "\<forall>c \<in> set (rev s). \<not> is_space c" by simp
  then have "dropWhile is_space (rev s) = rev s" by (cases "rev s") simp_all
  with l show "strip s = s" by (simp add: strip_def rstrip_def)
qed

lemma read_digits_foldl:
  "(\<And>c. c \<in> set s \<Longrightarrow> is_digit c) \<Longrightarrow> s \<noteq> [] \<Longrightarrow>
   read_digits acc s = Some (foldl (\<lambda>a c. 10 * a + (code c - 48)) acc s)"
proof (induction acc s rule: read_digits.induct)
  case (3 acc c d cs)
  then have "is_digit c" "d \<noteq> CHR ''_''" using digit_plain(5) by auto
  with 3 show ?case by simp
qed auto

lemma foldl_digits_of: "foldl (\<lambda>a c. 10 * a + (code c - 48)) 0 (digits_of n) = n"
proof (induction n rule: digits_of.induct)
  case (1 n)
  then show ?case by (subst digits_of.simps) auto
qed

lemma read_digits_of: "read_digits 0 (digits_of n) = Some n"
  using read_digits_foldl [of "digits_of n" 0] digits_of_digits by (simp add: foldl_digits_of)

lemma read_int_int_str: "read_int (int_str i) = Some i"
proof (cases "i < 0")
  case True
  have "strip (int_str i) = int_str i"
  proof (rule strip_no_space)
    fix c assume "c \<in> set (int_str i)"
    then have "c = CHR ''-'' \<or> is_digit c" using True by (auto simp: int_str_def dest: digits_of_digits)
    moreover have "\<not> is_space CHR ''-''" by (simp add: is_space_def code_def)
    ultimately show "\<not> is_space c" using digit_plain(1) by blast
  qed
  with True show ?thesis by (simp add: read_int_def int_str_def read_digits_of)
next
  case False
  let ?s = "digits_of (nat i)"
  have "strip ?s = ?s" by (rule strip_no_space) (auto dest: digits_of_digits digit_plain(1))
  moreover obtain c cs where s: "?s = c # cs" by (cases ?s) auto
  moreover have "is_digit c" using digits_of_digits [of c "nat i"] s by simp
  ultimately show ?thesis
    using False read_digits_of [of "nat i"] digit_plain(3,4) by (auto simp: read_int_def int_str_def)
qed

definition rat_trunc :: "rat \<Rightarrow> int" where
  "rat_trunc r = (if r < 0 then - floor (- r) else floor r)"

text \<open>\<open>int(v)\<close>\<close>

fun py_int :: "py \<Rightarrow> int result" where
  "py_int (PBool b) = Inr (if b then 1 else 0)"
| "py_int (PInt n) = Inr n"
| "py_int (PFloat (Finite r _)) = Inr (rat_trunc r)"
| "py_int (PFloat (Infinite _)) = Inl (Exc OverflowError ''cannot convert float infinity to integer'')"
| "py_int (PFloat NotANumber) = raise_value ''cannot convert float NaN to integer''"
| "py_int (PStr s) = (case read_int s of
     None \<Rightarrow> raise_value (''invalid literal for int() with base 10: '' @ repr_str s)
   | Some n \<Rightarrow> Inr n)"
| "py_int v = raise_type (''int() argument must be a string, a bytes-like object or a real number, not ''
     @ quoted (type_name v))"

text \<open>\<open>str.split()\<close> without arguments\<close>

fun words :: "string \<Rightarrow> string list" where
  "words [] = []"
| "words (c # cs) = (if is_space c then words cs
     else (case (cs, words cs) of
         ([], _) \<Rightarrow> [[c]]
       | (c' # _, ws) \<Rightarrow> if is_space c' then [c] # ws else (case ws of [] \<Rightarrow> [[c]] | w # ws' \<Rightarrow> (c # w) # ws')))"

text \<open>\<open>int(v or 0)\<close>\<close>

definition int_or_zero :: "py \<Rightarrow> int result" where
  "int_or_zero v = py_int (por v (PInt 0))"

lemma int_or_zero_PInt [simp]: "int_or_zero (PInt n) = Inr n"
  by (simp add: int_or_zero_def por_def)

lemma int_or_zero_PNone [simp]: "int_or_zero PNone = Inr 0"
  by (simp add: int_or_zero_def por_def)

text \<open>Membership of an arbitrary value in a set of strings hashes the value first: a list or a
  dict raises.\<close>

definition hashable :: "py \<Rightarrow> bool" where
  "hashable v = (\<not> is_list v \<and> \<not> is_dict v)"

definition in_str_set :: "py \<Rightarrow> string list \<Rightarrow> bool result" where
  "in_str_set v xs = (if hashable v then Inr (case v of PStr s \<Rightarrow> s \<in> set xs | _ \<Rightarrow> False)
     else raise_type (''unhashable type: '' @ quoted (type_name v)))"

lemma in_str_set_PStr [simp]: "in_str_set (PStr s) xs = Inr (s \<in> set xs)"
  by (simp add: in_str_set_def hashable_def)

text \<open>\<open>repr(exc)\<close> for the exceptions above: the message is the only argument.\<close>

definition class_name :: "exc_class \<Rightarrow> string" where
  "class_name c = (case c of ValueError \<Rightarrow> ''ValueError'' | TypeError \<Rightarrow> ''TypeError''
     | KeyError \<Rightarrow> ''KeyError'' | OverflowError \<Rightarrow> ''OverflowError'' | IndexError \<Rightarrow> ''IndexError''
     | AttributeError \<Rightarrow> ''AttributeError'' | FileNotFoundError \<Rightarrow> ''FileNotFoundError''
     | RuntimeError \<Rightarrow> ''RuntimeError'' | OtherError n \<Rightarrow> n)"

fun repr_exc :: "exc \<Rightarrow> string" where
  "repr_exc (Exc c m) = class_name c @ ''('' @ repr_str m @ '')''"

fun str_exc :: "exc \<Rightarrow> string" where
  "str_exc (Exc c m) = (if c = KeyError then repr_str m else m)"

section \<open>Paths as text\<close>

text \<open>\<open>Path(s).name\<close>, \<open>.stem\<close> and \<open>.suffix\<close> of \<open>PurePosixPath\<close>: empty and \<open>.\<close> components are
  dropped; a dot that starts or ends the name does not start a suffix.\<close>

definition path_parts :: "string \<Rightarrow> string list" where
  "path_parts s = filter (\<lambda>p. p \<noteq> [] \<and> p \<noteq> ''.'') (split_on CHR ''/'' s)"

definition path_name :: "string \<Rightarrow> string" where
  "path_name s = (case rev (path_parts s) of [] \<Rightarrow> [] | p # _ \<Rightarrow> p)"

text \<open>Position of the last dot, counted from the end: the suffix is what follows it.\<close>

definition after_last_dot :: "string \<Rightarrow> string" where
  "after_last_dot n = rev (takeWhile (\<lambda>c. c \<noteq> CHR ''.'') (rev n))"

definition name_suffix :: "string \<Rightarrow> string" where
  "name_suffix n = (let ext = after_last_dot n in
     if CHR ''.'' \<in> set n \<and> ext \<noteq> [] \<and> length ext + 1 < length n then CHR ''.'' # ext else [])"

definition name_stem :: "string \<Rightarrow> string" where
  "name_stem n = take (length n - length (name_suffix n)) n"

definition path_stem :: "string \<Rightarrow> string" where
  "path_stem s = name_stem (path_name s)"

definition path_suffix :: "string \<Rightarrow> string" where
  "path_suffix s = name_suffix (path_name s)"

lemma name_stem_suffix: "name_stem n @ name_suffix n = n"
proof (cases "name_suffix n = []")
  case True
  then show ?thesis by (simp add: name_stem_def)
next
  case False
  let ?e = "after_last_dot n"
  have sfx: "name_suffix n = CHR ''.'' # ?e" and dot: "CHR ''.'' \<in> set n"
    using False by (auto simp: name_suffix_def Let_def split: if_splits)
  have "rev n = takeWhile (\<lambda>c. c \<noteq> CHR ''.'') (rev n) @ dropWhile (\<lambda>c. c \<noteq> CHR ''.'') (rev n)"
    by simp
  moreover have "dropWhile (\<lambda>c. c \<noteq> CHR ''.'') (rev n) \<noteq> []"
    using dot by (auto simp: dropWhile_eq_Nil_conv)
  moreover have "hd (dropWhile (\<lambda>c. c \<noteq> CHR ''.'') (rev n)) = CHR ''.''"
    using dot by (metis (mono_tags, lifting) calculation(2) hd_dropWhile)
  ultimately obtain r where
    "rev n = takeWhile (\<lambda>c. c \<noteq> CHR ''.'') (rev n) @ CHR ''.'' # r"
    by (metis list.collapse)
  then have "n = rev r @ CHR ''.'' # ?e"
    unfolding after_last_dot_def by (metis append.assoc append_Cons append_Nil rev.simps(2) rev_append rev_rev_ident)
  with sfx have "n = rev r @ name_suffix n" by simp
  then show ?thesis
    unfolding name_stem_def by (metis append_eq_conv_conj length_append add_diff_cancel_right')
qed

end
