(* ===== verification/Step_Monad.thy ===== *)
theory Step_Monad
  imports PyValue
begin

text \<open>
  Stateful fallible code: a program takes a state and returns a result and the state it left, also when
  it raises, as a Python exception leaves the effects before it in place. With it, the frame predicate:
  a program keeps a function of the state, by rules over the structure of the program.
\<close>

section \<open>Programs\<close>

type_synonym ('a, 's) prog = "'s \<Rightarrow> 'a result \<times> 's"

definition retM :: "'a \<Rightarrow> ('a, 's) prog" where
  "retM x s = (Inr x, s)"

definition raiseM :: "exc \<Rightarrow> ('a, 's) prog" where
  "raiseM e s = (Inl e, s)"

definition liftR :: "'a result \<Rightarrow> ('a, 's) prog" where
  "liftR r s = (r, s)"

definition getM :: "('s \<Rightarrow> 'a) \<Rightarrow> ('a, 's) prog" where
  "getM f s = (Inr (f s), s)"

definition modifyM :: "('s \<Rightarrow> 's) \<Rightarrow> (unit, 's) prog" where
  "modifyM f s = (Inr (), f s)"

definition bindM :: "('a, 's) prog \<Rightarrow> ('a \<Rightarrow> ('b, 's) prog) \<Rightarrow> ('b, 's) prog" where
  "bindM m k s = (case m s of (Inl e, s') \<Rightarrow> (Inl e, s') | (Inr x, s') \<Rightarrow> k x s')"

definition thenM :: "('a, 's) prog \<Rightarrow> ('b, 's) prog \<Rightarrow> ('b, 's) prog" where
  "thenM m n = bindM m (\<lambda>_. n)"

text \<open>\<open>try: m except Exception as e: h(e)\<close>\<close>

definition tryM :: "('a, 's) prog \<Rightarrow> (exc \<Rightarrow> ('a, 's) prog) \<Rightarrow> ('a, 's) prog" where
  "tryM m h s = (case m s of (Inl e, s') \<Rightarrow> h e s' | (Inr x, s') \<Rightarrow> (Inr x, s'))"

text \<open>The outcome as a value, for a handler that needs what the body had computed\<close>

definition attemptM :: "('a, 's) prog \<Rightarrow> ('a result, 's) prog" where
  "attemptM m s = (Inr (fst (m s)), snd (m s))"

text \<open>\<open>try: m finally: f\<close> for a clean-up that does not raise\<close>

definition finallyM :: "('a, 's) prog \<Rightarrow> ('s \<Rightarrow> 's) \<Rightarrow> ('a, 's) prog" where
  "finallyM m f s = (case m s of (r, s') \<Rightarrow> (r, f s'))"

definition whenM :: "bool \<Rightarrow> (unit, 's) prog \<Rightarrow> (unit, 's) prog" where
  "whenM b m = (if b then m else retM ())"

fun seqM :: "(unit, 's) prog list \<Rightarrow> (unit, 's) prog" where
  "seqM [] = retM ()"
| "seqM (m # ms) = thenM m (seqM ms)"

fun forM :: "'a list \<Rightarrow> ('a \<Rightarrow> (unit, 's) prog) \<Rightarrow> (unit, 's) prog" where
  "forM [] f = retM ()"
| "forM (x # xs) f = thenM (f x) (forM xs f)"

fun collectM :: "'a list \<Rightarrow> ('a \<Rightarrow> ('b, 's) prog) \<Rightarrow> ('b list, 's) prog" where
  "collectM [] f = retM []"
| "collectM (x # xs) f = bindM (f x) (\<lambda>y. bindM (collectM xs f) (\<lambda>ys. retM (y # ys)))"

named_theorems prog_simps \<open>running programs\<close>

lemma prog_run [simp, prog_simps]:
  "retM x s = (Inr x, s)" "raiseM e s = (Inl e, s)" "liftR r s = (r, s)"
  "getM f s = (Inr (f s), s)" "modifyM g s = (Inr (), g s)"
  by (simp_all add: retM_def raiseM_def liftR_def getM_def modifyM_def)

lemma bindM_run [prog_simps]:
  "m s = (Inl e, s') \<Longrightarrow> bindM m k s = (Inl e, s')"
  "m s = (Inr x, s') \<Longrightarrow> bindM m k s = k x s'"
  by (simp_all add: bindM_def)

lemma bindM_simps [simp]:
  "bindM (retM x) k = k x" "bindM (raiseM e) k = raiseM e"
  "bindM (liftR (Inr x)) k = k x" "bindM (liftR (Inl e)) k = raiseM e"
  by (simp_all add: bindM_def fun_eq_iff)

lemma bindM_state [simp]:
  "bindM (getM f) k s = k (f s) s" "bindM (modifyM g) h s = h () (g s)"
  by (simp_all add: bindM_def)

lemma thenM_simps [simp]: "thenM (retM x) n = n" "thenM (raiseM e) n = raiseM e"
  by (simp_all add: thenM_def)

lemma thenM_modify [simp]: "thenM (modifyM g) n s = n (g s)"
  by (simp add: thenM_def)

lemma bindM_assoc: "bindM (bindM m k) h = bindM m (\<lambda>x. bindM (k x) h)"
  by (rule ext) (simp add: bindM_def split: prod.splits sum.splits)

lemma thenM_run:
  "m s = (Inr x, s') \<Longrightarrow> thenM m n s = n s'" "m s = (Inl e, s') \<Longrightarrow> thenM m n s = (Inl e, s')"
  by (simp_all add: thenM_def bindM_def)

lemma bindM_Inr_iff:
  "bindM m k s = (Inr y, t) \<longleftrightarrow> (\<exists>x s'. m s = (Inr x, s') \<and> k x s' = (Inr y, t))"
  by (auto simp: bindM_def split: prod.splits sum.splits)

lemma thenM_Inr_iff: "thenM m n s = (Inr y, t) \<longleftrightarrow> (\<exists>x s'. m s = (Inr x, s') \<and> n s' = (Inr y, t))"
  by (simp add: thenM_def bindM_Inr_iff)

lemma whenM_simps [simp]: "whenM True m = m" "whenM False m = retM ()"
  by (simp_all add: whenM_def)

section \<open>Frames\<close>

text \<open>\<open>f\<close> of the state is the same after the program as before, whether it returns or raises.\<close>

definition frame :: "('s \<Rightarrow> 'b) \<Rightarrow> ('a, 's) prog \<Rightarrow> bool" where
  "frame f m \<longleftrightarrow> (\<forall>s. f (snd (m s)) = f s)"

named_theorems frame_intro \<open>structural rules of frames\<close>

lemma frameD: "frame f m \<Longrightarrow> f (snd (m s)) = f s"
  by (simp add: frame_def)

lemma frame_pure [frame_intro]:
  "frame f (retM x)" "frame f (raiseM e)" "frame f (liftR r)" "frame f (getM g)"
  by (simp_all add: frame_def)

lemma frame_modify [frame_intro]: "(\<And>s. f (g s) = f s) \<Longrightarrow> frame f (modifyM g)"
  by (simp add: frame_def)

lemma frame_bind [frame_intro]: "frame f m \<Longrightarrow> (\<And>x. frame f (k x)) \<Longrightarrow> frame f (bindM m k)"
  unfolding frame_def
proof
  fix s
  assume m: "\<forall>s. f (snd (m s)) = f s" and k: "\<And>x. \<forall>s. f (snd (k x s)) = f s"
  show "f (snd (bindM m k s)) = f s"
  proof (cases "m s")
    case (Pair r t)
    with m [rule_format, of s] have "f t = f s" by simp
    with Pair k show ?thesis by (cases r) (simp_all add: bindM_def)
  qed
qed

lemma frame_then [frame_intro]: "frame f m \<Longrightarrow> frame f n \<Longrightarrow> frame f (thenM m n)"
  unfolding thenM_def by (rule frame_bind)

lemma frame_try [frame_intro]: "frame f m \<Longrightarrow> (\<And>e. frame f (h e)) \<Longrightarrow> frame f (tryM m h)"
  unfolding frame_def
proof
  fix s
  assume m: "\<forall>s. f (snd (m s)) = f s" and h: "\<And>e. \<forall>s. f (snd (h e s)) = f s"
  show "f (snd (tryM m h s)) = f s"
  proof (cases "m s")
    case (Pair r t)
    with m [rule_format, of s] have "f t = f s" by simp
    with Pair h show ?thesis by (cases r) (simp_all add: tryM_def)
  qed
qed

lemma frame_finally [frame_intro]: "frame f m \<Longrightarrow> (\<And>s. f (g s) = f s) \<Longrightarrow> frame f (finallyM m g)"
  by (simp add: frame_def finallyM_def split: prod.splits) (metis snd_conv)

lemma frame_attempt [frame_intro]: "frame f m \<Longrightarrow> frame f (attemptM m)"
  by (simp add: frame_def attemptM_def)

lemma frame_when [frame_intro]: "(b \<Longrightarrow> frame f m) \<Longrightarrow> frame f (whenM b m)"
  by (simp add: whenM_def frame_pure)

lemma frame_for [frame_intro]: "(\<And>x. frame f (g x)) \<Longrightarrow> frame f (forM xs g)"
  by (induction xs) (simp_all add: frame_pure frame_then)

lemma frame_collect [frame_intro]: "(\<And>x. frame f (g x)) \<Longrightarrow> frame f (collectM xs g)"
  by (induction xs) (simp_all add: frame_pure frame_bind)

lemma frame_seq [frame_intro]: "(\<And>m. m \<in> set ms \<Longrightarrow> frame f m) \<Longrightarrow> frame f (seqM ms)"
  by (induction ms) (simp_all add: frame_pure frame_then)

lemma frame_if [frame_intro]: "(b \<Longrightarrow> frame f m) \<Longrightarrow> (\<not> b \<Longrightarrow> frame f n) \<Longrightarrow> frame f (if b then m else n)"
  by simp

lemma frame_option [frame_intro]:
  "(v = None \<Longrightarrow> frame f m) \<Longrightarrow> (\<And>x. v = Some x \<Longrightarrow> frame f (n x)) \<Longrightarrow>
   frame f (case v of None \<Rightarrow> m | Some x \<Rightarrow> n x)"
  by (cases v) simp_all

lemma frame_sum [frame_intro]:
  "(\<And>x. v = Inl x \<Longrightarrow> frame f (m x)) \<Longrightarrow> (\<And>x. v = Inr x \<Longrightarrow> frame f (n x)) \<Longrightarrow>
   frame f (case v of Inl x \<Rightarrow> m x | Inr x \<Rightarrow> n x)"
  by (cases v) simp_all

lemma frame_prod [frame_intro]: "(\<And>x y. v = (x, y) \<Longrightarrow> frame f (m x y)) \<Longrightarrow> frame f (case v of (x, y) \<Rightarrow> m x y)"
  by (cases v) simp

lemma frame_py [frame_intro]:
  "frame f a \<Longrightarrow> (\<And>b. frame f (c b)) \<Longrightarrow> (\<And>i. frame f (d i)) \<Longrightarrow> (\<And>x. frame f (e x)) \<Longrightarrow>
   (\<And>s. frame f (g s)) \<Longrightarrow> (\<And>xs. frame f (h xs)) \<Longrightarrow> (\<And>k. frame f (j k)) \<Longrightarrow>
   frame f (case v of PNone \<Rightarrow> a | PBool b \<Rightarrow> c b | PInt i \<Rightarrow> d i | PFloat x \<Rightarrow> e x | PStr s \<Rightarrow> g s
     | PList xs \<Rightarrow> h xs | PDict k \<Rightarrow> j k)"
  by (cases v) simp_all

text \<open>An invariant a program establishes no matter how it ends\<close>

definition keeps :: "('s \<Rightarrow> bool) \<Rightarrow> ('a, 's) prog \<Rightarrow> bool" where
  "keeps P m \<longleftrightarrow> (\<forall>s. P s \<longrightarrow> P (snd (m s)))"

lemma frame_keeps: "frame f m \<Longrightarrow> (\<And>s t. f s = f t \<Longrightarrow> P s = P t) \<Longrightarrow> keeps P m"
  unfolding frame_def keeps_def by blast

lemma keeps_bind:
  assumes "keeps P m" "\<And>x. keeps P (k x)"
  shows "keeps P (bindM m k)"
  unfolding keeps_def
proof (intro allI impI)
  fix s assume "P s"
  obtain r t where m: "m s = (r, t)" by (cases "m s")
  with assms(1) \<open>P s\<close> have "P t" unfolding keeps_def by (metis snd_conv)
  then show "P (snd (bindM m k s))"
    using m assms(2) by (cases r) (auto simp: bindM_def keeps_def)
qed

end
