(* ===== verification/Arg_Normalizer.thy ===== *)
theory Arg_Normalizer
  imports PyValue "HOL-Library.Log_Nat"
begin

text \<open>
  Models \<open>voxera/skills/arg_normalizer.py\<close>: the canonical form of a skill's arguments. What the
  module uses of the Python library is modelled first: \<open>float\<close> of a dynamic value, rounded to
  binary64, and \<open>shlex.split\<close> in POSIX mode.
\<close>

section \<open>float and shlex.split\<close>

datatype fval = FNum rat | FInf bool | FNaN

definition pow2 :: "int \<Rightarrow> rat" where
  "pow2 e = (if 0 \<le> e then 2 ^ nat e else 1 / 2 ^ nat (- e))"

definition round_half_even :: "rat \<Rightarrow> int" where
  "round_half_even r = (let n = floor r; d = r - of_int n in
     if d < 1 / 2 then n else if 1 / 2 < d then n + 1 else if even n then n else n + 1)"

text \<open>The binary64 value nearest to a rational, ties to even, subnormals included.\<close>

definition round64 :: "rat \<Rightarrow> fval" where
  "round64 r = (if r = 0 then FNum 0
     else let a = \<bar>r\<bar>; (p, q) = quotient_of a; e0 = bitlen p - bitlen q;
              e = (if pow2 e0 \<le> a then e0 else e0 - 1);
              u = max (e - 52) (- 1074);
              v = of_int (round_half_even (a / pow2 u)) * pow2 u
          in if pow2 1024 \<le> v then FInf (r < 0) else FNum (if r < 0 then - v else v))"

definition read_mantissa :: "string \<Rightarrow> rat option" where
  "read_mantissa m = (if CHR ''.'' \<notin> set m then map_option of_nat (read_digits 0 m)
     else let ip = takeWhile (\<lambda>c. c \<noteq> CHR ''.'') m; fp = tl (dropWhile (\<lambda>c. c \<noteq> CHR ''.'') m);
              scale = 10 ^ length (filter is_digit fp)
          in if ip = [] \<and> fp = [] then None
             else Option.bind (if ip = [] then Some 0 else read_digits 0 ip) (\<lambda>i.
                  Option.bind (if fp = [] then Some 0 else read_digits 0 fp) (\<lambda>f.
                    Some (of_nat i + of_nat f / scale))))"

definition read_exponent :: "string \<Rightarrow> int option" where
  "read_exponent x = (case x of [] \<Rightarrow> None
     | c # cs \<Rightarrow> if c = CHR ''-'' then map_option (\<lambda>n. - int n) (read_digits 0 cs)
         else if c = CHR ''+'' then map_option int (read_digits 0 cs)
         else map_option int (read_digits 0 (c # cs)))"

definition read_unsigned_float :: "string \<Rightarrow> fval option" where
  "read_unsigned_float s = (let l = lower s in
     if l = ''inf'' \<or> l = ''infinity'' then Some (FInf False)
     else if l = ''nan'' then Some FNaN
     else let m = takeWhile (\<lambda>c. c \<noteq> CHR ''e'') l; x = dropWhile (\<lambda>c. c \<noteq> CHR ''e'') l
       in Option.bind (read_mantissa m) (\<lambda>v. case x of
            [] \<Rightarrow> Some (round64 v)
          | _ # ex \<Rightarrow> map_option (\<lambda>k. round64 (v * (if 0 \<le> k then 10 ^ nat k else 1 / 10 ^ nat (- k))))
              (read_exponent ex)))"

fun fneg :: "fval \<Rightarrow> fval" where
  "fneg (FNum r) = FNum (- r)" | "fneg (FInf b) = FInf (\<not> b)" | "fneg FNaN = FNaN"

definition read_float :: "string \<Rightarrow> fval option" where
  "read_float s = (case strip s of [] \<Rightarrow> None
     | c # cs \<Rightarrow> if c = CHR ''-'' then map_option fneg (read_unsigned_float cs)
         else if c = CHR ''+'' then read_unsigned_float cs
         else read_unsigned_float (c # cs))"

text \<open>\<open>float(v)\<close>\<close>

fun py_float :: "py \<Rightarrow> fval result" where
  "py_float (PBool b) = Inr (FNum (if b then 1 else 0))"
| "py_float (PInt n) = (case round64 (of_int n) of
     FInf _ \<Rightarrow> Inl (Exc OverflowError ''int too large to convert to float'') | v \<Rightarrow> Inr v)"
| "py_float (PFloat (Finite r _)) = Inr (FNum r)"
| "py_float (PFloat (Infinite b)) = Inr (FInf b)"
| "py_float (PFloat NotANumber) = Inr FNaN"
| "py_float (PStr s) = (case read_float s of
     None \<Rightarrow> raise_value (''could not convert string to float: '' @ repr_str s) | Some v \<Rightarrow> Inr v)"
| "py_float v = raise_type (''float() argument must be a string or a real number, not ''
     @ quoted (type_name v))"

text \<open>\<open>int(f)\<close> of a float\<close>

fun float_int :: "fval \<Rightarrow> int result" where
  "float_int (FNum r) = Inr (rat_trunc r)"
| "float_int (FInf _) = Inl (Exc OverflowError ''cannot convert float infinity to integer'')"
| "float_int FNaN = raise_value ''cannot convert float NaN to integer''"

datatype shmode = ShStart | ShWord | ShQuote char | ShEscape shmode

definition sh_white :: "char \<Rightarrow> bool" where
  "sh_white c = (code c \<in> {32, 9, 13, 10})"

definition sh_quote :: "char \<Rightarrow> bool" where
  "sh_quote c = (code c = 39 \<or> code c = 34)"

abbreviation backslash :: char where "backslash \<equiv> CHR 0x5C"

text \<open>The token is built in \<open>tok\<close>; \<open>q\<close> records that it held a quoted part, so that an empty quoted
  token is kept.\<close>

fun shlex_go :: "shmode \<Rightarrow> string \<Rightarrow> bool \<Rightarrow> string \<Rightarrow> string list result" where
  "shlex_go m tok q [] = (case m of
     ShQuote _ \<Rightarrow> raise_value ''No closing quotation''
   | ShEscape _ \<Rightarrow> raise_value ''No escaped character''
   | _ \<Rightarrow> Inr (if tok \<noteq> [] \<or> q then [tok] else []))"
| "shlex_go ShStart tok q (c # cs) =
     (if sh_white c then shlex_go ShStart tok q cs
      else if c = backslash then shlex_go (ShEscape ShWord) tok q cs
      else if sh_quote c then shlex_go (ShQuote c) tok q cs
      else shlex_go ShWord (tok @ [c]) q cs)"
| "shlex_go ShWord tok q (c # cs) =
     (if sh_white c then
        (if tok \<noteq> [] \<or> q then bindR (shlex_go ShStart [] False cs) (\<lambda>ts. Inr (tok # ts))
         else shlex_go ShStart tok q cs)
      else if sh_quote c then shlex_go (ShQuote c) tok q cs
      else if c = backslash then shlex_go (ShEscape ShWord) tok q cs
      else shlex_go ShWord (tok @ [c]) q cs)"
| "shlex_go (ShQuote k) tok q (c # cs) =
     (if c = k then shlex_go ShWord tok True cs
      else if c = backslash \<and> code k = 34 then shlex_go (ShEscape (ShQuote k)) tok True cs
      else shlex_go (ShQuote k) (tok @ [c]) True cs)"
| "shlex_go (ShEscape r) tok q (c # cs) =
     (case r of
        ShQuote k \<Rightarrow> shlex_go r (if c \<noteq> backslash \<and> c \<noteq> k then tok @ [backslash, c] else tok @ [c]) q cs
      | _ \<Rightarrow> shlex_go r (tok @ [c]) q cs)"

definition shlex_split :: "string \<Rightarrow> string list result" where
  "shlex_split s = shlex_go ShStart [] False s"

section \<open>Canonical arguments\<close>

definition open_app_alias :: "(string \<times> string) list" where
  "open_app_alias = [
     (''firefox'', ''firefox''), (''mozilla firefox'', ''firefox''),
     (''terminal'', ''gnome-terminal''), (''gnome terminal'', ''gnome-terminal''),
     (''gnome-terminal'', ''gnome-terminal''), (''calculator'', ''gnome-calculator''),
     (''gnome calculator'', ''gnome-calculator''), (''gnome-calculator'', ''gnome-calculator''),
     (''settings'', ''gnome-control-center''), (''system settings'', ''gnome-control-center''),
     (''gnome-control-center'', ''gnome-control-center'')]"

definition app_alias :: "string \<Rightarrow> string" where
  "app_alias n = (case map_of open_app_alias n of None \<Rightarrow> n | Some a \<Rightarrow> a)"

definition canonical_open_app :: "dict \<Rightarrow> dict" where
  "canonical_open_app args =
     (let name = lower (strip (py_str (get_or args ''name'' (PStr []))))
      in if name = [] then args else dput args ''name'' (PStr (app_alias name)))"

text \<open>\<open>except (TypeError, ValueError)\<close> does not catch \<open>OverflowError\<close>, which \<open>int\<close> raises for an
  infinite float: it leaves the function.\<close>

definition volume_value :: "py \<Rightarrow> int result" where
  "volume_value raw = bindR (py_float raw) float_int"

definition canonical_set_volume :: "dict \<Rightarrow> dict result" where
  "canonical_set_volume args =
     (let raw = get args ''percent'' in
      if raw = PNone then Inr args
      else case volume_value raw of
        Inl e \<Rightarrow> if class_of e \<in> {TypeError, ValueError} then Inr args else Inl e
      | Inr value \<Rightarrow> Inr (dput args ''percent'' (PStr (int_str (min 100 (max 0 value))))))"

definition canonical_write_text :: "dict \<Rightarrow> dict" where
  "canonical_write_text args =
     (if has_key args ''text'' then args
      else if has_key args ''content'' then dput args ''text'' (get args ''content'')
      else if has_key args ''body'' then dput args ''text'' (get args ''body'')
      else args)"

definition sandbox_argv_empty_msg :: string where
  "sandbox_argv_empty_msg = ''sandbox.exec command must be a non-empty list of strings. ''
     @ ''Provide args.command as a list like ['' @ quoted ''bash'' @ '','' @ quoted ''-lc'' @ '',''
     @ quoted ''echo hello'' @ ''] or a non-empty string.''"

definition sandbox_argv_unsafe_msg :: string where
  "sandbox_argv_unsafe_msg = ''sandbox.exec command string contains shell-control operators that ''
     @ ''are ambiguous without an explicit shell. Use argv list form or wrap explicitly as [''
     @ quoted ''bash'' @ '','' @ quoted ''-lc'' @ '','' @ quoted ''<cmd>'' @ ''].''"

definition shell_control_tokens :: "string list" where
  "shell_control_tokens = ['';'', ''&&'', ''||'', ''|'', ''>'', ''>>'', ''<'', ''2>'', ''&'']"

fun argv_token :: "py \<Rightarrow> string result" where
  "argv_token (PStr t) = (if strip t = [] \<or> CHR 0x00 \<in> set t then raise_value sandbox_argv_empty_msg
     else Inr t)"
| "argv_token _ = raise_value sandbox_argv_empty_msg"

text \<open>The first of \<open>command\<close>, \<open>argv\<close>, \<open>cmd\<close> that is present\<close>

definition argv_source :: "dict \<Rightarrow> py option" where
  "argv_source args =
     (if has_key args ''command'' then Some (get args ''command'')
      else if has_key args ''argv'' then Some (get args ''argv'')
      else if has_key args ''cmd'' then Some (get args ''cmd'')
      else None)"

definition argv_of_value :: "py \<Rightarrow> string list result" where
  "argv_of_value raw = (case raw of
     PStr s \<Rightarrow> bindR (shlex_split (strip s)) (\<lambda>argv.
       if \<exists>t \<in> set argv. t \<in> set shell_control_tokens then raise_value sandbox_argv_unsafe_msg
       else Inr argv)
   | PList xs \<Rightarrow> mapR argv_token xs
   | _ \<Rightarrow> raise_value sandbox_argv_empty_msg)"

definition canonicalize_argv :: "dict \<Rightarrow> string list result" where
  "canonicalize_argv args = (case argv_source args of
     None \<Rightarrow> raise_value sandbox_argv_empty_msg
   | Some raw \<Rightarrow> bindR (argv_of_value raw) (\<lambda>argv.
       if argv = [] then raise_value sandbox_argv_empty_msg else Inr argv))"

definition canonical_sandbox_exec :: "dict \<Rightarrow> dict" where
  "canonical_sandbox_exec args = (case canonicalize_argv args of
     Inl _ \<Rightarrow> args | Inr argv \<Rightarrow> dput args ''command'' (pstrs argv))"

definition canonicalize_args :: "string \<Rightarrow> dict \<Rightarrow> dict result" where
  "canonicalize_args skill_id args =
     (if skill_id = ''system.open_app'' then Inr (canonical_open_app args)
      else if skill_id = ''system.set_volume'' then canonical_set_volume args
      else if skill_id = ''files.write_text'' then Inr (canonical_write_text args)
      else if skill_id = ''sandbox.exec'' then Inr (canonical_sandbox_exec args)
      else Inr args)"

section \<open>Facts\<close>

lemma dput_same: "map_of d k = Some v \<Longrightarrow> dput d k v = d"
  unfolding dput_def by (induction d) auto

lemma dput_dput [simp]: "dput (dput d k v) k v = dput d k v"
  by (rule dput_same) (simp add: dput_def update_conv')

lemma is_space_lower [simp]: "is_space (lower_char c) = is_space c"
proof -
  have "code c < 256" by (simp add: code_def)
  then show ?thesis by (auto simp: lower_char_def is_space_def code_def Let_def)
qed

lemma lower_char_idem [simp]: "lower_char (lower_char c) = lower_char c"
proof -
  have "code c < 256" by (simp add: code_def)
  then show ?thesis by (auto simp: lower_char_def code_def Let_def)
qed

lemma lower_idem [simp]: "lower (lower s) = lower s"
  by (simp add: lower_def comp_def)

lemma strip_lower: "strip (lower s) = lower (strip s)"
proof -
  have "dropWhile is_space (map lower_char xs) = map lower_char (dropWhile is_space xs)" for xs
    by (induction xs) simp_all
  then show ?thesis by (simp add: strip_def lstrip_def rstrip_def lower_def rev_map)
qed

lemma volume_value_Inl:
  assumes "volume_value v = Inl e"
  shows "class_of e \<in> {TypeError, ValueError, OverflowError}"
proof -
  have f: "float_int x = Inl e \<Longrightarrow> class_of e \<in> {ValueError, OverflowError}" for x
    by (cases x) (auto simp: raise_value_def)
  have "py_float v = Inl e \<Longrightarrow> class_of e \<in> {TypeError, ValueError, OverflowError}"
    by (induction v rule: py_float.induct)
      (auto simp: raise_value_def raise_type_def split: fval.splits option.splits)
  then show ?thesis using assms f unfolding volume_value_def result_iff by blast
qed

lemma canonical_raises_only_overflow:
  "canonicalize_args sid args = Inl e \<Longrightarrow> sid = ''system.set_volume'' \<and> class_of e = OverflowError"
  by (auto simp: canonicalize_args_def canonical_set_volume_def Let_def
      split: if_splits sum.splits dest: volume_value_Inl)

text \<open>The alias table is closed under itself, so a canonical application name is a fixed point.\<close>

lemma app_alias_fixed:
  "app_alias (app_alias n) = app_alias n"
  by (simp add: app_alias_def open_app_alias_def)

lemma app_alias_stable:
  assumes "strip n = n" and "lower n = n"
  shows "lower (strip (app_alias n)) = app_alias n" and "n \<noteq> [] \<Longrightarrow> app_alias n \<noteq> []"
proof -
  have "list_all (\<lambda>(_, a). lower (strip a) = a \<and> a \<noteq> []) open_app_alias"
    by code_simp
  then have "(k, a) \<in> set open_app_alias \<Longrightarrow> lower (strip a) = a \<and> a \<noteq> []" for k a
    by (auto simp: list_all_iff)
  then show "lower (strip (app_alias n)) = app_alias n" and "n \<noteq> [] \<Longrightarrow> app_alias n \<noteq> []"
    using assms by (auto simp: app_alias_def split: option.splits dest!: map_of_SomeD)
qed

lemma canonical_open_app_idem: "canonical_open_app (canonical_open_app args) = canonical_open_app args"
proof -
  let ?n = "lower (strip (py_str (get_or args ''name'' (PStr []))))"
  have n: "strip ?n = ?n" "lower ?n = ?n" by (simp_all add: strip_lower)
  show ?thesis
    using app_alias_stable [OF n] by (auto simp: canonical_open_app_def Let_def app_alias_fixed)
qed

lemma round_half_even_int: "round_half_even (of_int k) = k"
  by (simp add: round_half_even_def)

lemma round64_small:
  assumes "0 \<le> k" "k \<le> 100"
  shows "round64 (of_int k) = FNum (of_int k)"
proof (cases "k = 0")
  case True
  then show ?thesis by (simp add: round64_def)
next
  case False
  define e0 where "e0 = bitlen k - 1"
  define e where "e = (if pow2 e0 \<le> of_int k then e0 else e0 - 1)"
  define m where "m = nat (52 - e)"
  have "1 \<le> bitlen k" "bitlen k \<le> 7"
    using assms False by (simp_all add: bitlen_le_iff_power bitlen_ge_iff_power)
  then have e: "- 1 \<le> e" "e \<le> 6" by (auto simp: e_def e0_def)
  then have "max (e - 52) (- 1074) = e - 52" by simp
  moreover have "pow2 (e - 52) = 1 / 2 ^ m" using e by (simp add: pow2_def m_def)
  moreover have "(of_int k :: rat) / (1 / 2 ^ m) = of_int (k * 2 ^ m)" by simp
  ultimately have v: "of_int (round_half_even (of_int k / pow2 (max (e - 52) (- 1074))))
      * pow2 (max (e - 52) (- 1074)) = (of_int k :: rat)"
    by (simp only: round_half_even_int) simp
  have "(of_int k :: rat) \<le> 100" using assms by simp
  also have "\<dots> < pow2 1024" by (simp add: pow2_def)
  finally have big: "\<not> pow2 1024 \<le> (of_int k :: rat)" by simp
  have "bitlen 1 = 1" by (simp add: compute_bitlen)
  then have "bitlen k - bitlen 1 = e0" by (simp add: e0_def)
  then show ?thesis
    using False assms v big
    by (cases "pow2 e0 \<le> of_int k") (simp_all add: round64_def Let_def e_def)
qed

lemma volume_text_roundtrip:
  assumes "0 \<le> v" "v \<le> 100"
  shows "volume_value (PStr (int_str v)) = Inr v"
proof -
  let ?s = "digits_of (nat v)"
  have d: "is_digit c" if "c \<in> set ?s" for c using that by (rule digits_of_digits)
  note p = digit_plain [OF d]
  have str: "strip ?s = ?s" "lower ?s = ?s"
    by (auto intro!: strip_no_space map_idI simp: lower_def p)
  obtain c cs where s: "?s = c # cs" by (cases ?s) auto
  then have c: "c \<in> set ?s" by simp
  have cut: "takeWhile (\<lambda>c. c \<noteq> CHR ''e'') ?s = ?s" "dropWhile (\<lambda>c. c \<noteq> CHR ''e'') ?s = []"
    "CHR ''.'' \<notin> set ?s"
    using p(6,7) by (auto simp: takeWhile_eq_all_conv dropWhile_eq_Nil_conv)
  have "?s \<noteq> ''inf''" "?s \<noteq> ''infinity''" "?s \<noteq> ''nan''"
    using s p(8,9) [OF c] by auto
  then have "read_unsigned_float ?s = Some (round64 (of_nat (nat v)))"
    by (simp add: read_unsigned_float_def read_mantissa_def str read_digits_of cut Let_def)
  also have "round64 (of_nat (nat v)) = FNum (of_int v)"
    using round64_small [OF assms] assms by simp
  finally have "read_float ?s = Some (FNum (of_int v))"
    using p(3,4) [OF c] str(1) unfolding s read_float_def by simp
  then show ?thesis using assms by (simp add: volume_value_def rat_trunc_def int_str_def)
qed

lemma canonical_set_volume_idem:
  assumes "canonical_set_volume args = Inr args'"
  shows "canonical_set_volume args' = Inr args'"
proof (cases "get args ''percent'' = PNone \<or> \<not> isOk (volume_value (get args ''percent''))")
  case True
  with assms show ?thesis
    by (auto simp: canonical_set_volume_def isOk_def Let_def split: sum.splits if_splits)
next
  case False
  then obtain v where v: "volume_value (get args ''percent'') = Inr v"
    and ne: "get args ''percent'' \<noteq> PNone" by (auto simp: isOk_iff)
  let ?c = "min 100 (max 0 v)"
  from v ne assms have a: "args' = dput args ''percent'' (PStr (int_str ?c))"
    by (auto simp: canonical_set_volume_def)
  have "volume_value (PStr (int_str ?c)) = Inr ?c"
    by (rule volume_text_roundtrip) auto
  then show ?thesis unfolding a by (simp add: canonical_set_volume_def)
qed

lemma mapR_argv_token: "mapR argv_token (map PStr xs) = Inr ys \<Longrightarrow> ys = xs"
proof (induction xs arbitrary: ys)
  case (Cons x xs)
  then show ?case by (auto simp: result_iff split: if_splits)
qed simp

lemma canonical_sandbox_exec_idem:
  "canonical_sandbox_exec (canonical_sandbox_exec args) = canonical_sandbox_exec args"
proof (cases "canonicalize_argv args")
  case (Inl e)
  then show ?thesis by (simp add: canonical_sandbox_exec_def)
next
  case (Inr argv)
  let ?a = "dput args ''command'' (pstrs argv)"
  have src: "argv_source ?a = Some (pstrs argv)" by (simp add: argv_source_def)
  show ?thesis
  proof (cases "canonicalize_argv ?a")
    case (Inr argv')
    then have "argv' = argv"
      using src mapR_argv_token by (auto simp: canonicalize_argv_def argv_of_value_def pstrs_def result_iff
          split: if_splits)
    with Inr \<open>canonicalize_argv args = Inr argv\<close> show ?thesis
      by (simp add: canonical_sandbox_exec_def)
  qed (simp add: canonical_sandbox_exec_def Inr)
qed

lemma canonical_write_text_idem: "canonical_write_text (canonical_write_text args) = canonical_write_text args"
  by (auto simp: canonical_write_text_def)

lemma canonicalize_args_idem:
  "canonicalize_args sid args = Inr args' \<Longrightarrow> canonicalize_args sid args' = Inr args'"
  by (auto simp: canonicalize_args_def canonical_open_app_idem canonical_set_volume_idem
      canonical_sandbox_exec_idem canonical_write_text_idem split: if_splits)

lemma canonical_volume_range:
  "volume_value (get args ''percent'') = Inr v \<Longrightarrow> get args ''percent'' \<noteq> PNone \<Longrightarrow>
   canonical_set_volume args = Inr (dput args ''percent'' (PStr (int_str (min 100 (max 0 v)))))"
  by (simp add: canonical_set_volume_def)

section \<open>Which volumes overflow\<close>

text \<open>An integer has no finite binary64 value exactly from \<open>2 ^ 1024 - 2 ^ 970\<close> on, half a step above the
  largest one: there the tie rounds to \<open>2 ^ 1024\<close>.\<close>

lemma pow2_int: "0 \<le> k \<Longrightarrow> pow2 k = of_int (2 ^ nat k)"
  by (simp add: pow2_def)

lemma pow2_pos: "0 < pow2 k"
  by (simp add: pow2_def)

lemma pow2_add: "pow2 (a + b) = pow2 a * pow2 b"
proof -
  have "pow2 k = power_int 2 k" for k
    by (simp add: pow2_def power_int_def inverse_eq_divide power_divide)
  then show ?thesis by (simp add: power_int_add)
qed

lemma pow2_mono: "a \<le> b \<Longrightarrow> pow2 a \<le> pow2 b"
proof -
  assume "a \<le> b"
  then have "pow2 (a + (b - a)) = pow2 a * pow2 (b - a)" "1 \<le> pow2 (b - a)"
    by (simp only: pow2_add) (simp add: pow2_def \<open>a \<le> b\<close>)
  then show ?thesis using pow2_pos [of a] by simp
qed

lemma round_half_even_ge: "of_int k \<le> r \<Longrightarrow> k \<le> round_half_even r"
proof -
  assume "of_int k \<le> r"
  then have "k \<le> floor r" by (simp add: le_floor_iff)
  then show ?thesis by (simp add: round_half_even_def Let_def)
qed

lemma round_half_even_le: "r \<le> of_int k \<Longrightarrow> round_half_even r \<le> k"
proof -
  assume r: "r \<le> of_int k"
  show ?thesis
  proof (cases "r = of_int k")
    case True
    then show ?thesis by (simp add: round_half_even_def)
  next
    case False
    with r have "floor r < k" by (simp add: floor_less_iff)
    then show ?thesis by (simp add: round_half_even_def Let_def)
  qed
qed

text \<open>At the largest even number an odd neighbour's tie goes up.\<close>

lemma round_half_even_odd:
  assumes "odd (k - 1)"
  shows "k \<le> round_half_even r \<longleftrightarrow> of_int k - 1 / 2 \<le> r"
proof (cases "of_int k \<le> r \<or> r < of_int k - 1")
  case True
  then show ?thesis
  proof
    assume "of_int k \<le> r"
    then show ?thesis using round_half_even_ge by force
  next
    assume a: "r < of_int k - 1"
    then have "round_half_even r \<le> k - 1" by (intro round_half_even_le) simp
    with a show ?thesis by auto
  qed
next
  case False
  then have "floor r = k - 1" by (simp add: floor_eq_iff)
  with assms show ?thesis by (auto simp: round_half_even_def Let_def)
qed

lemma round64_int_overflow: "(\<exists>b. round64 (of_int n) = FInf b) \<longleftrightarrow> 2 ^ 1024 - 2 ^ 970 \<le> \<bar>n\<bar>"
proof (cases "n = 0")
  case True
  then show ?thesis by (simp add: round64_def)
next
  case False
  define a where "a = \<bar>n\<bar>"
  define e where "e = bitlen a - 1"
  have a: "0 < a" using False by (simp add: a_def)
  have b: "2 ^ nat (bitlen a - 1) \<le> a" "a < 2 ^ nat (bitlen a)" "1 \<le> bitlen a"
    using Log_Nat.bitlen_bounds [OF a] a bitlen_ge_iff_power [of 1 a] by auto
  have e0: "0 \<le> e" using b by (simp add: e_def)
  have "(of_int a :: rat) < of_int (2 ^ nat (e + 1))" using b(2) by (simp only: of_int_less_iff) (simp add: e_def)
  moreover have "(of_int (2 ^ nat e) :: rat) \<le> of_int a" using b(1) by (simp only: of_int_le_iff) (simp add: e_def)
  ultimately have le: "pow2 e \<le> of_int a" and lt: "of_int a < pow2 (e + 1)"
    using e0 by (simp_all add: pow2_int)
  define u where "u = pow2 (e - 52)"
  define k where "k = round_half_even (of_int a / u)"
  have u: "0 < u" by (simp add: u_def pow2_pos)
  have u1: "max (e - 52) (- 1074) = e - 52" using e0 by simp
  have q: "\<bar>of_int n :: rat\<bar> = of_int a" "quotient_of (of_int a) = (a, 1)"
    using quotient_of_int [of a] by (simp add: a_def, simp add: Rat.of_int_def)
  have "bitlen 1 = 1" by (simp add: compute_bitlen)
  then have inf: "(\<exists>b. round64 (of_int n) = FInf b) \<longleftrightarrow> pow2 1024 \<le> of_int k * u"
    using False le by (simp add: round64_def q Let_def e_def [symmetric] u1 k_def u_def)
  have pu: "pow2 (e + c) = pow2 (52 + c) * u" for c
    unfolding u_def by (simp only: pow2_add [symmetric]) (simp add: algebra_simps)
  have low: "pow2 e \<le> of_int k * u"
  proof -
    have "of_int (2 ^ 52) \<le> of_int a / u"
      using le pu [of 0] u by (simp add: field_simps pow2_def)
    then have "2 ^ 52 \<le> k" unfolding k_def by (rule round_half_even_ge)
    then have "(of_int (2 ^ 52) :: rat) \<le> of_int k" by (simp only: of_int_le_iff)
    then show ?thesis using pu [of 0] u by (simp add: pow2_def)
  qed
  have high: "of_int k * u \<le> pow2 (e + 1)"
  proof -
    have "of_int a / u \<le> of_int (2 ^ 53)"
      using lt pu [of 1] u by (simp add: field_simps pow2_def)
    then have "k \<le> 2 ^ 53" unfolding k_def by (rule round_half_even_le)
    then have "(of_int k :: rat) \<le> of_int (2 ^ 53)" by (simp only: of_int_le_iff)
    then show ?thesis using pu [of 1] u by (simp add: pow2_def)
  qed
  have lim: "2 ^ 1024 - 2 ^ 970 \<le> a \<longleftrightarrow> pow2 1024 - pow2 970 \<le> of_int a"
  proof -
    have "(of_int (2 ^ 1024 - 2 ^ 970) :: rat) = pow2 1024 - pow2 970" by (simp add: pow2_def)
    then show ?thesis by (metis of_int_le_iff)
  qed
  consider "e \<le> 1022" | "1024 \<le> e" | "e = 1023" by linarith
  then show ?thesis
  proof cases
    case 1
    have "of_int k * u < pow2 1024"
      using high pow2_mono [of "e + 1" 1023] 1 by (simp add: pow2_def)
    moreover have "of_int a < pow2 1024 - pow2 970"
      using lt pow2_mono [of "e + 1" 1023] 1 by (simp add: pow2_def)
    ultimately show ?thesis using inf lim by (simp add: a_def)
  next
    case 2
    from pow2_mono [OF 2] have "pow2 1024 \<le> of_int k * u" "pow2 1024 \<le> of_int a" using low le by simp_all
    moreover have "0 < pow2 970" by (rule pow2_pos)
    ultimately show ?thesis using inf lim by (simp add: a_def)
  next
    case 3
    have "pow2 1024 = of_int (2 ^ 53) * u" using pu [of 1] 3 by (simp add: pow2_def)
    then have "pow2 1024 \<le> of_int k * u \<longleftrightarrow> of_int (2 ^ 53) \<le> (of_int k :: rat)" using u by simp
    also have "\<dots> \<longleftrightarrow> 2 ^ 53 \<le> k" by (simp only: of_int_le_iff)
    also have "\<dots> \<longleftrightarrow> of_int (2 ^ 53) - 1 / 2 \<le> of_int a / u"
      unfolding k_def by (rule round_half_even_odd) simp
    also have "\<dots> \<longleftrightarrow> (of_int (2 ^ 53) - 1 / 2) * u \<le> of_int a" using u by (simp add: field_simps)
    also have "(of_int (2 ^ 53) - 1 / 2) * u = pow2 1024 - pow2 970"
      by (simp add: u_def 3 pow2_def)
    finally show ?thesis using inf lim by (simp add: a_def)
  qed
qed

text \<open>The values of \<open>percent\<close> whose conversion overflows: an infinite float, a text that reads as one, and
  an integer that is too large for a float\<close>

definition float_overflow :: "py \<Rightarrow> bool" where
  "float_overflow v = (case v of
     PInt n \<Rightarrow> 2 ^ 1024 - 2 ^ 970 \<le> \<bar>n\<bar>
   | PFloat f \<Rightarrow> (case f of Infinite b \<Rightarrow> True | _ \<Rightarrow> False)
   | PStr s \<Rightarrow> (case read_float s of Some (FInf b) \<Rightarrow> True | _ \<Rightarrow> False)
   | _ \<Rightarrow> False)"

lemma float_int_overflow:
  "(\<exists>e. float_int x = Inl e \<and> class_of e = OverflowError) \<longleftrightarrow> (\<exists>b. x = FInf b)"
  by (cases x) (auto simp: raise_value_def)

lemma volume_overflow:
  "(\<exists>e. volume_value v = Inl e \<and> class_of e = OverflowError) \<longleftrightarrow> float_overflow v"
proof (cases v)
  case (PInt n)
  show ?thesis
  proof (cases "round64 (of_int n)")
    case (FInf b)
    then have "2 ^ 1024 - 2 ^ 970 \<le> \<bar>n\<bar>" using round64_int_overflow [of n] by blast
    then show ?thesis by (simp only: PInt volume_value_def float_overflow_def py_float.simps FInf) simp
  next
    case (FNum q)
    then have "\<not> 2 ^ 1024 - 2 ^ 970 \<le> \<bar>n\<bar>" using round64_int_overflow [of n] by simp
    then show ?thesis by (simp only: PInt volume_value_def float_overflow_def py_float.simps FNum) simp
  next
    case FNaN
    then have "\<not> 2 ^ 1024 - 2 ^ 970 \<le> \<bar>n\<bar>" using round64_int_overflow [of n] by simp
    then show ?thesis
      by (simp only: PInt volume_value_def float_overflow_def py_float.simps FNaN) (simp add: raise_value_def)
  qed
next
  case (PFloat f)
  then show ?thesis
    by (cases f) (simp_all add: volume_value_def float_overflow_def raise_value_def)
next
  case (PStr s)
  show ?thesis
  proof (cases "read_float s")
    case None
    then show ?thesis by (simp add: PStr volume_value_def float_overflow_def raise_value_def)
  next
    case (Some x)
    then show ?thesis
      using float_int_overflow [of x]
      by (cases x) (simp_all add: PStr volume_value_def float_overflow_def raise_value_def)
  qed
qed (simp_all add: volume_value_def float_overflow_def raise_type_def)

lemma canonicalize_raises:
  "(\<exists>e. canonicalize_args sid args = Inl e \<and> class_of e = OverflowError)
     \<longleftrightarrow> sid = ''system.set_volume'' \<and> float_overflow (get args ''percent'')"
proof (cases "sid = ''system.set_volume''")
  case True
  have "(\<exists>e. canonical_set_volume args = Inl e \<and> class_of e = OverflowError)
      \<longleftrightarrow> (\<exists>e. volume_value (get args ''percent'') = Inl e \<and> class_of e = OverflowError)"
    if "get args ''percent'' \<noteq> PNone"
    using that by (auto simp: canonical_set_volume_def Let_def split: sum.splits if_splits)
  moreover have "\<not> float_overflow PNone" by (simp add: float_overflow_def)
  ultimately show ?thesis
    using True volume_overflow
    by (cases "get args ''percent'' = PNone")
      (simp_all add: canonicalize_args_def canonical_set_volume_def)
qed (simp add: canonicalize_args_def)

end
