(* ===== verification/Capability_Semantics.thy ===== *)
theory Capability_Semantics
  imports PyValue
begin

text \<open>
  Models the skill manifest and policy objects of \<open>voxera/models.py\<close> and the capability table and
  manifest projection of \<open>voxera/core/capability_semantics.py\<close>. The string literals the Pydantic
  models restrict to fixed sets are datatypes; their Python spelling is given by the \<open>_name\<close>
  functions where the code prints them.
\<close>

section \<open>Manifests and policies\<close>

datatype decision = Allow | Ask | Deny

datatype risk = Low | Medium | High

datatype exec_mode = LocalMode | SandboxMode

datatype fs_scope = WorkspaceOnly | ReadOnlyScope | BroaderScope

record manifest =
  m_id :: string
  m_name :: string
  m_description :: string
  m_entrypoint :: string
  m_capabilities :: "string list"
  m_risk :: risk
  m_exec_mode :: exec_mode
  m_needs_network :: bool
  m_fs_scope :: fs_scope
  m_output_artifacts :: "string list"
  m_output_schema :: "string option"
  m_args :: dict

record policy =
  network_changes :: decision
  installs :: decision
  file_delete :: decision
  open_apps :: decision
  system_settings :: decision

definition default_policy :: policy where
  "default_policy = \<lparr>network_changes = Ask, installs = Ask, file_delete = Ask, open_apps = Allow,
     system_settings = Ask\<rparr>"

fun decision_name :: "decision \<Rightarrow> string" where
  "decision_name Allow = ''allow''"
| "decision_name Ask = ''ask''"
| "decision_name Deny = ''deny''"

fun risk_name :: "risk \<Rightarrow> string" where
  "risk_name Low = ''low''" | "risk_name Medium = ''medium''" | "risk_name High = ''high''"

fun fs_scope_name :: "fs_scope \<Rightarrow> string" where
  "fs_scope_name WorkspaceOnly = ''workspace_only''"
| "fs_scope_name ReadOnlyScope = ''read_only''"
| "fs_scope_name BroaderScope = ''broader''"

text \<open>The decisions are ordered by severity, which is the order the policy engine escalates in.\<close>

instantiation decision :: linorder
begin

fun severity :: "decision \<Rightarrow> nat" where
  "severity Allow = 0" | "severity Ask = 1" | "severity Deny = 2"

definition less_eq_decision :: "decision \<Rightarrow> decision \<Rightarrow> bool" where
  "less_eq_decision a b = (severity a \<le> severity b)"

definition less_decision :: "decision \<Rightarrow> decision \<Rightarrow> bool" where
  "less_decision a b = (severity a < severity b)"

instance
proof
  fix a b :: decision
  show "a \<le> b \<Longrightarrow> b \<le> a \<Longrightarrow> a = b"
    by (cases a; cases b) (simp_all add: less_eq_decision_def)
qed (auto simp: less_eq_decision_def less_decision_def)

end

lemma decision_le [simp]: "Allow \<le> d" "d \<le> Deny"
  by (cases d; simp add: less_eq_decision_def)+

lemma decision_le_iff [simp]:
  "d \<le> Allow \<longleftrightarrow> d = Allow" "Deny \<le> d \<longleftrightarrow> d = Deny" "Ask \<le> d \<longleftrightarrow> d \<noteq> Allow" "d \<le> Ask \<longleftrightarrow> d \<noteq> Deny"
  by (cases d; simp add: less_eq_decision_def)+

text \<open>The validators of \<open>SkillManifest\<close>: every text field is stripped and must not be empty, the
  entrypoint has the shape \<open>module:function\<close>, capabilities and artifacts are non-empty after
  stripping and artifacts are unique. \<open>None\<close> is a \<open>ValidationError\<close>.\<close>

definition non_empty_text :: "string \<Rightarrow> string option" where
  "non_empty_text v = (let t = strip v in if t = [] then None else Some t)"

definition entrypoint_shape :: "string \<Rightarrow> string option" where
  "entrypoint_shape v = (if \<not> contains v '':'' then None
     else let m = before_first '':'' v; f = drop (length m + 1) v in
       if strip m = [] \<or> strip f = [] then None else Some v)"

definition capabilities_non_empty :: "string list \<Rightarrow> string list option" where
  "capabilities_non_empty v = (let n = map strip v in if [] \<in> set n then None else Some n)"

definition output_artifacts_unique :: "string list \<Rightarrow> string list option" where
  "output_artifacts_unique v = (let n = map strip v in
     if [] \<in> set n then None else if \<not> distinct n then None else Some n)"

definition output_schema_non_empty :: "string option \<Rightarrow> string option option" where
  "output_schema_non_empty v = (case v of None \<Rightarrow> Some None
     | Some s \<Rightarrow> (let t = strip s in if t = [] then None else Some (Some t)))"

definition validate_manifest :: "manifest \<Rightarrow> manifest option" where
  "validate_manifest m =
     Option.bind (non_empty_text (m_id m)) (\<lambda>i.
     Option.bind (non_empty_text (m_name m)) (\<lambda>n.
     Option.bind (non_empty_text (m_description m)) (\<lambda>d.
     Option.bind (non_empty_text (m_entrypoint m)) (\<lambda>e0.
     Option.bind (entrypoint_shape e0) (\<lambda>e.
     Option.bind (capabilities_non_empty (m_capabilities m)) (\<lambda>cs.
     Option.bind (output_artifacts_unique (m_output_artifacts m)) (\<lambda>oa.
     Option.bind (output_schema_non_empty (m_output_schema m)) (\<lambda>os.
       Some (m\<lparr>m_id := i, m_name := n, m_description := d, m_entrypoint := e, m_capabilities := cs,
         m_output_artifacts := oa, m_output_schema := os\<rparr>)))))))))"

lemma validated_capabilities:
  "validate_manifest m = Some m' \<Longrightarrow> c \<in> set (m_capabilities m') \<Longrightarrow> c \<noteq> [] \<and> strip c = c"
  by (auto simp: validate_manifest_def capabilities_non_empty_def Let_def Option.bind_eq_Some_conv
      split: if_splits)

section \<open>The capability table\<close>

datatype effect_class = EffRead | EffWrite | EffExecute

datatype intent_class = IntentReadOnly | IntentMutating | IntentDestructive

datatype boundary = FilesystemB | NetworkB | SecretsB | SystemB

datatype policy_field = NetworkChanges | Installs | FileDelete | OpenApps | SystemSettings

fun effect_name :: "effect_class \<Rightarrow> string" where
  "effect_name EffRead = ''read''" | "effect_name EffWrite = ''write''"
| "effect_name EffExecute = ''execute''"

fun intent_name :: "intent_class \<Rightarrow> string" where
  "intent_name IntentReadOnly = ''read_only''" | "intent_name IntentMutating = ''mutating''"
| "intent_name IntentDestructive = ''destructive''"

fun policy_field_name :: "policy_field \<Rightarrow> string" where
  "policy_field_name NetworkChanges = ''network_changes''"
| "policy_field_name Installs = ''installs''"
| "policy_field_name FileDelete = ''file_delete''"
| "policy_field_name OpenApps = ''open_apps''"
| "policy_field_name SystemSettings = ''system_settings''"

text \<open>\<open>getattr(policy, field)\<close>\<close>

fun policy_get :: "policy \<Rightarrow> policy_field \<Rightarrow> decision" where
  "policy_get p NetworkChanges = network_changes p"
| "policy_get p Installs = installs p"
| "policy_get p FileDelete = file_delete p"
| "policy_get p OpenApps = open_apps p"
| "policy_get p SystemSettings = system_settings p"

record cap_semantic =
  cs_effect :: effect_class
  cs_intent :: intent_class
  cs_field :: "policy_field option"
  cs_boundaries :: "boundary list"
  cs_summary :: string

definition capability_table :: "(string \<times> cap_semantic) list" where
  "capability_table = [
   (''apps.open'', \<lparr>cs_effect = EffExecute, cs_intent = IntentMutating, cs_field = Some OpenApps,
      cs_boundaries = [SystemB], cs_summary = ''Launches local applications.''\<rparr>),
   (''network.change'', \<lparr>cs_effect = EffWrite, cs_intent = IntentMutating,
      cs_field = Some NetworkChanges, cs_boundaries = [NetworkB],
      cs_summary = ''Performs network side effects (connections or remote writes).''\<rparr>),
   (''install.packages'', \<lparr>cs_effect = EffWrite, cs_intent = IntentMutating,
      cs_field = Some Installs, cs_boundaries = [SystemB, NetworkB],
      cs_summary = ''Installs software on the host.''\<rparr>),
   (''file.delete'', \<lparr>cs_effect = EffWrite, cs_intent = IntentDestructive,
      cs_field = Some FileDelete, cs_boundaries = [FilesystemB],
      cs_summary = ''Deletes filesystem data.''\<rparr>),
   (''system.settings'', \<lparr>cs_effect = EffWrite, cs_intent = IntentMutating,
      cs_field = Some SystemSettings, cs_boundaries = [SystemB],
      cs_summary = ''Mutates local system settings.''\<rparr>),
   (''state.read'', \<lparr>cs_effect = EffRead, cs_intent = IntentReadOnly, cs_field = None,
      cs_boundaries = [SystemB], cs_summary = ''Reads local system state only.''\<rparr>),
   (''files.read'', \<lparr>cs_effect = EffRead, cs_intent = IntentReadOnly, cs_field = None,
      cs_boundaries = [FilesystemB], cs_summary = ''Reads files only.''\<rparr>),
   (''files.write'', \<lparr>cs_effect = EffWrite, cs_intent = IntentMutating, cs_field = None,
      cs_boundaries = [FilesystemB], cs_summary = ''Creates or modifies files.''\<rparr>),
   (''clipboard.read'', \<lparr>cs_effect = EffRead, cs_intent = IntentReadOnly, cs_field = None,
      cs_boundaries = [SystemB], cs_summary = ''Reads clipboard contents.''\<rparr>),
   (''clipboard.write'', \<lparr>cs_effect = EffWrite, cs_intent = IntentMutating, cs_field = None,
      cs_boundaries = [SystemB], cs_summary = ''Writes clipboard contents.''\<rparr>),
   (''window.read'', \<lparr>cs_effect = EffRead, cs_intent = IntentReadOnly, cs_field = None,
      cs_boundaries = [SystemB], cs_summary = ''Reads window/session metadata.''\<rparr>),
   (''sandbox.exec'', \<lparr>cs_effect = EffExecute, cs_intent = IntentMutating, cs_field = None,
      cs_boundaries = [SystemB, FilesystemB],
      cs_summary = ''Executes commands in sandboxed runtime.''\<rparr>)]"

definition capability_semantic :: "string \<Rightarrow> cap_semantic option" where
  "capability_semantic c = map_of capability_table c"

text \<open>\<open>CAPABILITY_EFFECT_CLASS\<close>\<close>

definition capability_effect_class :: "string \<Rightarrow> effect_class option" where
  "capability_effect_class c = map_of (map (\<lambda>(k, s). (k, cs_effect s)) capability_table) c"

definition known_capability :: "string \<Rightarrow> bool" where
  "known_capability c = (capability_effect_class c \<noteq> None)"

lemma known_capability_iff: "known_capability c \<longleftrightarrow> capability_semantic c \<noteq> None"
proof -
  have "map_of (map (\<lambda>(k, s). (k, cs_effect s)) xs) c = map_option cs_effect (map_of xs c)" for xs
    by (induction xs) auto
  from this [of capability_table] show ?thesis
    by (simp add: known_capability_def capability_effect_class_def capability_semantic_def)
qed

section \<open>The semantics of a manifest\<close>

fun intent_rank :: "intent_class \<Rightarrow> nat" where
  "intent_rank IntentReadOnly = 0" | "intent_rank IntentMutating = 1"
| "intent_rank IntentDestructive = 2"

record boundaries =
  b_filesystem :: bool
  b_network :: bool
  b_secrets :: bool
  b_system :: bool

record manifest_semantics =
  ms_intent :: intent_class
  ms_effects :: "string list"
  ms_boundaries :: boundaries
  ms_policy_fields :: "string list"
  ms_declared :: "string list"

definition present_semantics :: "manifest \<Rightarrow> cap_semantic list" where
  "present_semantics m = List.map_filter capability_semantic (m_capabilities m)"

definition raise_intent :: "cap_semantic \<Rightarrow> intent_class \<Rightarrow> intent_class" where
  "raise_intent item i = (if intent_rank i < intent_rank (cs_intent item) then cs_intent item else i)"

definition manifest_capability_semantics :: "manifest \<Rightarrow> manifest_semantics" where
  "manifest_capability_semantics m =
     (let present = present_semantics m;
          touches = (\<lambda>b. \<exists>item \<in> set present. b \<in> set (cs_boundaries item));
          intent = fold raise_intent present IntentReadOnly;
          intent' = (if m_fs_scope m = BroaderScope \<and> intent = IntentReadOnly
                     then IntentMutating else intent)
      in \<lparr>ms_intent = intent',
          ms_effects = sorted_set (map (\<lambda>item. effect_name (cs_effect item)) present),
          ms_boundaries = \<lparr>b_filesystem = touches FilesystemB,
            b_network = (touches NetworkB \<or> m_needs_network m),
            b_secrets = touches SecretsB, b_system = touches SystemB\<rparr>,
          ms_policy_fields = sorted_set (map policy_field_name (List.map_filter cs_field present)),
          ms_declared = sort (m_capabilities m)\<rparr>)"

lemma set_map_filter_iff: "set (List.map_filter f xs) = {y. \<exists>x \<in> set xs. f x = Some y}"
  by (induction xs) (auto simp: List.map_filter_simps split: option.splits)

lemma present_semantics_set:
  "set (present_semantics m) = {s. \<exists>c \<in> set (m_capabilities m). capability_semantic c = Some s}"
  by (simp add: present_semantics_def set_map_filter_iff)

lemma fold_raise_intent_rank:
  "intent_rank (fold raise_intent xs i) = fold (\<lambda>x n. max n (intent_rank (cs_intent x))) xs (intent_rank i)"
  by (induction xs arbitrary: i) (auto simp: raise_intent_def max_def)

lemma fold_max_bounds:
  "n \<le> fold (\<lambda>x n. max n (f x)) xs (n::nat) \<and> (\<forall>x \<in> set xs. f x \<le> fold (\<lambda>x n. max n (f x)) xs n)"
proof (induction xs arbitrary: n)
  case (Cons x xs)
  from Cons.IH [of "max n (f x)"] show ?case by auto
qed simp

lemma fold_max_attained:
  "fold (\<lambda>x n. max n (f x)) xs (n::nat) = n \<or> (\<exists>x \<in> set xs. fold (\<lambda>x n. max n (f x)) xs n = f x)"
proof (induction xs arbitrary: n)
  case (Cons x xs)
  from Cons.IH [of "max n (f x)"] show ?case by (auto simp: max_def split: if_splits)
qed simp

text \<open>No capability of the table touches secrets, so that boundary is never reported.\<close>

lemma table_boundaries: "(c, s) \<in> set capability_table \<Longrightarrow> SecretsB \<notin> set (cs_boundaries s)"
  by (auto simp: capability_table_def)

lemma no_secrets_boundary: "\<not> b_secrets (ms_boundaries (manifest_capability_semantics m))"
proof -
  have "SecretsB \<notin> set (cs_boundaries s)" if "capability_semantic c = Some s" for c s
    using that by (auto simp: capability_semantic_def dest: map_of_SomeD table_boundaries)
  then show ?thesis
    by (auto simp: manifest_capability_semantics_def Let_def present_semantics_set)
qed

lemma network_boundary_iff:
  "b_network (ms_boundaries (manifest_capability_semantics m)) \<longleftrightarrow>
     m_needs_network m \<or> (\<exists>c \<in> set (m_capabilities m). \<exists>s. capability_semantic c = Some s
       \<and> NetworkB \<in> set (cs_boundaries s))"
  by (auto simp: manifest_capability_semantics_def Let_def present_semantics_set)

lemma effects_set:
  "set (ms_effects (manifest_capability_semantics m)) =
     {effect_name (cs_effect s) | s. \<exists>c \<in> set (m_capabilities m). capability_semantic c = Some s}"
  by (auto simp: manifest_capability_semantics_def Let_def present_semantics_set)

text \<open>The intent of a manifest is the worst intent of its known capabilities, raised to mutating by
  a broader filesystem scope.\<close>

lemma manifest_intent_rank:
  "intent_rank (ms_intent (manifest_capability_semantics m)) =
     (let worst = fold (\<lambda>s n. max n (intent_rank (cs_intent s))) (present_semantics m) 0
      in if m_fs_scope m = BroaderScope then max 1 worst else worst)"
proof -
  let ?i = "fold raise_intent (present_semantics m) IntentReadOnly"
  have r: "intent_rank ?i = fold (\<lambda>s n. max n (intent_rank (cs_intent s))) (present_semantics m) 0"
    by (simp add: fold_raise_intent_rank)
  show ?thesis
    unfolding manifest_capability_semantics_def Let_def r [symmetric]
    by (cases ?i) simp_all
qed

end
