(* ===== verification/Policy.thy ===== *)
theory Policy
  imports Capability_Semantics
begin

text \<open>
  Models the policy engine \<open>voxera/policy.py\<close> (\<open>decide\<close>) and the normalised execution declaration of
  \<open>voxera/core/execution_capabilities.py\<close>. The central lemma, \<open>decide_decision\<close>, says that the
  escalating loop of \<open>decide\<close> computes the most severe of the votes cast by the capabilities and by
  the manifest's metadata.
\<close>

section \<open>The policy decision\<close>

record policy_decision =
  pd_decision :: decision
  pd_reason :: string

text \<open>The vote of one capability: its policy field if it has one, allow for a known capability
  without one, ask for an unknown capability.\<close>

definition cap_decision :: "policy \<Rightarrow> string \<Rightarrow> decision" where
  "cap_decision p cap =
     (let field = (case capability_semantic cap of Some s \<Rightarrow> cs_field s | None \<Rightarrow> None)
      in case field of
           Some f \<Rightarrow> policy_get p f
         | None \<Rightarrow> if known_capability cap then Allow else Ask)"

definition escalate :: "decision \<Rightarrow> decision \<Rightarrow> decision" where
  "escalate cap_dec dec = (if cap_dec = Deny then Deny
     else if cap_dec = Ask \<and> dec \<noteq> Deny then Ask else dec)"

fun decide_caps :: "policy \<Rightarrow> string list \<Rightarrow> decision \<times> string list \<Rightarrow> decision \<times> string list" where
  "decide_caps p [] st = st"
| "decide_caps p (cap # caps) (dec, reasons) =
     (let cd = cap_decision p cap
      in decide_caps p caps (escalate cd dec, reasons @ [cap @ '' -> '' @ decision_name cd]))"

text \<open>\<open>reasons.append(r)\<close>, then \<open>if decision == "allow": decision = "ask"\<close>, under a condition\<close>

definition ask_when :: "bool \<Rightarrow> string \<Rightarrow> decision \<times> string list \<Rightarrow> decision \<times> string list" where
  "ask_when c r st = (if c then (if fst st = Allow then Ask else fst st, snd st @ [r]) else st)"

definition sandbox_network :: "dict \<Rightarrow> decision \<times> string list \<Rightarrow> decision \<times> string list" where
  "sandbox_network args st =
     (let requested = truthy (get_or args ''network'' (PBool False));
          reasons = snd st @ [''runs in SANDBOX (network='' @ (if requested then ''on'' else ''off'') @ '')'']
      in if requested \<and> fst st = Allow
         then (Ask, reasons @ [''sandbox network requested => approval required''])
         else (fst st, reasons))"

definition decide :: "manifest \<Rightarrow> policy \<Rightarrow> dict \<Rightarrow> policy_decision" where
  "decide skill p args =
     (let semantics = manifest_capability_semantics skill;
          st0 = decide_caps p (m_capabilities skill) (Allow, []);
          st1 = ask_when (b_network (ms_boundaries semantics)) ''skill semantics network boundary=true'' st0;
          st2 = ask_when (m_fs_scope skill = BroaderScope) ''skill metadata fs_scope=broader'' st1;
          st3 = ask_when (m_risk skill = High) ''skill metadata risk=high'' st2;
          st4 = (if m_exec_mode skill = SandboxMode then sandbox_network args st3 else st3)
      in \<lparr>pd_decision = fst st4,
          pd_reason = (if snd st4 = [] then ''no capabilities'' else join ''; '' (snd st4))\<rparr>)"

subsection \<open>The loop computes a maximum\<close>

lemma escalate_max: "escalate c d = max d c"
  by (cases c; cases d) (simp_all add: escalate_def max_def less_eq_decision_def)

lemma decide_caps_decision:
  "fst (decide_caps p caps st) = fold (\<lambda>c d. max d (cap_decision p c)) caps (fst st)"
  by (induction caps arbitrary: st) (auto simp: Let_def escalate_max split: prod.splits)

lemma decide_caps_reasons:
  "snd (decide_caps p caps st) =
     snd st @ map (\<lambda>c. c @ '' -> '' @ decision_name (cap_decision p c)) caps"
  by (induction caps arbitrary: st) (auto simp: Let_def split: prod.splits)

text \<open>The metadata triggers: each alone turns an allow into an ask.\<close>

definition ask_triggers :: "manifest \<Rightarrow> dict \<Rightarrow> bool" where
  "ask_triggers m args \<longleftrightarrow>
     b_network (ms_boundaries (manifest_capability_semantics m)) \<or> m_fs_scope m = BroaderScope
     \<or> m_risk m = High \<or> (m_exec_mode m = SandboxMode \<and> truthy (get_or args ''network'' (PBool False)))"

text \<open>The specification: the most severe vote.\<close>

definition votes :: "manifest \<Rightarrow> policy \<Rightarrow> dict \<Rightarrow> decision list" where
  "votes m p args = (if ask_triggers m args then Ask else Allow) # map (cap_decision p) (m_capabilities m)"

definition strictest :: "decision list \<Rightarrow> decision" where
  "strictest ds = fold max ds Allow"

lemma strictest_ge: "d \<in> set ds \<Longrightarrow> d \<le> strictest ds"
proof -
  have "\<forall>x \<in> set ds. x \<le> fold max ds i" and "i \<le> fold max ds i" for i :: decision
    by (induction ds arbitrary: i) (auto intro: order_trans [OF max.cobounded1] order_trans [OF max.cobounded2])
  then show "d \<in> set ds \<Longrightarrow> d \<le> strictest ds" unfolding strictest_def by blast
qed

lemma strictest_Cons: "strictest (d # ds) = max d (strictest ds)"
proof -
  have "fold max ds (max d i) = max d (fold max ds i)" for i
  proof (induction ds arbitrary: i)
    case (Cons a ds)
    have "max a (max d i) = max d (max a i)" by (rule max.left_commute)
    with Cons.IH [of "max a i"] show ?case by simp
  qed simp
  from this [of Allow] show ?thesis by (simp add: strictest_def)
qed

lemma strictest_in: "strictest ds = Allow \<or> strictest ds \<in> set ds"
  by (induction ds) (auto simp: strictest_Cons strictest_def [of "[]"] max_def)

lemma strictest_Deny_iff: "strictest ds = Deny \<longleftrightarrow> Deny \<in> set ds"
  using strictest_in [of ds] strictest_ge [of Deny ds] by auto

lemma strictest_Allow_iff: "strictest ds = Allow \<longleftrightarrow> (\<forall>d \<in> set ds. d = Allow)"
  using strictest_in [of ds] strictest_ge [of _ ds] by (metis decision_le_iff(1))

lemma strictest_mono:
  "list_all2 (\<le>) ds es \<Longrightarrow> strictest ds \<le> strictest es"
  by (induction rule: list_all2_induct) (auto simp: strictest_Cons strictest_def [of "[]"] le_max_iff_disj)

lemma ask_when_decision: "fst (ask_when c r st) = max (fst st) (if c then Ask else Allow)"
  by (cases "fst st") (simp_all add: ask_when_def max_def)

lemma sandbox_network_decision:
  "fst (sandbox_network args st) =
     max (fst st) (if truthy (get_or args ''network'' (PBool False)) then Ask else Allow)"
  by (cases "fst st") (simp_all add: sandbox_network_def Let_def max_def)

theorem decide_decision: "pd_decision (decide m p args) = strictest (votes m p args)"
proof -
  have caps: "fst (decide_caps p cs (Allow, [])) = strictest (map (cap_decision p) cs)" for cs
    by (simp add: decide_caps_decision strictest_def fold_map comp_def max.commute [of _ "cap_decision p _"])
  have st4: "fst (if s then sandbox_network args st else st) =
     max (fst st) (if s \<and> truthy (get_or args ''network'' (PBool False)) then Ask else Allow)" for s st
    by (simp add: sandbox_network_decision max_def)
  have merge: "max (max (max (max d (if a then Ask else Allow)) (if b then Ask else Allow))
      (if c then Ask else Allow)) (if e then Ask else Allow) =
      max (if a \<or> b \<or> c \<or> e then Ask else Allow) d" for a b c d e
    by (cases d) (simp_all add: max_def)
  show ?thesis
    by (simp add: decide_def Let_def ask_when_decision st4 caps merge votes_def strictest_Cons
        ask_triggers_def)
qed

lemma decide_Deny_iff:
  "pd_decision (decide m p args) = Deny \<longleftrightarrow> (\<exists>c \<in> set (m_capabilities m). cap_decision p c = Deny)"
  by (force simp: decide_decision strictest_Deny_iff votes_def)

lemma decide_Allow_iff:
  "pd_decision (decide m p args) = Allow \<longleftrightarrow>
     \<not> ask_triggers m args \<and> (\<forall>c \<in> set (m_capabilities m). cap_decision p c = Allow)"
  by (auto simp: decide_decision strictest_Allow_iff votes_def)

subsection \<open>Monotonicity in the policy\<close>

definition stricter_policy :: "policy \<Rightarrow> policy \<Rightarrow> bool" where
  "stricter_policy q p \<longleftrightarrow> network_changes p \<le> network_changes q \<and> installs p \<le> installs q
     \<and> file_delete p \<le> file_delete q \<and> open_apps p \<le> open_apps q
     \<and> system_settings p \<le> system_settings q"

lemma policy_get_mono: "stricter_policy q p \<Longrightarrow> policy_get p f \<le> policy_get q f"
  by (cases f) (auto simp: stricter_policy_def)

lemma cap_decision_mono: "stricter_policy q p \<Longrightarrow> cap_decision p c \<le> cap_decision q c"
  by (auto simp: cap_decision_def Let_def policy_get_mono split: option.splits)

lemma decide_mono:
  "stricter_policy q p \<Longrightarrow> pd_decision (decide m p args) \<le> pd_decision (decide m q args)"
  unfolding decide_decision votes_def
  by (intro strictest_mono) (auto simp: list_all2_map1 list_all2_map2 cap_decision_mono intro: list.rel_refl_strong)

section \<open>The execution declaration\<close>

datatype side_effect_class = ClassA | ClassB | ClassC

datatype filesystem_scope = FsNone | FsConfined | FsBroader

datatype network_scope = NetNone | NetReadOnly | NetBroader

datatype sandbox_profile = HostLocal | SandboxNoNetwork | SandboxNetworkScoped

record exec_declaration =
  d_side_effect :: side_effect_class
  d_needs_network :: bool
  d_network_scope :: network_scope
  d_fs_scope :: filesystem_scope
  d_allowed_paths :: "string list"
  d_sandbox_profile :: sandbox_profile
  d_expected_artifacts :: "string list"

fun side_effect_name :: "side_effect_class \<Rightarrow> string" where
  "side_effect_name ClassA = ''class_a''" | "side_effect_name ClassB = ''class_b''"
| "side_effect_name ClassC = ''class_c''"

fun filesystem_scope_name :: "filesystem_scope \<Rightarrow> string" where
  "filesystem_scope_name FsNone = ''none''" | "filesystem_scope_name FsConfined = ''confined''"
| "filesystem_scope_name FsBroader = ''broader''"

fun network_scope_name :: "network_scope \<Rightarrow> string" where
  "network_scope_name NetNone = ''none''" | "network_scope_name NetReadOnly = ''read_only''"
| "network_scope_name NetBroader = ''broader''"

fun sandbox_profile_name :: "sandbox_profile \<Rightarrow> string" where
  "sandbox_profile_name HostLocal = ''host_local''"
| "sandbox_profile_name SandboxNoNetwork = ''sandbox_no_network''"
| "sandbox_profile_name SandboxNetworkScoped = ''sandbox_network_scoped''"

definition declaration_dict :: "exec_declaration \<Rightarrow> dict" where
  "declaration_dict d = [
     (''side_effect_class'', PStr (side_effect_name (d_side_effect d))),
     (''needs_network'', PBool (d_needs_network d)),
     (''network_scope'', PStr (network_scope_name (d_network_scope d))),
     (''allowed_domains'', PList []),
     (''fs_scope'', PStr (filesystem_scope_name (d_fs_scope d))),
     (''allowed_paths'', pstrs (d_allowed_paths d)),
     (''secret_refs'', PList []),
     (''sandbox_profile'', PStr (sandbox_profile_name (d_sandbox_profile d))),
     (''expected_artifacts'', pstrs (d_expected_artifacts d))]"

definition derive_side_effect_class ::
  "risk \<Rightarrow> string list \<Rightarrow> filesystem_scope \<Rightarrow> network_scope \<Rightarrow> side_effect_class" where
  "derive_side_effect_class r effects fs net =
     (if r = High then ClassC
      else if fs = FsBroader \<or> net = NetBroader then ClassC
      else if ''execute'' \<in> set effects \<or> ''write'' \<in> set effects then ClassB
      else if r = Medium then ClassB
      else ClassA)"

definition normalize_manifest_capabilities :: "manifest \<Rightarrow> exec_declaration" where
  "normalize_manifest_capabilities m =
     (let net = (if m_needs_network m then NetBroader else NetNone);
          fs = (case m_fs_scope m of WorkspaceOnly \<Rightarrow> FsConfined | ReadOnlyScope \<Rightarrow> FsNone
                | BroaderScope \<Rightarrow> FsBroader);
          sandbox = (if m_exec_mode m = SandboxMode
                     then (if m_needs_network m then SandboxNetworkScoped else SandboxNoNetwork)
                     else HostLocal);
          effects = ms_effects (manifest_capability_semantics m)
      in \<lparr>d_side_effect = derive_side_effect_class (m_risk m) effects fs net,
          d_needs_network = (net \<noteq> NetNone), d_network_scope = net, d_fs_scope = fs,
          d_allowed_paths = (if fs = FsConfined then [''$VOXERA_JOB_WORKSPACE''] else []),
          d_sandbox_profile = sandbox, d_expected_artifacts = m_output_artifacts m\<rparr>)"

lemma normalize_needs_network [simp]:
  "d_needs_network (normalize_manifest_capabilities m) = m_needs_network m"
  by (simp add: normalize_manifest_capabilities_def Let_def)

text \<open>Class A, the class without side effects, is given only to manifests whose known capabilities
  all read and whose metadata asks for nothing more.\<close>

lemma class_A_iff:
  "d_side_effect (normalize_manifest_capabilities m) = ClassA \<longleftrightarrow>
     m_risk m = Low \<and> m_fs_scope m \<noteq> BroaderScope \<and> \<not> m_needs_network m \<and>
     (\<forall>c \<in> set (m_capabilities m). \<forall>s. capability_semantic c = Some s \<longrightarrow> cs_effect s = EffRead)"
proof -
  have eff: "''execute'' \<notin> set (ms_effects (manifest_capability_semantics m)) \<and>
      ''write'' \<notin> set (ms_effects (manifest_capability_semantics m)) \<longleftrightarrow>
      (\<forall>c \<in> set (m_capabilities m). \<forall>s. capability_semantic c = Some s \<longrightarrow> cs_effect s = EffRead)"
  proof -
    have "effect_name e = ''execute'' \<or> effect_name e = ''write'' \<longleftrightarrow> e \<noteq> EffRead" for e
      by (cases e) simp_all
    then show ?thesis unfolding effects_set by (smt (verit, best) mem_Collect_eq)
  qed
  show ?thesis
    using eff by (cases "m_risk m"; cases "m_fs_scope m")
      (auto simp: normalize_manifest_capabilities_def derive_side_effect_class_def Let_def)
qed

end
