(* ===== verification/Skill_Execution.thy ===== *)
theory Skill_Execution
  imports Arg_Normalizer Policy
begin

text \<open>
  Models \<open>voxera/models.py\<close> (\<open>RunResult\<close>), \<open>voxera/skills/result_contract.py\<close> and
  \<open>voxera/skills/execution.py\<close>: the canonical skill result, the redaction of audit values and the
  Podman sandbox runner. The process the sandbox starts is not the program's code: its outcome is an
  argument of \<open>podman_run\<close>, and so are the job's directories and the two clock readings.
\<close>

section \<open>Run results\<close>

record run_result =
  rr_ok :: bool
  rr_output :: string
  rr_data :: dict
  rr_error :: "string option"

definition skill_result_key :: string where
  "skill_result_key = ''skill_result''"

definition none_or_str :: "py \<Rightarrow> py" where
  "none_or_str v = (if v = PNone then PNone else PStr (py_str v))"

definition build_skill_result ::
  "string \<Rightarrow> py \<Rightarrow> py \<Rightarrow> py \<Rightarrow> py \<Rightarrow> py \<Rightarrow> py \<Rightarrow> py \<Rightarrow> py \<Rightarrow> py \<Rightarrow> dict" where
  "build_skill_result summary machine_payload output_artifacts operator_note next_action_hint
     retryable blocked approval_status err error_class = [
     (''summary'', PStr (strip summary)),
     (''machine_payload'', if is_dict machine_payload then machine_payload else PDict []),
     (''output_artifacts'', if is_list output_artifacts then output_artifacts else PList []),
     (''operator_note'', operator_note),
     (''next_action_hint'', next_action_hint),
     (''retryable'', if is_bool retryable then retryable else PNone),
     (''blocked'', if is_bool blocked then blocked else PNone),
     (''approval_status'', if approval_status = PNone then PNone
        else PStr (strip (py_str approval_status))),
     (''error'', none_or_str err),
     (''error_class'', error_class)]"

definition extract_skill_result :: "dict \<Rightarrow> dict" where
  "extract_skill_result data =
     (case get data skill_result_key of
        PDict raw \<Rightarrow> build_skill_result (strip (str_or_empty (get raw ''summary'')))
          (if is_dict (get raw ''machine_payload'') then get raw ''machine_payload'' else PDict [])
          (if is_list (get raw ''output_artifacts'') then get raw ''output_artifacts'' else PList [])
          (none_or_str (get raw ''operator_note''))
          (none_or_str (get raw ''next_action_hint''))
          (if is_bool (get raw ''retryable'') then get raw ''retryable'' else PNone)
          (if is_bool (get raw ''blocked'') then get raw ''blocked'' else PNone)
          (none_or_str (get raw ''approval_status''))
          (none_or_str (get raw ''error''))
          (none_or_str (get raw ''error_class''))
      | _ \<Rightarrow> build_skill_result [] PNone PNone PNone PNone PNone PNone PNone PNone PNone)"

text \<open>The extracted result always has the types the readers rely on.\<close>

lemma extract_types:
  "is_str (get (extract_skill_result d) ''summary'')"
  "is_dict (get (extract_skill_result d) ''machine_payload'')"
  "is_list (get (extract_skill_result d) ''output_artifacts'')"
  "get (extract_skill_result d) ''retryable'' \<in> {PNone, PBool True, PBool False}"
  "get (extract_skill_result d) ''blocked'' \<in> {PNone, PBool True, PBool False}"
  "get (extract_skill_result d) ''error_class'' = PNone \<or> is_str (get (extract_skill_result d) ''error_class'')"
  "get (extract_skill_result d) ''error'' = PNone \<or> is_str (get (extract_skill_result d) ''error'')"
  "get (extract_skill_result d) ''approval_status'' = PNone \<or> is_str (get (extract_skill_result d) ''approval_status'')"
  by (simp_all add: extract_skill_result_def build_skill_result_def none_or_str_def is_bool_iff
      split: py.splits, auto)

lemma none_or_str_idem [simp]: "none_or_str (none_or_str v) = none_or_str v"
  by (simp add: none_or_str_def)

lemma none_or_str_eq_PNone [simp]: "none_or_str v = PNone \<longleftrightarrow> v = PNone"
  by (simp add: none_or_str_def)

text \<open>Extraction is a normal form: extracting a stored canonical result gives it back.\<close>

lemma extract_roundtrip:
  "extract_skill_result [(skill_result_key, PDict (extract_skill_result d))] = extract_skill_result d"
proof (cases "get d skill_result_key")
  case (PDict raw)
  have [simp]: "none_or_str (PStr s) = PStr s" "none_or_str PNone = PNone" for s
    by (simp_all add: none_or_str_def)
  show ?thesis
    by (simp add: extract_skill_result_def build_skill_result_def PDict)
qed (simp_all add: extract_skill_result_def build_skill_result_def none_or_str_def)

section \<open>Redaction\<close>

definition secret_key_words :: "string list" where
  "secret_key_words = [''key'', ''token'', ''secret'', ''pass'', ''password'', ''api'', ''auth'']"

text \<open>\<open>SECRET_KEY_RE.search\<close>, case-insensitive\<close>

definition secret_key :: "string \<Rightarrow> bool" where
  "secret_key k = (\<exists>w \<in> set secret_key_words. contains (lower k) w)"

definition ascii_alnum :: "char \<Rightarrow> bool" where
  "ascii_alnum c = (let n = code c in (48 \<le> n \<and> n \<le> 57) \<or> (65 \<le> n \<and> n \<le> 90) \<or> (97 \<le> n \<and> n \<le> 122))"

definition secret_char :: "char \<Rightarrow> bool" where
  "secret_char c = (ascii_alnum c \<or> c \<in> set ''+/=_-'')"

definition hex_char :: "char \<Rightarrow> bool" where
  "hex_char c = (let n = code c in (48 \<le> n \<and> n \<le> 57) \<or> (65 \<le> n \<and> n \<le> 70) \<or> (97 \<le> n \<and> n \<le> 102))"

definition full_match :: "(char \<Rightarrow> bool) \<Rightarrow> string \<Rightarrow> bool" where
  "full_match p s = (24 \<le> length s \<and> (\<forall>c \<in> set s. p c))"

text \<open>A run of at least 24 characters of the class somewhere in the text\<close>

fun has_fragment :: "(char \<Rightarrow> bool) \<Rightarrow> string \<Rightarrow> bool" where
  "has_fragment p [] = False"
| "has_fragment p (c # s) = (24 \<le> length (takeWhile p (c # s)) \<or> has_fragment p s)"

definition looks_secret_value :: "string \<Rightarrow> bool" where
  "looks_secret_value v = (let s = strip v in
     s \<noteq> [] \<and> (full_match secret_char s \<or> full_match hex_char s
       \<or> has_fragment secret_char s \<or> has_fragment hex_char s))"

definition redact_value :: "string \<Rightarrow> string \<Rightarrow> string" where
  "redact_value k v = (if secret_key k \<or> looks_secret_value v then ''REDACTED'' else v)"

definition sanitize_command :: "string list \<Rightarrow> string list" where
  "sanitize_command cmd = map (\<lambda>a. if looks_secret_value a then ''REDACTED'' else a) cmd"

fun sanitize_audit_value :: "string \<Rightarrow> py \<Rightarrow> py"
  and sanitize_items :: "string \<Rightarrow> py list \<Rightarrow> py list"
  and sanitize_pairs :: "dict \<Rightarrow> dict" where
  "sanitize_audit_value k (PDict d) = PDict (sanitize_pairs d)"
| "sanitize_audit_value k (PList xs) = PList (sanitize_items k xs)"
| "sanitize_audit_value k (PStr s) = PStr (redact_value k s)"
| "sanitize_audit_value k v = v"
| "sanitize_items k [] = []"
| "sanitize_items k (x # xs) = sanitize_audit_value k x # sanitize_items k xs"
| "sanitize_pairs [] = []"
| "sanitize_pairs ((k, v) # d) = (k, sanitize_audit_value k v) # sanitize_pairs d"

text \<open>The string leaves of a value, each with the key that governs it\<close>

fun leaves :: "string \<Rightarrow> py \<Rightarrow> (string \<times> string) list"
  and leaves_items :: "string \<Rightarrow> py list \<Rightarrow> (string \<times> string) list"
  and leaves_pairs :: "dict \<Rightarrow> (string \<times> string) list" where
  "leaves k (PDict d) = leaves_pairs d"
| "leaves k (PList xs) = leaves_items k xs"
| "leaves k (PStr s) = [(k, s)]"
| "leaves k _ = []"
| "leaves_items k [] = []"
| "leaves_items k (x # xs) = leaves k x @ leaves_items k xs"
| "leaves_pairs [] = []"
| "leaves_pairs ((k, v) # d) = leaves k v @ leaves_pairs d"

lemma sanitize_leaves:
  "leaves k (sanitize_audit_value k v) = map (\<lambda>(k, s). (k, redact_value k s)) (leaves k v)"
  "leaves_items k (sanitize_items k xs) = map (\<lambda>(k, s). (k, redact_value k s)) (leaves_items k xs)"
  "leaves_pairs (sanitize_pairs d) = map (\<lambda>(k, s). (k, redact_value k s)) (leaves_pairs d)"
  by (induction k v and k xs and d rule: sanitize_audit_value_sanitize_items_sanitize_pairs.induct) auto

lemma redacted_not_secret: "\<not> looks_secret_value ''REDACTED''"
  by code_simp

lemma redact_value_safe:
  "redact_value k s = ''REDACTED'' \<or> (\<not> secret_key k \<and> \<not> looks_secret_value s \<and> redact_value k s = s)"
  by (simp add: redact_value_def)

section \<open>The Podman sandbox\<close>

definition default_env_allowlist :: "string list" where
  "default_env_allowlist = [''LANG'', ''LC_ALL'', ''LC_CTYPE'', ''TERM'', ''TZ'']"

definition network_true_words :: "string list" where
  "network_true_words = [''true'', ''1'', ''yes'', ''on'']"

definition parse_network_setting :: "py \<Rightarrow> bool result" where
  "parse_network_setting raw = (case raw of
     PBool b \<Rightarrow> Inr b
   | PNone \<Rightarrow> Inr False
   | PStr s \<Rightarrow> (let n = lower (strip s) in
       if n \<in> set network_true_words then Inr True
       else if n \<in> {''false'', ''0'', ''no'', ''off'', []} then Inr False
       else raise_value ''network must be a boolean value'')
   | _ \<Rightarrow> raise_value ''network must be a boolean value'')"

record sandbox_config =
  sb_image :: string
  sb_memory :: string
  sb_cpus :: py
  sb_pids_limit :: int

text \<open>What \<open>subprocess.run\<close> does: the process ended, it was killed at the time-out, or the call raised
  another exception (\<open>OSError\<close> when the program cannot be started, \<open>ValueError\<close> for an embedded NUL).\<close>

datatype proc_outcome = Completed int string string | TimedOut string string | Raised exc

record sandbox_env =
  se_podman :: bool
  se_job_id :: string
  se_workspace :: string
  se_artifacts :: string
  se_started :: py
  se_ended :: py

definition blocked_result :: "string \<Rightarrow> string \<Rightarrow> string \<Rightarrow> dict \<Rightarrow> run_result" where
  "blocked_result summary err error_class details = \<lparr>rr_ok = False, rr_output = [],
     rr_data = [(skill_result_key, PDict (build_skill_result summary (PDict details) PNone
        (PStr ''Sandbox execution was blocked before launch.'') (PStr ''fix_input_and_retry'')
        (PBool False) (PBool True) (PStr ''none'') (PStr err) (PStr error_class)))],
     rr_error = Some err\<rparr>"

definition safe_env :: "dict \<Rightarrow> (string \<times> string) list" where
  "safe_env env = List.map_filter (\<lambda>(k, v). if k \<in> set default_env_allowlist then Some (k, the_str v) else None) env"

text \<open>The command line, in the order the code builds it\<close>

definition podman_command :: "sandbox_config \<Rightarrow> sandbox_env \<Rightarrow> (string \<times> string) list \<Rightarrow> bool \<Rightarrow> string list \<Rightarrow> string list" where
  "podman_command cfg se env network command =
     [''podman'', ''run'', ''--rm'', ''--read-only'', ''--workdir'', ''/work'', ''-v'',
      se_workspace se @ '':/work:rw,Z'', ''--memory'', sb_memory cfg, ''--cpus'', py_str (sb_cpus cfg),
      ''--pids-limit'', int_str (sb_pids_limit cfg), ''--security-opt'', ''no-new-privileges'',
      ''--cap-drop'', ''ALL'', ''-e'', ''HOME=/work'']
     @ concat (map (\<lambda>(k, v). [''-e'', k @ ''='' @ v]) env)
     @ [''--network'', if network then ''bridge'' else ''none'', sb_image cfg]
     @ command"

record sandbox_request =
  sr_command :: "string list"
  sr_timeout :: int
  sr_network :: bool
  sr_env :: "(string \<times> string) list"

text \<open>The checks before launch: \<open>Inl\<close> a raised exception, \<open>Inr (Inl r)\<close> a blocked result, \<open>Inr (Inr q)\<close>
  the request to launch.\<close>

definition sandbox_checks :: "dict \<Rightarrow> (run_result + sandbox_request) result" where
  "sandbox_checks args0 =
     (case canonicalize_argv args0 of
        Inl e \<Rightarrow> Inr (Inl (blocked_result ''Rejected sandbox command input'' (str_exc e) ''invalid_input''
                   [(''args'', sanitize_audit_value [] (PDict args0))]))
      | Inr command \<Rightarrow>
          let args = dput args0 ''command'' (pstrs command) in
          bindR (py_int (get_or args ''timeout_s'' (PInt 60))) (\<lambda>timeout.
            if timeout \<le> 0 then
              Inr (Inl (blocked_result ''Rejected sandbox timeout'' ''timeout_s must be greater than zero''
                ''invalid_input'' [(''timeout_s'', get args ''timeout_s'')]))
            else case parse_network_setting (get_or args ''network'' (PBool False)) of
              Inl e \<Rightarrow> Inr (Inl (blocked_result ''Rejected sandbox network setting'' (str_exc e)
                ''invalid_input'' [(''network'', get args ''network'')]))
            | Inr network \<Rightarrow>
                let env_arg = por (get_or args ''env'' (PDict [])) (PDict []) in
                if \<not> is_dict env_arg \<or> \<not> (\<forall>(k, v) \<in> set (the_dict env_arg). is_str v) then
                  Inr (Inl (blocked_result ''Rejected sandbox environment''
                    ''env must be a dict of string keys and values'' ''invalid_input''
                    [(''env'', sanitize_audit_value [] env_arg)]))
                else Inr (Inr \<lparr>sr_command = command, sr_timeout = timeout, sr_network = network,
                    sr_env = safe_env (the_dict env_arg)\<rparr>)))"

definition sandbox_result ::
  "sandbox_env \<Rightarrow> sandbox_request \<Rightarrow> string \<Rightarrow> string \<Rightarrow> int \<Rightarrow> bool \<Rightarrow> run_result" where
  "sandbox_result se q stdout stderr exit_code timed_out =
     (let file = (\<lambda>n. se_artifacts se @ ''/'' @ n);
          ok = (exit_code = 0 \<and> \<not> timed_out);
          err = (if ok then PNone
                 else if timed_out then PStr ''Sandbox command timed out''
                 else if strip stderr \<noteq> [] then PStr (strip stderr)
                 else PStr (''Sandbox command failed with exit code '' @ int_str exit_code));
          artifacts = pstrs [file ''stdout.txt'', file ''stderr.txt'', file ''runner.json'', file ''command.txt'']
      in \<lparr>rr_ok = ok, rr_output = strip stdout,
          rr_data = [(''runner'', PStr ''sandbox.podman''), (''job_id'', PStr (se_job_id se)),
            (''exit_code'', PInt exit_code), (''artifacts_dir'', PStr (se_artifacts se)),
            (''workspace_dir'', PStr (se_workspace se)), (''stdout_path'', PStr (file ''stdout.txt'')),
            (''stderr_path'', PStr (file ''stderr.txt'')), (''runner_path'', PStr (file ''runner.json'')),
            (''command_path'', PStr (file ''command.txt'')), (''network'', PBool (sr_network q)),
            (''artifacts'', artifacts),
            (skill_result_key, PDict (build_skill_result
              (if ok then ''Sandbox command completed successfully'' else ''Sandbox command execution failed'')
              (PDict [(''exit_code'', PInt exit_code), (''timed_out'', PBool timed_out),
                (''network'', PBool (sr_network q)), (''runner'', PStr ''sandbox.podman''),
                (''command'', pstrs (sr_command q))])
              artifacts
              (PStr (if ok then ''Sandbox run finished with exit code 0.''
                else ''Review stderr artifact for sandbox failure details.''))
              (PStr (if ok then ''continue'' else ''inspect_stderr_artifact''))
              (PBool (\<not> ok)) (PBool False) (PStr ''none'') err
              (if ok then PNone else PStr (if timed_out then ''timeout'' else ''nonzero_exit''))))],
          rr_error = (case err of PStr e \<Rightarrow> Some e | _ \<Rightarrow> None)\<rparr>)"

text \<open>\<open>shlex.quote\<close>, and the redacted command line that is kept beside the output\<close>

definition shlex_quote :: "string \<Rightarrow> string" where
  "shlex_quote s = (if s = [] then quoted []
     else if \<forall>c \<in> set s. ascii_alnum c \<or> c \<in> set ''_@%+=:,./-'' then s
     else quoted (concat (map (\<lambda>c. if code c = 39
            then [CHR 0x27, CHR 0x22, CHR 0x27, CHR 0x22, CHR 0x27] else [c]) s)))"

definition sanitized_podman :: "string list \<Rightarrow> string" where
  "sanitized_podman cmd = join '' '' (map shlex_quote (sanitize_command cmd))"

text \<open>The metadata written to \<open>runner.json\<close>\<close>

definition runner_metadata ::
  "sandbox_config \<Rightarrow> sandbox_env \<Rightarrow> string \<Rightarrow> sandbox_request \<Rightarrow> int \<Rightarrow> bool \<Rightarrow> dict" where
  "runner_metadata cfg se skill q exit_code timed_out = [
     (''runner'', PStr ''sandbox.podman''), (''skill'', PStr skill), (''image'', PStr (sb_image cfg)),
     (''job_id'', PStr (se_job_id se)), (''network'', PBool (sr_network q)),
     (''limits'', PDict [(''memory'', PStr (sb_memory cfg)), (''cpus'', sb_cpus cfg),
        (''pids_limit'', PInt (sb_pids_limit cfg)), (''timeout_s'', PInt (sr_timeout q))]),
     (''env'', PDict (map (\<lambda>(k, v). (k, PStr (redact_value k v))) (sr_env q))),
     (''started_at'', se_started se), (''ended_at'', se_ended se), (''exit_code'', PInt exit_code),
     (''timed_out'', PBool timed_out), (''artifacts_dir'', PStr (se_artifacts se)),
     (''workspace_dir'', PStr (se_workspace se))]"

text \<open>One run: the command lines handed to \<open>subprocess.run\<close>, the files written to the artifacts
  directory, and the result. \<open>command.txt\<close> is written before the call; the other three files only after
  the process has ended or timed out, so an exception of the call leaves \<open>command.txt\<close> alone. The writes
  themselves are taken to succeed.\<close>

record sandbox_trace =
  st_attempted :: "string list list"
  st_written :: "(string \<times> py) list"
  st_result :: "run_result result"

definition run_process ::
  "sandbox_config \<Rightarrow> sandbox_env \<Rightarrow> (string list \<Rightarrow> int \<Rightarrow> proc_outcome) \<Rightarrow> string \<Rightarrow> sandbox_request
   \<Rightarrow> sandbox_trace" where
  "run_process cfg se subprocess skill q =
     (let cmd = podman_command cfg se (sr_env q) (sr_network q) (sr_command q);
          file = (\<lambda>n. se_artifacts se @ ''/'' @ n);
          command_txt = (file ''command.txt'', PStr (sanitized_podman cmd));
          finish = (\<lambda>stdout stderr exit_code timed_out.
            \<lparr>st_attempted = [cmd],
             st_written = [command_txt, (file ''stdout.txt'', PStr stdout), (file ''stderr.txt'', PStr stderr),
               (file ''runner.json'', PDict (runner_metadata cfg se skill q exit_code timed_out))],
             st_result = Inr (sandbox_result se q stdout stderr exit_code timed_out)\<rparr>)
      in case subprocess cmd (sr_timeout q) of
           Completed exit_code out err \<Rightarrow> finish out err exit_code False
         | TimedOut out err \<Rightarrow> finish out (err @ [CHR 0x0A] @ ''Timed out'') 124 True
         | Raised e \<Rightarrow> \<lparr>st_attempted = [cmd], st_written = [command_txt], st_result = Inl e\<rparr>)"

definition podman_run ::
  "sandbox_config \<Rightarrow> sandbox_env \<Rightarrow> (string list \<Rightarrow> int \<Rightarrow> proc_outcome) \<Rightarrow> string \<Rightarrow> dict
   \<Rightarrow> sandbox_trace" where
  "podman_run cfg se subprocess skill args =
     (if \<not> se_podman se then
        \<lparr>st_attempted = [], st_written = [],
         st_result = Inl (Exc RuntimeError (''Podman is required for sandbox execution. ''
           @ ''Install rootless Podman and retry (see README).''))\<rparr>
      else case sandbox_checks args of
        Inl e \<Rightarrow> \<lparr>st_attempted = [], st_written = [], st_result = Inl e\<rparr>
      | Inr (Inl r) \<Rightarrow> \<lparr>st_attempted = [], st_written = [], st_result = Inr r\<rparr>
      | Inr (Inr q) \<Rightarrow> run_process cfg se subprocess skill q)"

lemma safe_env_allowed: "(k, v) \<in> set (safe_env env) \<Longrightarrow> k \<in> set default_env_allowlist"
  unfolding safe_env_def
  by (induction env) (auto simp: List.map_filter_simps split: if_splits)

lemma sandbox_checks_request:
  assumes "sandbox_checks args = Inr (Inr q)"
  obtains "canonicalize_argv args = Inr (sr_command q)" and "0 < sr_timeout q"
    and "\<And>k v. (k, v) \<in> set (sr_env q) \<Longrightarrow> k \<in> set default_env_allowlist"
    and "parse_network_setting (get_or args ''network'' (PBool False)) = Inr (sr_network q)"
proof -
  have "canonicalize_argv args = Inr (sr_command q) \<and> 0 < sr_timeout q \<and>
      (\<exists>env. sr_env q = safe_env env) \<and>
      parse_network_setting (get_or args ''network'' (PBool False)) = Inr (sr_network q)"
    using assms unfolding sandbox_checks_def Let_def
    by (cases "canonicalize_argv args"; cases "parse_network_setting (get_or args ''network'' (PBool False))")
      (auto simp: result_iff split: if_splits)
  then show ?thesis using that safe_env_allowed by fastforce
qed

lemma sandbox_blocked_not_ok: "sandbox_checks args = Inr (Inl r) \<Longrightarrow> \<not> rr_ok r"
  unfolding sandbox_checks_def Let_def
  by (cases "canonicalize_argv args"; cases "parse_network_setting (get_or args ''network'' (PBool False))")
    (auto simp: result_iff blocked_result_def split: if_splits)

lemma run_process_attempted:
  "st_attempted (run_process cfg se sp skill q) = [podman_command cfg se (sr_env q) (sr_network q) (sr_command q)]"
  by (simp add: run_process_def Let_def split: proc_outcome.split)

text \<open>A run either attempts the process of a checked request or attempts nothing, writes nothing and
  does not succeed.\<close>

lemma podman_run_cases:
  obtains (attempted) q where "sandbox_checks args = Inr (Inr q)"
      "podman_run cfg se sp skill args = run_process cfg se sp skill q"
  | (stopped) "st_attempted (podman_run cfg se sp skill args) = []"
      "st_written (podman_run cfg se sp skill args) = []"
      "\<And>r. st_result (podman_run cfg se sp skill args) = Inr r \<Longrightarrow> \<not> rr_ok r"
proof (cases "se_podman se")
  case False
  show ?thesis by (rule stopped) (simp_all add: podman_run_def False)
next
  case True
  show ?thesis
  proof (cases "sandbox_checks args")
    case (Inl e)
    show ?thesis by (rule stopped) (simp_all add: podman_run_def True Inl)
  next
    case (Inr x)
    show ?thesis
    proof (cases x)
      case (Inl r)
      show ?thesis
        by (rule stopped)
          (use sandbox_blocked_not_ok [of args r] in \<open>auto simp: podman_run_def True Inr Inl\<close>)
    next
      case (Inr q)
      then show ?thesis using attempted \<open>sandbox_checks args = Inr x\<close> True by (simp add: podman_run_def)
    qed
  qed
qed

text \<open>How the outcome of the process becomes the result\<close>

lemma run_process_result:
  "case sp (podman_command cfg se (sr_env q) (sr_network q) (sr_command q)) (sr_timeout q) of
     Raised e \<Rightarrow> st_result (run_process cfg se sp skill q) = Inl e
       \<and> map fst (st_written (run_process cfg se sp skill q)) = [se_artifacts se @ ''/command.txt'']
   | Completed c out err \<Rightarrow> (\<exists>r. st_result (run_process cfg se sp skill q) = Inr r \<and> (rr_ok r \<longleftrightarrow> c = 0))
   | TimedOut out err \<Rightarrow> (\<exists>r. st_result (run_process cfg se sp skill q) = Inr r \<and> \<not> rr_ok r)"
  by (simp add: run_process_def Let_def sandbox_result_def split: proc_outcome.split)

end
