(* ===== verification/Skill_Runner.thy ===== *)
theory Skill_Runner
  imports Skill_Execution
begin

text \<open>
  Models \<open>voxera/skills/runner.py\<close>: the fail-closed capability enforcement and the gate in front of
  every skill. The world the skills act on is a type parameter; a skill's own code, the import of its
  entrypoint, the processes the sandbox starts and the fresh job id are fields of the environment, and
  the approval callback is the queue's prompt or any other function on the same state. The audit log is
  part of the state, so the order of the events is what the code writes.
\<close>

section \<open>Capability enforcement\<close>

definition is_skill_read_only :: "manifest \<Rightarrow> bool" where
  "is_skill_read_only m = (m_capabilities m \<noteq> [] \<and>
     (\<forall>c \<in> set (m_capabilities m). case capability_semantic c of
        None \<Rightarrow> False | Some s \<Rightarrow> cs_intent s = IntentReadOnly))"

record enforcement =
  ce_allowed :: bool
  ce_needs_approval :: bool
  ce_denied :: bool
  ce_reason :: string
  ce_reason_class :: string
  ce_decision :: decision
  ce_capabilities :: "string list"
  ce_effect_classes :: "string list"
  ce_declaration :: dict

definition network_requested :: "dict \<Rightarrow> bool" where
  "network_requested args = (case get_or args ''network'' (PBool False) of
     PBool b \<Rightarrow> b | PStr s \<Rightarrow> lower (strip s) \<in> {''1'', ''true'', ''yes'', ''on''} | _ \<Rightarrow> False)"

definition network_boundary_violation :: "dict \<Rightarrow> dict \<Rightarrow> dict option" where
  "network_boundary_violation decl args =
     (if truthy (get_or decl ''needs_network'' (PBool False)) then None
      else if \<not> network_requested args then None
      else Some [(''boundary'', PStr ''network''),
        (''declared_network_scope'', get_or decl ''network_scope'' (PStr ''none'')),
        (''requested_network'', PBool True), (''runtime_arg'', PStr ''network'')])"

definition denied_enforcement :: "string \<Rightarrow> string \<Rightarrow> string list \<Rightarrow> string list \<Rightarrow> dict \<Rightarrow> enforcement" where
  "denied_enforcement reason reason_class caps effects decl = \<lparr>ce_allowed = False,
     ce_needs_approval = False, ce_denied = True, ce_reason = reason, ce_reason_class = reason_class,
     ce_decision = Deny, ce_capabilities = caps, ce_effect_classes = effects, ce_declaration = decl\<rparr>"

definition enforce_runtime_capabilities :: "manifest \<Rightarrow> policy \<Rightarrow> dict \<Rightarrow> enforcement" where
  "enforce_runtime_capabilities m p args =
     (let decl = declaration_dict (normalize_manifest_capabilities m);
          caps = map strip (m_capabilities m) in
      if m_capabilities m = [] then
        denied_enforcement ''Skill manifest missing required capability declarations.''
          ''missing_capability_metadata'' [] [] decl
      else if [] \<in> set caps then
        denied_enforcement ''Skill manifest capability declarations are malformed.''
          ''malformed_capability_metadata'' [] [] decl
      else if \<not> distinct caps then
        denied_enforcement
          ''Skill manifest capability declarations are ambiguous (duplicates present).''
          ''ambiguous_capability_metadata'' (sorted_set caps) [] decl
      else let unknown = sort (filter (\<lambda>c. \<not> known_capability c) caps) in
      if unknown \<noteq> [] then
        denied_enforcement (''Skill manifest declares unknown capability metadata: ''
            @ join '', '' unknown @ ''.'') ''unknown_capability_metadata'' (sort caps) [] decl
      else let effects = sorted_set (map effect_name (List.map_filter capability_effect_class caps)) in
      case network_boundary_violation decl args of
        Some v \<Rightarrow> denied_enforcement
          (''Runtime requested network access but this skill declares ''
             @ ''network_scope=none (fail-closed).'')
          ''capability_boundary_mismatch'' (sort caps) effects
          (dput decl ''runtime_boundary_violation'' (PDict v))
      | None \<Rightarrow> let r = decide m p args in
          \<lparr>ce_allowed = (pd_decision r = Allow), ce_needs_approval = (pd_decision r = Ask),
           ce_denied = (pd_decision r = Deny), ce_reason = pd_reason r,
           ce_reason_class = ''policy_decision'', ce_decision = pd_decision r,
           ce_capabilities = sort caps, ce_effect_classes = effects, ce_declaration = decl\<rparr>)"

text \<open>A manifest is well declared when its capabilities are known, non-empty, distinct and stripped to
  themselves, which the validators of \<open>SkillManifest\<close> ensure only in part.\<close>

definition well_declared :: "manifest \<Rightarrow> bool" where
  "well_declared m \<longleftrightarrow> m_capabilities m \<noteq> [] \<and> distinct (map strip (m_capabilities m)) \<and>
     (\<forall>c \<in> set (m_capabilities m). strip c \<noteq> [] \<and> known_capability (strip c))"

lemma enforcement_one_outcome:
  "(ce_denied e \<longleftrightarrow> \<not> ce_allowed e \<and> \<not> ce_needs_approval e) \<and> \<not> (ce_allowed e \<and> ce_needs_approval e)"
  if "e = enforce_runtime_capabilities m p args"
proof -
  have "(d = Deny \<longleftrightarrow> d \<noteq> Allow \<and> d \<noteq> Ask) \<and> \<not> (d = Allow \<and> d = Ask)" for d :: decision
    by (cases d) simp_all
  then show ?thesis
    unfolding that enforce_runtime_capabilities_def Let_def denied_enforcement_def
    by (simp split: option.splits)
qed

lemma not_denied_iff:
  "\<not> ce_denied (enforce_runtime_capabilities m p args) \<longleftrightarrow>
     well_declared m \<and> \<not> (network_requested args \<and> \<not> m_needs_network m)
     \<and> pd_decision (decide m p args) \<noteq> Deny"
proof -
  have violation: "network_boundary_violation (declaration_dict (normalize_manifest_capabilities m)) args
      = None \<longleftrightarrow> \<not> (network_requested args \<and> \<not> m_needs_network m)"
    by (simp add: network_boundary_violation_def declaration_dict_def)
  have unknown: "sort (filter (\<lambda>c. \<not> known_capability c) xs) = [] \<longleftrightarrow> (\<forall>c \<in> set xs. known_capability c)"
    for xs by (metis (no_types, lifting) filter_False filter_id_conv set_empty set_sort sort_key_simps(1)
        empty_filter_conv)
  show ?thesis
    unfolding enforce_runtime_capabilities_def Let_def denied_enforcement_def well_declared_def
      unknown violation [symmetric]
    by (auto simp: unknown image_iff eq_commute [of "[]"] split: option.splits)
qed

lemma enforcement_decision:
  "\<not> ce_denied (enforce_runtime_capabilities m p args) \<Longrightarrow>
   ce_decision (enforce_runtime_capabilities m p args) = pd_decision (decide m p args) \<and>
   ce_needs_approval (enforce_runtime_capabilities m p args) = (pd_decision (decide m p args) = Ask) \<and>
   ce_reason (enforce_runtime_capabilities m p args) = pd_reason (decide m p args)"
  unfolding enforce_runtime_capabilities_def Let_def denied_enforcement_def
  by (simp split: option.splits if_splits)

text \<open>The sandbox parses the same argument: what it accepts as a request for the network is exactly
  what the enforcement counts as one.\<close>

lemma parse_network_agrees:
  "parse_network_setting (get_or args ''network'' (PBool False)) = Inr True \<longleftrightarrow> network_requested args"
  by (auto simp: parse_network_setting_def network_requested_def network_true_words_def Let_def
      split: py.splits)

section \<open>The runner\<close>

record 's rstate =
  rs_world :: 's
  rs_log :: "dict list"

datatype skill_out = OutResult run_result | OutOther string

record 's skill_env =
  sk_load :: "manifest \<Rightarrow> exc option"
  sk_fn :: "manifest \<Rightarrow> dict \<Rightarrow> 's \<Rightarrow> skill_out result \<times> 's"
  sk_job_id :: "'s \<Rightarrow> string"
  sk_sandbox_config :: sandbox_config
  sk_sandbox_env :: "string \<Rightarrow> 's \<Rightarrow> sandbox_env"
  sk_subprocess :: "'s \<Rightarrow> string list \<Rightarrow> int \<Rightarrow> proc_outcome"
  sk_apply_trace :: "sandbox_trace \<Rightarrow> 's \<Rightarrow> 's"

type_synonym 's approval_cb =
  "manifest \<Rightarrow> policy_decision \<Rightarrow> dict \<Rightarrow> dict \<Rightarrow> 's rstate \<Rightarrow> py \<times> 's rstate"

definition log_event :: "dict \<Rightarrow> 's rstate \<Rightarrow> 's rstate" where
  "log_event e s = s\<lparr>rs_log := rs_log s @ [e]\<rparr>"

text \<open>\<open>LocalRunner.run\<close>\<close>

definition local_run :: "'s skill_env \<Rightarrow> manifest \<Rightarrow> dict \<Rightarrow> string \<Rightarrow> 's \<Rightarrow> run_result result \<times> 's" where
  "local_run env m args jid w = (case sk_fn env m args w of
     (Inl e, w') \<Rightarrow> (Inl e, w')
   | (Inr out, w') \<Rightarrow>
       let rr = (case out of OutResult r \<Rightarrow> r
                 | OutOther s \<Rightarrow> \<lparr>rr_ok = True, rr_output = s, rr_data = [], rr_error = None\<rparr>)
       in (Inr (rr\<lparr>rr_data := dsetdefault (dsetdefault (rr_data rr) ''runner'' (PStr ''local''))
                ''job_id'' (PStr jid)\<rparr>), w'))"

definition sandbox_run :: "'s skill_env \<Rightarrow> manifest \<Rightarrow> dict \<Rightarrow> string \<Rightarrow> 's \<Rightarrow> run_result result \<times> 's" where
  "sandbox_run env m args jid w =
     (let tr = podman_run (sk_sandbox_config env) (sk_sandbox_env env jid w) (sk_subprocess env w) (m_id m) args
      in (st_result tr, sk_apply_trace env tr w))"

definition runner_name :: "manifest \<Rightarrow> string" where
  "runner_name m = (if m_exec_mode m = SandboxMode then ''sandbox.podman'' else ''local'')"

definition select_and_run :: "'s skill_env \<Rightarrow> manifest \<Rightarrow> dict \<Rightarrow> string \<Rightarrow> 's \<Rightarrow> run_result result \<times> 's" where
  "select_and_run env m args jid w =
     (if m_exec_mode m = SandboxMode then sandbox_run env m args jid w else local_run env m args jid w)"

text \<open>The results of a run that stops before the skill\<close>

definition enforcement_payload :: "enforcement \<Rightarrow> dict" where
  "enforcement_payload e = [
     (''required_capabilities'', pstrs (ce_capabilities e)),
     (''required_effect_classes'', pstrs (ce_effect_classes e))]"

definition denied_result :: "enforcement \<Rightarrow> run_result" where
  "denied_result e = \<lparr>rr_ok = False, rr_output = [],
     rr_data = [(''status'', PStr ''blocked''), (''reason'', PStr (ce_reason e)),
       (''blocked_reason_class'', PStr (ce_reason_class e)), (''capabilities'', pstrs (ce_capabilities e)),
       (''effect_classes'', pstrs (ce_effect_classes e)),
       (''policy_decision'', PStr (decision_name (ce_decision e))),
       (skill_result_key, PDict (build_skill_result
          ''Step blocked before execution by runtime capability enforcement''
          (PDict ([(''reason'', PStr (ce_reason e)), (''reason_class'', PStr (ce_reason_class e))]
             @ enforcement_payload e @ [(''policy_decision'', PStr (decision_name (ce_decision e))),
               (''execution_capabilities'', PDict (ce_declaration e))]))
          PNone (PStr (ce_reason e))
          (PStr (if ce_reason_class e \<noteq> ''policy_decision'' then ''fix_skill_manifest''
             else ''request_policy_change_or_review''))
          (PBool False) (PBool True) (PStr (if ce_decision e = Deny then ''denied'' else ''none''))
          (PStr (''Denied by policy: '' @ ce_reason e)) (PStr (ce_reason_class e))))],
     rr_error = Some (''Denied by policy: '' @ ce_reason e)\<rparr>"

definition pending_result :: "manifest \<Rightarrow> enforcement \<Rightarrow> dict \<Rightarrow> run_result" where
  "pending_result m e approved = \<lparr>rr_ok = False, rr_output = [],
     rr_data = dmerge approved [(''status'', PStr ''pending_approval''), (''skill'', PStr (m_id m)),
       (''reason'', PStr (ce_reason e)),
       (''capability'', case ce_capabilities e of [] \<Rightarrow> PNone | c # _ \<Rightarrow> PStr c),
       (''capabilities'', pstrs (ce_capabilities e)),
       (''effect_classes'', pstrs (ce_effect_classes e)),
       (''policy_decision'', PStr (decision_name (ce_decision e))),
       (skill_result_key, PDict (build_skill_result ''Step blocked pending operator approval''
          (PDict ([(''reason'', PStr (ce_reason e))] @ enforcement_payload e
             @ [(''policy_decision'', PStr (decision_name (ce_decision e))),
                (''execution_capabilities'', PDict (ce_declaration e))]))
          PNone (PStr ''Approval is required before this step may execute.'')
          (PStr ''await_operator_approval'') (PBool True) (PBool True) (PStr ''pending'')
          (PStr ''Approval required.'') (PStr ''approval_required'')))],
     rr_error = Some ''Approval required.''\<rparr>"

definition rejected_result :: "enforcement \<Rightarrow> run_result" where
  "rejected_result e = \<lparr>rr_ok = False, rr_output = [],
     rr_data = [(''status'', PStr ''blocked''), (''reason'', PStr ''User rejected approval.''),
       (''blocked_reason_class'', PStr ''approval_rejected''),
       (''capabilities'', pstrs (ce_capabilities e)),
       (''effect_classes'', pstrs (ce_effect_classes e)),
       (skill_result_key, PDict (build_skill_result ''Step blocked because operator denied approval''
          (PDict ([(''reason'', PStr ''User rejected approval.'')] @ enforcement_payload e
             @ [(''execution_capabilities'', PDict (ce_declaration e))]))
          PNone (PStr ''Operator denied approval for this step.'')
          (PStr ''operator_review_required'') (PBool False) (PBool True) (PStr ''denied'')
          (PStr ''User rejected approval.'') (PStr ''approval_rejected'')))],
     rr_error = Some ''User rejected approval.''\<rparr>"

definition log_mission :: "string \<Rightarrow> manifest \<Rightarrow> enforcement \<Rightarrow> dict \<Rightarrow> 's rstate \<Rightarrow> 's rstate" where
  "log_mission event m e ctx s = (if truthy (get ctx ''mission'') then
     log_event [(''event'', PStr event), (''mission'', get ctx ''mission''), (''step'', get ctx ''step''),
       (''skill'', PStr (m_id m)), (''reason'', PStr (ce_reason e))] s else s)"

text \<open>From \<open>load_entrypoint\<close> to the end of \<open>run\<close>: an import error leaves the function, an exception of
  the skill becomes a failed result.\<close>

definition execute_skill ::
  "'s skill_env \<Rightarrow> manifest \<Rightarrow> dict \<Rightarrow> enforcement \<Rightarrow> 's rstate \<Rightarrow> run_result result \<times> 's rstate" where
  "execute_skill env m args e s =
     (case sk_load env m of
        Some ex \<Rightarrow> (Inl ex, s)
      | None \<Rightarrow>
          let jid = sk_job_id env (rs_world s);
              s1 = log_event [(''event'', PStr ''skill_start''), (''skill'', PStr (m_id m)),
                (''args'', sanitize_audit_value [] (PDict args)), (''reason'', PStr (ce_reason e)),
                (''runner'', PStr (runner_name m)), (''job_id'', PStr jid),
                (''required_capabilities'', pstrs (ce_capabilities e)),
                (''required_effect_classes'', pstrs (ce_effect_classes e)),
                (''execution_capabilities'', PDict (ce_declaration e))] s
          in case select_and_run env m args jid (rs_world s1) of
               (Inr rr, w') \<Rightarrow>
                 (Inr rr, log_event [(''event'', PStr ''skill_done''), (''skill'', PStr (m_id m)),
                    (''ok'', PBool (rr_ok rr)), (''error'', popt (rr_error rr)),
                    (''runner'', PStr (runner_name m)), (''job_id'', PStr jid),
                    (''artifacts_dir'', get (rr_data rr) ''artifacts_dir'')] (s1\<lparr>rs_world := w'\<rparr>))
             | (Inl ex, w') \<Rightarrow>
                 (Inr \<lparr>rr_ok = False, rr_output = [], rr_data = [], rr_error = Some (repr_exc ex)\<rparr>,
                  log_event [(''event'', PStr ''skill_error''), (''skill'', PStr (m_id m)),
                    (''error'', PStr (repr_exc ex)), (''runner'', PStr (runner_name m)),
                    (''job_id'', PStr jid)] (s1\<lparr>rs_world := w'\<rparr>)))"

text \<open>The answer of the approval callback: pending, rejected or granted\<close>

definition is_pending :: "py \<Rightarrow> bool" where
  "is_pending v = (case v of PDict d \<Rightarrow> get d ''status'' = PStr ''pending'' | _ \<Rightarrow> False)"

text \<open>\<open>SkillRunner.run\<close>. The approval callback is a total function of the model: the queue's callback takes
  both keyword arguments, so the second call with two arguments, after a \<open>TypeError\<close> of the first, is not
  modelled.\<close>

definition skill_run ::
  "'s skill_env \<Rightarrow> 's approval_cb option \<Rightarrow> manifest \<Rightarrow> dict \<Rightarrow> policy \<Rightarrow> dict \<Rightarrow> 's rstate
   \<Rightarrow> run_result result \<times> 's rstate" where
  "skill_run env cb m args0 p ctx s =
     (case canonicalize_args (m_id m) args0 of
        Inl ex \<Rightarrow> (Inl ex, s)
      | Inr args \<Rightarrow>
          let e = enforce_runtime_capabilities m p args; pr = decide m p args in
          if ce_denied e then
            (Inr (denied_result e), log_event [(''event'', PStr ''skill_denied''), (''skill'', PStr (m_id m)),
               (''reason'', PStr (ce_reason e)), (''reason_class'', PStr (ce_reason_class e)),
               (''required_capabilities'', pstrs (ce_capabilities e)),
               (''required_effect_classes'', pstrs (ce_effect_classes e)),
               (''execution_capabilities'', PDict (ce_declaration e))] s)
          else case (if ce_needs_approval e then cb else None) of
            None \<Rightarrow> execute_skill env m args e s
          | Some f \<Rightarrow>
              let (approved, s1) = f m pr ctx args s in
              if is_pending approved then
                (Inr (pending_result m e (the_dict approved)),
                 log_event [(''event'', PStr ''skill_pending_approval''), (''skill'', PStr (m_id m)),
                   (''reason'', PStr (ce_reason e))] s1)
              else if \<not> truthy approved then
                (Inr (rejected_result e),
                 log_event [(''event'', PStr ''skill_rejected''), (''skill'', PStr (m_id m)),
                   (''reason'', PStr (ce_reason e))] (log_mission ''mission_denied'' m e ctx s1))
              else execute_skill env m args e (log_mission ''mission_approved'' m e ctx s1))"

section \<open>The dry run\<close>

record plan_step =
  ps_action :: string
  ps_skill_id :: string
  ps_args :: dict
  ps_requires_approval :: bool
  ps_capability :: "string option"
  ps_risk :: risk
  ps_decision :: decision
  ps_reason :: string

record simulation =
  sim_title :: string
  sim_goal :: string
  sim_steps :: "plan_step list"
  sim_approvals_required :: nat
  sim_blocked :: bool
  sim_summary :: string

definition simulate_skill :: "manifest \<Rightarrow> dict \<Rightarrow> policy \<Rightarrow> simulation result" where
  "simulate_skill m args0 p =
     bindR (canonicalize_args (m_id m) args0) (\<lambda>args.
       let d = decide m p args; ask = (pd_decision d = Ask); blocked = (pd_decision d = Deny) in
       Inr \<lparr>sim_title = ''Dry-run: '' @ m_name m, sim_goal = m_description m,
         sim_steps = [\<lparr>ps_action = ''Run skill'', ps_skill_id = m_id m, ps_args = args,
           ps_requires_approval = ask,
           ps_capability = (case sort (m_capabilities m) of [] \<Rightarrow> None | c # _ \<Rightarrow> Some c),
           ps_risk = m_risk m, ps_decision = pd_decision d, ps_reason = pd_reason d\<rparr>],
         sim_approvals_required = (if ask then 1 else 0), sim_blocked = blocked,
         sim_summary = (if blocked then ''Blocked by policy''
           else if ask then ''Approval required before execution'' else ''Safe to execute'')\<rparr>)"

section \<open>What a run may do\<close>

text \<open>A run stops at the gate when its enforcement is denied, or when approval is needed and the
  callback does not grant it.\<close>

definition gate_open :: "'s approval_cb option \<Rightarrow> manifest \<Rightarrow> dict \<Rightarrow> policy \<Rightarrow> dict \<Rightarrow> 's rstate \<Rightarrow> bool" where
  "gate_open cb m args p ctx s =
     (let e = enforce_runtime_capabilities m p args in
      \<not> ce_denied e \<and> (case (if ce_needs_approval e then cb else None) of
        None \<Rightarrow> True
      | Some f \<Rightarrow> let a = fst (f m (decide m p args) ctx args s) in \<not> is_pending a \<and> truthy a))"

lemma log_event_simps [simp]:
  "rs_world (log_event e s) = rs_world s" "rs_log (log_event e s) = rs_log s @ [e]"
  by (simp_all add: log_event_def)

lemma log_mission_world [simp]: "rs_world (log_mission ev m e ctx s) = rs_world s"
  by (simp add: log_mission_def)

text \<open>With the gate closed, the only thing that may have touched the world is the callback.\<close>

lemma gate_closed:
  assumes "canonicalize_args (m_id m) args0 = Inr args" and "\<not> gate_open cb m args p ctx s"
  shows "\<exists>rr. fst (skill_run env cb m args0 p ctx s) = Inr rr \<and> \<not> rr_ok rr"
    and "rs_world (snd (skill_run env cb m args0 p ctx s)) \<in>
      {rs_world s} \<union> {rs_world (snd (f m (decide m p args) ctx args s)) | f. cb = Some f}"
  using assms
  by (auto simp: skill_run_def gate_open_def Let_def denied_result_def pending_result_def rejected_result_def
      split: option.splits if_splits prod.splits)

lemma run_result_blocked_world:
  assumes "canonicalize_args (m_id m) args0 = Inr args"
    and "ce_denied (enforce_runtime_capabilities m p args)"
  shows "fst (skill_run env cb m args0 p ctx s) = Inr (denied_result (enforce_runtime_capabilities m p args))"
    and "rs_world (snd (skill_run env cb m args0 p ctx s)) = rs_world s"
  using assms by (simp_all add: skill_run_def Let_def)

end
