(* ===== verification/Missions.thy ===== *)
theory Missions
  imports Skill_Runner
begin

text \<open>
  Models \<open>voxera/core/missions.py\<close>: mission files, the dry run of a mission and \<open>MissionRunner.run\<close>.
  The registry of skills (manifest files on disk), the clock and the markdown log file belong to the
  environment of the runner; the steps themselves are run by the skill runner's model.
\<close>

section \<open>Missions\<close>

record mission_step =
  mst_skill :: string
  mst_args :: dict

record mission =
  mi_id :: string
  mi_title :: string
  mi_goal :: string
  mi_steps :: "mission_step list"
  mi_notes :: "string option"

text \<open>\<open>_parse_mission_file\<close>: the text of the file, its parsed payload and the known skills are arguments.\<close>

definition invalid_mission :: "string \<Rightarrow> string \<Rightarrow> 'a result" where
  "invalid_mission path msg = raise_value (''Invalid mission file '' @ path @ '': '' @ msg)"

definition parse_mission_step :: "string \<Rightarrow> string list \<Rightarrow> nat \<Rightarrow> py \<Rightarrow> mission_step result" where
  "parse_mission_step path known idx obj = (case obj of
     PDict d \<Rightarrow>
       (case get_or d ''skill_id'' (get d ''skill'') of
          PStr sid \<Rightarrow>
            if strip sid = [] then
              invalid_mission path (''step '' @ nat_str idx @ '' missing non-empty skill_id'')
            else if sid \<notin> set known then
              invalid_mission path (''step '' @ nat_str idx @ '' unknown skill_id '' @ quoted sid)
            else (case get_or d ''args'' (PDict []) of
                PDict args \<Rightarrow> Inr \<lparr>mst_skill = sid, mst_args = args\<rparr>
              | _ \<Rightarrow> invalid_mission path (''step '' @ nat_str idx @ '' args must be an object''))
        | _ \<Rightarrow> invalid_mission path (''step '' @ nat_str idx @ '' missing non-empty skill_id''))
   | _ \<Rightarrow> invalid_mission path (''step '' @ nat_str idx @ '' must be an object''))"

definition parse_mission_notes :: "string \<Rightarrow> py \<Rightarrow> string option result" where
  "parse_mission_notes path raw = (case raw of
     PNone \<Rightarrow> Inr None
   | PStr s \<Rightarrow> Inr (Some s)
   | PList xs \<Rightarrow> if \<forall>x \<in> set xs. is_str x then Inr (Some (join [CHR 0x0A] (map the_str xs)))
       else invalid_mission path ''notes must be a string or list of strings''
   | _ \<Rightarrow> invalid_mission path ''notes must be a string or list of strings'')"

definition parse_mission_file ::
  "string \<Rightarrow> string \<Rightarrow> string list \<Rightarrow> string result \<Rightarrow> (string \<Rightarrow> py result) \<Rightarrow> mission result" where
  "parse_mission_file path hint known raw_text parse =
     (case raw_text of
        Inl e \<Rightarrow> invalid_mission path (''unable to read ('' @ str_exc e @ '')'')
      | Inr text \<Rightarrow>
     (case parse text of
        Inl e \<Rightarrow> invalid_mission path (''parse error ('' @ str_exc e @ '')'')
      | Inr (PDict d) \<Rightarrow>
          (case get_or d ''id'' (PStr hint) of
             PStr mid \<Rightarrow>
               if strip mid = [] then invalid_mission path ''id must be a non-empty string''
               else (case get d ''steps'' of
                 PList (x # xs) \<Rightarrow>
                   bindR (mapR (\<lambda>(i, obj). parse_mission_step path known i obj)
                            (List.enumerate 1 (x # xs))) (\<lambda>steps.
                   (case get_or d ''title'' (PStr mid) of
                      PStr title \<Rightarrow>
                        if strip title = [] then
                          invalid_mission path ''title must be a non-empty string when provided''
                        else (case get_or d ''goal'' (PStr []) of
                          PStr goal \<Rightarrow> bindR (parse_mission_notes path (get d ''notes'')) (\<lambda>notes.
                            Inr \<lparr>mi_id = mid, mi_title = title, mi_goal = goal, mi_steps = steps,
                              mi_notes = notes\<rparr>)
                        | _ \<Rightarrow> invalid_mission path ''goal must be a string when provided'')
                    | _ \<Rightarrow> invalid_mission path ''title must be a non-empty string when provided''))
               | _ \<Rightarrow> invalid_mission path ''steps must be a non-empty list'')
           | _ \<Rightarrow> invalid_mission path ''id must be a non-empty string'')
      | Inr _ \<Rightarrow> invalid_mission path ''root must be an object''))"

section \<open>The mission runner\<close>

record 's mission_env =
  me_skills :: "'s skill_env"
  me_registry :: "string \<Rightarrow> manifest result"
  me_policy :: policy
  me_approval :: "'s approval_cb option"
  me_now_ms :: "'s \<Rightarrow> int"
  me_timestamp :: "'s \<Rightarrow> string"
  me_redact_logs :: bool
  me_append_log :: "string \<Rightarrow> 's \<Rightarrow> exc option \<times> 's"

definition mission_log_line ::
  "'s mission_env \<Rightarrow> mission \<Rightarrow> dict list \<Rightarrow> string \<Rightarrow> nat option \<Rightarrow> string \<Rightarrow> string" where
  "mission_log_line env mi outputs status paused ts =
     (let head = ''- '' @ ts @ '' | '' @ mi_id mi @ '' | '' @ mi_title mi
            @ '' | status='' @ status @ '' | steps='' @ nat_str (length outputs);
          head1 = (case paused of None \<Rightarrow> head
             | Some n \<Rightarrow> if n = 0 then head else head @ '' | paused_step='' @ nat_str n);
          details = join ''; '' (map (\<lambda>item. ''step '' @ py_str (get item ''step'') @ '' ''
             @ py_str (get item ''skill'') @ '' ok='' @ py_str (get item ''ok'')) outputs)
      in (if \<not> me_redact_logs env \<and> details \<noteq> [] then head1 @ '' | details: '' @ details else head1)
           @ [CHR 0x0A])"

definition append_mission_log ::
  "'s mission_env \<Rightarrow> mission \<Rightarrow> dict list \<Rightarrow> string \<Rightarrow> nat option \<Rightarrow> 's rstate \<Rightarrow> 's rstate" where
  "append_mission_log env mi outputs status paused s =
     (case me_append_log env (mission_log_line env mi outputs status paused (me_timestamp env (rs_world s)))
             (rs_world s) of
        (None, w') \<Rightarrow> s\<lparr>rs_world := w'\<rparr>
      | (Some ex, w') \<Rightarrow> log_event [(''event'', PStr ''mission_log_error''),
          (''mission'', PStr (mi_id mi)), (''error'', PStr (repr_exc ex))] (s\<lparr>rs_world := w'\<rparr>))"

definition unknown_skill_result :: "string \<Rightarrow> run_result" where
  "unknown_skill_result sid = \<lparr>rr_ok = False, rr_output = [],
     rr_data = [(''status'', PStr ''failed''), (''error_class'', PStr ''skill_not_found''),
       (''retryable'', PBool False), (''summary'', PStr (''Unknown skill: '' @ sid)),
       (''next_action_hint'', PStr ''replan_with_known_skill''),
       (''machine_payload'', PDict [(''missing_skill_id'', PStr sid)])],
     rr_error = Some (''Unknown skill: '' @ sid)\<rparr>"

text \<open>One step: only \<open>KeyError\<close> is caught, whether the registry or the run raised it.\<close>

definition run_mission_step ::
  "'s mission_env \<Rightarrow> dict \<Rightarrow> mission_step \<Rightarrow> 's rstate \<Rightarrow> run_result result \<times> 's rstate" where
  "run_mission_step env ctx st s =
     (let r = (case me_registry env (mst_skill st) of
                 Inl ex \<Rightarrow> (Inl ex, s)
               | Inr m \<Rightarrow> skill_run (me_skills env) (me_approval env) m (mst_args st) (me_policy env) ctx s)
      in case r of
           (Inl ex, s') \<Rightarrow> (if class_of ex = KeyError then Inr (unknown_skill_result (mst_skill st)) else Inl ex, s')
         | (Inr rr, s') \<Rightarrow> (Inr rr, s'))"

text \<open>The entry of \<open>outputs\<close>\<close>

definition step_output :: "nat \<Rightarrow> mission_step \<Rightarrow> run_result \<Rightarrow> int \<Rightarrow> int \<Rightarrow> dict" where
  "step_output idx st rr started finished =
     (let c = extract_skill_result (rr_data rr) in [
      (''step'', PInt (int idx)), (''skill'', PStr (mst_skill st)), (''args'', PDict (mst_args st)),
      (''ok'', PBool (rr_ok rr)), (''output'', PStr (rr_output rr)),
      (''machine_payload'', if is_dict (get c ''machine_payload'') then get c ''machine_payload''
         else PDict (rr_data rr)),
      (''started_at_ms'', PInt started), (''finished_at_ms'', PInt finished),
      (''duration_ms'', PInt (max 0 (finished - started))),
      (''summary'', PStr (strip (py_str (por (get c ''summary'')
         (por (PStr (rr_output rr)) (por (popt (rr_error rr)) (PStr []))))))),
      (''output_artifacts'', if is_list (get c ''output_artifacts'') then get c ''output_artifacts''
         else if is_list (get (rr_data rr) ''artifacts'') then get (rr_data rr) ''artifacts'' else PList []),
      (''operator_note'', get c ''operator_note''),
      (''next_action_hint'', get c ''next_action_hint''),
      (''retryable'', if is_bool (get c ''retryable'') then get c ''retryable''
         else if is_bool (get (rr_data rr) ''retryable'') then get (rr_data rr) ''retryable'' else PNone),
      (''blocked'', if is_bool (get c ''blocked'') then get c ''blocked'' else PNone),
      (''approval_status'', none_or_str (get c ''approval_status'')),
      (''error'', if get c ''error'' \<noteq> PNone then PStr (py_str (get c ''error'')) else popt (rr_error rr)),
      (''error_class'', if get c ''error_class'' \<noteq> PNone then get c ''error_class''
         else get (rr_data rr) ''error_class'')])"

definition pending_approval :: "run_result \<Rightarrow> bool" where
  "pending_approval rr = (get (rr_data rr) ''status'' = PStr ''pending_approval'')"

definition boundary_error_classes :: "string list" where
  "boundary_error_classes = [''path_blocked_scope'', ''capability_boundary_mismatch'', ''policy_denied'']"

definition step_error_class :: "run_result \<Rightarrow> string" where
  "step_error_class rr = lower (strip (py_str (por
     (get (extract_skill_result (rr_data rr)) ''error_class'')
     (por (get (rr_data rr) ''error_class'') (PStr [])))))"

definition error_text :: "run_result \<Rightarrow> string" where
  "error_text rr = (case rr_error rr of None \<Rightarrow> [] | Some e \<Rightarrow> e)"

definition step_blocked :: "run_result \<Rightarrow> bool" where
  "step_blocked rr =
     (get (extract_skill_result (rr_data rr)) ''blocked'' = PBool True
      \<or> str_or_empty (get (rr_data rr) ''status'') = ''blocked''
      \<or> contains (error_text rr) ''Denied by policy''
      \<or> step_error_class rr \<in> set boundary_error_classes)"

text \<open>The entry of \<open>step_outcomes\<close>\<close>

definition step_outcome :: "dict \<Rightarrow> int \<Rightarrow> nat \<Rightarrow> mission_step \<Rightarrow> run_result \<Rightarrow> dict" where
  "step_outcome ctx start idx st rr =
     (let head = [(''step'', PInt (int idx)), (''skill'', PStr (mst_skill st))] in
      if pending_approval rr then
        head @ [(''outcome'', PStr ''awaiting_approval''), (''approval_status'', PStr ''pending'')]
      else if \<not> rr_ok rr then
        head @ [(''outcome'', PStr (if step_blocked rr then ''blocked'' else ''failed'')),
          (''approval_status'', if contains (error_text rr) ''User rejected approval''
             then PStr ''denied'' else PNone),
          (''reason'', get (rr_data rr) ''reason''),
          (''blocked_reason_class'', por (get (rr_data rr) ''blocked_reason_class'')
             (if step_blocked rr then PStr (step_error_class rr) else PNone))]
      else head @ [(''outcome'', PStr ''succeeded''),
          (''approval_status'', if truthy (get ctx ''approval_resumed'') \<and> int idx = start
             then PStr ''approved'' else PNone)])"

definition pause_data :: "nat \<Rightarrow> mission_step \<Rightarrow> dict \<Rightarrow> dict list \<Rightarrow> dict list \<Rightarrow> nat \<Rightarrow> dict" where
  "pause_data idx st data outputs outcomes tot =
     fold (\<lambda>(k, v) d. dsetdefault d k v) [
       (''results'', PList (map PDict outputs)), (''step'', PInt (int idx)),
       (''skill'', PStr (mst_skill st)), (''step_outcomes'', PList (map PDict outcomes)),
       (''lifecycle_state'', PStr ''awaiting_approval''), (''terminal_outcome'', PNone),
       (''current_step_index'', PInt (int idx)), (''last_completed_step'', PInt (int (idx - 1))),
       (''last_attempted_step'', PInt (int idx)), (''total_steps'', PInt (int tot))] data"

definition terminal_data :: "dict list \<Rightarrow> dict list \<Rightarrow> string \<Rightarrow> string \<Rightarrow> nat \<Rightarrow> nat \<Rightarrow> nat \<Rightarrow> nat \<Rightarrow> dict" where
  "terminal_data outputs outcomes lifecycle terminal current completed attempted tot = [
     (''results'', PList (map PDict outputs)), (''step_outcomes'', PList (map PDict outcomes)),
     (''lifecycle_state'', PStr lifecycle), (''terminal_outcome'', PStr terminal),
     (''current_step_index'', PInt (int current)), (''last_completed_step'', PInt (int completed)),
     (''last_attempted_step'', PInt (int attempted)), (''total_steps'', PInt (int tot))]"

text \<open>The loop over \<open>enumerate(mission.steps, start=1)\<close> and what follows it\<close>

fun mission_loop ::
  "'s mission_env \<Rightarrow> mission \<Rightarrow> dict \<Rightarrow> int \<Rightarrow> nat \<Rightarrow> mission_step list \<Rightarrow> dict list \<Rightarrow> dict list
   \<Rightarrow> 's rstate \<Rightarrow> run_result result \<times> 's rstate" where
  "mission_loop env mi ctx start idx [] outputs outcomes s =
     (let tot = length (mi_steps mi);
          s1 = log_event [(''event'', PStr ''mission_done''), (''mission'', PStr (mi_id mi)),
                 (''steps'', PInt (int tot))] s
      in (Inr \<lparr>rr_ok = True, rr_output = ''Mission completed: '' @ mi_title mi,
            rr_data = terminal_data outputs outcomes ''done'' ''succeeded'' tot tot tot tot,
            rr_error = None\<rparr>,
          append_mission_log env mi outputs ''ok'' None s1))"
| "mission_loop env mi ctx start idx (st # steps) outputs outcomes s =
     (if int idx < start then mission_loop env mi ctx start (Suc idx) steps outputs outcomes s
      else
        let actx = dmerge [(''mission'', PStr (mi_id mi)), (''step'', PInt (int idx))] ctx;
            started = me_now_ms env (rs_world s)
        in case run_mission_step env actx st s of
             (Inl ex, s1) \<Rightarrow> (Inl ex, s1)
           | (Inr rr, s1) \<Rightarrow>
               let outputs' = outputs @ [step_output idx st rr started (me_now_ms env (rs_world s1))];
                   outcomes' = outcomes @ [step_outcome ctx start idx st rr];
                   tot = length (mi_steps mi)
               in if pending_approval rr then
                    (Inr \<lparr>rr_ok = False, rr_output = [],
                       rr_data = pause_data idx st (rr_data rr) outputs' outcomes' tot,
                       rr_error = Some ''Mission paused for approval.''\<rparr>,
                     append_mission_log env mi outputs' ''pending_approval'' (Some idx)
                       (log_event [(''event'', PStr ''mission_pending_approval''),
                          (''mission'', PStr (mi_id mi)), (''step'', PInt (int idx)),
                          (''skill'', PStr (mst_skill st))] s1))
                  else if \<not> rr_ok rr then
                    (Inr \<lparr>rr_ok = False, rr_output = [],
                       rr_data = terminal_data outputs' outcomes'
                         (if step_blocked rr then ''blocked'' else ''step_failed'')
                         (if step_blocked rr then ''blocked'' else ''failed'') idx (idx - 1) idx tot,
                       rr_error = Some (''Mission failed at step '' @ nat_str idx @ '' (''
                         @ mst_skill st @ ''): '' @ (case rr_error rr of None \<Rightarrow> ''None'' | Some e \<Rightarrow> e))\<rparr>,
                     append_mission_log env mi outputs' ''failed'' None
                       (log_event [(''event'', PStr ''mission_error''), (''mission'', PStr (mi_id mi)),
                          (''step'', PInt (int idx)), (''error'', popt (rr_error rr))] s1))
                  else mission_loop env mi ctx start (Suc idx) steps outputs' outcomes' s1)"

definition mission_run ::
  "'s mission_env \<Rightarrow> mission \<Rightarrow> int \<Rightarrow> dict \<Rightarrow> 's rstate \<Rightarrow> run_result result \<times> 's rstate" where
  "mission_run env mi start ctx s =
     mission_loop env mi ctx start 1 (mi_steps mi) [] []
       (log_event [(''event'', PStr ''mission_start''), (''mission'', PStr (mi_id mi)),
          (''steps'', PInt (int (length (mi_steps mi)))), (''start_step'', PInt start)] s)"

section \<open>The dry run of a mission\<close>

record mission_plan =
  mp_title :: string
  mp_goal :: string
  mp_steps :: "plan_step list"
  mp_approvals :: nat
  mp_blocked :: bool
  mp_summary :: string
  mp_intent :: intent_class
  mp_boundaries :: boundaries
  mp_snapshot :: dict
  mp_capabilities :: "string list"

record sim_acc =
  sa_steps :: "plan_step list"
  sa_approvals :: nat
  sa_blocked :: bool
  sa_caps :: "string list"
  sa_boundaries :: boundaries
  sa_intent :: intent_class

definition join_boundaries :: "boundaries \<Rightarrow> boundaries \<Rightarrow> boundaries" where
  "join_boundaries a b = \<lparr>b_filesystem = (b_filesystem a \<or> b_filesystem b),
     b_network = (b_network a \<or> b_network b), b_secrets = (b_secrets a \<or> b_secrets b),
     b_system = (b_system a \<or> b_system b)\<rparr>"

definition simulate_step :: "(string \<Rightarrow> manifest result) \<Rightarrow> policy \<Rightarrow> mission_step \<Rightarrow> sim_acc \<Rightarrow> sim_acc result" where
  "simulate_step registry p st acc =
     bindR (registry (mst_skill st)) (\<lambda>m.
     let sem = manifest_capability_semantics m in
     bindR (simulate_skill m (mst_args st) p) (\<lambda>sim.
       Inr \<lparr>sa_steps = sa_steps acc @ [(hd (sim_steps sim))\<lparr>ps_action := ''Run '' @ mst_skill st\<rparr>],
         sa_approvals = sa_approvals acc + sim_approvals_required sim,
         sa_blocked = (sa_blocked acc \<or> sim_blocked sim),
         sa_caps = sa_caps acc @ m_capabilities m,
         sa_boundaries = join_boundaries (sa_boundaries acc) (ms_boundaries sem),
         sa_intent = (if intent_rank (sa_intent acc) < intent_rank (ms_intent sem) then ms_intent sem
                      else sa_intent acc)\<rparr>))"

fun simulate_steps :: "(string \<Rightarrow> manifest result) \<Rightarrow> policy \<Rightarrow> mission_step list \<Rightarrow> sim_acc \<Rightarrow> sim_acc result" where
  "simulate_steps registry p [] acc = Inr acc"
| "simulate_steps registry p (st # sts) acc =
     bindR (simulate_step registry p st acc) (simulate_steps registry p sts)"

definition mission_simulate ::
  "(string \<Rightarrow> manifest result) \<Rightarrow> policy \<Rightarrow> mission \<Rightarrow> dict option \<Rightarrow> mission_plan result" where
  "mission_simulate registry p mi snapshot =
     bindR (simulate_steps registry p (mi_steps mi)
       \<lparr>sa_steps = [], sa_approvals = 0, sa_blocked = False, sa_caps = [],
        sa_boundaries = \<lparr>b_filesystem = False, b_network = False, b_secrets = False, b_system = False\<rparr>,
        sa_intent = IntentReadOnly\<rparr>) (\<lambda>acc.
       Inr \<lparr>mp_title = ''Mission dry-run: '' @ mi_title mi, mp_goal = mi_goal mi,
         mp_steps = sa_steps acc, mp_approvals = sa_approvals acc, mp_blocked = sa_blocked acc,
         mp_summary = (if sa_blocked acc then ''Blocked by policy'' else ''Mission ready for execution''),
         mp_intent = sa_intent acc, mp_boundaries = sa_boundaries acc,
         mp_snapshot = (case snapshot of None \<Rightarrow> []
           | Some d \<Rightarrow> [(''schema_version'', get d ''schema_version''),
                        (''generated_ts_ms'', get d ''generated_ts_ms'')]),
         mp_capabilities = sorted_set (sa_caps acc)\<rparr>)"

section \<open>What a run of a mission does\<close>

definition step_context :: "mission \<Rightarrow> dict \<Rightarrow> nat \<Rightarrow> dict" where
  "step_context mi ctx idx = dmerge [(''mission'', PStr (mi_id mi)), (''step'', PInt (int idx))] ctx"

text \<open>The abstract execution: the steps run one after the other, each one succeeding.\<close>

inductive steps_done ::
  "'s mission_env \<Rightarrow> mission \<Rightarrow> dict \<Rightarrow> nat \<Rightarrow> mission_step list \<Rightarrow> 's rstate \<Rightarrow> 's rstate \<Rightarrow> bool"
  for env mi ctx where
  done_Nil: "steps_done env mi ctx idx [] s s"
| done_Cons: "run_mission_step env (step_context mi ctx idx) st s = (Inr rr, s1) \<Longrightarrow> rr_ok rr
    \<Longrightarrow> \<not> pending_approval rr \<Longrightarrow> steps_done env mi ctx (Suc idx) sts s1 s2
    \<Longrightarrow> steps_done env mi ctx idx (st # sts) s s2"

inductive_cases steps_done_NilE: "steps_done env mi ctx idx [] s s'"
inductive_cases steps_done_ConsE: "steps_done env mi ctx idx (st # sts) s s'"
inductive_simps steps_done_Nil [simp]: "steps_done env mi ctx idx [] s s'"
inductive_simps steps_done_Cons: "steps_done env mi ctx idx (st # sts) s s'"

text \<open>How the run of a list of steps ended: all done, stopped by a step that failed or waits for
  approval, or left by an exception. The steps behind the one that stopped are not run.\<close>

definition run_stopped :: "'s mission_env \<Rightarrow> mission \<Rightarrow> dict \<Rightarrow> nat \<Rightarrow> mission_step list
    \<Rightarrow> 's rstate \<Rightarrow> run_result result \<Rightarrow> 's rstate \<Rightarrow> bool" where
  "run_stopped env mi ctx idx steps s r s' \<longleftrightarrow>
     (\<exists>pre st post s1 r1. steps = pre @ st # post \<and> steps_done env mi ctx idx pre s s1
       \<and> run_mission_step env (step_context mi ctx (idx + length pre)) st s1 = (r1, s')
       \<and> (case r1 of Inl ex \<Rightarrow> r = Inl ex
          | Inr rr1 \<Rightarrow> (pending_approval rr1 \<or> \<not> rr_ok rr1) \<and> (\<exists>rr. r = Inr rr \<and> \<not> rr_ok rr)))"

lemma run_stopped_Cons:
  assumes "run_mission_step env (step_context mi ctx idx) st s = (Inr rr, s1)" "rr_ok rr"
    "\<not> pending_approval rr" "run_stopped env mi ctx (Suc idx) sts s1 r s'"
  shows "run_stopped env mi ctx idx (st # sts) s r s'"
  using assms(4) unfolding run_stopped_def
proof (elim exE conjE)
  fix pre x post t r1
  assume a: "sts = pre @ x # post" "steps_done env mi ctx (Suc idx) pre s1 t"
    "run_mission_step env (step_context mi ctx (Suc idx + length pre)) x t = (r1, s')"
    "case r1 of Inl ex \<Rightarrow> r = Inl ex
      | Inr rr1 \<Rightarrow> (pending_approval rr1 \<or> \<not> rr_ok rr1) \<and> (\<exists>rr. r = Inr rr \<and> \<not> rr_ok rr)"
  show "\<exists>pre x post t r1. st # sts = pre @ x # post \<and> steps_done env mi ctx idx pre s t
      \<and> run_mission_step env (step_context mi ctx (idx + length pre)) x t = (r1, s')
      \<and> (case r1 of Inl ex \<Rightarrow> r = Inl ex
          | Inr rr1 \<Rightarrow> (pending_approval rr1 \<or> \<not> rr_ok rr1) \<and> (\<exists>rr. r = Inr rr \<and> \<not> rr_ok rr))"
    by (rule exI [of _ "st # pre"], rule exI [of _ x], rule exI [of _ post], rule exI [of _ t],
        rule exI [of _ r1]) (use a done_Cons [OF assms(1-3) a(2)] in simp)
qed

lemma mission_loop_outcome:
  assumes "mission_loop env mi ctx start idx steps outputs outcomes s = (r, s')" "start \<le> int idx"
  shows "(\<exists>rr s1 os. steps_done env mi ctx idx steps s s1 \<and> r = Inr rr \<and> rr_ok rr
            \<and> s' = append_mission_log env mi os ''ok'' None (log_event [(''event'', PStr ''mission_done''),
                (''mission'', PStr (mi_id mi)), (''steps'', PInt (int (length (mi_steps mi))))] s1))
       \<or> (\<exists>s1. run_stopped env mi ctx idx steps s r s1
            \<and> (s' = s1 \<or> (\<exists>os status p e. s' = append_mission_log env mi os status p (log_event e s1))))"
  using assms
proof (induction steps arbitrary: idx outputs outcomes s)
  case Nil
  then show ?case by (auto simp: Let_def)
next
  case (Cons st steps)
  obtain r1 s1 where run: "run_mission_step env (step_context mi ctx idx) st s = (r1, s1)"
    by (cases "run_mission_step env (step_context mi ctx idx) st s")
  have here: "run_stopped env mi ctx idx (st # steps) s r s1"
    if "case r1 of Inl ex \<Rightarrow> r = Inl ex
        | Inr rr1 \<Rightarrow> (pending_approval rr1 \<or> \<not> rr_ok rr1) \<and> (\<exists>rr. r = Inr rr \<and> \<not> rr_ok rr)"
    unfolding run_stopped_def
    by (rule exI [of _ "[]"], rule exI [of _ st], rule exI [of _ steps], rule exI [of _ s],
        rule exI [of _ r1]) (use run that in simp)
  show ?case
  proof (cases r1)
    case (Inl ex)
    with Cons.prems run here show ?thesis by (auto simp: Let_def step_context_def)
  next
    case (Inr rr)
    show ?thesis
    proof (cases "pending_approval rr \<or> \<not> rr_ok rr")
      case True
      with Cons.prems run Inr have "\<exists>rr. r = Inr rr \<and> \<not> rr_ok rr"
        and "\<exists>os status p e. s' = append_mission_log env mi os status p (log_event e s1)"
        by (auto simp: Let_def step_context_def split: if_splits)
      moreover have "run_stopped env mi ctx idx (st # steps) s r s1"
        by (rule here) (use True \<open>\<exists>rr. r = Inr rr \<and> \<not> rr_ok rr\<close> Inr in simp)
      ultimately show ?thesis by blast
    next
      case False
      let ?o = "outputs @ [step_output idx st rr (me_now_ms env (rs_world s)) (me_now_ms env (rs_world s1))]"
        and ?c = "outcomes @ [step_outcome ctx start idx st rr]"
      from False Cons.prems run Inr
      have rec: "mission_loop env mi ctx start (Suc idx) steps ?o ?c s1 = (r, s')"
        by (simp add: Let_def step_context_def)
      from Cons.prems(2) have le: "start \<le> int (Suc idx)" by simp
      note run' = run [unfolded Inr]
      from Cons.IH [OF rec le] False show ?thesis
        using done_Cons [OF run'] run_stopped_Cons [OF run'] by blast
    qed
  qed
qed

lemma mission_loop_skip:
  "int (idx + n) \<le> start \<or> n = 0 \<Longrightarrow> n \<le> length steps \<Longrightarrow>
   mission_loop env mi ctx start idx steps os oc s = mission_loop env mi ctx start (idx + n) (drop n steps) os oc s"
proof (induction n arbitrary: idx steps)
  case (Suc n)
  then obtain st sts where steps: "steps = st # sts" by (cases steps) auto
  with Suc.prems have "int idx < start" "int (Suc idx + n) \<le> start \<or> n = 0" "n \<le> length sts" by auto
  with Suc.IH [of "Suc idx" sts] steps show ?case by simp
qed simp

text \<open>A resumed mission runs the steps from the one it resumes at, and no earlier one.\<close>

lemma mission_run_resume:
  assumes "1 \<le> start" "nat start \<le> Suc (length (mi_steps mi))"
  shows "mission_run env mi start ctx s =
    mission_loop env mi ctx start (nat start) (drop (nat start - 1) (mi_steps mi)) [] []
       (log_event [(''event'', PStr ''mission_start''), (''mission'', PStr (mi_id mi)),
          (''steps'', PInt (int (length (mi_steps mi)))), (''start_step'', PInt start)] s)"
proof -
  have "int (1 + (nat start - 1)) \<le> start" "1 + (nat start - 1) = nat start"
    using assms(1) by linarith+
  then show ?thesis
    unfolding mission_run_def using assms(2)
    by (subst mission_loop_skip [of _ "nat start - 1"]) simp_all
qed

section \<open>What a dry run tells\<close>

definition step_decision :: "(string \<Rightarrow> manifest result) \<Rightarrow> policy \<Rightarrow> mission_step \<Rightarrow> decision option" where
  "step_decision registry p st = (case registry (mst_skill st) of
     Inl _ \<Rightarrow> None
   | Inr m \<Rightarrow> (case canonicalize_args (m_id m) (mst_args st) of
       Inl _ \<Rightarrow> None | Inr args \<Rightarrow> Some (pd_decision (decide m p args))))"

lemma simulate_step_ok:
  "simulate_step registry p st acc = Inr acc' \<Longrightarrow>
     (\<exists>m d. registry (mst_skill st) = Inr m \<and> step_decision registry p st = Some d
       \<and> sa_blocked acc' = (sa_blocked acc \<or> d = Deny)
       \<and> sa_approvals acc' = sa_approvals acc + (if d = Ask then 1 else 0)
       \<and> sa_caps acc' = sa_caps acc @ m_capabilities m
       \<and> length (sa_steps acc') = Suc (length (sa_steps acc)))"
  by (auto simp: simulate_step_def simulate_skill_def step_decision_def Let_def result_iff)

lemma simulate_steps_ok:
  "simulate_steps registry p sts acc = Inr acc' \<Longrightarrow>
     (\<forall>st \<in> set sts. \<exists>d. step_decision registry p st = Some d)
     \<and> sa_blocked acc' = (sa_blocked acc \<or> (\<exists>st \<in> set sts. step_decision registry p st = Some Deny))
     \<and> sa_approvals acc' = sa_approvals acc + length (filter (\<lambda>st. step_decision registry p st = Some Ask) sts)
     \<and> set (sa_caps acc') = set (sa_caps acc) \<union>
          {c. \<exists>st \<in> set sts. \<exists>m. registry (mst_skill st) = Inr m \<and> c \<in> set (m_capabilities m)}
     \<and> length (sa_steps acc') = length (sa_steps acc) + length sts"
proof (induction sts arbitrary: acc)
  case (Cons st sts)
  then obtain acc1 where one: "simulate_step registry p st acc = Inr acc1"
    and rest: "simulate_steps registry p sts acc1 = Inr acc'" by (auto simp: result_iff)
  from simulate_step_ok [OF one] obtain m d where
    "registry (mst_skill st) = Inr m" "step_decision registry p st = Some d"
    "sa_blocked acc1 = (sa_blocked acc \<or> d = Deny)"
    "sa_approvals acc1 = sa_approvals acc + (if d = Ask then 1 else 0)"
    "sa_caps acc1 = sa_caps acc @ m_capabilities m"
    "length (sa_steps acc1) = Suc (length (sa_steps acc))" by blast
  with Cons.IH [OF rest] show ?case by auto
qed simp

lemma mission_simulate_facts:
  assumes "mission_simulate registry p mi snap = Inr plan"
  shows "mp_blocked plan \<longleftrightarrow> (\<exists>st \<in> set (mi_steps mi). step_decision registry p st = Some Deny)"
    and "mp_approvals plan = length (filter (\<lambda>st. step_decision registry p st = Some Ask) (mi_steps mi))"
    and "set (mp_capabilities plan) =
      {c. \<exists>st \<in> set (mi_steps mi). \<exists>m. registry (mst_skill st) = Inr m \<and> c \<in> set (m_capabilities m)}"
    and "sorted (mp_capabilities plan) \<and> distinct (mp_capabilities plan)"
    and "length (mp_steps plan) = length (mi_steps mi)"
proof -
  let ?z = "\<lparr>b_filesystem = False, b_network = False, b_secrets = False, b_system = False\<rparr>"
  obtain acc where acc: "simulate_steps registry p (mi_steps mi) \<lparr>sa_steps = [], sa_approvals = 0,
      sa_blocked = False, sa_caps = [], sa_boundaries = ?z, sa_intent = IntentReadOnly\<rparr> = Inr acc"
    and plan: "mp_blocked plan = sa_blocked acc" "mp_approvals plan = sa_approvals acc"
      "mp_capabilities plan = sorted_set (sa_caps acc)" "mp_steps plan = sa_steps acc"
    using assms by (auto simp: mission_simulate_def result_iff)
  note facts = simulate_steps_ok [OF acc, simplified]
  show "mp_blocked plan \<longleftrightarrow> (\<exists>st \<in> set (mi_steps mi). step_decision registry p st = Some Deny)"
    using facts plan by blast
  show "mp_approvals plan = length (filter (\<lambda>st. step_decision registry p st = Some Ask) (mi_steps mi))"
    using facts plan by simp
  show "set (mp_capabilities plan) =
      {c. \<exists>st \<in> set (mi_steps mi). \<exists>m. registry (mst_skill st) = Inr m \<and> c \<in> set (m_capabilities m)}"
    using facts plan by simp
  show "sorted (mp_capabilities plan) \<and> distinct (mp_capabilities plan)" using plan by simp
  show "length (mp_steps plan) = length (mi_steps mi)" using facts plan by simp
qed

text \<open>A step the policy denies is never done, in any context.\<close>

lemma denied_result_not_ok [simp]: "\<not> rr_ok (denied_result e)"
  by (simp add: denied_result_def)

lemma denied_step_not_done:
  assumes "step_decision (me_registry env) (me_policy env) st = Some Deny"
    and "run_mission_step env ctx st s = (Inr rr, s')"
  shows "\<not> rr_ok rr" and "rs_world s' = rs_world s"
proof -
  obtain m args where m: "me_registry env (mst_skill st) = Inr m"
    and args: "canonicalize_args (m_id m) (mst_args st) = Inr args"
    and d: "pd_decision (decide m (me_policy env) args) = Deny"
    using assms(1) by (auto simp: step_decision_def split: sum.splits)
  from d have den: "ce_denied (enforce_runtime_capabilities m (me_policy env) args)"
    using not_denied_iff by blast
  let ?r = "skill_run (me_skills env) (me_approval env) m (mst_args st) (me_policy env) ctx s"
  from run_result_blocked_world [OF args den]
  have res: "fst ?r = Inr (denied_result (enforce_runtime_capabilities m (me_policy env) args))"
    and world: "rs_world (snd ?r) = rs_world s" by blast+
  from res have eq: "run_mission_step env ctx st s = ?r"
    by (cases ?r) (simp add: run_mission_step_def m)
  then have r: "?r = (Inr rr, s')" using assms(2) by simp
  then show "\<not> rr_ok rr" using res by auto
  show "rs_world s' = rs_world s" using world r by simp
qed

lemma steps_done_not_denied:
  "steps_done env mi ctx idx steps s s' \<Longrightarrow> st \<in> set steps \<Longrightarrow>
   step_decision (me_registry env) (me_policy env) st \<noteq> Some Deny"
  by (induction rule: steps_done.induct) (auto dest: denied_step_not_done(1))

end
