(* ===== verification/Simple_Intent.thy ===== *)
theory Simple_Intent
  imports PyValue
begin

text \<open>
  Models the result type and the two guards of \<open>voxera/core/simple_intent.py\<close>: the serialised route
  with its read-target filter, and the check that a planned first step stays in the skill family of a
  deterministic intent. The classifier is in Intent_Classifier.
\<close>

datatype intent_kind = AssistantQuestion | OpenTerminal | OpenUrl | OpenApp | WriteFile | ReadFile
  | RunCommand | UnknownOrAmbiguous

fun intent_kind_name :: "intent_kind \<Rightarrow> string" where
  "intent_kind_name AssistantQuestion = ''assistant_question''"
| "intent_kind_name OpenTerminal = ''open_terminal''"
| "intent_kind_name OpenUrl = ''open_url''"
| "intent_kind_name OpenApp = ''open_app''"
| "intent_kind_name WriteFile = ''write_file''"
| "intent_kind_name ReadFile = ''read_file''"
| "intent_kind_name RunCommand = ''run_command''"
| "intent_kind_name UnknownOrAmbiguous = ''unknown_or_ambiguous''"

text \<open>The sets of skills that the branches of the classifier pass\<close>

definition advisory_skills :: "string list" where
  "advisory_skills = [''assistant.advisory'', ''system.status'']"

definition open_terminal_skills :: "string list" where
  "open_terminal_skills = [''system.open_app'']"

definition open_url_skills :: "string list" where
  "open_url_skills = [''system.open_url'']"

definition open_app_skills :: "string list" where
  "open_app_skills = [''system.open_app'']"

definition write_skills :: "string list" where
  "write_skills = [''files.write_text'']"

definition read_skills :: "string list" where
  "read_skills = [''files.read_text'']"

definition run_skills :: "string list" where
  "run_skills = [''sandbox.exec'']"

definition no_constraint :: "string list" where
  "no_constraint = []"

lemmas skill_set_defs = advisory_skills_def open_terminal_skills_def open_url_skills_def open_app_skills_def
  write_skills_def read_skills_def run_skills_def no_constraint_def

text \<open>\<open>INTENT_ALLOWED_SKILLS\<close>\<close>

fun intent_allowed_skills :: "intent_kind \<Rightarrow> string list" where
  "intent_allowed_skills AssistantQuestion = advisory_skills"
| "intent_allowed_skills OpenTerminal = open_terminal_skills"
| "intent_allowed_skills OpenUrl = open_url_skills"
| "intent_allowed_skills OpenApp = open_app_skills"
| "intent_allowed_skills WriteFile = write_skills"
| "intent_allowed_skills ReadFile = read_skills"
| "intent_allowed_skills RunCommand = run_skills"
| "intent_allowed_skills UnknownOrAmbiguous = no_constraint"

record simple_intent =
  si_kind :: intent_kind
  si_deterministic :: bool
  si_allowed :: "string list"
  si_reason :: string
  si_fail_closed :: bool
  si_target :: "string option"
  si_compound :: bool
  si_first_only :: bool
  si_first_kind :: "intent_kind option"
  si_remainder :: "string option"

text \<open>\<open>SimpleIntentResult\<close> with the defaults of its optional fields\<close>

definition intent_result ::
  "intent_kind \<Rightarrow> bool \<Rightarrow> string list \<Rightarrow> string \<Rightarrow> bool \<Rightarrow> string option \<Rightarrow> simple_intent" where
  "intent_result kind deterministic allowed reason fail_closed target = \<lparr>si_kind = kind,
     si_deterministic = deterministic, si_allowed = allowed, si_reason = reason, si_fail_closed = fail_closed,
     si_target = target, si_compound = False, si_first_only = False, si_first_kind = None, si_remainder = None\<rparr>"

definition make_unknown :: "string \<Rightarrow> simple_intent" where
  "make_unknown reason = intent_result UnknownOrAmbiguous False no_constraint reason False None"

definition contains_parent_traversal :: "string \<Rightarrow> bool" where
  "contains_parent_traversal path =
     (''..'' \<in> set (split_on CHR ''/'' (map (\<lambda>c. if c = CHR 0x5C then CHR ''/'' else c) path)))"

definition is_safe_read_target :: "string \<Rightarrow> bool" where
  "is_safe_read_target path = (starts_with path ''~/VoxeraOS/notes/'' \<and> \<not> contains_parent_traversal path)"

text \<open>\<open>SimpleIntentResult.to_dict\<close>\<close>

definition intent_to_dict :: "simple_intent \<Rightarrow> dict" where
  "intent_to_dict i = [(''intent_kind'', PStr (intent_kind_name (si_kind i))),
     (''deterministic'', PBool (si_deterministic i)), (''allowed_skill_ids'', pstrs (sort (si_allowed i))),
     (''routing_reason'', PStr (si_reason i)), (''fail_closed'', PBool (si_fail_closed i)),
     (''compound_action'', PBool (si_compound i)), (''first_step_only'', PBool (si_first_only i))]
   @ (case si_target i of None \<Rightarrow> []
      | Some t \<Rightarrow> if si_kind i \<noteq> ReadFile \<or> is_safe_read_target t then [(''extracted_target'', PStr t)] else [])
   @ (case si_first_kind i of None \<Rightarrow> []
      | Some k \<Rightarrow> [(''first_action_intent_kind'', PStr (intent_kind_name k))])
   @ (case si_remainder i of None \<Rightarrow> [] | Some r \<Rightarrow> [(''trailing_remainder'', PStr r)])"

text \<open>\<open>str(v).strip() if v is not None else ""\<close>\<close>

definition text_or_empty :: "py \<Rightarrow> string" where
  "text_or_empty v = (if v = PNone then [] else strip (py_str v))"

definition sanitize_intent_route :: "dict \<Rightarrow> dict" where
  "sanitize_intent_route route =
     (let extracted = text_or_empty (get route ''extracted_target'') in
      if text_or_empty (get route ''intent_kind'') = ''read_file'' then
        if extracted = [] \<or> \<not> is_safe_read_target extracted then dpop route ''extracted_target''
        else dput route ''extracted_target'' (PStr extracted)
      else route)"

definition check_skill_family_mismatch :: "simple_intent \<Rightarrow> string \<Rightarrow> bool \<times> string" where
  "check_skill_family_mismatch i sid =
     (if \<not> si_deterministic i \<or> \<not> si_fail_closed i then (False, ''intent_not_deterministic'')
      else if si_kind i = UnknownOrAmbiguous then (False, ''intent_not_deterministic'')
      else if si_allowed i = [] then (False, ''no_allowed_skill_constraint'')
      else if sid \<in> set (si_allowed i) then (False, ''skill_family_matches'')
      else (True, ''simple_intent_skill_family_mismatch''))"

section \<open>What the guards ensure\<close>

lemma text_or_empty_PStr [simp]: "text_or_empty (PStr s) = strip s"
  by (simp add: text_or_empty_def)

lemma text_or_empty_PNone [simp]: "text_or_empty PNone = []"
  by (simp add: text_or_empty_def)

text \<open>A route that says \<open>read_file\<close> leaves with a safe target or with none.\<close>

lemma sanitized_read_target:
  assumes "text_or_empty (get (sanitize_intent_route route) ''intent_kind'') = ''read_file''"
    and "has_key (sanitize_intent_route route) ''extracted_target''"
  shows "\<exists>t. get (sanitize_intent_route route) ''extracted_target'' = PStr t \<and> is_safe_read_target t"
  using assms by (auto simp: sanitize_intent_route_def Let_def split: if_splits)

lemma sanitize_other_fields:
  "k \<noteq> ''extracted_target'' \<Longrightarrow> get (sanitize_intent_route route) k = get route k"
  by (simp add: sanitize_intent_route_def Let_def)

lemma mismatch_iff:
  "fst (check_skill_family_mismatch i sid) \<longleftrightarrow>
     si_deterministic i \<and> si_fail_closed i \<and> si_kind i \<noteq> UnknownOrAmbiguous \<and> si_allowed i \<noteq> []
     \<and> sid \<notin> set (si_allowed i)"
  by (auto simp: check_skill_family_mismatch_def)

text \<open>A safe target has no parent segment, with either separator.\<close>

definition slashes :: "string \<Rightarrow> string" where
  "slashes t = map (\<lambda>c. if c = CHR 0x5C then CHR ''/'' else c) t"

lemma split_on_slashes:
  "(CHR 0x5C \<notin> set (hd (split_on CHR ''/'' t)) \<longrightarrow> hd (split_on CHR ''/'' (slashes t)) = hd (split_on CHR ''/'' t))
   \<and> (\<forall>p \<in> set (tl (split_on CHR ''/'' t)). CHR 0x5C \<notin> set p \<longrightarrow> p \<in> set (tl (split_on CHR ''/'' (slashes t))))"
proof (induction t)
  case (Cons c t)
  obtain p ps where s: "split_on CHR ''/'' t = p # ps" by (cases "split_on CHR ''/'' t") auto
  obtain q qs where m: "split_on CHR ''/'' (slashes t) = q # qs"
    by (cases "split_on CHR ''/'' (slashes t)") auto
  have "slashes (c # t) = (if c = CHR 0x5C then CHR ''/'' else c) # slashes t"
    by (simp add: slashes_def)
  with Cons.IH s m show ?case by auto
qed (simp add: slashes_def)

lemma safe_target_segments:
  assumes "is_safe_read_target t"
  shows "starts_with t ''~/VoxeraOS/notes/''" and "''..'' \<notin> set (split_on CHR ''/'' t)"
proof -
  show "starts_with t ''~/VoxeraOS/notes/''" using assms by (simp add: is_safe_read_target_def)
  have safe: "''..'' \<notin> set (split_on CHR ''/'' (slashes t))"
    using assms by (simp add: is_safe_read_target_def contains_parent_traversal_def slashes_def)
  obtain p ps q qs where "split_on CHR ''/'' t = p # ps" "split_on CHR ''/'' (slashes t) = q # qs"
    by (meson list.exhaust split_on_nonempty)
  with safe split_on_slashes [of t] show "''..'' \<notin> set (split_on CHR ''/'' t)" by auto
qed

end
