(* ===== verification/Queue_Contracts.thy ===== *)
theory Queue_Contracts
  imports Missions Simple_Intent
begin

text \<open>
  Models \<open>voxera/core/queue_contracts.py\<close>: the requests a job payload carries, the lineage of a job,
  the execution envelope, the structured step results and the execution result with its artifact
  contract. The artifact directory is a predicate on file names, the clock an argument; every dict the
  code builds is a dict of the model with the same keys in the same order.
\<close>

section \<open>Text helpers\<close>

text \<open>\<open>str(v or "").strip()\<close> and its lowered form\<close>

definition clean_str :: "py \<Rightarrow> string" where
  "clean_str v = strip (str_or_empty v)"

definition clean_lower :: "py \<Rightarrow> string" where
  "clean_lower v = lower (clean_str v)"

text \<open>\<open>s or None\<close> for a string, \<open>n or None\<close> for an int\<close>

definition str_or_none :: "string \<Rightarrow> py" where
  "str_or_none s = (if s = [] then PNone else PStr s)"

definition int_or_none :: "int \<Rightarrow> py" where
  "int_or_none n = (if n = 0 then PNone else PInt n)"

definition keep_list :: "py \<Rightarrow> py" where
  "keep_list v = (if is_list v then v else PList [])"

definition keep_dict :: "py \<Rightarrow> py" where
  "keep_dict v = (if is_dict v then v else PDict [])"

definition dict_or_none :: "py \<Rightarrow> py" where
  "dict_or_none v = (if is_dict v then v else PNone)"

definition path_join :: "string \<Rightarrow> string \<Rightarrow> string" where
  "path_join base part = (if part = [] then base else if ends_with base ''/'' then base @ part
     else base @ ''/'' @ part)"

definition boundary_blocked_classes :: "string list" where
  "boundary_blocked_classes = [''path_blocked_scope'', ''capability_boundary_mismatch'', ''policy_denied'']"

section \<open>Lineage\<close>

definition sanitize_lineage_string :: "py \<Rightarrow> string option" where
  "sanitize_lineage_string v = (case v of PStr s \<Rightarrow> if strip s = [] then None else Some (strip s) | _ \<Rightarrow> None)"

text \<open>\<open>int\<close> of an infinite float raises \<open>OverflowError\<close>, which is not caught.\<close>

definition sanitize_lineage_int :: "py \<Rightarrow> int option result" where
  "sanitize_lineage_int v = (case py_int v of
     Inr n \<Rightarrow> Inr (if 0 \<le> n then Some n else None)
   | Inl e \<Rightarrow> if class_of e \<in> {TypeError, ValueError} then Inr None else Inl e)"

definition lineage_roles :: "string list" where
  "lineage_roles = [''root'', ''child'']"

definition lineage_keys :: "string list" where
  "lineage_keys = [''parent_job_id'', ''root_job_id'', ''orchestration_depth'', ''sequence_index'', ''lineage_role'']"

record lineage =
  ln_parent :: "string option"
  ln_root :: "string option"
  ln_depth :: int
  ln_sequence :: "int option"
  ln_role :: "string option"

fun opt_int :: "int option \<Rightarrow> py" where
  "opt_int None = PNone" | "opt_int (Some n) = PInt n"

definition lineage_dict :: "lineage \<Rightarrow> dict" where
  "lineage_dict l = [(''parent_job_id'', popt (ln_parent l)), (''root_job_id'', popt (ln_root l)),
     (''orchestration_depth'', PInt (ln_depth l)), (''sequence_index'', opt_int (ln_sequence l)),
     (''lineage_role'', popt (ln_role l))]"

definition lineage_source :: "dict \<Rightarrow> dict" where
  "lineage_source payload = (case get payload ''lineage'' of PDict d \<Rightarrow> d | _ \<Rightarrow> payload)"

definition extract_lineage_metadata :: "dict \<Rightarrow> lineage option result" where
  "extract_lineage_metadata payload =
     (let source = lineage_source payload in
      bindR (sanitize_lineage_int (get source ''orchestration_depth'')) (\<lambda>depth.
      bindR (sanitize_lineage_int (get source ''sequence_index'')) (\<lambda>seq.
      let role = (case sanitize_lineage_string (get source ''lineage_role'') of
             None \<Rightarrow> None
           | Some r \<Rightarrow> if lower r \<in> set lineage_roles then Some (lower r) else None)
      in if \<not> (\<exists>k \<in> set lineage_keys. has_key source k) then Inr None
         else Inr (Some \<lparr>ln_parent = sanitize_lineage_string (get source ''parent_job_id''),
           ln_root = sanitize_lineage_string (get source ''root_job_id''),
           ln_depth = (case depth of None \<Rightarrow> 0 | Some n \<Rightarrow> n),
           ln_sequence = seq, ln_role = role\<rparr>))))"

definition no_lineage :: lineage where
  "no_lineage = \<lparr>ln_parent = None, ln_root = None, ln_depth = 0, ln_sequence = None, ln_role = None\<rparr>"

definition compute_child_lineage :: "string \<Rightarrow> dict \<Rightarrow> lineage result" where
  "compute_child_lineage parent_job_id parent_payload =
     bindR (extract_lineage_metadata parent_payload) (\<lambda>found.
     let parent = lineage_dict (case found of None \<Rightarrow> no_lineage | Some l \<Rightarrow> l) in
     bindR (sanitize_lineage_int (get parent ''orchestration_depth'')) (\<lambda>depth.
     bindR (sanitize_lineage_int (get parent ''sequence_index'')) (\<lambda>seq.
       Inr \<lparr>ln_parent = Some parent_job_id,
         ln_root = (case sanitize_lineage_string (get parent ''root_job_id'') of
            None \<Rightarrow> Some parent_job_id | Some r \<Rightarrow> Some r),
         ln_depth = (case depth of None \<Rightarrow> 0 | Some n \<Rightarrow> n) + 1,
         ln_sequence = Some (case seq of None \<Rightarrow> 1 | Some n \<Rightarrow> n + 1),
         ln_role = Some ''child''\<rparr>)))"

section \<open>Requests\<close>

definition unknown_keys :: "dict \<Rightarrow> string list \<Rightarrow> string list" where
  "unknown_keys raw allowed = sorted_set (filter (\<lambda>k. k \<notin> set allowed) (map fst raw))"

text \<open>The shared start of the three extractors: absent, not an object, or with unknown keys\<close>

definition request_object :: "dict \<Rightarrow> string \<Rightarrow> string list \<Rightarrow> (dict \<Rightarrow> py result) \<Rightarrow> py result" where
  "request_object payload key allowed body =
     (if \<not> has_key payload key then Inr PNone
      else case get payload key of
        PDict raw \<Rightarrow> if unknown_keys raw allowed \<noteq> [] then
            raise_value (key @ '' contains unsupported keys: '' @ join '', '' (unknown_keys raw allowed))
          else body raw
      | _ \<Rightarrow> raise_value (key @ '' must be an object''))"

definition required_str :: "dict \<Rightarrow> string \<Rightarrow> string \<Rightarrow> string result" where
  "required_str raw key msg = (case sanitize_lineage_string (get raw key) of
     None \<Rightarrow> raise_value msg | Some s \<Rightarrow> Inr s)"

definition extract_enqueue_child_request :: "dict \<Rightarrow> py result" where
  "extract_enqueue_child_request payload =
     request_object payload ''enqueue_child'' [''goal'', ''title''] (\<lambda>raw.
       bindR (required_str raw ''goal'' ''enqueue_child.goal must be a non-empty string'') (\<lambda>goal.
       Inr (PDict [(''goal'', PStr goal), (''title'', popt (sanitize_lineage_string (get raw ''title'')))])))"

text \<open>\<open>(_sanitize_lineage_string(v) or default).lower()\<close>, checked against the modes\<close>

definition request_mode :: "py \<Rightarrow> string \<Rightarrow> string list \<Rightarrow> string \<Rightarrow> string result" where
  "request_mode v dflt modes msg =
     (let m = lower (case sanitize_lineage_string v of None \<Rightarrow> dflt | Some s \<Rightarrow> s)
      in if m \<in> set modes then Inr m else raise_value msg)"

definition extract_write_file_request :: "dict \<Rightarrow> py result" where
  "extract_write_file_request payload =
     request_object payload ''write_file'' [''path'', ''content'', ''mode''] (\<lambda>raw.
       bindR (required_str raw ''path'' ''write_file.path must be a non-empty string'') (\<lambda>path.
       (case get raw ''content'' of
          PStr content \<Rightarrow>
            bindR (request_mode (get raw ''mode'') ''overwrite'' [''overwrite'', ''append'']
                     ''write_file.mode must be overwrite or append'') (\<lambda>mode.
            Inr (PDict [(''path'', PStr path), (''content'', PStr content), (''mode'', PStr mode)]))
        | _ \<Rightarrow> raise_value ''write_file.content must be a string'')))"

definition request_flag :: "dict \<Rightarrow> string \<Rightarrow> string \<Rightarrow> bool result" where
  "request_flag raw key msg = (case get_or raw key (PBool False) of PBool b \<Rightarrow> Inr b | _ \<Rightarrow> raise_value msg)"

definition extract_file_organize_request :: "dict \<Rightarrow> py result" where
  "extract_file_organize_request payload =
     request_object payload ''file_organize''
       [''source_path'', ''destination_dir'', ''mode'', ''overwrite'', ''delete_original''] (\<lambda>raw.
       bindR (required_str raw ''source_path'' ''file_organize.source_path must be a non-empty string'') (\<lambda>src.
       bindR (required_str raw ''destination_dir''
                ''file_organize.destination_dir must be a non-empty string'') (\<lambda>dst.
       bindR (request_mode (get raw ''mode'') ''copy'' [''copy'', ''move'']
                ''file_organize.mode must be copy or move'') (\<lambda>mode.
       bindR (request_flag raw ''overwrite''
                ''file_organize.overwrite must be a boolean when provided'') (\<lambda>overwrite.
       bindR (request_flag raw ''delete_original''
                ''file_organize.delete_original must be a boolean when provided'') (\<lambda>del.
       Inr (PDict [(''source_path'', PStr src), (''destination_dir'', PStr dst), (''mode'', PStr mode),
         (''overwrite'', PBool overwrite), (''delete_original'', PBool del)])))))))"

section \<open>Request kinds\<close>

definition request_kind_aliases :: "(string \<times> string) list" where
  "request_kind_aliases = [(''mission'', ''mission_id''), (''mission_id'', ''mission_id''),
     (''file_organize'', ''file_organize''), (''goal'', ''goal''), (''inline_steps'', ''inline_steps''),
     (''steps'', ''inline_steps'')]"

definition non_canonical_kinds :: "string list" where
  "non_canonical_kinds = [''assistant_question'', ''write_file'', ''open_url'', ''open_app'', ''run_command'']"

definition canonical_kinds :: "string list" where
  "canonical_kinds = [''mission_id'', ''file_organize'', ''goal'', ''inline_steps'', ''unknown'']"

definition normalize_kind :: "py \<Rightarrow> string" where
  "normalize_kind raw = (let v = clean_lower raw in
     if v = [] then []
     else case map_of request_kind_aliases v of
       Some k \<Rightarrow> k
     | None \<Rightarrow> if v \<in> set non_canonical_kinds then v else ''unknown'')"

definition detect_request_kind :: "dict \<Rightarrow> string" where
  "detect_request_kind payload =
     (let intent = (case get payload ''job_intent'' of
            PDict i \<Rightarrow> normalize_kind (get i ''request_kind'') | _ \<Rightarrow> []);
          kind = normalize_kind (get payload ''kind'')
      in if intent \<noteq> [] then intent
         else if kind \<noteq> [] then kind
         else if truthy (get payload ''mission_id'') \<or> truthy (get payload ''mission'') then ''mission_id''
         else if truthy (get payload ''file_organize'') then ''file_organize''
         else if truthy (get payload ''goal'') \<or> truthy (get payload ''plan_goal'') then ''goal''
         else if truthy (get payload ''steps'') then ''inline_steps''
         else ''unknown'')"

text \<open>\<open>CANONICAL_QUEUE_PAYLOAD_FIELDS\<close> is a frozenset: the order of the normalised dict is not fixed
  by the code; the model takes the order of the source text.\<close>

definition canonical_payload_fields :: "string list" where
  "canonical_payload_fields = [''mission_id'', ''goal'', ''title'', ''steps'', ''enqueue_child'',
     ''write_file'', ''file_organize'', ''approval_required'', ''_simple_intent'', ''lineage'', ''job_intent'']"

definition normalize_canonical_queue_payload :: "dict \<Rightarrow> dict" where
  "normalize_canonical_queue_payload payload =
     map (\<lambda>k. (k, get payload k)) (filter (has_key payload) canonical_payload_fields)"

section \<open>Requests are normal forms\<close>

lemma sanitize_string_Some:
  "sanitize_lineage_string v = Some s \<longleftrightarrow> (\<exists>t. v = PStr t \<and> strip t = s \<and> s \<noteq> [])"
  by (auto simp: sanitize_lineage_string_def split: py.splits)

lemma sanitize_string_again: "sanitize_lineage_string v = Some s \<Longrightarrow> sanitize_lineage_string (PStr s) = Some s"
  by (auto simp: sanitize_string_Some)

lemma required_str_Inr: "required_str raw k m = Inr s \<longleftrightarrow> sanitize_lineage_string (get raw k) = Some s"
  by (simp add: required_str_def split: option.splits)

lemma request_mode_Inr: "request_mode v d ms msg = Inr m \<Longrightarrow> m \<in> set ms"
  by (auto simp: request_mode_def Let_def split: if_splits)

lemma request_mode_again:
  assumes "m \<in> set ms" "strip m = m" "m \<noteq> []" "lower m = m"
  shows "request_mode (PStr m) d ms msg = Inr m"
  using assms by (simp add: request_mode_def Let_def sanitize_lineage_string_def)

lemma lower_word_fixed:
  "strip m = m \<and> m \<noteq> [] \<and> lower m = m" if "m \<in> {''overwrite'', ''append'', ''copy'', ''move'', ''child'', ''root''}"
  using that by (auto simp: strip_def lstrip_def rstrip_def is_space_def lower_def lower_char_def code_def Let_def)

lemma request_flag_Inr: "request_flag raw k m = Inr b \<longleftrightarrow> get_or raw k (PBool False) = PBool b"
  by (auto simp: request_flag_def split: py.splits)

lemma unknown_keys_Nil: "unknown_keys raw allowed = [] \<longleftrightarrow> fst ` set raw \<subseteq> set allowed"
  by (auto simp: unknown_keys_def filter_empty_conv)

text \<open>What a successful extraction returns\<close>

lemma write_file_request:
  assumes "extract_write_file_request payload = Inr (PDict d)"
  shows "\<exists>path content mode. d = [(''path'', PStr path), (''content'', PStr content), (''mode'', PStr mode)]
    \<and> path \<noteq> [] \<and> strip path = path \<and> mode \<in> {''overwrite'', ''append''}"
proof -
  from assms obtain raw where get: "get payload ''write_file'' = PDict raw"
    and body: "bindR (required_str raw ''path'' ''write_file.path must be a non-empty string'') (\<lambda>path.
       (case get raw ''content'' of
          PStr content \<Rightarrow>
            bindR (request_mode (get raw ''mode'') ''overwrite'' [''overwrite'', ''append'']
                     ''write_file.mode must be overwrite or append'') (\<lambda>mode.
            Inr (PDict [(''path'', PStr path), (''content'', PStr content), (''mode'', PStr mode)]))
        | _ \<Rightarrow> raise_value ''write_file.content must be a string'')) = Inr (PDict d)"
    unfolding extract_write_file_request_def request_object_def
    by (auto split: if_splits py.splits)
  then show ?thesis
    by (cases "get raw ''content''") (auto simp: result_iff required_str_Inr sanitize_string_Some dest!: request_mode_Inr)
qed

lemma write_file_again:
  assumes "path \<noteq> []" "strip path = path" "mode \<in> {''overwrite'', ''append''}"
  shows "extract_write_file_request [(''write_file'',
     PDict [(''path'', PStr path), (''content'', PStr content), (''mode'', PStr mode)])]
   = Inr (PDict [(''path'', PStr path), (''content'', PStr content), (''mode'', PStr mode)])"
proof -
  have "strip mode = mode \<and> mode \<noteq> [] \<and> lower mode = mode" using assms(3) by (intro lower_word_fixed) auto
  then have "request_mode (PStr mode) ''overwrite'' [''overwrite'', ''append''] msg = Inr mode" for msg
    using assms(3) by (intro request_mode_again) auto
  moreover have "unknown_keys [(''path'', PStr path), (''content'', PStr content), (''mode'', PStr mode)]
      [''path'', ''content'', ''mode''] = []" by (simp add: unknown_keys_Nil)
  moreover have "required_str ((''path'', PStr path) # r) ''path'' msg = Inr path" for r msg
    using assms by (simp add: required_str_Inr sanitize_string_Some)
  ultimately show ?thesis
    by (simp add: extract_write_file_request_def request_object_def)
qed

lemma file_organize_request:
  assumes "extract_file_organize_request payload = Inr (PDict d)"
  shows "\<exists>src dst mode ow del. d = [(''source_path'', PStr src), (''destination_dir'', PStr dst),
      (''mode'', PStr mode), (''overwrite'', PBool ow), (''delete_original'', PBool del)]
    \<and> src \<noteq> [] \<and> strip src = src \<and> dst \<noteq> [] \<and> strip dst = dst \<and> mode \<in> {''copy'', ''move''}"
  using assms unfolding extract_file_organize_request_def request_object_def
  by (auto simp: result_iff required_str_Inr sanitize_string_Some split: if_splits py.splits dest!: request_mode_Inr)

lemma file_organize_again:
  assumes "src \<noteq> []" "strip src = src" "dst \<noteq> []" "strip dst = dst" "mode \<in> {''copy'', ''move''}"
    and d: "d = [(''source_path'', PStr src), (''destination_dir'', PStr dst),
      (''mode'', PStr mode), (''overwrite'', PBool ow), (''delete_original'', PBool del)]"
  shows "extract_file_organize_request [(''file_organize'', PDict d)] = Inr (PDict d)"
proof -
  have "strip mode = mode \<and> mode \<noteq> [] \<and> lower mode = mode" using assms(5) by (intro lower_word_fixed) auto
  then have "request_mode (get d ''mode'') ''copy'' [''copy'', ''move''] msg = Inr mode" for msg
    using assms(5) by (simp add: d) (intro request_mode_again, auto)
  moreover have "unknown_keys d
      [''source_path'', ''destination_dir'', ''mode'', ''overwrite'', ''delete_original''] = []"
    by (simp add: unknown_keys_Nil d)
  moreover have "required_str d ''source_path'' msg = Inr src" "required_str d ''destination_dir'' msg = Inr dst" for msg
    using assms by (simp_all add: required_str_Inr sanitize_string_Some d)
  moreover have "request_flag d ''overwrite'' msg = Inr ow" "request_flag d ''delete_original'' msg = Inr del" for msg
    by (simp_all add: request_flag_Inr d)
  ultimately show ?thesis
    by (simp add: extract_file_organize_request_def request_object_def d [symmetric])
qed

section \<open>Kinds and lineages\<close>

lemma normalize_kind_range:
  "normalize_kind raw = [] \<or> normalize_kind raw \<in> set canonical_kinds \<union> set non_canonical_kinds"
proof -
  have "map_of request_kind_aliases v = Some k \<Longrightarrow> k \<in> set canonical_kinds" for v k
    by (drule map_of_SomeD) (auto simp: request_kind_aliases_def canonical_kinds_def)
  moreover have "''unknown'' \<in> set canonical_kinds" by (simp add: canonical_kinds_def)
  ultimately show ?thesis by (auto simp: normalize_kind_def Let_def split: option.splits)
qed

lemma kind_choice:
  "(x = [] \<or> x \<in> S) \<Longrightarrow> (y = [] \<or> y \<in> S) \<Longrightarrow> {k1, k2, k3, k4, k5} \<subseteq> S \<Longrightarrow>
   (if x \<noteq> [] then x else if y \<noteq> [] then y else if a then k1 else if b then k2 else if c then k3
    else if d then k4 else k5) \<in> S"
  by auto

lemma detect_kind_range: "detect_request_kind payload \<in> set canonical_kinds \<union> set non_canonical_kinds"
  unfolding detect_request_kind_def Let_def
proof (rule kind_choice)
  let ?K = "set canonical_kinds \<union> set non_canonical_kinds"
  show "(case get payload ''job_intent'' of PDict i \<Rightarrow> normalize_kind (get i ''request_kind'') | _ \<Rightarrow> []) = []
      \<or> (case get payload ''job_intent'' of PDict i \<Rightarrow> normalize_kind (get i ''request_kind'') | _ \<Rightarrow> []) \<in> ?K"
    using normalize_kind_range by (cases "get payload ''job_intent''") (simp_all only: py.case simp_thms)
  show "normalize_kind (get payload ''kind'') = [] \<or> normalize_kind (get payload ''kind'') \<in> ?K"
    by (rule normalize_kind_range)
  show "{''mission_id'', ''file_organize'', ''goal'', ''inline_steps'', ''unknown''} \<subseteq> ?K"
    by (simp add: canonical_kinds_def)
qed

text \<open>A lineage as the code writes it reads back\<close>

definition wf_lineage :: "lineage \<Rightarrow> bool" where
  "wf_lineage l \<longleftrightarrow> 0 \<le> ln_depth l
     \<and> (\<forall>s. ln_parent l = Some s \<or> ln_root l = Some s \<longrightarrow> strip s = s \<and> s \<noteq> [])
     \<and> (\<forall>n. ln_sequence l = Some n \<longrightarrow> 0 \<le> n)
     \<and> ln_role l \<in> {None, Some ''root'', Some ''child''}"

lemma sanitize_popt: "(\<And>s. v = Some s \<Longrightarrow> strip s = s \<and> s \<noteq> []) \<Longrightarrow> sanitize_lineage_string (popt v) = v"
  by (cases v) (auto simp: sanitize_lineage_string_def)

lemma sanitize_opt_int: "(\<And>n. v = Some n \<Longrightarrow> 0 \<le> n) \<Longrightarrow> sanitize_lineage_int (opt_int v) = Inr v"
  by (cases v) (auto simp: sanitize_lineage_int_def raise_type_def)

lemma lineage_dict_get [simp]:
  "get (lineage_dict l) ''parent_job_id'' = popt (ln_parent l)"
  "get (lineage_dict l) ''root_job_id'' = popt (ln_root l)"
  "get (lineage_dict l) ''orchestration_depth'' = PInt (ln_depth l)"
  "get (lineage_dict l) ''sequence_index'' = opt_int (ln_sequence l)"
  "get (lineage_dict l) ''lineage_role'' = popt (ln_role l)"
  "has_key (lineage_dict l) ''parent_job_id''"
  by (simp_all add: lineage_dict_def)

lemma sanitize_lineage_int_PInt: "sanitize_lineage_int (PInt n) = Inr (if 0 \<le> n then Some n else None)"
  by (simp add: sanitize_lineage_int_def)

lemma lineage_role_again:
  assumes "role \<in> {None, Some ''root'', Some ''child''}"
  shows "(case sanitize_lineage_string (popt role) of None \<Rightarrow> None
     | Some r \<Rightarrow> if lower r \<in> set lineage_roles then Some (lower r) else None) = role"
proof (cases role)
  case (Some r)
  with assms have r: "r \<in> {''root'', ''child''}" by auto
  then have fixed: "strip r = r \<and> r \<noteq> [] \<and> lower r = r" by (intro lower_word_fixed) blast
  have mem: "r \<in> set lineage_roles" using r by (simp only: lineage_roles_def list.set)
  have "sanitize_lineage_string (PStr r) = Some r" using fixed by (simp add: sanitize_lineage_string_def)
  then show ?thesis using fixed mem unfolding Some by simp
qed (simp add: sanitize_lineage_string_def)

lemma extract_lineage_dict:
  assumes wf: "wf_lineage l" and payload: "get payload ''lineage'' = PDict (lineage_dict l)"
  shows "extract_lineage_metadata payload = Inr (Some l)"
proof -
  have src: "lineage_source payload = lineage_dict l" by (simp add: lineage_source_def payload)
  have 1: "sanitize_lineage_string (popt (ln_parent l)) = ln_parent l"
    by (rule sanitize_popt) (use wf in \<open>auto simp: wf_lineage_def\<close>)
  have 2: "sanitize_lineage_string (popt (ln_root l)) = ln_root l"
    by (rule sanitize_popt) (use wf in \<open>auto simp: wf_lineage_def\<close>)
  have 3: "sanitize_lineage_int (opt_int (ln_sequence l)) = Inr (ln_sequence l)"
    by (rule sanitize_opt_int) (use wf in \<open>auto simp: wf_lineage_def\<close>)
  have 4: "0 \<le> ln_depth l" using wf by (simp add: wf_lineage_def)
  have 5: "ln_role l \<in> {None, Some ''root'', Some ''child''}" using wf by (simp add: wf_lineage_def)
  have 6: "\<exists>k \<in> set lineage_keys. has_key (lineage_dict l) k"
    by (rule bexI [of _ "''parent_job_id''"]) (simp_all add: lineage_keys_def)
  show ?thesis
    unfolding extract_lineage_metadata_def src Let_def lineage_dict_get sanitize_lineage_int_PInt 3
      lineage_role_again [OF 5] 1 2
    using 4 6 by simp
qed

definition job_id_ok :: "string \<Rightarrow> bool" where
  "job_id_ok j \<longleftrightarrow> j \<noteq> [] \<and> strip j = j"

lemma sanitize_int_nonneg: "sanitize_lineage_int v = Inr (Some n) \<Longrightarrow> 0 \<le> n"
  by (auto simp: sanitize_lineage_int_def split: sum.splits if_splits)

lemma compute_child_wf:
  assumes "compute_child_lineage j p = Inr l" "job_id_ok j"
  shows "wf_lineage l" and "ln_parent l = Some j" and "ln_role l = Some ''child''" and "1 \<le> ln_depth l"
    and "\<exists>n \<ge> 1. ln_sequence l = Some n"
proof -
  obtain root depth seq where root: "\<And>s. root = Some s \<Longrightarrow> strip s = s \<and> s \<noteq> []"
    and depth: "\<And>n. depth = Some n \<Longrightarrow> 0 \<le> n" and seq: "\<And>n. seq = Some n \<Longrightarrow> 0 \<le> n"
    and l: "l = \<lparr>ln_parent = Some j, ln_root = (case root of None \<Rightarrow> Some j | Some r \<Rightarrow> Some r),
         ln_depth = (case depth of None \<Rightarrow> 0 | Some n \<Rightarrow> n) + 1,
         ln_sequence = Some (case seq of None \<Rightarrow> 1 | Some n \<Rightarrow> n + 1), ln_role = Some ''child''\<rparr>"
  proof -
    from assms(1) obtain x depth seq where
      "sanitize_lineage_int (PInt (ln_depth (case x of None \<Rightarrow> no_lineage | Some l \<Rightarrow> l))) = Inr depth"
      "sanitize_lineage_int (opt_int (ln_sequence (case x of None \<Rightarrow> no_lineage | Some l \<Rightarrow> l))) = Inr seq"
      "l = \<lparr>ln_parent = Some j, ln_root = (case sanitize_lineage_string
             (popt (ln_root (case x of None \<Rightarrow> no_lineage | Some l \<Rightarrow> l))) of None \<Rightarrow> Some j | Some r \<Rightarrow> Some r),
         ln_depth = (case depth of None \<Rightarrow> 0 | Some n \<Rightarrow> n) + 1,
         ln_sequence = Some (case seq of None \<Rightarrow> 1 | Some n \<Rightarrow> n + 1), ln_role = Some ''child''\<rparr>"
      unfolding compute_child_lineage_def Let_def lineage_dict_get bindR_eq_Inr by (elim exE conjE) simp
    then show ?thesis
      by (intro that [of "sanitize_lineage_string
             (popt (ln_root (case x of None \<Rightarrow> no_lineage | Some l \<Rightarrow> l)))" depth seq])
        (auto simp: sanitize_string_Some dest: sanitize_int_nonneg)
  qed
  show "wf_lineage l" "ln_parent l = Some j" "ln_role l = Some ''child''" "1 \<le> ln_depth l"
    "\<exists>n \<ge> 1. ln_sequence l = Some n"
    using root depth seq assms(2)
    by (auto simp: l wf_lineage_def job_id_ok_def split: option.splits)
qed

text \<open>The child of a job that carries a lineage of the code's own\<close>

lemma compute_child_of_lineage:
  assumes wf: "wf_lineage l" and payload: "get payload ''lineage'' = PDict (lineage_dict l)"
  shows "compute_child_lineage j payload = Inr \<lparr>ln_parent = Some j,
     ln_root = (case ln_root l of None \<Rightarrow> Some j | Some r \<Rightarrow> Some r), ln_depth = ln_depth l + 1,
     ln_sequence = Some (case ln_sequence l of None \<Rightarrow> 1 | Some n \<Rightarrow> n + 1), ln_role = Some ''child''\<rparr>"
proof -
  have 2: "sanitize_lineage_string (popt (ln_root l)) = ln_root l"
    by (rule sanitize_popt) (use wf in \<open>auto simp: wf_lineage_def\<close>)
  have 3: "sanitize_lineage_int (opt_int (ln_sequence l)) = Inr (ln_sequence l)"
    by (rule sanitize_opt_int) (use wf in \<open>auto simp: wf_lineage_def\<close>)
  have 4: "0 \<le> ln_depth l" using wf by (simp add: wf_lineage_def)
  show ?thesis
    by (simp add: compute_child_lineage_def extract_lineage_dict [OF assms] 2 3 4 sanitize_lineage_int_PInt)
qed

text \<open>A line of descent: each job enqueues the next one, whose payload carries the lineage computed
  from its parent.\<close>

fun descend :: "string list \<Rightarrow> dict \<Rightarrow> lineage list result" where
  "descend [] payload = Inr []"
| "descend (j # js) payload = bindR (compute_child_lineage j payload) (\<lambda>l.
     bindR (descend js [(''lineage'', PDict (lineage_dict l))]) (\<lambda>ls. Inr (l # ls)))"

lemma descend_from:
  assumes "wf_lineage l" "ln_root l = Some r" "get payload ''lineage'' = PDict (lineage_dict l)"
    "\<forall>j \<in> set js. job_id_ok j"
  shows "\<exists>ls. descend js payload = Inr ls \<and> length ls = length js
    \<and> (\<forall>i < length js. ln_parent (ls ! i) = Some (js ! i) \<and> ln_root (ls ! i) = Some r
         \<and> ln_depth (ls ! i) = ln_depth l + int i + 1)"
  using assms
proof (induction js arbitrary: l payload)
  case (Cons j js)
  let ?l = "\<lparr>ln_parent = Some j, ln_root = Some r, ln_depth = ln_depth l + 1,
     ln_sequence = Some (case ln_sequence l of None \<Rightarrow> 1 | Some n \<Rightarrow> n + 1), ln_role = Some ''child''\<rparr>"
  have c: "compute_child_lineage j payload = Inr ?l"
    using compute_child_of_lineage [OF Cons.prems(1,3), of j] Cons.prems(2) by simp
  have wf: "wf_lineage ?l"
    by (rule compute_child_wf(1) [OF c]) (use Cons.prems(4) in simp)
  from Cons.IH [OF wf, of "[(''lineage'', PDict (lineage_dict ?l))]"] Cons.prems(4)
  obtain ls where ls: "descend js [(''lineage'', PDict (lineage_dict ?l))] = Inr ls" "length ls = length js"
    "\<forall>i < length js. ln_parent (ls ! i) = Some (js ! i) \<and> ln_root (ls ! i) = Some r
         \<and> ln_depth (ls ! i) = ln_depth ?l + int i + 1" by auto
  have "ln_parent ((?l # ls) ! i) = Some ((j # js) ! i) \<and> ln_root ((?l # ls) ! i) = Some r
      \<and> ln_depth ((?l # ls) ! i) = ln_depth l + int i + 1" if "i < length (j # js)" for i
    using ls(3) that by (cases i) auto
  with c ls(1,2) show ?case by (intro exI [of _ "?l # ls"]) simp
qed simp

lemma descend_first:
  assumes "descend (j # js) payload = Inr ls" "\<forall>k \<in> set (j # js). job_id_ok k"
    and "get (lineage_source payload) ''root_job_id'' = PNone"
  shows "\<forall>i < length (j # js). ln_parent (ls ! i) = Some ((j # js) ! i) \<and> ln_root (ls ! i) = Some j
         \<and> ln_depth (ls ! i) = ln_depth (ls ! 0) + int i"
proof -
  from assms(1) obtain l rest where l: "compute_child_lineage j payload = Inr l"
    and rest: "descend js [(''lineage'', PDict (lineage_dict l))] = Inr rest" and ls: "ls = l # rest"
    by (auto simp: result_iff)
  have ok: "job_id_ok j" using assms(2) by simp
  note wf = compute_child_wf [OF l ok]
  have "ln_root l = Some j"
  proof -
    from l obtain x where x: "extract_lineage_metadata payload = Inr x"
      and root: "ln_root l = (case sanitize_lineage_string
             (popt (ln_root (case x of None \<Rightarrow> no_lineage | Some l \<Rightarrow> l))) of None \<Rightarrow> Some j | Some r \<Rightarrow> Some r)"
      unfolding compute_child_lineage_def Let_def lineage_dict_get bindR_eq_Inr by (elim exE conjE) auto
    have "x = None \<or> (\<exists>y. x = Some y \<and> ln_root y = None)"
      using x assms(3) by (auto simp: extract_lineage_metadata_def Let_def result_iff
          sanitize_lineage_string_def split: if_splits)
    then show ?thesis using root by (auto simp: no_lineage_def sanitize_lineage_string_def)
  qed
  from descend_from [OF wf(1) this, of "[(''lineage'', PDict (lineage_dict l))]" js] assms(2) rest
  have "\<forall>i < length js. ln_parent (rest ! i) = Some (js ! i) \<and> ln_root (rest ! i) = Some j
         \<and> ln_depth (rest ! i) = ln_depth l + int i + 1" by auto
  then show ?thesis
    unfolding ls using wf(2) \<open>ln_root l = Some j\<close> by (auto simp: nth_Cons split: nat.splits)
qed

end
