(* ===== verification/Execution_Result.thy ===== *)
theory Execution_Result
  imports Queue_Contracts
begin

text \<open>
  The second half of \<open>voxera/core/queue_contracts.py\<close>: the execution envelope, the structured step
  results, and the execution result with its evidence: blocked metadata, expected and minimum artifacts,
  review summary and evidence bundle. An artifact directory is the predicate of the file names that
  exist in it, or None.
\<close>

section \<open>The execution envelope\<close>

definition lineage_py :: "lineage option \<Rightarrow> py" where
  "lineage_py l = (case l of None \<Rightarrow> PNone | Some x \<Rightarrow> PDict (lineage_dict x))"

definition envelope_job :: "string \<Rightarrow> dict \<Rightarrow> lineage option \<Rightarrow> py" where
  "envelope_job job_ref payload lineage = PDict [
     (''id'', PStr (path_stem job_ref @ ''.json'')), (''filename'', PStr (path_name job_ref)),
     (''source_ref'', PStr job_ref), (''request_kind'', PStr (detect_request_kind payload)),
     (''lineage'', lineage_py lineage)]"

definition envelope_queue :: "string \<Rightarrow> string \<Rightarrow> string \<Rightarrow> py" where
  "envelope_queue job_ref queue_root artifact_root = PDict [
     (''queue_root'', PStr queue_root), (''artifacts_root'', PStr artifact_root),
     (''job_artifacts'', PStr (path_join artifact_root (path_stem job_ref)))]"

definition is_true :: "py \<Rightarrow> py" where
  "is_true v = PBool (v = PBool True)"

definition build_execution_envelope ::
  "string \<Rightarrow> dict \<Rightarrow> mission \<Rightarrow> string \<Rightarrow> string \<Rightarrow> string \<Rightarrow> int \<Rightarrow> int \<Rightarrow> int \<Rightarrow> int option \<Rightarrow> string
   \<Rightarrow> py \<Rightarrow> int \<Rightarrow> dict result" where
  "build_execution_envelope job_ref payload mi queue_root artifact_root mode attempt replans max_replans
     supersedes lane fast_lane now_ms =
     bindR (extract_lineage_metadata payload) (\<lambda>lineage.
     bindR (extract_enqueue_child_request payload) (\<lambda>enqueue.
     bindR (extract_write_file_request payload) (\<lambda>wf.
     bindR (extract_file_organize_request payload) (\<lambda>fo.
     let tot = PInt (int (length (mi_steps mi))) in
     Inr [(''schema_version'', PInt 1), (''envelope_kind'', PStr ''queue_execution''),
       (''job'', envelope_job job_ref payload lineage),
       (''execution'', PDict [(''mode'', PStr mode), (''lane'', PStr lane),
          (''fast_lane'', dict_or_none fast_lane), (''attempt_index'', PInt attempt),
          (''replan_count'', PInt replans), (''max_replans'', PInt max_replans),
          (''supersedes_attempt'', opt_int supersedes), (''total_steps'', tot),
          (''steps'', PList (map (\<lambda>(i, st). PDict [(''step_index'', PInt (int i)), (''total_steps'', tot),
             (''skill_id'', PStr (mst_skill st)), (''effective_args'', PDict (mst_args st))])
             (List.enumerate 1 (mi_steps mi))))]),
       (''request'', PDict [(''mission_id'', get payload ''mission_id''), (''goal'', get payload ''goal''),
          (''title'', get payload ''title''),
          (''steps'', if is_list (get payload ''steps'') then get payload ''steps'' else PNone),
          (''approval_required'', is_true (get payload ''approval_required'')),
          (''job_intent'', dict_or_none (get payload ''job_intent'')),
          (''simple_intent'', case get payload ''_simple_intent'' of
             PDict r \<Rightarrow> PDict (sanitize_intent_route r) | _ \<Rightarrow> PNone),
          (''enqueue_child'', enqueue), (''write_file'', wf), (''file_organize'', fo)]),
       (''mission'', PDict [(''id'', PStr (mi_id mi)), (''title'', PStr (mi_title mi)),
          (''goal'', PStr (mi_goal mi)), (''notes'', popt (mi_notes mi))]),
       (''queue'', envelope_queue job_ref queue_root artifact_root),
       (''generated_at_ms'', PInt now_ms)]))))"

definition build_assistant_execution_envelope ::
  "string \<Rightarrow> dict \<Rightarrow> string \<Rightarrow> string \<Rightarrow> string \<Rightarrow> py \<Rightarrow> int \<Rightarrow> dict result" where
  "build_assistant_execution_envelope job_ref payload queue_root artifact_root lane fast_lane now_ms =
     (let thread_id = str_or_empty (get payload ''thread_id'');
          question = str_or_empty (get payload ''question'');
          kind = detect_request_kind payload in
     bindR (extract_lineage_metadata payload) (\<lambda>lineage.
     Inr [(''schema_version'', PInt 1), (''envelope_kind'', PStr ''queue_execution''),
       (''job'', envelope_job job_ref payload lineage),
       (''execution'', PDict [(''mode'', PStr ''assistant_advisory''), (''lane'', PStr lane),
          (''fast_lane'', dict_or_none fast_lane), (''attempt_index'', PInt 1), (''replan_count'', PInt 0),
          (''max_replans'', PInt 0), (''supersedes_attempt'', PNone), (''total_steps'', PInt 1),
          (''steps'', PList [PDict [(''step_index'', PInt 1), (''total_steps'', PInt 1),
             (''skill_id'', PStr ''assistant.advisory''),
             (''effective_args'', PDict [(''question'', PStr question), (''thread_id'', PStr thread_id)])]])]),
       (''request'', PDict [(''mission_id'', PNone), (''goal'', PNone), (''title'', get payload ''title''),
          (''approval_required'', is_true (get payload ''approval_required'')),
          (''job_intent'', dict_or_none (get payload ''job_intent'')),
          (''assistant'', PDict [(''kind'', PStr (py_str (por (get payload ''kind'') (PStr kind)))),
             (''thread_id'', PStr thread_id), (''question'', PStr question),
             (''advisory'', is_true (get payload ''advisory'')),
             (''read_only'', is_true (get payload ''read_only'')),
             (''action_hints'', keep_list (get payload ''action_hints''))])]),
       (''mission'', PNone), (''queue'', envelope_queue job_ref queue_root artifact_root),
       (''generated_at_ms'', PInt now_ms)]))"

section \<open>Structured step results\<close>

text \<open>\<open>outcome_by_step\<close>: a later outcome of a step replaces an earlier one; an outcome whose step
  number cannot be read is skipped, except for the \<open>OverflowError\<close> of an infinite float.\<close>

fun outcome_by_step :: "py list \<Rightarrow> (int \<times> dict) list \<Rightarrow> (int \<times> dict) list result" where
  "outcome_by_step [] acc = Inr acc"
| "outcome_by_step (PDict item # rest) acc = (case int_or_zero (get item ''step'') of
     Inl e \<Rightarrow> if class_of e \<in> {TypeError, ValueError} then outcome_by_step rest acc else Inl e
   | Inr n \<Rightarrow> outcome_by_step rest (if n \<le> 0 then acc else AList.update n item acc))"
| "outcome_by_step (_ # rest) acc = outcome_by_step rest acc"

definition step_status :: "dict \<Rightarrow> dict \<Rightarrow> string" where
  "step_status item outcome = py_str (por (get outcome ''outcome'')
     (PStr (if truthy (get item ''ok'') then ''succeeded'' else ''failed'')))"

definition structured_blocked_class :: "dict \<Rightarrow> dict \<Rightarrow> string" where
  "structured_blocked_class item outcome =
     (let ec = clean_lower (get item ''error_class'') in
      if ec \<in> set boundary_blocked_classes then
        (if clean_str (get item ''blocked_reason_class'') \<noteq> [] then clean_str (get item ''blocked_reason_class'')
         else if clean_str (get outcome ''blocked_reason_class'') \<noteq> []
           then clean_str (get outcome ''blocked_reason_class'')
         else ec)
      else [])"

definition structured_fields :: "dict \<Rightarrow> dict \<Rightarrow> int \<Rightarrow> int \<Rightarrow> int \<Rightarrow> int \<Rightarrow> int \<Rightarrow> dict" where
  "structured_fields item outcome tot idx started finished duration = [
     (''schema_version'', PInt 1), (''step_index'', PInt idx), (''step_total'', PInt tot),
     (''skill_id'', PStr (str_or_empty (get item ''skill''))),
     (''effective_args'', keep_dict (get item ''args'')), (''status'', PStr (step_status item outcome)),
     (''started_at_ms'', int_or_none started), (''finished_at_ms'', int_or_none finished),
     (''duration_ms'', int_or_none duration),
     (''summary'', PStr (py_str (por (get item ''summary'') (por (get item ''output'')
        (por (get item ''error'') (PStr [])))))),
     (''output_artifacts'', keep_list (get item ''output_artifacts'')),
     (''machine_payload'', keep_dict (get item ''machine_payload'')),
     (''operator_note'', get item ''operator_note''), (''next_action_hint'', get item ''next_action_hint''),
     (''retryable'', if is_bool (get item ''retryable'') then get item ''retryable'' else PNone),
     (''blocked'', if clean_lower (get item ''error_class'') \<in> set boundary_blocked_classes then PBool True
        else if is_bool (get item ''blocked'') then get item ''blocked''
        else PBool (step_status item outcome = ''blocked'')),
     (''approval_status'', por (get item ''approval_status'') (get outcome ''approval_status'')),
     (''blocked_reason_class'', str_or_none (structured_blocked_class item outcome)),
     (''error'', str_or_none (str_or_empty (get item ''error''))),
     (''error_class'', get item ''error_class'')]"

definition structured_step :: "(int \<times> dict) list \<Rightarrow> int \<Rightarrow> dict \<Rightarrow> int \<Rightarrow> dict result" where
  "structured_step outcomes tot item idx =
     (let outcome = (case map_of outcomes idx of None \<Rightarrow> [] | Some d \<Rightarrow> d) in
      bindR (int_or_zero (get item ''started_at_ms'')) (\<lambda>started.
      bindR (int_or_zero (get item ''finished_at_ms'')) (\<lambda>finished.
      bindR (int_or_zero (get item ''duration_ms'')) (\<lambda>duration.
      Inr (structured_fields item outcome tot idx started finished duration)))))"

fun structured_steps :: "(int \<times> dict) list \<Rightarrow> int \<Rightarrow> py list \<Rightarrow> dict list result" where
  "structured_steps outcomes tot [] = Inr []"
| "structured_steps outcomes tot (PDict item # rest) =
     bindR (int_or_zero (get item ''step'')) (\<lambda>idx.
       if idx \<le> 0 then structured_steps outcomes tot rest
       else bindR (structured_step outcomes tot item idx) (\<lambda>r.
         bindR (structured_steps outcomes tot rest) (\<lambda>rs. Inr (r # rs))))"
| "structured_steps outcomes tot (_ # rest) = structured_steps outcomes tot rest"

definition build_structured_step_results :: "dict \<Rightarrow> int \<Rightarrow> dict list \<Rightarrow> dict list result" where
  "build_structured_step_results rd tot existing =
     bindR (outcome_by_step (the_list (get rd ''step_outcomes'')) []) (\<lambda>outcomes.
     bindR (structured_steps outcomes tot (the_list (get rd ''results''))) (\<lambda>structured.
     Inr (if structured \<noteq> [] then structured else existing)))"

section \<open>Blocked metadata and capabilities\<close>

definition latest_step :: "dict list \<Rightarrow> dict" where
  "latest_step steps = (if steps = [] then [] else last steps)"

definition derive_blocked_metadata :: "dict \<Rightarrow> dict list \<Rightarrow> string option \<Rightarrow> py \<times> py \<times> py" where
  "derive_blocked_metadata rd steps fallback =
     (let st = latest_step steps;
          ec = clean_lower (get st ''error_class'');
          rc = clean_lower (get st ''blocked_reason_class'');
          et = clean_str (get st ''error'');
          blocked = (truthy (get st ''blocked'') \<or> rc \<noteq> [] \<or> ec \<in> set boundary_blocked_classes) in
      if \<not> blocked then (PNone, PNone, PNone)
      else (PBool True,
        str_or_none (if rc \<noteq> [] then rc else if ec \<noteq> [] then ec
          else clean_lower (get rd ''blocked_reason_class'')),
        str_or_none (if et \<noteq> [] then et
          else if clean_str (get rd ''blocked_reason'') \<noteq> [] then clean_str (get rd ''blocked_reason'')
          else clean_str (popt fallback))))"

fun nested_capabilities :: "dict list \<Rightarrow> dict option" where
  "nested_capabilities [] = None"
| "nested_capabilities (st # rest) = (case get st ''machine_payload'' of
     PDict mp \<Rightarrow> (case get mp ''execution_capabilities'' of
        PDict d \<Rightarrow> Some d | _ \<Rightarrow> nested_capabilities rest)
   | _ \<Rightarrow> nested_capabilities rest)"

definition extract_execution_capabilities :: "dict \<Rightarrow> dict list \<Rightarrow> dict option" where
  "extract_execution_capabilities rd steps = (case get rd ''execution_capabilities'' of
     PDict d \<Rightarrow> Some d | _ \<Rightarrow> nested_capabilities (rev steps))"

section \<open>Artifacts\<close>

definition nonempty_strips :: "string list \<Rightarrow> string list" where
  "nonempty_strips xs = filter (\<lambda>s. s \<noteq> []) (map strip xs)"

definition normalize_expected_artifacts :: "py \<Rightarrow> string list" where
  "normalize_expected_artifacts v = (case v of
     PList xs \<Rightarrow> sorted_set (nonempty_strips (map py_str xs)) | _ \<Rightarrow> [])"

record artifact_ref =
  ar_family :: string
  ar_path :: string

definition ref_dict :: "artifact_ref \<Rightarrow> dict" where
  "ref_dict r = [(''artifact_family'', PStr (ar_family r)), (''artifact_path'', PStr (ar_path r)),
     (''exists'', PBool True)]"

text \<open>\<open>{str(item.get("artifact_path") or "").strip() for item in artifact_refs ...}\<close>\<close>

definition observed_paths :: "dict list \<Rightarrow> string list" where
  "observed_paths refs = nonempty_strips (map (\<lambda>r. str_or_empty (get r ''artifact_path'')) refs)"

record observation =
  ob_status :: string
  ob_expected :: "string list"
  ob_observed :: "string list"
  ob_missing :: "string list"

definition observation_dict :: "observation \<Rightarrow> dict" where
  "observation_dict ob = [(''status'', PStr (ob_status ob)), (''expected'', pstrs (ob_expected ob)),
     (''observed'', pstrs (ob_observed ob)), (''missing'', pstrs (ob_missing ob))]"

definition artifact_seen :: "string list \<Rightarrow> string list \<Rightarrow> string \<Rightarrow> bool" where
  "artifact_seen families paths token =
     (let stem = path_stem token in
      token \<in> set families \<or> token \<in> set paths \<or> stem \<in> set families \<or> stem \<in> set (map path_stem paths))"

definition compare_expected_artifacts :: "string list \<Rightarrow> string list \<Rightarrow> dict list \<Rightarrow> observation" where
  "compare_expected_artifacts expected families refs =
     (if expected = [] then \<lparr>ob_status = ''none_declared'', ob_expected = [], ob_observed = [], ob_missing = []\<rparr>
      else
        let seen = artifact_seen (nonempty_strips families) (observed_paths refs);
            observed = filter seen (map strip expected);
            missing = filter (\<lambda>t. \<not> seen t) (map strip expected)
        in \<lparr>ob_status = (if missing = [] then ''observed'' else if observed \<noteq> [] then ''partial'' else ''missing''),
            ob_expected = expected, ob_observed = observed, ob_missing = missing\<rparr>)"

definition file_to_family :: "(string \<times> string) list" where
  "file_to_family = [(''plan.json'', ''plan''), (''actions.jsonl'', ''actions''), (''stdout.txt'', ''stdout''),
     (''stderr.txt'', ''stderr''), (''execution_envelope.json'', ''execution_envelope''),
     (''execution_result.json'', ''execution_result''), (''step_results.json'', ''step_results''),
     (''job_intent.json'', ''job_intent''), (''assistant_response.json'', ''assistant_advisory''),
     (''review_summary.json'', ''review_summary''), (''evidence_bundle.json'', ''evidence_bundle'')]"

definition build_artifact_contract :: "(string \<Rightarrow> bool) option \<Rightarrow> string list \<times> artifact_ref list" where
  "build_artifact_contract dir = (case dir of
     None \<Rightarrow> ([''step_results'', ''execution_result''], [])
   | Some exists \<Rightarrow>
       let found = filter (\<lambda>(f, _). exists f) file_to_family in
       (sorted_set ([''step_results'', ''execution_result''] @ map snd found),
        sort_key ar_path (map (\<lambda>(f, fam). \<lparr>ar_family = fam, ar_path = f\<rparr>) found)))"

definition queue_minimum_artifacts :: "string list" where
  "queue_minimum_artifacts = [''execution_envelope.json'', ''execution_result.json'', ''step_results.json'',
     ''job_intent.json'', ''plan.json'', ''actions.jsonl'']"

definition minimum_artifact_presence :: "dict list \<Rightarrow> dict" where
  "minimum_artifact_presence refs =
     (let paths = observed_paths refs;
          missing = filter (\<lambda>n. n \<notin> set paths) queue_minimum_artifacts in
      [(''status'', PStr (if missing = [] then ''observed'' else ''missing'')),
       (''required'', pstrs queue_minimum_artifacts),
       (''observed'', pstrs (filter (\<lambda>n. n \<in> set paths) queue_minimum_artifacts)),
       (''missing'', pstrs missing)])"

section \<open>The execution result\<close>

definition lane_of :: "dict \<Rightarrow> py" where
  "lane_of rd = PStr (py_str (por (get rd ''execution_lane'') (PStr ''queue'')))"

definition dict_py :: "dict option \<Rightarrow> py" where
  "dict_py d = (case d of None \<Rightarrow> PNone | Some x \<Rightarrow> PDict x)"

definition build_review_summary ::
  "string \<Rightarrow> dict \<Rightarrow> dict list \<Rightarrow> string \<Rightarrow> bool \<Rightarrow> string option \<Rightarrow> dict option \<Rightarrow> observation \<Rightarrow> dict \<Rightarrow> dict" where
  "build_review_summary job_ref rd steps outcome ok err caps obs minimum =
     (let st = latest_step steps in [
      (''schema_version'', PInt 1), (''job_id'', PStr (path_name job_ref)),
      (''terminal_outcome'', PStr outcome), (''ok'', PBool ok), (''execution_lane'', lane_of rd),
      (''lifecycle_state'', get rd ''lifecycle_state''), (''approval_status'', get rd ''approval_status''),
      (''attempt_index'', get rd ''attempt_index''), (''replan_count'', get rd ''replan_count''),
      (''total_steps'', get rd ''total_steps''), (''last_attempted_step'', get rd ''last_attempted_step''),
      (''last_completed_step'', get rd ''last_completed_step''),
      (''latest_step_status'', get st ''status''),
      (''latest_summary'', PStr (py_str (por (get st ''summary'') (por (get st ''operator_note'')
         (por (popt err) (PStr [])))))),
      (''error'', popt err), (''execution_capabilities'', dict_py caps),
      (''capability_boundary_violation'', case caps of None \<Rightarrow> PNone
         | Some c \<Rightarrow> dict_or_none (get c ''runtime_boundary_violation'')),
      (''expected_artifacts'', pstrs (ob_expected obs)),
      (''expected_artifact_status'', PStr (ob_status obs)),
      (''observed_expected_artifacts'', pstrs (ob_observed obs)),
      (''missing_expected_artifacts'', pstrs (ob_missing obs)), (''minimum_artifacts'', PDict minimum)])"

definition refs_py :: "artifact_ref list \<Rightarrow> py" where
  "refs_py refs = PList (map (PDict \<circ> ref_dict) refs)"

definition build_evidence_bundle ::
  "string \<Rightarrow> dict \<Rightarrow> string \<Rightarrow> string list \<Rightarrow> artifact_ref list \<Rightarrow> dict \<Rightarrow> observation \<Rightarrow> dict \<Rightarrow> dict" where
  "build_evidence_bundle job_ref rd outcome families refs review obs minimum = [
     (''schema_version'', PInt 1), (''bundle_kind'', PStr ''queue_job_execution_evidence''),
     (''job_id'', PStr (path_name job_ref)),
     (''trace'', PDict [(''job_id'', PStr (path_name job_ref)), (''attempt_index'', get rd ''attempt_index''),
        (''replan_count'', get rd ''replan_count''), (''last_attempted_step'', get rd ''last_attempted_step''),
        (''last_completed_step'', get rd ''last_completed_step''), (''total_steps'', get rd ''total_steps''),
        (''execution_lane'', lane_of rd), (''terminal_outcome'', PStr outcome)]),
     (''artifact_families'', pstrs families), (''artifact_refs'', refs_py refs),
     (''review_summary'', PDict review), (''expected_artifacts'', PDict (observation_dict obs)),
     (''minimum_artifacts'', PDict minimum)]"

text \<open>The artifacts the declared capabilities expect, or those the job declares\<close>

definition expected_artifacts_of :: "dict \<Rightarrow> dict option \<Rightarrow> string list" where
  "expected_artifacts_of rd caps =
     (let direct = normalize_expected_artifacts (get rd ''expected_artifacts'');
          declared = (if direct = [] then (case get rd ''job_intent'' of
              PDict i \<Rightarrow> normalize_expected_artifacts (get i ''expected_artifacts'') | _ \<Rightarrow> direct) else direct);
          own = (case caps of None \<Rightarrow> [] | Some c \<Rightarrow>
              if c = [] then [] else normalize_expected_artifacts (get c ''expected_artifacts''))
      in if own = [] then declared else own)"

definition result_approval_status :: "dict \<Rightarrow> string \<Rightarrow> py" where
  "result_approval_status rd outcome =
     (if is_str (get rd ''approval_status'') \<and> clean_str (get rd ''approval_status'') \<noteq> []
        then get rd ''approval_status''
      else if get rd ''status'' = PStr ''pending_approval'' then PStr ''pending''
      else if outcome = ''succeeded'' then PStr ''approved'' else PNone)"

definition build_execution_result ::
  "string \<Rightarrow> dict \<Rightarrow> dict list \<Rightarrow> string \<Rightarrow> bool \<Rightarrow> string option \<Rightarrow> (string \<Rightarrow> bool) option \<Rightarrow> int \<Rightarrow> dict result" where
  "build_execution_result job_ref rd steps outcome ok err artifacts_dir now_ms =
     bindR (extract_lineage_metadata rd) (\<lambda>lineage.
     let (families, refs) = build_artifact_contract artifacts_dir;
         caps = extract_execution_capabilities rd steps;
         obs = compare_expected_artifacts (expected_artifacts_of rd caps) families (map ref_dict refs);
         minimum = minimum_artifact_presence (map ref_dict refs);
         review = build_review_summary job_ref rd steps outcome ok err caps obs minimum;
         evidence = build_evidence_bundle job_ref rd outcome families refs review obs minimum;
         (blocked, blocked_class, blocked_reason) = derive_blocked_metadata rd steps err
     in Inr [(''schema_version'', PInt 1), (''job'', PStr (path_name job_ref)),
       (''lineage'', lineage_py lineage), (''ok'', PBool ok), (''terminal_outcome'', PStr outcome),
       (''execution_lane'', lane_of rd), (''fast_lane'', dict_or_none (get rd ''fast_lane'')),
       (''lifecycle_state'', get rd ''lifecycle_state''),
       (''current_step_index'', get rd ''current_step_index''),
       (''last_completed_step'', get rd ''last_completed_step''),
       (''last_attempted_step'', get rd ''last_attempted_step''),
       (''total_steps'', get rd ''total_steps''), (''attempt_index'', get rd ''attempt_index''),
       (''replan_count'', get rd ''replan_count''), (''max_replans'', get rd ''max_replans''),
       (''evaluation_class'', get rd ''evaluation_class''),
       (''evaluation_reason'', get rd ''evaluation_reason''), (''stop_reason'', get rd ''stop_reason''),
       (''intent_route'', case get rd ''intent_route'' of
          PDict r \<Rightarrow> PDict (sanitize_intent_route r) | _ \<Rightarrow> PNone),
       (''child_refs'', PList (filter is_dict (the_list (get rd ''child_refs'')))),
       (''approval_status'', result_approval_status rd outcome),
       (''blocked'', blocked), (''blocked_reason_class'', blocked_class),
       (''blocked_reason'', blocked_reason), (''artifact_families'', pstrs families),
       (''artifact_refs'', refs_py refs), (''evidence_bundle'', PDict evidence),
       (''review_summary'', PDict review), (''step_results'', PList (map PDict steps)),
       (''error'', popt err), (''updated_at_ms'', PInt now_ms)])"

definition refresh_review :: "string list \<Rightarrow> artifact_ref list \<Rightarrow> dict \<Rightarrow> dict" where
  "refresh_review families refs review =
     (let obs = compare_expected_artifacts (normalize_expected_artifacts (get review ''expected_artifacts''))
                  families (map ref_dict refs) in
      dput (dput (dput (dput review ''expected_artifact_status'' (PStr (ob_status obs)))
        ''observed_expected_artifacts'' (pstrs (ob_observed obs)))
        ''missing_expected_artifacts'' (pstrs (ob_missing obs)))
        ''minimum_artifacts'' (PDict (minimum_artifact_presence (map ref_dict refs))))"

definition refresh_evidence :: "string list \<Rightarrow> artifact_ref list \<Rightarrow> dict \<Rightarrow> dict \<Rightarrow> dict" where
  "refresh_evidence families refs review evidence =
     dput (dput (dput (dput (dput evidence ''artifact_families'' (pstrs families))
       ''artifact_refs'' (refs_py refs)) ''review_summary'' (PDict review))
       ''expected_artifacts'' (PDict (observation_dict (compare_expected_artifacts
          (normalize_expected_artifacts (get review ''expected_artifacts'')) families (map ref_dict refs)))))
       ''minimum_artifacts'' (PDict (minimum_artifact_presence (map ref_dict refs)))"

definition refresh_execution_result :: "dict \<Rightarrow> (string \<Rightarrow> bool) \<Rightarrow> dict" where
  "refresh_execution_result result exists =
     (let (families, refs) = build_artifact_contract (Some exists);
          r1 = dput (dput result ''artifact_families'' (pstrs families)) ''artifact_refs'' (refs_py refs);
          review = refresh_review families refs (the_dict (get r1 ''review_summary''));
          r2 = dput r1 ''review_summary'' (PDict review)
      in dput r2 ''evidence_bundle''
           (PDict (refresh_evidence families refs review (the_dict (get r2 ''evidence_bundle'')))))"

section \<open>What the results say\<close>

text \<open>A result whose class is a boundary violation is always marked blocked, with a reason class.\<close>

lemma structured_fields_get:
  "get (structured_fields item outcome tot idx s f d) ''step_index'' = PInt idx"
  "get (structured_fields item outcome tot idx s f d) ''status'' = PStr (step_status item outcome)"
  "get (structured_fields item outcome tot idx s f d) ''error_class'' = get item ''error_class''"
  "get (structured_fields item outcome tot idx s f d) ''blocked_reason_class'' =
     str_or_none (structured_blocked_class item outcome)"
  "get (structured_fields item outcome tot idx s f d) ''blocked'' =
     (if clean_lower (get item ''error_class'') \<in> set boundary_blocked_classes then PBool True
      else if is_bool (get item ''blocked'') then get item ''blocked''
      else PBool (step_status item outcome = ''blocked''))"
  by (simp_all add: structured_fields_def)

lemma structured_step_fields:
  assumes "structured_step outcomes tot item idx = Inr r"
  shows "get r ''step_index'' = PInt idx" and "get r ''error_class'' = get item ''error_class''"
    and "\<exists>outcome. get r ''blocked_reason_class'' = str_or_none (structured_blocked_class item outcome)"
    and "\<exists>b. get r ''blocked'' = (if clean_lower (get item ''error_class'') \<in> set boundary_blocked_classes
       then PBool True else PBool b)"
proof -
  from assms obtain outcome s f d where r: "r = structured_fields item outcome tot idx s f d"
    unfolding structured_step_def Let_def bindR_eq_Inr sum.inject by (elim exE conjE) blast
  show "get r ''step_index'' = PInt idx" "get r ''error_class'' = get item ''error_class''"
    "\<exists>outcome. get r ''blocked_reason_class'' = str_or_none (structured_blocked_class item outcome)"
    by (auto simp: r structured_fields_get)
  show "\<exists>b. get r ''blocked'' = (if clean_lower (get item ''error_class'') \<in> set boundary_blocked_classes
       then PBool True else PBool b)"
    by (cases "get item ''blocked''") (auto simp: r structured_fields_get)
qed

lemma structured_step_facts:
  assumes "structured_step outcomes tot item idx = Inr r"
  shows "clean_lower (get item ''error_class'') \<in> set boundary_blocked_classes \<Longrightarrow>
      get r ''blocked'' = PBool True \<and> is_str (get r ''blocked_reason_class'')"
    and "clean_lower (get item ''error_class'') \<notin> set boundary_blocked_classes \<Longrightarrow>
      get r ''blocked_reason_class'' = PNone"
    and "is_bool (get r ''blocked'')"
proof -
  have ne: "c \<in> set boundary_blocked_classes \<Longrightarrow> c \<noteq> []" for c
    by (auto simp: boundary_blocked_classes_def)
  have cls: "clean_lower (get item ''error_class'') \<in> set boundary_blocked_classes \<Longrightarrow>
      structured_blocked_class item outcome \<noteq> []" for outcome
    by (auto simp: structured_blocked_class_def Let_def dest: ne)
  note f = structured_step_fields(3,4) [OF assms]
  show "clean_lower (get item ''error_class'') \<in> set boundary_blocked_classes \<Longrightarrow>
      get r ''blocked'' = PBool True \<and> is_str (get r ''blocked_reason_class'')"
    using f cls by (auto simp: str_or_none_def)
  show "clean_lower (get item ''error_class'') \<notin> set boundary_blocked_classes \<Longrightarrow>
      get r ''blocked_reason_class'' = PNone"
    using f(1) by (auto simp: str_or_none_def structured_blocked_class_def Let_def)
  show "is_bool (get r ''blocked'')" using f(2) by auto
qed

lemma structured_steps_indices:
  "structured_steps outcomes tot items = Inr rs \<Longrightarrow> r \<in> set rs \<Longrightarrow>
   \<exists>item idx. PDict item \<in> set items \<and> int_or_zero (get item ''step'') = Inr idx \<and> 0 < idx
     \<and> structured_step outcomes tot item idx = Inr r"
  by (induction outcomes tot items arbitrary: rs rule: structured_steps.induct)
    (auto simp: result_iff split: if_splits, (metis not_le)+)

lemma blocked_metadata_iff:
  assumes "derive_blocked_metadata rd steps fb = (b, c, r)"
  shows "b \<in> {PNone, PBool True}" and "b = PNone \<Longrightarrow> c = PNone \<and> r = PNone"
    and "b = PBool True \<longleftrightarrow> (truthy (get (latest_step steps) ''blocked'')
      \<or> clean_lower (get (latest_step steps) ''blocked_reason_class'') \<noteq> []
      \<or> clean_lower (get (latest_step steps) ''error_class'') \<in> set boundary_blocked_classes)"
  using assms by (auto simp: derive_blocked_metadata_def Let_def split: if_splits)

text \<open>The expected artifacts are split into the observed and the missing ones.\<close>

lemma compare_partition:
  assumes "ob = compare_expected_artifacts expected families refs"
  shows "set (ob_observed ob) \<union> set (ob_missing ob) = set (map strip expected)"
    and "set (ob_observed ob) \<inter> set (ob_missing ob) = {}"
    and "ob_expected ob = expected"
    and "ob_status ob = ''none_declared'' \<longleftrightarrow> expected = []"
    and "ob_status ob = ''observed'' \<longleftrightarrow> expected \<noteq> [] \<and> ob_missing ob = []"
    and "ob_status ob = ''partial'' \<longleftrightarrow> ob_missing ob \<noteq> [] \<and> ob_observed ob \<noteq> []"
    and "ob_status ob = ''missing'' \<longleftrightarrow> expected \<noteq> [] \<and> ob_observed ob = [] \<and> ob_missing ob \<noteq> []"
proof -
  define seen where "seen = artifact_seen (nonempty_strips families) (observed_paths refs)"
  define ys where "ys = map strip expected"
  have ys: "ys = [] \<longleftrightarrow> expected = []" by (simp add: ys_def)
  have ob: "ob = (if expected = [] then \<lparr>ob_status = ''none_declared'', ob_expected = [], ob_observed = [],
        ob_missing = []\<rparr>
      else \<lparr>ob_status = (if filter (\<lambda>t. \<not> seen t) ys = [] then ''observed''
             else if filter seen ys \<noteq> [] then ''partial'' else ''missing''),
           ob_expected = expected, ob_observed = filter seen ys, ob_missing = filter (\<lambda>t. \<not> seen t) ys\<rparr>)"
    using assms by (simp add: compare_expected_artifacts_def Let_def seen_def ys_def)
  have none: "filter seen ys \<noteq> [] \<or> filter (\<lambda>t. \<not> seen t) ys \<noteq> []" if "expected \<noteq> []"
    using that ys by (cases ys) auto
  show "set (ob_observed ob) \<union> set (ob_missing ob) = set (map strip expected)"
    "set (ob_observed ob) \<inter> set (ob_missing ob) = {}" "ob_expected ob = expected"
    using ys by (auto simp: ob ys_def [symmetric])
  show "ob_status ob = ''none_declared'' \<longleftrightarrow> expected = []"
    "ob_status ob = ''observed'' \<longleftrightarrow> expected \<noteq> [] \<and> ob_missing ob = []"
    "ob_status ob = ''partial'' \<longleftrightarrow> ob_missing ob \<noteq> [] \<and> ob_observed ob \<noteq> []"
    "ob_status ob = ''missing'' \<longleftrightarrow> expected \<noteq> [] \<and> ob_observed ob = [] \<and> ob_missing ob \<noteq> []"
    using none by (simp_all add: ob del: filter_empty_conv)
qed

text \<open>Refreshing the artifact contract twice is refreshing it once: the second pass finds every field
  it writes with the value it writes.\<close>

lemma dput_absorb: "get d k = v \<Longrightarrow> has_key d k \<Longrightarrow> dput d k v = d"
  by (auto simp: dput_same get_def get_or_def has_key_def)

lemma refresh_review_idem: "refresh_review fs rs (refresh_review fs rs d) = refresh_review fs rs d"
proof -
  have e: "get (refresh_review fs rs d) ''expected_artifacts'' = get d ''expected_artifacts''"
    by (simp add: refresh_review_def Let_def)
  let ?obs = "compare_expected_artifacts (normalize_expected_artifacts (get d ''expected_artifacts''))
                  fs (map ref_dict rs)"
  have "get (refresh_review fs rs d) ''expected_artifact_status'' = PStr (ob_status ?obs)"
    "get (refresh_review fs rs d) ''observed_expected_artifacts'' = pstrs (ob_observed ?obs)"
    "get (refresh_review fs rs d) ''missing_expected_artifacts'' = pstrs (ob_missing ?obs)"
    "get (refresh_review fs rs d) ''minimum_artifacts'' = PDict (minimum_artifact_presence (map ref_dict rs))"
    "has_key (refresh_review fs rs d) ''expected_artifact_status''"
    "has_key (refresh_review fs rs d) ''observed_expected_artifacts''"
    "has_key (refresh_review fs rs d) ''missing_expected_artifacts''"
    "has_key (refresh_review fs rs d) ''minimum_artifacts''"
    by (simp_all add: refresh_review_def Let_def)
  then show ?thesis
    by (subst refresh_review_def) (simp only: Let_def e dput_absorb)
qed

lemma refresh_evidence_idem:
  "refresh_evidence fs rs r (refresh_evidence fs rs r d) = refresh_evidence fs rs r d"
proof -
  let ?e = "refresh_evidence fs rs r d"
  let ?o = "PDict (observation_dict (compare_expected_artifacts
     (normalize_expected_artifacts (get r ''expected_artifacts'')) fs (map ref_dict rs)))"
  have "get ?e ''artifact_families'' = pstrs fs" "get ?e ''artifact_refs'' = refs_py rs"
    "get ?e ''review_summary'' = PDict r" "get ?e ''expected_artifacts'' = ?o"
    "get ?e ''minimum_artifacts'' = PDict (minimum_artifact_presence (map ref_dict rs))"
    "has_key ?e ''artifact_families''" "has_key ?e ''artifact_refs''" "has_key ?e ''review_summary''"
    "has_key ?e ''expected_artifacts''" "has_key ?e ''minimum_artifacts''"
    by (simp_all add: refresh_evidence_def)
  then show ?thesis
    by (subst refresh_evidence_def) (simp only: dput_absorb)
qed

lemma refresh_idem:
  "refresh_execution_result (refresh_execution_result result exists) exists
     = refresh_execution_result result exists"
proof -
  obtain fs rs where fr: "build_artifact_contract (Some exists) = (fs, rs)"
    by (cases "build_artifact_contract (Some exists)")
  let ?r = "refresh_execution_result result exists"
  let ?review = "refresh_review fs rs (the_dict (get result ''review_summary''))"
  let ?evidence = "refresh_evidence fs rs ?review (the_dict (get result ''evidence_bundle''))"
  have r: "?r = dput (dput (dput (dput result ''artifact_families'' (pstrs fs)) ''artifact_refs'' (refs_py rs))
      ''review_summary'' (PDict ?review)) ''evidence_bundle'' (PDict ?evidence)"
    by (simp add: refresh_execution_result_def fr Let_def)
  have f: "get ?r ''artifact_families'' = pstrs fs" "get ?r ''artifact_refs'' = refs_py rs"
    "get ?r ''review_summary'' = PDict ?review" "get ?r ''evidence_bundle'' = PDict ?evidence"
    "has_key ?r ''artifact_families''" "has_key ?r ''artifact_refs''" "has_key ?r ''review_summary''"
    "has_key ?r ''evidence_bundle''"
    by (simp_all add: r)
  have "refresh_execution_result ?r exists = dput (dput (dput (dput ?r ''artifact_families'' (pstrs fs))
      ''artifact_refs'' (refs_py rs)) ''review_summary'' (PDict (refresh_review fs rs ?review)))
      ''evidence_bundle'' (PDict (refresh_evidence fs rs (refresh_review fs rs ?review) ?evidence))"
    by (subst refresh_execution_result_def) (simp add: fr Let_def f(3,4))
  then show ?thesis
    by (simp only: refresh_review_idem refresh_evidence_idem dput_absorb [OF f(1) f(5)]
        dput_absorb [OF f(2) f(6)] dput_absorb [OF f(3) f(7)] dput_absorb [OF f(4) f(8)])
qed

end
