(* ===== verification/Queue_State.thy ===== *)
theory Queue_State
  imports Queue_Contracts
begin

text \<open>
  Models \<open>voxera/core/queue_state.py\<close> (the snapshot a lifecycle update writes and the location of the
  sidecar) with the vocabulary of \<open>voxera/core/queue_object_model.py\<close>. The optional keyword arguments
  of the update are the fields of a record.
\<close>

section \<open>Vocabulary\<close>

definition queue_lifecycle_states :: "string list" where
  "queue_lifecycle_states = [''queued'', ''planning'', ''running'', ''awaiting_approval'', ''resumed'',
     ''advisory_running'', ''done'', ''failed'', ''step_failed'', ''blocked'', ''canceled'']"

definition completed_at_lifecycle_states :: "string list" where
  "completed_at_lifecycle_states = [''done'', ''failed'', ''step_failed'', ''blocked'', ''canceled'']"

definition terminal_outcomes :: "string list" where
  "terminal_outcomes = [''succeeded'', ''failed'', ''blocked'', ''denied'', ''canceled'']"

section \<open>The sidecar of a job\<close>

datatype bucket = Inbox | Pending | Done | Failed | Canceled

definition all_buckets :: "bucket list" where
  "all_buckets = [Inbox, Pending, Done, Failed, Canceled]"

text \<open>\<open>job_state_sidecar_path\<close>: the first bucket that has the sidecar of the stem, else the bucket of
  the reference's parent directory, else pending. The files are a predicate on bucket and name.\<close>

definition state_name :: "string \<Rightarrow> string" where
  "state_name stem = stem @ ''.state.json''"

definition job_state_sidecar_path :: "(bucket \<Rightarrow> string \<Rightarrow> bool) \<Rightarrow> bucket option \<Rightarrow> string \<Rightarrow> bucket \<times> string" where
  "job_state_sidecar_path exists parent stem =
     (case filter (\<lambda>b. exists b (state_name stem)) all_buckets of
        b # _ \<Rightarrow> (b, state_name stem)
      | [] \<Rightarrow> (case parent of Some b \<Rightarrow> (b, state_name stem) | None \<Rightarrow> (Pending, state_name stem)))"

section \<open>The snapshot\<close>

record snapshot_args =
  sn_payload :: "dict option"
  sn_mission :: "mission option"
  sn_rr :: "dict option"
  sn_terminal :: "string option"
  sn_failure :: "string option"
  sn_blocked_reason :: "string option"
  sn_blocked_class :: "string option"
  sn_approval :: "string option"

definition no_args :: snapshot_args where
  "no_args = \<lparr>sn_payload = None, sn_mission = None, sn_rr = None, sn_terminal = None, sn_failure = None,
     sn_blocked_reason = None, sn_blocked_class = None, sn_approval = None\<rparr>"

definition normalize_lifecycle :: "string \<Rightarrow> string" where
  "normalize_lifecycle s = (let n = lower (strip s) in
     if n \<in> set queue_lifecycle_states then n else ''blocked'')"

definition resolve_terminal :: "string \<Rightarrow> dict \<Rightarrow> dict \<Rightarrow> string option \<Rightarrow> string option \<Rightarrow> py result" where
  "resolve_terminal lifecycle rr current terminal approval =
     (let t0 = (case terminal of Some s \<Rightarrow> PStr s
            | None \<Rightarrow> por (get rr ''terminal_outcome'') (get current ''terminal_outcome''));
          t1 = (if lifecycle = ''done'' \<and> \<not> truthy t0 then PStr ''succeeded'' else t0);
          t2 = (if lifecycle = ''awaiting_approval'' \<and> \<not> truthy t1 then PStr ''blocked'' else t1);
          t3 = (if approval = Some ''denied'' \<and> \<not> truthy t2 then PStr ''denied'' else t2);
          t4 = (case t3 of PStr s \<Rightarrow> str_or_none (lower (strip s)) | v \<Rightarrow> v)
      in bindR (in_str_set t4 terminal_outcomes) (\<lambda>ok. Inr (if ok then t4 else PNone)))"

fun outcome_blocked_class :: "py list \<Rightarrow> py" where
  "outcome_blocked_class [] = PNone"
| "outcome_blocked_class (PDict d # rest) = (case get d ''blocked_reason_class'' of
     PStr s \<Rightarrow> if strip s \<noteq> [] then PStr (strip s) else outcome_blocked_class rest
   | _ \<Rightarrow> outcome_blocked_class rest)"
| "outcome_blocked_class (_ # rest) = outcome_blocked_class rest"

fun result_blocked_class :: "py list \<Rightarrow> py" where
  "result_blocked_class [] = PNone"
| "result_blocked_class (PDict d # rest) =
     (if clean_lower (get d ''error_class'') \<in> set boundary_blocked_classes
      then PStr (clean_lower (get d ''error_class'')) else result_blocked_class rest)"
| "result_blocked_class (_ # rest) = result_blocked_class rest"

definition resolve_blocked_class :: "dict \<Rightarrow> dict \<Rightarrow> string option \<Rightarrow> py" where
  "resolve_blocked_class rr current arg =
     (let c0 = (case arg of Some s \<Rightarrow> PStr s
            | None \<Rightarrow> if is_str (get rr ''blocked_reason_class'') then get rr ''blocked_reason_class''
                else if is_str (get current ''blocked_reason_class'') then get current ''blocked_reason_class''
                else PNone);
          c1 = (if c0 = PNone then outcome_blocked_class (rev (the_list (get rr ''step_outcomes''))) else c0)
      in if c1 = PNone then result_blocked_class (rev (the_list (get rr ''results''))) else c1)"

definition last_result_error :: "dict \<Rightarrow> string" where
  "last_result_error rr = (case rev (the_list (get rr ''results'')) of
     PDict d # _ \<Rightarrow> clean_str (get d ''error'') | _ \<Rightarrow> [])"

definition resolve_blocked_reason :: "dict \<Rightarrow> dict \<Rightarrow> string option \<Rightarrow> string option \<Rightarrow> py \<Rightarrow> py" where
  "resolve_blocked_reason rr current arg failure cls =
     (let r0 = (case arg of Some s \<Rightarrow> PStr s | None \<Rightarrow> get current ''blocked_reason'') in
      if r0 = PNone \<and> truthy cls then
        por (popt failure) (por (PStr (clean_str (get rr ''error'')))
          (por (PStr (last_result_error rr)) (get current ''failure_summary'')))
      else r0)"

definition resolve_mission :: "dict \<Rightarrow> mission option \<Rightarrow> py" where
  "resolve_mission current mi = (case mi of
     Some m \<Rightarrow> PDict [(''mission_id'', PStr (mi_id m)), (''title'', PStr (mi_title m)), (''goal'', PStr (mi_goal m))]
   | None \<Rightarrow> keep_dict (get current ''mission''))"

definition resolve_outcomes :: "dict \<Rightarrow> dict \<Rightarrow> py" where
  "resolve_outcomes rr current = (if is_list (get rr ''step_outcomes'') then get rr ''step_outcomes''
     else keep_list (get current ''step_outcomes''))"

definition progress :: "dict \<Rightarrow> dict \<Rightarrow> string \<Rightarrow> int result" where
  "progress rr current key = py_int (por (get rr key) (por (get current key) (PInt 0)))"

definition opt_value :: "string option \<Rightarrow> py \<Rightarrow> py" where
  "opt_value arg old = (case arg of Some s \<Rightarrow> PStr s | None \<Rightarrow> old)"

definition update_job_state_snapshot :: "string \<Rightarrow> string \<Rightarrow> dict \<Rightarrow> int \<Rightarrow> snapshot_args \<Rightarrow> dict result" where
  "update_job_state_snapshot job_ref lifecycle_state current now_ms a =
     (let lifecycle = normalize_lifecycle lifecycle_state;
          rr = (case sn_rr a of None \<Rightarrow> [] | Some d \<Rightarrow> d) in
      bindR (py_int (por (get current ''started_at_ms'') (PInt now_ms))) (\<lambda>started.
      let transitions = dput (the_dict (get current ''transitions'')) lifecycle (PInt now_ms) in
      bindR (case sn_mission a of Some m \<Rightarrow> Inr (int (length (mi_steps m)))
         | None \<Rightarrow> int_or_zero (get current ''total_steps'')) (\<lambda>tot.
      bindR (progress rr current ''current_step_index'') (\<lambda>cur.
      bindR (progress rr current ''last_completed_step'') (\<lambda>completed.
      bindR (progress rr current ''last_attempted_step'') (\<lambda>attempted.
      bindR (resolve_terminal lifecycle rr current (sn_terminal a) (sn_approval a)) (\<lambda>terminal.
      let cls = resolve_blocked_class rr current (sn_blocked_class a) in
      Inr ([(''schema_version'', PInt 1), (''job_id'', PStr (path_stem job_ref @ ''.json'')),
        (''lifecycle_state'', PStr lifecycle), (''current_step_index'', PInt cur), (''total_steps'', PInt tot),
        (''last_completed_step'', PInt completed), (''last_attempted_step'', PInt attempted),
        (''terminal_outcome'', terminal),
        (''failure_summary'', opt_value (sn_failure a) (get current ''failure_summary'')),
        (''blocked_reason'', resolve_blocked_reason rr current (sn_blocked_reason a) (sn_failure a) cls),
        (''blocked_reason_class'', cls),
        (''approval_status'', opt_value (sn_approval a) (get current ''approval_status'')),
        (''mission'', resolve_mission current (sn_mission a)),
        (''step_outcomes'', resolve_outcomes rr current), (''started_at_ms'', PInt started),
        (''updated_at_ms'', PInt now_ms),
        (''completed_at_ms'', if lifecycle \<in> set completed_at_lifecycle_states then PInt now_ms else PNone),
        (''transitions'', PDict transitions)]
       @ (case sn_payload a of Some p \<Rightarrow> [(''payload'', PDict p)]
          | None \<Rightarrow> (case get current ''payload'' of PDict p \<Rightarrow> [(''payload'', PDict p)] | _ \<Rightarrow> []))))))))))"

section \<open>Well-formed snapshots\<close>

definition wf_snapshot :: "dict \<Rightarrow> bool" where
  "wf_snapshot d \<longleftrightarrow>
     (\<exists>l. get d ''lifecycle_state'' = PStr l \<and> l \<in> set queue_lifecycle_states
        \<and> (\<exists>t. get d ''transitions'' = PDict t \<and> has_key t l \<and> get t l = get d ''updated_at_ms'')
        \<and> (get d ''completed_at_ms'' \<noteq> PNone \<longleftrightarrow> l \<in> set completed_at_lifecycle_states))
     \<and> (get d ''terminal_outcome'' = PNone
        \<or> (\<exists>t \<in> set terminal_outcomes. get d ''terminal_outcome'' = PStr t))
     \<and> is_int (get d ''started_at_ms'') \<and> is_int (get d ''total_steps'') \<and> is_list (get d ''step_outcomes'')
     \<and> is_dict (get d ''mission'')"

definition valid_terminal :: "py \<Rightarrow> bool" where
  "valid_terminal v \<longleftrightarrow> v = PNone \<or> (\<exists>t \<in> set terminal_outcomes. v = PStr t)"

lemma resolve_terminal_valid: "resolve_terminal l rr current t a = Inr v \<Longrightarrow> valid_terminal v"
  unfolding resolve_terminal_def Let_def
  by (auto simp: result_iff in_str_set_def valid_terminal_def split: if_splits py.splits)

text \<open>The outcome that an update is given: the argument's, the run's or the old one, in this order. A
  \<open>foreign\<close> one is there but not in the vocabulary.\<close>

definition given_terminal :: "dict \<Rightarrow> dict \<Rightarrow> string option \<Rightarrow> py" where
  "given_terminal rr current t = (case t of Some s \<Rightarrow> PStr s
     | None \<Rightarrow> por (get rr ''terminal_outcome'') (get current ''terminal_outcome''))"

definition foreign_terminal :: "py \<Rightarrow> bool" where
  "foreign_terminal v \<longleftrightarrow> truthy v \<and> (case v of PStr s \<Rightarrow> lower (strip s) \<notin> set terminal_outcomes | _ \<Rightarrow> True)"

lemma in_vocabulary: "in_str_set v terminal_outcomes = Inr ok \<Longrightarrow>
    ok \<longleftrightarrow> (case v of PStr s \<Rightarrow> s \<in> set terminal_outcomes | _ \<Rightarrow> False)"
  by (simp add: in_str_set_def split: if_splits)

text \<open>A job that is done or waits has an outcome unless it was given a foreign one.\<close>

lemma resolve_terminal_present:
  assumes "resolve_terminal l rr current t a = Inr PNone" and "l = ''done'' \<or> l = ''awaiting_approval''"
  shows "foreign_terminal (given_terminal rr current t)"
proof -
  let ?g = "given_terminal rr current t"
  have words: "lower (strip ''succeeded'') = ''succeeded''" "lower (strip ''blocked'') = ''blocked''"
    "''succeeded'' \<in> set terminal_outcomes" "''blocked'' \<in> set terminal_outcomes" by code_simp+
  have truthy: "truthy ?g"
  proof (rule ccontr)
    assume n: "\<not> truthy ?g"
    from assms(2) show False
    proof
      assume "l = ''done''"
      with n assms(1) words show False
        by (simp add: resolve_terminal_def given_terminal_def [symmetric] Let_def str_or_none_def)
    next
      assume "l = ''awaiting_approval''"
      with n assms(1) words show False
        by (simp add: resolve_terminal_def given_terminal_def [symmetric] Let_def str_or_none_def)
    qed
  qed
  have "lower (strip s) \<notin> set terminal_outcomes" if s: "?g = PStr s" for s
  proof
    assume m: "lower (strip s) \<in> set terminal_outcomes"
    then have "lower (strip s) \<noteq> []" by (auto simp: terminal_outcomes_def)
    with assms(1) truthy s m show False
      by (simp add: resolve_terminal_def given_terminal_def [symmetric] Let_def str_or_none_def)
  qed
  with truthy show ?thesis unfolding foreign_terminal_def by (cases ?g) simp_all
qed

lemma normalize_lifecycle_in: "normalize_lifecycle s \<in> set queue_lifecycle_states"
  by (auto simp: normalize_lifecycle_def Let_def queue_lifecycle_states_def)

lemma snapshot_get:
  assumes "update_job_state_snapshot ref lc current now a = Inr d"
  shows "get d ''lifecycle_state'' = PStr (normalize_lifecycle lc)"
    and "get d ''transitions'' = PDict (dput (the_dict (get current ''transitions''))
           (normalize_lifecycle lc) (PInt now))"
    and "get d ''updated_at_ms'' = PInt now"
    and "get d ''completed_at_ms'' =
           (if normalize_lifecycle lc \<in> set completed_at_lifecycle_states then PInt now else PNone)"
    and "resolve_terminal (normalize_lifecycle lc) (case sn_rr a of None \<Rightarrow> [] | Some r \<Rightarrow> r) current
           (sn_terminal a) (sn_approval a) = Inr (get d ''terminal_outcome'')"
    and "\<exists>n. py_int (por (get current ''started_at_ms'') (PInt now)) = Inr n \<and> get d ''started_at_ms'' = PInt n"
    and "is_int (get d ''total_steps'')"
    and "get d ''step_outcomes'' = resolve_outcomes (case sn_rr a of None \<Rightarrow> [] | Some r \<Rightarrow> r) current"
    and "get d ''mission'' = resolve_mission current (sn_mission a)"
    and "get d ''blocked_reason_class'' =
      resolve_blocked_class (case sn_rr a of None \<Rightarrow> [] | Some r \<Rightarrow> r) current (sn_blocked_class a)"
proof -
  from assms obtain started tot cur completed attempted terminal tail where
    1: "py_int (por (get current ''started_at_ms'') (PInt now)) = Inr started"
    and 2: "resolve_terminal (normalize_lifecycle lc) (case sn_rr a of None \<Rightarrow> [] | Some r \<Rightarrow> r) current
           (sn_terminal a) (sn_approval a) = Inr terminal"
    and d: "d = [(''schema_version'', PInt 1), (''job_id'', PStr (path_stem ref @ ''.json'')),
        (''lifecycle_state'', PStr (normalize_lifecycle lc)), (''current_step_index'', PInt cur),
        (''total_steps'', PInt tot),
        (''last_completed_step'', PInt completed), (''last_attempted_step'', PInt attempted),
        (''terminal_outcome'', terminal),
        (''failure_summary'', opt_value (sn_failure a) (get current ''failure_summary'')),
        (''blocked_reason'', resolve_blocked_reason (case sn_rr a of None \<Rightarrow> [] | Some r \<Rightarrow> r) current
           (sn_blocked_reason a) (sn_failure a)
           (resolve_blocked_class (case sn_rr a of None \<Rightarrow> [] | Some r \<Rightarrow> r) current (sn_blocked_class a))),
        (''blocked_reason_class'',
           resolve_blocked_class (case sn_rr a of None \<Rightarrow> [] | Some r \<Rightarrow> r) current (sn_blocked_class a)),
        (''approval_status'', opt_value (sn_approval a) (get current ''approval_status'')),
        (''mission'', resolve_mission current (sn_mission a)),
        (''step_outcomes'', resolve_outcomes (case sn_rr a of None \<Rightarrow> [] | Some r \<Rightarrow> r) current),
        (''started_at_ms'', PInt started), (''updated_at_ms'', PInt now),
        (''completed_at_ms'', if normalize_lifecycle lc \<in> set completed_at_lifecycle_states
           then PInt now else PNone),
        (''transitions'', PDict (dput (the_dict (get current ''transitions''))
           (normalize_lifecycle lc) (PInt now)))] @ tail"
    unfolding update_job_state_snapshot_def Let_def bindR_eq_Inr sum.inject by (elim exE conjE) blast
  show "get d ''lifecycle_state'' = PStr (normalize_lifecycle lc)"
    "get d ''transitions'' = PDict (dput (the_dict (get current ''transitions''))
           (normalize_lifecycle lc) (PInt now))"
    "get d ''updated_at_ms'' = PInt now"
    "get d ''completed_at_ms'' =
           (if normalize_lifecycle lc \<in> set completed_at_lifecycle_states then PInt now else PNone)"
    "resolve_terminal (normalize_lifecycle lc) (case sn_rr a of None \<Rightarrow> [] | Some r \<Rightarrow> r) current
           (sn_terminal a) (sn_approval a) = Inr (get d ''terminal_outcome'')"
    "\<exists>n. py_int (por (get current ''started_at_ms'') (PInt now)) = Inr n \<and> get d ''started_at_ms'' = PInt n"
    "is_int (get d ''total_steps'')"
    "get d ''step_outcomes'' = resolve_outcomes (case sn_rr a of None \<Rightarrow> [] | Some r \<Rightarrow> r) current"
    "get d ''mission'' = resolve_mission current (sn_mission a)"
    "get d ''blocked_reason_class'' =
      resolve_blocked_class (case sn_rr a of None \<Rightarrow> [] | Some r \<Rightarrow> r) current (sn_blocked_class a)"
    unfolding d using 1 2 by simp_all
qed

lemma snapshot_wf:
  assumes upd: "update_job_state_snapshot ref lc current now a = Inr d"
  shows "wf_snapshot d"
proof -
  note g = snapshot_get [OF upd]
  let ?l = "normalize_lifecycle lc"
  have l: "?l \<in> set queue_lifecycle_states" by (rule normalize_lifecycle_in)
  have outcomes: "is_list (get d ''step_outcomes'')" "is_dict (get d ''mission'')"
    unfolding g(8,9) by (simp_all add: resolve_outcomes_def keep_list_def resolve_mission_def keep_dict_def
        split: option.splits)
  have valid: "valid_terminal (get d ''terminal_outcome'')" using g(5) by (rule resolve_terminal_valid)
  have started: "is_int (get d ''started_at_ms'')" using g(6) by auto
  have tr: "\<exists>t. get d ''transitions'' = PDict t \<and> has_key t ?l \<and> get t ?l = get d ''updated_at_ms''"
    unfolding g(2,3) by simp
  have compl: "get d ''completed_at_ms'' \<noteq> PNone \<longleftrightarrow> ?l \<in> set completed_at_lifecycle_states"
    unfolding g(4) by simp
  show ?thesis
    unfolding wf_snapshot_def using g(1) l tr compl valid started g(7) outcomes
    by (auto simp: valid_terminal_def)
qed

lemma snapshot_terminal:
  assumes "update_job_state_snapshot ref lc current now a = Inr d"
    and "get d ''lifecycle_state'' \<in> {PStr ''done'', PStr ''awaiting_approval''}" and "get d ''terminal_outcome'' = PNone"
  shows "foreign_terminal (given_terminal (case sn_rr a of None \<Rightarrow> [] | Some r \<Rightarrow> r) current (sn_terminal a))"
proof (rule resolve_terminal_present)
  note g = snapshot_get [OF assms(1)]
  show "resolve_terminal (normalize_lifecycle lc) (case sn_rr a of None \<Rightarrow> [] | Some r \<Rightarrow> r) current
      (sn_terminal a) (sn_approval a) = Inr PNone" using g(5) assms(3) by simp
  show "normalize_lifecycle lc = ''done'' \<or> normalize_lifecycle lc = ''awaiting_approval''"
    using g(1) assms(2) by simp
qed

text \<open>The first start of a job stays on record, and so does every state it passed through.\<close>

lemma snapshot_history:
  assumes "update_job_state_snapshot ref lc current now a = Inr d"
  shows "get current ''started_at_ms'' = PInt n \<Longrightarrow> n \<noteq> 0 \<Longrightarrow> get d ''started_at_ms'' = PInt n"
    and "get current ''transitions'' = PDict t \<Longrightarrow> has_key t k \<Longrightarrow> k \<noteq> normalize_lifecycle lc \<Longrightarrow>
      has_key (the_dict (get d ''transitions'')) k \<and> get (the_dict (get d ''transitions'')) k = get t k"
  using snapshot_get(2,6) [OF assms] by (auto simp: por_def)

end
