(* ===== verification/Queue_Store.thy ===== *)
theory Queue_Store
  imports Step_Monad Execution_Result Queue_State
begin

text \<open>
  The state of the queue daemon and the file operations its handlers are made of:
  \<open>voxera/core/queue_paths.py\<close> and the state, artifact and sidecar writers of
  \<open>voxera/core/queue_daemon.py\<close>. The files of the queue root are an association list from paths to
  contents, a JSON file holding its value; the world the skills act on is a type parameter. A write to
  a file does not fail. The clock readings are functions of the state, so each write may see a new one.
\<close>

section \<open>State\<close>

datatype qdir = QueueRoot | InBucket bucket | ApprovalsDir | ArtifactsDir string | ArchiveDir
  | AutoDir | AutoDefs | AutoHistory | RecoveryDir int qdir

type_synonym qpath = "qdir \<times> string"

datatype content = Json py | Text string | Lines "py list"

record qfile =
  fl_content :: content
  fl_mtime :: int

type_synonym files = "(qpath \<times> qfile) list"

text \<open>The fields of \<open>MissionQueueDaemon\<close> that its handlers change; \<open>q_health\<close> is the journal of the
  calls into \<open>voxera/health.py\<close>, \<open>q_outer\<close> everything outside the queue root.\<close>

record 'w queue =
  q_files :: files
  q_approved :: "(string \<times> int \<times> string) list"
  q_current :: "string option"
  q_processed :: nat
  q_failed :: nat
  q_health :: "dict list"
  q_outer :: 'w

type_synonym 'w daemon = "'w queue rstate"

record 'w qenv =
  qe_root :: string
  qe_now :: "'w queue \<Rightarrow> int"
  qe_time :: "'w queue \<Rightarrow> py"
  qe_policy :: policy
  qe_redact :: bool
  qe_skills :: "'w skill_env"
  qe_registry :: "string \<Rightarrow> manifest result"
  qe_append_log :: "string \<Rightarrow> 'w \<Rightarrow> exc option \<times> 'w"
  qe_timestamp :: "'w \<Rightarrow> string"
  qe_auto_approve :: bool
  qe_dev_mode :: bool
  qe_max_replans :: nat
  qe_mission_ids :: "string list"
  qe_get_mission :: "string \<Rightarrow> mission result"
  qe_allowed_apps :: "string list"
  qe_close_matches :: "string \<Rightarrow> string list \<Rightarrow> string list"
  qe_plan :: "string \<Rightarrow> string \<Rightarrow> 'w \<Rightarrow> mission result \<times> 'w"
  qe_classify :: "string option \<Rightarrow> simple_intent"
  qe_shutdown :: "'w \<Rightarrow> string option"
  qe_assistant :: "qpath \<Rightarrow> dict \<Rightarrow> string \<Rightarrow> dict \<Rightarrow> (bool, 'w queue rstate) prog"
  qe_deliver :: "string \<Rightarrow> 'w \<Rightarrow> 'w"
  qe_child_id :: "'w queue \<Rightarrow> string"
  qe_notify_enabled :: bool
  qe_notify :: "string list \<Rightarrow> (int \<times> string) result"
  qe_max_age_s :: "int option"
  qe_max_count :: "nat option"

section \<open>Files\<close>

definition file_at :: "files \<Rightarrow> qpath \<Rightarrow> qfile option" where
  "file_at fs p = map_of fs p"

definition exists_file :: "files \<Rightarrow> qpath \<Rightarrow> bool" where
  "exists_file fs p = (file_at fs p \<noteq> None)"

definition put_file :: "qpath \<Rightarrow> qfile \<Rightarrow> files \<Rightarrow> files" where
  "put_file p f fs = AList.update p f fs"

definition drop_file :: "qpath \<Rightarrow> files \<Rightarrow> files" where
  "drop_file p fs = AList.delete p fs"

text \<open>\<open>Path.replace\<close>: the target takes the file and its time, the source is gone.\<close>

definition rename_file :: "qpath \<Rightarrow> qpath \<Rightarrow> files \<Rightarrow> files" where
  "rename_file src dst fs = (case file_at fs src of
     None \<Rightarrow> fs | Some f \<Rightarrow> put_file dst f (drop_file src fs))"

lemma file_at_put [simp]: "file_at (put_file p f fs) q = (if q = p then Some f else file_at fs q)"
  by (simp add: file_at_def put_file_def update_conv')

lemma file_at_drop [simp]: "file_at (drop_file p fs) q = (if q = p then None else file_at fs q)"
  by (simp add: file_at_def drop_file_def delete_conv')

lemma file_at_rename:
  "file_at fs src = Some f \<Longrightarrow> src \<noteq> dst \<Longrightarrow>
   file_at (rename_file src dst fs) q = (if q = dst then Some f else if q = src then None else file_at fs q)"
  by (simp add: rename_file_def)

text \<open>The names in a directory, in the order of \<open>sorted(dir.glob("*"))\<close>\<close>

definition dir_names :: "files \<Rightarrow> qdir \<Rightarrow> string list" where
  "dir_names fs d = sorted_set (map snd (filter (\<lambda>p. fst p = d) (map fst fs)))"

lemma dir_names_iff: "n \<in> set (dir_names fs d) \<longleftrightarrow> exists_file fs (d, n)"
proof -
  have "n \<in> snd ` {p \<in> fst ` set fs. fst p = d} \<longleftrightarrow> (d, n) \<in> fst ` set fs" by force
  then show ?thesis by (simp add: dir_names_def exists_file_def file_at_def map_of_eq_None_iff)
qed

fun bucket_name :: "bucket \<Rightarrow> string" where
  "bucket_name Inbox = ''inbox''" | "bucket_name Pending = ''pending''" | "bucket_name Done = ''done''"
| "bucket_name Failed = ''failed''" | "bucket_name Canceled = ''canceled''"

fun dir_path :: "qdir \<Rightarrow> string" where
  "dir_path QueueRoot = []"
| "dir_path (InBucket b) = bucket_name b"
| "dir_path ApprovalsDir = ''pending/approvals''"
| "dir_path (ArtifactsDir s) = ''artifacts/'' @ s"
| "dir_path ArchiveDir = ''_archive/sidecars''"
| "dir_path AutoDir = ''automations''"
| "dir_path AutoDefs = ''automations/definitions''"
| "dir_path AutoHistory = ''automations/history''"
| "dir_path (RecoveryDir ts d) = ''recovery/startup-'' @ int_str ts
     @ (if d = QueueRoot then [] else ''/'' @ dir_path d)"

text \<open>\<open>str(path)\<close>\<close>

definition path_str :: "'w qenv \<Rightarrow> qpath \<Rightarrow> string" where
  "path_str env p = qe_root env @ ''/'' @ (if fst p = QueueRoot then [] else dir_path (fst p) @ ''/'') @ snd p"

definition sibling :: "qpath \<Rightarrow> string \<Rightarrow> qpath" where
  "sibling p name = (fst p, name)"

definition artifact :: "qpath \<Rightarrow> string \<Rightarrow> qpath" where
  "artifact job name = (ArtifactsDir (name_stem (snd job)), name)"

section \<open>Elementary steps\<close>

definition queue_get :: "('w queue \<Rightarrow> 'a) \<Rightarrow> ('a, 'w daemon) prog" where
  "queue_get f = getM (\<lambda>s. f (rs_world s))"

definition queue_modify :: "('w queue \<Rightarrow> 'w queue) \<Rightarrow> (unit, 'w daemon) prog" where
  "queue_modify f = modifyM (\<lambda>s. s\<lparr>rs_world := f (rs_world s)\<rparr>)"

definition log :: "dict \<Rightarrow> (unit, 'w daemon) prog" where
  "log e = modifyM (log_event e)"

definition health :: "dict \<Rightarrow> (unit, 'w daemon) prog" where
  "health e = queue_modify (\<lambda>q. q\<lparr>q_health := q_health q @ [e]\<rparr>)"

definition increment_health_counter :: "string \<Rightarrow> (unit, 'w daemon) prog" where
  "increment_health_counter key = health [(''counter'', PStr key)]"

definition now :: "'w qenv \<Rightarrow> (int, 'w daemon) prog" where
  "now env = queue_get (qe_now env)"

definition clock :: "'w qenv \<Rightarrow> (py, 'w daemon) prog" where
  "clock env = queue_get (qe_time env)"

definition exists_now :: "qpath \<Rightarrow> (bool, 'w daemon) prog" where
  "exists_now p = queue_get (\<lambda>q. exists_file (q_files q) p)"

definition content_now :: "qpath \<Rightarrow> (content option, 'w daemon) prog" where
  "content_now p = queue_get (\<lambda>q. map_option fl_content (file_at (q_files q) p))"

definition write_file :: "'w qenv \<Rightarrow> qpath \<Rightarrow> content \<Rightarrow> (unit, 'w daemon) prog" where
  "write_file env p c = queue_modify (\<lambda>q.
     q\<lparr>q_files := put_file p \<lparr>fl_content = c, fl_mtime = qe_now env q\<rparr> (q_files q)\<rparr>)"

definition unlink :: "qpath \<Rightarrow> (unit, 'w daemon) prog" where
  "unlink p = queue_modify (\<lambda>q. q\<lparr>q_files := drop_file p (q_files q)\<rparr>)"

text \<open>A JSON file that must hold an object: the dict, or empty when it is missing or something else\<close>

definition read_dict :: "qpath \<Rightarrow> (dict, 'w daemon) prog" where
  "read_dict p = bindM (content_now p) (\<lambda>c. retM (case c of Some (Json (PDict d)) \<Rightarrow> d | _ \<Rightarrow> []))"

section \<open>Moving a job\<close>

definition moved_name :: "'w qenv \<Rightarrow> qdir \<Rightarrow> string \<Rightarrow> 'w queue \<Rightarrow> string" where
  "moved_name env d name q =
     (if exists_file (q_files q) (d, name)
      then name_stem name @ ''-'' @ int_str (qe_now env q) @ name_suffix name else name)"

definition move_files :: "qpath \<Rightarrow> qpath \<Rightarrow> files \<Rightarrow> files" where
  "move_files src dst fs =
     (let fs1 = rename_file src dst fs;
          state_src = sibling src (state_name (name_stem (snd src)));
          state_dst = sibling dst (state_name (name_stem (snd dst)))
      in rename_file state_src state_dst fs1)"

text \<open>\<open>move_job_with_sidecar\<close> with the \<open>on_already_moved\<close> of \<open>_move_job\<close>\<close>

definition move_job :: "'w qenv \<Rightarrow> qpath \<Rightarrow> qdir \<Rightarrow> (qpath option, 'w daemon) prog" where
  "move_job env src d =
     bindM (queue_get (moved_name env d (snd src))) (\<lambda>name.
     bindM (exists_now src) (\<lambda>present.
       if \<not> present then
         thenM (log [(''event'', PStr ''queue_job_already_moved''), (''job'', PStr (path_str env src)),
            (''target_dir'', PStr (qe_root env @ ''/'' @ dir_path d))]) (retM None)
       else thenM (queue_modify (\<lambda>q. q\<lparr>q_files := move_files src (d, name) (q_files q)\<rparr>))
         (retM (Some (d, name)))))"

text \<open>\<open>deterministic_target_path\<close>: the loop over the indices, with the bound of the directory's size\<close>

fun free_index :: "(string \<Rightarrow> bool) \<Rightarrow> (nat \<Rightarrow> string) \<Rightarrow> nat \<Rightarrow> nat \<Rightarrow> string option" where
  "free_index taken name i 0 = None"
| "free_index taken name i (Suc fuel) =
     (if taken (name i) then free_index taken name (Suc i) fuel else Some (name i))"

definition indexed_name :: "string \<Rightarrow> string \<Rightarrow> nat \<Rightarrow> string" where
  "indexed_name base tag i = name_stem base @ ''-'' @ tag @ ''-'' @ nat_str i @ name_suffix base"

definition deterministic_target_path :: "files \<Rightarrow> qdir \<Rightarrow> string \<Rightarrow> string \<Rightarrow> qpath option" where
  "deterministic_target_path fs d file_name tag =
     (let base = path_name file_name in
      if \<not> exists_file fs (d, base) then Some (d, base)
      else map_option (\<lambda>n. (d, n))
        (free_index (\<lambda>n. exists_file fs (d, n)) (indexed_name base tag) 1 (Suc (length (dir_names fs d)))))"

section \<open>Job state\<close>

definition parent_bucket :: "qpath \<Rightarrow> bucket option" where
  "parent_bucket p = (case fst p of InBucket b \<Rightarrow> Some b | _ \<Rightarrow> None)"

definition state_path :: "qpath \<Rightarrow> files \<Rightarrow> qpath" where
  "state_path job fs = (let (b, n) = job_state_sidecar_path (\<lambda>b n. exists_file fs (InBucket b, n))
      (parent_bucket job) (name_stem (snd job)) in (InBucket b, n))"

definition read_job_state :: "qpath \<Rightarrow> (dict, 'w daemon) prog" where
  "read_job_state job = bindM (queue_get (\<lambda>q. state_path job (q_files q))) read_dict"

definition write_job_state :: "'w qenv \<Rightarrow> qpath \<Rightarrow> dict \<Rightarrow> (unit, 'w daemon) prog" where
  "write_job_state env job d =
     bindM (queue_get (\<lambda>q. state_path job (q_files q))) (\<lambda>p. write_file env p (Json (PDict d)))"

definition sanitize_payload_intent_route :: "dict option \<Rightarrow> dict option" where
  "sanitize_payload_intent_route payload = (case payload of
     None \<Rightarrow> None
   | Some d \<Rightarrow> (case get d ''_simple_intent'' of
       PDict r \<Rightarrow> Some (dput d ''_simple_intent'' (PDict (sanitize_intent_route r))) | _ \<Rightarrow> Some d))"

definition update_job_state :: "'w qenv \<Rightarrow> qpath \<Rightarrow> string \<Rightarrow> snapshot_args \<Rightarrow> (unit, 'w daemon) prog" where
  "update_job_state env job lifecycle a =
     bindM (now env) (\<lambda>now_ms.
     bindM (read_job_state job) (\<lambda>current.
     bindM (liftR (update_job_state_snapshot (path_str env job) lifecycle current now_ms
       (a\<lparr>sn_payload := sanitize_payload_intent_route (sn_payload a)\<rparr>))) (\<lambda>snapshot.
     write_job_state env job snapshot)))"

section \<open>Artifacts\<close>

definition artifact_exists :: "files \<Rightarrow> qpath \<Rightarrow> string \<Rightarrow> bool" where
  "artifact_exists fs job name = exists_file fs (artifact job name)"

definition write_action_event :: "'w qenv \<Rightarrow> qpath \<Rightarrow> string \<Rightarrow> dict \<Rightarrow> (unit, 'w daemon) prog" where
  "write_action_event env job event data =
     bindM (clock env) (\<lambda>ts.
     bindM (content_now (artifact job ''actions.jsonl'')) (\<lambda>old.
     thenM (write_file env (artifact job ''actions.jsonl'')
       (Lines ((case old of Some (Lines ls) \<Rightarrow> ls | _ \<Rightarrow> [])
          @ [PDict (dmerge [(''event'', PStr event), (''ts'', ts)] data)])))
     (bindM (content_now (artifact job ''execution_result.json'')) (\<lambda>c. case c of
        Some (Json (PDict loaded)) \<Rightarrow>
          bindM (queue_get (\<lambda>q. artifact_exists (q_files q) job)) (\<lambda>ex.
          write_file env (artifact job ''execution_result.json'')
            (Json (PDict (refresh_execution_result loaded ex))))
      | _ \<Rightarrow> retM ()))))"

definition mission_py :: "mission \<Rightarrow> py" where
  "mission_py m = PDict [(''id'', PStr (mi_id m)), (''title'', PStr (mi_title m)),
     (''goal'', PStr (mi_goal m)), (''notes'', popt (mi_notes m)),
     (''steps'', PList (map (\<lambda>s. PDict [(''skill_id'', PStr (mst_skill s)), (''args'', PDict (mst_args s))])
        (mi_steps m)))]"

definition write_plan_artifact ::
  "'w qenv \<Rightarrow> qpath \<Rightarrow> dict \<Rightarrow> mission \<Rightarrow> nat \<Rightarrow> nat \<Rightarrow> nat \<Rightarrow> int option \<Rightarrow> dict \<Rightarrow> (unit, 'w daemon) prog" where
  "write_plan_artifact env job payload mi attempt replans max_replans supersedes delta =
     bindM (liftR (extract_lineage_metadata payload)) (\<lambda>lineage.
     let plan = Json (PDict [(''job'', PStr (snd job)), (''lineage'', lineage_py lineage),
         (''attempt_index'', PInt (int attempt)), (''replan_count'', PInt (int replans)),
         (''max_replans'', PInt (int max_replans)), (''supersedes_attempt'', opt_int supersedes),
         (''plan_delta'', PDict delta),
         (''intent_route'', case get payload ''_simple_intent'' of
            PDict r \<Rightarrow> PDict (sanitize_intent_route r) | _ \<Rightarrow> PNone),
         (''payload'', PDict payload), (''mission'', mission_py mi)])
     in thenM (write_file env (artifact job ''plan.json'') plan)
       (thenM (write_file env (artifact job (''plan.attempt-'' @ nat_str attempt @ ''.json'')) plan)
         (case get payload ''job_intent'' of
            PDict i \<Rightarrow> write_file env (artifact job ''job_intent.json'') (Json (PDict i))
          | _ \<Rightarrow> retM ())))"

text \<open>\<open>rr_enriched\<close> of \<open>_write_execution_result_artifacts\<close>\<close>

definition enrich_rr :: "dict \<Rightarrow> dict option \<Rightarrow> dict result" where
  "enrich_rr rd payload = (case payload of
     None \<Rightarrow> Inr rd
   | Some p \<Rightarrow>
       let r1 = (if \<not> has_key rd ''expected_artifacts'' \<and> is_list (get p ''expected_artifacts'')
                 then dput rd ''expected_artifacts'' (get p ''expected_artifacts'') else rd);
           r2 = (if \<not> has_key r1 ''job_intent'' \<and> is_dict (get p ''job_intent'')
                 then dput r1 ''job_intent'' (get p ''job_intent'') else r1)
       in if is_dict (get r2 ''lineage'') then Inr r2
          else bindR (extract_lineage_metadata p) (\<lambda>l. Inr (case l of
            None \<Rightarrow> r2 | Some x \<Rightarrow> dput r2 ''lineage'' (PDict (lineage_dict x)))))"

definition write_execution_result_artifacts ::
  "'w qenv \<Rightarrow> qpath \<Rightarrow> dict \<Rightarrow> bool \<Rightarrow> string \<Rightarrow> string option \<Rightarrow> dict option \<Rightarrow> (unit, 'w daemon) prog" where
  "write_execution_result_artifacts env job rd ok outcome err payload =
     bindM (liftR (enrich_rr rd payload)) (\<lambda>rr.
     bindM (liftR (int_or_zero (get rr ''total_steps''))) (\<lambda>tot.
     bindM (liftR (build_structured_step_results rr tot [])) (\<lambda>steps.
     thenM (write_file env (artifact job ''step_results.json'') (Json (PList (map PDict steps))))
     (bindM (queue_get (\<lambda>q. artifact_exists (q_files q) job)) (\<lambda>ex.
      bindM (now env) (\<lambda>now_ms.
      bindM (liftR (build_execution_result (path_str env job) rr steps outcome ok err (Some ex) now_ms)) (\<lambda>res.
      write_file env (artifact job ''execution_result.json'')
        (Json (PDict (refresh_execution_result res ex))))))))))"

definition run_stream_lines :: "py list \<Rightarrow> string \<Rightarrow> string list" where
  "run_stream_lines items key =
     filter (\<lambda>s. s \<noteq> []) (map (\<lambda>d. str_or_empty (get (the_dict d) key)) (filter is_dict items))"

definition generated_files :: "py list \<Rightarrow> string list" where
  "generated_files items = List.map_filter (\<lambda>v. case v of
     PDict d \<Rightarrow> (case get d ''args'' of
        PDict a \<Rightarrow> if get d ''skill'' = PStr ''files.write_text'' \<and> truthy (get a ''path'')
          then Some (py_str (get a ''path'')) else None
      | _ \<Rightarrow> None)
   | _ \<Rightarrow> None) items"

text \<open>\<open>_write_run_streams\<close>; the results of a run are a list by construction\<close>

definition write_run_streams :: "'w qenv \<Rightarrow> qpath \<Rightarrow> dict \<Rightarrow> dict option \<Rightarrow> (unit, 'w daemon) prog" where
  "write_run_streams env job rd payload =
     (let items = the_list (get rd ''results'') in
      thenM (write_file env (artifact job ''stdout.txt'') (Text (join [CHR 0x0A] (run_stream_lines items ''output''))))
      (thenM (write_file env (artifact job ''stderr.txt'') (Text (join [CHR 0x0A] (run_stream_lines items ''error''))))
      (thenM (whenM (generated_files items \<noteq> [])
         (write_file env (artifact job ''outputs/generated_files.json'') (Json (pstrs (generated_files items)))))
       (write_execution_result_artifacts env job rd
          (str_or_empty (get rd ''terminal_outcome'') = ''succeeded'')
          (py_str (por (get rd ''terminal_outcome'') (PStr ''unknown''))) None payload))))"

end
