(* ===== verification/Queue_Daemon.thy ===== *)
theory Queue_Daemon
  imports Queue_Store "HOL-Library.Product_Lexorder"
begin

text \<open>
  Models the job handling of \<open>voxera/core/queue_daemon.py\<close> and the shutdown path of
  \<open>voxera/core/queue_recovery.py\<close>: which files are jobs, error sidecars, retention of failed jobs,
  cancel, retry and delete, child jobs and the relocation of misplaced jobs. The lock file, the health
  file's format, the configuration drift check and the polling loop are not modelled.
\<close>

section \<open>Which files are jobs\<close>

definition is_snapshot_artifact :: "'w qenv \<Rightarrow> qpath \<Rightarrow> bool" where
  "is_snapshot_artifact env p = (ends_with (snd p) ''.json''
     \<and> (snd p = ''config_snapshot.json'' \<or> starts_with (snd p) ''config_snapshot''
        \<or> ''_ops'' \<in> set (path_parts (path_str env p))))"

definition metadata_suffixes :: "string list" where
  "metadata_suffixes = [''.pending.json'', ''.approval.json'', ''.error.json'', ''.state.json'', ''.tmp.json'',
     ''.partial.json'']"

definition is_metadata_sidecar :: "string \<Rightarrow> bool" where
  "is_metadata_sidecar name = (\<exists>x \<in> set metadata_suffixes. ends_with name x)"

definition is_primary_job_json :: "'w qenv \<Rightarrow> qpath \<Rightarrow> bool" where
  "is_primary_job_json env p = (ends_with (snd p) ''.json'' \<and> snd p \<noteq> ''health.json''
     \<and> \<not> is_snapshot_artifact env p \<and> \<not> is_metadata_sidecar (snd p))"

definition ready_blocked_suffixes :: "string list" where
  "ready_blocked_suffixes = [''.pending.json'', ''.approval.json'', ''.state.json'', ''.tmp.json'', ''.partial.json'']"

definition is_ready_job_file :: "'w qenv \<Rightarrow> files \<Rightarrow> qpath \<Rightarrow> bool" where
  "is_ready_job_file env fs p = (fst p = InBucket Inbox \<and> exists_file fs p \<and> \<not> is_snapshot_artifact env p
     \<and> ends_with (snd p) ''.json'' \<and> \<not> starts_with (snd p) ''.''
     \<and> \<not> (\<exists>x \<in> set ready_blocked_suffixes. ends_with (snd p) x))"

definition primary_jobs_in_bucket :: "'w qenv \<Rightarrow> bucket \<Rightarrow> files \<Rightarrow> qpath list" where
  "primary_jobs_in_bucket env b fs =
     filter (is_primary_job_json env) (map (Pair (InBucket b)) (dir_names fs (InBucket b)))"

definition meta_path :: "string \<Rightarrow> qpath" where
  "meta_path stem = (InBucket Pending, stem @ ''.pending.json'')"

definition approval_path :: "string \<Rightarrow> qpath" where
  "approval_path stem = (ApprovalsDir, stem @ ''.approval.json'')"

definition job_stem :: "qpath \<Rightarrow> string" where
  "job_stem p = name_stem (snd p)"

section \<open>Error sidecars\<close>

definition failed_timestamp_min :: int where
  "failed_timestamp_min = 1000000000000"

definition error_sidecar :: "qpath \<Rightarrow> qpath" where
  "error_sidecar job = sibling job (job_stem job @ ''.error.json'')"

definition validate_schema_version :: "py \<Rightarrow> unit result" where
  "validate_schema_version v = (if \<not> is_int v then
       raise_value ''failed sidecar field 'schema_version' must be an integer''
     else if v = PInt 1 \<or> v = PBool True then Inr ()
     else raise_value (''unsupported failed sidecar schema version for read: '' @ py_str v @ '' (supported: [1])''))"

definition validate_failed_error_sidecar :: "py \<Rightarrow> string option \<Rightarrow> dict result" where
  "validate_failed_error_sidecar v expected_job = (case v of
     PDict d \<Rightarrow>
       (let missing = filter (\<lambda>k. \<not> has_key d k) [''schema_version'', ''job'', ''error'', ''timestamp_ms''] in
        if missing \<noteq> [] then
          raise_value (''failed sidecar missing required fields: '' @ join '', '' missing)
        else bindR (validate_schema_version (get d ''schema_version'')) (\<lambda>_.
          case get d ''job'' of
            PStr job \<Rightarrow>
              if job = [] then raise_value ''failed sidecar field 'job' must be a non-empty string''
              else if expected_job \<noteq> None \<and> expected_job \<noteq> Some job then
                raise_value (''failed sidecar job mismatch: expected '' @ the expected_job @ '', got '' @ job)
              else (case get d ''error'' of
                PStr err \<Rightarrow>
                  if err = [] then raise_value ''failed sidecar field 'error' must be a non-empty string''
                  else (case (case get d ''timestamp_ms'' of PInt n \<Rightarrow> Some n | PBool b \<Rightarrow> Some (if b then 1 else 0)
                           | _ \<Rightarrow> None) of
                    Some n \<Rightarrow>
                      if n < failed_timestamp_min then raise_value
                        ''failed sidecar field 'timestamp_ms' must be an epoch timestamp in milliseconds''
                      else if has_key d ''payload'' \<and> get d ''payload'' \<noteq> PNone \<and> \<not> is_dict (get d ''payload'')
                        then raise_value ''failed sidecar field 'payload' must be an object when present''
                      else Inr d
                  | None \<Rightarrow> raise_value
                      ''failed sidecar field 'timestamp_ms' must be an epoch timestamp in milliseconds'')
              | _ \<Rightarrow> raise_value ''failed sidecar field 'error' must be a non-empty string'')
          | _ \<Rightarrow> raise_value ''failed sidecar field 'job' must be a non-empty string''))
   | _ \<Rightarrow> raise_value ''failed sidecar payload must be a JSON object'')"

definition error_details :: "string \<Rightarrow> string \<Rightarrow> int \<Rightarrow> dict option \<Rightarrow> dict" where
  "error_details job err ts payload = [(''schema_version'', PInt 1), (''job'', PStr job), (''error'', PStr err),
     (''timestamp_ms'', PInt ts)]
     @ (case sanitize_payload_intent_route payload of None \<Rightarrow> [] | Some p \<Rightarrow> [(''payload'', PDict p)])"

definition write_failed_error_sidecar ::
  "'w qenv \<Rightarrow> qpath \<Rightarrow> string \<Rightarrow> dict option \<Rightarrow> (unit, 'w daemon) prog" where
  "write_failed_error_sidecar env job err payload =
     bindM (now env) (\<lambda>ts.
     bindM (liftR (validate_failed_error_sidecar (PDict (error_details (snd job) err ts payload)) (Some (snd job)))) (\<lambda>d.
     write_file env (error_sidecar job) (Json (PDict d))))"

definition read_failed_error_sidecar :: "'w qenv \<Rightarrow> qpath \<Rightarrow> (dict option, 'w daemon) prog" where
  "read_failed_error_sidecar env job =
     bindM (content_now (error_sidecar job)) (\<lambda>c. case c of
       None \<Rightarrow> retM None
     | Some content \<Rightarrow>
         (case (case content of Json v \<Rightarrow> validate_failed_error_sidecar v (Some (snd job))
                | _ \<Rightarrow> Inl (Exc (OtherError ''JSONDecodeError'') ''Expecting value: line 1 column 1 (char 0)'')) of
            Inr d \<Rightarrow> retM (Some d)
          | Inl e \<Rightarrow> thenM (log [(''event'', PStr ''queue_failed_sidecar_invalid''), (''job'', PStr (snd job)),
               (''path'', PStr (path_str env (error_sidecar job))), (''error'', PStr (repr_exc e))]) (retM None)))"

section \<open>Retention of failed jobs\<close>

text \<open>The configured age is a whole number of seconds here; file times are milliseconds.\<close>

record failed_unit =
  fu_key :: string
  fu_job :: "qpath option"
  fu_sidecar :: "qpath option"

definition error_stem :: "string \<Rightarrow> string" where
  "error_stem name = removesuffix (name_stem name) ''.error''"

definition failed_units :: "'w qenv \<Rightarrow> files \<Rightarrow> failed_unit list" where
  "failed_units env fs =
     (let jobs = primary_jobs_in_bucket env Failed fs;
          sidecars = map (Pair (InBucket Failed))
            (filter (\<lambda>n. ends_with n ''.error.json'') (dir_names fs (InBucket Failed)));
          keys = remdups (map job_stem jobs @ map (error_stem \<circ> snd) sidecars)
      in map (\<lambda>k. \<lparr>fu_key = k, fu_job = find (\<lambda>p. job_stem p = k) (rev jobs),
           fu_sidecar = find (\<lambda>p. error_stem (snd p) = k) (rev sidecars)\<rparr>) keys)"

definition file_mtime :: "files \<Rightarrow> qpath option \<Rightarrow> int list" where
  "file_mtime fs p = (case p of None \<Rightarrow> []
     | Some q \<Rightarrow> (case file_at fs q of None \<Rightarrow> [] | Some f \<Rightarrow> [fl_mtime f]))"

definition unit_newest_mtime :: "files \<Rightarrow> failed_unit \<Rightarrow> int" where
  "unit_newest_mtime fs u = (let ts = file_mtime fs (fu_job u) @ file_mtime fs (fu_sidecar u)
     in if ts = [] then 0 else Max (set ts))"

definition ordered_units :: "'w qenv \<Rightarrow> files \<Rightarrow> failed_unit list" where
  "ordered_units env fs = rev (sort_key (\<lambda>u. (unit_newest_mtime fs u, fu_key u)) (failed_units env fs))"

definition kept_units :: "'w qenv \<Rightarrow> files \<Rightarrow> int \<Rightarrow> failed_unit list" where
  "kept_units env fs now_ms =
     (let us = ordered_units env fs;
          young = (case qe_max_age_s env of
             Some a \<Rightarrow> if 0 < a then filter (\<lambda>u. now_ms - 1000 * a \<le> unit_newest_mtime fs u) us else us
           | None \<Rightarrow> us)
      in case qe_max_count env of Some n \<Rightarrow> take n young | None \<Rightarrow> young)"

definition pruned_units :: "'w qenv \<Rightarrow> files \<Rightarrow> int \<Rightarrow> failed_unit list" where
  "pruned_units env fs now_ms =
     filter (\<lambda>u. fu_key u \<notin> fu_key ` set (kept_units env fs now_ms)) (ordered_units env fs)"

definition unit_files :: "failed_unit \<Rightarrow> qpath list" where
  "unit_files u = (case fu_job u of None \<Rightarrow> [] | Some p \<Rightarrow> [p]) @ (case fu_sidecar u of None \<Rightarrow> [] | Some p \<Rightarrow> [p])"

definition prune_failed_artifacts :: "'w qenv \<Rightarrow> (unit, 'w daemon) prog" where
  "prune_failed_artifacts env =
     bindM (queue_get (\<lambda>q. pruned_units env (q_files q) (qe_now env q))) (\<lambda>us.
     thenM (forM (concat (map unit_files us)) unlink)
     (whenM (us \<noteq> []) (log [(''event'', PStr ''queue_failed_artifacts_pruned''),
        (''removed_jobs'', PInt (int (length (List.map_filter fu_job us)))),
        (''removed_sidecars'', PInt (int (length (List.map_filter fu_sidecar us)))),
        (''max_age_s'', case qe_max_age_s env of None \<Rightarrow> PNone | Some a \<Rightarrow> PInt a),
        (''max_count'', case qe_max_count env of None \<Rightarrow> PNone | Some n \<Rightarrow> PInt (int n))])))"

section \<open>Cancel, retry, delete\<close>

text \<open>A reference that is the full path of an existing job is taken as it is, in whatever directory it
  is; only a bare name is looked up in the given buckets.\<close>

definition resolve_job_ref :: "'w qenv \<Rightarrow> string \<Rightarrow> bucket list \<Rightarrow> files \<Rightarrow> qpath option" where
  "resolve_job_ref env ref buckets fs =
     (let raw = strip ref in
      if raw = [] then None
      else case find (\<lambda>p. path_str env p = raw \<and> is_primary_job_json env p) (map fst fs) of
        Some p \<Rightarrow> Some p
      | None \<Rightarrow>
          let base = path_name raw; stem = path_stem base;
              cands = [base, stem @ ''.json'', ''job-'' @ stem @ ''.json'']
          in find (\<lambda>p. exists_file fs p \<and> is_primary_job_json env p)
               (concat (map (\<lambda>b. map (Pair (InBucket b)) cands) buckets)))"

definition archive_sidecar :: "'w qenv \<Rightarrow> qpath \<Rightarrow> string \<Rightarrow> (unit, 'w daemon) prog" where
  "archive_sidecar env sidecar reason =
     bindM (exists_now sidecar) (\<lambda>present.
     if \<not> present then retM ()
     else bindM (move_job env sidecar ArchiveDir) (\<lambda>moved. case moved of
       None \<Rightarrow> retM ()
     | Some p \<Rightarrow> log [(''event'', PStr ''queue_sidecar_archived''), (''reason'', PStr reason),
         (''from'', PStr (path_str env sidecar)), (''to'', PStr (path_str env p))]))"

definition not_found :: "string \<Rightarrow> string \<Rightarrow> ('a, 's) prog" where
  "not_found what ref = raiseM (Exc FileNotFoundError (what @ '' not found: '' @ ref))"

definition terminal_arg :: "string \<Rightarrow> snapshot_args" where
  "terminal_arg t = no_args\<lparr>sn_terminal := Some t\<rparr>"

definition cancel_job :: "'w qenv \<Rightarrow> string \<Rightarrow> (qpath, 'w daemon) prog" where
  "cancel_job env ref =
     bindM (queue_get (\<lambda>q. resolve_job_ref env ref [Inbox, Pending] (q_files q))) (\<lambda>job. case job of
       None \<Rightarrow> not_found ''job'' ref
     | Some p \<Rightarrow> bindM (move_job env p (InBucket Canceled)) (\<lambda>moved. case moved of
         None \<Rightarrow> not_found ''job'' ref
       | Some m \<Rightarrow>
           thenM (unlink (meta_path (job_stem m)))
           (thenM (unlink (approval_path (job_stem m)))
           (thenM (archive_sidecar env (error_sidecar (InBucket Failed, snd m)) ''cancel'')
           (thenM (update_job_state env m ''canceled'' (terminal_arg ''canceled''))
           (thenM (log [(''event'', PStr ''queue_job_cancel''), (''ref'', PStr ref),
               (''job'', PStr (path_str env m))])
            (retM m)))))))"

definition retry_job :: "'w qenv \<Rightarrow> string \<Rightarrow> (qpath, 'w daemon) prog" where
  "retry_job env ref =
     bindM (queue_get (\<lambda>q. resolve_job_ref env ref [Failed, Canceled] (q_files q))) (\<lambda>job. case job of
       None \<Rightarrow> not_found ''retry job'' ref
     | Some p \<Rightarrow>
         thenM (archive_sidecar env (error_sidecar p) ''retry'')
         (bindM (move_job env p (InBucket Inbox)) (\<lambda>moved. case moved of
            None \<Rightarrow> not_found ''retry job'' ref
          | Some m \<Rightarrow> thenM (log [(''event'', PStr ''queue_job_retry''), (''source_job'', PStr (path_str env p)),
               (''new_attempt'', PStr (path_str env m))]) (retM m))))"

definition remove_tree :: "qdir \<Rightarrow> (unit, 'w daemon) prog" where
  "remove_tree d = queue_modify (\<lambda>q. q\<lparr>q_files := filter (\<lambda>(p, f). fst p \<noteq> d) (q_files q)\<rparr>)"

definition delete_terminal_job :: "'w qenv \<Rightarrow> string \<Rightarrow> string \<Rightarrow> (string, 'w daemon) prog" where
  "delete_terminal_job env ref confirm =
     bindM (queue_get (\<lambda>q. resolve_job_ref env ref [Done, Failed, Canceled] (q_files q))) (\<lambda>job. case job of
       None \<Rightarrow> not_found ''terminal job'' ref
     | Some p \<Rightarrow>
         if confirm \<noteq> snd p then raiseM (Exc ValueError ''delete confirmation mismatch'')
         else thenM (unlink p)
           (thenM (whenM (fst p = InBucket Failed) (unlink (error_sidecar p)))
           (thenM (remove_tree (ArtifactsDir (job_stem p)))
           (thenM (unlink (meta_path (job_stem p)))
           (thenM (unlink (approval_path (job_stem p)))
           (thenM (log [(''event'', PStr ''queue_job_deleted''), (''job'', PStr (path_str env p)),
               (''artifacts_dir'', PStr (qe_root env @ ''/artifacts/'' @ job_stem p))])
            (retM (snd p))))))))"

end
