(* ===== verification/Queue_Approvals.thy ===== *)
theory Queue_Approvals
  imports Queue_Daemon
begin

text \<open>
  Models \<open>voxera/core/queue_approvals.py\<close>: the approval prompt the mission runner calls, the standing
  grants, the approval artifacts and their references, the hard approval gate, and what an operator's
  decision does to a pending job.
\<close>

section \<open>The prompt\<close>

definition auto_approve_allowlist :: "string list" where
  "auto_approve_allowlist = [''system.settings'']"

definition joined_items :: "py list \<Rightarrow> string" where
  "joined_items xs = join '', '' (map py_str xs)"

definition capability_boundary_notes :: "dict \<Rightarrow> string list" where
  "capability_boundary_notes caps =
     (case get caps ''runtime_boundary_violation'' of
        PDict v \<Rightarrow>
          (let b = py_str (por (get v ''boundary'') (PStr ''unknown'')) in
           if b = ''network'' then [''Runtime requested network access while declaration sets network_scope=none.'']
           else [''Runtime boundary mismatch detected ('' @ b @ '').''])
      | _ \<Rightarrow> [])
   @ (case get caps ''allowed_domains'' of
        PList (x # xs) \<Rightarrow> [''Allowed domains: '' @ joined_items (x # xs)] | _ \<Rightarrow> [])
   @ (case get caps ''allowed_paths'' of
        PList (x # xs) \<Rightarrow> [''Allowed paths: '' @ joined_items (x # xs)] | _ \<Rightarrow> [])
   @ (case get caps ''secret_refs'' of
        PList xs \<Rightarrow>
          (let refs = filter (\<lambda>s. s \<noteq> []) (map (\<lambda>d. clean_str (get (the_dict d) ''ref'')) (filter is_dict xs))
           in if refs = [] then [] else [''Declared secret refs: '' @ join '', '' refs])
      | _ \<Rightarrow> [])"

text \<open>The capability of the first reason of a decision: the text before its first arrow\<close>

definition decision_capability :: "policy_decision \<Rightarrow> string" where
  "decision_capability d =
     (let first = strip (before_first '';'' (pd_reason d)) in
      if contains first ''->'' then strip (before_first '' ->'' first) else ''unknown'')"

definition redact_args :: "'w qenv \<Rightarrow> dict \<Rightarrow> dict" where
  "redact_args env args = (if \<not> qe_redact env then args else map (\<lambda>(k, _). (k, PStr ''<redacted>'')) args)"

definition target_dict :: "string \<Rightarrow> string \<Rightarrow> dict" where
  "target_dict ty v = [(''type'', PStr ty), (''value'', PStr v)]"

definition arg_text :: "dict \<Rightarrow> string \<Rightarrow> string" where
  "arg_text args k = py_str (get_or args k (PStr []))"

definition approval_target :: "string \<Rightarrow> dict \<Rightarrow> dict" where
  "approval_target sid args =
     (if sid = ''system.open_url'' then target_dict ''url'' (arg_text args ''url'')
      else if sid = ''system.open_app'' then target_dict ''app'' (arg_text args ''name'')
      else if sid \<in> {''files.read_text'', ''files.write_text'', ''files.list_dir'', ''files.find'', ''files.grep_text'',
           ''files.list_tree'', ''files.exists'', ''files.stat'', ''files.mkdir'', ''files.delete_file''}
        then target_dict ''file'' (arg_text args ''path'')
      else if sid = ''files.rename'' then
        target_dict ''file'' (arg_text args ''path'' @ '' -> '' @ arg_text args ''new_name'')
      else if sid \<in> {''files.copy_file'', ''files.move_file'', ''files.copy'', ''files.move''} then
        target_dict ''file'' (arg_text args ''source_path'' @ '' -> '' @ arg_text args ''destination_path'')
      else if sid = ''sandbox.exec'' then
        (case get_or args ''command'' (PList []) of
           PList xs \<Rightarrow> target_dict ''command'' (join '' '' (map py_str xs))
         | v \<Rightarrow> target_dict ''command'' (py_str v))
      else target_dict ''unknown'' [])"

record scope =
  sc_fs :: string
  sc_network :: bool

definition scope_dict :: "scope \<Rightarrow> dict" where
  "scope_dict s = [(''fs_scope'', PStr (sc_fs s)), (''needs_network'', PBool (sc_network s))]"

definition manifest_scope :: "manifest \<Rightarrow> scope" where
  "manifest_scope m = \<lparr>sc_fs = fs_scope_name (m_fs_scope m), sc_network = m_needs_network m\<rparr>"

subsection \<open>Grants\<close>

definition grants_path :: qpath where
  "grants_path = (ApprovalsDir, ''grants.json'')"

definition grants_of :: "content option \<Rightarrow> dict list" where
  "grants_of c = (case c of Some (Json (PList xs)) \<Rightarrow> map the_dict (filter is_dict xs) | _ \<Rightarrow> [])"

definition read_grants :: "(dict list, 'w daemon) prog" where
  "read_grants = bindM (content_now grants_path) (\<lambda>c. retM (grants_of c))"

text \<open>\<open>v == b\<close> for a bool \<open>b\<close>: an int or float of the same value is equal to it.\<close>

definition eq_bool :: "py \<Rightarrow> bool \<Rightarrow> bool" where
  "eq_bool v b = (case v of PBool c \<Rightarrow> c = b | PInt n \<Rightarrow> n = (if b then 1 else 0)
     | PFloat (Finite r _) \<Rightarrow> r = (if b then 1 else 0) | _ \<Rightarrow> False)"

text \<open>Equality of dicts does not look at the order of the keys.\<close>

definition scope_matches :: "py \<Rightarrow> scope \<Rightarrow> bool" where
  "scope_matches v s = (case v of
     PDict d \<Rightarrow> length d = 2 \<and> get d ''fs_scope'' = PStr (sc_fs s) \<and> has_key d ''needs_network''
       \<and> eq_bool (get d ''needs_network'') (sc_network s)
   | _ \<Rightarrow> False)"

definition grant_matches :: "string \<Rightarrow> string \<Rightarrow> scope \<Rightarrow> dict \<Rightarrow> bool" where
  "grant_matches skill cap s item = (get item ''skill'' = PStr skill \<and> get item ''capability'' = PStr cap
     \<and> scope_matches (get item ''scope'') s)"

definition has_approval_grant :: "string \<Rightarrow> string \<Rightarrow> scope \<Rightarrow> dict list \<Rightarrow> bool" where
  "has_approval_grant skill cap s grants = (\<exists>item \<in> set grants. grant_matches skill cap s item)"

definition scope_of_dict :: "dict \<Rightarrow> scope" where
  "scope_of_dict d = \<lparr>sc_fs = py_str (get_or d ''fs_scope'' (PStr ''workspace_only'')),
     sc_network = truthy (get_or d ''needs_network'' (PBool False))\<rparr>"

definition grant_dict :: "string \<Rightarrow> string \<Rightarrow> scope \<Rightarrow> py \<Rightarrow> dict" where
  "grant_dict skill cap s ts = [(''skill'', PStr skill), (''capability'', PStr cap),
     (''scope'', PDict (scope_dict s)), (''ts'', ts)]"

definition grant_approval_scope :: "'w qenv \<Rightarrow> string \<Rightarrow> string \<Rightarrow> dict \<Rightarrow> (unit, 'w daemon) prog" where
  "grant_approval_scope env skill cap scope =
     bindM read_grants (\<lambda>grants.
     bindM (clock env) (\<lambda>ts.
     if has_approval_grant skill cap (scope_of_dict scope) grants then retM ()
     else write_file env grants_path
       (Json (PList (map PDict (grants @ [grant_dict skill cap (scope_of_dict scope) ts]))))))"

subsection \<open>The callback\<close>

definition approval_key :: "'w queue \<Rightarrow> dict \<Rightarrow> manifest \<Rightarrow> string \<times> int \<times> string" where
  "approval_key q ctx m = ((case q_current q of None \<Rightarrow> [] | Some j \<Rightarrow> j),
     (case int_or_zero (get ctx ''step'') of Inr n \<Rightarrow> n | Inl _ \<Rightarrow> 0), m_id m)"

definition prompt_details :: "manifest \<Rightarrow> policy_decision \<Rightarrow> dict \<Rightarrow> 'w queue \<Rightarrow> bool \<Rightarrow> dict \<Rightarrow> dict" where
  "prompt_details m d ctx q with_reason args =
     (let caps = declaration_dict (normalize_manifest_capabilities m) in
      [(''job'', popt (q_current q)), (''step'', get ctx ''step''), (''skill'', PStr (m_id m))]
      @ (if with_reason then [(''reason'', PStr (pd_reason d))] else [])
      @ [(''capability'', PStr (decision_capability d))]
      @ (if with_reason then [(''target'', PDict (approval_target (m_id m) args))] else [])
      @ [(''scope'', PDict (scope_dict (manifest_scope m))), (''execution_capabilities'', PDict caps),
         (''capability_boundary_notes'', pstrs (capability_boundary_notes caps))])"

definition pending_answer :: "'w qenv \<Rightarrow> manifest \<Rightarrow> policy_decision \<Rightarrow> dict \<Rightarrow> dict \<Rightarrow> dict" where
  "pending_answer env m d ctx args =
     (let caps = declaration_dict (normalize_manifest_capabilities m) in [
      (''status'', PStr ''pending''), (''step'', get ctx ''step''), (''skill'', PStr (m_id m)),
      (''reason'', PStr (pd_reason d)), (''policy_reason'', PStr (pd_reason d)),
      (''capability'', PStr (decision_capability d)), (''args'', PDict (redact_args env args)),
      (''target'', PDict (approval_target (m_id m) args)), (''scope'', PDict (scope_dict (manifest_scope m))),
      (''execution_capabilities'', PDict caps),
      (''capability_boundary_notes'', pstrs (capability_boundary_notes caps))])"

definition queue_approval_prompt :: "'w qenv \<Rightarrow> 'w queue approval_cb" where
  "queue_approval_prompt env m d ctx args s =
     (let q = rs_world s; key = approval_key q ctx m; cap = decision_capability d in
      if key \<in> set (q_approved q) then
        (PBool True, s\<lparr>rs_world := q\<lparr>q_approved := removeAll key (q_approved q)\<rparr>\<rparr>)
      else if has_approval_grant (m_id m) cap (manifest_scope m)
                (grants_of (map_option fl_content (file_at (q_files q) grants_path))) then
        (PBool True, log_event ((''event'', PStr ''queue_grant_auto_approved'')
           # prompt_details m d ctx q False args) s)
      else if qe_auto_approve env \<and> qe_dev_mode env \<and> cap \<in> set auto_approve_allowlist then
        (PBool True, log_event ((''event'', PStr ''queue_auto_approved'') # prompt_details m d ctx q True args) s)
      else (PDict (pending_answer env m d ctx args),
        log_event ((''event'', PStr ''queue_approval_required'') # prompt_details m d ctx q True args) s))"

section \<open>Approval artifacts\<close>

definition unknown_target :: py where
  "unknown_target = PDict (target_dict ''unknown'' [])"

definition notify_pending_approval :: "'w qenv \<Rightarrow> dict \<Rightarrow> (unit, 'w daemon) prog" where
  "notify_pending_approval env approval =
     (let job = py_str (por (get approval ''job'') (por (get approval ''job_id'') (PStr ''unknown-job'')));
          skill = py_str (por (get approval ''skill'') (PStr ''unknown-skill''));
          reason = py_str (por (get approval ''reason'') (PStr ''approval required''));
          event = (\<lambda>name extra. log ([(''event'', PStr name), (''job'', PStr job), (''skill'', PStr skill),
             (''reason'', PStr reason)] @ extra))
      in if \<not> qe_notify_enabled env then retM ()
      else case qe_notify env [''notify-send'', ''Voxera approval pending'',
             job @ '' '' @ [CHR 0xB7] @ '' '' @ skill @ [CHR 0x0A] @ reason] of
        Inl e \<Rightarrow> event ''queue_notify_failed'' [(''error'', PStr (repr_exc e))]
      | Inr (status, stderr) \<Rightarrow>
          if status = 0 then event ''queue_notify_sent'' []
          else event ''queue_notify_failed'' [(''error'', PStr (if strip stderr = []
            then ''notify-send exited with code '' @ int_str status else strip stderr))])"

text \<open>The scope of the run data is a dict or absent, as the prompt writes it.\<close>

definition write_pending_artifacts ::
  "'w qenv \<Rightarrow> qpath \<Rightarrow> dict \<Rightarrow> mission \<Rightarrow> dict \<Rightarrow> (unit, 'w daemon) prog" where
  "write_pending_artifacts env job payload mi rd =
     bindM (liftR (int_or_zero (get_or rd ''step'' (PInt 0)))) (\<lambda>step.
     bindM (clock env) (\<lambda>ts.
     let sc = the_dict (get rd ''scope'');
         fs = get_or sc ''fs_scope'' (PStr ''workspace_only'');
         net = PBool (truthy (get_or sc ''needs_network'' (PBool False)));
         approval = [(''job'', PStr (snd job)), (''job_path'', PStr (path_str env job)),
           (''job_id'', PStr (job_stem job)), (''mission_id'', get payload ''mission_id''),
           (''goal'', get payload ''goal''), (''step'', PInt step), (''skill'', get rd ''skill''),
           (''args'', get_or rd ''args'' (PDict [])), (''reason'', get rd ''reason''),
           (''policy_reason'', get_or rd ''policy_reason'' (get rd ''reason'')),
           (''capability'', get rd ''capability''), (''target'', get_or rd ''target'' unknown_target),
           (''fs_scope'', fs), (''needs_network'', net),
           (''scope'', PDict [(''fs_scope'', fs), (''needs_network'', net)]),
           (''execution_capabilities'', get_or rd ''execution_capabilities'' (PDict [])),
           (''capability_boundary_notes'', get_or rd ''capability_boundary_notes'' (PList [])),
           (''status'', PStr ''pending_approval''), (''ts'', ts)];
         meta = [(''status'', PStr ''pending_approval''), (''lifecycle_state'', PStr ''awaiting_approval''),
           (''job'', PStr (snd job)), (''payload'', PDict payload), (''resume_step'', PInt step),
           (''current_step_index'', PInt step), (''last_completed_step'', PInt (max (step - 1) 0)),
           (''last_attempted_step'', PInt step), (''total_steps'', PInt (int (length (mi_steps mi)))),
           (''approval_status'', PStr ''pending''), (''mission'', mission_py mi)]
     in thenM (write_file env (approval_path (job_stem job)) (Json (PDict approval)))
       (thenM (notify_pending_approval env approval)
         (write_file env (meta_path (job_stem job)) (Json (PDict meta))))))"

definition canonical_job_name :: "string \<Rightarrow> dict \<Rightarrow> string" where
  "canonical_job_name artifact_name data =
     (let job = path_name (str_or_empty (get data ''job'')) in
      if job \<noteq> [] \<and> \<not> ends_with job ''.approval.json'' then job
      else removesuffix (name_stem artifact_name) ''.approval'' @ ''.json'')"

definition approval_scope_from_artifact :: "dict \<Rightarrow> scope" where
  "approval_scope_from_artifact data =
     (let nested = the_dict (get data ''scope'') in
      \<lparr>sc_fs = py_str (get_or data ''fs_scope'' (get_or nested ''fs_scope'' (PStr ''workspace_only''))),
       sc_network = truthy (get_or data ''needs_network'' (get_or nested ''needs_network'' (PBool False)))\<rparr>)"

text \<open>\<open>_read_approval_artifact\<close>; the resolved path among the references is the text of the path.\<close>

definition approval_view :: "'w qenv \<Rightarrow> string \<Rightarrow> dict \<Rightarrow> dict" where
  "approval_view env name data =
     (let s = approval_scope_from_artifact data;
          job = canonical_job_name name data;
          d1 = dput (dput data ''_artifact'' (PStr name)) ''job'' (PStr job);
          d2 = dput d1 ''approve_refs'' (pstrs [job, removeprefix (path_stem job) ''job-'',
                 path_str env (InBucket Pending, job)]);
          d3 = dsetdefault d2 ''target'' unknown_target;
          d4 = dput (dput (dput d3 ''scope'' (PDict (scope_dict s))) ''fs_scope'' (PStr (sc_fs s)))
                 ''needs_network'' (PBool (sc_network s))
      in dsetdefault d4 ''policy_reason'' (get_or d4 ''reason'' (PStr [])))"

definition json_error :: exc where
  "json_error = Exc (OtherError ''JSONDecodeError'') ''Expecting value: line 1 column 1 (char 0)''"

definition read_approval_artifact :: "'w qenv \<Rightarrow> qpath \<Rightarrow> (dict, 'w daemon) prog" where
  "read_approval_artifact env p =
     bindM (content_now p) (\<lambda>c.
     let bad = (\<lambda>e. thenM (log [(''event'', PStr ''queue_status_parse_failed''), (''filename'', PStr (snd p)),
            (''error'', PStr (repr_exc e))])
          (retM [(''job'', PStr (snd p)), (''step'', PStr ''-''),
            (''skill'', PStr ''(unparseable approval artifact)''), (''reason'', PStr (repr_exc e)),
            (''capability'', PStr ''-''), (''_artifact'', PStr (snd p))]))
     in case c of
          Some (Json (PDict d)) \<Rightarrow> retM (approval_view env (snd p) d)
        | Some (Json _) \<Rightarrow> bad (Exc ValueError ''approval artifact must be a JSON object'')
        | Some _ \<Rightarrow> bad json_error
        | None \<Rightarrow> bad (Exc FileNotFoundError ''[Errno 2] No such file or directory''))"

text \<open>\<open>_iter_approval_artifacts\<close>: newest first\<close>

definition approval_artifacts :: "files \<Rightarrow> qpath list" where
  "approval_artifacts fs =
     sort_key (\<lambda>p. - (case file_at fs p of None \<Rightarrow> 0 | Some f \<Rightarrow> fl_mtime f))
       (map (Pair ApprovalsDir) (filter (\<lambda>n. ends_with n ''.approval.json'') (dir_names fs ApprovalsDir)))"

section \<open>References to a pending job\<close>

fun ordered_unique :: "string list \<Rightarrow> string list \<Rightarrow> string list" where
  "ordered_unique acc [] = acc"
| "ordered_unique acc (c # cs) = ordered_unique (if c \<noteq> [] \<and> c \<notin> set acc then acc @ [c] else acc) cs"

definition approval_ref_candidates :: "string \<Rightarrow> string list" where
  "approval_ref_candidates ref =
     (let base0 = path_name (strip ref);
          base = (if ends_with base0 ''.approval.json'' then removesuffix base0 ''.approval.json'' @ ''.json'' else base0);
          stem = removesuffix (path_stem base) ''.approval'';
          short = removeprefix stem ''job-''
      in ordered_unique [] ([base, replace ''.pending.json'' ''.json'' base, replace ''.json'' ''.pending.json'' base]
           @ (if CHR ''.'' \<notin> set base then [base @ ''.json'', base @ ''.pending.json''] else [])
           @ [stem @ ''.json'', ''job-'' @ short @ ''.json'', short @ ''.json'']))"

definition approval_ref_variants :: "string \<Rightarrow> string list" where
  "approval_ref_variants name =
     (let stem0 = name_stem name;
          stem = removesuffix stem0 ''.approval'';
          base = removeprefix stem ''job-''
      in [stem, base, stem @ ''.json'', base @ ''.json'', stem @ ''.approval'', stem @ ''.approval.json'', name])"

definition pending_paths_of :: "files \<Rightarrow> string \<Rightarrow> (qpath \<times> qpath \<times> qpath) option" where
  "pending_paths_of fs cand =
     (if \<not> exists_file fs (InBucket Pending, cand) then None
      else if ends_with cand ''.pending.json'' then
        (let stem = removesuffix cand ''.pending.json''; job = (InBucket Pending, stem @ ''.json'') in
         Some (if exists_file fs job then job else (InBucket Pending, cand), meta_path stem, approval_path stem))
      else Some ((InBucket Pending, cand), meta_path (path_stem cand), approval_path (path_stem cand)))"

definition artifact_paths_of :: "files \<Rightarrow> string \<Rightarrow> qpath \<Rightarrow> (qpath \<times> qpath \<times> qpath) option" where
  "artifact_paths_of fs name a =
     (let stem = removesuffix (name_stem (snd a)) ''.approval''; job = (InBucket Pending, stem @ ''.json'') in
      if name \<in> set (approval_ref_variants (snd a)) \<and> exists_file fs job
      then Some (job, meta_path stem, approval_path stem) else None)"

definition resolve_pending_paths :: "string \<Rightarrow> files \<Rightarrow> (qpath \<times> qpath \<times> qpath) result" where
  "resolve_pending_paths ref fs =
     (let raw = strip ref in
      if raw = [] then Inl (Exc FileNotFoundError ''pending job not found: (empty ref)'')
      else case List.map_filter (pending_paths_of fs) (approval_ref_candidates raw) of
        r # _ \<Rightarrow> Inr r
      | [] \<Rightarrow> (case List.map_filter (artifact_paths_of fs (path_name raw)) (approval_artifacts fs) of
            r # _ \<Rightarrow> Inr r
          | [] \<Rightarrow> Inl (Exc FileNotFoundError (''pending job not found: '' @ ref))))"

definition approvals_list :: "'w qenv \<Rightarrow> (dict list, 'w daemon) prog" where
  "approvals_list env = bindM (queue_get (\<lambda>q. approval_artifacts (q_files q)))
     (\<lambda>as. collectM as (read_approval_artifact env))"

section \<open>The hard approval gate\<close>

definition hard_gate_approval :: "'w qenv \<Rightarrow> qpath \<Rightarrow> dict \<Rightarrow> py \<Rightarrow> dict" where
  "hard_gate_approval env job payload ts = [(''job'', PStr (snd job)), (''job_path'', PStr (path_str env job)),
     (''job_id'', PStr (job_stem job)), (''mission_id'', get payload ''mission_id''),
     (''goal'', get payload ''goal''), (''step'', PInt 0), (''skill'', PStr ''approval_required''),
     (''args'', PDict []), (''reason'', PStr ''approval_required=true hard gate''),
     (''policy_reason'', PStr ''approval_required=true hard gate''), (''capability'', PStr ''approval_required''),
     (''target'', unknown_target), (''fs_scope'', PStr ''workspace_only''), (''needs_network'', PBool False),
     (''scope'', PDict (scope_dict \<lparr>sc_fs = ''workspace_only'', sc_network = False\<rparr>)),
     (''status'', PStr ''pending_approval''), (''ts'', ts)]"

text \<open>True when the job has to wait: it was parked, was parked before, or vanished.\<close>

definition ensure_hard_approval_gate :: "'w qenv \<Rightarrow> qpath \<Rightarrow> dict \<Rightarrow> (bool, 'w daemon) prog" where
  "ensure_hard_approval_gate env job payload =
     (if get payload ''approval_required'' \<noteq> PBool True then
        thenM (increment_health_counter ''approval_gate_skipped_no_flag'')
        (thenM (log [(''event'', PStr ''queue_approval_gate_skipped_no_flag''), (''job'', PStr (path_str env job))])
         (retM False))
      else bindM (if fst job = InBucket Inbox then move_job env job (InBucket Pending) else retM (Some job)) (\<lambda>moved.
        case moved of
          None \<Rightarrow> retM True
        | Some p \<Rightarrow>
            bindM (exists_now (approval_path (job_stem p))) (\<lambda>present.
            if present then
              thenM (increment_health_counter ''approval_gate_already_present'')
              (thenM (unlink (meta_path (job_stem p)))
              (thenM (log [(''event'', PStr ''queue_approval_gate_already_present''),
                  (''job'', PStr (path_str env p)),
                  (''artifact'', PStr (path_str env (approval_path (job_stem p))))])
               (retM True)))
            else bindM (clock env) (\<lambda>ts.
              let approval = hard_gate_approval env p payload ts in
              thenM (write_file env (approval_path (job_stem p)) (Json (PDict approval)))
              (thenM (unlink (meta_path (job_stem p)))
              (thenM (update_job_state env p ''awaiting_approval'' (no_args\<lparr>sn_payload := Some payload,
                  sn_rr := Some [(''current_step_index'', PInt 0), (''last_completed_step'', PInt 0),
                    (''last_attempted_step'', PInt 0)], sn_approval := Some ''pending''\<rparr>))
              (thenM (notify_pending_approval env approval)
              (thenM (increment_health_counter ''approval_gate_created'')
              (thenM (write_action_event env p ''queue_job_pending_approval'' [(''step'', PInt 0)])
              (thenM (log [(''event'', PStr ''queue_approval_gate_created''), (''job'', PStr (path_str env p)),
                  (''reason'', PStr ''approval_required=true hard gate'')])
              (thenM (log [(''event'', PStr ''queue_job_pending_approval''), (''job'', PStr (path_str env p)),
                  (''step'', PInt 0), (''reason'', PStr ''approval_required=true hard gate'')])
               (retM True))))))))))))"

end
