(* ===== verification/Job_Intent.thy ===== *)
theory Job_Intent
  imports Queue_Contracts
begin

text \<open>
  Models \<open>voxera/core/queue_job_intent.py\<close>: the structured intent the queue derives from a payload and
  the enrichment of the payload with it.
\<close>

definition queue_baseline_artifacts :: "string list" where
  "queue_baseline_artifacts = [''plan.json'', ''execution_envelope.json'', ''execution_result.json'', ''step_results.json'']"

definition assistant_baseline_artifacts :: "string list" where
  "assistant_baseline_artifacts = [''assistant_response.json'', ''execution_envelope.json'',
     ''execution_result.json'', ''step_results.json'']"

definition clean_text :: "py \<Rightarrow> string option" where
  "clean_text v = (if v = PNone then None else let t = strip (py_str v) in if t = [] then None else Some t)"

definition clean_list :: "py \<Rightarrow> string list" where
  "clean_list v = (case v of PList xs \<Rightarrow> List.map_filter clean_text xs | _ \<Rightarrow> [])"

definition step_skill_text :: "py \<Rightarrow> string option" where
  "step_skill_text item = (case item of
     PDict d \<Rightarrow> clean_text (por (get d ''skill_id'') (get d ''skill'')) | _ \<Rightarrow> None)"

definition clean_step_summaries :: "dict \<Rightarrow> string list" where
  "clean_step_summaries payload =
     (let summaries = clean_list (get payload ''intended_step_summaries'') in
      if summaries \<noteq> [] then summaries
      else case get payload ''steps'' of
        PList xs \<Rightarrow> List.map_filter step_skill_text xs | _ \<Rightarrow> [])"

definition default_expected_artifacts :: "string \<Rightarrow> string \<Rightarrow> string list" where
  "default_expected_artifacts kind lane =
     (if strip kind = ''assistant_question'' then assistant_baseline_artifacts
      else if strip kind \<in> {''mission_id'', ''goal'', ''inline_steps'', ''write_file'', ''file_organize''}
        then queue_baseline_artifacts
      else if strip lane \<in> {''assistant_advisory'', ''panel_mission_prompt'', ''inbox_cli''} then
        (if strip lane = ''assistant_advisory'' then assistant_baseline_artifacts else queue_baseline_artifacts)
      else [])"

definition opt_or :: "'a option \<Rightarrow> 'a \<Rightarrow> 'a" where
  "opt_or x d = (case x of None \<Rightarrow> d | Some y \<Rightarrow> y)"

text \<open>A field of the intent that is pruned when it is None\<close>

definition opt_field :: "string \<Rightarrow> string option \<Rightarrow> dict" where
  "opt_field k v = (case v of None \<Rightarrow> [] | Some s \<Rightarrow> [(k, PStr s)])"

definition intent_file_organize :: "dict \<Rightarrow> dict" where
  "intent_file_organize payload = (case get payload ''file_organize'' of
     PDict d \<Rightarrow> [(''file_organize'', PDict [(''source_path'', popt (clean_text (get d ''source_path''))),
        (''destination_dir'', popt (clean_text (get d ''destination_dir''))),
        (''mode'', popt (clean_text (get d ''mode''))), (''overwrite'', get d ''overwrite''),
        (''delete_original'', get d ''delete_original'')])]
   | _ \<Rightarrow> [])"

definition intent_expected_artifacts :: "dict \<Rightarrow> dict \<Rightarrow> string \<Rightarrow> string \<Rightarrow> string list" where
  "intent_expected_artifacts ex payload kind lane =
     (let declared = clean_list (por (get ex ''expected_artifacts'') (get payload ''expected_artifacts''))
      in if declared = [] then default_expected_artifacts kind lane else declared)"

definition build_queue_job_intent :: "dict \<Rightarrow> string \<Rightarrow> dict" where
  "build_queue_job_intent payload source_lane =
     (let ex = the_dict (get payload ''job_intent'');
          kind = opt_or (clean_text (get ex ''request_kind'')) (detect_request_kind payload);
          lane = opt_or (clean_text (get ex ''source_lane'')) source_lane;
          expected = intent_expected_artifacts ex payload kind lane;
          field = (\<lambda>k. por (get ex k) (get payload k)) in
      [(''schema_version'', PInt 1), (''request_kind'', PStr kind), (''source_lane'', PStr lane)]
      @ opt_field ''mission_id'' (clean_text (por (get ex ''mission_id'')
          (por (get payload ''mission_id'') (get payload ''mission''))))
      @ opt_field ''title'' (clean_text (por (get ex ''title'') (por (get payload ''title'') (get payload ''name''))))
      @ opt_field ''goal'' (clean_text (por (get ex ''goal'') (por (get payload ''goal'') (get payload ''plan_goal''))))
      @ opt_field ''notes'' (clean_text (field ''notes''))
      @ [(''step_summaries'', pstrs (clean_step_summaries payload)),
         (''candidate_skills'', pstrs (clean_list (field ''candidate_skills''))),
         (''action_hints'', pstrs (clean_list (field ''action_hints''))),
         (''approval_hints'', pstrs (clean_list (field ''approval_hints''))),
         (''expected_artifacts'', pstrs expected)]
      @ opt_field ''operator_summary'' (clean_text (por (get ex ''operator_summary'')
          (por (get payload ''planner_summary'') (get payload ''summary''))))
      @ opt_field ''rationale'' (clean_text (field ''rationale''))
      @ (case field ''planning_payload'' of PDict d \<Rightarrow> [(''planning_payload'', PDict d)] | _ \<Rightarrow> [])
      @ intent_file_organize payload)"

definition enrich_queue_job_payload :: "dict \<Rightarrow> string \<Rightarrow> dict" where
  "enrich_queue_job_payload payload source_lane =
     (let intent = build_queue_job_intent payload source_lane;
          p1 = dput payload ''job_intent'' (PDict intent);
          p2 = (if \<not> has_key p1 ''expected_artifacts'' \<and> is_list (get intent ''expected_artifacts'')
                then dput p1 ''expected_artifacts'' (get intent ''expected_artifacts'') else p1);
          p3 = (if \<not> has_key p2 ''title'' \<and> is_str (get intent ''title'')
                then dput p2 ''title'' (get intent ''title'') else p2)
      in if \<not> has_key p3 ''goal'' \<and> is_str (get intent ''goal'')
         then dput p3 ''goal'' (get intent ''goal'') else p3)"

section \<open>Enrichment\<close>

text \<open>Enriching never changes a field the payload has, except \<open>job_intent\<close> itself.\<close>

lemma enrich_keeps:
  "has_key payload k \<Longrightarrow> k \<noteq> ''job_intent'' \<Longrightarrow> get (enrich_queue_job_payload payload lane) k = get payload k"
  by (auto simp: enrich_queue_job_payload_def Let_def)

lemma enrich_intent:
  "get (enrich_queue_job_payload payload lane) ''job_intent'' = PDict (build_queue_job_intent payload lane)"
  by (simp add: enrich_queue_job_payload_def Let_def)

lemma enrich_other:
  "k \<notin> {''job_intent'', ''expected_artifacts'', ''title'', ''goal''} \<Longrightarrow>
   get (enrich_queue_job_payload payload lane) k = get payload k"
  by (simp add: enrich_queue_job_payload_def Let_def)

lemma get_append: "get (d @ e) k = (if has_key d k then get d k else get e k)"
  by (induction d) auto

lemma opt_field_simps [simp]:
  "has_key (opt_field k v) k' \<longleftrightarrow> k' = k \<and> v \<noteq> None"
  "get (opt_field k (Some s)) k = PStr s"
  by (auto simp: opt_field_def split: option.splits)

lemma get_opt_field: "get (opt_field k v @ d) k' =
    (if k' = k then (case v of None \<Rightarrow> get d k | Some s \<Rightarrow> PStr s) else get d k')"
  by (auto simp: get_append opt_field_def split: option.splits)

definition clean :: "string \<Rightarrow> bool" where
  "clean s \<longleftrightarrow> strip s = s \<and> s \<noteq> []"

lemma clean_text_Some: "clean_text v = Some s \<Longrightarrow> clean s"
  by (auto simp: clean_text_def clean_def Let_def split: if_splits)

lemma clean_text_PStr: "clean s \<Longrightarrow> clean_text (PStr s) = Some s"
  by (simp add: clean_text_def clean_def)

lemma clean_list_clean: "s \<in> set (clean_list v) \<Longrightarrow> clean s"
  by (cases v) (auto simp: clean_list_def set_map_filter_iff dest: clean_text_Some)

lemma kind_clean: "clean (detect_request_kind payload)"
proof -
  have "k \<in> set canonical_kinds \<union> set non_canonical_kinds \<Longrightarrow> clean k" for k
    by (auto simp: canonical_kinds_def non_canonical_kinds_def clean_def strip_def lstrip_def rstrip_def
        is_space_def code_def)
  then show ?thesis using detect_kind_range by blast
qed

lemma default_artifacts_clean: "s \<in> set (default_expected_artifacts kind lane) \<Longrightarrow> clean s"
  by (auto simp: default_expected_artifacts_def queue_baseline_artifacts_def assistant_baseline_artifacts_def
      clean_def strip_def lstrip_def rstrip_def is_space_def code_def split: if_splits)

text \<open>The routing fields of an intent are clean, and a second enrichment keeps them whatever lane it
  is given: the lane a job first came in by stays on record.\<close>

lemma intent_routing:
  "get (build_queue_job_intent payload lane) ''request_kind'' = PStr (opt_or
     (clean_text (get (the_dict (get payload ''job_intent'')) ''request_kind'')) (detect_request_kind payload))"
  "get (build_queue_job_intent payload lane) ''source_lane'' =
     PStr (opt_or (clean_text (get (the_dict (get payload ''job_intent'')) ''source_lane'')) lane)"
  by (simp_all add: build_queue_job_intent_def Let_def)

lemma opt_or_clean: "clean d \<Longrightarrow> clean (opt_or (clean_text v) d)"
  by (auto simp: opt_or_def dest: clean_text_Some split: option.splits)

lemma opt_or_Some [simp]: "opt_or (Some x) d = x"
  by (simp add: opt_or_def)

lemma enrich_again_routing:
  assumes "clean lane"
  shows "get (build_queue_job_intent (enrich_queue_job_payload payload lane) lane') ''request_kind''
      = get (build_queue_job_intent payload lane) ''request_kind''"
    and "get (build_queue_job_intent (enrich_queue_job_payload payload lane) lane') ''source_lane''
      = get (build_queue_job_intent payload lane) ''source_lane''"
proof -
  let ?ex = "the_dict (get payload ''job_intent'')"
  have "clean (opt_or (clean_text (get ?ex ''request_kind'')) (detect_request_kind payload))"
    "clean (opt_or (clean_text (get ?ex ''source_lane'')) lane)"
    using assms kind_clean by (simp_all add: opt_or_clean)
  then show "get (build_queue_job_intent (enrich_queue_job_payload payload lane) lane') ''request_kind''
      = get (build_queue_job_intent payload lane) ''request_kind''"
    "get (build_queue_job_intent (enrich_queue_job_payload payload lane) lane') ''source_lane''
      = get (build_queue_job_intent payload lane) ''source_lane''"
    by (simp_all only: intent_routing enrich_intent the_dict.simps clean_text_PStr opt_or_Some)
qed

lemma intent_expected_clean: "s \<in> set (intent_expected_artifacts ex payload kind lane) \<Longrightarrow> clean s"
  by (auto simp: intent_expected_artifacts_def Let_def dest: clean_list_clean default_artifacts_clean
      split: if_splits)

lemma intent_expected:
  "get (build_queue_job_intent payload lane) ''expected_artifacts'' =
     pstrs (intent_expected_artifacts (the_dict (get payload ''job_intent'')) payload
       (opt_or (clean_text (get (the_dict (get payload ''job_intent'')) ''request_kind''))
          (detect_request_kind payload))
       (opt_or (clean_text (get (the_dict (get payload ''job_intent'')) ''source_lane'')) lane))"
  by (simp add: build_queue_job_intent_def Let_def get_opt_field)

end
