(* ===== verification/Mission_Builder.thy ===== *)
theory Mission_Builder
  imports Queue_Approvals Job_Intent
begin

text \<open>
  Models the first half of \<open>voxera/core/queue_execution.py\<close>, from the raw payload of a job to the
  mission it runs, with the checks of \<open>voxera/core/capabilities_snapshot.py\<close>. The planner (a language
  model behind \<open>plan_mission\<close>) and the stored missions are functions of the environment; fuzzy
  matching for the text of an error message is one as well.
\<close>

section \<open>Normalisation\<close>

definition opt_entry :: "string \<Rightarrow> py \<Rightarrow> dict" where
  "opt_entry k v = (if v = PNone then [] else [(k, v)])"

definition str_entry :: "string \<Rightarrow> py \<Rightarrow> dict" where
  "str_entry k v = (if v = PNone then [] else [(k, PStr (py_str v))])"

definition normalize_payload :: "dict \<Rightarrow> dict result" where
  "normalize_payload payload =
     bindR (extract_write_file_request payload) (\<lambda>wf.
     bindR (extract_file_organize_request payload) (\<lambda>fo.
     bindR (extract_lineage_metadata payload) (\<lambda>lineage.
       let base =
         str_entry ''mission_id'' (get_or payload ''mission_id'' (get payload ''mission''))
         @ str_entry ''goal'' (if has_key payload ''goal'' then get payload ''goal'' else get payload ''plan_goal'')
         @ str_entry ''title'' (get payload ''title'')
         @ opt_entry ''steps'' (get payload ''steps'')
         @ (if has_key payload ''enqueue_child'' then [(''enqueue_child'', get payload ''enqueue_child'')] else [])
         @ opt_entry ''write_file'' wf
         @ opt_entry ''file_organize'' fo
         @ (if has_key payload ''approval_required''
            then [(''approval_required'', is_true (get payload ''approval_required''))] else [])
         @ (case get payload ''_simple_intent'' of
              PDict r \<Rightarrow> [(''_simple_intent'', PDict (sanitize_intent_route r))] | _ \<Rightarrow> [])
         @ (case lineage of None \<Rightarrow> [] | Some l \<Rightarrow> lineage_dict l)
       in Inr (base @ [(''job_intent'', PDict (build_queue_job_intent payload ''queue_daemon''))]))))"

section \<open>Inline and structured missions\<close>

definition inline_step :: "string \<Rightarrow> nat \<Rightarrow> py \<Rightarrow> mission_step result" where
  "inline_step job_name idx item = (case item of
     PDict d \<Rightarrow>
       (let sid = clean_str (get_or d ''skill_id'' (get d ''skill'')) in
        if sid = [] then raise_value (''job step '' @ nat_str idx @ '' missing skill_id (or legacy skill) for '' @ job_name)
        else (case get_or d ''args'' (PDict []) of
            PNone \<Rightarrow> Inr \<lparr>mst_skill = sid, mst_args = []\<rparr>
          | PDict a \<Rightarrow> Inr \<lparr>mst_skill = sid, mst_args = a\<rparr>
          | _ \<Rightarrow> raise_value (''job step '' @ nat_str idx @ '' args must be an object'')))
   | _ \<Rightarrow> raise_value (''job step '' @ nat_str idx @ '' must be an object''))"

definition text_default :: "py \<Rightarrow> string \<Rightarrow> string" where
  "text_default v d = py_str (por v (PStr d))"

definition build_inline_mission :: "dict \<Rightarrow> qpath \<Rightarrow> mission result" where
  "build_inline_mission payload job = (case get payload ''steps'' of
     PList (x # xs) \<Rightarrow>
       bindR (mapR (\<lambda>(i, item). inline_step (snd job) i item) (List.enumerate 1 (x # xs))) (\<lambda>steps.
       Inr \<lparr>mi_id = job_stem job, mi_title = text_default (get payload ''title'') (''Queued Mission '' @ job_stem job),
         mi_goal = text_default (get payload ''goal'') ''User-defined queued mission'', mi_steps = steps,
         mi_notes = Some ''inline_queue_job''\<rparr>)
   | _ \<Rightarrow> raise_value ''job steps must be a non-empty list'')"

text \<open>\<open>str(Path(s))\<close>\<close>

definition path_norm :: "string \<Rightarrow> string" where
  "path_norm s =
     (let lead = (if starts_with s ''//'' \<and> \<not> starts_with s ''///'' then ''//''
                  else if starts_with s ''/'' then ''/'' else []);
          body = join ''/'' (path_parts s)
      in if lead @ body = [] then ''.'' else lead @ body)"

definition path_div :: "string \<Rightarrow> string \<Rightarrow> string" where
  "path_div d name = path_norm (d @ ''/'' @ name)"

definition mk_step :: "string \<Rightarrow> dict \<Rightarrow> mission_step" where
  "mk_step sid args = \<lparr>mst_skill = sid, mst_args = args\<rparr>"

definition file_organize_steps :: "string \<Rightarrow> string \<Rightarrow> string \<Rightarrow> bool \<Rightarrow> bool \<Rightarrow> mission_step list" where
  "file_organize_steps src dst mode overwrite del =
     (let transfer = [(''source_path'', PStr src), (''destination_path'', PStr (path_div dst (path_name src))),
         (''overwrite'', PBool overwrite)] in
      [mk_step ''files.exists'' [(''path'', PStr src)], mk_step ''files.stat'' [(''path'', PStr src)],
       mk_step ''files.mkdir'' [(''path'', PStr dst), (''parents'', PBool True)]]
      @ (if mode = ''copy'' then mk_step ''files.copy_file'' transfer
           # (if del then [mk_step ''files.delete_file'' [(''path'', PStr src)]] else [])
         else [mk_step ''files.move_file'' transfer]))"

definition build_file_organize_mission :: "dict \<Rightarrow> dict \<Rightarrow> qpath \<Rightarrow> mission result" where
  "build_file_organize_mission payload fo job =
     (let src = clean_str (get fo ''source_path''); dst = clean_str (get fo ''destination_dir'');
          mode = lower (strip (text_default (get fo ''mode'') ''copy'')) in
      if mode \<notin> {''copy'', ''move''} then raise_value ''file_organize.mode must be copy or move''
      else bindR (request_flag fo ''overwrite'' ''file_organize.overwrite must be a boolean when provided'') (\<lambda>ow.
        bindR (request_flag fo ''delete_original''
                 ''file_organize.delete_original must be a boolean when provided'') (\<lambda>del.
        Inr \<lparr>mi_id = job_stem job,
          mi_title = text_default (get payload ''title'') (''Queued File Organize '' @ job_stem job),
          mi_goal = text_default (get payload ''goal'')
            (''Organize '' @ src @ '' into '' @ dst @ '' using mode='' @ mode),
          mi_steps = file_organize_steps src dst mode ow del,
          mi_notes = Some ''structured_file_organize_queue_job''\<rparr>)))"

definition build_write_file_mission :: "dict \<Rightarrow> dict \<Rightarrow> qpath \<Rightarrow> mission result" where
  "build_write_file_mission payload req job =
     (let path = clean_str (get req ''path''); mode = lower (strip (text_default (get req ''mode'') ''overwrite'')) in
      if path = [] then raise_value ''write_file.path must be a non-empty string''
      else (case get req ''content'' of
        PStr content \<Rightarrow>
          if mode \<notin> {''overwrite'', ''append''} then raise_value ''write_file.mode must be overwrite or append''
          else Inr \<lparr>mi_id = job_stem job,
            mi_title = text_default (get payload ''title'') (''Queued File Write '' @ job_stem job),
            mi_goal = text_default (get payload ''goal'') (''write file '' @ path @ '' with provided content''),
            mi_steps = [mk_step ''files.write_text''
               [(''path'', PStr path), (''text'', PStr content), (''mode'', PStr mode)]],
            mi_notes = Some ''structured_write_file_queue_job''\<rparr>
      | _ \<Rightarrow> raise_value ''write_file.content must be a string''))"

section \<open>Validation against the capabilities snapshot\<close>

fun merge_matches :: "string list \<Rightarrow> string list \<Rightarrow> string list" where
  "merge_matches acc [] = acc"
| "merge_matches acc (c # cs) =
     (let acc' = (if c \<in> set acc then acc else acc @ [c]) in
      if length acc' = 5 then acc' else merge_matches acc' cs)"

definition closest_matches :: "(string \<Rightarrow> string list \<Rightarrow> string list) \<Rightarrow> string \<Rightarrow> string list \<Rightarrow> string list" where
  "closest_matches fuzzy value opts =
     (let n = lower (strip value);
          canonical = sorted_set (map (lower \<circ> strip) (filter (\<lambda>x. strip x \<noteq> []) opts))
      in if n = [] then []
         else merge_matches [] (filter (\<lambda>x. starts_with x n) canonical @ filter (\<lambda>x. contains x n) canonical
            @ fuzzy n canonical))"

definition format_validation_error ::
  "(string \<Rightarrow> string list \<Rightarrow> string list) \<Rightarrow> string \<Rightarrow> string \<Rightarrow> string list \<Rightarrow> string" where
  "format_validation_error fuzzy subject value opts =
     (let ms = closest_matches fuzzy value opts; head = ''Invalid '' @ subject @ '': '' @ quoted value @ ''.'' in
      if ms = [] then head else head @ '' Closest matches: '' @ join '', '' (map quoted ms) @ ''.'')"

definition validate_mission_id :: "'w qenv \<Rightarrow> string \<Rightarrow> unit result" where
  "validate_mission_id env mid = (if mid \<in> set (qe_mission_ids env) then Inr ()
     else raise_value (format_validation_error (qe_close_matches env) ''mission_id'' mid (qe_mission_ids env)))"

definition check_open_app ::
  "(string \<Rightarrow> string list \<Rightarrow> string list) \<Rightarrow> string list \<Rightarrow> nat \<Rightarrow> mission_step \<Rightarrow> unit result" where
  "check_open_app fuzzy apps idx st =
     (if mst_skill st \<noteq> ''system.open_app'' then Inr ()
      else bindR (canonicalize_args (mst_skill st) (mst_args st)) (\<lambda>args.
        let app = lower (strip (py_str (get_or args ''name'' (get_or (mst_args st) ''app'' (PStr []))))) in
        if app \<in> set apps then Inr ()
        else raise_value (format_validation_error fuzzy (''step '' @ nat_str idx @ '' system.open_app app'')
          (if app = [] then ''(empty)'' else app) apps)))"

definition check_open_apps ::
  "(string \<Rightarrow> string list \<Rightarrow> string list) \<Rightarrow> string list \<Rightarrow> mission_step list \<Rightarrow> unit result" where
  "check_open_apps fuzzy apps steps =
     bindR (mapR (\<lambda>(i, st). check_open_app fuzzy apps i st) (List.enumerate 1 steps)) (\<lambda>_. Inr ())"

definition validate_mission_steps :: "'w qenv \<Rightarrow> mission \<Rightarrow> mission result" where
  "validate_mission_steps env mi =
     bindR (check_open_apps (qe_close_matches env) (qe_allowed_apps env) (mi_steps mi)) (\<lambda>_. Inr mi)"

section \<open>The mission of a payload\<close>

text \<open>The planner runs on the outer world; its \<open>MissionPlannerError\<close> becomes a \<open>RuntimeError\<close> with the
  same text.\<close>

definition plan_goal :: "'w qenv \<Rightarrow> string \<Rightarrow> qpath \<Rightarrow> (mission, 'w daemon) prog" where
  "plan_goal env goal job s =
     (case qe_plan env goal (path_str env job) (q_outer (rs_world s)) of
        (r, w') \<Rightarrow>
          (case r of
             Inr mi \<Rightarrow> Inr mi
           | Inl e \<Rightarrow> Inl (if class_of e = OtherError ''MissionPlannerError''
               then Exc RuntimeError (str_exc e) else e),
           s\<lparr>rs_world := (rs_world s)\<lparr>q_outer := w'\<rparr>\<rparr>))"

definition build_mission_for_payload :: "'w qenv \<Rightarrow> dict \<Rightarrow> qpath \<Rightarrow> (mission, 'w daemon) prog" where
  "build_mission_for_payload env payload job =
     bindM (liftR (normalize_payload payload)) (\<lambda>n.
     if has_key n ''mission_id'' then
       (let mid = the_str (get n ''mission_id'') in
        liftR (bindR (validate_mission_id env mid) (\<lambda>_.
               bindR (qe_get_mission env mid) (validate_mission_steps env))))
     else if has_key n ''steps'' then liftR (bindR (build_inline_mission n job) (validate_mission_steps env))
     else if has_key n ''file_organize'' then
       liftR (bindR (build_file_organize_mission payload (the_dict (get n ''file_organize'')) job)
         (validate_mission_steps env))
     else if has_key n ''write_file'' then
       liftR (bindR (build_write_file_mission payload (the_dict (get n ''write_file'')) job)
         (validate_mission_steps env))
     else if has_key n ''goal'' then
       bindM (plan_goal env (the_str (get n ''goal'')) job) (\<lambda>mi. liftR (validate_mission_steps env mi))
     else raiseM (Exc ValueError (''job must contain mission_id (or mission), file_organize, write_file, ''
        @ ''goal (or plan_goal), or inline steps'')))"

section \<open>What is built\<close>

text \<open>The steps of a file-organize job: the deletion comes last, and only for a copy that asked for it.\<close>

lemma file_organize_steps_safe:
  "map mst_skill (file_organize_steps src dst mode ow del) =
     [''files.exists'', ''files.stat'', ''files.mkdir'']
     @ (if mode = ''copy'' then ''files.copy_file'' # (if del then [''files.delete_file''] else [])
        else [''files.move_file''])"
  by (simp add: file_organize_steps_def mk_step_def Let_def)

lemma validate_mission_steps_same: "validate_mission_steps env mi = Inr mi' \<Longrightarrow> mi' = mi"
  by (auto simp: validate_mission_steps_def result_iff)

lemma inline_mission_steps:
  "build_inline_mission payload job = Inr mi \<Longrightarrow>
     mi_steps mi \<noteq> [] \<and> (\<forall>st \<in> set (mi_steps mi). mst_skill st \<noteq> [] \<and> strip (mst_skill st) = mst_skill st)"
proof -
  have step: "inline_step n i item = Inr st \<Longrightarrow> mst_skill st \<noteq> [] \<and> strip (mst_skill st) = mst_skill st"
    for n i item st
    by (auto simp: inline_step_def Let_def clean_str_def split: py.splits if_splits)
  have all: "mapR (\<lambda>(i, item). inline_step n i item) xs = Inr ys \<Longrightarrow>
      \<forall>st \<in> set ys. mst_skill st \<noteq> [] \<and> strip (mst_skill st) = mst_skill st" for n xs ys
    by (induction xs arbitrary: ys) (auto simp: result_iff dest: step)
  show ?thesis if built: "build_inline_mission payload job = Inr mi"
  proof -
    obtain x xs where xs: "get payload ''steps'' = PList (x # xs)"
      using built by (auto simp: build_inline_mission_def split: py.splits list.splits)
    with built obtain steps where
      steps: "mapR (\<lambda>(i, item). inline_step (snd job) i item) (List.enumerate 1 (x # xs)) = Inr steps"
      and mi: "mi_steps mi = steps"
      unfolding build_inline_mission_def xs py.case list.case bindR_eq_Inr by auto
    from mapR_length [OF steps] have "steps \<noteq> []" by auto
    with all [OF steps] show ?thesis unfolding mi by blast
  qed
qed

end
