(* ===== verification/Evaluator.thy ===== *)
theory Evaluator
  imports Missions
begin

text \<open>
  Models \<open>voxera/core/execution_evaluator.py\<close>: the classification of a run that the queue uses to
  decide between done, awaiting approval, failed and a bounded replan.
\<close>

datatype evaluation_class = Succeeded | AwaitingApproval | BlockedNonRetryable | InvalidInputNonRetryable
  | RetryableFailure | ReplannableMismatch | TerminalFailure

fun evaluation_class_name :: "evaluation_class \<Rightarrow> string" where
  "evaluation_class_name Succeeded = ''succeeded''"
| "evaluation_class_name AwaitingApproval = ''awaiting_approval''"
| "evaluation_class_name BlockedNonRetryable = ''blocked_non_retryable''"
| "evaluation_class_name InvalidInputNonRetryable = ''invalid_input_non_retryable''"
| "evaluation_class_name RetryableFailure = ''retryable_failure''"
| "evaluation_class_name ReplannableMismatch = ''replannable_mismatch''"
| "evaluation_class_name TerminalFailure = ''terminal_failure''"

record evaluation =
  ev_class :: evaluation_class
  ev_reason :: string
  ev_replan :: bool

definition replannable_error_classes :: "string list" where
  "replannable_error_classes = [''planner_skill_mismatch'', ''skill_not_found'', ''arg_shape_mismatch'']"

definition invalid_input_error_classes :: "string list" where
  "invalid_input_error_classes = [''invalid_input'', ''validation_error'', ''argument_validation_error'']"

definition allowed_replan_classes :: "evaluation_class list" where
  "allowed_replan_classes = [RetryableFailure, ReplannableMismatch]"

definition replan_allowed_for_class :: "evaluation_class \<Rightarrow> bool" where
  "replan_allowed_for_class c = (c \<in> set allowed_replan_classes)"

fun last_dict :: "py list \<Rightarrow> dict" where
  "last_dict [] = []"
| "last_dict (PDict d # rest) = d"
| "last_dict (_ # rest) = last_dict rest"

definition last_step_result :: "dict \<Rightarrow> dict" where
  "last_step_result rd = (case get rd ''results'' of PList xs \<Rightarrow> last_dict (rev xs) | _ \<Rightarrow> [])"

definition evaluate_run_result :: "run_result \<Rightarrow> string \<Rightarrow> evaluation result" where
  "evaluate_run_result rr request_kind =
     (let mk = (\<lambda>c reason replan. \<lparr>ev_class = c, ev_reason = reason, ev_replan = replan\<rparr>);
          data = rr_data rr; outcome = str_or_empty (get data ''terminal_outcome'');
          st = last_step_result data; ec = get st ''error_class'' in
      if rr_ok rr then Inr (mk Succeeded ''mission_completed'' False)
      else if str_or_empty (get data ''status'') = ''pending_approval''
        then Inr (mk AwaitingApproval ''approval_required'' False)
      else if outcome = ''blocked'' then Inr (mk BlockedNonRetryable ''policy_or_runtime_boundary_block'' False)
      else bindR (in_str_set ec replannable_error_classes) (\<lambda>mismatch.
        if mismatch then Inr (mk ReplannableMismatch (py_str ec) (request_kind = ''goal''))
        else if get st ''retryable'' = PBool True
          then Inr (mk RetryableFailure ''step_marked_retryable'' (request_kind = ''goal''))
        else bindR (in_str_set ec invalid_input_error_classes) (\<lambda>invalid.
          if invalid then Inr (mk InvalidInputNonRetryable (py_str ec) False)
          else Inr (mk TerminalFailure (if outcome = [] then ''mission_failed'' else outcome) False))))"

section \<open>When a replan is allowed\<close>

text \<open>A replan is only ever allowed for a goal request whose run failed, without being blocked or
  waiting for approval, at a step that was a planner mismatch or marked retryable.\<close>

lemma replan_iff:
  assumes "evaluate_run_result rr kind = Inr ev"
  shows "ev_replan ev \<longleftrightarrow> kind = ''goal'' \<and> \<not> rr_ok rr
    \<and> str_or_empty (get (rr_data rr) ''status'') \<noteq> ''pending_approval''
    \<and> str_or_empty (get (rr_data rr) ''terminal_outcome'') \<noteq> ''blocked''
    \<and> ((\<exists>e \<in> set replannable_error_classes. get (last_step_result (rr_data rr)) ''error_class'' = PStr e)
       \<or> get (last_step_result (rr_data rr)) ''retryable'' = PBool True)"
proof -
  have mem: "in_str_set v xs = Inr b \<longleftrightarrow> hashable v \<and> b = (\<exists>e \<in> set xs. v = PStr e)" for v xs b
    by (cases v) (auto simp: in_str_set_def hashable_def)
  show ?thesis
    using assms unfolding evaluate_run_result_def Let_def
    by (auto simp: result_iff mem split: if_splits)
qed

lemma replan_class: "evaluate_run_result rr kind = Inr ev \<Longrightarrow> ev_replan ev \<Longrightarrow> replan_allowed_for_class (ev_class ev)"
  unfolding evaluate_run_result_def Let_def
  by (auto simp: result_iff replan_allowed_for_class_def allowed_replan_classes_def split: if_splits)

lemma evaluation_succeeded_iff:
  "evaluate_run_result rr kind = Inr ev \<Longrightarrow> ev_class ev = Succeeded \<longleftrightarrow> rr_ok rr"
  unfolding evaluate_run_result_def Let_def
  by (auto simp: result_iff split: if_splits)

lemma evaluation_awaiting_iff:
  "evaluate_run_result rr kind = Inr ev \<Longrightarrow> ev_class ev = AwaitingApproval \<longleftrightarrow>
     \<not> rr_ok rr \<and> str_or_empty (get (rr_data rr) ''status'') = ''pending_approval''"
  unfolding evaluate_run_result_def Let_def
  by (auto simp: result_iff split: if_splits)

text \<open>The error class of a step of a mission is None or a string unless the skill put another value in
  its data, so only such a skill makes the classification raise.\<close>

lemma evaluate_total:
  "hashable (get (last_step_result (rr_data rr)) ''error_class'') \<Longrightarrow> isOk (evaluate_run_result rr kind)"
  by (auto simp: evaluate_run_result_def Let_def in_str_set_def isOk_iff)

end
