(* ===== verification/Queue_Execution.thy ===== *)
theory Queue_Execution
  imports Mission_Builder Evaluator
begin

text \<open>
  Models the second half of \<open>voxera/core/queue_execution.py\<close>: the life of one job from its file in the
  inbox to its end in pending, failed or done, with the bounded replanning of goal jobs, and the tick
  of the daemon. The shutdown path of \<open>voxera/core/queue_recovery.py\<close> is part of it.
\<close>

section \<open>The daemon as the environment of its missions\<close>

definition lift_skills :: "'w skill_env \<Rightarrow> 'w queue skill_env" where
  "lift_skills e = \<lparr>sk_load = sk_load e,
     sk_fn = (\<lambda>m args q. case sk_fn e m args (q_outer q) of (r, w) \<Rightarrow> (r, q\<lparr>q_outer := w\<rparr>)),
     sk_job_id = (\<lambda>q. sk_job_id e (q_outer q)), sk_sandbox_config = sk_sandbox_config e,
     sk_sandbox_env = (\<lambda>j q. sk_sandbox_env e j (q_outer q)),
     sk_subprocess = (\<lambda>q. sk_subprocess e (q_outer q)),
     sk_apply_trace = (\<lambda>tr q. q\<lparr>q_outer := sk_apply_trace e tr (q_outer q)\<rparr>)\<rparr>"

definition queue_mission_env :: "'w qenv \<Rightarrow> 'w queue mission_env" where
  "queue_mission_env env = \<lparr>me_skills = lift_skills (qe_skills env), me_registry = qe_registry env,
     me_policy = qe_policy env, me_approval = Some (queue_approval_prompt env), me_now_ms = qe_now env,
     me_timestamp = (\<lambda>q. qe_timestamp env (q_outer q)), me_redact_logs = qe_redact env,
     me_append_log = (\<lambda>line q. case qe_append_log env line (q_outer q) of (r, w) \<Rightarrow> (r, q\<lparr>q_outer := w\<rparr>))\<rparr>"

definition shutdown_reason :: "'w qenv \<Rightarrow> (string option, 'w daemon) prog" where
  "shutdown_reason env = queue_get (\<lambda>q. qe_shutdown env (q_outer q))"

definition deliver :: "'w qenv \<Rightarrow> qpath \<Rightarrow> (unit, 'w daemon) prog" where
  "deliver env job = queue_modify (\<lambda>q. q\<lparr>q_outer := qe_deliver env (path_str env job) (q_outer q)\<rparr>)"

definition count_failed :: "(unit, 'w daemon) prog" where
  "count_failed = queue_modify (\<lambda>q. q\<lparr>q_failed := Suc (q_failed q)\<rparr>)"

definition count_processed :: "(unit, 'w daemon) prog" where
  "count_processed = queue_modify (\<lambda>q. q\<lparr>q_processed := Suc (q_processed q)\<rparr>)"

section \<open>Reading the job\<close>

definition parse_retry_attempts :: nat where
  "parse_retry_attempts = 4"

fun load_attempts :: "'w qenv \<Rightarrow> qpath \<Rightarrow> nat \<Rightarrow> nat \<Rightarrow> (dict, 'w daemon) prog" where
  "load_attempts env job attempt 0 = raiseM json_error"
| "load_attempts env job attempt (Suc left) =
     bindM (content_now job) (\<lambda>c. case c of
       None \<Rightarrow> raiseM (Exc FileNotFoundError ''[Errno 2] No such file or directory'')
     | Some (Json (PDict d)) \<Rightarrow>
         thenM (whenM (1 < attempt) (log [(''event'', PStr ''queue_job_parse_stabilized''),
           (''attempt'', PInt (int attempt)), (''path'', PStr (path_str env job))])) (retM d)
     | Some (Json _) \<Rightarrow> raiseM (Exc ValueError ''job payload must be a JSON object'')
     | Some _ \<Rightarrow>
         if left = 0 then raiseM json_error
         else thenM (log [(''event'', PStr ''queue_job_retry_parse''), (''attempt'', PInt (int attempt)),
             (''path'', PStr (path_str env job))]) (load_attempts env job (Suc attempt) left))"

definition load_job_payload :: "'w qenv \<Rightarrow> qpath \<Rightarrow> (dict, 'w daemon) prog" where
  "load_job_payload env job = load_attempts env job 1 parse_retry_attempts"

section \<open>The assistant fast lane\<close>

definition fast_lane_eligibility :: "dict \<Rightarrow> string \<Rightarrow> bool \<times> string" where
  "fast_lane_eligibility payload kind =
     (if kind \<noteq> ''assistant_question'' then (False, ''request_kind_not_eligible'')
      else if get payload ''advisory'' \<noteq> PBool True then (False, ''advisory_flag_missing'')
      else if get payload ''read_only'' \<noteq> PBool True then (False, ''read_only_flag_missing'')
      else if get payload ''approval_required'' = PBool True then (False, ''approval_required'')
      else if the_list (get payload ''action_hints'') = [] then (False, ''action_hints_missing'')
      else if set (nonempty_strips (map py_str (the_list (get payload ''action_hints'')))) \<noteq> {''assistant.advisory''}
        then (False, ''action_hints_not_eligible'')
      else if get payload ''steps'' \<noteq> PNone then (False, ''inline_steps_not_allowed'')
      else if truthy (get payload ''mission_id'') \<or> truthy (get payload ''mission'') then (False, ''mission_not_allowed'')
      else if truthy (get payload ''goal'') \<or> truthy (get payload ''plan_goal'') then (False, ''goal_not_allowed'')
      else (True, ''eligible_read_only_assistant_advisory''))"

definition assistant_job :: "'w qenv \<Rightarrow> qpath \<Rightarrow> dict \<Rightarrow> (bool, 'w daemon) prog" where
  "assistant_job env job payload =
     (let kind = detect_request_kind payload;
          (eligible, reason) = fast_lane_eligibility payload kind;
          lane = (if eligible then ''fast_read_only'' else ''queue'');
          fields = [(''request_kind'', PStr kind), (''fast_lane_eligible'', PBool eligible),
            (''fast_lane_reason'', PStr reason), (''execution_lane'', PStr lane)]
      in thenM (write_action_event env job ''assistant_fast_lane_evaluated'' fields)
        (thenM (log ([(''event'', PStr ''assistant_fast_lane_evaluated''), (''job'', PStr (path_str env job))] @ fields))
          (qe_assistant env job payload lane [(''used'', PBool eligible), (''eligible'', PBool eligible),
             (''eligibility_reason'', PStr reason), (''request_kind'', PStr kind)])))"

section \<open>Ends of a job\<close>

definition failed_rr :: "int \<Rightarrow> nat \<Rightarrow> nat \<Rightarrow> nat \<Rightarrow> string \<Rightarrow> string \<Rightarrow> string \<Rightarrow> dict" where
  "failed_rr tot attempt replans max_replans cls reason stop = [
     (''results'', PList []), (''step_outcomes'', PList []), (''total_steps'', PInt tot),
     (''lifecycle_state'', PStr ''step_failed''), (''attempt_index'', PInt (int attempt)),
     (''replan_count'', PInt (int replans)), (''max_replans'', PInt (int max_replans)),
     (''evaluation_class'', PStr cls), (''evaluation_reason'', PStr reason), (''stop_reason'', PStr stop)]"

definition log_failed :: "'w qenv \<Rightarrow> qpath \<Rightarrow> string \<Rightarrow> (unit, 'w daemon) prog" where
  "log_failed env job err = log [(''event'', PStr ''queue_job_failed''), (''job'', PStr (path_str env job)),
     (''error'', PStr err)]"

text \<open>Moving to failed before the mission ran: error sidecar, result, state, counters, retention\<close>

definition fail_before_run ::
  "'w qenv \<Rightarrow> qpath \<Rightarrow> string \<Rightarrow> dict \<Rightarrow> dict option \<Rightarrow> dict option \<Rightarrow> snapshot_args \<Rightarrow> (bool, 'w daemon) prog" where
  "fail_before_run env job err rd sidecar_payload result_payload a =
     bindM (move_job env job (InBucket Failed)) (\<lambda>moved. case moved of
       None \<Rightarrow> retM False
     | Some m \<Rightarrow>
         thenM (write_failed_error_sidecar env m err sidecar_payload)
         (thenM (write_execution_result_artifacts env m rd False ''failed'' (Some err) result_payload)
         (thenM (update_job_state env m ''step_failed''
             (a\<lparr>sn_terminal := Some ''failed'', sn_failure := Some err\<rparr>))
         (thenM count_failed
         (thenM (log_failed env m err)
         (thenM (prune_failed_artifacts env)
         (thenM (deliver env m)
          (retM False))))))))"

definition invalid_job :: "'w qenv \<Rightarrow> qpath \<Rightarrow> exc \<Rightarrow> dict option \<Rightarrow> (bool, 'w daemon) prog" where
  "invalid_job env job e payload =
     thenM (log [(''event'', PStr ''queue_job_invalid''), (''job'', PStr (path_str env job)),
       (''filename'', PStr (snd job)), (''reason'', PStr (repr_exc e))])
     (fail_before_run env job (repr_exc e)
        (failed_rr 0 1 0 (qe_max_replans env) ''terminal_failure'' ''job_invalid'' ''job_invalid'')
        payload payload (no_args\<lparr>sn_payload := payload\<rparr>))"

definition finalize_shutdown :: "'w qenv \<Rightarrow> qpath \<Rightarrow> string \<Rightarrow> dict \<Rightarrow> (unit, 'w daemon) prog" where
  "finalize_shutdown env job reason payload =
     bindM (move_job env job (InBucket Failed)) (\<lambda>moved. case moved of
       None \<Rightarrow> retM ()
     | Some m \<Rightarrow>
         (let err = ''shutdown: daemon shutdown requested'' in
          thenM (write_failed_error_sidecar env m err (Some (dput payload ''shutdown'' (PDict [
             (''reason'', PStr ''shutdown''), (''message'', PStr ''daemon shutdown requested''),
             (''signal'', PStr (if reason = [] then ''UNKNOWN'' else reason))]))))
          (thenM (update_job_state env m ''step_failed'' (no_args\<lparr>sn_payload := Some payload,
             sn_terminal := Some ''failed'', sn_failure := Some err\<rparr>))
          (thenM count_failed
          (thenM (write_action_event env m ''queue_job_failed'' [(''error'', PStr err)])
          (thenM (health [(''shutdown_requested'', PBool True)])
          (thenM (health [(''last_shutdown_outcome'', PStr ''failed_shutdown''),
             (''reason'', PStr (if reason = [] then ''UNKNOWN'' else reason)), (''job'', PStr (snd m))])
          (thenM (log [(''event'', PStr ''queue_job_failed_shutdown''), (''job'', PStr (path_str env m)),
             (''error'', PStr ''shutdown''), (''message'', PStr ''daemon shutdown requested''),
             (''signal'', PStr reason)])
           (prune_failed_artifacts env)))))))))"

section \<open>Intake\<close>

datatype intake = Finished bool | Ready dict py

definition intake_job :: "'w qenv \<Rightarrow> qpath \<Rightarrow> (intake, 'w daemon) prog" where
  "intake_job env job =
     (let invalid = (\<lambda>e payload. bindM (invalid_job env job e payload) (\<lambda>b. retM (Finished b))) in
      bindM (attemptM (load_job_payload env job)) (\<lambda>loaded. case loaded of
        Inl e \<Rightarrow> invalid e None
      | Inr raw \<Rightarrow>
          let payload = (case get raw ''_simple_intent'' of
                PDict r \<Rightarrow> dput raw ''_simple_intent'' (PDict (sanitize_intent_route r)) | _ \<Rightarrow> raw) in
          if detect_request_kind payload = ''assistant_question'' then
            bindM (attemptM (assistant_job env job payload)) (\<lambda>r. case r of
              Inl e \<Rightarrow> invalid e (Some payload) | Inr b \<Rightarrow> retM (Finished b))
          else case normalize_payload payload of
            Inl e \<Rightarrow> invalid e (Some payload)
          | Inr n \<Rightarrow> (case extract_enqueue_child_request n of
              Inl e \<Rightarrow> invalid (Exc ValueError (''invalid enqueue_child request: '' @ str_exc e)) (Some n)
            | Inr enqueue \<Rightarrow>
                bindM (attemptM (ensure_hard_approval_gate env job n)) (\<lambda>r. case r of
                  Inl e \<Rightarrow> invalid e (Some n)
                | Inr waits \<Rightarrow> retM (if waits then Finished False else Ready n enqueue)))))"

section \<open>Child jobs\<close>

definition child_refs_path :: "qpath \<Rightarrow> qpath" where
  "child_refs_path job = artifact job ''child_job_refs.json''"

definition next_child_sequence_index :: "content option \<Rightarrow> int" where
  "next_child_sequence_index c = (case c of
     Some (Json (PDict d)) \<Rightarrow> (case get d ''child_refs'' of
        PList xs \<Rightarrow> int (length (filter is_dict xs)) + 1 | _ \<Rightarrow> 1)
   | _ \<Rightarrow> 1)"

definition enqueue_child ::
  "'w qenv \<Rightarrow> qpath \<Rightarrow> dict \<Rightarrow> dict \<Rightarrow> (dict, 'w daemon) prog" where
  "enqueue_child env parent payload request =
     (let goal = clean_str (get request ''goal'') in
      if goal = [] then raiseM (Exc ValueError ''enqueue_child.goal must be a non-empty string'')
      else
        bindM (content_now (child_refs_path parent)) (\<lambda>old.
        let seq = next_child_sequence_index old; parent_id = job_stem parent @ ''.json'' in
        bindM (liftR (compute_child_lineage parent_id payload)) (\<lambda>l0.
        let l = l0\<lparr>ln_sequence := Some seq\<rparr> in
        bindM (queue_get (qe_child_id env)) (\<lambda>cid.
        let child = ''child-'' @ cid @ ''.json'';
            child_ref = [(''child_job_id'', PStr child), (''parent_job_id'', PStr parent_id),
              (''root_job_id'', popt (ln_root l)), (''orchestration_depth'', PInt (ln_depth l)),
              (''sequence_index'', PInt seq)];
            refs_payload = (case old of Some (Json (PDict d)) \<Rightarrow> d | _ \<Rightarrow> [])
        in thenM (write_file env (InBucket Inbox, child) (Json (PDict ([(''goal'', PStr goal),
              (''title'', PStr (text_default (get request ''title'') (''Child of '' @ parent_id)))]
              @ lineage_dict l))))
          (thenM (write_file env (child_refs_path parent) (Json (PDict (dput refs_payload ''child_refs''
              (PList (the_list (get refs_payload ''child_refs'') @ [PDict child_ref]))))))
          (thenM (write_action_event env parent ''queue_child_enqueued'' child_ref)
          (thenM (log ([(''event'', PStr ''queue_child_enqueued''), (''parent_job'', PStr (path_str env parent)),
              (''child_job'', PStr (path_str env (InBucket Inbox, child)))] @ tl child_ref))
           (retM child_ref))))))))"

section \<open>One attempt\<close>

definition planning_error_metadata :: "exc \<Rightarrow> string \<times> string \<times> bool" where
  "planning_error_metadata e =
     (let m = lower (strip (str_exc e)) in
      if contains m ''planner referenced unknown skill'' \<or> contains m ''unknown skill''
        then (''replannable_mismatch'', ''skill_not_found'', True)
      else if contains m ''without a valid skill_id'' then (''replannable_mismatch'', ''planner_skill_mismatch'', True)
      else if contains m ''args'' \<and> contains m ''invalid'' then (''replannable_mismatch'', ''arg_shape_mismatch'', True)
      else (''terminal_failure'', ''planning_failure'', False))"

record attempt_ctx =
  ac_payload :: dict
  ac_kind :: string
  ac_intent :: "simple_intent option"
  ac_enqueue :: py

datatype attempt_end = Stop bool | Replan "mission option"

definition supersedes :: "nat \<Rightarrow> int option" where
  "supersedes attempt = (if 1 < attempt then Some (int attempt - 1) else None)"

definition write_attempt_plan ::
  "'w qenv \<Rightarrow> qpath \<Rightarrow> nat \<Rightarrow> dict \<Rightarrow> (unit, 'w daemon) prog" where
  "write_attempt_plan env job attempt plan =
     thenM (write_file env (artifact job ''plan.json'') (Json (PDict plan)))
       (write_file env (artifact job (''plan.attempt-'' @ nat_str attempt @ ''.json'')) (Json (PDict plan)))"

definition replan_event ::
  "'w qenv \<Rightarrow> qpath \<Rightarrow> nat \<Rightarrow> string \<Rightarrow> string \<Rightarrow> nat \<Rightarrow> (unit, 'w daemon) prog" where
  "replan_event env job attempt cls reason replans =
     (let fields = [(''attempt_index'', PInt (int attempt)), (''evaluation_class'', PStr cls),
        (''evaluation_reason'', PStr reason), (''replan_count'', PInt (int replans)),
        (''max_replans'', PInt (int (qe_max_replans env)))] in
      thenM (write_action_event env job ''queue_job_replanned'' fields)
        (log ([(''event'', PStr ''queue_job_replanned''), (''job'', PStr (path_str env job))] @ fields)))"

definition planning_failed ::
  "'w qenv \<Rightarrow> qpath \<Rightarrow> attempt_ctx \<Rightarrow> nat \<Rightarrow> nat \<Rightarrow> mission option \<Rightarrow> exc \<Rightarrow> (attempt_end, 'w daemon) prog" where
  "planning_failed env job c attempt replans previous e =
     (let (cls, reason, replannable) = planning_error_metadata e; err = repr_exc e;
          payload = ac_payload c; mx = qe_max_replans env in
      bindM (liftR (extract_lineage_metadata payload)) (\<lambda>lineage.
      thenM (write_attempt_plan env job attempt [(''job'', PStr (snd job)), (''lineage'', lineage_py lineage),
         (''attempt_index'', PInt (int attempt)), (''replan_count'', PInt (int replans)),
         (''max_replans'', PInt (int mx)), (''supersedes_attempt'', opt_int (supersedes attempt)),
         (''plan_delta'', PNone), (''payload'', PDict payload), (''mission'', PNone),
         (''planning_error'', PDict [(''evaluation_class'', PStr cls), (''evaluation_reason'', PStr reason),
            (''error'', PStr err)])])
      (if replannable \<and> ac_kind c = ''goal'' \<and> replans < mx
           \<and> cls \<in> {''retryable_failure'', ''replannable_mismatch''} then
         thenM (replan_event env job attempt cls reason (Suc replans)) (retM (Replan previous))
       else
         thenM (log [(''event'', PStr ''queue_job_invalid''), (''job'', PStr (path_str env job)),
           (''filename'', PStr (snd job)), (''reason'', PStr err), (''attempt_index'', PInt (int attempt))])
         (let rd = failed_rr 0 attempt replans mx cls reason ''planning_failure'' in
          bindM (fail_before_run env job err rd (Some payload) (Some payload)
            (no_args\<lparr>sn_payload := Some payload, sn_mission := previous, sn_rr := Some rd\<rparr>))
          (\<lambda>b. retM (Stop b))))))"

definition intent_mismatch_failed ::
  "'w qenv \<Rightarrow> qpath \<Rightarrow> attempt_ctx \<Rightarrow> nat \<Rightarrow> nat \<Rightarrow> mission option \<Rightarrow> mission \<Rightarrow> simple_intent \<Rightarrow> string
   \<Rightarrow> (attempt_end, 'w daemon) prog" where
  "intent_mismatch_failed env job c attempt replans previous mi i mismatch_reason =
     (let first = mst_skill (hd (mi_steps mi)); allowed = pstrs (sort (si_allowed i));
          kind = intent_kind_name (si_kind i); payload = ac_payload c; mx = qe_max_replans env;
          err = ''planner_intent_route_rejected: simple intent '' @ quoted kind @ '' (allowed: ''
            @ py_str allowed @ '') but planner produced first step '' @ quoted first;
          fields = [(''intent_kind'', PStr kind), (''allowed_skill_ids'', allowed),
            (''planned_skill_id'', PStr first), (''mismatch_reason'', PStr mismatch_reason),
            (''routing_reason'', PStr (si_reason i))];
          rd = failed_rr (int (length (mi_steps mi))) attempt replans mx ''terminal_failure''
                 ''simple_intent_skill_family_mismatch'' ''planner_intent_route_rejected''
               @ [(''intent_route'', PDict (sanitize_intent_route (intent_to_dict i)))]
      in thenM (write_attempt_plan env job attempt [(''job'', PStr (snd job)),
           (''attempt_index'', PInt (int attempt)), (''replan_count'', PInt (int replans)),
           (''max_replans'', PInt (int mx)), (''supersedes_attempt'', opt_int (supersedes attempt)),
           (''plan_delta'', PNone), (''payload'', PDict payload), (''mission'', PNone),
           (''intent_route'', PDict (intent_to_dict i)),
           (''planning_error'', PDict [(''evaluation_class'', PStr ''terminal_failure''),
              (''evaluation_reason'', PStr ''simple_intent_skill_family_mismatch''),
              (''error'', PStr (''simple intent '' @ quoted kind @ '' allows skills '' @ py_str allowed
                 @ '' but planner produced first step '' @ quoted first)),
              (''intent_kind'', PStr kind), (''allowed_skill_ids'', allowed),
              (''planned_skill_id'', PStr first), (''routing_reason'', PStr (si_reason i))])])
         (thenM (write_action_event env job ''queue_simple_intent_mismatch'' fields)
         (thenM (log ([(''event'', PStr ''queue_simple_intent_mismatch''), (''job'', PStr (path_str env job))] @ fields))
          (bindM (fail_before_run env job err rd (Some payload) None
             (no_args\<lparr>sn_payload := Some payload, sn_mission := previous, sn_rr := Some rd\<rparr>))
           (\<lambda>b. retM (Stop b))))))"

definition plan_delta :: "mission option \<Rightarrow> mission \<Rightarrow> dict" where
  "plan_delta previous cur = (case previous of
     None \<Rightarrow> [(''mission_id_changed'', PBool False), (''total_steps_before'', PInt (int (length (mi_steps cur)))),
       (''total_steps_after'', PInt (int (length (mi_steps cur)))), (''steps_changed'', PBool False)]
   | Some p \<Rightarrow> [(''mission_id_changed'', PBool (mi_id p \<noteq> mi_id cur)),
       (''total_steps_before'', PInt (int (length (mi_steps p)))),
       (''total_steps_after'', PInt (int (length (mi_steps cur)))),
       (''steps_changed'', PBool (mi_steps p \<noteq> mi_steps cur))])"

text \<open>\<open>rr.data.setdefault(...)\<close> after the run\<close>

definition annotate_run ::
  "attempt_ctx \<Rightarrow> nat \<Rightarrow> nat \<Rightarrow> nat \<Rightarrow> evaluation \<Rightarrow> lineage option \<Rightarrow> dict \<Rightarrow> dict" where
  "annotate_run c attempt replans mx ev lineage data =
     fold (\<lambda>(k, v) d. dsetdefault d k v)
       ([(''attempt_index'', PInt (int attempt)), (''replan_count'', PInt (int replans)),
         (''max_replans'', PInt (int mx)), (''evaluation_class'', PStr (evaluation_class_name (ev_class ev))),
         (''evaluation_reason'', PStr (ev_reason ev))]
        @ (case lineage of None \<Rightarrow> [] | Some l \<Rightarrow> [(''lineage'', PDict (lineage_dict l))])
        @ (case ac_intent c of None \<Rightarrow> []
           | Some i \<Rightarrow> [(''intent_route'', PDict (sanitize_intent_route (intent_to_dict i)))])) data"

text \<open>The three ends of a run that is not replanned\<close>

definition park_for_approval ::
  "'w qenv \<Rightarrow> qpath \<Rightarrow> dict \<Rightarrow> mission \<Rightarrow> dict \<Rightarrow> string option \<Rightarrow> (bool, 'w daemon) prog" where
  "park_for_approval env job payload mi rd err =
     bindM (move_job env job (InBucket Pending)) (\<lambda>moved. case moved of
       None \<Rightarrow> retM False
     | Some m \<Rightarrow>
         thenM (write_pending_artifacts env m payload mi rd)
         (thenM (write_execution_result_artifacts env m rd False ''awaiting_approval'' err (Some payload))
         (thenM (update_job_state env m ''awaiting_approval'' (no_args\<lparr>sn_payload := Some payload,
             sn_mission := Some mi, sn_rr := Some rd, sn_approval := Some ''pending''\<rparr>))
         (thenM (write_action_event env m ''queue_job_pending_approval'' [(''step'', get rd ''step'')])
         (thenM (log [(''event'', PStr ''queue_job_pending_approval''), (''job'', PStr (path_str env m)),
             (''step'', get rd ''step''), (''reason'', get rd ''reason'')])
          (retM False))))))"

definition outcome_or :: "dict \<Rightarrow> string \<Rightarrow> string" where
  "outcome_or rd d = text_default (get rd ''terminal_outcome'') d"

definition fail_after_run ::
  "'w qenv \<Rightarrow> qpath \<Rightarrow> dict \<Rightarrow> mission \<Rightarrow> dict \<Rightarrow> string option \<Rightarrow> (bool, 'w daemon) prog" where
  "fail_after_run env job payload mi rd rr_err =
     bindM (move_job env job (InBucket Failed)) (\<lambda>moved. case moved of
       None \<Rightarrow> retM False
     | Some m \<Rightarrow>
         (let err = (case rr_err of Some e \<Rightarrow> if e = [] then ''mission failed'' else e | None \<Rightarrow> ''mission failed'') in
          thenM (write_failed_error_sidecar env m err (Some payload))
          (thenM (write_execution_result_artifacts env m rd False (outcome_or rd ''failed'') (Some err) (Some payload))
          (thenM (update_job_state env m (text_default (get rd ''lifecycle_state'') ''step_failed'')
             (no_args\<lparr>sn_payload := Some payload, sn_mission := Some mi, sn_rr := Some rd,
                sn_terminal := Some (outcome_or rd ''failed''), sn_failure := Some err,
                sn_blocked_reason := (if outcome_or rd [] = ''blocked'' then Some err else None)\<rparr>))
          (thenM count_failed
          (thenM (log_failed env m err)
          (thenM (write_action_event env m ''queue_job_failed'' [(''error'', PStr err)])
          (thenM (prune_failed_artifacts env)
          (thenM (deliver env m)
           (retM False))))))))))"

definition complete_job ::
  "'w qenv \<Rightarrow> qpath \<Rightarrow> attempt_ctx \<Rightarrow> mission \<Rightarrow> dict \<Rightarrow> (bool, 'w daemon) prog" where
  "complete_job env job c mi rd0 =
     (let payload = ac_payload c in
      bindM (case ac_enqueue c of
          PDict request \<Rightarrow> bindM (enqueue_child env job payload request) (\<lambda>r. retM (Some r))
        | _ \<Rightarrow> retM None) (\<lambda>child.
      let rd = (case child of None \<Rightarrow> rd0 | Some r \<Rightarrow> dput rd0 ''child_refs'' (PList [PDict r])) in
      bindM (move_job env job (InBucket Done)) (\<lambda>moved. case moved of
        None \<Rightarrow> retM False
      | Some m \<Rightarrow>
          thenM count_processed
          (thenM (write_run_streams env m rd (Some payload))
          (thenM (update_job_state env m ''done'' (no_args\<lparr>sn_payload := Some payload, sn_mission := Some mi,
              sn_rr := Some rd, sn_terminal := Some (outcome_or rd ''succeeded''),
              sn_approval := (if truthy (get rd ''step_outcomes'') then Some ''approved'' else None)\<rparr>))
          (thenM (case child of None \<Rightarrow> retM ()
            | Some r \<Rightarrow> bindM (read_job_state m) (\<lambda>st.
                write_job_state env m (dput st ''child_refs'' (PList [PDict r]))))
          (thenM (write_action_event env m ''queue_job_done'' [])
          (thenM (log [(''event'', PStr ''queue_job_done''), (''job'', PStr (path_str env m))])
          (thenM (deliver env m)
          (thenM (health [(''last_ok_event'', PStr ''mission_success'')])
           (retM True)))))))))))"

definition run_attempt ::
  "'w qenv \<Rightarrow> qpath \<Rightarrow> attempt_ctx \<Rightarrow> nat \<Rightarrow> nat \<Rightarrow> mission option \<Rightarrow> mission \<Rightarrow> (attempt_end, 'w daemon) prog" where
  "run_attempt env job c attempt replans previous mi =
     (let payload = ac_payload c; mx = qe_max_replans env in
      thenM (write_plan_artifact env job payload mi attempt replans mx (supersedes attempt) (plan_delta previous mi))
      (bindM (now env) (\<lambda>now_ms.
      bindM (liftR (build_execution_envelope (path_str env job) payload mi (qe_root env)
        (qe_root env @ ''/artifacts'') ''mission'' (int attempt) (int replans) (int mx) (supersedes attempt)
        ''queue'' PNone now_ms)) (\<lambda>envelope.
      thenM (write_file env (artifact job ''execution_envelope.json'') (Json (PDict envelope)))
      (thenM (update_job_state env job ''running'' (no_args\<lparr>sn_payload := Some payload, sn_mission := Some mi,
         sn_rr := Some [(''total_steps'', PInt (int (length (mi_steps mi))))]\<rparr>))
      (thenM (log [(''event'', PStr ''queue_job_started''), (''kind'', PStr (ac_kind c)),
         (''mission'', get payload ''mission_id''), (''goal'', get payload ''goal''),
         (''attempt_index'', PInt (int attempt)), (''replan_count'', PInt (int replans))])
      (bindM (mission_run (queue_mission_env env) mi 1 [(''queue_job'', PStr (path_str env job))]) (\<lambda>rr.
      bindM (shutdown_reason env) (\<lambda>sd. case sd of
        Some reason \<Rightarrow> thenM (finalize_shutdown env job reason payload) (retM (Stop False))
      | None \<Rightarrow>
          bindM (liftR (evaluate_run_result rr (ac_kind c))) (\<lambda>ev.
          bindM (liftR (extract_lineage_metadata payload)) (\<lambda>lineage.
          let rd = annotate_run c attempt replans mx ev lineage (rr_data rr) in
          if ev_replan ev \<and> replan_allowed_for_class (ev_class ev) \<and> replans < mx then
            thenM (replan_event env job attempt (evaluation_class_name (ev_class ev)) (ev_reason ev) (Suc replans))
              (retM (Replan (Some mi)))
          else bindM (if get rd ''status'' = PStr ''pending_approval'' then
               park_for_approval env job payload mi (dsetdefault rd ''stop_reason'' (PStr ''awaiting_approval''))
                 (rr_error rr)
             else if \<not> rr_ok rr then
               fail_after_run env job payload mi (dsetdefault rd ''stop_reason'' (PStr ''terminal_failure''))
                 (rr_error rr)
             else complete_job env job c mi (dsetdefault rd ''stop_reason'' (PStr ''succeeded'')))
             (\<lambda>b. retM (Stop b)))))))))))))"

definition attempt_once ::
  "'w qenv \<Rightarrow> qpath \<Rightarrow> attempt_ctx \<Rightarrow> nat \<Rightarrow> nat \<Rightarrow> mission option \<Rightarrow> (attempt_end, 'w daemon) prog" where
  "attempt_once env job c attempt replans previous =
     bindM (attemptM (build_mission_for_payload env (ac_payload c) job)) (\<lambda>built. case built of
       Inl e \<Rightarrow> planning_failed env job c attempt replans previous e
     | Inr mi \<Rightarrow>
         (case ac_intent c of
            Some i \<Rightarrow>
              (if si_deterministic i \<and> si_fail_closed i \<and> mi_steps mi \<noteq> []
                  \<and> fst (check_skill_family_mismatch i (mst_skill (hd (mi_steps mi))))
               then intent_mismatch_failed env job c attempt replans previous mi i
                      (snd (check_skill_family_mismatch i (mst_skill (hd (mi_steps mi)))))
               else run_attempt env job c attempt replans previous mi)
          | None \<Rightarrow> run_attempt env job c attempt replans previous mi))"

text \<open>\<open>while True\<close>: each turn either ends the job or counts a replan; the fuel is one more than the
  replans that are left.\<close>

fun attempt_loop ::
  "nat \<Rightarrow> 'w qenv \<Rightarrow> qpath \<Rightarrow> attempt_ctx \<Rightarrow> nat \<Rightarrow> nat \<Rightarrow> mission option \<Rightarrow> (bool, 'w daemon) prog" where
  "attempt_loop 0 env job c attempt replans previous = raiseM (Exc RuntimeError ''attempt loop out of fuel'')"
| "attempt_loop (Suc fuel) env job c attempt replans previous =
     bindM (attempt_once env job c attempt replans previous) (\<lambda>r. case r of
       Stop b \<Rightarrow> retM b
     | Replan previous' \<Rightarrow> attempt_loop fuel env job c (Suc attempt) (Suc replans) previous')"

section \<open>One job\<close>

definition classify_goal_intent :: "'w qenv \<Rightarrow> dict \<Rightarrow> simple_intent" where
  "classify_goal_intent env payload =
     (let goal = por (get payload ''goal'') (get payload ''plan_goal'') in
      qe_classify env (if truthy goal then Some (strip (py_str goal)) else None))"

definition route_intent :: "'w qenv \<Rightarrow> qpath \<Rightarrow> simple_intent \<Rightarrow> (unit, 'w daemon) prog" where
  "route_intent env job i =
     (let fields = [(''intent_kind'', PStr (intent_kind_name (si_kind i))),
        (''deterministic'', PBool (si_deterministic i)), (''routing_reason'', PStr (si_reason i)),
        (''allowed_skill_ids'', pstrs (sort (si_allowed i))), (''fail_closed'', PBool (si_fail_closed i))] in
      thenM (write_action_event env job ''queue_simple_intent_routed'' fields)
        (log ([(''event'', PStr ''queue_simple_intent_routed''), (''job'', PStr (path_str env job))] @ fields)))"

definition run_ready :: "'w qenv \<Rightarrow> qpath \<Rightarrow> dict \<Rightarrow> py \<Rightarrow> (bool, 'w daemon) prog" where
  "run_ready env job payload enqueue =
     (let kind = detect_request_kind payload;
          go = (\<lambda>p intent. attempt_loop (Suc (qe_max_replans env)) env job
            \<lparr>ac_payload = p, ac_kind = kind, ac_intent = intent, ac_enqueue = enqueue\<rparr> 1 0 None) in
      if kind = ''goal'' then
        (let i = classify_goal_intent env payload in
         thenM (route_intent env job i)
           (go (dput payload ''_simple_intent'' (PDict (sanitize_intent_route (intent_to_dict i)))) (Some i)))
      else go payload None)"

definition process_received :: "'w qenv \<Rightarrow> qpath \<Rightarrow> (bool, 'w daemon) prog" where
  "process_received env job =
     thenM (log [(''event'', PStr ''queue_job_received''), (''job'', PStr (path_str env job))])
     (thenM (update_job_state env job ''queued'' no_args)
     (thenM (update_job_state env job ''planning'' no_args)
     (bindM (shutdown_reason env) (\<lambda>sd.
      if sd \<noteq> None then
        thenM (log [(''event'', PStr ''queue_job_skipped_shutdown''), (''job'', PStr (path_str env job))])
          (retM False)
      else bindM (intake_job env job) (\<lambda>i. case i of
        Finished b \<Rightarrow> retM b
      | Ready payload enqueue \<Rightarrow> run_ready env job payload enqueue)))))"

definition process_job_file :: "'w qenv \<Rightarrow> qpath \<Rightarrow> (bool, 'w daemon) prog" where
  "process_job_file env job =
     bindM (exists_now job) (\<lambda>present.
     if \<not> present then retM False
     else if \<not> is_primary_job_json env job then
       thenM (log [(''event'', PStr ''queue_metadata_ignored''), (''path'', PStr (path_str env job)),
          (''reason'', PStr ''not_primary_job_json'')]) (retM False)
     else thenM (queue_modify (\<lambda>q. q\<lparr>q_current := Some (path_str env job)\<rparr>))
       (finallyM (process_received env job) (\<lambda>s. s\<lparr>rs_world := (rs_world s)\<lparr>q_current := None\<rparr>\<rparr>)))"

section \<open>The tick\<close>

definition relocate_job :: "'w qenv \<Rightarrow> string \<Rightarrow> qpath \<Rightarrow> (unit, 'w daemon) prog" where
  "relocate_job env reason job =
     bindM (move_job env job (InBucket Inbox)) (\<lambda>moved. case moved of
       None \<Rightarrow> retM ()
     | Some m \<Rightarrow> log [(''event'', PStr ''queue_job_autorelocate''), (''src'', PStr (path_str env job)),
         (''dst'', PStr (path_str env m)), (''reason'', PStr reason)])"

definition auto_relocate_legacy_jobs :: "'w qenv \<Rightarrow> (unit, 'w daemon) prog" where
  "auto_relocate_legacy_jobs env =
     bindM (queue_get (\<lambda>q. filter (\<lambda>p. ends_with (snd p) ''.json'' \<and> \<not> starts_with (snd p) ''.''
         \<and> is_primary_job_json env p) (map (Pair QueueRoot) (dir_names (q_files q) QueueRoot)))) (\<lambda>jobs.
     forM jobs (relocate_job env ''legacy_queue_root_intake''))"

definition auto_relocate_misplaced_pending :: "'w qenv \<Rightarrow> (unit, 'w daemon) prog" where
  "auto_relocate_misplaced_pending env =
     bindM (queue_get (\<lambda>q. primary_jobs_in_bucket env Pending (q_files q))) (\<lambda>jobs.
     forM jobs (\<lambda>job. bindM (exists_now (meta_path (job_stem job))) (\<lambda>has_meta.
       if has_meta then retM () else relocate_job env ''misplaced_pending_drop'' job)))"

fun process_jobs :: "'w qenv \<Rightarrow> qpath list \<Rightarrow> nat \<Rightarrow> (nat, 'w daemon) prog" where
  "process_jobs env [] n = retM n"
| "process_jobs env (job # jobs) n =
     bindM (shutdown_reason env) (\<lambda>sd.
     if sd \<noteq> None then
       thenM (log [(''event'', PStr ''queue_daemon_intake_stopped''), (''reason'', popt sd)]) (retM n)
     else bindM (queue_get (\<lambda>q. is_ready_job_file env (q_files q) job)) (\<lambda>ready.
       if \<not> ready then process_jobs env jobs n
       else bindM (process_job_file env job) (\<lambda>_. process_jobs env jobs (Suc n))))"

definition process_pending_once :: "'w qenv \<Rightarrow> (nat, 'w daemon) prog" where
  "process_pending_once env =
     bindM (now env) (\<lambda>ts.
     thenM (health [(''last_tick_ts_ms'', PInt ts)])
     (thenM (health [(''last_ok_event'', PStr ''daemon_tick'')])
     (thenM (auto_relocate_legacy_jobs env)
     (thenM (auto_relocate_misplaced_pending env)
     (bindM (shutdown_reason env) (\<lambda>sd.
      if sd \<noteq> None then
        thenM (log [(''event'', PStr ''queue_daemon_intake_stopped''), (''reason'', popt sd)]) (retM 0)
      else bindM (exists_now (QueueRoot, ''.paused'')) (\<lambda>paused.
        if paused then
          thenM (log [(''event'', PStr ''queue_tick_paused''), (''queue'', PStr (qe_root env @ ''/inbox''))]) (retM 0)
        else bindM (queue_get (\<lambda>q. filter (\<lambda>p. ends_with (snd p) ''.json'')
            (map (Pair (InBucket Inbox)) (dir_names (q_files q) (InBucket Inbox))))) (\<lambda>jobs.
          process_jobs env jobs 0))))))))"

end
