(* ===== verification/Queue_Resolution.thy ===== *)
theory Queue_Resolution
  imports Queue_Execution
begin

text \<open>
  Models \<open>resolve_approval\<close> of \<open>voxera/core/queue_approvals.py\<close>: what the operator's decision does to a
  job that waits in pending. The pending metadata is the daemon's own file; its mission fields are
  strings.
\<close>

section \<open>The pending metadata\<close>

definition attribute_error :: "py \<Rightarrow> exc" where
  "attribute_error v = Exc AttributeError (quoted (type_name v) @ '' object has no attribute '' @ quoted ''get'')"

text \<open>\<open>v.get(...)\<close> needs a dict.\<close>

definition as_dict :: "py \<Rightarrow> dict result" where
  "as_dict v = (case v of PDict d \<Rightarrow> Inr d | _ \<Rightarrow> Inl (attribute_error v))"

definition load_meta :: "qpath \<Rightarrow> qpath \<Rightarrow> (dict, 'w daemon) prog" where
  "load_meta job meta =
     bindM (content_now meta) (\<lambda>c. case c of
       Some (Json v) \<Rightarrow> liftR (as_dict v)
     | Some _ \<Rightarrow> raiseM json_error
     | None \<Rightarrow> bindM (read_dict job) (\<lambda>payload. retM [(''status'', PStr ''pending_approval''),
         (''job'', PStr (snd job)), (''payload'', PDict payload), (''resume_step'', PInt 1),
         (''mission'', PDict [])]))"

definition resume_step :: "dict \<Rightarrow> int result" where
  "resume_step meta = py_int (por (get_or meta ''resume_step'' (PInt 1)) (PInt 1))"

definition meta_text :: "dict \<Rightarrow> string \<Rightarrow> py \<Rightarrow> string" where
  "meta_text d k dflt = py_str (get_or d k dflt)"

definition meta_notes :: "dict \<Rightarrow> string option" where
  "meta_notes d = (case get d ''notes'' of PNone \<Rightarrow> None | v \<Rightarrow> Some (py_str v))"

definition meta_step :: "py \<Rightarrow> mission_step result" where
  "meta_step item = bindR (as_dict item) (\<lambda>d.
     if \<not> has_key d ''skill_id'' then Inl (Exc KeyError ''skill_id'')
     else bindR (as_dict (get_or d ''args'' (PDict []))) (\<lambda>args.
       Inr \<lparr>mst_skill = py_str (get d ''skill_id''), mst_args = args\<rparr>))"

definition payload_of :: "dict \<Rightarrow> dict option" where
  "payload_of meta = (case get meta ''payload'' of PDict d \<Rightarrow> Some d | _ \<Rightarrow> None)"

section \<open>Denial\<close>

definition deny_text :: string where
  "deny_text = ''Denied in approval inbox''"

definition deny_pending :: "'w qenv \<Rightarrow> qpath \<Rightarrow> qpath \<Rightarrow> qpath \<Rightarrow> dict \<Rightarrow> (bool, 'w daemon) prog" where
  "deny_pending env job meta_p approval_p meta =
     bindM (move_job env job (InBucket Failed)) (\<lambda>moved. case moved of
       None \<Rightarrow> thenM (unlink meta_p) (thenM (unlink approval_p) (retM False))
     | Some m \<Rightarrow>
         bindM (liftR (resume_step meta)) (\<lambda>step.
         bindM (liftR (as_dict (por (get meta ''mission'') (PDict [])))) (\<lambda>mission_or_empty.
         let steps = get_or mission_or_empty ''steps'' (PList []);
             rd = [(''lifecycle_state'', PStr ''failed''), (''terminal_outcome'', PStr ''failed''),
               (''current_step_index'', PInt step), (''last_attempted_step'', PInt step),
               (''last_completed_step'', PInt (max (step - 1) 0)),
               (''total_steps'', PInt (int (length (the_list steps)))),
               (''approval_status'', PStr ''denied''), (''error'', PStr deny_text)]
         in thenM (write_failed_error_sidecar env m deny_text (payload_of meta))
           (thenM (write_execution_result_artifacts env m rd False ''failed'' (Some deny_text) (payload_of meta))
           (thenM count_failed
           (bindM (liftR (as_dict (get_or meta ''mission'' (PDict [])))) (\<lambda>md.
            let mi = \<lparr>mi_id = meta_text md ''id'' (PStr ''queue_mission''),
                  mi_title = meta_text md ''title'' (PStr ''Queued Mission''),
                  mi_goal = meta_text md ''goal'' (PStr []), mi_steps = [], mi_notes = meta_notes md\<rparr>
            in thenM (update_job_state env m ''failed'' (no_args\<lparr>sn_payload := payload_of meta,
                 sn_mission := Some mi, sn_rr := Some rd, sn_terminal := Some ''failed'',
                 sn_failure := Some deny_text, sn_blocked_reason := Some ''approval denied by operator'',
                 sn_approval := Some ''denied''\<rparr>))
              (thenM (modifyM (append_mission_log (queue_mission_env env) mi [] ''denied'' None))
              (thenM (log [(''event'', PStr ''mission_denied''), (''mission'', get md ''id''),
                 (''reason'', PStr ''approval denied from inbox'')])
              (thenM (log_failed env m deny_text)
              (thenM (write_action_event env m ''queue_job_failed'' [(''error'', PStr deny_text)])
              (thenM (prune_failed_artifacts env)
              (thenM (deliver env m)
              (thenM (unlink meta_p)
              (thenM (unlink approval_p)
               (retM True))))))))))))))))"

section \<open>Approval\<close>

text \<open>The mission to resume and the step: from the metadata, or built again from the payload\<close>

definition mission_to_resume :: "'w qenv \<Rightarrow> qpath \<Rightarrow> dict \<Rightarrow> dict \<Rightarrow> (mission \<times> int, 'w daemon) prog" where
  "mission_to_resume env job meta payload =
     (let md = the_dict (get_or meta ''mission'' (PDict [])) in
      case get_or md ''steps'' (PList []) of
        PList (x # xs) \<Rightarrow>
          bindM (liftR (mapR meta_step (x # xs))) (\<lambda>steps.
          bindM (liftR (resume_step meta)) (\<lambda>step.
          retM (\<lparr>mi_id = meta_text md ''id'' (get_or payload ''mission_id'' (PStr ''queue_mission'')),
             mi_title = meta_text md ''title'' (PStr ''Queued Mission''),
             mi_goal = meta_text md ''goal'' (get_or payload ''goal'' (PStr [])), mi_steps = steps,
             mi_notes = meta_notes md\<rparr>, step)))
      | _ \<Rightarrow> bindM (build_mission_for_payload env payload job) (\<lambda>mi. retM (mi, 1)))"

definition resume_skill :: "mission \<Rightarrow> int \<Rightarrow> string" where
  "resume_skill mi step = (let i = nat (max (step - 1) 0) in
     if i < length (mi_steps mi) then mst_skill (mi_steps mi ! i) else [])"

definition approve_step :: "string \<times> int \<times> string \<Rightarrow> (unit, 'w daemon) prog" where
  "approve_step key = queue_modify (\<lambda>q. q\<lparr>q_approved := List.insert key (q_approved q)\<rparr>)"

definition resumed_fail ::
  "'w qenv \<Rightarrow> qpath \<Rightarrow> qpath \<Rightarrow> qpath \<Rightarrow> dict \<Rightarrow> mission \<Rightarrow> run_result \<Rightarrow> (bool, 'w daemon) prog" where
  "resumed_fail env job meta_p approval_p payload mi rr =
     bindM (move_job env job (InBucket Failed)) (\<lambda>moved. case moved of
       None \<Rightarrow> thenM (unlink meta_p) (thenM (unlink approval_p) (retM False))
     | Some m \<Rightarrow>
         (let rd = rr_data rr;
              err = (case rr_error rr of Some e \<Rightarrow> if e = [] then ''mission failed'' else e
                     | None \<Rightarrow> ''mission failed'') in
          thenM (write_failed_error_sidecar env m err (Some payload))
          (thenM (update_job_state env m (text_default (get rd ''lifecycle_state'') ''step_failed'')
             (no_args\<lparr>sn_payload := Some payload, sn_mission := Some mi, sn_rr := Some rd,
                sn_terminal := Some (outcome_or rd ''failed''), sn_failure := Some err,
                sn_blocked_reason := (if outcome_or rd [] = ''blocked'' then Some err else None),
                sn_approval := Some ''approved''\<rparr>))
          (thenM count_failed
          (thenM (log_failed env m err)
          (thenM (write_run_streams env m rd None)
          (thenM (write_action_event env m ''queue_job_failed'' [(''error'', PStr err)])
          (thenM (prune_failed_artifacts env)
          (thenM (deliver env m)
          (thenM (unlink meta_p)
          (thenM (unlink approval_p)
           (retM False))))))))))))"

definition resumed_done ::
  "'w qenv \<Rightarrow> qpath \<Rightarrow> qpath \<Rightarrow> qpath \<Rightarrow> dict \<Rightarrow> mission \<Rightarrow> run_result \<Rightarrow> (bool, 'w daemon) prog" where
  "resumed_done env job meta_p approval_p payload mi rr =
     bindM (move_job env job (InBucket Done)) (\<lambda>moved. case moved of
       None \<Rightarrow> thenM (unlink meta_p) (thenM (unlink approval_p) (retM False))
     | Some m \<Rightarrow>
         thenM count_processed
         (thenM (write_run_streams env m (rr_data rr) None)
         (thenM (update_job_state env m ''done'' (no_args\<lparr>sn_payload := Some payload, sn_mission := Some mi,
             sn_rr := Some (rr_data rr), sn_terminal := Some (outcome_or (rr_data rr) ''succeeded''),
             sn_approval := Some ''approved''\<rparr>))
         (thenM (write_action_event env m ''queue_job_done'' [(''via'', PStr ''approval_inbox'')])
         (thenM (log [(''event'', PStr ''queue_job_done''), (''job'', PStr (path_str env m)),
            (''via'', PStr ''approval_inbox'')])
         (thenM (deliver env m)
         (thenM (health [(''last_ok_event'', PStr ''mission_success'')])
         (thenM (unlink meta_p)
         (thenM (unlink approval_p)
          (retM True))))))))))"

definition resumed_pause ::
  "'w qenv \<Rightarrow> qpath \<Rightarrow> dict \<Rightarrow> mission \<Rightarrow> run_result \<Rightarrow> (bool, 'w daemon) prog" where
  "resumed_pause env job payload mi rr =
     thenM (write_pending_artifacts env job payload mi (rr_data rr))
     (thenM (update_job_state env job ''awaiting_approval'' (no_args\<lparr>sn_payload := Some payload,
        sn_mission := Some mi, sn_rr := Some (rr_data rr), sn_approval := Some ''pending''\<rparr>))
     (thenM (log [(''event'', PStr ''queue_job_pending_approval''), (''job'', PStr (path_str env job)),
        (''step'', get (rr_data rr) ''step''), (''reason'', get (rr_data rr) ''reason'')])
     (thenM (write_action_event env job ''queue_job_pending_approval'' [(''step'', get (rr_data rr) ''step'')])
      (retM False))))"

definition resume_job ::
  "'w qenv \<Rightarrow> qpath \<Rightarrow> qpath \<Rightarrow> qpath \<Rightarrow> dict \<Rightarrow> mission \<Rightarrow> int \<Rightarrow> (bool, 'w daemon) prog" where
  "resume_job env job meta_p approval_p payload mi step =
     (let n = PInt (int (length (mi_steps mi))) in
      thenM (approve_step (path_str env job, step, resume_skill mi step))
      (thenM (update_job_state env job ''resumed'' (no_args\<lparr>sn_payload := Some payload, sn_mission := Some mi,
         sn_rr := Some [(''current_step_index'', PInt (max (step - 1) 0)),
           (''last_completed_step'', PInt (max (step - 1) 0)), (''last_attempted_step'', PInt step),
           (''total_steps'', n)], sn_approval := Some ''approved''\<rparr>))
      (thenM (update_job_state env job ''running'' (no_args\<lparr>sn_payload := Some payload, sn_mission := Some mi,
         sn_rr := Some [(''total_steps'', n)], sn_approval := Some ''approved''\<rparr>))
      (bindM (mission_run (queue_mission_env env) mi step
         [(''queue_job'', PStr (path_str env job)), (''approval_resumed'', PBool True)]) (\<lambda>rr.
       if get (rr_data rr) ''status'' = PStr ''pending_approval'' then resumed_pause env job payload mi rr
       else if \<not> rr_ok rr then resumed_fail env job meta_p approval_p payload mi rr
       else resumed_done env job meta_p approval_p payload mi rr)))))"

definition approve_pending ::
  "'w qenv \<Rightarrow> qpath \<Rightarrow> qpath \<Rightarrow> qpath \<Rightarrow> dict \<Rightarrow> bool \<Rightarrow> (bool, 'w daemon) prog" where
  "approve_pending env job meta_p approval_p meta always =
     (let payload = the_dict (get_or meta ''payload'' (PDict [])) in
      bindM (exists_now approval_p) (\<lambda>present.
      bindM (if present then read_approval_artifact env approval_p else retM []) (\<lambda>data.
      thenM (whenM (always \<and> data \<noteq> [])
         (grant_approval_scope env (py_str (get_or data ''skill'' (PStr [])))
           (py_str (get_or data ''capability'' (PStr ''unknown''))) (the_dict (get_or data ''scope'' (PDict [])))))
      (bindM (mission_to_resume env job meta payload) (\<lambda>(mi, step).
       thenM (queue_modify (\<lambda>q. q\<lparr>q_current := Some (path_str env job)\<rparr>))
         (finallyM (resume_job env job meta_p approval_p payload mi step)
            (\<lambda>s. s\<lparr>rs_world := (rs_world s)\<lparr>q_current := None\<rparr>\<rparr>)))))))"

definition resolve_approval :: "'w qenv \<Rightarrow> string \<Rightarrow> bool \<Rightarrow> bool \<Rightarrow> (bool, 'w daemon) prog" where
  "resolve_approval env ref approve always =
     bindM (queue_get (\<lambda>q. resolve_pending_paths ref (q_files q))) (\<lambda>paths.
     bindM (liftR paths) (\<lambda>(job, meta_p, approval_p).
     bindM (load_meta job meta_p) (\<lambda>meta.
     if approve then approve_pending env job meta_p approval_p meta always
     else deny_pending env job meta_p approval_p meta)))"

end
