(* ===== verification/Queue_Frames.thy ===== *)
theory Queue_Frames
  imports Queue_Resolution
begin

text \<open>
  What the handlers of the queue leave alone. The core of the daemon is everything except its files, its
  counters and its logs: the outer world the skills act on, the one-shot approvals and the current job.
  Every writer of the queue keeps the core; only a mission run, the planner, the assistant, the delivery
  of a completion and the mission log reach the outer world.
\<close>

definition core :: "'w daemon \<Rightarrow> 'w \<times> (string \<times> int \<times> string) list \<times> string option" where
  "core s = (q_outer (rs_world s), q_approved (rs_world s), q_current (rs_world s))"

definition files :: "'w daemon \<Rightarrow> files" where
  "files s = q_files (rs_world s)"

named_theorems core_frames \<open>programs that keep the core\<close>

lemma frame_content [frame_intro]:
  "(\<And>v. frame f (a v)) \<Longrightarrow> (\<And>t. frame f (b t)) \<Longrightarrow> (\<And>l. frame f (d l)) \<Longrightarrow>
   frame f (case c of Json v \<Rightarrow> a v | Text t \<Rightarrow> b t | Lines l \<Rightarrow> d l)"
  by (cases c) simp_all

lemma frame_list [frame_intro]:
  "frame f a \<Longrightarrow> (\<And>x xs. frame f (b x xs)) \<Longrightarrow> frame f (case l of [] \<Rightarrow> a | x # xs \<Rightarrow> b x xs)"
  by (cases l) simp_all

lemma core_modify: "(\<And>q. q_outer (g q) = q_outer q) \<Longrightarrow> (\<And>q. q_approved (g q) = q_approved q) \<Longrightarrow>
   (\<And>q. q_current (g q) = q_current q) \<Longrightarrow> frame core (queue_modify g)"
  by (simp add: frame_def core_def queue_modify_def)

lemma core_basic [core_frames]:
  "frame core (queue_get f)" "frame core (log e)" "frame core (health h)"
  "frame core (increment_health_counter k)" "frame core (now env)" "frame core (clock env)"
  "frame core (exists_now p)" "frame core (content_now p)" "frame core (write_file env p c)"
  "frame core (unlink p)" "frame core count_failed" "frame core count_processed"
  "frame core (remove_tree d)"
  by (simp_all add: frame_def core_def queue_get_def log_def health_def queue_modify_def now_def clock_def
      exists_now_def content_now_def write_file_def unlink_def increment_health_counter_def
      count_failed_def count_processed_def remove_tree_def)

lemma core_read_dict [core_frames]: "frame core (read_dict p)"
  unfolding read_dict_def by (intro frame_intro core_frames)

lemma core_move [core_frames]: "frame core (move_job env src d)"
  unfolding move_job_def by (intro frame_intro core_frames core_modify) simp_all

lemma core_state [core_frames]:
  "frame core (read_job_state job)" "frame core (write_job_state env job d)"
  "frame core (update_job_state env job lc a)"
  unfolding update_job_state_def read_job_state_def write_job_state_def
  by (intro frame_intro core_frames)+

lemma core_action [core_frames]: "frame core (write_action_event env job ev data)"
  unfolding write_action_event_def by (intro frame_intro core_frames)

lemma core_plan [core_frames]: "frame core (write_plan_artifact env job payload mi a r m su d)"
  unfolding write_plan_artifact_def Let_def by (intro frame_intro core_frames)

lemma core_result [core_frames]:
  "frame core (write_execution_result_artifacts env job rd ok outcome err payload)"
  unfolding write_execution_result_artifacts_def Let_def by (intro frame_intro core_frames)

lemma core_streams [core_frames]: "frame core (write_run_streams env job rd payload)"
  unfolding write_run_streams_def Let_def by (intro frame_intro core_frames)

lemma core_sidecar [core_frames]:
  "frame core (write_failed_error_sidecar env job err payload)"
  "frame core (read_failed_error_sidecar env job)"
  unfolding write_failed_error_sidecar_def read_failed_error_sidecar_def
  by (intro frame_intro core_frames)+

lemma core_prune [core_frames]: "frame core (prune_failed_artifacts env)"
  unfolding prune_failed_artifacts_def by (intro frame_intro core_frames)

lemma core_grant [core_frames]: "frame core (grant_approval_scope env skill cap sc)"
  unfolding grant_approval_scope_def read_grants_def by (intro frame_intro core_frames)

lemma core_notify [core_frames]: "frame core (notify_pending_approval env a)"
  unfolding notify_pending_approval_def Let_def by (intro frame_intro core_frames)

lemma core_pending [core_frames]: "frame core (write_pending_artifacts env job payload mi rd)"
  unfolding write_pending_artifacts_def Let_def by (intro frame_intro core_frames)

lemma core_archive [core_frames]: "frame core (archive_sidecar env p r)"
  unfolding archive_sidecar_def by (intro frame_intro core_frames)

lemma core_not_found [core_frames]: "frame core (not_found w r)"
  unfolding not_found_def by (rule frame_intro)

lemma core_jobs [core_frames]:
  "frame core (cancel_job env ref)" "frame core (retry_job env ref)" "frame core (delete_terminal_job env ref conf)"
  unfolding cancel_job_def retry_job_def delete_terminal_job_def
  by (intro frame_intro core_frames)+

lemma core_gate [core_frames]: "frame core (ensure_hard_approval_gate env job payload)"
  unfolding ensure_hard_approval_gate_def Let_def by (intro frame_intro core_frames)

lemma core_load [core_frames]: "frame core (load_job_payload env job)"
proof -
  have "frame core (load_attempts env job n k)" for n k
    by (induction k arbitrary: n) (simp_all only: load_attempts.simps, (intro frame_intro core_frames; assumption?)+)
  then show ?thesis by (simp add: load_job_payload_def)
qed

end
