(* ===== verification/Job_Laws.thy ===== *)
theory Job_Laws
  imports File_Laws
begin

text \<open>
  The contracts of the operations on jobs: what cancel, retry and delete do to the files, the retention
  of failed jobs and the error sidecar. A file that an operation does not own is followed through it with
  the frame of its content.
\<close>

section \<open>Following one file\<close>

definition content_at :: "qpath \<Rightarrow> 'w daemon \<Rightarrow> qfile option" where
  "content_at q s = file_at (files s) q"

named_theorems file_frames \<open>programs that leave a file alone\<close>

lemma at_basic [file_frames]:
  "frame (content_at q) (queue_get f)" "frame (content_at q) (log e)" "frame (content_at q) (health h)"
  "frame (content_at q) (now env)" "frame (content_at q) (clock env)" "frame (content_at q) (exists_now p)"
  "frame (content_at q) (content_now p)" "frame (content_at q) count_failed"
  "frame (content_at q) count_processed"
  by (simp_all add: frame_def content_at_def files_def queue_get_def log_def health_def queue_modify_def
      now_def clock_def exists_now_def content_now_def count_failed_def count_processed_def)

lemma at_write [file_frames]: "p \<noteq> q \<Longrightarrow> frame (content_at q) (write_file env p c)"
  by (simp add: frame_def content_at_def files_def write_file_def queue_modify_def)

lemma at_unlink [file_frames]: "p \<noteq> q \<Longrightarrow> frame (content_at q) (unlink p)"
  by (simp add: frame_def content_at_def files_def unlink_def queue_modify_def)

lemma at_read_dict [file_frames]: "frame (content_at q) (read_dict p)"
  unfolding read_dict_def by (intro frame_intro file_frames)

lemma state_path_name: "snd (state_path job fs) = state_name (job_stem job)"
  by (auto simp: state_path_def job_state_sidecar_path_def job_stem_def Let_def split: list.splits option.splits)

lemma state_path_bucket: "\<exists>b. fst (state_path job fs) = InBucket b"
  by (auto simp: state_path_def job_state_sidecar_path_def Let_def split: list.splits option.splits)

lemma at_state:
  assumes "snd q \<noteq> state_name (job_stem job)"
  shows "frame (content_at q) (update_job_state env job lc a)"
proof -
  have "state_path job fs \<noteq> q" for fs using assms state_path_name by metis
  then have "frame (content_at q) (write_job_state env job d)" for d
    unfolding write_job_state_def frame_def queue_get_def
    using at_write [of _ q env] by (simp add: frame_def)
  then show ?thesis
    unfolding update_job_state_def read_job_state_def by (intro frame_intro file_frames)
qed

lemma at_modify:
  "(\<And>w. file_at (q_files (g w)) q = file_at (q_files w) q) \<Longrightarrow> frame (content_at q) (queue_modify g)"
  by (simp add: frame_def content_at_def files_def queue_modify_def)

lemma at_move_files:
  assumes "fst q \<noteq> fst src" and "fst q \<noteq> fst dst"
  shows "file_at (move_files src dst fs) q = file_at fs q"
proof -
  have "q \<notin> {src, dst, state_of src, state_of dst}"
    using assms unfolding state_of_def sibling_def by auto
  then show ?thesis unfolding move_files_eq disk.at_move by (simp split: option.split)
qed

lemma at_move_job:
  assumes "fst q \<noteq> fst src" and "fst q \<noteq> d"
  shows "frame (content_at q) (move_job env src d)"
proof -
  have "file_at (move_files src (d, name) fs) q = file_at fs q" for name fs
    by (rule at_move_files) (use assms in simp_all)
  then show ?thesis
    unfolding move_job_def by (intro frame_intro file_frames at_modify) simp
qed

lemma at_archive [file_frames]:
  assumes "fst q \<noteq> fst p" and "fst q \<noteq> ArchiveDir"
  shows "frame (content_at q) (archive_sidecar env p r)"
  unfolding archive_sidecar_def using at_move_job [OF assms] by (intro frame_intro file_frames)

lemma name_not_state: "n \<noteq> state_name (name_stem n)"
proof
  assume "n = state_name (name_stem n)"
  with name_stem_suffix [of n] have sfx: "name_suffix n = ''.state.json''"
    by (metis same_append_eq state_name_def)
  then have "name_suffix n = CHR ''.'' # after_last_dot n" by (simp add: name_suffix_def Let_def split: if_splits)
  with sfx have "CHR ''.'' \<in> set (after_last_dot n)" by simp
  then show False by (auto simp: after_last_dot_def dest: set_takeWhileD)
qed

section \<open>Cancel and delete\<close>

lemma resolve_job_primary: "resolve_job_ref env ref bs fs = Some p \<Longrightarrow> is_primary_job_json env p"
  by (auto simp: resolve_job_ref_def Let_def find_Some_iff split: if_splits option.splits)

lemma primary_not_state: "is_primary_job_json env p \<Longrightarrow> snd p \<noteq> state_name stem"
  by (auto simp: is_primary_job_json_def is_metadata_sidecar_def metadata_suffixes_def state_name_def)

text \<open>A frame as an introduction rule for what holds after a program that returned\<close>

lemma content_after: "frame (content_at q) m \<Longrightarrow> m s = (r, s') \<Longrightarrow> file_at (files s') q = file_at (files s) q"
  using frameD [of "content_at q" m s] by (simp add: content_at_def)

lemma move_job_target: "move_job env src d s = (Inr (Some m), s') \<Longrightarrow> fst m = d"
  by (auto simp: move_job_run split: if_splits)

lemma cancel_job_content:
  assumes run: "cancel_job env ref s = (Inr m, s')"
  shows "\<exists>p. resolve_job_ref env ref [Inbox, Pending] (files s) = Some p \<and> fst m = InBucket Canceled
    \<and> (fst p \<in> {InBucket Inbox, InBucket Pending} \<longrightarrow>
        (\<exists>f. file_at (files s) p = Some f \<and> file_at (files s') m = Some f) \<and> file_at (files s') p = None)"
proof -
  from run obtain p s1 where p: "resolve_job_ref env ref [Inbox, Pending] (files s) = Some p"
    and mv: "move_job env p (InBucket Canceled) s = (Inr (Some m), s1)"
    and rest: "thenM (unlink (meta_path (job_stem m)))
           (thenM (unlink (approval_path (job_stem m)))
           (thenM (archive_sidecar env (error_sidecar (InBucket Failed, snd m)) ''cancel'')
           (thenM (update_job_state env m ''canceled'' (terminal_arg ''canceled''))
           (thenM (log [(''event'', PStr ''queue_job_cancel''), (''ref'', PStr ref),
               (''job'', PStr (path_str env m))])
            (retM m))))) s1 = (Inr m, s')" (is "?k s1 = _")
    by (auto simp: cancel_job_def queue_get_def files_def bindM_Inr_iff thenM_Inr_iff not_found_def
        split: option.splits)
  have d: "fst m = InBucket Canceled" by (rule move_job_target [OF mv])
  have "(\<exists>f. file_at (files s) p = Some f \<and> file_at (files s') m = Some f) \<and> file_at (files s') p = None"
    if b: "fst p \<in> {InBucket Inbox, InBucket Pending}"
  proof -
    have m_state: "snd m \<noteq> state_name (job_stem m)" unfolding job_stem_def by (rule name_not_state)
    have p_state: "snd p \<noteq> state_name stem" for stem
      using primary_not_state [OF resolve_job_primary [OF p]] .
    have rest_m: "file_at (files s') m = file_at (files s1) m"
      by (rule content_after [where m = ?k, OF _ rest])
        (intro frame_intro file_frames at_state m_state; simp add: d meta_path_def approval_path_def
          error_sidecar_def sibling_def prod_eq_iff)
    have meta: "is_metadata_sidecar (stem @ ''.pending.json'')" for stem
      by (simp add: is_metadata_sidecar_def metadata_suffixes_def)
    have rest_p: "file_at (files s') p = file_at (files s1) p"
    proof (rule content_after [where m = ?k, OF _ rest], intro frame_intro file_frames at_state p_state)
      show "meta_path (job_stem m) \<noteq> p"
        using resolve_job_primary [OF p] meta by (auto simp: meta_path_def is_primary_job_json_def)
      show "approval_path (job_stem m) \<noteq> p" using b by (auto simp: approval_path_def)
    qed (use b in \<open>auto simp: error_sidecar_def sibling_def\<close>)
    have other: "state_of p \<noteq> p" "state_of m \<noteq> m" "state_of m \<noteq> p" "state_of p \<noteq> m" "p \<noteq> m"
      using b d p_state p_state [symmetric] m_state m_state [symmetric]
      by (auto simp: state_of_def sibling_def prod_eq_iff)
    from move_job_file(1) [OF mv other(1-4)] move_job_file(2) [OF mv other(1-4) other(5)] show ?thesis
      by (simp add: rest_m rest_p)
  qed
  with p d show ?thesis by blast
qed

lemma delete_mismatch:
  "resolve_job_ref env ref [Done, Failed, Canceled] (files s) = Some p \<Longrightarrow> confirm \<noteq> snd p \<Longrightarrow>
   delete_terminal_job env ref confirm s = (Inl (Exc ValueError ''delete confirmation mismatch''), s)"
  by (simp add: delete_terminal_job_def queue_get_def files_def)

lemma file_at_tree: "file_at (filter (\<lambda>(p, f). fst p \<noteq> d) fs) q = (if fst q = d then None else file_at fs q)"
  by (induction fs) (auto simp: file_at_def)

lemma files_of [simp]:
  "files (snd (unlink p s)) = drop_file p (files s)" "fst (unlink p s) = Inr ()"
  "files (snd (log e s)) = files s" "fst (log e s) = Inr ()"
  "files (snd (remove_tree d s)) = filter (\<lambda>(p, f). fst p \<noteq> d) (files s)" "fst (remove_tree d s) = Inr ()"
  by (simp_all add: unlink_def files_def queue_modify_def log_def remove_tree_def)

lemma thenM_ok: "fst (m s) = Inr x \<Longrightarrow> thenM m n s = n (snd (m s))"
  by (cases "m s") (simp add: thenM_def bindM_def)

text \<open>Exactly these files are gone, and nothing else changed.\<close>

lemma delete_files:
  assumes p: "resolve_job_ref env ref [Done, Failed, Canceled] (files s) = Some p"
  shows "fst (delete_terminal_job env ref (snd p) s) = Inr (snd p)"
    and "file_at (files (snd (delete_terminal_job env ref (snd p) s))) q =
      (if q \<in> {p, meta_path (job_stem p), approval_path (job_stem p)} \<or> fst q = ArtifactsDir (job_stem p)
          \<or> (fst p = InBucket Failed \<and> q = error_sidecar p)
       then None else file_at (files s) q)"
proof -
  have run: "delete_terminal_job env ref (snd p) s =
     thenM (unlink p) (thenM (whenM (fst p = InBucket Failed) (unlink (error_sidecar p)))
           (thenM (remove_tree (ArtifactsDir (job_stem p)))
           (thenM (unlink (meta_path (job_stem p)))
           (thenM (unlink (approval_path (job_stem p)))
           (thenM (log [(''event'', PStr ''queue_job_deleted''), (''job'', PStr (path_str env p)),
               (''artifacts_dir'', PStr (qe_root env @ ''/artifacts/'' @ job_stem p))])
            (retM (snd p))))))) s"
    using p by (simp add: delete_terminal_job_def queue_get_def files_def)
  show "fst (delete_terminal_job env ref (snd p) s) = Inr (snd p)"
    by (cases "fst p = InBucket Failed") (simp_all add: run thenM_ok)
  show "file_at (files (snd (delete_terminal_job env ref (snd p) s))) q =
      (if q \<in> {p, meta_path (job_stem p), approval_path (job_stem p)} \<or> fst q = ArtifactsDir (job_stem p)
          \<or> (fst p = InBucket Failed \<and> q = error_sidecar p)
       then None else file_at (files s) q)"
    by (cases "fst p = InBucket Failed") (simp_all add: run thenM_ok file_at_tree)
qed

section \<open>Retention\<close>

lemma distinct_unit_keys: "distinct (map fu_key (ordered_units env fs))"
proof -
  have "distinct (map fu_key (failed_units env fs))"
    by (simp add: failed_units_def Let_def comp_def)
  then show ?thesis
    by (simp add: ordered_units_def distinct_map flip: rev_map)
qed

lemma ordered_units_set: "set (ordered_units env fs) = set (failed_units env fs)"
  by (simp add: ordered_units_def)

lemma ordered_units_sorted: "sorted (rev (map (unit_newest_mtime fs) (ordered_units env fs)))"
proof -
  have "sorted (map (\<lambda>u. (unit_newest_mtime fs u, fu_key u))
      (sort_key (\<lambda>u. (unit_newest_mtime fs u, fu_key u)) (failed_units env fs)))"
    by (rule sorted_sort_key)
  then have "sorted (map (unit_newest_mtime fs)
      (sort_key (\<lambda>u. (unit_newest_mtime fs u, fu_key u)) (failed_units env fs)))"
    unfolding sorted_map by (rule sorted_wrt_mono_rel [rotated]) (auto simp: less_eq_prod_def)
  then show ?thesis by (simp add: ordered_units_def rev_map)
qed

text \<open>The kept units are a prefix of the units from the newest to the oldest.\<close>

lemma kept_prefix: "\<exists>n. kept_units env fs t = take n (ordered_units env fs)"
proof -
  let ?us = "ordered_units env fs"
  have young: "filter (\<lambda>u. c \<le> unit_newest_mtime fs u) ?us = takeWhile (\<lambda>u. c \<le> unit_newest_mtime fs u) ?us" for c
  proof -
    have "(c - 1 < x) = (c \<le> x)" for x :: int by linarith
    with filter_equals_takeWhile_sorted_rev [OF ordered_units_sorted, of "c - 1" fs env] show ?thesis by simp
  qed
  have "\<exists>n. ?us = take n ?us" "\<exists>n. takeWhile P ?us = take n ?us" for P
    by (rule exI [of _ "length ?us"], simp) (metis takeWhile_eq_take)
  then have "\<exists>n. (case qe_max_age_s env of
             Some a \<Rightarrow> if 0 < a then filter (\<lambda>u. t - 1000 * a \<le> unit_newest_mtime fs u) ?us else ?us
           | None \<Rightarrow> ?us) = take n ?us"
    by (cases "qe_max_age_s env") (auto simp: young)
  then obtain n where "(case qe_max_age_s env of
             Some a \<Rightarrow> if 0 < a then filter (\<lambda>u. t - 1000 * a \<le> unit_newest_mtime fs u) ?us else ?us
           | None \<Rightarrow> ?us) = take n ?us" ..
  then show ?thesis
    unfolding kept_units_def Let_def by (cases "qe_max_count env") (auto simp: take_take)
qed

lemma kept_pruned:
  obtains n where "kept_units env fs t = take n (ordered_units env fs)"
    and "pruned_units env fs t = drop n (ordered_units env fs)"
proof -
  obtain n where k: "kept_units env fs t = take n (ordered_units env fs)" using kept_prefix by blast
  let ?us = "ordered_units env fs"
  have dist: "distinct (map fu_key (take n ?us @ drop n ?us))" by (simp add: distinct_unit_keys)
  have "filter (\<lambda>u. fu_key u \<notin> fu_key ` set (take n ?us)) (take n ?us @ drop n ?us) = drop n ?us"
    using dist unfolding map_append distinct_append filter_append
    by (auto simp: filter_empty_conv intro!: filter_True)
  then have "pruned_units env fs t = drop n ?us" by (simp add: pruned_units_def k)
  with k show ?thesis by (rule that)
qed

lemma kept_or_pruned:
  "set (kept_units env fs t) \<union> set (pruned_units env fs t) = set (failed_units env fs)"
  by (rule kept_pruned [of env fs t]) (metis append_take_drop_id ordered_units_set set_append)

lemma pruned_not_newer:
  assumes "u \<in> set (kept_units env fs t)" and "v \<in> set (pruned_units env fs t)"
  shows "unit_newest_mtime fs v \<le> unit_newest_mtime fs u"
proof (rule kept_pruned [of env fs t])
  fix n
  let ?us = "ordered_units env fs"
  assume k: "kept_units env fs t = take n ?us" "pruned_units env fs t = drop n ?us"
  have "sorted_wrt (\<lambda>x y. unit_newest_mtime fs y \<le> unit_newest_mtime fs x) (take n ?us @ drop n ?us)"
    using ordered_units_sorted [of fs env] by (simp add: sorted_wrt_rev sorted_wrt_map)
  then show ?thesis using assms unfolding sorted_wrt_append k by simp
qed

lemma kept_count: "qe_max_count env = Some n \<Longrightarrow> length (kept_units env fs t) \<le> n"
  by (simp add: kept_units_def Let_def)

lemma kept_age:
  "qe_max_age_s env = Some a \<Longrightarrow> 0 < a \<Longrightarrow> u \<in> set (kept_units env fs t) \<Longrightarrow>
   t - 1000 * a \<le> unit_newest_mtime fs u"
  by (auto simp: kept_units_def Let_def split: option.splits dest: in_set_takeD)

text \<open>A file of a failed unit belongs to that unit alone: its name gives the key.\<close>

definition unit_key :: "'w qenv \<Rightarrow> qpath \<Rightarrow> string" where
  "unit_key env p = (if is_primary_job_json env p then job_stem p else error_stem (snd p))"

lemma error_not_primary: "ends_with (snd p) ''.error.json'' \<Longrightarrow> \<not> is_primary_job_json env p"
  by (simp add: is_primary_job_json_def is_metadata_sidecar_def metadata_suffixes_def)

lemma find_SomeD: "find P xs = Some x \<Longrightarrow> P x \<and> x \<in> set xs"
  by (induction xs) (auto split: if_splits)

lemma unit_files_key:
  assumes "u \<in> set (failed_units env fs)" and "p \<in> set (unit_files u)"
  shows "unit_key env p = fu_key u"
proof -
  let ?jobs = "primary_jobs_in_bucket env Failed fs"
  let ?sides = "map (Pair (InBucket Failed)) (filter (\<lambda>n. ends_with n ''.error.json'') (dir_names fs (InBucket Failed)))"
  from assms(1) obtain k where u: "fu_key u = k" "fu_job u = find (\<lambda>p. job_stem p = k) (rev ?jobs)"
      "fu_sidecar u = find (\<lambda>p. error_stem (snd p) = k) (rev ?sides)"
    unfolding failed_units_def Let_def set_map by (elim imageE) simp
  from assms(2) consider "fu_job u = Some p" | "fu_sidecar u = Some p"
    unfolding unit_files_def by (auto split: option.splits)
  then show ?thesis
  proof cases
    case 1
    then have "job_stem p = k" "p \<in> set ?jobs" unfolding u by (auto dest: find_SomeD)
    then show ?thesis by (auto simp: unit_key_def u primary_jobs_in_bucket_def)
  next
    case 2
    then have "error_stem (snd p) = k" "p \<in> set ?sides" unfolding u by (auto dest: find_SomeD)
    then show ?thesis using error_not_primary [of p env] by (auto simp: unit_key_def u)
  qed
qed

lemma forM_unlink: "fst (forM ps unlink s) = Inr () \<and> files (snd (forM ps unlink s)) = fold drop_file ps (files s)"
proof (induction ps arbitrary: s)
  case (Cons p ps)
  then show ?case by (simp add: thenM_ok)
qed simp

lemma prune_run:
  fixes env :: "'w qenv"
  shows "fst (prune_failed_artifacts env s) = Inr ()"
  "file_at (files (snd (prune_failed_artifacts env s))) q =
     (if q \<in> (\<Union>u \<in> set (pruned_units env (files s) (qe_now env (rs_world s))). set (unit_files u))
      then None else file_at (files s) q)"
proof -
  let ?us = "pruned_units env (files s) (qe_now env (rs_world s))"
  let ?ps = "concat (map unit_files ?us)"
  define tail :: "(unit, 'w daemon) prog" where "tail = whenM (?us \<noteq> []) (log [(''event'', PStr ''queue_failed_artifacts_pruned''),
        (''removed_jobs'', PInt (int (length (List.map_filter fu_job ?us)))),
        (''removed_sidecars'', PInt (int (length (List.map_filter fu_sidecar ?us)))),
        (''max_age_s'', case qe_max_age_s env of None \<Rightarrow> PNone | Some a \<Rightarrow> PInt a),
        (''max_count'', case qe_max_count env of None \<Rightarrow> PNone | Some n \<Rightarrow> PInt (int n))])"
  have tail: "fst (tail t) = Inr () \<and> files (snd (tail t)) = files t" for t
    by (simp add: tail_def whenM_def)
  have run: "prune_failed_artifacts env s = tail (snd (forM ?ps unlink s))"
    using forM_unlink [of ?ps s]
    by (simp add: prune_failed_artifacts_def queue_get_def files_def [symmetric] tail_def thenM_ok)
  show "fst (prune_failed_artifacts env s) = Inr ()" by (simp add: run tail)
  show "file_at (files (snd (prune_failed_artifacts env s))) q =
     (if q \<in> (\<Union>u \<in> set ?us. set (unit_files u)) then None else file_at (files s) q)"
    by (simp add: run tail forM_unlink disk.at_drop_all)
qed

lemma prune_keeps:
  assumes "u \<in> set (kept_units env (files s) (qe_now env (rs_world s)))" and "p \<in> set (unit_files u)"
  shows "file_at (files (snd (prune_failed_artifacts env s))) p = file_at (files s) p"
proof -
  let ?t = "qe_now env (rs_world s)"
  have "p \<notin> set (unit_files v)" if v: "v \<in> set (pruned_units env (files s) ?t)" for v
  proof
    assume "p \<in> set (unit_files v)"
    with v assms unit_files_key kept_or_pruned have "fu_key v = fu_key u" by (metis Un_iff)
    with v assms(1) show False by (auto simp: pruned_units_def)
  qed
  then show ?thesis by (simp add: prune_run)
qed

section \<open>The error sidecar\<close>

lemma validated_same:
  assumes "validate_failed_error_sidecar v j = Inr d"
  shows "v = PDict d"
proof -
  define res :: "dict result \<Rightarrow> dict \<Rightarrow> bool" where "res = (\<lambda>r x. r = Inr x \<or> (\<exists>e. r = Inl e))"
  have res: "res (if b then r1 else r2) x" if "res r1 x" "res r2 x" for b r1 r2 x using that by simp
  have raise: "res (raise_value msg) x" for msg x by (simp add: res_def raise_value_def)
  have bind: "res (bindR m (\<lambda>_. k)) x" if "res k x" for m :: "unit result" and k x
    using that by (cases m) (auto simp: res_def)
  have inr: "res (Inr x) x" for x by (simp add: res_def)
  have opt: "res (case o' of None \<Rightarrow> r1 | Some n \<Rightarrow> r2 n) x" if "res r1 x" "\<And>n. res (r2 n) x"
    for o' :: "int option" and r1 r2 x using that by (cases o') simp_all
  have str: "res (case p of PStr t \<Rightarrow> r1 t | _ \<Rightarrow> r2) x" if "\<And>t. res (r1 t) x" "res r2 x" for p r1 r2 x
    using that by (cases p) simp_all
  from assms show ?thesis
  proof (cases v)
    case (PDict x)
    have "res (validate_failed_error_sidecar (PDict x) j) x"
      unfolding validate_failed_error_sidecar_def Let_def py.case
      by (intro res raise bind str opt inr)
    with assms PDict show ?thesis by (auto simp: res_def)
  qed (simp_all add: validate_failed_error_sidecar_def raise_value_def)
qed

lemma error_details_get:
  "get (error_details job err ts payload) ''schema_version'' = PInt 1"
  "get (error_details job err ts payload) ''job'' = PStr job"
  "get (error_details job err ts payload) ''error'' = PStr err"
  "get (error_details job err ts payload) ''timestamp_ms'' = PInt ts"
  by (simp_all add: error_details_def)

lemma error_details_payload:
  "get (error_details job err ts payload) ''payload'' =
     (case sanitize_payload_intent_route payload of None \<Rightarrow> PNone | Some p \<Rightarrow> PDict p)"
  by (simp add: error_details_def split: option.split)

lemma error_details_keys:
  "filter (\<lambda>k. \<not> has_key (error_details job err ts payload) k) [''schema_version'', ''job'', ''error'', ''timestamp_ms''] = []"
  by (simp add: error_details_def)

lemma error_details_valid:
  assumes "job \<noteq> []" "err \<noteq> []" "failed_timestamp_min \<le> ts"
  shows "validate_failed_error_sidecar (PDict (error_details job err ts payload)) (Some job) =
     Inr (error_details job err ts payload)"
  using assms
  by (simp only: validate_failed_error_sidecar_def error_details_keys Let_def py.case error_details_get
      validate_schema_version_def) (simp add: error_details_payload split: option.split)

lemma failed_sidecar_roundtrip:
  assumes "snd job \<noteq> []" "err \<noteq> []" "failed_timestamp_min \<le> qe_now env (rs_world s)"
  shows "fst (write_failed_error_sidecar env job err payload s) = Inr ()"
    and "fst (read_failed_error_sidecar env job (snd (write_failed_error_sidecar env job err payload s))) =
      Inr (Some (error_details (snd job) err (qe_now env (rs_world s)) payload))"
proof -
  note valid = error_details_valid [OF assms, of payload]
  have wrote: "write_failed_error_sidecar env job err payload s = write_file env (error_sidecar job)
      (Json (PDict (error_details (snd job) err (qe_now env (rs_world s)) payload))) s"
    by (simp add: write_failed_error_sidecar_def now_def queue_get_def valid)
  show "fst (write_failed_error_sidecar env job err payload s) = Inr ()"
    by (simp add: wrote write_file_def queue_modify_def)
  show "fst (read_failed_error_sidecar env job (snd (write_failed_error_sidecar env job err payload s))) =
      Inr (Some (error_details (snd job) err (qe_now env (rs_world s)) payload))"
    by (simp add: wrote write_file_def queue_modify_def read_failed_error_sidecar_def content_now_def
        queue_get_def valid)
qed

end
