(* ===== verification/Approval_Laws.thy ===== *)
theory Approval_Laws
  imports Queue_Frames
begin

text \<open>
  The contracts around an approval: the store of standing grants, the callback the skill runner asks,
  and the hard gate in front of a job. The two interfaces are locales; both are interpreted on the
  queue's own operations.
\<close>

section \<open>The contract of a grant store\<close>

locale grant_store =
  fixes grant :: "'k \<Rightarrow> 's \<Rightarrow> 's"
    and holds :: "'k \<Rightarrow> 's \<Rightarrow> bool"
  assumes grant_holds: "holds k (grant k s)"
    and grant_keeps: "holds k' s \<Longrightarrow> holds k' (grant k s)"
    and grant_only: "holds k' (grant k s) \<Longrightarrow> k' = k \<or> holds k' s"
    and grant_known: "holds k s \<Longrightarrow> grant k s = s"
begin

lemma grant_iff: "holds k' (grant k s) \<longleftrightarrow> k' = k \<or> holds k' s"
  using grant_holds grant_keeps grant_only by blast

lemma grant_again: "grant k (grant k s) = grant k s"
  by (rule grant_known) (rule grant_holds)

lemma grant_all: "holds k (fold grant ks s) \<longleftrightarrow> k \<in> set ks \<or> holds k s"
  by (induction ks arbitrary: s) (auto simp: grant_iff)

text \<open>The order in which scopes are granted does not matter to what is granted.\<close>

lemma grant_order: "set ks = set ls \<Longrightarrow> holds k (fold grant ks s) = holds k (fold grant ls s)"
  by (simp add: grant_all)

end

section \<open>The grants of the queue\<close>

type_synonym grant_key = "string \<times> string \<times> scope"

definition grants_in :: "'w daemon \<Rightarrow> dict list" where
  "grants_in s = grants_of (map_option fl_content (file_at (files s) grants_path))"

definition granted_scope :: "grant_key \<Rightarrow> 'w daemon \<Rightarrow> bool" where
  "granted_scope k s = (case k of (skill, cap, sc) \<Rightarrow> has_approval_grant skill cap sc (grants_in s))"

definition grant_scope :: "'w qenv \<Rightarrow> grant_key \<Rightarrow> 'w daemon \<Rightarrow> 'w daemon" where
  "grant_scope env k s = (case k of (skill, cap, sc) \<Rightarrow> snd (grant_approval_scope env skill cap (scope_dict sc) s))"

lemma scope_of_scope_dict [simp]: "scope_of_dict (scope_dict sc) = sc"
  by (simp add: scope_of_dict_def scope_dict_def)

lemma scope_matches_dict: "scope_matches (PDict (scope_dict a)) b \<longleftrightarrow> a = b"
proof -
  have "sc_fs a = sc_fs b \<and> sc_network a = sc_network b \<longleftrightarrow> a = b" by (cases a; cases b) auto
  then show ?thesis by (simp add: scope_matches_def scope_dict_def eq_bool_def)
qed

lemma grant_matches_dict:
  "grant_matches skill cap sc (grant_dict skill' cap' sc' ts) \<longleftrightarrow> skill' = skill \<and> cap' = cap \<and> sc' = sc"
  by (simp add: grant_matches_def grant_dict_def scope_matches_dict)

lemma grants_of_written: "grants_of (Some (Json (PList (map PDict gs)))) = gs"
  by (induction gs) (simp_all add: grants_of_def)

lemma grant_run:
  "grant_approval_scope env skill cap (scope_dict sc) s =
     (Inr (), if has_approval_grant skill cap sc (grants_in s) then s
       else s\<lparr>rs_world := (rs_world s)\<lparr>q_files := put_file grants_path
         \<lparr>fl_content = Json (PList (map PDict (grants_in s @ [grant_dict skill cap sc (qe_time env (rs_world s))]))),
          fl_mtime = qe_now env (rs_world s)\<rparr> (files s)\<rparr>\<rparr>)"
  unfolding grant_approval_scope_def read_grants_def content_now_def clock_def queue_get_def
      write_file_def now_def queue_modify_def grants_in_def files_def
  by (simp add: bindM_def thenM_def)

lemma grants_in_grant:
  "grants_in (grant_scope env (skill, cap, sc) s) =
     (if has_approval_grant skill cap sc (grants_in s) then grants_in s
      else grants_in s @ [grant_dict skill cap sc (qe_time env (rs_world s))])"
  by (simp add: grant_scope_def grant_run grants_in_def [of "s\<lparr>rs_world := _\<rparr>"] files_def grants_of_written
      del: map_append)

interpretation queue_grants: grant_store "grant_scope env" granted_scope
proof
  fix k k' :: grant_key and s :: "'a daemon"
  obtain skill cap sc where k: "k = (skill, cap, sc)" by (cases k)
  obtain skill' cap' sc' where k': "k' = (skill', cap', sc')" by (cases k')
  show "granted_scope k (grant_scope env k s)"
    by (auto simp: k granted_scope_def grants_in_grant has_approval_grant_def grant_matches_dict)
  show "granted_scope k' s \<Longrightarrow> granted_scope k' (grant_scope env k s)"
    by (auto simp: k k' granted_scope_def grants_in_grant has_approval_grant_def)
  show "granted_scope k' (grant_scope env k s) \<Longrightarrow> k' = k \<or> granted_scope k' s"
    by (auto simp: k k' granted_scope_def grants_in_grant has_approval_grant_def grant_matches_dict
        split: if_splits)
  show "granted_scope k s \<Longrightarrow> grant_scope env k s = s"
    by (simp add: k granted_scope_def grant_scope_def grant_run)
qed

section \<open>The contract of an approval callback\<close>

text \<open>\<open>outer\<close> is what the skills act on: a callback answers from its own records and leaves it alone.\<close>

locale approval_gate =
  fixes ask :: "'s approval_cb"
    and granted :: "manifest \<Rightarrow> policy_decision \<Rightarrow> dict \<Rightarrow> 's \<Rightarrow> bool"
    and outer :: "'s \<Rightarrow> 'o"
  assumes answer_granted: "granted m d ctx (rs_world s) \<Longrightarrow> fst (ask m d ctx args s) = PBool True"
    and answer_pending: "\<not> granted m d ctx (rs_world s) \<Longrightarrow> is_pending (fst (ask m d ctx args s))"
    and ask_outer: "outer (rs_world (snd (ask m d ctx args s))) = outer (rs_world s)"
begin

lemma gate_open_iff:
  "gate_open (Some ask) m args p ctx s \<longleftrightarrow>
     \<not> ce_denied (enforce_runtime_capabilities m p args)
     \<and> (ce_needs_approval (enforce_runtime_capabilities m p args) \<longrightarrow> granted m (decide m p args) ctx (rs_world s))"
proof (cases "granted m (decide m p args) ctx (rs_world s)")
  case True
  from answer_granted [OF True, of args] show ?thesis
    using True by (auto simp: gate_open_def Let_def is_pending_def split: option.splits)
next
  case False
  from answer_pending [OF False, of args] show ?thesis
    using False by (auto simp: gate_open_def Let_def split: option.splits)
qed

text \<open>Without a grant the skill is not run: the world it acts on is the same, and the result fails.\<close>

lemma not_granted_not_run:
  assumes "canonicalize_args (m_id m) args0 = Inr args"
    and "ce_denied (enforce_runtime_capabilities m p args)
      \<or> (ce_needs_approval (enforce_runtime_capabilities m p args) \<and> \<not> granted m (decide m p args) ctx (rs_world s))"
  shows "outer (rs_world (snd (skill_run env (Some ask) m args0 p ctx s))) = outer (rs_world s)"
    and "\<exists>rr. fst (skill_run env (Some ask) m args0 p ctx s) = Inr rr \<and> \<not> rr_ok rr"
proof -
  have closed: "\<not> gate_open (Some ask) m args p ctx s"
    unfolding gate_open_iff using assms(2) by blast
  have "rs_world (snd (skill_run env (Some ask) m args0 p ctx s))
      \<in> {rs_world s, rs_world (snd (ask m (decide m p args) ctx args s))}"
    using gate_closed(2) [OF assms(1) closed] by auto
  then show "outer (rs_world (snd (skill_run env (Some ask) m args0 p ctx s))) = outer (rs_world s)"
    using ask_outer by auto
  show "\<exists>rr. fst (skill_run env (Some ask) m args0 p ctx s) = Inr rr \<and> \<not> rr_ok rr"
    by (rule gate_closed(1) [OF assms(1) closed])
qed

end

section \<open>The prompt of the queue\<close>

definition prompt_grants :: "'w qenv \<Rightarrow> manifest \<Rightarrow> policy_decision \<Rightarrow> dict \<Rightarrow> 'w queue \<Rightarrow> bool" where
  "prompt_grants env m d ctx q =
     (approval_key q ctx m \<in> set (q_approved q)
      \<or> has_approval_grant (m_id m) (decision_capability d) (manifest_scope m)
          (grants_of (map_option fl_content (file_at (q_files q) grants_path)))
      \<or> (qe_auto_approve env \<and> qe_dev_mode env \<and> decision_capability d \<in> set auto_approve_allowlist))"

lemma pending_answer_pending: "is_pending (PDict (pending_answer env m d ctx args))"
  by (simp add: is_pending_def pending_answer_def Let_def)

lemma prompt_answer:
  "fst (queue_approval_prompt env m d ctx args s) =
     (if prompt_grants env m d ctx (rs_world s) then PBool True else PDict (pending_answer env m d ctx args))"
  by (simp add: queue_approval_prompt_def prompt_grants_def Let_def)

lemma prompt_state:
  "q_outer (rs_world (snd (queue_approval_prompt env m d ctx args s))) = q_outer (rs_world s)"
  "q_files (rs_world (snd (queue_approval_prompt env m d ctx args s))) = q_files (rs_world s)"
  by (simp_all add: queue_approval_prompt_def Let_def)

interpretation queue_gate: approval_gate "queue_approval_prompt env" "prompt_grants env" q_outer
  by unfold_locales (simp_all add: prompt_answer prompt_state pending_answer_pending)

text \<open>A one-shot approval is used up by the step it was given for.\<close>

lemma prompt_one_shot:
  assumes "approval_key (rs_world s) ctx m \<in> set (q_approved (rs_world s))"
  shows "approval_key (rs_world s) ctx m
      \<notin> set (q_approved (rs_world (snd (queue_approval_prompt env m d ctx args s))))"
    and "k \<noteq> approval_key (rs_world s) ctx m \<Longrightarrow> k \<in> set (q_approved (rs_world s)) \<Longrightarrow>
      k \<in> set (q_approved (rs_world (snd (queue_approval_prompt env m d ctx args s))))"
  using assms by (simp_all add: queue_approval_prompt_def Let_def)

section \<open>The hard gate\<close>

text \<open>A payload that demands approval never leaves the intake ready to run.\<close>

lemma gate_false:
  "fst (ensure_hard_approval_gate env job payload s) = Inr False \<Longrightarrow> get payload ''approval_required'' \<noteq> PBool True"
proof (rule ccontr)
  assume run: "fst (ensure_hard_approval_gate env job payload s) = Inr False"
    and "\<not> get payload ''approval_required'' \<noteq> PBool True"
  then have flag: "get payload ''approval_required'' = PBool True" by simp
  obtain s' where "ensure_hard_approval_gate env job payload s = (Inr False, s')"
    using run by (cases "ensure_hard_approval_gate env job payload s") auto
  then show False
    unfolding ensure_hard_approval_gate_def flag
    by (auto simp: bindM_Inr_iff thenM_Inr_iff Let_def split: if_splits option.splits)
qed

lemma intake_ready:
  assumes "intake_job env job s = (Inr (Ready n enqueue), s')"
  shows "get n ''approval_required'' \<noteq> PBool True"
  using assms unfolding intake_job_def Let_def
  by (auto simp: bindM_Inr_iff thenM_Inr_iff attemptM_def split: sum.splits if_splits
      dest: gate_false)

end
