(* ===== verification/Attempt_Laws.thy ===== *)
theory Attempt_Laws
  imports Job_Laws Approval_Laws
begin

text \<open>
  The life of a job: the replanning loop ends after at most one attempt more than the replans it is
  allowed, and a job that demands approval reaches no skill.
\<close>

section \<open>Replanning is bounded\<close>

text \<open>The \<open>while True\<close> of \<open>process_job_file\<close> as a relation without any bound: the state it starts from,
  its result and the number of its turns\<close>

inductive attempts :: "'w qenv \<Rightarrow> qpath \<Rightarrow> attempt_ctx \<Rightarrow> nat \<Rightarrow> nat \<Rightarrow> mission option \<Rightarrow> 'w daemon
    \<Rightarrow> bool result \<times> 'w daemon \<Rightarrow> nat \<Rightarrow> bool"
  for env job c where
  attempts_raise: "attempt_once env job c attempt replans previous s = (Inl e, s') \<Longrightarrow>
     attempts env job c attempt replans previous s (Inl e, s') 1"
| attempts_stop: "attempt_once env job c attempt replans previous s = (Inr (Stop b), s') \<Longrightarrow>
     attempts env job c attempt replans previous s (Inr b, s') 1"
| attempts_replan: "attempt_once env job c attempt replans previous s = (Inr (Replan previous'), s') \<Longrightarrow>
     attempts env job c (Suc attempt) (Suc replans) previous' s' r n \<Longrightarrow>
     attempts env job c attempt replans previous s r (Suc n)"

inductive_cases attempts_elim: "attempts env job c attempt replans previous s r n"

text \<open>The loop has one result and one number of turns.\<close>

lemma attempts_functional:
  "attempts env job c a k p s r n \<Longrightarrow> attempts env job c a k p s r' n' \<Longrightarrow> r' = r \<and> n' = n"
proof (induction arbitrary: r' n' rule: attempts.induct)
  case (attempts_raise a k p s e s')
  from attempts_raise.prems show ?case by cases (simp_all add: attempts_raise.hyps)
next
  case (attempts_stop a k p s b s')
  from attempts_stop.prems show ?case by cases (simp_all add: attempts_stop.hyps)
next
  case (attempts_replan a k p s p' s' r n)
  from attempts_replan.prems show ?case
  proof cases
    case (attempts_replan q t m)
    with attempts_replan.hyps(1) have "q = p'" "t = s'" by simp_all
    with attempts_replan(3) attempts_replan.IH [of r' m] attempts_replan(1) show ?thesis by blast
  qed (use attempts_replan.hyps(1) in simp_all)
qed

lemma bind_stop: "bindM m (\<lambda>b. retM (Stop b)) s \<noteq> (Inr (Replan p), s')"
  by (auto simp: bindM_Inr_iff)

lemma planning_failed_replan:
  "planning_failed env job c a k prev e s = (Inr (Replan p), s') \<Longrightarrow> k < qe_max_replans env"
  unfolding planning_failed_def Let_def
  by (auto simp: bindM_Inr_iff thenM_Inr_iff split: prod.splits if_splits)

lemma intent_mismatch_replan:
  "intent_mismatch_failed env job c a k prev mi i r s \<noteq> (Inr (Replan p), s')"
  unfolding intent_mismatch_failed_def Let_def by (auto simp: bindM_Inr_iff thenM_Inr_iff)

lemma run_attempt_replan:
  "run_attempt env job c a k prev mi s = (Inr (Replan p), s') \<Longrightarrow> k < qe_max_replans env"
  unfolding run_attempt_def Let_def thenM_Inr_iff bindM_Inr_iff
  by (auto simp: bindM_Inr_iff thenM_Inr_iff split: if_splits option.splits)

lemma attempt_once_replan:
  "attempt_once env job c a k prev s = (Inr (Replan p), s') \<Longrightarrow> k < qe_max_replans env"
  unfolding attempt_once_def bindM_Inr_iff
  by (elim exE conjE) (auto split: sum.split_asm option.split_asm if_split_asm
      dest: planning_failed_replan run_attempt_replan simp: intent_mismatch_replan)

lemma loop_attempts:
  "k \<le> qe_max_replans env \<Longrightarrow> qe_max_replans env < fuel + k \<Longrightarrow>
   \<exists>n. 0 < n \<and> n \<le> Suc (qe_max_replans env - k)
     \<and> attempts env job c a k prev s (attempt_loop fuel env job c a k prev s) n"
proof (induction fuel arbitrary: a k prev s)
  case (Suc fuel)
  obtain r s' where once: "attempt_once env job c a k prev s = (r, s')" by (cases "attempt_once env job c a k prev s")
  show ?case
  proof (cases r)
    case (Inl e)
    with once have "attempts env job c a k prev s (attempt_loop (Suc fuel) env job c a k prev s) 1"
      using attempts_raise [of env job c a k prev s e s'] by (simp add: bindM_run)
    then show ?thesis by (intro exI [of _ 1]) simp
  next
    case (Inr v)
    show ?thesis
    proof (cases v)
      case (Stop b)
      with Inr once have "attempts env job c a k prev s (attempt_loop (Suc fuel) env job c a k prev s) 1"
        using attempts_stop [of env job c a k prev s b s'] by (simp add: bindM_run)
      then show ?thesis by (intro exI [of _ 1]) simp
    next
      case (Replan p)
      with Inr once have once': "attempt_once env job c a k prev s = (Inr (Replan p), s')" by simp
      then have k: "k < qe_max_replans env" by (rule attempt_once_replan)
      with Suc.IH [of "Suc k" "Suc a" p s'] Suc.prems obtain n where n: "0 < n"
          "n \<le> Suc (qe_max_replans env - Suc k)"
          "attempts env job c (Suc a) (Suc k) p s' (attempt_loop fuel env job c (Suc a) (Suc k) p s') n"
        by auto
      have "attempt_loop (Suc fuel) env job c a k prev s = attempt_loop fuel env job c (Suc a) (Suc k) p s'"
        using once' by (simp add: bindM_run(2))
      with n attempts_replan [OF once' n(3)] k show ?thesis by (intro exI [of _ "Suc n"]) auto
    qed
  qed
qed simp

section \<open>A job that demands approval\<close>

lemma has_key_append: "has_key (d @ e) k \<longleftrightarrow> has_key d k \<or> has_key e k"
  by (induction d) auto

lemma normalize_keeps_demand:
  assumes "normalize_payload p = Inr n" and "get p ''approval_required'' = PBool True"
  shows "get n ''approval_required'' = PBool True"
proof -
  have key: "has_key p ''approval_required''" using assms(2) by (metis get_no_key py.distinct(1))
  have entries: "\<not> has_key (str_entry k v) ''approval_required''" if "k \<noteq> ''approval_required''" for k v
    using that by (simp add: str_entry_def)
  have opts: "\<not> has_key (opt_entry k v) ''approval_required''" if "k \<noteq> ''approval_required''" for k v
    using that by (simp add: opt_entry_def split: py.split)
  show ?thesis
    using assms(1) by (auto simp: normalize_payload_def bindR_eq_Inr Let_def get_append has_key_append entries opts
      key assms(2) is_true_def)
qed

definition outer :: "'w daemon \<Rightarrow> 'w" where
  "outer s = q_outer (rs_world s)"

lemma core_outer: "frame core m \<Longrightarrow> frame outer m"
  by (simp add: frame_def core_def outer_def)

text \<open>The outer world is as it was, or has seen one delivery of a finished job.\<close>

definition delivered :: "'w qenv \<Rightarrow> 'w daemon \<Rightarrow> 'w daemon \<Rightarrow> bool" where
  "delivered env s t \<longleftrightarrow> outer t = outer s \<or> (\<exists>p. outer t = qe_deliver env p (outer s))"

definition quiet :: "'w qenv \<Rightarrow> ('a, 'w daemon) prog \<Rightarrow> bool" where
  "quiet env m \<longleftrightarrow> (\<forall>s. delivered env s (snd (m s)))"

lemma quiet_frame: "frame outer m \<Longrightarrow> quiet env m"
  by (simp add: quiet_def delivered_def frame_def)

lemma quiet_after: "frame outer m \<Longrightarrow> (\<And>x. quiet env (k x)) \<Longrightarrow> quiet env (bindM m k)"
  unfolding quiet_def delivered_def frame_def bindM_def
  by (auto split: prod.split sum.split) (metis snd_conv)+

lemma quiet_before: "quiet env m \<Longrightarrow> (\<And>x. frame outer (k x)) \<Longrightarrow> quiet env (bindM m k)"
  unfolding quiet_def delivered_def frame_def bindM_def
  by (auto split: prod.split sum.split) (metis snd_conv)+

lemma quiet_then: "frame outer m \<Longrightarrow> quiet env n \<Longrightarrow> quiet env (thenM m n)"
  unfolding thenM_def by (rule quiet_after)

lemma quiet_deliver: "quiet env (deliver env p)"
  by (simp add: quiet_def delivered_def deliver_def queue_modify_def outer_def) blast

lemma quiet_fail: "quiet env (fail_before_run env job err rd sp rp a)"
proof -
  have tail: "quiet env (thenM (deliver env m) (retM False))" for m
    unfolding thenM_def by (intro quiet_before quiet_deliver frame_intro)
  have fr: "frame outer (log_failed env m err)" "frame outer (move_job env job (InBucket Failed))"
    "frame outer (write_failed_error_sidecar env m err sp)"
    "frame outer (write_execution_result_artifacts env m rd False ''failed'' (Some err) rp)"
    "frame outer (update_job_state env m ''step_failed'' (a\<lparr>sn_terminal := Some ''failed'', sn_failure := Some err\<rparr>))"
    "frame outer count_failed" "frame outer (prune_failed_artifacts env)" for m
    unfolding log_failed_def by (intro core_outer core_frames)+
  have "quiet env (case moved of None \<Rightarrow> retM False | Some m \<Rightarrow>
         thenM (write_failed_error_sidecar env m err sp)
         (thenM (write_execution_result_artifacts env m rd False ''failed'' (Some err) rp)
         (thenM (update_job_state env m ''step_failed''
             (a\<lparr>sn_terminal := Some ''failed'', sn_failure := Some err\<rparr>))
         (thenM count_failed
         (thenM (log_failed env m err)
         (thenM (prune_failed_artifacts env)
         (thenM (deliver env m)
          (retM False))))))))" for moved
    by (cases moved) (simp_all, (intro quiet_frame frame_intro quiet_then fr tail)+)
  then show ?thesis unfolding fail_before_run_def by (intro quiet_after fr)
qed

lemma quiet_invalid: "quiet env (invalid_job env job e payload)"
  unfolding invalid_job_def by (intro quiet_then quiet_fail core_outer core_frames)

lemma content_at_files: "content_at p s = file_at (q_files (rs_world s)) p"
  by (simp add: content_at_def files_def)

lemma load_json:
  "content_at job s = Some f \<Longrightarrow> fl_content f = Json (PDict raw) \<Longrightarrow> load_job_payload env job s = (Inr raw, s)"
  by (simp add: load_job_payload_def parse_retry_attempts_def numeral_eq_Suc content_now_def queue_get_def
      content_at_files)

lemma detect_kind_intent_route: "detect_request_kind (dput d ''_simple_intent'' v) = detect_request_kind d"
  by (simp add: detect_request_kind_def)

lemma delivered_after:
  "frame outer m \<Longrightarrow> m s = (r, t) \<Longrightarrow> delivered env t u \<Longrightarrow> delivered env s u"
  unfolding frame_def delivered_def by (metis snd_conv)

lemma quiet_run: "quiet env m \<Longrightarrow> m s = (r, t) \<Longrightarrow> delivered env s t"
  unfolding quiet_def by (metis snd_conv)

definition routed :: "dict \<Rightarrow> dict" where
  "routed raw = (case get raw ''_simple_intent'' of
      PDict r \<Rightarrow> dput raw ''_simple_intent'' (PDict (sanitize_intent_route r)) | _ \<Rightarrow> raw)"

lemma routed_kind: "detect_request_kind (routed raw) = detect_request_kind raw"
  by (simp add: routed_def detect_kind_intent_route split: py.split)

lemma routed_demand: "get (routed raw) ''approval_required'' = get raw ''approval_required''"
  by (simp add: routed_def split: py.split)

text \<open>The rest of the intake once the payload is loaded, for a job that is not the assistant's\<close>

definition refuse :: "'w qenv \<Rightarrow> qpath \<Rightarrow> exc \<Rightarrow> dict \<Rightarrow> (intake, 'w daemon) prog" where
  "refuse env job e payload = bindM (invalid_job env job e (Some payload)) (\<lambda>b. retM (Finished b))"

definition gate_intake :: "'w qenv \<Rightarrow> qpath \<Rightarrow> dict \<Rightarrow> py \<Rightarrow> (intake, 'w daemon) prog" where
  "gate_intake env job n enqueue = bindM (attemptM (ensure_hard_approval_gate env job n)) (\<lambda>r. case r of
       Inl e \<Rightarrow> refuse env job e n
     | Inr waits \<Rightarrow> retM (if waits then Finished False else Ready n enqueue))"

lemma intake_run:
  assumes "content_at job s = Some f" and "fl_content f = Json (PDict raw)"
    and "detect_request_kind raw \<noteq> ''assistant_question''"
  shows "intake_job env job s = (case normalize_payload (routed raw) of
       Inl e \<Rightarrow> refuse env job e (routed raw)
     | Inr n \<Rightarrow> (case extract_enqueue_child_request n of
         Inl e \<Rightarrow> refuse env job (Exc ValueError (''invalid enqueue_child request: '' @ str_exc e)) n
       | Inr enqueue \<Rightarrow> gate_intake env job n enqueue)) s"
proof -
  have loaded: "attemptM (load_job_payload env job) s = (Inr (Inr raw), s)"
    by (simp add: attemptM_def load_json [OF assms(1,2)])
  have kind: "detect_request_kind (routed raw) \<noteq> ''assistant_question''"
    using assms(3) by (simp add: routed_kind)
  show ?thesis
    unfolding intake_job_def Let_def routed_def [symmetric] refuse_def gate_intake_def
      bindM_run(2) [where m = "attemptM (load_job_payload env job)" and s = s, OF loaded] sum.case
    by (simp only: kind if_False)
qed

lemma intake_assistant:
  assumes "content_at job s = Some f" and "fl_content f = Json (PDict raw)"
    and "detect_request_kind raw = ''assistant_question''"
  shows "intake_job env job s = bindM (attemptM (assistant_job env job (routed raw))) (\<lambda>r. case r of
      Inl e \<Rightarrow> refuse env job e (routed raw) | Inr b \<Rightarrow> retM (Finished b)) s"
proof -
  have loaded: "attemptM (load_job_payload env job) s = (Inr (Inr raw), s)"
    by (simp add: attemptM_def load_json [OF assms(1,2)])
  have kind: "detect_request_kind (routed raw) = ''assistant_question''"
    using assms(3) by (simp add: routed_kind)
  show ?thesis
    unfolding intake_job_def Let_def routed_def [symmetric] refuse_def
      bindM_run(2) [where m = "attemptM (load_job_payload env job)" and s = s, OF loaded] sum.case
    by (simp only: kind simp_thms if_True)
qed

lemma quiet_refuse: "quiet env (refuse env job e payload)"
  unfolding refuse_def by (intro quiet_before quiet_invalid frame_intro)

lemma quiet_gate: "quiet env (gate_intake env job n enqueue)"
proof -
  have "quiet env (case v of Inl e \<Rightarrow> refuse env job e n
     | Inr waits \<Rightarrow> retM (if waits then Finished False else Ready n enqueue))" for v
    by (cases v) (simp_all add: quiet_refuse quiet_frame frame_intro)
  then show ?thesis
    unfolding gate_intake_def by (intro quiet_after frame_attempt core_outer core_frames)
qed

lemma intake_delivers:
  assumes "content_at job s = Some f" and "fl_content f = Json (PDict raw)"
    and "detect_request_kind raw \<noteq> ''assistant_question''"
  shows "delivered env s (snd (intake_job env job s))"
  unfolding intake_run [OF assms]
  using quiet_refuse [of env job] quiet_gate [of env job] unfolding quiet_def
  by (simp split: sum.split)

lemma refuse_not_ready: "refuse env job e p s \<noteq> (Inr (Ready n k), s')"
  unfolding refuse_def bindM_Inr_iff by simp

lemma gate_ready: "gate_intake env job k enq s = (Inr (Ready n e), s') \<Longrightarrow> k = n"
  unfolding gate_intake_def bindM_Inr_iff
  by (elim exE conjE) (simp add: refuse_not_ready split: sum.split_asm if_split_asm)

lemma intake_ready_payload:
  assumes "content_at job s = Some f" and "fl_content f = Json (PDict raw)"
    and run: "intake_job env job s = (Inr (Ready n enqueue), s')"
  shows "normalize_payload (routed raw) = Inr n"
proof (cases "detect_request_kind raw = ''assistant_question''")
  case True
  with run show ?thesis
    unfolding intake_assistant [OF assms(1,2) True] bindM_Inr_iff
    by (elim exE conjE) (simp add: refuse_not_ready split: sum.split_asm)
next
  case False
  with run show ?thesis
    unfolding intake_run [OF assms(1,2) False]
    by (simp add: refuse_not_ready split: sum.split_asm) (drule gate_ready, simp)
qed

lemma intake_keeps_demand:
  assumes "content_at job s = Some f" and "fl_content f = Json (PDict raw)"
    and "get raw ''approval_required'' = PBool True"
    and run: "intake_job env job s = (Inr (Ready n enqueue), s')"
  shows False
proof -
  from intake_ready_payload [OF assms(1,2) run] have "get n ''approval_required'' = PBool True"
    by (rule normalize_keeps_demand) (simp add: routed_demand assms(3))
  with intake_ready [OF run] show False by simp
qed

lemma process_delivers:
  assumes "content_at job s = Some f" and "fl_content f = Json (PDict raw)"
    and "get raw ''approval_required'' = PBool True"
    and "detect_request_kind raw \<noteq> ''assistant_question''"
    and primary: "is_primary_job_json env job"
  shows "delivered env s (snd (process_received env job s))"
proof -
  have st: "frame (content_at job) (update_job_state env job lc a)" for lc a
    by (rule at_state) (rule primary_not_state [OF primary])
  define prepare where "prepare = thenM (log [(''event'', PStr ''queue_job_received''), (''job'', PStr (path_str env job))])
     (thenM (update_job_state env job ''queued'' no_args)
     (thenM (update_job_state env job ''planning'' no_args) (shutdown_reason env)))"
  have sr: "frame g (shutdown_reason env)" for g :: "'a daemon \<Rightarrow> 'c"
    by (simp add: shutdown_reason_def queue_get_def frame_def)
  have fr: "frame outer prepare" "frame (content_at job) prepare"
    unfolding prepare_def by (intro frame_intro core_outer core_frames file_frames st sr)+
  obtain r t where prep: "prepare s = (r, t)" by (cases "prepare s")
  have t: "content_at job t = Some f" using frameD [OF fr(2), of s] prep assms(1) by simp
  have run: "process_received env job s = (case r of Inl e \<Rightarrow> (Inl e, t)
     | Inr sd \<Rightarrow> (if sd \<noteq> None then
        thenM (log [(''event'', PStr ''queue_job_skipped_shutdown''), (''job'', PStr (path_str env job))])
          (retM False) t
      else bindM (intake_job env job) (\<lambda>i. case i of
        Finished b \<Rightarrow> retM b
      | Ready payload enqueue \<Rightarrow> run_ready env job payload enqueue) t))"
  proof -
    have "process_received env job = bindM prepare (\<lambda>sd. if sd \<noteq> None then
        thenM (log [(''event'', PStr ''queue_job_skipped_shutdown''), (''job'', PStr (path_str env job))]) (retM False)
      else bindM (intake_job env job) (\<lambda>i. case i of
        Finished b \<Rightarrow> retM b
      | Ready payload enqueue \<Rightarrow> run_ready env job payload enqueue))"
      by (simp only: process_received_def prepare_def thenM_def bindM_assoc)
    with prep show ?thesis by (cases r) (simp_all add: bindM_run)
  qed
  have "delivered env t (snd (process_received env job s))"
  proof (cases r)
    case (Inr sd)
    show ?thesis
    proof (cases sd)
      case None
      obtain i u where i: "intake_job env job t = (i, u)" by (cases "intake_job env job t")
      have "delivered env t u" using intake_delivers [OF t assms(2,4), of env] i by simp
      moreover have "snd (process_received env job s) = u"
      proof (cases i)
        case (Inl e)
        with i show ?thesis by (simp add: run \<open>r = Inr sd\<close> None bindM_run(1))
      next
        case (Inr v)
        with i intake_keeps_demand [OF t assms(2,3), of env] obtain b where "v = Finished b"
          by (cases v) auto
        with i Inr show ?thesis by (simp add: run \<open>r = Inr sd\<close> None bindM_run(2))
      qed
      ultimately show ?thesis by simp
    next
      case (Some x)
      have "quiet env (thenM (log [(''event'', PStr ''queue_job_skipped_shutdown''), (''job'', PStr (path_str env job))])
          (retM False))" by (intro quiet_frame frame_intro core_outer core_frames)
      with Inr Some show ?thesis unfolding quiet_def run by simp
    qed
  qed (simp add: run delivered_def)
  with fr(1) prep show ?thesis by (rule delivered_after)
qed

lemma gated_job_not_run:
  assumes "file_at (files s) job = Some f" and "fl_content f = Json (PDict raw)"
    and "get raw ''approval_required'' = PBool True"
    and "detect_request_kind raw \<noteq> ''assistant_question''"
  shows "delivered env s (snd (process_job_file env job s))"
proof (cases "is_primary_job_json env job")
  case True
  have ex: "exists_file (q_files (rs_world s)) job" using assms(1) by (simp add: exists_file_def files_def)
  define s1 where "s1 = s\<lparr>rs_world := (rs_world s)\<lparr>q_current := Some (path_str env job)\<rparr>\<rparr>"
  have "content_at job s1 = Some f" using assms(1) by (simp add: s1_def content_at_def files_def)
  note run1 = process_delivers [OF this assms(2-4) True]
  have "process_job_file env job s = finallyM (process_received env job)
      (\<lambda>s. s\<lparr>rs_world := (rs_world s)\<lparr>q_current := None\<rparr>\<rparr>) s1"
    by (simp add: process_job_file_def exists_now_def queue_get_def ex True thenM_def queue_modify_def s1_def)
  with run1 show ?thesis
    by (simp add: finallyM_def delivered_def outer_def s1_def split: prod.splits)
next
  case False
  have "frame outer (process_job_file env job)"
    unfolding process_job_file_def using False by (simp, intro frame_intro core_outer core_frames)
  then show ?thesis using quiet_frame unfolding quiet_def by blast
qed

end
