(* ===== verification/Samples.thy ===== *)
theory Samples
  imports Attempt_Laws
begin

text \<open>
  Concrete manifests, environments and states on which the witnesses of the properties are evaluated.
  The outer world of the sample is the list of the things that were done in it.
\<close>

type_synonym world = "string list"

definition read_skill :: manifest where
  "read_skill = \<lparr>m_id = ''files.read_text'', m_name = ''Read'', m_description = ''Read a file'',
     m_entrypoint = ''skills.read:run'', m_capabilities = [''files.read''], m_risk = Low,
     m_exec_mode = LocalMode, m_needs_network = False, m_fs_scope = WorkspaceOnly,
     m_output_artifacts = [], m_output_schema = None, m_args = []\<rparr>"

definition delete_skill :: manifest where
  "delete_skill = \<lparr>m_id = ''files.delete_file'', m_name = ''Delete'', m_description = ''Delete a file'',
     m_entrypoint = ''skills.delete:run'', m_capabilities = [''file.delete''], m_risk = Low,
     m_exec_mode = LocalMode, m_needs_network = False, m_fs_scope = WorkspaceOnly,
     m_output_artifacts = [], m_output_schema = None, m_args = []\<rparr>"

definition deny_policy :: policy where
  "deny_policy = default_policy\<lparr>file_delete := Deny\<rparr>"

definition sample_registry :: "string \<Rightarrow> manifest result" where
  "sample_registry sid = (if sid = ''files.read_text'' then Inr read_skill
     else if sid = ''files.delete_file'' then Inr delete_skill else Inl (Exc KeyError sid))"

definition sample_sandbox :: sandbox_config where
  "sample_sandbox = \<lparr>sb_image = ''img'', sb_memory = ''512m'', sb_cpus = PInt 1, sb_pids_limit = 256\<rparr>"

definition sample_sandbox_env :: sandbox_env where
  "sample_sandbox_env = \<lparr>se_podman = True, se_job_id = ''j'', se_workspace = ''w'', se_artifacts = ''a'',
     se_started = PNone, se_ended = PNone\<rparr>"

text \<open>A skill of the sample notes its name in the world and succeeds.\<close>

definition sample_skills :: "world skill_env" where
  "sample_skills = \<lparr>sk_load = (\<lambda>m. None),
     sk_fn = (\<lambda>m args w. (Inr (OutResult \<lparr>rr_ok = True, rr_output = ''done'', rr_data = [], rr_error = None\<rparr>),
        w @ [m_id m])),
     sk_job_id = (\<lambda>w. ''j''), sk_sandbox_config = sample_sandbox,
     sk_sandbox_env = (\<lambda>j w. sample_sandbox_env),
     sk_subprocess = (\<lambda>w cmd t. Completed 0 [] []), sk_apply_trace = (\<lambda>tr w. w)\<rparr>"

definition sample_intent :: simple_intent where
  "sample_intent = \<lparr>si_kind = ReadFile, si_deterministic = True, si_allowed = [''files.read_text''],
     si_reason = ''read'', si_fail_closed = True, si_target = None, si_compound = False, si_first_only = False,
     si_first_kind = None, si_remainder = None\<rparr>"

definition read_mission :: mission where
  "read_mission = \<lparr>mi_id = ''m'', mi_title = ''M'', mi_goal = ''g'',
     mi_steps = [\<lparr>mst_skill = ''files.read_text'', mst_args = []\<rparr>], mi_notes = None\<rparr>"

definition delete_mission :: mission where
  "delete_mission = read_mission\<lparr>mi_steps := mi_steps read_mission @
     [\<lparr>mst_skill = ''files.delete_file'', mst_args = []\<rparr>]\<rparr>"

definition sample_env :: "world qenv" where
  "sample_env = \<lparr>qe_root = ''q'', qe_now = (\<lambda>q. 1700000000000), qe_time = (\<lambda>q. PInt 1700000000),
     qe_policy = default_policy, qe_redact = True, qe_skills = sample_skills, qe_registry = sample_registry,
     qe_append_log = (\<lambda>l w. (None, w)), qe_timestamp = (\<lambda>w. ''t''), qe_auto_approve = False,
     qe_dev_mode = False, qe_max_replans = 1, qe_mission_ids = [], qe_get_mission = (\<lambda>i. Inr read_mission),
     qe_allowed_apps = [], qe_close_matches = (\<lambda>x xs. []), qe_plan = (\<lambda>g j w. (Inr read_mission, w)),
     qe_classify = (\<lambda>g. sample_intent), qe_shutdown = (\<lambda>w. None),
     qe_assistant = (\<lambda>j p l f. retM True), qe_deliver = (\<lambda>p w. w @ [''delivered'']),
     qe_child_id = (\<lambda>q. ''c''), qe_notify_enabled = False, qe_notify = (\<lambda>c. Inr (0, [])),
     qe_max_age_s = None, qe_max_count = Some 1\<rparr>"

definition sample_state :: "files \<Rightarrow> world daemon" where
  "sample_state fs = \<lparr>rs_world = \<lparr>q_files = fs, q_approved = [], q_current = None, q_processed = 0,
     q_failed = 0, q_health = [], q_outer = []\<rparr>, rs_log = []\<rparr>"

definition json_file :: "dict \<Rightarrow> qfile" where
  "json_file d = \<lparr>fl_content = Json (PDict d), fl_mtime = 0\<rparr>"

definition sample_mission_env :: "world mission_env" where
  "sample_mission_env = \<lparr>me_skills = sample_skills, me_registry = sample_registry, me_policy = default_policy,
     me_approval = None, me_now_ms = (\<lambda>w. 0), me_timestamp = (\<lambda>w. ''t''), me_redact_logs = True,
     me_append_log = (\<lambda>l w. (None, w))\<rparr>"

definition sample_run_state :: "world rstate" where
  "sample_run_state = \<lparr>rs_world = [], rs_log = []\<rparr>"

end
