(* ===== verification/Skill_Theorems.thy ===== *)
theory Skill_Theorems
  imports Samples
begin

text \<open>
  The properties of the policy engine, the skill runner, the sandbox and the mission runner, each with a
  witness on the sample manifests where it has hypotheses.
\<close>

section \<open>Policy\<close>

text \<open>C29 The escalating loop of \<open>decide\<close> answers the most severe of the votes of the capabilities and of
  the manifest's metadata: it denies exactly when some capability is denied, allows exactly when every
  capability is allowed and nothing in the metadata asks, and asks in every other case.\<close>

theorem decide_most_severe:
  "(pd_decision (decide m p args) = Deny \<longleftrightarrow> (\<exists>c \<in> set (m_capabilities m). cap_decision p c = Deny))
   \<and> (pd_decision (decide m p args) = Allow \<longleftrightarrow>
        \<not> ask_triggers m args \<and> (\<forall>c \<in> set (m_capabilities m). cap_decision p c = Allow))
   \<and> pd_decision (decide m p args) = strictest (votes m p args)"
  using decide_Deny_iff decide_Allow_iff decide_decision by blast

text \<open>The witness of the direction that has a premise inside: a manifest with a denied capability\<close>

theorem decide_most_severe_witness:
  "pd_decision (decide delete_skill deny_policy []) = Deny \<and> pd_decision (decide read_skill deny_policy []) = Allow"
  using decide_most_severe [of delete_skill deny_policy "[]"] decide_most_severe [of read_skill deny_policy "[]"]
  by code_simp

text \<open>A policy that is at least as strict in every field never leads to a milder decision.\<close>

theorem decide_monotone:
  assumes "stricter_policy q p"
  shows "pd_decision (decide m p args) \<le> pd_decision (decide m q args)"
  using assms by (rule decide_mono)

theorem decide_monotone_witness:
  "pd_decision (decide delete_skill default_policy []) \<le> pd_decision (decide delete_skill deny_policy [])"
  by (rule decide_monotone)
    (simp add: stricter_policy_def deny_policy_def default_policy_def less_eq_decision_def)

section \<open>The skill runner\<close>

text \<open>C30 The runtime enforcement is fail-closed: a skill passes it only if its capabilities are declared,
  known, distinct and non-empty, it does not ask for a network its manifest rules out, and the policy does
  not deny it; when it passes, the enforcement carries the policy's decision and reason unchanged.\<close>

theorem enforcement_fail_closed:
  "let e = enforce_runtime_capabilities m p args in
   (ce_denied e \<longleftrightarrow> \<not> well_declared m \<or> (network_requested args \<and> \<not> m_needs_network m)
      \<or> pd_decision (decide m p args) = Deny)
   \<and> (ce_denied e \<or> (ce_needs_approval e \<longleftrightarrow> pd_decision (decide m p args) = Ask))
   \<and> (ce_denied e \<or> ce_decision e = pd_decision (decide m p args))
   \<and> (ce_allowed e \<longleftrightarrow> \<not> ce_denied e \<and> \<not> ce_needs_approval e)"
  unfolding Let_def
  using not_denied_iff [of m p args] enforcement_decision [of m p args]
    enforcement_one_outcome [OF refl, of m p args] by blast

theorem enforcement_fail_closed_witness:
  "ce_denied (enforce_runtime_capabilities delete_skill deny_policy [])"
proof -
  have "pd_decision (decide delete_skill deny_policy []) = Deny" by code_simp
  with enforcement_fail_closed [where m = delete_skill and p = deny_policy and args = "[]"]
  show ?thesis unfolding Let_def by blast
qed

text \<open>The canonical form of a skill's arguments is a normal form: canonicalising it again gives the
  same arguments.\<close>

theorem canonicalize_idempotent:
  assumes "canonicalize_args sid args = Inr args'"
  shows "canonicalize_args sid args' = Inr args'"
  using assms by (rule canonicalize_args_idem)

theorem canonicalize_idempotent_witness:
  "canonicalize_args ''system.set_volume'' [(''percent'', PStr ''100'')] = Inr [(''percent'', PStr ''100'')]"
proof (rule canonicalize_idempotent)
  show "canonicalize_args ''system.set_volume'' [(''percent'', PInt 250)] = Inr [(''percent'', PStr ''100'')]"
    by code_simp
qed

text \<open>C39 Canonicalisation fails in one way only, with the \<open>OverflowError\<close> that the handler around the
  conversion of a volume does not catch, and exactly then: for a \<open>percent\<close> that is an infinite float, a
  text that reads as one, or an integer from \<open>2 ^ 1024 - 2 ^ 970\<close> on, too large for a float. Every other
  argument of every skill is accepted.\<close>

theorem canonicalize_error:
  "case canonicalize_args sid args of
     Inl e \<Rightarrow> class_of e = OverflowError \<and> sid = ''system.set_volume'' \<and> float_overflow (get args ''percent'')
   | Inr args' \<Rightarrow> \<not> (sid = ''system.set_volume'' \<and> float_overflow (get args ''percent''))"
proof (cases "canonicalize_args sid args")
  case (Inl e)
  from canonical_raises_only_overflow [OF this] have o: "class_of e = OverflowError" by blast
  have "sid = ''system.set_volume'' \<and> float_overflow (get args ''percent'')"
    by (rule canonicalize_raises [THEN iffD1]) (rule exI [of _ e], rule conjI [OF Inl o])
  with o Inl show ?thesis by simp
next
  case (Inr args')
  then show ?thesis using canonicalize_raises [of sid args] by simp
qed

theorem canonicalize_error_witness:
  "\<exists>e. canonicalize_args ''system.set_volume'' [(''percent'', PInt (10 ^ 400))] = Inl e
     \<and> class_of e = OverflowError"
proof -
  let ?a = "[(''percent'', PInt (10 ^ 400))]"
  have "float_overflow (get ?a ''percent'')" by (simp add: float_overflow_def)
  then show ?thesis
    using canonicalize_error [of "''system.set_volume''" ?a]
    by (cases "canonicalize_args ''system.set_volume'' ?a") simp_all
qed

text \<open>C40 The canonical result of a skill survives being stored in the run's data and read back, and what
  is read always has the types its readers rely on.\<close>

theorem skill_result_roundtrip:
  "extract_skill_result [(skill_result_key, PDict (extract_skill_result d))] = extract_skill_result d
   \<and> is_str (get (extract_skill_result d) ''summary'') \<and> is_dict (get (extract_skill_result d) ''machine_payload'')
   \<and> is_list (get (extract_skill_result d) ''output_artifacts'')
   \<and> get (extract_skill_result d) ''blocked'' \<in> {PNone, PBool True, PBool False}
   \<and> get (extract_skill_result d) ''retryable'' \<in> {PNone, PBool True, PBool False}"
  by (intro conjI extract_roundtrip extract_types)

text \<open>C32 Whatever value is logged, each string in it that is under a secret key or looks like a secret is
  replaced, each other string is kept, and no string is lost or added.\<close>

theorem audit_redaction:
  "leaves k (sanitize_audit_value k v) = map (\<lambda>(k, s). (k, redact_value k s)) (leaves k v)
   \<and> (\<forall>(k', s') \<in> set (leaves k (sanitize_audit_value k v)).
        s' = ''REDACTED'' \<or> (\<not> secret_key k' \<and> \<not> looks_secret_value s'))"
  using redact_value_safe by (fastforce simp: sanitize_leaves)

theorem audit_redaction_witness:
  "leaves [] (sanitize_audit_value [] (PDict [(''token'', PStr ''abc''), (''note'', PStr ''hi'')])) =
     [(''token'', ''REDACTED''), (''note'', ''hi'')]"
  using audit_redaction [of "[]" "PDict [(''token'', PStr ''abc''), (''note'', PStr ''hi'')]"]
  by code_simp

section \<open>The sandbox\<close>

lemma launch_request:
  assumes "sandbox_checks args = Inr (Inr q)"
  shows "canonicalize_argv args = Inr (sr_command q)" and "0 < sr_timeout q"
    and "fst ` set (sr_env q) \<subseteq> set default_env_allowlist"
    and "sr_network q \<longleftrightarrow> network_requested args"
proof -
  show "canonicalize_argv args = Inr (sr_command q)" "0 < sr_timeout q"
    by (rule sandbox_checks_request [OF assms], blast)+
  show "fst ` set (sr_env q) \<subseteq> set default_env_allowlist"
    by (rule sandbox_checks_request [OF assms]) force
  have "parse_network_setting (get_or args ''network'' (PBool False)) = Inr (sr_network q)"
    by (rule sandbox_checks_request [OF assms], blast)
  then show "sr_network q \<longleftrightarrow> network_requested args" using parse_network_agrees [of args] by auto
qed

text \<open>C31 A process is attempted only for a request that passed every check: its command is the canonical
  form of the arguments, its timeout is positive, only allow-listed environment variables reach it, and
  the network is bridged only when the arguments ask for it. What the attempt does decides the run: an
  exception of \<open>subprocess.run\<close> leaves \<open>command.txt\<close> alone and is passed on, and the result is ok exactly
  when the process ended with exit code 0. Without an attempt no file is written and the run does not
  succeed.\<close>

theorem sandbox_launch_checked:
  "(\<exists>q :: sandbox_request. st_attempted (podman_run cfg se sp skill args)
        = [podman_command cfg se (sr_env q) (sr_network q) (sr_command q)]
      \<and> canonicalize_argv args = Inr (sr_command q) \<and> 0 < sr_timeout q
      \<and> fst ` set (sr_env q) \<subseteq> set default_env_allowlist
      \<and> (sr_network q \<longleftrightarrow> network_requested args)
      \<and> (case sp (podman_command cfg se (sr_env q) (sr_network q) (sr_command q)) (sr_timeout q) of
           Raised e \<Rightarrow> st_result (podman_run cfg se sp skill args) = Inl e
             \<and> map fst (st_written (podman_run cfg se sp skill args)) = [se_artifacts se @ ''/command.txt'']
         | Completed c out err \<Rightarrow>
             (\<exists>r. st_result (podman_run cfg se sp skill args) = Inr r \<and> (rr_ok r \<longleftrightarrow> c = 0))
         | TimedOut out err \<Rightarrow>
             (\<exists>r. st_result (podman_run cfg se sp skill args) = Inr r \<and> \<not> rr_ok r)))
   \<or> (st_attempted (podman_run cfg se sp skill args) = []
      \<and> st_written (podman_run cfg se sp skill args) = []
      \<and> (\<forall>r. st_result (podman_run cfg se sp skill args) = Inr r \<longrightarrow> \<not> rr_ok r))"
proof (rule podman_run_cases [of args cfg se sp skill])
  fix q
  assume q: "sandbox_checks args = Inr (Inr q)"
    and run: "podman_run cfg se sp skill args = run_process cfg se sp skill q"
  show ?thesis unfolding run
    by (intro disjI1 exI [of _ q] conjI launch_request [OF q] run_process_attempted run_process_result)
qed blast

theorem sandbox_launch_checked_witness:
  "st_written (podman_run sample_sandbox sample_sandbox_env (\<lambda>c t. Completed 0 [] []) ''sandbox.exec'' []) = []
   \<and> st_attempted (podman_run sample_sandbox sample_sandbox_env (\<lambda>c t. Raised (Exc (OtherError ''OSError'') [])) ''sandbox.exec''
      [(''command'', PList [PStr ''ls''])]) \<noteq> []"
proof -
  let ?run = "podman_run sample_sandbox sample_sandbox_env (\<lambda>c t. Completed 0 [] []) ''sandbox.exec'' []"
  have "st_attempted ?run = []" by code_simp
  then have "st_written ?run = []"
    using sandbox_launch_checked [of sample_sandbox sample_sandbox_env "\<lambda>c t. Completed 0 [] []" "''sandbox.exec''" "[]"]
    by auto
  moreover have "st_attempted (podman_run sample_sandbox sample_sandbox_env (\<lambda>c t. Raised (Exc (OtherError ''OSError'') []))
      ''sandbox.exec'' [(''command'', PList [PStr ''ls''])]) \<noteq> []" by code_simp
  ultimately show ?thesis by simp
qed

section \<open>Missions\<close>

text \<open>C5 A mission that succeeds has run every step, in order, each one succeeding and none waiting for
  approval, and none that the policy denies; it ends in the state after the last step but for the
  mission's closing record in the log. A mission that does not was stopped at the first step that failed,
  raised or waits, and ends in the very state that step left, but for the record of the failure: nothing
  behind it was run.\<close>

theorem mission_run_outcome:
  assumes "mission_run env mi 1 ctx s = (r, s')"
  shows "(\<exists>rr s1 os. r = Inr rr \<and> rr_ok rr
            \<and> steps_done env mi ctx 1 (mi_steps mi)
                (log_event [(''event'', PStr ''mission_start''), (''mission'', PStr (mi_id mi)),
                  (''steps'', PInt (int (length (mi_steps mi)))), (''start_step'', PInt 1)] s) s1
            \<and> s' = append_mission_log env mi os ''ok'' None (log_event [(''event'', PStr ''mission_done''),
                (''mission'', PStr (mi_id mi)), (''steps'', PInt (int (length (mi_steps mi))))] s1)
            \<and> (\<forall>st \<in> set (mi_steps mi). step_decision (me_registry env) (me_policy env) st \<noteq> Some Deny))
       \<or> (\<exists>s1. run_stopped env mi ctx 1 (mi_steps mi)
                (log_event [(''event'', PStr ''mission_start''), (''mission'', PStr (mi_id mi)),
                  (''steps'', PInt (int (length (mi_steps mi)))), (''start_step'', PInt 1)] s) r s1
            \<and> (s' = s1 \<or> (\<exists>os status p e. s' = append_mission_log env mi os status p (log_event e s1))))"
proof -
  have "1 \<le> int 1" by simp
  from mission_loop_outcome [OF assms [unfolded mission_run_def] this] show ?thesis
    using steps_done_not_denied by blast
qed

theorem mission_run_outcome_witness:
  "\<exists>rr. fst (mission_run sample_mission_env read_mission 1 [] sample_run_state) = Inr rr \<and> rr_ok rr"
proof -
  have fin: "case fst (mission_run sample_mission_env read_mission 1 [] sample_run_state) of
      Inr rr \<Rightarrow> rr_ok rr | Inl e \<Rightarrow> False" by code_simp
  obtain r s' where run: "mission_run sample_mission_env read_mission 1 [] sample_run_state = (r, s')"
    by (cases "mission_run sample_mission_env read_mission 1 [] sample_run_state")
  from mission_run_outcome [OF this] fin run show ?thesis by (auto split: sum.splits)
qed

lemma run_stopped_not_ok: "run_stopped env mi ctx idx steps s (Inr rr) s' \<Longrightarrow> \<not> rr_ok rr"
  unfolding run_stopped_def
proof (elim exE conjE)
  fix r1 :: "run_result result"
  assume "case r1 of Inl ex \<Rightarrow> Inr rr = Inl ex
    | Inr rr1 \<Rightarrow> (pending_approval rr1 \<or> \<not> rr_ok rr1) \<and> (\<exists>x. Inr rr = Inr x \<and> \<not> rr_ok x)"
  then show "\<not> rr_ok rr" by (cases r1) auto
qed

text \<open>C6 What the dry run calls blocked cannot succeed: if the simulation of a mission is blocked, no run
  of it, in any context and from any state, succeeds.\<close>

theorem blocked_dry_run_never_succeeds:
  assumes "mission_simulate (me_registry env) (me_policy env) mi snap = Inr plan" and "mp_blocked plan"
    and "fst (mission_run env mi 1 ctx s) = Inr rr"
  shows "\<not> rr_ok rr"
proof
  assume ok: "rr_ok rr"
  obtain s' where "mission_run env mi 1 ctx s = (Inr rr, s')"
    using assms(3) by (cases "mission_run env mi 1 ctx s") auto
  note outcome = mission_loop_outcome [OF this [unfolded mission_run_def]]
  have "1 \<le> int 1" by simp
  from outcome [OF this] ok obtain s0 s1 where "steps_done env mi ctx 1 (mi_steps mi) s0 s1"
    by (blast dest: run_stopped_not_ok)
  with mission_simulate_facts(1) [OF assms(1)] assms(2) show False
    by (blast dest: steps_done_not_denied)
qed

theorem blocked_dry_run_never_succeeds_witness:
  "\<exists>rr. fst (mission_run (sample_mission_env\<lparr>me_policy := deny_policy\<rparr>) delete_mission 1 [] sample_run_state) = Inr rr
     \<and> \<not> rr_ok rr"
proof -
  let ?env = "sample_mission_env\<lparr>me_policy := deny_policy\<rparr>"
  have sim: "case mission_simulate sample_registry deny_policy delete_mission None of
      Inr p \<Rightarrow> mp_blocked p | Inl e \<Rightarrow> False" by code_simp
  have ret: "isOk (fst (mission_run ?env delete_mission 1 [] sample_run_state))" by code_simp
  obtain plan where plan: "mission_simulate (me_registry ?env) (me_policy ?env) delete_mission None = Inr plan"
      "mp_blocked plan"
    using sim by (auto simp: sample_mission_env_def split: sum.splits)
  obtain rr where rr: "fst (mission_run ?env delete_mission 1 [] sample_run_state) = Inr rr"
    using ret by (auto simp: isOk_iff)
  from blocked_dry_run_never_succeeds [OF plan rr] rr show ?thesis by blast
qed

text \<open>The accounting of a dry run: it is blocked exactly when a step is denied, it counts one approval
  per step the policy asks for, it lists one plan step per step and exactly the capabilities of the
  skills, sorted and without repetition.\<close>

theorem dry_run_accounting:
  assumes "mission_simulate registry p mi snap = Inr plan"
  shows "(mp_blocked plan \<longleftrightarrow> (\<exists>st \<in> set (mi_steps mi). step_decision registry p st = Some Deny))
    \<and> mp_approvals plan = length (filter (\<lambda>st. step_decision registry p st = Some Ask) (mi_steps mi))
    \<and> set (mp_capabilities plan) =
        {c. \<exists>st \<in> set (mi_steps mi). \<exists>m. registry (mst_skill st) = Inr m \<and> c \<in> set (m_capabilities m)}
    \<and> sorted (mp_capabilities plan) \<and> distinct (mp_capabilities plan)
    \<and> length (mp_steps plan) = length (mi_steps mi)"
  using mission_simulate_facts [OF assms] by blast

theorem dry_run_accounting_witness:
  "\<exists>plan. mission_simulate sample_registry default_policy delete_mission None = Inr plan \<and> mp_approvals plan = 1"
proof -
  have ret: "isOk (mission_simulate sample_registry default_policy delete_mission None)" by code_simp
  then obtain plan where plan: "mission_simulate sample_registry default_policy delete_mission None = Inr plan"
    by (auto simp: isOk_iff)
  have "length (filter (\<lambda>st. step_decision sample_registry default_policy st = Some Ask) (mi_steps delete_mission)) = 1"
    by code_simp
  with dry_run_accounting [OF plan] plan show ?thesis by auto
qed

text \<open>A mission resumed at a step runs exactly the steps from there on: the run is the run of the rest of
  the mission with the numbering continued.\<close>

theorem mission_resume_skips_done:
  assumes "1 \<le> start" and "nat start \<le> Suc (length (mi_steps mi))"
  shows "mission_run env mi start ctx s =
    mission_loop env mi ctx start (nat start) (drop (nat start - 1) (mi_steps mi)) [] []
       (log_event [(''event'', PStr ''mission_start''), (''mission'', PStr (mi_id mi)),
          (''steps'', PInt (int (length (mi_steps mi)))), (''start_step'', PInt start)] s)"
  using assms by (rule mission_run_resume)

theorem mission_resume_skips_done_witness:
  "mission_run sample_mission_env delete_mission 2 [] sample_run_state =
    mission_loop sample_mission_env delete_mission [] 2 2 [\<lparr>mst_skill = ''files.delete_file'', mst_args = []\<rparr>] [] []
       (log_event [(''event'', PStr ''mission_start''), (''mission'', PStr ''m''),
          (''steps'', PInt 2), (''start_step'', PInt 2)] sample_run_state)"
  using mission_resume_skips_done [of 2 delete_mission sample_mission_env "[]" sample_run_state]
  by (simp add: delete_mission_def read_mission_def)

end
