(* ===== verification/Contract_Theorems.thy ===== *)
theory Contract_Theorems
  imports Samples
begin

text \<open>
  The properties of the queue's data contracts: the requests of a payload, lineage, intent routing, the
  result of an execution and the state snapshot, each with a witness where it has hypotheses.
\<close>

section \<open>Requests\<close>

text \<open>A write-file request that is accepted is in normal form: its path is stripped and not empty, its
  mode one of the two, and extracting it again from its own form gives the same request.\<close>

theorem write_file_roundtrip:
  assumes "extract_write_file_request payload = Inr (PDict d)"
  shows "extract_write_file_request [(''write_file'', PDict d)] = Inr (PDict d)
    \<and> (\<exists>path mode. get d ''path'' = PStr path \<and> path \<noteq> [] \<and> strip path = path
         \<and> get d ''mode'' = PStr mode \<and> mode \<in> {''overwrite'', ''append''})"
proof -
  from write_file_request [OF assms] obtain path content mode where
    d: "d = [(''path'', PStr path), (''content'', PStr content), (''mode'', PStr mode)]"
    and ok: "path \<noteq> []" "strip path = path" "mode \<in> {''overwrite'', ''append''}" by blast
  from write_file_again [OF ok, of content] ok show ?thesis unfolding d by simp
qed

theorem write_file_roundtrip_witness:
  "\<exists>d. extract_write_file_request [(''write_file'', PDict [(''path'', PStr '' a.txt ''), (''content'', PStr ''x'')])]
      = Inr (PDict d) \<and> extract_write_file_request [(''write_file'', PDict d)] = Inr (PDict d)"
proof -
  have "extract_write_file_request [(''write_file'', PDict [(''path'', PStr '' a.txt ''), (''content'', PStr ''x'')])]
      = Inr (PDict [(''path'', PStr ''a.txt''), (''content'', PStr ''x''), (''mode'', PStr ''overwrite'')])"
    by code_simp
  with write_file_roundtrip [OF this] show ?thesis by blast
qed

text \<open>A file-organize request that is accepted is in normal form, and the mission built from it deletes
  the original last, and only for a copy that asked for it.\<close>

theorem file_organize_roundtrip:
  assumes "extract_file_organize_request payload = Inr (PDict d)"
  shows "extract_file_organize_request [(''file_organize'', PDict d)] = Inr (PDict d)
    \<and> (\<exists>src dst mode ow del. get d ''source_path'' = PStr src \<and> get d ''destination_dir'' = PStr dst
         \<and> get d ''mode'' = PStr mode \<and> mode \<in> {''copy'', ''move''}
         \<and> get d ''overwrite'' = PBool ow \<and> get d ''delete_original'' = PBool del
         \<and> (''files.delete_file'' \<in> mst_skill ` set (file_organize_steps src dst mode ow del)
              \<longleftrightarrow> mode = ''copy'' \<and> del))"
proof -
  from file_organize_request [OF assms] obtain src dst mode ow del where
    d: "d = [(''source_path'', PStr src), (''destination_dir'', PStr dst), (''mode'', PStr mode),
        (''overwrite'', PBool ow), (''delete_original'', PBool del)]"
    and ok: "src \<noteq> []" "strip src = src" "dst \<noteq> []" "strip dst = dst" "mode \<in> {''copy'', ''move''}" by blast
  have "mst_skill ` set (file_organize_steps src dst mode ow del)
      = set (map mst_skill (file_organize_steps src dst mode ow del))" by simp
  also have "\<dots> = set ([''files.exists'', ''files.stat'', ''files.mkdir'']
     @ (if mode = ''copy'' then ''files.copy_file'' # (if del then [''files.delete_file''] else [])
        else [''files.move_file'']))" by (simp only: file_organize_steps_safe)
  finally have del: "''files.delete_file'' \<in> mst_skill ` set (file_organize_steps src dst mode ow del)
      \<longleftrightarrow> mode = ''copy'' \<and> del" by simp
  have get: "get d ''source_path'' = PStr src" "get d ''destination_dir'' = PStr dst"
    "get d ''mode'' = PStr mode" "get d ''overwrite'' = PBool ow" "get d ''delete_original'' = PBool del"
    by (simp_all add: d)
  from file_organize_again [OF ok d] get del ok(5) show ?thesis by blast
qed

theorem file_organize_roundtrip_witness:
  "extract_file_organize_request [(''file_organize'', PDict [(''source_path'', PStr ''a''),
      (''destination_dir'', PStr ''b''), (''mode'', PStr ''move''), (''overwrite'', PBool False),
      (''delete_original'', PBool False)])]
   = Inr (PDict [(''source_path'', PStr ''a''),
      (''destination_dir'', PStr ''b''), (''mode'', PStr ''move''), (''overwrite'', PBool False),
      (''delete_original'', PBool False)])"
proof -
  have "extract_file_organize_request [(''file_organize'', PDict [(''source_path'', PStr '' a ''),
      (''destination_dir'', PStr ''b''), (''mode'', PStr ''Move'')])]
   = Inr (PDict [(''source_path'', PStr ''a''),
      (''destination_dir'', PStr ''b''), (''mode'', PStr ''move''), (''overwrite'', PBool False),
      (''delete_original'', PBool False)])" by code_simp
  with file_organize_roundtrip [OF this] show ?thesis by blast
qed

text \<open>The kind of a request is always one of the canonical or the declared non-canonical kinds, and the
  enrichment of a payload with its job intent keeps every field the payload has and does not change the
  kind it is routed by.\<close>

theorem request_kind_stable:
  "detect_request_kind payload \<in> set canonical_kinds \<union> set non_canonical_kinds
   \<and> (\<not> has_key payload k \<or> k = ''job_intent'' \<or> get (enrich_queue_job_payload payload lane) k = get payload k)
   \<and> get (build_queue_job_intent (enrich_queue_job_payload payload ''queue'') lane') ''request_kind''
       = get (build_queue_job_intent payload ''queue'') ''request_kind''"
proof -
  have "clean ''queue''" by code_simp
  with detect_kind_range enrich_keeps enrich_again_routing(1) show ?thesis by blast
qed

theorem request_kind_stable_witness:
  "detect_request_kind [(''goal'', PStr ''x'')] \<in> set canonical_kinds \<union> set non_canonical_kinds
   \<and> get (enrich_queue_job_payload [(''goal'', PStr ''x'')] ''queue'') ''goal'' = PStr ''x''"
  using request_kind_stable [of "[(''goal'', PStr ''x'')]" "''goal''" "''queue''" "''queue''"] by simp

section \<open>Lineage\<close>

text \<open>The lineage the queue writes into a child's payload reads back unchanged.\<close>

theorem lineage_roundtrip:
  assumes "compute_child_lineage j payload = Inr l" and "job_id_ok j"
    and "get child ''lineage'' = PDict (lineage_dict l)"
  shows "extract_lineage_metadata child = Inr (Some l)"
  using extract_lineage_dict [OF compute_child_wf(1) [OF assms(1,2)] assms(3)] .

theorem lineage_roundtrip_witness:
  "\<exists>l. compute_child_lineage ''a.json'' [] = Inr l
    \<and> extract_lineage_metadata [(''lineage'', PDict (lineage_dict l))] = Inr (Some l)"
proof -
  have "isOk (compute_child_lineage ''a.json'' [])" by code_simp
  then obtain l where l: "compute_child_lineage ''a.json'' [] = Inr l" by (auto simp: isOk_iff)
  have "job_id_ok ''a.json''" by code_simp
  with lineage_roundtrip [OF l, of "[(''lineage'', PDict (lineage_dict l))]"] l show ?thesis by simp
qed

text \<open>Along a line of descent that starts at a job without a root, every job's lineage names its
  parent, all of them name the first job as root, and the depth grows by one with each generation.\<close>

theorem descent_lineage:
  assumes "descend (j # js) payload = Inr ls" and "\<forall>k \<in> set (j # js). job_id_ok k"
    and "get (lineage_source payload) ''root_job_id'' = PNone" and "i < length (j # js)"
  shows "ln_parent (ls ! i) = Some ((j # js) ! i) \<and> ln_root (ls ! i) = Some j
    \<and> ln_depth (ls ! i) = ln_depth (ls ! 0) + int i"
  using descend_first [OF assms(1-3)] assms(4) by blast

theorem descent_lineage_witness:
  "\<exists>ls. descend [''a.json'', ''b.json'', ''c.json''] [] = Inr ls \<and> ln_root (ls ! 2) = Some ''a.json''"
proof -
  have "isOk (descend [''a.json'', ''b.json'', ''c.json''] [])" by code_simp
  then obtain ls where ls: "descend [''a.json'', ''b.json'', ''c.json''] [] = Inr ls" by (auto simp: isOk_iff)
  have ok: "\<forall>k \<in> set [''a.json'', ''b.json'', ''c.json'']. job_id_ok k" by code_simp
  have "get (lineage_source []) ''root_job_id'' = PNone" by code_simp
  from descent_lineage [OF ls ok this, of 2] ls show ?thesis by simp
qed

section \<open>Results\<close>

text \<open>The comparison of expected and observed artifacts splits the expected ones: each is observed or
  missing and none is both, and the status says exactly which of the two lists is empty.\<close>

theorem expected_artifacts_split:
  assumes "ob = compare_expected_artifacts expected families refs"
  shows "set (ob_observed ob) \<union> set (ob_missing ob) = set (map strip expected)
    \<and> set (ob_observed ob) \<inter> set (ob_missing ob) = {}
    \<and> (ob_status ob = ''none_declared'' \<longleftrightarrow> expected = [])
    \<and> (ob_status ob = ''observed'' \<longleftrightarrow> expected \<noteq> [] \<and> ob_missing ob = [])
    \<and> (ob_status ob = ''partial'' \<longleftrightarrow> ob_missing ob \<noteq> [] \<and> ob_observed ob \<noteq> [])
    \<and> (ob_status ob = ''missing'' \<longleftrightarrow> expected \<noteq> [] \<and> ob_observed ob = [] \<and> ob_missing ob \<noteq> [])"
  using compare_partition [OF assms] by blast

theorem expected_artifacts_split_witness:
  "ob_status (compare_expected_artifacts [''plan.json'', ''x.txt''] [''plan''] []) \<noteq> ''none_declared''"
  using expected_artifacts_split [OF refl, of "[''plan.json'', ''x.txt'']" "[''plan'']" "[]"] by blast

text \<open>Refreshing the artifact contract of a stored result is idempotent as long as the artifacts on
  disk are the same.\<close>

theorem refresh_idempotent:
  "refresh_execution_result (refresh_execution_result result exists) exists = refresh_execution_result result exists"
  by (rule refresh_idem)

text \<open>Every structured step result comes from an entry of the run with a positive step number, which it
  keeps with the error class; it is reported as blocked with a reason class when the error class is a
  boundary violation, and without a reason class when it is not.\<close>

theorem structured_step_boundary:
  assumes "build_structured_step_results rd tot [] = Inr rs" and "r \<in> set rs"
  shows "\<exists>item idx. PDict item \<in> set (the_list (get rd ''results'')) \<and> 0 < idx
    \<and> get r ''step_index'' = PInt idx \<and> get r ''error_class'' = get item ''error_class''
    \<and> (if clean_lower (get item ''error_class'') \<in> set boundary_blocked_classes
       then get r ''blocked'' = PBool True \<and> is_str (get r ''blocked_reason_class'')
       else is_bool (get r ''blocked'') \<and> get r ''blocked_reason_class'' = PNone)"
proof -
  from assms(1) obtain outcomes where "structured_steps outcomes tot (the_list (get rd ''results'')) = Inr rs"
    unfolding build_structured_step_results_def bindR_eq_Inr by (elim exE conjE) (simp split: if_split_asm)
  from structured_steps_indices [OF this assms(2)] obtain item idx where
    item: "PDict item \<in> set (the_list (get rd ''results''))" "0 < idx" "structured_step outcomes tot item idx = Inr r"
    by blast
  from structured_step_fields(1,2) [OF item(3)] structured_step_facts [OF item(3)] item(1,2) show ?thesis
    by (intro exI [of _ item] exI [of _ idx]) simp
qed

theorem structured_step_boundary_witness:
  "\<exists>rs. build_structured_step_results [(''results'', PList [PDict [(''step'', PInt 1),
      (''error_class'', PStr ''policy_denied'')]])] 1 [] = Inr rs
    \<and> (\<forall>r \<in> set rs. get r ''error_class'' = PStr ''policy_denied'' \<and> get r ''blocked'' = PBool True)"
proof -
  let ?rd = "[(''results'', PList [PDict [(''step'', PInt 1), (''error_class'', PStr ''policy_denied'')]])]"
  have "isOk (build_structured_step_results ?rd 1 [])" by code_simp
  then obtain rs where rs: "build_structured_step_results ?rd 1 [] = Inr rs" by (auto simp: isOk_iff)
  have cls: "clean_lower (PStr ''policy_denied'') \<in> set boundary_blocked_classes" by code_simp
  have "get r ''error_class'' = PStr ''policy_denied'' \<and> get r ''blocked'' = PBool True" if "r \<in> set rs" for r
    using structured_step_boundary [OF rs that] cls by auto
  with rs show ?thesis by blast
qed

section \<open>Evaluation\<close>

text \<open>C38 A replan is proposed exactly for a goal request whose run failed, is neither blocked nor waiting
  for approval, and whose last step was a planner mismatch or marked itself retryable; and then the class
  of the evaluation is one that allows it.\<close>

theorem replan_exactly:
  assumes "evaluate_run_result rr kind = Inr ev"
  shows "(ev_replan ev \<longleftrightarrow> kind = ''goal'' \<and> \<not> rr_ok rr
      \<and> str_or_empty (get (rr_data rr) ''status'') \<noteq> ''pending_approval''
      \<and> str_or_empty (get (rr_data rr) ''terminal_outcome'') \<noteq> ''blocked''
      \<and> ((\<exists>e \<in> set replannable_error_classes. get (last_step_result (rr_data rr)) ''error_class'' = PStr e)
         \<or> get (last_step_result (rr_data rr)) ''retryable'' = PBool True))
    \<and> (\<not> ev_replan ev \<or> replan_allowed_for_class (ev_class ev))
    \<and> (ev_class ev = Succeeded \<longleftrightarrow> rr_ok rr)"
  using replan_iff [OF assms] replan_class [OF assms] evaluation_succeeded_iff [OF assms] by blast

theorem replan_exactly_witness:
  "\<exists>ev. evaluate_run_result \<lparr>rr_ok = False, rr_output = [],
      rr_data = [(''results'', PList [PDict [(''error_class'', PStr ''skill_not_found'')]])], rr_error = None\<rparr> ''goal''
     = Inr ev \<and> ev_replan ev"
proof -
  let ?rr = "\<lparr>rr_ok = False, rr_output = [],
      rr_data = [(''results'', PList [PDict [(''error_class'', PStr ''skill_not_found'')]])], rr_error = None\<rparr>"
  have "isOk (evaluate_run_result ?rr ''goal'')" by code_simp
  then obtain ev where ev: "evaluate_run_result ?rr ''goal'' = Inr ev" by (auto simp: isOk_iff)
  have "\<exists>e \<in> set replannable_error_classes. get (last_step_result (rr_data ?rr)) ''error_class'' = PStr e"
    by code_simp
  moreover have "str_or_empty (get (rr_data ?rr) ''status'') \<noteq> ''pending_approval''"
    "str_or_empty (get (rr_data ?rr) ''terminal_outcome'') \<noteq> ''blocked''" by code_simp+
  moreover have "\<not> rr_ok ?rr" by simp
  ultimately show ?thesis using replan_exactly [OF ev] ev by blast
qed

section \<open>Job state\<close>

text \<open>C35 Every lifecycle update that returns gives a well-formed snapshot: a known lifecycle state whose
  transition is stamped with the update, a completion time exactly in the completed states, a terminal
  outcome out of the vocabulary or none, and fixed types; and a job that is done or waits has an outcome
  unless the one that the update was given is outside the vocabulary.\<close>

theorem snapshot_well_formed:
  assumes "update_job_state_snapshot ref lc current ts a = Inr d"
  shows "wf_snapshot d
    \<and> (get d ''lifecycle_state'' \<in> {PStr ''done'', PStr ''awaiting_approval''} \<and> get d ''terminal_outcome'' = PNone
       \<longrightarrow> foreign_terminal (given_terminal (case sn_rr a of None \<Rightarrow> [] | Some r \<Rightarrow> r) current (sn_terminal a)))"
  using snapshot_wf [OF assms] snapshot_terminal [OF assms] by blast

theorem snapshot_well_formed_witness:
  "\<exists>d. update_job_state_snapshot ''q/done/a.json'' ''done''
       [(''terminal_outcome'', PStr ''lost''), (''started_at_ms'', PInt 3), (''mission'', PStr ''m'')] 5
       (no_args\<lparr>sn_rr := Some [(''terminal_outcome'', PStr '' Failed '')]\<rparr>) = Inr d
     \<and> wf_snapshot d \<and> get d ''terminal_outcome'' = PStr ''failed''"
proof -
  let ?c = "[(''terminal_outcome'', PStr ''lost''), (''started_at_ms'', PInt 3), (''mission'', PStr ''m'')]"
    and ?a = "no_args\<lparr>sn_rr := Some [(''terminal_outcome'', PStr '' Failed '')]\<rparr>"
  have "case update_job_state_snapshot ''q/done/a.json'' ''done'' ?c 5 ?a of
      Inl e \<Rightarrow> False | Inr d \<Rightarrow> get d ''terminal_outcome'' = PStr ''failed''" by code_simp
  then obtain d where d: "update_job_state_snapshot ''q/done/a.json'' ''done'' ?c 5 ?a = Inr d"
    and t: "get d ''terminal_outcome'' = PStr ''failed''" by (auto split: sum.splits)
  from snapshot_well_formed [OF d] d t show ?thesis by blast
qed

text \<open>C36 The history of a job is kept: an update does not change the first start of the job nor the
  times of the states it passed through.\<close>

theorem snapshot_keeps_history:
  assumes "update_job_state_snapshot ref lc current ts a = Inr d"
    and "get current ''started_at_ms'' = PInt n" and "n \<noteq> 0"
    and "get current ''transitions'' = PDict t" and "has_key t k" and "k \<noteq> normalize_lifecycle lc"
  shows "get d ''started_at_ms'' = PInt n
    \<and> has_key (the_dict (get d ''transitions'')) k \<and> get (the_dict (get d ''transitions'')) k = get t k"
  using snapshot_history [OF assms(1)] assms(2-6) by blast

theorem snapshot_keeps_history_witness:
  "\<exists>d. update_job_state_snapshot ''q/inbox/a.json'' ''running''
       [(''started_at_ms'', PInt 3), (''transitions'', PDict [(''queued'', PInt 3)])] 5 no_args = Inr d
     \<and> get d ''started_at_ms'' = PInt 3"
proof -
  let ?c = "[(''started_at_ms'', PInt 3), (''transitions'', PDict [(''queued'', PInt 3)])]"
  have "isOk (update_job_state_snapshot ''q/inbox/a.json'' ''running'' ?c 5 no_args)" by code_simp
  then obtain d where d: "update_job_state_snapshot ''q/inbox/a.json'' ''running'' ?c 5 no_args = Inr d"
    by (auto simp: isOk_iff)
  have "''queued'' \<noteq> normalize_lifecycle ''running''" by code_simp
  with snapshot_keeps_history [OF d, of 3 "[(''queued'', PInt 3)]" "''queued''"] d show ?thesis by simp
qed

section \<open>Intent routing\<close>

text \<open>A serialised route that leaves the sanitiser as a file read either names no target or one inside
  the notes directory without a parent segment; every other field of the route is untouched.\<close>

theorem sanitized_route_safe:
  assumes "text_or_empty (get (sanitize_intent_route route) ''intent_kind'') = ''read_file''"
    and "has_key (sanitize_intent_route route) ''extracted_target''"
  shows "(\<exists>t. get (sanitize_intent_route route) ''extracted_target'' = PStr t
      \<and> starts_with t ''~/VoxeraOS/notes/'' \<and> ''..'' \<notin> set (split_on CHR ''/'' t))
    \<and> (k = ''extracted_target'' \<or> get (sanitize_intent_route route) k = get route k)"
  using sanitized_read_target [OF assms] safe_target_segments sanitize_other_fields by blast

theorem sanitized_route_safe_witness:
  "\<exists>t. get (sanitize_intent_route [(''intent_kind'', PStr ''read_file''),
      (''extracted_target'', PStr ''~/VoxeraOS/notes/a.md'')]) ''extracted_target'' = PStr t
    \<and> ''..'' \<notin> set (split_on CHR ''/'' t)"
proof -
  let ?r = "[(''intent_kind'', PStr ''read_file''), (''extracted_target'', PStr ''~/VoxeraOS/notes/a.md'')]"
  have "text_or_empty (get (sanitize_intent_route ?r) ''intent_kind'') = ''read_file''"
    "has_key (sanitize_intent_route ?r) ''extracted_target''" by code_simp+
  from sanitized_route_safe [OF this] show ?thesis by blast
qed

end
