(* ===== verification/Queue_Theorems.thy ===== *)
theory Queue_Theorems
  imports Samples
begin

text \<open>
  The properties of the queue daemon: approvals, the life of a job, and what the operations do to the
  files, each with a witness where it has hypotheses.
\<close>

section \<open>Clerical work\<close>

text \<open>What the daemon does in the outer world apart from running skills, planning and asking the assistant:
  appending a line to the mission log and delivering the completion of a job.\<close>

definition clerical_steps :: "'w qenv \<Rightarrow> 'w rel" where
  "clerical_steps env = {(w, snd (qe_append_log env l w)) | l w. True} \<union> {(w, qe_deliver env p w) | p w. True}"

definition clerical :: "'w qenv \<Rightarrow> ('a, 'w daemon) prog \<Rightarrow> bool" where
  "clerical env m \<longleftrightarrow> (\<forall>s. (outer s, outer (snd (m s))) \<in> (clerical_steps env)\<^sup>*)"

lemma clerical_frame: "frame core m \<Longrightarrow> clerical env m"
  using core_outer [of m] by (simp add: clerical_def frame_def)

lemma clerical_bind: "clerical env m \<Longrightarrow> (\<And>x. clerical env (k x)) \<Longrightarrow> clerical env (bindM m k)"
  unfolding clerical_def
proof
  fix s
  assume m: "\<forall>s. (outer s, outer (snd (m s))) \<in> (clerical_steps env)\<^sup>*"
    and k: "\<And>x. \<forall>s. (outer s, outer (snd (k x s))) \<in> (clerical_steps env)\<^sup>*"
  obtain r t where run: "m s = (r, t)" by (cases "m s")
  with m [rule_format, of s] have "(outer s, outer t) \<in> (clerical_steps env)\<^sup>*" by simp
  with run k show "(outer s, outer (snd (bindM m k s))) \<in> (clerical_steps env)\<^sup>*"
    by (cases r) (auto simp: bindM_def intro: rtrancl_trans)
qed

lemma clerical_then: "clerical env m \<Longrightarrow> clerical env n \<Longrightarrow> clerical env (thenM m n)"
  unfolding thenM_def by (rule clerical_bind)

lemma clerical_deliver: "clerical env (deliver env p)"
  by (auto simp: clerical_def clerical_steps_def deliver_def queue_modify_def outer_def)

lemma clerical_mission_log: "clerical env (modifyM (append_mission_log (queue_mission_env env) mi os st p))"
proof -
  have "outer (append_mission_log (queue_mission_env env) mi os st p s) =
      snd (qe_append_log env (mission_log_line (queue_mission_env env) mi os st p
        (me_timestamp (queue_mission_env env) (rs_world s))) (outer s))" for s
    by (auto simp: append_mission_log_def queue_mission_env_def outer_def log_event_def split: prod.splits option.splits)
  moreover have "(w, snd (qe_append_log env l w)) \<in> (clerical_steps env)\<^sup>*" for l w
    by (rule r_into_rtrancl) (auto simp: clerical_steps_def)
  ultimately show ?thesis by (simp add: clerical_def)
qed

lemma clerical_option:
  "clerical env m \<Longrightarrow> (\<And>x. clerical env (n x)) \<Longrightarrow> clerical env (case v of None \<Rightarrow> m | Some x \<Rightarrow> n x)"
  by (cases v) simp_all

lemma clerical_prod: "(\<And>x y. clerical env (m x y)) \<Longrightarrow> clerical env (case v of (x, y) \<Rightarrow> m x y)"
  by (cases v) simp

lemma clerical_deny: "clerical env (deny_pending env job meta_p approval_p meta)"
  unfolding deny_pending_def Let_def log_failed_def
  by (intro clerical_bind clerical_then clerical_option clerical_deliver clerical_mission_log
      clerical_frame frame_intro core_frames)

lemma core_resolution [core_frames]: "frame core (load_meta job meta)"
  unfolding load_meta_def by (intro frame_intro core_frames)

lemma intent_mismatch_quiet: "quiet env (intent_mismatch_failed env job c a k prev mi i r)"
proof -
  have plan: "frame outer (write_attempt_plan env job a p)" for p
    unfolding write_attempt_plan_def by (intro frame_intro core_outer core_frames)
  show ?thesis
    unfolding intent_mismatch_failed_def Let_def
    by (intro quiet_then plan core_outer core_frames quiet_before quiet_fail frame_intro)
qed

section \<open>Approvals\<close>

text \<open>C1 A skill the policy wants approved is not run by the queue without a grant: unless the one-shot
  approval of this step, a standing grant of its scope or the development allow-list covers it, the run
  fails and the outer world is as it was; and so it is when the enforcement denies the skill.\<close>

theorem unapproved_skill_not_run:
  assumes "canonicalize_args (m_id m) args0 = Inr args"
    and "ce_denied (enforce_runtime_capabilities m p args)
      \<or> (ce_needs_approval (enforce_runtime_capabilities m p args)
          \<and> \<not> prompt_grants env m (decide m p args) ctx (rs_world s))"
  shows "q_outer (rs_world (snd (skill_run (lift_skills (qe_skills env)) (Some (queue_approval_prompt env))
      m args0 p ctx s))) = q_outer (rs_world s)
    \<and> (\<exists>rr. fst (skill_run (lift_skills (qe_skills env)) (Some (queue_approval_prompt env)) m args0 p ctx s) = Inr rr
         \<and> \<not> rr_ok rr)"
  using queue_gate.not_granted_not_run [OF assms] by blast

theorem unapproved_skill_not_run_witness:
  "q_outer (rs_world (snd (skill_run (lift_skills (qe_skills sample_env)) (Some (queue_approval_prompt sample_env))
      delete_skill [] default_policy [(''queue_job'', PStr ''q/inbox/a.json''), (''step'', PInt 1)] (sample_state [])))) = []"
proof -
  let ?ctx = "[(''queue_job'', PStr ''q/inbox/a.json''), (''step'', PInt 1)]"
  have args: "canonicalize_args (m_id delete_skill) [] = Inr []" by code_simp
  have ask: "ce_needs_approval (enforce_runtime_capabilities delete_skill default_policy [])" by code_simp
  have "\<not> prompt_grants sample_env delete_skill (decide delete_skill default_policy []) ?ctx
      (rs_world (sample_state []))"
    by (simp add: prompt_grants_def sample_state_def sample_env_def file_at_def grants_of_def
        has_approval_grant_def)
  with ask have "ce_denied (enforce_runtime_capabilities delete_skill default_policy [])
      \<or> (ce_needs_approval (enforce_runtime_capabilities delete_skill default_policy [])
          \<and> \<not> prompt_grants sample_env delete_skill (decide delete_skill default_policy []) ?ctx
             (rs_world (sample_state [])))" by blast
  from unapproved_skill_not_run [OF args this] show ?thesis by (simp add: sample_state_def)
qed

text \<open>The standing grants are a set: granting scopes in any order, with any repetition, holds exactly the
  granted scopes besides those that held before, and granting one again changes nothing.\<close>

theorem grants_are_a_set:
  "(granted_scope k (fold (grant_scope env) ks s) \<longleftrightarrow> k \<in> set ks \<or> granted_scope k s)
   \<and> grant_scope env k (grant_scope env k s) = grant_scope env k s"
  using queue_grants.grant_all queue_grants.grant_again by blast

text \<open>C33 A one-shot approval is spent by the step it was given for: the prompt grants that step, takes the
  approval away and leaves every other one.\<close>

theorem one_shot_approval_spent:
  assumes "approval_key (rs_world s) ctx m \<in> set (q_approved (rs_world s))"
  shows "fst (queue_approval_prompt env m d ctx args s) = PBool True
    \<and> approval_key (rs_world s) ctx m \<notin> set (q_approved (rs_world (snd (queue_approval_prompt env m d ctx args s))))
    \<and> (k = approval_key (rs_world s) ctx m \<or> k \<notin> set (q_approved (rs_world s))
       \<or> k \<in> set (q_approved (rs_world (snd (queue_approval_prompt env m d ctx args s)))))"
proof -
  have "prompt_grants env m d ctx (rs_world s)" using assms by (simp add: prompt_grants_def)
  then have "fst (queue_approval_prompt env m d ctx args s) = PBool True" by (simp add: prompt_answer)
  with prompt_one_shot(1) [OF assms, of env d args] prompt_one_shot(2) [OF assms, of k env d args]
  show ?thesis by blast
qed

theorem one_shot_approval_spent_witness:
  "fst (queue_approval_prompt sample_env delete_skill (decide delete_skill default_policy [])
      [(''step'', PInt 1)] []
      (sample_state [] \<lparr>rs_world := rs_world (sample_state []) \<lparr>q_approved := [([], 1, ''files.delete_file'')]\<rparr>\<rparr>))
   = PBool True"
proof -
  let ?s = "sample_state [] \<lparr>rs_world := rs_world (sample_state []) \<lparr>q_approved := [([], 1, ''files.delete_file'')]\<rparr>\<rparr>"
  have "approval_key (rs_world ?s) [(''step'', PInt 1)] delete_skill
      \<in> set (q_approved (rs_world ?s))" by code_simp
  from one_shot_approval_spent [OF this] show ?thesis by blast
qed

text \<open>C2 A job that demands approval in its payload and is not an assistant question is not run when it is
  processed: no skill and no planner is reached; at most the failure of a malformed job is delivered. A job
  of the assistant is handed to the assistant before the gate.\<close>

theorem demanded_approval_gates_job:
  assumes "file_at (files s) job = Some f" and "fl_content f = Json (PDict raw)"
    and "get raw ''approval_required'' = PBool True"
    and "detect_request_kind raw \<noteq> ''assistant_question''"
  shows "outer (snd (process_job_file env job s)) = outer s
    \<or> (\<exists>p. outer (snd (process_job_file env job s)) = qe_deliver env p (outer s))"
  using gated_job_not_run [OF assms] unfolding delivered_def .

theorem demanded_approval_gates_job_witness:
  "outer (snd (process_job_file sample_env (InBucket Inbox, ''a.json'')
      (sample_state [((InBucket Inbox, ''a.json''),
         json_file [(''goal'', PStr ''x''), (''approval_required'', PBool True)])])))
    \<in> {[], [''delivered'']}"
proof -
  let ?raw = "[(''goal'', PStr ''x''), (''approval_required'', PBool True)]"
  let ?s = "sample_state [((InBucket Inbox, ''a.json''), json_file ?raw)]"
  have at: "file_at (files ?s) (InBucket Inbox, ''a.json'') = Some (json_file ?raw)"
    by (simp add: files_def sample_state_def file_at_def)
  have kind: "detect_request_kind ?raw \<noteq> ''assistant_question''" by code_simp
  have o: "outer ?s = []" by (simp add: outer_def sample_state_def)
  have "qe_deliver sample_env p [] = [''delivered'']" for p by (simp add: sample_env_def)
  with demanded_approval_gates_job [OF at _ _ kind, of sample_env] o show ?thesis
    by (auto simp: json_file_def)
qed

text \<open>C3 Denying an approval runs nothing: whatever the metadata of the waiting job holds, the outer world
  changes only by lines appended to the mission log and by the delivery of the failed job.\<close>

theorem denial_runs_nothing:
  "(outer s, outer (snd (resolve_approval env ref False always s))) \<in> (clerical_steps env)\<^sup>*"
proof -
  have "clerical env (resolve_approval env ref False always)"
    unfolding resolve_approval_def if_False
    by (intro clerical_bind clerical_frame frame_intro core_frames clerical_deny
        clerical_prod)
  then show ?thesis by (simp add: clerical_def)
qed

section \<open>The life of a job\<close>

text \<open>C4 The replanning loop ends: from every state it takes at most one turn more than the replans it is
  allowed, and the bounded loop of the model gives exactly the result of the unbounded loop of the code.\<close>

theorem replanning_terminates:
  "\<exists>n. 0 < n \<and> n \<le> Suc (qe_max_replans env)
     \<and> attempts env job c 1 0 None s (attempt_loop (Suc (qe_max_replans env)) env job c 1 0 None s) n"
  using loop_attempts [of 0 env "Suc (qe_max_replans env)"] by simp

text \<open>C34 A plan whose first step is outside the skills of the recognised intent is not run: after the
  planner answered, the attempt at most delivers the failed job.\<close>

theorem mismatched_plan_not_run:
  assumes "attemptM (build_mission_for_payload env (ac_payload c) job) s = (Inr (Inr mi), s1)"
    and "ac_intent c = Some i" and "mi_steps mi = st # sts"
    and "si_deterministic i" and "si_fail_closed i" and "si_kind i \<noteq> UnknownOrAmbiguous"
    and "si_allowed i \<noteq> []" and "mst_skill st \<notin> set (si_allowed i)"
  shows "outer (snd (attempt_once env job c a k prev s)) = outer s1
    \<or> (\<exists>p. outer (snd (attempt_once env job c a k prev s)) = qe_deliver env p (outer s1))"
proof -
  have "fst (check_skill_family_mismatch i (mst_skill st))" using assms by (simp add: mismatch_iff)
  then have "attempt_once env job c a k prev s = intent_mismatch_failed env job c a k prev mi i
      (snd (check_skill_family_mismatch i (mst_skill st))) s1"
    unfolding attempt_once_def
      bindM_run(2) [where m = "attemptM (build_mission_for_payload env (ac_payload c) job)" and s = s, OF assms(1)]
    using assms(2-5) by simp
  with intent_mismatch_quiet show ?thesis unfolding quiet_def delivered_def by metis
qed

theorem mismatched_plan_not_run_witness:
  "outer (snd (attempt_once sample_env (InBucket Inbox, ''a.json'')
      \<lparr>ac_payload = [(''steps'', PList [PDict [(''skill_id'', PStr ''files.delete_file'')]])],
       ac_kind = ''goal'', ac_intent = Some sample_intent, ac_enqueue = PNone\<rparr> 1 0 None (sample_state [])))
    \<in> {[], [''delivered'']}"
proof -
  let ?c = "\<lparr>ac_payload = [(''steps'', PList [PDict [(''skill_id'', PStr ''files.delete_file'')]])],
       ac_kind = ''goal'', ac_intent = Some sample_intent, ac_enqueue = PNone\<rparr>"
  let ?built = "attemptM (build_mission_for_payload sample_env (ac_payload ?c) (InBucket Inbox, ''a.json'')) (sample_state [])"
  have "case fst ?built of Inr (Inr mi) \<Rightarrow> map mst_skill (mi_steps mi) = [''files.delete_file''] | _ \<Rightarrow> False"
    by code_simp
  then obtain mi where mi: "fst ?built = Inr (Inr mi)" "map mst_skill (mi_steps mi) = [''files.delete_file'']"
    by (auto split: sum.splits)
  then obtain st where st: "mi_steps mi = [st]" "mst_skill st = ''files.delete_file''" by (cases "mi_steps mi") auto
  have world: "outer (snd ?built) = []" by code_simp
  have "?built = (Inr (Inr mi), snd ?built)" using mi(1) by (metis prod.collapse)
  from mismatched_plan_not_run [OF this, of sample_intent st "[]"] st world
  have "outer (snd (attempt_once sample_env (InBucket Inbox, ''a.json'') ?c 1 0 None (sample_state []))) = []
    \<or> (\<exists>p. outer (snd (attempt_once sample_env (InBucket Inbox, ''a.json'') ?c 1 0 None (sample_state [])))
        = qe_deliver sample_env p [])" by (simp add: sample_intent_def)
  moreover have "qe_deliver sample_env p [] = [''delivered'']" for p by (simp add: sample_env_def)
  ultimately show ?thesis by auto
qed

section \<open>Files\<close>

text \<open>Moving a job between two directories loses nothing: the file is at its new place with its content,
  its old place is free, and no other file changed except the state sidecars that go with the job.\<close>

theorem move_job_keeps_files:
  assumes "move_job env src d s = (Inr (Some m), s')" and "fst src \<noteq> d"
    and "snd src \<noteq> state_name (job_stem m)"
  shows "fst m = d \<and> (\<exists>f. file_at (files s) src = Some f \<and> file_at (files s') m = Some f)
    \<and> file_at (files s') src = None
    \<and> (q \<in> {src, m, state_of src, state_of m} \<or> file_at (files s') q = file_at (files s) q)"
proof -
  have d: "fst m = d" by (rule move_job_target [OF assms(1)])
  have "state_of src \<noteq> src" "state_of m \<noteq> m"
    unfolding state_of_def sibling_def job_stem_def
    using name_not_state [of "snd src"] name_not_state [of "snd m"] by (metis snd_conv)+
  moreover have "state_of m \<noteq> src" "state_of src \<noteq> m" "src \<noteq> m"
    using assms(2) d by (auto simp: state_of_def sibling_def)
  ultimately show ?thesis using move_job_file [OF assms(1)] d by blast
qed

theorem move_job_keeps_files_witness:
  "file_at (files (snd (move_job sample_env (InBucket Inbox, ''a.json'') (InBucket Done)
      (sample_state [((InBucket Inbox, ''a.json''), json_file [])])))) (InBucket Inbox, ''a.json'') = None"
proof -
  let ?s = "sample_state [((InBucket Inbox, ''a.json''), json_file [])]"
  have "fst (move_job sample_env (InBucket Inbox, ''a.json'') (InBucket Done) ?s) = Inr (Some (InBucket Done, ''a.json''))"
    by code_simp
  then have run: "move_job sample_env (InBucket Inbox, ''a.json'') (InBucket Done) ?s =
      (Inr (Some (InBucket Done, ''a.json'')), snd (move_job sample_env (InBucket Inbox, ''a.json'') (InBucket Done) ?s))"
    by (metis prod.collapse)
  have "snd (InBucket Inbox, ''a.json'') \<noteq> state_name (job_stem (InBucket Done, ''a.json''))" by code_simp
  with move_job_keeps_files [OF run] show ?thesis by simp
qed

text \<open>The search for a free name always ends with one: the path it answers is in the directory and not
  taken, however many indexed names are.\<close>

theorem target_path_always_free:
  "\<exists>n. deterministic_target_path fs d name tag = Some (d, n) \<and> \<not> exists_file fs (d, n)"
  by (rule target_path_free)

text \<open>Cancelling a job that waits in the inbox or in pending puts it into canceled with its content and
  leaves nothing behind at its old place.\<close>

theorem cancel_moves_job:
  assumes "cancel_job env ref s = (Inr m, s')"
    and "resolve_job_ref env ref [Inbox, Pending] (files s) = Some p"
    and "fst p \<in> {InBucket Inbox, InBucket Pending}"
  shows "fst m = InBucket Canceled \<and> file_at (files s') m = file_at (files s) p \<and> file_at (files s) p \<noteq> None
    \<and> file_at (files s') p = None"
  using cancel_job_content [OF assms(1)] assms(2,3) by auto

theorem cancel_moves_job_witness:
  "\<exists>m s'. cancel_job sample_env ''a'' (sample_state [((InBucket Inbox, ''a.json''), json_file [])]) = (Inr m, s')
    \<and> file_at (files s') (InBucket Inbox, ''a.json'') = None"
proof -
  let ?s = "sample_state [((InBucket Inbox, ''a.json''), json_file [])]"
  have "isOk (fst (cancel_job sample_env ''a'' ?s))" by code_simp
  then obtain m where m: "fst (cancel_job sample_env ''a'' ?s) = Inr m" by (auto simp: isOk_iff)
  then have run: "cancel_job sample_env ''a'' ?s = (Inr m, snd (cancel_job sample_env ''a'' ?s))"
    by (metis prod.collapse)
  have "resolve_job_ref sample_env ''a'' [Inbox, Pending] (files ?s) = Some (InBucket Inbox, ''a.json'')"
    by code_simp
  from cancel_moves_job [OF run this] have "file_at (files (snd (cancel_job sample_env ''a'' ?s)))
      (InBucket Inbox, ''a.json'') = None" by simp
  with run show ?thesis by blast
qed

text \<open>Deleting a terminal job needs its exact name as confirmation, without which nothing changes; with
  it, exactly the job, its error sidecar if it failed, its approval files and its artifacts are gone.\<close>

theorem delete_removes_exactly:
  assumes "resolve_job_ref env ref [Done, Failed, Canceled] (files s) = Some p"
  shows "(confirm = snd p \<or> snd (delete_terminal_job env ref confirm s) = s)
    \<and> file_at (files (snd (delete_terminal_job env ref (snd p) s))) q =
        (if q \<in> {p, meta_path (job_stem p), approval_path (job_stem p)} \<or> fst q = ArtifactsDir (job_stem p)
            \<or> (fst p = InBucket Failed \<and> q = error_sidecar p)
         then None else file_at (files s) q)"
proof
  show "confirm = snd p \<or> snd (delete_terminal_job env ref confirm s) = s"
    using delete_mismatch [OF assms, of confirm] by (cases "confirm = snd p") simp_all
  show "file_at (files (snd (delete_terminal_job env ref (snd p) s))) q =
        (if q \<in> {p, meta_path (job_stem p), approval_path (job_stem p)} \<or> fst q = ArtifactsDir (job_stem p)
            \<or> (fst p = InBucket Failed \<and> q = error_sidecar p)
         then None else file_at (files s) q)" by (rule delete_files(2) [OF assms])
qed

theorem delete_removes_exactly_witness:
  "file_at (files (snd (delete_terminal_job sample_env ''a'' ''a.json''
      (sample_state [((InBucket Done, ''a.json''), json_file []), ((InBucket Done, ''b.json''), json_file [])]))))
    (InBucket Done, ''b.json'') = Some (json_file [])"
proof -
  let ?s = "sample_state [((InBucket Done, ''a.json''), json_file []), ((InBucket Done, ''b.json''), json_file [])]"
  have p: "resolve_job_ref sample_env ''a'' [Done, Failed, Canceled] (files ?s) = Some (InBucket Done, ''a.json'')"
    by code_simp
  have "file_at (files ?s) (InBucket Done, ''b.json'') = Some (json_file [])"
    by (simp add: files_def sample_state_def file_at_def)
  with delete_removes_exactly [OF p, of "''a.json''" "(InBucket Done, ''b.json'')"] show ?thesis
    by (simp add: meta_path_def approval_path_def)
qed

definition kept_now :: "'w qenv \<Rightarrow> 'w daemon \<Rightarrow> failed_unit list" where
  "kept_now env s = kept_units env (files s) (qe_now env (rs_world s))"

definition pruned_now :: "'w qenv \<Rightarrow> 'w daemon \<Rightarrow> failed_unit list" where
  "pruned_now env s = pruned_units env (files s) (qe_now env (rs_world s))"

text \<open>Young enough to be kept at all\<close>

definition young_unit :: "'w qenv \<Rightarrow> 'w daemon \<Rightarrow> failed_unit \<Rightarrow> bool" where
  "young_unit env s u = (case qe_max_age_s env of
     Some a \<Rightarrow> a \<le> 0 \<or> qe_now env (rs_world s) - 1000 * a \<le> unit_newest_mtime (files s) u
   | None \<Rightarrow> True)"

lemma kept_now_eq: "kept_now env s = (let young = filter (young_unit env s) (ordered_units env (files s))
    in case qe_max_count env of Some n \<Rightarrow> take n young | None \<Rightarrow> young)"
proof -
  have "(case qe_max_age_s env of
      Some a \<Rightarrow> if 0 < a then filter (\<lambda>u. qe_now env (rs_world s) - 1000 * a \<le> unit_newest_mtime (files s) u) us else us
    | None \<Rightarrow> us) = filter (young_unit env s) us" for us
    by (cases "qe_max_age_s env") (auto simp: young_unit_def intro!: filter_cong filter_True [symmetric])
  then show ?thesis by (simp add: kept_now_def kept_units_def Let_def)
qed

lemma length_filter_set:
  "distinct xs \<Longrightarrow> distinct ys \<Longrightarrow> set xs = set ys \<Longrightarrow> length (filter P xs) = length (filter P ys)"
  by (metis distinct_card distinct_filter set_filter)

lemma units_distinct: "distinct (ordered_units env fs)" "distinct (failed_units env fs)"
proof -
  show "distinct (ordered_units env fs)" using distinct_unit_keys distinct_map by blast
  then show "distinct (failed_units env fs)" by (simp add: ordered_units_def)
qed

text \<open>C37 The retention of failed jobs keeps exactly the newest that are young enough, as many as the
  configured count admits: every kept one is young enough, there are as many of them as the count and the
  young ones allow, and a pruned one is never newer than a kept one. It removes exactly the files of the
  others: those of the kept ones, and every other file of the queue, are as they were.\<close>

theorem retention_keeps_newest:
  "set (kept_now env s) \<union> set (pruned_now env s) = set (failed_units env (files s))
    \<and> (let young = length (filter (young_unit env s) (failed_units env (files s))) in
         length (kept_now env s) = (case qe_max_count env of None \<Rightarrow> young | Some n \<Rightarrow> min n young))
    \<and> distinct (kept_now env s)
    \<and> (\<forall>u \<in> set (kept_now env s). young_unit env s u
         \<and> (\<forall>v \<in> set (pruned_now env s). unit_newest_mtime (files s) v \<le> unit_newest_mtime (files s) u)
         \<and> (\<forall>p \<in> set (unit_files u). file_at (files (snd (prune_failed_artifacts env s))) p = file_at (files s) p))
    \<and> (\<forall>p. file_at (files (snd (prune_failed_artifacts env s))) p =
         (if p \<in> (\<Union>v \<in> set (pruned_now env s). set (unit_files v)) then None else file_at (files s) p))"
proof (intro conjI ballI allI)
  show "set (kept_now env s) \<union> set (pruned_now env s) = set (failed_units env (files s))"
    unfolding kept_now_def pruned_now_def by (rule kept_or_pruned)
  have "length (filter (young_unit env s) (ordered_units env (files s)))
      = length (filter (young_unit env s) (failed_units env (files s)))"
    by (rule length_filter_set [OF units_distinct ordered_units_set])
  then show "let young = length (filter (young_unit env s) (failed_units env (files s))) in
      length (kept_now env s) = (case qe_max_count env of None \<Rightarrow> young | Some n \<Rightarrow> min n young)"
    by (cases "qe_max_count env") (simp_all add: kept_now_eq Let_def min.commute)
  show "distinct (kept_now env s)"
    by (simp add: kept_now_eq Let_def units_distinct split: option.split)
next
  fix u assume "u \<in> set (kept_now env s)"
  then show "young_unit env s u"
    by (auto simp: kept_now_eq Let_def split: option.splits dest: in_set_takeD)
next
  fix u v assume "u \<in> set (kept_now env s)" "v \<in> set (pruned_now env s)"
  then show "unit_newest_mtime (files s) v \<le> unit_newest_mtime (files s) u"
    unfolding kept_now_def pruned_now_def by (rule pruned_not_newer)
next
  fix u p assume "u \<in> set (kept_now env s)" "p \<in> set (unit_files u)"
  then show "file_at (files (snd (prune_failed_artifacts env s))) p = file_at (files s) p"
    unfolding kept_now_def by (rule prune_keeps)
next
  fix p
  show "file_at (files (snd (prune_failed_artifacts env s))) p =
      (if p \<in> (\<Union>v \<in> set (pruned_now env s). set (unit_files v)) then None else file_at (files s) p)"
    unfolding pruned_now_def by (rule prune_run(2))
qed

theorem retention_keeps_newest_witness:
  "file_at (files (snd (prune_failed_artifacts sample_env (sample_state
      [((InBucket Failed, ''a.json''), \<lparr>fl_content = Json (PDict []), fl_mtime = 1\<rparr>),
       ((InBucket Failed, ''b.json''), \<lparr>fl_content = Json (PDict []), fl_mtime = 2\<rparr>)]))))
     (InBucket Failed, ''a.json'') = None"
proof -
  let ?s = "sample_state [((InBucket Failed, ''a.json''), \<lparr>fl_content = Json (PDict []), fl_mtime = 1\<rparr>),
       ((InBucket Failed, ''b.json''), \<lparr>fl_content = Json (PDict []), fl_mtime = 2\<rparr>)]"
  have "(InBucket Failed, ''a.json'') \<in> (\<Union>v \<in> set (pruned_now sample_env ?s). set (unit_files v))" by code_simp
  then have "(if (InBucket Failed, ''a.json'') \<in> (\<Union>v \<in> set (pruned_now sample_env ?s). set (unit_files v)) then None
      else file_at (files ?s) (InBucket Failed, ''a.json'')) = None" by (simp only: if_True)
  moreover note retention_keeps_newest [of sample_env ?s]
  then have "file_at (files (snd (prune_failed_artifacts sample_env ?s))) (InBucket Failed, ''a.json'') =
      (if (InBucket Failed, ''a.json'') \<in> (\<Union>v \<in> set (pruned_now sample_env ?s). set (unit_files v)) then None
       else file_at (files ?s) (InBucket Failed, ''a.json''))" by blast
  ultimately show ?thesis by (simp only:)
qed

text \<open>An error sidecar the daemon writes for a failed job is valid and reads back as exactly the details
  that were written.\<close>

theorem error_sidecar_roundtrip:
  assumes "snd job \<noteq> []" and "err \<noteq> []" and "failed_timestamp_min \<le> qe_now env (rs_world s)"
  shows "fst (write_failed_error_sidecar env job err payload s) = Inr ()
    \<and> fst (read_failed_error_sidecar env job (snd (write_failed_error_sidecar env job err payload s))) =
        Inr (Some (error_details (snd job) err (qe_now env (rs_world s)) payload))"
  using failed_sidecar_roundtrip [OF assms] by blast

theorem error_sidecar_roundtrip_witness:
  "fst (write_failed_error_sidecar sample_env (InBucket Failed, ''a.json'') ''boom'' None (sample_state [])) = Inr ()"
  using error_sidecar_roundtrip [of "(InBucket Failed, ''a.json'')" "''boom''" sample_env "sample_state []" None]
  by (simp add: failed_timestamp_min_def sample_env_def)

text \<open>The fast lane takes only advisory questions: a payload that is eligible says so itself (advisory and
  read-only), demands no approval, and names no steps, mission or goal.\<close>

theorem fast_lane_read_only:
  assumes "fst (fast_lane_eligibility payload kind)"
  shows "kind = ''assistant_question'' \<and> get payload ''advisory'' = PBool True
    \<and> get payload ''read_only'' = PBool True \<and> get payload ''approval_required'' \<noteq> PBool True
    \<and> get payload ''steps'' = PNone \<and> \<not> truthy (get payload ''mission_id'') \<and> \<not> truthy (get payload ''mission'')
    \<and> \<not> truthy (get payload ''goal'') \<and> \<not> truthy (get payload ''plan_goal'')"
  using assms by (simp add: fast_lane_eligibility_def split: if_split_asm)

theorem fast_lane_read_only_witness:
  "get [(''advisory'', PBool True), (''read_only'', PBool True),
     (''action_hints'', PList [PStr ''assistant.advisory''])] ''steps'' = PNone"
proof -
  have "fst (fast_lane_eligibility [(''advisory'', PBool True), (''read_only'', PBool True),
     (''action_hints'', PList [PStr ''assistant.advisory''])] ''assistant_question'')" by code_simp
  from fast_lane_read_only [OF this] show ?thesis by blast
qed

end
