(* ===== verification/Automation_Model.thy ===== *)
theory Automation_Model
  imports Queue_Contracts
begin

text \<open>
  The durable automation definition (\<open>voxera/automation/models.py\<close>): its fields, the validation of the
  trigger configuration and of the payload template, the validation of a whole record read from disk, the
  record written to disk, and the refresh of its update time. Pydantic's coercion of an integer or a
  boolean field is not part of the program: the two coercions are parameters, and what is used of them is
  that a value of the field's own type passes unchanged (\<open>plain_coercions\<close>). A validation error is None:
  pydantic collects the messages of the validators into a text of its own.
\<close>

section \<open>Data\<close>

datatype trigger_kind = OnceAt | Delay | RecurringInterval | RecurringCron | WatchPath

fun trigger_name :: "trigger_kind \<Rightarrow> string" where
  "trigger_name OnceAt = ''once_at''"
| "trigger_name Delay = ''delay''"
| "trigger_name RecurringInterval = ''recurring_interval''"
| "trigger_name RecurringCron = ''recurring_cron''"
| "trigger_name WatchPath = ''watch_path''"

definition trigger_kinds :: "trigger_kind list" where
  "trigger_kinds = [OnceAt, Delay, RecurringInterval, RecurringCron, WatchPath]"

definition trigger_of_name :: "string \<Rightarrow> trigger_kind option" where
  "trigger_of_name s = find (\<lambda>k. trigger_name k = s) trigger_kinds"

record automation =
  au_id :: string
  au_title :: string
  au_description :: string
  au_enabled :: bool
  au_kind :: trigger_kind
  au_config :: dict
  au_payload :: dict
  au_created :: int
  au_updated :: int
  au_last_run :: "int option"
  au_next_run :: "int option"
  au_last_job :: "string option"
  au_history :: "string list"
  au_posture :: string
  au_from :: string

text \<open>\<open>AUTOMATION_ID_PATTERN.match\<close>: the dollar also matches before a newline that ends the text.\<close>

definition alnum_char :: "char \<Rightarrow> bool" where
  "alnum_char c = (let n = code c in (48 \<le> n \<and> n \<le> 57) \<or> (65 \<le> n \<and> n \<le> 90) \<or> (97 \<le> n \<and> n \<le> 122))"

definition id_shape :: "string \<Rightarrow> bool" where
  "id_shape s = (s \<noteq> [] \<and> alnum_char (hd s) \<and> length s \<le> 128
     \<and> list_all (\<lambda>c. alnum_char c \<or> c = CHR ''_'' \<or> c = CHR ''-'') s)"

definition matches_id_pattern :: "string \<Rightarrow> bool" where
  "matches_id_pattern s = (id_shape s \<or> (s \<noteq> [] \<and> last s = CHR 0x0A \<and> id_shape (butlast s)))"

definition is_strict_positive_int :: "py \<Rightarrow> bool" where
  "is_strict_positive_int v = (case v of PInt n \<Rightarrow> 0 < n | _ \<Rightarrow> False)"

text \<open>\<open>_clean_str\<close>: a string that is not blank, stripped\<close>

definition clean_or_none :: "py \<Rightarrow> string option" where
  "clean_or_none v = (case v of PStr s \<Rightarrow> if strip s = [] then None else Some (strip s) | _ \<Rightarrow> None)"

section \<open>Trigger configurations\<close>

definition reject_unknown_keys :: "trigger_kind \<Rightarrow> dict \<Rightarrow> string list \<Rightarrow> unit result" where
  "reject_unknown_keys kind config allowed = (let unknown = unknown_keys config allowed in
     if unknown \<noteq> [] then raise_value (''trigger_config for '' @ trigger_name kind
       @ '' contains unsupported keys: '' @ join '', '' unknown)
     else Inr ())"

definition positive_config :: "trigger_kind \<Rightarrow> dict \<Rightarrow> string \<Rightarrow> string \<Rightarrow> dict result" where
  "positive_config kind config key what = bindR (reject_unknown_keys kind config [key]) (\<lambda>_.
     if is_strict_positive_int (get config key) then Inr [(key, get config key)]
     else raise_value (''trigger_config.'' @ key @ '' must be a positive int '' @ what))"

definition watch_path_events :: "string list" where
  "watch_path_events = [''created'', ''modified'', ''deleted'']"

definition validate_trigger_config :: "trigger_kind \<Rightarrow> dict \<Rightarrow> dict result" where
  "validate_trigger_config kind config = (case kind of
     OnceAt \<Rightarrow> positive_config kind config ''run_at_ms'' ''epoch-ms''
   | Delay \<Rightarrow> positive_config kind config ''delay_ms'' ''millisecond value''
   | RecurringInterval \<Rightarrow> positive_config kind config ''interval_ms'' ''millisecond value''
   | RecurringCron \<Rightarrow> bindR (reject_unknown_keys kind config [''cron'']) (\<lambda>_.
       (case clean_or_none (get config ''cron'') of
          None \<Rightarrow> raise_value ''trigger_config.cron must be a non-empty string''
        | Some cron \<Rightarrow> Inr [(''cron'', PStr cron)]))
   | WatchPath \<Rightarrow> bindR (reject_unknown_keys kind config [''path'', ''event'']) (\<lambda>_.
       (case clean_or_none (get config ''path'') of
          None \<Rightarrow> raise_value ''trigger_config.path must be a non-empty string''
        | Some path \<Rightarrow>
            let event = (case clean_or_none (get config ''event'') of None \<Rightarrow> ''created'' | Some e \<Rightarrow> e) in
            if event \<notin> set watch_path_events then
              raise_value (''trigger_config.event must be one of: '' @ join '', '' (sort watch_path_events))
            else Inr [(''path'', PStr path), (''event'', PStr event)])))"

section \<open>Payload templates\<close>

definition automation_request_fields :: "string list" where
  "automation_request_fields = [''mission_id'', ''goal'', ''steps'', ''file_organize'', ''write_file'']"

text \<open>The text field \<open>key\<close>, where the template has it, is a string that is not blank.\<close>

definition template_text :: "dict \<Rightarrow> string \<Rightarrow> unit result" where
  "template_text payload key =
     (if has_key payload key \<and> clean_or_none (get payload key) = None
      then raise_value (''payload_template.'' @ key @ '' must be a non-empty string'') else Inr ())"

fun first_non_object :: "nat \<Rightarrow> py list \<Rightarrow> nat option" where
  "first_non_object i [] = None"
| "first_non_object i (v # vs) = (if is_dict v then first_non_object (Suc i) vs else Some i)"

definition template_steps :: "dict \<Rightarrow> unit result" where
  "template_steps payload =
     (if \<not> has_key payload ''steps'' then Inr ()
      else (case get payload ''steps'' of
        PList items \<Rightarrow>
          if items = [] then raise_value ''payload_template.steps must be a non-empty list when provided''
          else (case first_non_object 0 items of
             Some i \<Rightarrow> raise_value (''payload_template.steps['' @ nat_str i @ ''] must be an object'')
           | None \<Rightarrow> Inr ())
      | _ \<Rightarrow> raise_value ''payload_template.steps must be a non-empty list when provided''))"

definition validate_payload_template :: "dict \<Rightarrow> unit result" where
  "validate_payload_template payload =
     (if payload = [] then raise_value ''payload_template must not be empty''
      else if filter (has_key payload) automation_request_fields = [] then
        raise_value (''payload_template must carry at least one canonical queue request field (one of: ''
          @ join '', '' (sort automation_request_fields) @ '')'')
      else
        bindR (template_text payload ''mission_id'') (\<lambda>_.
        bindR (template_text payload ''goal'') (\<lambda>_.
        bindR (template_steps payload) (\<lambda>_.
        bindR (if has_key payload ''write_file'' then extract_write_file_request payload else Inr PNone) (\<lambda>_.
        bindR (if has_key payload ''file_organize'' then extract_file_organize_request payload
               else Inr PNone) (\<lambda>_. Inr ()))))))"

section \<open>The record\<close>

record pydantic =
  pd_int :: "py \<Rightarrow> int option"
  pd_bool :: "py \<Rightarrow> bool option"

definition plain_coercions :: "pydantic \<Rightarrow> bool" where
  "plain_coercions pd \<longleftrightarrow> (\<forall>n. pd_int pd (PInt n) = Some n) \<and> (\<forall>b. pd_bool pd (PBool b) = Some b)"

definition automation_fields :: "string list" where
  "automation_fields = [''id'', ''title'', ''description'', ''enabled'', ''trigger_kind'', ''trigger_config'',
     ''payload_template'', ''created_at_ms'', ''updated_at_ms'', ''last_run_at_ms'', ''next_run_at_ms'',
     ''last_job_ref'', ''run_history_refs'', ''policy_posture'', ''created_from'']"

text \<open>A field with its default, its coercion and its validator\<close>

definition field :: "dict \<Rightarrow> string \<Rightarrow> 'a option \<Rightarrow> (py \<Rightarrow> 'a option) \<Rightarrow> 'a option" where
  "field data key dflt check = (case map_of data key of None \<Rightarrow> dflt | Some v \<Rightarrow> check v)"

definition check_str :: "(string \<Rightarrow> string option) \<Rightarrow> py \<Rightarrow> string option" where
  "check_str f v = (case v of PStr s \<Rightarrow> f s | _ \<Rightarrow> None)"

definition id_shape_validator :: "string \<Rightarrow> string option" where
  "id_shape_validator s = (if matches_id_pattern (strip s) then Some (strip s) else None)"

text \<open>\<open>_title_non_empty\<close>, also the rule of a last job reference and of each history reference\<close>

definition non_blank :: "string \<Rightarrow> string option" where
  "non_blank s = (if strip s = [] then None else Some (strip s))"

definition one_of :: "string list \<Rightarrow> string \<Rightarrow> string option" where
  "one_of allowed s = (if s \<in> set allowed then Some s else None)"

definition check_dict :: "py \<Rightarrow> dict option" where
  "check_dict v = (case v of PDict d \<Rightarrow> Some d | _ \<Rightarrow> None)"

definition check_timestamp :: "pydantic \<Rightarrow> py \<Rightarrow> int option" where
  "check_timestamp pd v = Option.bind (pd_int pd v) (\<lambda>n. if 0 < n then Some n else None)"

text \<open>A field of type \<open>T | None\<close>\<close>

definition optional :: "(py \<Rightarrow> 'a option) \<Rightarrow> py \<Rightarrow> 'a option option" where
  "optional check v = (if v = PNone then Some None else map_option Some (check v))"

fun all_some :: "'a option list \<Rightarrow> 'a list option" where
  "all_some [] = Some []"
| "all_some (x # xs) = Option.bind x (\<lambda>y. map_option ((#) y) (all_some xs))"

definition check_refs :: "py \<Rightarrow> string list option" where
  "check_refs v = (case v of PList vs \<Rightarrow> all_some (map (check_str non_blank) vs) | _ \<Rightarrow> None)"

definition automation_postures :: "string list" where
  "automation_postures = [''standard'', ''strict_review'']"

definition automation_created_from :: "string list" where
  "automation_created_from = [''vera'', ''panel'', ''cli'']"

text \<open>\<open>_cross_field_validation\<close>\<close>

definition cross_field_validation :: "automation \<Rightarrow> automation option" where
  "cross_field_validation a = (case validate_trigger_config (au_kind a) (au_config a) of
     Inl _ \<Rightarrow> None
   | Inr config \<Rightarrow> (case validate_payload_template (au_payload a) of
       Inl _ \<Rightarrow> None
     | Inr _ \<Rightarrow> if au_updated a < au_created a then None else Some (a\<lparr>au_config := config\<rparr>)))"

text \<open>\<open>AutomationDefinition.model_validate\<close>; the two clock readings are those of the default factories.\<close>

definition model_validate :: "pydantic \<Rightarrow> int \<Rightarrow> int \<Rightarrow> dict \<Rightarrow> automation option" where
  "model_validate pd created_now updated_now data =
     (if \<not> list_all (\<lambda>k. k \<in> set automation_fields) (map fst data) then None
      else
        Option.bind (field data ''id'' None (check_str id_shape_validator)) (\<lambda>id.
        Option.bind (field data ''title'' None (check_str non_blank)) (\<lambda>title.
        Option.bind (field data ''description'' (Some []) (check_str (\<lambda>s. Some (strip s)))) (\<lambda>description.
        Option.bind (field data ''enabled'' (Some True) (pd_bool pd)) (\<lambda>enabled.
        Option.bind (field data ''trigger_kind'' None
          (\<lambda>v. case v of PStr s \<Rightarrow> trigger_of_name s | _ \<Rightarrow> None)) (\<lambda>kind.
        Option.bind (field data ''trigger_config'' (Some []) check_dict) (\<lambda>config.
        Option.bind (field data ''payload_template'' (Some []) check_dict) (\<lambda>payload.
        Option.bind (field data ''created_at_ms'' (Some created_now) (check_timestamp pd)) (\<lambda>created.
        Option.bind (field data ''updated_at_ms'' (Some updated_now) (check_timestamp pd)) (\<lambda>updated.
        Option.bind (field data ''last_run_at_ms'' (Some None) (optional (check_timestamp pd))) (\<lambda>last_run.
        Option.bind (field data ''next_run_at_ms'' (Some None) (optional (check_timestamp pd))) (\<lambda>next_run.
        Option.bind (field data ''last_job_ref'' (Some None) (optional (check_str non_blank))) (\<lambda>last_job.
        Option.bind (field data ''run_history_refs'' (Some []) check_refs) (\<lambda>refs.
        Option.bind (field data ''policy_posture'' (Some ''standard'')
          (check_str (one_of automation_postures))) (\<lambda>posture.
        Option.bind (field data ''created_from'' (Some ''cli'')
          (check_str (one_of automation_created_from))) (\<lambda>created_from.
        cross_field_validation \<lparr>au_id = id, au_title = title, au_description = description,
          au_enabled = enabled, au_kind = kind, au_config = config, au_payload = payload,
          au_created = created, au_updated = updated, au_last_run = last_run, au_next_run = next_run,
          au_last_job = last_job, au_history = refs, au_posture = posture, au_from = created_from\<rparr>))))))))))))))))"

text \<open>\<open>model_dump(mode="json")\<close>\<close>

definition model_dump :: "automation \<Rightarrow> dict" where
  "model_dump a = [(''id'', PStr (au_id a)), (''title'', PStr (au_title a)),
     (''description'', PStr (au_description a)), (''enabled'', PBool (au_enabled a)),
     (''trigger_kind'', PStr (trigger_name (au_kind a))), (''trigger_config'', PDict (au_config a)),
     (''payload_template'', PDict (au_payload a)), (''created_at_ms'', PInt (au_created a)),
     (''updated_at_ms'', PInt (au_updated a)), (''last_run_at_ms'', opt_int (au_last_run a)),
     (''next_run_at_ms'', opt_int (au_next_run a)), (''last_job_ref'', popt (au_last_job a)),
     (''run_history_refs'', pstrs (au_history a)), (''policy_posture'', PStr (au_posture a)),
     (''created_from'', PStr (au_from a))]"

text \<open>\<open>touch_updated\<close>; \<open>clock\<close> is the reading used when no time is given.\<close>

definition touch_updated :: "int \<Rightarrow> int option \<Rightarrow> automation \<Rightarrow> automation result" where
  "touch_updated clock now_ms a =
     bindR (case now_ms of None \<Rightarrow> Inr clock
       | Some n \<Rightarrow> if 0 < n then Inr n
           else raise_value ''now_ms must be a positive int epoch-ms when provided'') (\<lambda>stamp.
     Inr (a\<lparr>au_updated := max (max stamp (au_created a)) (au_updated a)\<rparr>))"

end
