(* ===== verification/Json_Text.thy ===== *)
theory Json_Text
  imports PyValue
begin

text \<open>
  \<open>json.dumps\<close> as the program uses it where the order of keys or the text itself matters: the
  re-ordering of \<open>sort_keys=True\<close> at every level, and the compact text of
  \<open>separators=(",", ":")\<close> that is hashed. With it, the facts that a sorted object has the same fields.
\<close>

section \<open>Sorted keys\<close>

fun sort_keys :: "py \<Rightarrow> py"
  and sort_items :: "py list \<Rightarrow> py list"
  and sort_fields :: "dict \<Rightarrow> dict" where
  "sort_keys (PList xs) = PList (sort_items xs)"
| "sort_keys (PDict d) = PDict (sort_key fst (sort_fields d))"
| "sort_keys v = v"
| "sort_items [] = []"
| "sort_items (x # xs) = sort_keys x # sort_items xs"
| "sort_fields [] = []"
| "sort_fields ((k, v) # d) = (k, sort_keys v) # sort_fields d"

definition sorted_dict :: "dict \<Rightarrow> dict" where
  "sorted_dict d = sort_key fst (sort_fields d)"

lemma sort_keys_PDict [simp]: "sort_keys (PDict d) = PDict (sorted_dict d)"
  by (simp add: sorted_dict_def)

declare sort_keys.simps(2) [simp del]

lemma sort_items_map: "sort_items xs = map sort_keys xs"
  by (induction xs) simp_all

lemma keys_sort_fields [simp]: "map fst (sort_fields d) = map fst d"
  by (induction d) auto

lemma map_of_sort_fields: "map_of (sort_fields d) k = map_option sort_keys (map_of d k)"
  by (induction d) auto

lemma map_of_sort_key:
  fixes d :: "(string \<times> 'a) list"
  assumes "distinct (map fst d)"
  shows "map_of (sort_key fst d) k = map_of d k"
proof (rule map_of_inject_set [THEN iffD2, THEN fun_cong])
  show "distinct (map fst (sort_key fst d))"
    using assms by (metis distinct_map distinct_sort inj_on_def set_sort)
qed (use assms in simp_all)

lemma map_of_sorted:
  assumes "wf_dict d"
  shows "map_of (sorted_dict d) k = map_option sort_keys (map_of d k)"
proof -
  have "distinct (map fst (sort_fields d))" using assms by (simp add: wf_dict_def)
  then show ?thesis by (simp add: sorted_dict_def map_of_sort_key map_of_sort_fields)
qed

lemma has_key_sorted [simp]: "wf_dict d \<Longrightarrow> has_key (sorted_dict d) k = has_key d k"
  by (simp add: has_key_def map_of_sorted)

lemma get_or_sorted: "wf_dict d \<Longrightarrow> sort_keys v = v \<Longrightarrow> get_or (sorted_dict d) k v = sort_keys (get_or d k v)"
  by (simp add: get_or_def map_of_sorted split: option.split)

lemma get_sorted: "wf_dict d \<Longrightarrow> get (sorted_dict d) k = sort_keys (get d k)"
  by (simp add: get_def get_or_sorted)

lemma keys_sorted: "set (map fst (sorted_dict d)) = set (map fst d)"
proof -
  have "set (map fst (sorted_dict d)) = fst ` set (sort_fields d)" by (simp add: sorted_dict_def)
  also have "\<dots> = set (map fst (sort_fields d))" by (simp only: set_map)
  also have "\<dots> = set (map fst d)" by (simp only: keys_sort_fields)
  finally show ?thesis .
qed

lemma sorted_dict_Nil_iff [simp]: "sorted_dict d = [] \<longleftrightarrow> d = []"
proof -
  have "sorted_dict d = [] \<longleftrightarrow> map fst (sort_fields d) = []"
    unfolding sorted_dict_def by (metis length_0_conv length_map length_sort)
  then show ?thesis by simp
qed

lemma wf_sorted [simp]: "wf_dict d \<Longrightarrow> wf_dict (sorted_dict d)"
  unfolding wf_dict_def sorted_dict_def
  by (metis distinct_map distinct_sort inj_on_def keys_sort_fields set_sort)

lemma sort_keys_shape [simp]:
  "sort_keys v = PNone \<longleftrightarrow> v = PNone" "sort_keys v = PStr s \<longleftrightarrow> v = PStr s"
  "sort_keys v = PInt n \<longleftrightarrow> v = PInt n" "sort_keys v = PBool b \<longleftrightarrow> v = PBool b"
  "is_dict (sort_keys v) = is_dict v" "is_list (sort_keys v) = is_list v" "is_str (sort_keys v) = is_str v"
  by (cases v; simp)+

text \<open>At every level the keys are distinct, as in every Python dict.\<close>

fun wf_py :: "py \<Rightarrow> bool"
  and wf_items :: "py list \<Rightarrow> bool"
  and wf_fields :: "dict \<Rightarrow> bool" where
  "wf_py (PList xs) = wf_items xs"
| "wf_py (PDict d) = (wf_dict d \<and> wf_fields d)"
| "wf_py v = True"
| "wf_items [] = True"
| "wf_items (x # xs) = (wf_py x \<and> wf_items xs)"
| "wf_fields [] = True"
| "wf_fields ((k, v) # d) = (wf_py v \<and> wf_fields d)"

lemma wf_field_value: "wf_fields d \<Longrightarrow> map_of d k = Some v \<Longrightarrow> wf_py v"
  by (induction d) (auto split: if_splits)

lemma wf_get: "wf_py (PDict d) \<Longrightarrow> get d k = PDict e \<Longrightarrow> wf_dict e \<and> wf_fields e"
  using wf_field_value [of d k "PDict e"] by (auto simp: get_def get_or_def split: option.splits)

section \<open>Text\<close>

definition json_char :: "char \<Rightarrow> string" where
  "json_char c = (let n = code c in
     if n = 34 \<or> n = 92 then [CHR 0x5C, c]
     else if n = 8 then [CHR 0x5C, CHR ''b'']
     else if n = 9 then [CHR 0x5C, CHR ''t'']
     else if n = 10 then [CHR 0x5C, CHR ''n'']
     else if n = 12 then [CHR 0x5C, CHR ''f'']
     else if n = 13 then [CHR 0x5C, CHR ''r'']
     else if n < 32 \<or> 126 < n
       then [CHR 0x5C, CHR ''u'', CHR ''0'', CHR ''0'', hex_digit (n div 16), hex_digit (n mod 16)]
     else [c])"

definition json_string :: "string \<Rightarrow> string" where
  "json_string s = CHR 0x22 # concat (map json_char s) @ [CHR 0x22]"

fun json_float :: "pyfloat \<Rightarrow> string" where
  "json_float (Finite _ t) = t"
| "json_float (Infinite neg) = (if neg then ''-Infinity'' else ''Infinity'')"
| "json_float NotANumber = ''NaN''"

fun json_compact :: "py \<Rightarrow> string"
  and json_items :: "py list \<Rightarrow> string list"
  and json_fields :: "dict \<Rightarrow> string list" where
  "json_compact PNone = ''null''"
| "json_compact (PBool b) = (if b then ''true'' else ''false'')"
| "json_compact (PInt n) = int_str n"
| "json_compact (PFloat f) = json_float f"
| "json_compact (PStr s) = json_string s"
| "json_compact (PList xs) = ''['' @ join '','' (json_items xs) @ '']''"
| "json_compact (PDict d) = ''{'' @ join '','' (json_fields d) @ ''}''"
| "json_items [] = []"
| "json_items (x # xs) = json_compact x # json_items xs"
| "json_fields [] = []"
| "json_fields ((k, v) # d) = (json_string k @ '':'' @ json_compact v) # json_fields d"

end
