(* ===== verification/Automation_Laws.thy ===== *)
theory Automation_Laws
  imports Automation_Model Json_Text
begin
lemma bindR_raise [simp]: "bindR (raise_value m) f = raise_value m"
  by (simp add: raise_value_def)

lemma trigger_of_name_name [simp]: "trigger_of_name (trigger_name k) = Some k"
  by (cases k) (simp_all add: trigger_of_name_def trigger_kinds_def)

lemma unknown_keys_sorted: "unknown_keys (sorted_dict d) allowed = unknown_keys d allowed"
  unfolding unknown_keys_def by (rule sorted_set_cong) (simp only: set_filter keys_sorted)

lemma unknown_keys_Nil_iff: "unknown_keys d allowed = [] \<longleftrightarrow> set (map fst d) \<subseteq> set allowed"
  by (auto simp: unknown_keys_def filter_empty_conv)

lemma clean_or_none_sorted [simp]: "clean_or_none (sort_keys v) = clean_or_none v"
  by (cases v) (simp_all add: clean_or_none_def)

lemma clean_or_none_iff: "clean_or_none v = Some s \<longleftrightarrow> (\<exists>t. v = PStr t \<and> strip t = s \<and> s \<noteq> [])"
  by (cases v) (auto simp: clean_or_none_def)

lemma positive_sorted [simp]: "is_strict_positive_int (sort_keys v) = is_strict_positive_int v"
  by (cases v) (simp_all add: is_strict_positive_int_def)

lemma positive_iff: "is_strict_positive_int v \<longleftrightarrow> (\<exists>n>0. v = PInt n)"
  by (cases v) (auto simp: is_strict_positive_int_def)

lemma positive_config_iff:
  "positive_config k c key what = Inr c' \<longleftrightarrow>
     set (map fst c) \<subseteq> {key} \<and> is_strict_positive_int (get c key) \<and> c' = [(key, get c key)]"
  using unknown_keys_Nil_iff [of c "[key]"]
  by (auto simp del: set_map simp: positive_config_def reject_unknown_keys_def Let_def)

lemma positive_config_sorted:
  "wf_dict c \<Longrightarrow> positive_config k (sorted_dict c) key what = positive_config k c key what"
  by (auto simp: positive_config_def reject_unknown_keys_def unknown_keys_sorted get_sorted positive_iff)

lemma validate_trigger_config_sorted:
  "wf_dict c \<Longrightarrow> validate_trigger_config k (sorted_dict c) = validate_trigger_config k c"
  by (cases k) (simp_all add: validate_trigger_config_def positive_config_sorted reject_unknown_keys_def
      unknown_keys_sorted get_sorted cong: option.case_cong)

lemma clean_or_none_clean [simp]: "s \<noteq> [] \<Longrightarrow> clean_or_none (PStr (strip s)) = (if strip s = [] then None else Some (strip s))"
  by (simp add: clean_or_none_def)

lemma watch_path_event_clean:
  assumes "e \<in> set watch_path_events"
  shows "clean_or_none (PStr e) = Some e"
proof -
  have "list_all (\<lambda>e. clean_or_none (PStr e) = Some e) watch_path_events" by code_simp
  with assms show ?thesis by (simp add: list_all_iff)
qed

lemma watch_path_normal:
  assumes "validate_trigger_config WatchPath c = Inr c'"
  obtains path event where "c' = [(''path'', PStr path), (''event'', PStr event)]"
    "clean_or_none (PStr path) = Some path" "event \<in> set watch_path_events"
  using assms
  by (auto simp: validate_trigger_config_def reject_unknown_keys_def Let_def clean_or_none_iff result_iff
      split: if_splits option.splits)

lemma cron_normal:
  assumes "validate_trigger_config RecurringCron c = Inr c'"
  obtains cron where "c' = [(''cron'', PStr cron)]" "clean_or_none (PStr cron) = Some cron"
  using assms
  by (auto simp: validate_trigger_config_def reject_unknown_keys_def Let_def clean_or_none_iff result_iff
      split: if_splits option.splits)

lemma validate_trigger_config_idem:
  assumes "validate_trigger_config k c = Inr c'"
  shows "validate_trigger_config k c' = Inr c'"
proof (cases k)
  case WatchPath
  from assms [unfolded WatchPath] show ?thesis unfolding WatchPath
    by (rule watch_path_normal)
      (simp add: validate_trigger_config_def reject_unknown_keys_def unknown_keys_def sorted_set_def
        watch_path_event_clean)
next
  case RecurringCron
  from assms [unfolded RecurringCron] show ?thesis unfolding RecurringCron
    by (rule cron_normal) (simp add: validate_trigger_config_def reject_unknown_keys_def unknown_keys_def
        sorted_set_def)
qed (use assms in \<open>auto simp: validate_trigger_config_def positive_config_iff\<close>)

lemma due_config:
  "validate_trigger_config OnceAt c = Inr c \<Longrightarrow> \<exists>n>0. get c ''run_at_ms'' = PInt n"
  "validate_trigger_config Delay c = Inr c \<Longrightarrow> \<exists>n>0. get c ''delay_ms'' = PInt n"
  "validate_trigger_config RecurringInterval c = Inr c \<Longrightarrow> \<exists>n>0. get c ''interval_ms'' = PInt n"
  by (auto simp: validate_trigger_config_def positive_config_iff positive_iff)

section \<open>Payload templates\<close>

lemma template_text_sorted: "wf_dict p \<Longrightarrow> template_text (sorted_dict p) k = template_text p k"
  by (simp add: template_text_def get_sorted)

lemma first_non_object_sorted [simp]: "first_non_object i (map sort_keys vs) = first_non_object i vs"
  by (induction vs arbitrary: i) simp_all

lemma template_steps_sorted: "wf_dict p \<Longrightarrow> template_steps (sorted_dict p) = template_steps p"
  by (cases "get p ''steps''") (simp_all add: template_steps_def get_sorted sort_items_map)

lemma lineage_string_sorted [simp]: "sanitize_lineage_string (sort_keys v) = sanitize_lineage_string v"
  by (cases v) (simp_all add: sanitize_lineage_string_def)

lemma request_object_sorted:
  assumes "wf_py (PDict p)"
    and "\<And>raw. wf_dict raw \<Longrightarrow> body (sorted_dict raw) = body raw"
  shows "request_object (sorted_dict p) key allowed body = request_object p key allowed body"
proof (cases "get p key")
  case (PDict raw)
  with assms show ?thesis
    using wf_get [OF assms(1) PDict]
    by (simp add: request_object_def get_sorted sort_keys_PDict unknown_keys_sorted)
qed (use assms(1) in \<open>simp_all add: request_object_def get_sorted\<close>)

lemma required_str_sorted: "wf_dict r \<Longrightarrow> required_str (sorted_dict r) k m = required_str r k m"
  by (simp add: required_str_def get_sorted)

lemma request_mode_sorted [simp]: "request_mode (sort_keys v) d ms m = request_mode v d ms m"
  by (simp add: request_mode_def)

lemma request_flag_sorted: "wf_dict r \<Longrightarrow> request_flag (sorted_dict r) k m = request_flag r k m"
  by (cases "get_or r k (PBool False)") (simp_all add: request_flag_def get_or_sorted)

lemma extract_write_file_sorted:
  assumes "wf_py (PDict p)"
  shows "extract_write_file_request (sorted_dict p) = extract_write_file_request p"
  unfolding extract_write_file_request_def
proof (rule request_object_sorted [OF assms])
  fix raw assume "wf_dict raw"
  then show "bindR (required_str (sorted_dict raw) ''path'' ''write_file.path must be a non-empty string'') (\<lambda>path.
       case get (sorted_dict raw) ''content'' of
          PStr content \<Rightarrow>
            bindR (request_mode (get (sorted_dict raw) ''mode'') ''overwrite'' [''overwrite'', ''append'']
                     ''write_file.mode must be overwrite or append'') (\<lambda>mode.
            Inr (PDict [(''path'', PStr path), (''content'', PStr content), (''mode'', PStr mode)]))
        | _ \<Rightarrow> raise_value ''write_file.content must be a string'') =
      bindR (required_str raw ''path'' ''write_file.path must be a non-empty string'') (\<lambda>path.
       case get raw ''content'' of
          PStr content \<Rightarrow>
            bindR (request_mode (get raw ''mode'') ''overwrite'' [''overwrite'', ''append'']
                     ''write_file.mode must be overwrite or append'') (\<lambda>mode.
            Inr (PDict [(''path'', PStr path), (''content'', PStr content), (''mode'', PStr mode)]))
        | _ \<Rightarrow> raise_value ''write_file.content must be a string'')"
    by (cases "get raw ''content''") (simp_all add: required_str_sorted get_sorted)
qed

lemma extract_file_organize_sorted:
  assumes "wf_py (PDict p)"
  shows "extract_file_organize_request (sorted_dict p) = extract_file_organize_request p"
  unfolding extract_file_organize_request_def
  by (rule request_object_sorted [OF assms])
    (simp only: required_str_sorted request_flag_sorted get_sorted request_mode_sorted)

lemma validate_payload_sorted:
  assumes "wf_py (PDict p)"
  shows "validate_payload_template (sorted_dict p) = validate_payload_template p"
proof -
  from assms have wf: "wf_dict p" by simp
  then have "has_key (sorted_dict p) = has_key p" by (intro ext) simp
  with wf show ?thesis
    by (simp add: validate_payload_template_def template_text_sorted template_steps_sorted
        extract_write_file_sorted [OF assms] extract_file_organize_sorted [OF assms])
qed

section \<open>Valid definitions\<close>

definition clean_text_ok :: "string \<Rightarrow> bool" where
  "clean_text_ok s \<longleftrightarrow> non_blank s = Some s"

definition valid_automation :: "automation \<Rightarrow> bool" where
  "valid_automation a \<longleftrightarrow>
     id_shape_validator (au_id a) = Some (au_id a) \<and> clean_text_ok (au_title a)
     \<and> strip (au_description a) = au_description a
     \<and> validate_trigger_config (au_kind a) (au_config a) = Inr (au_config a)
     \<and> validate_payload_template (au_payload a) = Inr ()
     \<and> 0 < au_created a \<and> au_created a \<le> au_updated a
     \<and> (\<forall>n \<in> set_option (au_last_run a) \<union> set_option (au_next_run a). 0 < n)
     \<and> (\<forall>s \<in> set_option (au_last_job a). clean_text_ok s) \<and> (\<forall>s \<in> set (au_history a). clean_text_ok s)
     \<and> au_posture a \<in> set automation_postures \<and> au_from a \<in> set automation_created_from"

lemma non_blank_normal: "non_blank s = Some t \<Longrightarrow> clean_text_ok t"
  by (auto simp: non_blank_def clean_text_ok_def split: if_splits)

lemma all_some_iff: "all_some xs = Some ys \<longleftrightarrow> xs = map Some ys"
proof (induction xs arbitrary: ys)
  case (Cons x xs)
  then show ?case by (cases ys) (auto simp: bind_eq_Some_conv)
qed auto

lemma check_refs_pstrs: "check_refs (pstrs hs) = Some hs \<longleftrightarrow> (\<forall>s \<in> set hs. clean_text_ok s)"
  by (auto simp: check_refs_def pstrs_def all_some_iff check_str_def clean_text_ok_def)

lemma check_refs_normal: "check_refs v = Some hs \<Longrightarrow> s \<in> set hs \<Longrightarrow> clean_text_ok s"
proof (cases v)
  case (PList vs)
  assume "check_refs v = Some hs" "s \<in> set hs"
  with PList have "map (check_str non_blank) vs = map Some hs"
    by (simp add: check_refs_def all_some_iff)
  with \<open>s \<in> set hs\<close> obtain w where "check_str non_blank w = Some s"
    by (metis (no_types, lifting) image_eqI imageE list.set_map)
  then show ?thesis by (auto simp: check_str_def non_blank_normal split: py.splits)
qed (simp_all add: check_refs_def)

lemma id_validator_normal: "id_shape_validator s = Some t \<Longrightarrow> id_shape_validator t = Some t"
  by (auto simp: id_shape_validator_def split: if_splits)

lemma cross_field_iff:
  "cross_field_validation a = Some b \<longleftrightarrow>
     (\<exists>c. validate_trigger_config (au_kind a) (au_config a) = Inr c \<and> b = a\<lparr>au_config := c\<rparr>)
     \<and> validate_payload_template (au_payload a) = Inr () \<and> au_created a \<le> au_updated a"
  by (auto simp: cross_field_validation_def split: sum.splits)

text \<open>What is read is valid.\<close>

lemma optional_iff: "optional f v = Some x \<longleftrightarrow>
    (if v = PNone then x = None else (\<exists>y. f v = Some y \<and> x = Some y))"
  by (auto simp: optional_def)

lemma check_timestamp_pos: "check_timestamp pd v = Some n \<Longrightarrow> 0 < n"
  by (auto simp: check_timestamp_def bind_eq_Some_conv split: if_splits)

lemma check_str_Some: "check_str f v = Some t \<Longrightarrow> \<exists>s. v = PStr s \<and> f s = Some t"
  by (cases v) (simp_all add: check_str_def)

lemma field_Some: "field data k d f = Some x \<Longrightarrow> d = Some x \<or> (\<exists>v. f v = Some x)"
  by (auto simp: field_def split: option.splits)

lemma one_of_iff [simp]: "one_of xs s = Some t \<longleftrightarrow> s = t \<and> s \<in> set xs"
  by (auto simp: one_of_def)

lemma field_str:
  "field data k None (check_str f) = Some t \<Longrightarrow> \<exists>s. f s = Some t"
  by (auto dest!: field_Some check_str_Some)

lemma model_validate_valid:
  assumes "model_validate pd n m data = Some a" and "0 < n" and "0 < m"
  shows "valid_automation a"
proof -
  from assms(1) obtain i ti de en k co pa cr up lr nr lj re po fr where f:
    "field data ''id'' None (check_str id_shape_validator) = Some i"
    "field data ''title'' None (check_str non_blank) = Some ti"
    "field data ''description'' (Some []) (check_str (\<lambda>s. Some (strip s))) = Some de"
    "field data ''created_at_ms'' (Some n) (check_timestamp pd) = Some cr"
    "field data ''updated_at_ms'' (Some m) (check_timestamp pd) = Some up"
    "field data ''last_run_at_ms'' (Some None) (optional (check_timestamp pd)) = Some lr"
    "field data ''next_run_at_ms'' (Some None) (optional (check_timestamp pd)) = Some nr"
    "field data ''last_job_ref'' (Some None) (optional (check_str non_blank)) = Some lj"
    "field data ''run_history_refs'' (Some []) check_refs = Some re"
    "field data ''policy_posture'' (Some ''standard'') (check_str (one_of automation_postures)) = Some po"
    "field data ''created_from'' (Some ''cli'') (check_str (one_of automation_created_from)) = Some fr"
    and x: "cross_field_validation \<lparr>au_id = i, au_title = ti, au_description = de,
          au_enabled = en, au_kind = k, au_config = co, au_payload = pa,
          au_created = cr, au_updated = up, au_last_run = lr, au_next_run = nr,
          au_last_job = lj, au_history = re, au_posture = po, au_from = fr\<rparr> = Some a"
    unfolding model_validate_def by (auto simp: bind_eq_Some_conv split: if_splits)
  from f(1) have i: "id_shape_validator i = Some i" using field_str id_validator_normal by blast
  from f(2) have ti: "clean_text_ok ti" using field_str non_blank_normal by blast
  from f(3) have de: "strip de = de" by (auto dest!: field_Some check_str_Some)
  from f(4) have cr: "0 < cr" using assms(2) by (auto dest!: field_Some check_timestamp_pos)
  have lr: "\<forall>t \<in> set_option lr \<union> set_option nr. 0 < t"
    using f(6,7) by (auto dest!: field_Some simp: optional_iff check_timestamp_pos split: if_splits)
  have lj: "\<forall>s \<in> set_option lj. clean_text_ok s"
    using f(8) by (auto dest!: field_Some check_str_Some simp: optional_iff non_blank_normal split: if_splits)
  have re: "\<forall>s \<in> set re. clean_text_ok s"
    using f(9) by (auto dest!: field_Some check_refs_normal)
  have po: "po \<in> set automation_postures" and fr: "fr \<in> set automation_created_from"
    using f(10,11) by (auto dest!: field_Some check_str_Some simp: automation_postures_def automation_created_from_def)
  from x show ?thesis using i ti de cr lr lj re po fr
    by (auto simp: cross_field_iff valid_automation_def intro: validate_trigger_config_idem)
qed

text \<open>What is written reads back: with the keys of its payload sorted, and otherwise as it was.\<close>

lemma wf_single: "c = [(k, v)] \<Longrightarrow> wf_dict c" "c = [(k, v), (k', v')] \<Longrightarrow> k \<noteq> k' \<Longrightarrow> wf_dict c"
  by (simp_all add: wf_dict_def)

lemma wf_validated_config:
  assumes "validate_trigger_config k c = Inr c"
  shows "wf_dict c"
proof (cases k)
  case WatchPath
  from assms [unfolded WatchPath] show ?thesis by (rule watch_path_normal) (simp add: wf_dict_def)
next
  case RecurringCron
  from assms [unfolded RecurringCron] show ?thesis by (rule cron_normal) (simp add: wf_dict_def)
qed (use assms in \<open>auto simp: validate_trigger_config_def positive_config_iff intro: wf_single\<close>)

lemma map_of_dump:
  "map_of (model_dump a) ''id'' = Some (PStr (au_id a))"
  "map_of (model_dump a) ''title'' = Some (PStr (au_title a))"
  "map_of (model_dump a) ''description'' = Some (PStr (au_description a))"
  "map_of (model_dump a) ''enabled'' = Some (PBool (au_enabled a))"
  "map_of (model_dump a) ''trigger_kind'' = Some (PStr (trigger_name (au_kind a)))"
  "map_of (model_dump a) ''trigger_config'' = Some (PDict (au_config a))"
  "map_of (model_dump a) ''payload_template'' = Some (PDict (au_payload a))"
  "map_of (model_dump a) ''created_at_ms'' = Some (PInt (au_created a))"
  "map_of (model_dump a) ''updated_at_ms'' = Some (PInt (au_updated a))"
  "map_of (model_dump a) ''last_run_at_ms'' = Some (opt_int (au_last_run a))"
  "map_of (model_dump a) ''next_run_at_ms'' = Some (opt_int (au_next_run a))"
  "map_of (model_dump a) ''last_job_ref'' = Some (popt (au_last_job a))"
  "map_of (model_dump a) ''run_history_refs'' = Some (pstrs (au_history a))"
  "map_of (model_dump a) ''policy_posture'' = Some (PStr (au_posture a))"
  "map_of (model_dump a) ''created_from'' = Some (PStr (au_from a))"
  by (simp_all add: model_dump_def)

lemma keys_dump: "map fst (model_dump a) = automation_fields"
  by (simp add: model_dump_def automation_fields_def)

lemma wf_dump: "wf_dict (model_dump a)"
proof -
  have "distinct automation_fields" by code_simp
  then show ?thesis by (simp add: wf_dict_def keys_dump)
qed

lemma field_dump:
  "map_of (model_dump a) k = Some v \<Longrightarrow> field (sorted_dict (model_dump a)) k d f = f (sort_keys v)"
  by (simp add: field_def map_of_sorted wf_dump)

lemma sort_keys_pstrs [simp]: "sort_keys (pstrs xs) = pstrs xs"
  by (simp add: pstrs_def sort_items_map)

lemma sort_keys_opt [simp]: "sort_keys (opt_int x) = opt_int x" "sort_keys (popt y) = popt y"
  by (cases x; simp) (cases y; simp)

lemma optional_opt:
  "plain_coercions pd \<Longrightarrow> \<forall>n \<in> set_option x. 0 < n \<Longrightarrow> optional (check_timestamp pd) (opt_int x) = Some x"
  "\<forall>s \<in> set_option y. clean_text_ok s \<Longrightarrow> optional (check_str non_blank) (popt y) = Some y"
  by (cases x; simp add: optional_def check_timestamp_def plain_coercions_def)
    (cases y; simp add: optional_def check_str_def clean_text_ok_def)

theorem model_validate_dump:
  assumes v: "valid_automation a" and pd: "plain_coercions pd" and wf: "wf_py (PDict (au_payload a))"
  shows "model_validate pd n m (sorted_dict (model_dump a)) = Some (a\<lparr>au_payload := sorted_dict (au_payload a)\<rparr>)"
proof -
  let ?d = "sorted_dict (model_dump a)"
  note fd = map_of_dump [of a, THEN field_dump]
  have keys: "list_all (\<lambda>k. k \<in> set automation_fields) (map fst ?d)"
    unfolding list_all_iff keys_sorted keys_dump by simp
  have refs: "check_refs (pstrs (au_history a)) = Some (au_history a)"
    using v by (simp add: check_refs_pstrs valid_automation_def)
  have lr: "optional (check_timestamp pd) (opt_int (au_last_run a)) = Some (au_last_run a)"
    and nr: "optional (check_timestamp pd) (opt_int (au_next_run a)) = Some (au_next_run a)"
    and lj: "optional (check_str non_blank) (popt (au_last_job a)) = Some (au_last_job a)"
    using v by (simp_all add: optional_opt pd valid_automation_def)
  have config: "validate_trigger_config (au_kind a) (sorted_dict (au_config a)) = Inr (au_config a)"
    using v wf_validated_config [of "au_kind a" "au_config a"]
    by (simp add: valid_automation_def validate_trigger_config_sorted)
  have payload: "validate_payload_template (sorted_dict (au_payload a)) = Inr ()"
    using v by (simp add: valid_automation_def validate_payload_sorted [OF wf])
  show ?thesis
    using v pd keys
    by (simp add: model_validate_def fd refs lr nr lj check_str_def check_dict_def check_timestamp_def
        valid_automation_def clean_text_ok_def plain_coercions_def cross_field_validation_def config payload
        one_of_def)
qed

end
