(* ===== verification/Automation_Store.thy ===== *)
theory Automation_Store
  imports Automation_Laws Queue_Store Job_Intent
begin

text \<open>
  The files of the automation layer: the definitions (\<open>voxera/automation/store.py\<close>), the run history
  (\<open>voxera/automation/history.py\<close>) and the submission of a payload to the inbox of the queue
  (\<open>voxera/core/inbox.py\<close>), as programs on the files of the queue root. A write or a deletion may fail
  with the exception the environment gives for it and then leaves the files as they were: the definition
  and history writers replace the file as a whole. The digests and the texts of foreign exceptions are
  parameters.
\<close>

section \<open>Environment and elementary steps\<close>

record auto_env =
  ae_root :: string
  ae_pydantic :: pydantic
  ae_now :: "files \<Rightarrow> int"
  ae_write_error :: "qpath \<Rightarrow> content \<Rightarrow> files \<Rightarrow> exc option"
  ae_unlink_error :: "qpath \<Rightarrow> files \<Rightarrow> exc option"
  ae_sha1 :: "string \<Rightarrow> string"
  ae_sha256 :: "string \<Rightarrow> string"
  ae_validation_text :: "dict \<Rightarrow> string"
  ae_parse_text :: "string \<Rightarrow> string"
  ae_lock_held :: "files \<Rightarrow> bool"

definition full_path :: "auto_env \<Rightarrow> qpath \<Rightarrow> string" where
  "full_path env p = ae_root env @ ''/'' @ dir_path (fst p) @ ''/'' @ snd p"

definition auto_write :: "auto_env \<Rightarrow> qpath \<Rightarrow> content \<Rightarrow> (unit, files) prog" where
  "auto_write env p c fs = (case ae_write_error env p c fs of
     Some e \<Rightarrow> (Inl e, fs)
   | None \<Rightarrow> (Inr (), put_file p \<lparr>fl_content = c, fl_mtime = ae_now env fs\<rparr> fs))"

definition auto_clock :: "auto_env \<Rightarrow> int option \<Rightarrow> (int, files) prog" where
  "auto_clock env now_ms = (case now_ms of None \<Rightarrow> getM (ae_now env) | Some n \<Rightarrow> retM n)"

section \<open>Definitions\<close>

definition store_error :: "string \<Rightarrow> exc" where
  "store_error msg = Exc (OtherError ''AutomationStoreError'') msg"

definition validated_id :: "string \<Rightarrow> string result" where
  "validated_id i = (if strip i = [] then Inl (store_error ''automation id must be a non-empty string'')
     else if matches_id_pattern (strip i) then Inr (strip i)
     else Inl (store_error (''invalid automation id: '' @ repr_str i)))"

definition definition_path :: "string \<Rightarrow> qpath result" where
  "definition_path i = bindR (validated_id i) (\<lambda>s. Inr (AutoDefs, s @ ''.json''))"

definition save_automation_definition ::
  "auto_env \<Rightarrow> automation \<Rightarrow> bool \<Rightarrow> int option \<Rightarrow> (qpath, files) prog" where
  "save_automation_definition env a touch now_ms =
     bindM (liftR (definition_path (au_id a))) (\<lambda>target.
     bindM (getM (ae_now env)) (\<lambda>clock.
     bindM (liftR (if touch then touch_updated clock now_ms a else Inr a)) (\<lambda>to_write.
     thenM (auto_write env target (Json (PDict (sorted_dict (model_dump to_write)))))
       (retM target))))"

text \<open>The content of a definition file, parsed and validated\<close>

definition read_definition :: "auto_env \<Rightarrow> files \<Rightarrow> content \<Rightarrow> automation result" where
  "read_definition env fs c = (case c of
     Json (PDict data) \<Rightarrow> (case model_validate (ae_pydantic env) (ae_now env fs) (ae_now env fs) data of
         None \<Rightarrow> Inl (Exc (OtherError ''ValidationError'') (ae_validation_text env data))
       | Some a \<Rightarrow> Inr a)
   | Json _ \<Rightarrow> raise_value ''automation file must contain a JSON object''
   | Text t \<Rightarrow> Inl (Exc (OtherError ''JSONDecodeError'') (ae_parse_text env t))
   | Lines _ \<Rightarrow> Inl (Exc (OtherError ''JSONDecodeError'') (ae_parse_text env [])))"

definition load_automation_definition :: "auto_env \<Rightarrow> string \<Rightarrow> (automation, files) prog" where
  "load_automation_definition env i =
     bindM (liftR (definition_path i)) (\<lambda>p fs. (case file_at fs p of
       None \<Rightarrow> Inl (Exc (OtherError ''AutomationNotFoundError'') (''automation not found: '' @ i))
     | Some f \<Rightarrow> (case fl_content f of
         Json v \<Rightarrow> if \<not> is_dict v then
             Inl (store_error (''automation file '' @ full_path env p @ '' must contain a JSON object''))
           else (case read_definition env fs (fl_content f) of
             Inl e \<Rightarrow> Inl (store_error (''automation file '' @ full_path env p @ '' failed validation: '' @ str_exc e))
           | Inr a \<Rightarrow> Inr a)
       | c \<Rightarrow> (case read_definition env fs c of
             Inl e \<Rightarrow> Inl (store_error (''automation file '' @ full_path env p @ '' is not valid JSON: '' @ str_exc e))
           | Inr a \<Rightarrow> Inr a)), fs))"

text \<open>The names that match \<open>*.json\<close>, sorted\<close>

definition definition_names :: "files \<Rightarrow> string list" where
  "definition_names fs = filter (\<lambda>n. ends_with n ''.json'') (dir_names fs AutoDefs)"

definition read_named :: "auto_env \<Rightarrow> files \<Rightarrow> string \<Rightarrow> automation result" where
  "read_named env fs n = (case file_at fs (AutoDefs, n) of
     None \<Rightarrow> Inl (Exc FileNotFoundError n) | Some f \<Rightarrow> read_definition env fs (fl_content f))"

fun read_all :: "auto_env \<Rightarrow> files \<Rightarrow> bool \<Rightarrow> string list \<Rightarrow> automation list result" where
  "read_all env fs strict [] = Inr []"
| "read_all env fs strict (n # ns) = (case read_named env fs n of
     Inl e \<Rightarrow> if strict then Inl (store_error (''automation file '' @ full_path env (AutoDefs, n)
                  @ '' failed to load: '' @ str_exc e))
              else read_all env fs strict ns
   | Inr a \<Rightarrow> bindR (read_all env fs strict ns) (\<lambda>rest. Inr (a # rest)))"

definition list_automation_definitions :: "auto_env \<Rightarrow> bool \<Rightarrow> files \<Rightarrow> automation list result" where
  "list_automation_definitions env strict fs =
     bindR (read_all env fs strict (definition_names fs)) (\<lambda>defs. Inr (sort_key au_id defs))"

definition delete_automation_definition :: "auto_env \<Rightarrow> string \<Rightarrow> bool \<Rightarrow> (bool, files) prog" where
  "delete_automation_definition env i missing_ok =
     bindM (liftR (definition_path i)) (\<lambda>p fs.
       if \<not> exists_file fs p then
         (if missing_ok then (Inr False, fs)
          else (Inl (Exc (OtherError ''AutomationNotFoundError'') (''automation not found: '' @ i)), fs))
       else (case ae_unlink_error env p fs of
         Some e \<Rightarrow> (Inl (store_error (''failed to delete automation file '' @ full_path env p @ '': ''
                      @ str_exc e)), fs)
       | None \<Rightarrow> (Inr True, drop_file p fs)))"

text \<open>\<open>voxera automation enable\<close> and \<open>disable\<close>: a definition that is already so is left alone.\<close>

definition set_enabled :: "auto_env \<Rightarrow> string \<Rightarrow> bool \<Rightarrow> (unit, files) prog" where
  "set_enabled env i flag =
     bindM (load_automation_definition env i) (\<lambda>a.
       if au_enabled a = flag then retM ()
       else bindM (save_automation_definition env (a\<lparr>au_enabled := flag\<rparr>) True None) (\<lambda>_. retM ()))"

section \<open>History\<close>

datatype run_outcome = Submitted | Skipped | RunError

fun outcome_name :: "run_outcome \<Rightarrow> string" where
  "outcome_name Submitted = ''submitted''"
| "outcome_name Skipped = ''skipped''"
| "outcome_name RunError = ''error''"

definition validated_id_segment :: "string \<Rightarrow> string \<Rightarrow> string result" where
  "validated_id_segment value kind =
     (if strip value = [] \<or> \<not> matches_id_pattern (strip value)
      then raise_value (''invalid automation '' @ kind @ '': '' @ repr_str value)
      else Inr (strip value))"

definition generate_run_id :: "auto_env \<Rightarrow> string \<Rightarrow> int \<Rightarrow> string" where
  "generate_run_id env i stamp =
     int_str stamp @ ''-'' @ take 8 (ae_sha1 env (i @ ''|'' @ int_str stamp))"

text \<open>\<open>_summarize_payload\<close>\<close>

definition summary_text :: "dict \<Rightarrow> string \<Rightarrow> dict" where
  "summary_text payload key = (case clean_or_none (get payload key) of
     None \<Rightarrow> [] | Some s \<Rightarrow> [(key, PStr s)])"

definition summarize_payload :: "dict \<Rightarrow> dict" where
  "summarize_payload payload =
     summary_text payload ''mission_id'' @ summary_text payload ''goal'' @ summary_text payload ''title''
     @ (case get payload ''steps'' of PList steps \<Rightarrow> [(''steps_count'', PInt (int (length steps)))] | _ \<Rightarrow> [])
     @ (if is_dict (get payload ''write_file'') then [(''has_write_file'', PBool True)] else [])
     @ (if is_dict (get payload ''file_organize'') then [(''has_file_organize'', PBool True)] else [])"

definition hash_payload :: "auto_env \<Rightarrow> dict \<Rightarrow> string" where
  "hash_payload env payload = ae_sha256 env (json_compact (sort_keys (PDict payload)))"

definition history_record_name :: "string \<Rightarrow> string \<Rightarrow> string result" where
  "history_record_name automation_id run_id =
     bindR (validated_id_segment automation_id ''id'') (\<lambda>i.
     bindR (validated_id_segment run_id ''run_id'') (\<lambda>r.
     Inr (''auto-'' @ i @ ''-'' @ r @ ''.json'')))"

definition build_history_record ::
  "auto_env \<Rightarrow> string \<Rightarrow> string \<Rightarrow> int \<Rightarrow> trigger_kind \<Rightarrow> run_outcome \<Rightarrow> string option \<Rightarrow> string
   \<Rightarrow> dict \<Rightarrow> dict" where
  "build_history_record env automation_id run_id triggered_at kind outcome job_ref message payload =
     [(''schema_version'', PInt 1), (''automation_id'', PStr automation_id), (''run_id'', PStr run_id),
      (''triggered_at_ms'', PInt triggered_at), (''trigger_kind'', PStr (trigger_name kind)),
      (''outcome'', PStr (outcome_name outcome)), (''queue_job_ref'', popt job_ref),
      (''message'', PStr message), (''payload_summary'', PDict (summarize_payload payload)),
      (''payload_hash'', PStr (hash_payload env payload))]"

definition write_history_record :: "auto_env \<Rightarrow> dict \<Rightarrow> (qpath, files) prog" where
  "write_history_record env record = (case clean_or_none (get record ''automation_id'') of
     None \<Rightarrow> raiseM (Exc ValueError ''history record requires a non-empty automation_id'')
   | Some _ \<Rightarrow> (case clean_or_none (get record ''run_id'') of
       None \<Rightarrow> raiseM (Exc ValueError ''history record requires a non-empty run_id'')
     | Some _ \<Rightarrow>
         bindM (liftR (history_record_name (the_str (get record ''automation_id'')) (the_str (get record ''run_id''))))
           (\<lambda>name. thenM (auto_write env (AutoHistory, name) (Json (PDict (sorted_dict record))))
              (retM (AutoHistory, name)))))"

definition history_record_ref :: "string \<Rightarrow> string \<Rightarrow> string result" where
  "history_record_ref automation_id run_id =
     bindR (history_record_name automation_id run_id) (\<lambda>name. Inr (''history/'' @ name))"

section \<open>The inbox\<close>

definition generate_inbox_id :: "auto_env \<Rightarrow> string \<Rightarrow> int \<Rightarrow> string" where
  "generate_inbox_id env goal now_ms =
     int_str now_ms @ ''-'' @ take 8 (ae_sha1 env (goal @ ''|'' @ int_str now_ms))"

definition first_text :: "dict \<Rightarrow> string list \<Rightarrow> string option" where
  "first_text payload keys = (case List.map_filter (\<lambda>k. clean_or_none (get payload k)) keys of
     [] \<Rightarrow> None | s # _ \<Rightarrow> Some s)"

definition inner_text :: "dict \<Rightarrow> string \<Rightarrow> string \<Rightarrow> string option" where
  "inner_text payload outer inner = (case get payload outer of
     PDict d \<Rightarrow> clean_or_none (get d inner) | _ \<Rightarrow> None)"

definition canonical_request_anchor_text :: "dict \<Rightarrow> string option" where
  "canonical_request_anchor_text payload =
     (case first_text payload [''mission_id'', ''mission''] of Some s \<Rightarrow> Some (''mission:'' @ s) | None \<Rightarrow>
     (case first_text payload [''goal'', ''plan_goal''] of Some s \<Rightarrow> Some s | None \<Rightarrow>
      if is_list (get payload ''steps'') \<and> the_list (get payload ''steps'') \<noteq> [] then
        Some (''inline_steps:'' @ nat_str (length (the_list (get payload ''steps''))))
      else (case inner_text payload ''write_file'' ''path'' of Some s \<Rightarrow> Some (''write_file:'' @ s) | None \<Rightarrow>
        map_option ((@) ''file_organize:'') (inner_text payload ''file_organize'' ''source_path''))))"

definition inbox_path :: "string \<Rightarrow> qpath" where
  "inbox_path job_id = (InBucket Inbox, ''inbox-'' @ job_id @ ''.json'')"

definition add_inbox_payload :: "auto_env \<Rightarrow> dict \<Rightarrow> string option \<Rightarrow> string \<Rightarrow> (qpath, files) prog" where
  "add_inbox_payload env payload job_id source_lane = (case canonical_request_anchor_text payload of
     None \<Rightarrow> raiseM (Exc ValueError (''job payload requires at least one canonical request anchor ''
               @ ''(mission_id, goal, steps, write_file, or file_organize)''))
   | Some anchor \<Rightarrow>
       bindM (getM (ae_now env)) (\<lambda>clock.
       let rid = strip (case job_id of
             None \<Rightarrow> generate_inbox_id env anchor clock
           | Some j \<Rightarrow> if j = [] then generate_inbox_id env anchor clock else j) in
       if rid = [] then raiseM (Exc ValueError ''job id cannot be empty'')
       else
         let enriched = enrich_queue_job_payload (dmerge [(''id'', PStr rid)] payload) source_lane;
             target = inbox_path rid in
         bindM (getM (\<lambda>fs. exists_file fs target)) (\<lambda>present.
         if present then raiseM (Exc (OtherError ''FileExistsError'')
             (''inbox job already exists: '' @ full_path env target))
         else thenM (auto_write env target (Json (PDict enriched))) (retM target))))"

definition add_inbox_job :: "auto_env \<Rightarrow> string \<Rightarrow> string option \<Rightarrow> (qpath, files) prog" where
  "add_inbox_job env goal job_id = add_inbox_payload env [(''goal'', PStr goal)] job_id ''inbox_cli''"

end
