(* ===== verification/Automation_Runner.thy ===== *)
theory Automation_Runner
  imports Automation_Store
begin

text \<open>
  The automation runner (\<open>voxera/automation/runner.py\<close>): when a definition is due, what one pass does with
  it, a pass over all the definitions, and the pass behind the runner's lock
  (\<open>voxera/automation/lock.py\<close>).
\<close>

section \<open>Due\<close>

definition supported_trigger_kinds :: "trigger_kind list" where
  "supported_trigger_kinds = [OnceAt, Delay, RecurringInterval]"

definition one_shot_trigger_kinds :: "trigger_kind list" where
  "one_shot_trigger_kinds = [OnceAt, Delay]"

definition positive_int :: "dict \<Rightarrow> string \<Rightarrow> int option" where
  "positive_int config key = (case get config key of PInt n \<Rightarrow> if 0 < n then Some n else None | _ \<Rightarrow> None)"

definition compute_due_anchor_ms :: "automation \<Rightarrow> int option" where
  "compute_due_anchor_ms a = (case au_kind a of
     OnceAt \<Rightarrow> positive_int (au_config a) ''run_at_ms''
   | Delay \<Rightarrow> map_option (\<lambda>d. au_created a + d) (positive_int (au_config a) ''delay_ms'')
   | RecurringInterval \<Rightarrow> (case au_next_run a of
       Some t \<Rightarrow> Some t
     | None \<Rightarrow> map_option (\<lambda>d. au_created a + d) (positive_int (au_config a) ''interval_ms''))
   | _ \<Rightarrow> None)"

definition evaluate_due_automation :: "automation \<Rightarrow> int \<Rightarrow> bool \<Rightarrow> bool \<times> string" where
  "evaluate_due_automation a stamp force =
     (if \<not> au_enabled a then (False, ''definition is disabled'')
      else if au_kind a \<notin> set supported_trigger_kinds then
        (False, ''trigger_kind '' @ repr_str (trigger_name (au_kind a)) @ '' is not supported by the runner'')
      else if force then (True, ''forced (operator run-now, now_ms='' @ int_str stamp @ '')'')
      else if au_kind a \<in> set one_shot_trigger_kinds \<and> au_last_run a \<noteq> None then
        (False, ''one-shot definition has already fired'')
      else (case compute_due_anchor_ms a of
        None \<Rightarrow> (False, ''trigger_config is missing a usable due anchor'')
      | Some anchor \<Rightarrow>
          if stamp < anchor then
            (False, ''not yet due (anchor_ms='' @ int_str anchor @ '', now_ms='' @ int_str stamp @ '')'')
          else (True, ''due (anchor_ms='' @ int_str anchor @ '', now_ms='' @ int_str stamp @ '')'')))"

section \<open>One definition\<close>

record auto_result =
  ar_id :: string
  ar_outcome :: run_outcome
  ar_message :: string
  ar_job :: "string option"
  ar_history :: "string option"
  ar_run_id :: "string option"
  ar_kind :: trigger_kind

definition persist_history ::
  "auto_env \<Rightarrow> automation \<Rightarrow> string \<Rightarrow> int \<Rightarrow> run_outcome \<Rightarrow> string option \<Rightarrow> string \<Rightarrow> (string, files) prog" where
  "persist_history env a run_id triggered_at outcome job_ref message =
     thenM (write_history_record env (build_history_record env (au_id a) run_id triggered_at (au_kind a)
              outcome job_ref message (au_payload a)))
       (liftR (history_record_ref (au_id a) run_id))"

definition emit_queue_job :: "auto_env \<Rightarrow> automation \<Rightarrow> string \<Rightarrow> (qpath, files) prog" where
  "emit_queue_job env a run_id = add_inbox_payload env (au_payload a) (Some run_id) ''automation_runner''"

text \<open>The definition as it is saved after a submission. \<open>trigger_config["interval_ms"]\<close> of a validated
  recurring definition is an int.\<close>

definition fired :: "automation \<Rightarrow> int \<Rightarrow> string \<Rightarrow> string \<Rightarrow> automation" where
  "fired a stamp job_ref history_ref =
     (let b = a\<lparr>au_last_run := Some stamp, au_last_job := Some job_ref,
                au_history := au_history a @ [history_ref]\<rparr> in
      if au_kind a \<in> set one_shot_trigger_kinds then b\<lparr>au_enabled := False, au_next_run := None\<rparr>
      else if au_kind a = RecurringInterval then
        b\<lparr>au_enabled := True,
          au_next_run := Some (stamp + (case get (au_config a) ''interval_ms'' of PInt n \<Rightarrow> n | _ \<Rightarrow> 0))\<rparr>
      else b)"

definition process_automation_definition ::
  "auto_env \<Rightarrow> automation \<Rightarrow> int option \<Rightarrow> bool \<Rightarrow> (auto_result, files) prog" where
  "process_automation_definition env a now_ms force =
     bindM (auto_clock env now_ms) (\<lambda>stamp.
     let (due, reason) = evaluate_due_automation a stamp force;
         run_id = generate_run_id env (au_id a) stamp;
         row = \<lparr>ar_id = au_id a, ar_outcome = Skipped, ar_message = reason, ar_job = None,
                ar_history = None, ar_run_id = None, ar_kind = au_kind a\<rparr>
     in if \<not> due then retM row
     else bindM (attemptM (emit_queue_job env a run_id)) (\<lambda>emitted. case emitted of
         Inl e \<Rightarrow>
           let message = ''failed to emit queue job: '' @ str_exc e in
           bindM (persist_history env a run_id stamp RunError None message) (\<lambda>ref.
           retM (row\<lparr>ar_outcome := RunError, ar_message := message, ar_history := Some ref,
                     ar_run_id := Some run_id\<rparr>))
       | Inr inbox_target \<Rightarrow>
           let job_ref = snd inbox_target in
           bindM (persist_history env a run_id stamp Submitted (Some job_ref) reason) (\<lambda>ref.
           bindM (attemptM (save_automation_definition env (fired a stamp job_ref ref) True (Some stamp)))
             (\<lambda>saved. case saved of
               Inl e \<Rightarrow>
                 let message = ''queue job '' @ job_ref @ '' was emitted but definition state save failed: ''
                       @ str_exc e;
                     error_run_id = generate_run_id env (au_id a) (stamp + 1) in
                 bindM (persist_history env a error_run_id stamp RunError (Some job_ref) message) (\<lambda>ref2.
                 retM (row\<lparr>ar_outcome := RunError, ar_message := message, ar_job := Some job_ref,
                           ar_history := Some ref2, ar_run_id := Some error_run_id\<rparr>))
             | Inr _ \<Rightarrow>
                 retM (row\<lparr>ar_outcome := Submitted, ar_job := Some job_ref, ar_history := Some ref,
                           ar_run_id := Some run_id\<rparr>)))))"

definition run_automation_once :: "auto_env \<Rightarrow> string \<Rightarrow> int option \<Rightarrow> (auto_result, files) prog" where
  "run_automation_once env i now_ms =
     bindM (load_automation_definition env i) (\<lambda>a. process_automation_definition env a now_ms False)"

text \<open>\<open>voxera automation run-now\<close>\<close>

definition run_automation_now :: "auto_env \<Rightarrow> string \<Rightarrow> (auto_result, files) prog" where
  "run_automation_now env i =
     bindM (load_automation_definition env i) (\<lambda>a. process_automation_definition env a None True)"

section \<open>Passes\<close>

definition run_due_automations :: "auto_env \<Rightarrow> int option \<Rightarrow> (auto_result list, files) prog" where
  "run_due_automations env now_ms =
     bindM (auto_clock env now_ms) (\<lambda>stamp.
     bindM (getM (list_automation_definitions env False)) (\<lambda>listed. case listed of
       Inl _ \<Rightarrow> retM []
     | Inr defs \<Rightarrow> collectM defs (\<lambda>a. process_automation_definition env a (Some stamp) False)))"

record runner_pass =
  rp_status :: string
  rp_message :: string
  rp_results :: "auto_result list"

definition count_outcome :: "run_outcome \<Rightarrow> auto_result list \<Rightarrow> nat" where
  "count_outcome out rs = length (filter (\<lambda>r. ar_outcome r = out) rs)"

definition pass_summary :: "auto_result list \<Rightarrow> string" where
  "pass_summary rs =
     (let part = (\<lambda>out label. if count_outcome out rs = 0 then [] else [nat_str (count_outcome out rs) @ label]);
          parts = part Submitted '' submitted'' @ part Skipped '' skipped'' @ part RunError '' errors''
      in if parts = [] then ''no definitions found'' else join '', '' parts)"

text \<open>The advisory lock is taken without waiting and given back in every case; its file holds only the
  process id and the time and is left out. The dash of the busy message is not a character of the model's
  strings and stands here as two hyphens.\<close>

definition run_due_automations_locked :: "auto_env \<Rightarrow> int option \<Rightarrow> (runner_pass, files) prog" where
  "run_due_automations_locked env now_ms =
     bindM (getM (ae_lock_held env)) (\<lambda>busy.
       if busy then retM \<lparr>rp_status = ''busy'',
           rp_message = ''automation runner lock is held -- skipping this pass'', rp_results = []\<rparr>
       else bindM (run_due_automations env now_ms) (\<lambda>rs.
         retM \<lparr>rp_status = ''ok'', rp_message = pass_summary rs, rp_results = rs\<rparr>))"

end
