(* ===== verification/Guarantees.thy ===== *)
theory Guarantees
  imports Step_Monad
begin

text \<open>
  What a program guarantees of the states before and after it, whether it returns or raises: a reflexive
  and transitive relation, by the same structural rules as the frames of Step\_Monad.
\<close>

definition effect :: "('s \<Rightarrow> 's \<Rightarrow> bool) \<Rightarrow> ('a, 's) prog \<Rightarrow> bool" where
  "effect R m \<longleftrightarrow> (\<forall>s. R s (snd (m s)))"

lemma effectD: "effect R m \<Longrightarrow> R s (snd (m s))"
  by (simp add: effect_def)

lemma effectI: "(\<And>s. R s (snd (m s))) \<Longrightarrow> effect R m"
  by (simp add: effect_def)

lemma effect_mono: "effect R m \<Longrightarrow> (\<And>s t. R s t \<Longrightarrow> Q s t) \<Longrightarrow> effect Q m"
  by (simp add: effect_def)

locale guarantee =
  fixes R :: "'s \<Rightarrow> 's \<Rightarrow> bool"
  assumes refl: "R s s"
    and trans: "R s t \<Longrightarrow> R t u \<Longrightarrow> R s u"
begin

lemma effect_pure: "effect R (retM x)" "effect R (raiseM e)" "effect R (liftR r)" "effect R (getM g)"
  by (simp_all add: effect_def refl)

lemma effect_bind:
  assumes "effect R m" "\<And>x. effect R (k x)"
  shows "effect R (bindM m k)"
proof (rule effectI)
  fix s
  obtain r t where m: "m s = (r, t)" by (cases "m s")
  with assms(1) have "R s t" using effectD [of R m s] by simp
  then show "R s (snd (bindM m k s))"
    using m assms(2) by (cases r) (auto simp: bindM_def effect_def intro: trans)
qed

lemma effect_then: "effect R m \<Longrightarrow> effect R n \<Longrightarrow> effect R (thenM m n)"
  unfolding thenM_def by (rule effect_bind)

lemma effect_attempt: "effect R m \<Longrightarrow> effect R (attemptM m)"
  by (simp add: effect_def attemptM_def)

lemma effect_if: "(b \<Longrightarrow> effect R m) \<Longrightarrow> (\<not> b \<Longrightarrow> effect R n) \<Longrightarrow> effect R (if b then m else n)"
  by simp

lemma effect_when: "(b \<Longrightarrow> effect R m) \<Longrightarrow> effect R (whenM b m)"
  by (simp add: whenM_def effect_pure)

lemma effect_option:
  "(v = None \<Longrightarrow> effect R m) \<Longrightarrow> (\<And>x. v = Some x \<Longrightarrow> effect R (n x)) \<Longrightarrow>
   effect R (case v of None \<Rightarrow> m | Some x \<Rightarrow> n x)"
  by (cases v) simp_all

lemma effect_sum:
  "(\<And>x. v = Inl x \<Longrightarrow> effect R (m x)) \<Longrightarrow> (\<And>x. v = Inr x \<Longrightarrow> effect R (n x)) \<Longrightarrow>
   effect R (case v of Inl x \<Rightarrow> m x | Inr x \<Rightarrow> n x)"
  by (cases v) simp_all

lemma effect_prod: "(\<And>x y. v = (x, y) \<Longrightarrow> effect R (m x y)) \<Longrightarrow> effect R (case v of (x, y) \<Rightarrow> m x y)"
  by (cases v) simp

lemma effect_collect: "(\<And>x. x \<in> set xs \<Longrightarrow> effect R (g x)) \<Longrightarrow> effect R (collectM xs g)"
  by (induction xs) (simp_all add: effect_pure effect_bind)

lemma effect_for: "(\<And>x. x \<in> set xs \<Longrightarrow> effect R (g x)) \<Longrightarrow> effect R (forM xs g)"
  by (induction xs) (simp_all add: effect_pure effect_then)

lemmas effect_intro = effect_pure effect_bind effect_then effect_attempt effect_if effect_when effect_option
  effect_sum effect_prod effect_collect effect_for

end

end
