(* ===== verification/Automation_Runs.thy ===== *)
theory Automation_Runs
  imports Automation_Runner Guarantees
begin

text \<open>
  Laws of the automation layer: the store of definitions, what a run may touch, what one processed
  definition does to the file it was read from, and the jobs it makes, told by the inbox files that are
  there after it and not before.
\<close>

section \<open>What a run touches\<close>

definition submits_only :: "files \<Rightarrow> files \<Rightarrow> bool" where
  "submits_only fs fs' \<longleftrightarrow> (\<forall>p. fst p \<in> {AutoDefs, AutoHistory} \<or> file_at fs' p = file_at fs p
     \<or> (fst p = InBucket Inbox \<and> file_at fs p = None))"

interpretation submits: guarantee submits_only
  unfolding submits_only_def by unfold_locales (blast, metis)

lemma auto_write_run:
  "auto_write env p c fs = (Inr (), fs') \<longleftrightarrow>
     ae_write_error env p c fs = None \<and> fs' = put_file p \<lparr>fl_content = c, fl_mtime = ae_now env fs\<rparr> fs"
  "auto_write env p c fs = (Inl e, fs') \<longleftrightarrow> ae_write_error env p c fs = Some e \<and> fs' = fs"
  by (auto simp: auto_write_def split: option.splits)

lemma auto_write_at: "file_at (snd (auto_write env p c fs)) q =
    (if q = p \<and> ae_write_error env p c fs = None then Some \<lparr>fl_content = c, fl_mtime = ae_now env fs\<rparr>
     else file_at fs q)"
  by (simp add: auto_write_def split: option.split)

lemma auto_write_submits: "fst p \<in> {AutoDefs, AutoHistory} \<Longrightarrow> effect submits_only (auto_write env p c)"
  by (rule effectI) (auto simp: submits_only_def auto_write_at)

lemma history_dir: "effect submits_only (write_history_record env record)"
  unfolding write_history_record_def
  by (intro submits.effect_intro auto_write_submits) simp_all

lemma save_dir: "effect submits_only (save_automation_definition env a touch now_ms)"
proof -
  have "effect submits_only (bindM (liftR (definition_path (au_id a))) (\<lambda>target.
     bindM (getM (ae_now env)) (\<lambda>clock.
     bindM (liftR (if touch then touch_updated clock now_ms a else Inr a)) (\<lambda>to_write.
     thenM (auto_write env (AutoDefs, snd target) (Json (PDict (sorted_dict (model_dump to_write)))))
       (retM target)))))"
    by (intro submits.effect_intro auto_write_submits) simp
  then show ?thesis
    unfolding save_automation_definition_def
    by (cases "definition_path (au_id a)") (auto simp: definition_path_def result_iff)
qed

lemma add_inbox_submits: "effect submits_only (add_inbox_payload env payload job_id lane)"
proof (rule effectI)
  fix fs
  show "submits_only fs (snd (add_inbox_payload env payload job_id lane fs))"
  proof (cases "canonical_request_anchor_text payload")
    case None
    then show ?thesis by (simp add: add_inbox_payload_def submits.refl)
  next
    case (Some anchor)
    then show ?thesis
      by (auto simp: add_inbox_payload_def Let_def submits_only_def thenM_def bindM_def inbox_path_def
          exists_file_def auto_write_def split: prod.splits sum.splits option.splits)
  qed
qed

lemma persist_submits: "effect submits_only (persist_history env a r t out j m)"
  unfolding persist_history_def by (intro submits.effect_intro history_dir)

lemma process_submits: "effect submits_only (process_automation_definition env a now_ms force)"
  unfolding process_automation_definition_def auto_clock_def Let_def emit_queue_job_def
  by (intro submits.effect_intro add_inbox_submits persist_submits save_dir)

lemma run_due_submits: "effect submits_only (run_due_automations env now_ms)"
  unfolding run_due_automations_def auto_clock_def
  by (intro submits.effect_intro process_submits)

section \<open>Reading back\<close>

lemma path_of_id: "id_shape_validator i = Some i \<Longrightarrow> definition_path i = Inr (AutoDefs, i @ ''.json'')"
  by (auto simp: id_shape_validator_def definition_path_def validated_id_def matches_id_pattern_def
      id_shape_def split: if_splits)

lemma id_shape_validator_strip: "id_shape_validator i = Some i \<Longrightarrow> strip i = i"
  by (auto simp: id_shape_validator_def split: if_splits)

lemma touched [simp]:
  "0 < t \<Longrightarrow> touch_updated c (Some t) a = Inr (a\<lparr>au_updated := max (max t (au_created a)) (au_updated a)\<rparr>)"
  by (simp add: touch_updated_def)

text \<open>What a file that was written from a definition reads back as, valid or not\<close>

lemma reading_of_dump:
  assumes "model_validate pd n m (sorted_dict (model_dump b)) = Some a" and "plain_coercions pd"
  shows "id_shape_validator (au_id b) = Some (au_id a)" and "au_enabled a = au_enabled b"
    and "au_kind a = au_kind b" and "au_last_run a = au_last_run b" and "au_next_run a = au_next_run b"
    and "validate_trigger_config (au_kind b) (sorted_dict (au_config b)) = Inr (au_config a)"
proof -
  have opt: "optional (check_timestamp pd) (opt_int x) = Some y \<Longrightarrow> y = x" for x y
    using assms(2) by (cases x) (auto simp: optional_def check_timestamp_def plain_coercions_def split: if_splits)
  show "id_shape_validator (au_id b) = Some (au_id a)" "au_enabled a = au_enabled b"
    "au_kind a = au_kind b" "au_last_run a = au_last_run b" "au_next_run a = au_next_run b"
    "validate_trigger_config (au_kind b) (sorted_dict (au_config b)) = Inr (au_config a)"
    using assms
    by (auto simp: model_validate_def bind_eq_Some_conv cross_field_iff check_str_def check_dict_def
        plain_coercions_def map_of_dump [THEN field_dump] dest!: opt split: if_splits)
qed

section \<open>One processed definition\<close>

lemma auto_write_frame: "fst p \<noteq> d \<Longrightarrow> frame (\<lambda>fs. file_at fs (d, n)) (auto_write env p c)"
  by (auto simp: frame_def auto_write_at)

lemma history_frame:
  "d \<noteq> AutoHistory \<Longrightarrow> frame (\<lambda>fs. file_at fs (d, n)) (write_history_record env record)"
  unfolding write_history_record_def by (intro frame_intro auto_write_frame) simp_all

lemma persist_frame:
  "d \<noteq> AutoHistory \<Longrightarrow> frame (\<lambda>fs. file_at fs (d, n)) (persist_history env a r t out j m)"
  unfolding persist_history_def by (intro frame_intro history_frame)

lemma inbox_frame: "frame (\<lambda>fs. file_at fs (AutoDefs, n)) (add_inbox_payload env payload job_id lane)"
  unfolding add_inbox_payload_def Let_def
  by (intro frame_intro auto_write_frame) (simp_all add: inbox_path_def)

text \<open>The definition that a run at \<open>t\<close> saves for \<open>a\<close>\<close>

definition saved_after :: "automation \<Rightarrow> int \<Rightarrow> string \<Rightarrow> string \<Rightarrow> automation" where
  "saved_after a t job ref = (let b = fired a t job ref in
     b\<lparr>au_updated := max (max t (au_created b)) (au_updated b)\<rparr>)"

definition holds_saved :: "automation \<Rightarrow> int \<Rightarrow> files \<Rightarrow> bool" where
  "holds_saved a t fs \<longleftrightarrow> (\<exists>f job ref. file_at fs (AutoDefs, au_id a @ ''.json'') = Some f
     \<and> fl_content f = Json (PDict (sorted_dict (model_dump (saved_after a t job ref)))))"

lemma fired_id [simp]: "au_id (fired a t j r) = au_id a"
  by (simp add: fired_def Let_def)

lemma save_run:
  assumes "id_shape_validator (au_id b) = Some (au_id b)" and "0 < t"
  shows "save_automation_definition env b True (Some t) fs =
    (let b' = b\<lparr>au_updated := max (max t (au_created b)) (au_updated b)\<rparr>;
         p = (AutoDefs, au_id b @ ''.json''); c = Json (PDict (sorted_dict (model_dump b'))) in
     case ae_write_error env p c fs of
       Some e \<Rightarrow> (Inl e, fs)
     | None \<Rightarrow> (Inr p, put_file p \<lparr>fl_content = c, fl_mtime = ae_now env fs\<rparr> fs))"
  using assms
  by (simp add: save_automation_definition_def path_of_id thenM_def bindM_def auto_write_def Let_def
      split: option.split)

definition saves_work :: "auto_env \<Rightarrow> bool" where
  "saves_work env \<longleftrightarrow> (\<forall>n c fs. ae_write_error env (AutoDefs, n) c fs = None)"

definition histories_work :: "auto_env \<Rightarrow> bool" where
  "histories_work env \<longleftrightarrow> (\<forall>n c fs. ae_write_error env (AutoHistory, n) c fs = None)"

text \<open>Identifiers: \<open>hexdigest\<close> gives letters and digits, and the clock is a positive number of milliseconds
  of at most eighteen digits, so every run id has the shape that the history demands.\<close>

definition digests_plain :: "auto_env \<Rightarrow> bool" where
  "digests_plain env \<longleftrightarrow> (\<forall>x. list_all alnum_char (ae_sha1 env x))"

definition stamp_ok :: "int \<Rightarrow> bool" where
  "stamp_ok t \<longleftrightarrow> 0 < t \<and> t < 10 ^ 18"

lemma digits_of_short: "n < 10 ^ Suc k \<Longrightarrow> length (digits_of n) \<le> Suc k"
proof (induction k arbitrary: n)
  case 0
  then show ?case by (subst digits_of.simps) simp
next
  case (Suc k)
  then have "n div 10 < 10 ^ Suc k" by (simp add: less_mult_imp_div_less mult.commute)
  from Suc.IH [OF this] show ?case by (subst digits_of.simps) simp
qed

lemma digit_alnum: "is_digit c \<Longrightarrow> alnum_char c"
  by (auto simp: is_digit_def alnum_char_def code_def Let_def)

lemma run_id_shape:
  assumes "digests_plain env" and "stamp_ok t"
  shows "id_shape (generate_run_id env i t)"
proof -
  let ?d = "digits_of (nat t)" and ?h = "take 8 (ae_sha1 env (i @ ''|'' @ int_str t))"
  have t: "0 < t" "nat t < 10 ^ Suc 17" using assms(2) by (auto simp: stamp_ok_def)
  then have r: "generate_run_id env i t = ?d @ ''-'' @ ?h" by (simp add: generate_run_id_def int_str_def)
  have d: "c \<in> set ?d \<Longrightarrow> alnum_char c" for c using digit_alnum [OF digits_of_digits] .
  have h: "c \<in> set ?h \<Longrightarrow> alnum_char c" for c
    using assms(1) unfolding digests_plain_def list_all_iff by (metis in_set_takeD)
  obtain c cs where s: "?d = c # cs" by (cases ?d) auto
  from digits_of_short [OF t(2)] have "length ?d \<le> 18" by simp
  moreover have "length ?h \<le> 8" by simp
  ultimately have "length (?d @ ''-'' @ ?h) \<le> 128" by simp
  moreover have "alnum_char (hd (?d @ ''-'' @ ?h))" using d [of c] by (simp add: s)
  moreover have "list_all (\<lambda>c. alnum_char c \<or> c = CHR ''_'' \<or> c = CHR ''-'') (?d @ ''-'' @ ?h)"
    using d h by (auto simp: list_all_iff)
  ultimately show ?thesis unfolding r id_shape_def by simp
qed

lemma id_shape_no_space: "id_shape s \<Longrightarrow> strip s = s \<and> s \<noteq> []"
proof
  assume s: "id_shape s"
  show "strip s = s"
  proof (rule strip_no_space)
    fix c assume "c \<in> set s"
    with s have "alnum_char c \<or> c = CHR ''_'' \<or> c = CHR ''-''" by (auto simp: id_shape_def list_all_iff)
    then show "\<not> is_space c" by (auto simp: alnum_char_def is_space_def code_def Let_def)
  qed
qed (simp add: id_shape_def)

lemma id_validator_shape: "id_shape_validator s = Some s \<Longrightarrow> id_shape s"
proof -
  assume "id_shape_validator s = Some s"
  then have s: "strip s = s" and m: "matches_id_pattern s" by (auto simp: id_shape_validator_def split: if_splits)
  have "\<not> (s \<noteq> [] \<and> last s = CHR 0x0A)"
  proof
    assume n: "s \<noteq> [] \<and> last s = CHR 0x0A"
    then have r: "rev s = CHR 0x0A # rev (butlast s)"
      by (metis append_butlast_last_id rev.simps(2) rev_rev_ident rev_append append_Cons append_Nil)
    moreover have "is_space (CHR 0x0A)" by code_simp
    moreover from r have "rstrip s = rev (dropWhile is_space (CHR 0x0A # rev (butlast s)))"
      by (simp only: rstrip_def)
    ultimately have "length (rstrip s) \<le> length (butlast s)"
      using length_dropWhile_le [of is_space "rev (butlast s)"] by simp
    also have "\<dots> < length s" using n by (cases s) simp_all
    finally have "rstrip s \<noteq> s" by auto
    with s show False by (metis rstrip_idem strip_def)
  qed
  with m show "id_shape s" by (auto simp: matches_id_pattern_def)
qed

lemma segment_ok: "id_shape s \<Longrightarrow> validated_id_segment s k = Inr s"
  using id_shape_no_space [of s] by (simp add: validated_id_segment_def matches_id_pattern_def)

lemma auto_write_history: "histories_work env \<Longrightarrow> auto_write env (AutoHistory, n) c fs
    = (Inr (), put_file (AutoHistory, n) \<lparr>fl_content = c, fl_mtime = ae_now env fs\<rparr> fs)"
  by (simp add: auto_write_def histories_work_def)

text \<open>When the history can be written, recording a run does not fail.\<close>

lemma persist_works:
  assumes "histories_work env" and "id_shape (au_id a)" and "id_shape rid"
  shows "\<exists>c. persist_history env a rid t out j m fs = (Inr (''history/auto-'' @ au_id a @ ''-'' @ rid @ ''.json''),
     put_file (AutoHistory, ''auto-'' @ au_id a @ ''-'' @ rid @ ''.json'') \<lparr>fl_content = c, fl_mtime = ae_now env fs\<rparr> fs)"
  using assms id_shape_no_space [OF assms(2)] id_shape_no_space [OF assms(3)]
  by (simp add: persist_history_def write_history_record_def build_history_record_def clean_or_none_def
      history_record_name_def history_record_ref_def segment_ok thenM_def bindM_def auto_write_history)
    (rule exI, rule refl)

section \<open>The jobs a step makes\<close>

text \<open>The names of the inbox files that are in \<open>fs'\<close> and not in \<open>fs\<close>\<close>

definition new_jobs :: "files \<Rightarrow> files \<Rightarrow> string list" where
  "new_jobs fs fs' = filter (\<lambda>n. \<not> exists_file fs (InBucket Inbox, n)) (dir_names fs' (InBucket Inbox))"

lemma new_jobs_set: "set (new_jobs fs fs') = {n. exists_file fs' (InBucket Inbox, n) \<and> \<not> exists_file fs (InBucket Inbox, n)}"
  by (auto simp: new_jobs_def dir_names_iff)

lemma new_jobs_distinct: "distinct (new_jobs fs fs')"
  by (simp add: new_jobs_def dir_names_def)

lemma no_new_jobs:
  assumes "\<And>n. file_at fs' (InBucket Inbox, n) = file_at fs (InBucket Inbox, n)"
  shows "new_jobs fs fs' = []"
proof -
  have "set (new_jobs fs fs') = {}" unfolding new_jobs_set exists_file_def assms by blast
  then show ?thesis by simp
qed

lemma one_new_job:
  assumes "\<not> exists_file fs (InBucket Inbox, m)"
    and "\<And>n. file_at fs' (InBucket Inbox, n) = (if n = m then Some f else file_at fs (InBucket Inbox, n))"
  shows "new_jobs fs fs' = [m]"
proof -
  have "set (new_jobs fs fs') = {m}"
    using assms(1) unfolding new_jobs_set exists_file_def assms(2) by auto
  with new_jobs_distinct [of fs fs'] show ?thesis
    by (metis distinct_card card.empty card.insert finite.emptyI empty_iff One_nat_def length_0_conv
        length_Suc_conv set_ConsD list.set_intros(1) singletonD)
qed

text \<open>A submission makes exactly its file, or fails and leaves every file as it was.\<close>

lemma emit_run:
  assumes "emit_queue_job env a rid fs = (em, fs1)"
  shows "case em of Inl e \<Rightarrow> fs1 = fs
     | Inr target \<Rightarrow> \<exists>m f. target = (InBucket Inbox, m) \<and> \<not> exists_file fs (InBucket Inbox, m)
         \<and> fs1 = put_file (InBucket Inbox, m) f fs"
  using assms
  by (auto simp: emit_queue_job_def add_inbox_payload_def inbox_path_def thenM_def bindM_def auto_write_def Let_def
      split: option.splits if_splits prod.splits sum.splits)

text \<open>One processed definition: other definitions keep their files; either no job is made and the
  definition keeps its file too, or the definition was due, exactly one job is made and the definition is
  saved as fired.\<close>

lemma process_run:
  assumes env: "saves_work env" "histories_work env" "digests_plain env"
    and i: "id_shape_validator (au_id a) = Some (au_id a)" and t: "stamp_ok t"
    and run: "process_automation_definition env a (Some t) force fs = (res, fs')"
  shows "(\<forall>n. n \<noteq> au_id a @ ''.json'' \<longrightarrow> file_at fs' (AutoDefs, n) = file_at fs (AutoDefs, n))
    \<and> (file_at fs' (AutoDefs, au_id a @ ''.json'') = file_at fs (AutoDefs, au_id a @ ''.json'') \<and> new_jobs fs fs' = []
       \<or> fst (evaluate_due_automation a t force) \<and> holds_saved a t fs' \<and> (\<exists>m. new_jobs fs fs' = [m]))"
proof (cases "fst (evaluate_due_automation a t force)")
  case False
  with run have "fs' = fs"
    by (auto simp: process_automation_definition_def auto_clock_def Let_def split: prod.splits)
  then show ?thesis by (simp add: no_new_jobs)
next
  case due: True
  let ?rid = "generate_run_id env (au_id a) t"
  note shapes = id_validator_shape [OF i] run_id_shape [OF env(3) t, of "au_id a"]
  have t0: "0 < t" using t by (simp add: stamp_ok_def)
  obtain em fs1 where em: "emit_queue_job env a ?rid fs = (em, fs1)" by fastforce
  have f1: "file_at fs1 (AutoDefs, n) = file_at fs (AutoDefs, n)" for n
    using frameD [OF inbox_frame [of n env "au_payload a" "Some ?rid" "''automation_runner''"], of fs] em
    by (simp add: emit_queue_job_def)
  have pf: "persist_history env a r u out j m gs = (x, gs') \<Longrightarrow> d \<noteq> AutoHistory
      \<Longrightarrow> file_at gs' (d, n) = file_at gs (d, n)" for r u out j m gs x gs' d n
    using frameD [OF persist_frame [of d n env a r u out j m], of gs] by simp
  note run' = run [unfolded process_automation_definition_def auto_clock_def Let_def]
  show ?thesis
  proof (cases em)
    case (Inl e)
    with run' due em have "\<exists>x. persist_history env a ?rid t RunError None (''failed to emit queue job: '' @ str_exc e) fs1
        = (x, fs')"
      by (auto simp: bindM_def attemptM_def split: prod.splits sum.splits)
    moreover have "fs1 = fs" using emit_run [OF em] Inl by simp
    ultimately have "d \<noteq> AutoHistory \<Longrightarrow> file_at fs' (d, n) = file_at fs (d, n)" for d n using pf by blast
    then show ?thesis by (simp add: no_new_jobs)
  next
    case (Inr target)
    with emit_run [OF em] obtain m f where m: "target = (InBucket Inbox, m)" "\<not> exists_file fs (InBucket Inbox, m)"
      "fs1 = put_file (InBucket Inbox, m) f fs" by auto
    obtain ref fs2 where h: "persist_history env a ?rid t Submitted (Some (snd target))
        (snd (evaluate_due_automation a t force)) fs1 = (Inr ref, fs2)"
      using persist_works [OF env(2) shapes] by blast
    note f2 = pf [OF h]
    let ?b = "fired a t (snd target) ref"
    obtain p fs3 where sv: "save_automation_definition env ?b True (Some t) fs2 = (Inr p, fs3)"
      and fs3: "holds_saved a t fs3" "\<And>q. q \<noteq> (AutoDefs, au_id a @ ''.json'') \<Longrightarrow> file_at fs3 q = file_at fs2 q"
      using save_run [of ?b t env fs2, unfolded fired_id, OF i t0] env(1)
      by (auto simp: saves_work_def holds_saved_def saved_after_def Let_def)
    from run' due em Inr h sv have fs': "fs' = fs3"
      by (auto simp: bindM_def attemptM_def split: prod.splits)
    have "file_at fs' (InBucket Inbox, n) = (if n = m then Some f else file_at fs (InBucket Inbox, n))" for n
      using fs3(2) [of "(InBucket Inbox, n)"] f2 [of "InBucket Inbox" n] by (simp add: fs' m(3))
    from one_new_job [OF m(2) this] due fs3 f1 f2 [of AutoDefs] show ?thesis by (simp add: fs')
  qed
qed

section \<open>Passes\<close>

definition every_reading :: "auto_env \<Rightarrow> string \<Rightarrow> (automation \<Rightarrow> bool) \<Rightarrow> files \<Rightarrow> bool" where
  "every_reading env n P fs \<longleftrightarrow> (\<forall>f d c u a. file_at fs (AutoDefs, n) = Some f \<and> fl_content f = Json (PDict d)
     \<and> model_validate (ae_pydantic env) c u d = Some a \<longrightarrow> P a)"

text \<open>Each definition file has the name of the definition it holds.\<close>

definition named_files :: "auto_env \<Rightarrow> files \<Rightarrow> bool" where
  "named_files env fs \<longleftrightarrow> (\<forall>n. every_reading env n (\<lambda>a. n = au_id a @ ''.json'') fs)"

lemma read_named_reading: "read_named env fs n = Inr a \<Longrightarrow> every_reading env n P fs \<Longrightarrow> P a"
  unfolding read_named_def read_definition_def every_reading_def
  by (auto split: option.splits content.splits py.splits)

lemma read_named_validated:
  "read_named env fs n = Inr a \<Longrightarrow> \<exists>d c u. model_validate (ae_pydantic env) c u d = Some a"
  unfolding read_named_def read_definition_def by (auto split: option.splits content.splits py.splits)

lemma validated_id_normal:
  assumes "model_validate pd c u d = Some a"
  shows "id_shape_validator (au_id a) = Some (au_id a)"
proof -
  from assms obtain i b where "field d ''id'' None (check_str id_shape_validator) = Some i"
    and "cross_field_validation b = Some a" and "au_id b = i"
    unfolding model_validate_def by (auto simp: bind_eq_Some_conv split: if_splits)
  moreover from this have "au_id a = i" by (auto simp: cross_field_iff)
  ultimately show ?thesis using field_str id_validator_normal by metis
qed

lemma read_named_id: "read_named env fs n = Inr a \<Longrightarrow> id_shape_validator (au_id a) = Some (au_id a)"
  using read_named_validated validated_id_normal by blast

lemma every_reading_same:
  "file_at fs' (AutoDefs, n) = file_at fs (AutoDefs, n) \<Longrightarrow> every_reading env n P fs' = every_reading env n P fs"
  by (simp add: every_reading_def)

lemma saved_after_fields:
  "au_id (saved_after a t j r) = au_id a" "au_enabled (saved_after a t j r) = au_enabled (fired a t j r)"
  "au_kind (saved_after a t j r) = au_kind a" "au_config (saved_after a t j r) = au_config a"
  "au_next_run (saved_after a t j r) = au_next_run (fired a t j r)"
  by (simp_all add: saved_after_def fired_def Let_def)

lemma every_reading_saved:
  assumes "holds_saved a t fs" and "plain_coercions (ae_pydantic env)"
    and "id_shape_validator (au_id a) = Some (au_id a)"
    and "\<And>b job ref. au_id b = au_id a \<Longrightarrow> au_enabled b = au_enabled (fired a t job ref)
        \<Longrightarrow> au_kind b = au_kind a \<Longrightarrow> au_next_run b = au_next_run (fired a t job ref)
        \<Longrightarrow> validate_trigger_config (au_kind a) (sorted_dict (au_config a)) = Inr (au_config b) \<Longrightarrow> P b"
  shows "every_reading env (au_id a @ ''.json'') P fs"
  unfolding every_reading_def
proof (intro allI impI)
  fix f d c u b
  assume "file_at fs (AutoDefs, au_id a @ ''.json'') = Some f \<and> fl_content f = Json (PDict d)
    \<and> model_validate (ae_pydantic env) c u d = Some b"
  with assms(1) obtain job ref where
    "model_validate (ae_pydantic env) c u (sorted_dict (model_dump (saved_after a t job ref))) = Some b"
    by (auto simp: holds_saved_def)
  from reading_of_dump [OF this assms(2), unfolded saved_after_fields] assms(3) show "P b"
    by (intro assms(4) [of b job ref]) simp_all
qed

lemma map_filter_keys:
  "(\<And>n a. f n = Some a \<Longrightarrow> g a = n) \<Longrightarrow> map g (List.map_filter f ns) = filter (\<lambda>n. f n \<noteq> None) ns"
  by (induction ns) (auto simp: map_filter_simps split: option.splits)

lemma read_all_lenient:
  "read_all env fs False ns = Inr (List.map_filter (\<lambda>n. case read_named env fs n of Inl _ \<Rightarrow> None | Inr a \<Rightarrow> Some a) ns)"
  by (induction ns) (auto simp: map_filter_simps split: sum.splits)

lemma listed:
  assumes "list_automation_definitions env False fs = Inr defs" and "named_files env fs"
  shows "distinct (map au_id defs)"
    and "\<And>a. a \<in> set defs \<Longrightarrow> read_named env fs (au_id a @ ''.json'') = Inr a"
proof -
  let ?read = "\<lambda>n. case read_named env fs n of Inl _ \<Rightarrow> None | Inr a \<Rightarrow> Some a"
  let ?ds = "List.map_filter ?read (definition_names fs)"
  have name: "read_named env fs n = Inr a \<Longrightarrow> n = au_id a @ ''.json''" for n a
    using read_named_reading [of env fs n a "\<lambda>a. n = au_id a @ ''.json''"] assms(2)
    by (simp add: named_files_def)
  have "map (\<lambda>a. au_id a @ ''.json'') ?ds = filter (\<lambda>n. ?read n \<noteq> None) (definition_names fs)"
  proof (rule map_filter_keys)
    fix n a assume "?read n = Some a"
    then have "read_named env fs n = Inr a" by (cases "read_named env fs n") simp_all
    from name [OF this] show "au_id a @ ''.json'' = n" by (rule sym)
  qed
  moreover have "distinct (definition_names fs)" by (simp add: definition_names_def dir_names_def)
  ultimately have "distinct (map (\<lambda>a. au_id a @ ''.json'') ?ds)" by (metis distinct_filter)
  then have "distinct (map (\<lambda>i. i @ ''.json'') (map au_id ?ds))" unfolding map_map comp_def .
  then have "distinct (map au_id ?ds)" unfolding distinct_map [of "\<lambda>i. i @ ''.json''"] by blast
  moreover have defs: "defs = sort_key au_id ?ds"
    using assms(1) by (simp add: list_automation_definitions_def read_all_lenient)
  ultimately show "distinct (map au_id defs)" by (simp add: distinct_map)
  fix a assume "a \<in> set defs"
  then have "a \<in> set ?ds" by (simp add: defs)
  then obtain n where "?read n = Some a" by (auto simp: List.map_filter_def)
  then have n: "read_named env fs n = Inr a" by (cases "read_named env fs n") simp_all
  from name [OF n] have "au_id a @ ''.json'' = n" by (rule sym)
  with n show "read_named env fs (au_id a @ ''.json'') = Inr a" by (simp only:)
qed

definition due_at :: "automation \<Rightarrow> int \<Rightarrow> bool" where
  "due_at a t = fst (evaluate_due_automation a t False)"

end
