(* ===== verification/Automation_Interleaving.thy ===== *)
theory Automation_Interleaving
  imports Automation_Runs
begin

text \<open>
  Overlapping processes of the automation runner as a step relation, with the jobs they make, and the
  invariants of the reachable states: at most one job for a one-shot definition, and at least the interval
  between two jobs of a recurring one. The invariant is what any reading of a definition file gives.
\<close>

section \<open>Interleaved runners\<close>

text \<open>Runner processes that overlap: each takes the lock without waiting, reads the definitions, works
  through them one by one and gives the lock back, also when a definition raises or the process is killed
  between two definitions. A process that finds the lock taken does nothing. Between two steps of a process
  any other process may move, and every other program (the daemon that takes the jobs from the inbox, the
  commands that read the history) may change any file that is not a definition. The log \<open>ru_jobs\<close> has a
  row for every job file that a step makes: the time of the pass, the definition and the name of the file,
  whatever the step reports and whether it ends or raises.\<close>

type_synonym job_log = "(int \<times> string \<times> string) list"

datatype runner_pc = Idle | Running int "automation list"

record 'p runners =
  ru_files :: files
  ru_lock :: "'p option"
  ru_pc :: "'p \<Rightarrow> runner_pc"
  ru_jobs :: job_log

definition started :: "files \<Rightarrow> 'p runners" where
  "started fs = \<lparr>ru_files = fs, ru_lock = None, ru_pc = (\<lambda>p. Idle), ru_jobs = []\<rparr>"

definition jobs_made :: "int \<Rightarrow> automation \<Rightarrow> files \<Rightarrow> files \<Rightarrow> job_log" where
  "jobs_made t a fs fs' = map (\<lambda>m. (t, au_id a, m)) (new_jobs fs fs')"

inductive runner_step :: "auto_env \<Rightarrow> 'p runners \<Rightarrow> 'p runners \<Rightarrow> bool" for env where
  acquire: "ru_lock s = None \<Longrightarrow> ru_pc s p = Idle \<Longrightarrow> stamp_ok t \<Longrightarrow>
     list_automation_definitions env False (ru_files s) = Inr defs \<Longrightarrow>
     runner_step env s (s\<lparr>ru_lock := Some p, ru_pc := (ru_pc s)(p := Running t defs)\<rparr>)"
| busy: "ru_lock s = Some q \<Longrightarrow> ru_pc s p = Idle \<Longrightarrow> runner_step env s s"
| work: "ru_pc s p = Running t (a # defs) \<Longrightarrow>
     process_automation_definition env a (Some t) False (ru_files s) = (Inr r, fs') \<Longrightarrow>
     runner_step env s (s\<lparr>ru_files := fs', ru_pc := (ru_pc s)(p := Running t defs),
       ru_jobs := ru_jobs s @ jobs_made t a (ru_files s) fs'\<rparr>)"
| abort: "ru_pc s p = Running t (a # defs) \<Longrightarrow>
     process_automation_definition env a (Some t) False (ru_files s) = (Inl e, fs') \<Longrightarrow>
     runner_step env s (s\<lparr>ru_files := fs', ru_lock := None, ru_pc := (ru_pc s)(p := Idle),
       ru_jobs := ru_jobs s @ jobs_made t a (ru_files s) fs'\<rparr>)"
| release: "ru_pc s p = Running t [] \<Longrightarrow>
     runner_step env s (s\<lparr>ru_lock := None, ru_pc := (ru_pc s)(p := Idle)\<rparr>)"
| killed: "ru_pc s p = Running t defs \<Longrightarrow>
     runner_step env s (s\<lparr>ru_lock := None, ru_pc := (ru_pc s)(p := Idle)\<rparr>)"
| others: "\<forall>n. file_at fs' (AutoDefs, n) = file_at (ru_files s) (AutoDefs, n) \<Longrightarrow>
     runner_step env s (s\<lparr>ru_files := fs'\<rparr>)"

definition runs_to :: "auto_env \<Rightarrow> 'p runners \<Rightarrow> 'p runners \<Rightarrow> bool" where
  "runs_to env = (runner_step env)\<^sup>*\<^sup>*"

text \<open>The times of the jobs of a definition\<close>

definition job_times :: "string \<Rightarrow> job_log \<Rightarrow> int list" where
  "job_times i js = map fst (filter (\<lambda>(t, j, m). j = i) js)"

lemma job_times_Nil [simp]: "job_times i [] = []"
  by (simp add: job_times_def)

lemma job_times_append [simp]: "job_times i (js @ ks) = job_times i js @ job_times i ks"
  by (simp add: job_times_def)

lemma job_times_made: "job_times i (jobs_made t a fs fs')
    = (if au_id a = i then replicate (length (new_jobs fs fs')) t else [])"
  by (simp add: job_times_def jobs_made_def filter_map comp_def map_replicate_const split_def)

section \<open>The invariant of the reachable states\<close>

text \<open>\<open>a\<close> is what some reading of the file gives: a timestamp that the file leaves out is filled in with
  the time of the reading.\<close>

definition is_reading :: "auto_env \<Rightarrow> files \<Rightarrow> automation \<Rightarrow> bool" where
  "is_reading env fs a \<longleftrightarrow> (\<exists>f d c u. file_at fs (AutoDefs, au_id a @ ''.json'') = Some f
     \<and> fl_content f = Json (PDict d) \<and> model_validate (ae_pydantic env) c u d = Some a)"

lemma is_reading_named: "read_named env fs (au_id a @ ''.json'') = Inr a \<Longrightarrow> is_reading env fs a"
  unfolding is_reading_def read_named_def read_definition_def
  by (auto split: option.splits content.splits py.splits)

lemma is_reading_every: "is_reading env fs a \<Longrightarrow> every_reading env (au_id a @ ''.json'') P fs \<Longrightarrow> P a"
  unfolding is_reading_def every_reading_def by blast

lemma is_reading_same: "file_at fs' (AutoDefs, au_id a @ ''.json'') = file_at fs (AutoDefs, au_id a @ ''.json'')
    \<Longrightarrow> is_reading env fs' a = is_reading env fs a"
  by (simp add: is_reading_def)

lemma is_reading_id: "is_reading env fs a \<Longrightarrow> id_shape_validator (au_id a) = Some (au_id a)"
  unfolding is_reading_def using validated_id_normal by blast

text \<open>The process that holds the lock has the readings of the definitions it has not done yet.\<close>

definition in_order :: "auto_env \<Rightarrow> 'p runners \<Rightarrow> bool" where
  "in_order env s \<longleftrightarrow> named_files env (ru_files s)
     \<and> (\<forall>p t defs. ru_pc s p = Running t defs \<longrightarrow> ru_lock s = Some p \<and> stamp_ok t
          \<and> distinct (map au_id defs) \<and> (\<forall>a \<in> set defs. is_reading env (ru_files s) a))"

lemma one_holder: "in_order env s \<Longrightarrow> ru_pc s p = Running t ds \<Longrightarrow> ru_pc s q = Running u es \<Longrightarrow> q = p"
  unfolding in_order_def by (metis option.inject)

text \<open>The holder of the lock moves on or gives the lock back.\<close>

lemma in_order_next:
  assumes "in_order env s" and "ru_pc s p = Running t ds" and "named_files env fs'"
    and "pc' = Idle \<or> l = ru_lock s \<and> pc' = Running t es \<and> distinct (map au_id es)
      \<and> (\<forall>a \<in> set es. is_reading env fs' a)"
  shows "in_order env (s\<lparr>ru_files := fs', ru_lock := l, ru_pc := (ru_pc s)(p := pc'), ru_jobs := js\<rparr>)"
proof -
  have idle: "ru_pc s q = Idle" if "q \<noteq> p" for q
  proof (cases "ru_pc s q")
    case (Running u xs)
    from one_holder [OF assms(1,2) this] that show ?thesis by simp
  qed
  have own: "ru_lock s = Some p" "stamp_ok t" using assms(1,2) unfolding in_order_def by blast+
  have "l = Some q \<and> stamp_ok u \<and> distinct (map au_id xs) \<and> (\<forall>a \<in> set xs. is_reading env fs' a)"
    if r: "((ru_pc s)(p := pc')) q = Running u xs" for q u xs
  proof (cases "q = p")
    case True
    with r have pc: "pc' = Running u xs" by simp
    from assms(4) have "l = ru_lock s \<and> pc' = Running t es \<and> distinct (map au_id es)
        \<and> (\<forall>a \<in> set es. is_reading env fs' a)" unfolding pc by blast
    with pc True own show ?thesis by simp
  next
    case False
    with r idle [OF False] show ?thesis by simp
  qed
  with assms(3) show ?thesis by (simp add: in_order_def)
qed

text \<open>What the jobs so far say of a definition: \<open>good\<close> of their times, and \<open>holds\<close> of its file.\<close>

definition jobs_law :: "auto_env \<Rightarrow> string \<Rightarrow> (int list \<Rightarrow> bool) \<Rightarrow> (int list \<Rightarrow> automation \<Rightarrow> bool)
    \<Rightarrow> 'p runners \<Rightarrow> bool" where
  "jobs_law env i good holds s \<longleftrightarrow> in_order env s \<and> good (job_times i (ru_jobs s))
     \<and> every_reading env (i @ ''.json'') (holds (job_times i (ru_jobs s))) (ru_files s)"

text \<open>Both laws about jobs follow from one step: a definition that is due and of which the jobs so far
  hold may have one more job, and its file as it is saved then goes with the longer list.\<close>

definition keeps_law :: "auto_env \<Rightarrow> (int list \<Rightarrow> bool) \<Rightarrow> (int list \<Rightarrow> automation \<Rightarrow> bool) \<Rightarrow> bool" where
  "keeps_law env good holds \<longleftrightarrow> (\<forall>ts a t fs. good ts \<longrightarrow> holds ts a \<longrightarrow> due_at a t \<longrightarrow> holds_saved a t fs
     \<longrightarrow> (\<exists>gs. is_reading env gs a)
     \<longrightarrow> good (ts @ [t]) \<and> every_reading env (au_id a @ ''.json'') (holds (ts @ [t])) fs)"

definition runner_env_ok :: "auto_env \<Rightarrow> bool" where
  "runner_env_ok env \<longleftrightarrow> plain_coercions (ae_pydantic env) \<and> saves_work env \<and> histories_work env \<and> digests_plain env"

lemma named_after:
  assumes "runner_env_ok env" and "named_files env fs" and "is_reading env fs a"
    and "\<forall>n. n \<noteq> au_id a @ ''.json'' \<longrightarrow> file_at fs' (AutoDefs, n) = file_at fs (AutoDefs, n)"
    and "file_at fs' (AutoDefs, au_id a @ ''.json'') = file_at fs (AutoDefs, au_id a @ ''.json'') \<or> holds_saved a t fs'"
  shows "named_files env fs'"
  unfolding named_files_def
proof
  fix n
  from assms(2) have old: "every_reading env n (\<lambda>a. n = au_id a @ ''.json'') fs" by (simp add: named_files_def)
  show "every_reading env n (\<lambda>a. n = au_id a @ ''.json'') fs'"
  proof (cases "file_at fs' (AutoDefs, n) = file_at fs (AutoDefs, n)")
    case True
    with old every_reading_same [OF True] show ?thesis by blast
  next
    case False
    with assms(4) have n: "n = au_id a @ ''.json''" by blast
    with False assms(5) have h: "holds_saved a t fs'" by blast
    from assms(1) have "plain_coercions (ae_pydantic env)" by (simp add: runner_env_ok_def)
    then have "every_reading env (au_id a @ ''.json'') (\<lambda>b. au_id a @ ''.json'' = au_id b @ ''.json'') fs'"
      by (rule every_reading_saved [OF h _ is_reading_id [OF assms(3)]]) simp
    then show ?thesis by (simp only: n)
  qed
qed

text \<open>A processed definition keeps the law and the order of the processes.\<close>

lemma process_law:
  assumes env: "runner_env_ok env" and law: "keeps_law env good holds" and s: "jobs_law env i good holds s"
    and pc: "ru_pc s p = Running t (a # defs)"
    and run: "process_automation_definition env a (Some t) False (ru_files s) = (res, fs')"
    and pc': "pc' = Running t defs \<or> pc' = Idle"
    and s': "s' = s\<lparr>ru_files := fs', ru_lock := l, ru_pc := (ru_pc s)(p := pc'),
       ru_jobs := ru_jobs s @ jobs_made t a (ru_files s) fs'\<rparr>"
    and l: "pc' = Idle \<or> l = ru_lock s"
  shows "jobs_law env i good holds s'"
proof -
  let ?fs = "ru_files s" and ?js = "job_times i (ru_jobs s)"
  from s have ord: "in_order env s" and good: "good ?js"
    and reads: "every_reading env (i @ ''.json'') (holds ?js) ?fs" by (simp_all add: jobs_law_def)
  from ord pc have t: "stamp_ok t" and dist: "distinct (map au_id (a # defs))"
    and rd: "\<And>b. b \<in> set (a # defs) \<Longrightarrow> is_reading env ?fs b"
    unfolding in_order_def by blast+
  have ra: "is_reading env ?fs a" using rd by simp
  from env have e: "saves_work env" "histories_work env" "digests_plain env" by (simp_all add: runner_env_ok_def)
  note P = process_run [OF e is_reading_id [OF ra] t run, folded due_at_def]
  have named: "named_files env fs'"
  proof (rule named_after [OF env _ ra])
    show "named_files env ?fs" using ord by (simp add: in_order_def)
    show "\<forall>n. n \<noteq> au_id a @ ''.json'' \<longrightarrow> file_at fs' (AutoDefs, n) = file_at ?fs (AutoDefs, n)"
      using P by (rule conjunct1)
    show "file_at fs' (AutoDefs, au_id a @ ''.json'') = file_at ?fs (AutoDefs, au_id a @ ''.json'') \<or> holds_saved a t fs'"
      using P by blast
  qed
  have rest: "is_reading env fs' b" if b: "b \<in> set defs" for b
  proof -
    from b have "au_id b \<in> set (map au_id defs)" by simp
    with dist have "au_id b \<noteq> au_id a" by (metis distinct.simps(2) list.simps(9))
    then have "au_id b @ ''.json'' \<noteq> au_id a @ ''.json''" by simp
    with P have "file_at fs' (AutoDefs, au_id b @ ''.json'') = file_at ?fs (AutoDefs, au_id b @ ''.json'')" by blast
    from is_reading_same [OF this] rd [of b] b show ?thesis by simp
  qed
  have "in_order env s'"
    unfolding s' by (rule in_order_next [OF ord pc named]) (use pc' l rest dist in auto)
  moreover have "good (job_times i (ru_jobs s'))
      \<and> every_reading env (i @ ''.json'') (holds (job_times i (ru_jobs s'))) fs'"
  proof (cases "au_id a = i")
    case False
    then have "i @ ''.json'' \<noteq> au_id a @ ''.json''" by simp
    with P have "file_at fs' (AutoDefs, i @ ''.json'') = file_at ?fs (AutoDefs, i @ ''.json'')" by blast
    from every_reading_same [OF this] reads good False show ?thesis by (simp add: s' job_times_made)
  next
    case True
    from P show ?thesis
    proof (elim conjE disjE exE)
      assume f: "file_at fs' (AutoDefs, au_id a @ ''.json'') = file_at ?fs (AutoDefs, au_id a @ ''.json'')"
        and n: "new_jobs ?fs fs' = []"
      from every_reading_same [OF f [unfolded True]] n reads good show ?thesis by (simp add: s' job_times_made)
    next
      fix m assume d: "due_at a t" and h: "holds_saved a t fs'" and n: "new_jobs ?fs fs' = [m]"
      from is_reading_every [OF ra] reads True have "holds ?js a" by blast
      with law good d h ra have "good (?js @ [t]) \<and> every_reading env (i @ ''.json'') (holds (?js @ [t])) fs'"
        unfolding keeps_law_def True [symmetric] by blast
      then show ?thesis by (simp add: s' job_times_made n True)
    qed
  qed
  ultimately show ?thesis by (simp add: jobs_law_def s')
qed

lemma law_step:
  assumes "runner_env_ok env" and "keeps_law env good holds" and "runner_step env s s'" and "jobs_law env i good holds s"
  shows "jobs_law env i good holds s'"
  using assms(3)
proof cases
  case (acquire p t defs)
  from assms(4) have ord: "in_order env s" by (simp add: jobs_law_def)
  then have "named_files env (ru_files s)" by (simp add: in_order_def)
  note L = listed [OF acquire(5) this]
  have idle: "ru_pc s q = Idle" for q
    using ord acquire(2) by (cases "ru_pc s q") (auto simp: in_order_def)
  from ord L is_reading_named acquire idle assms(4) show ?thesis
    by (auto simp: jobs_law_def in_order_def)
next
  case (work p t a defs r fs')
  from process_law [OF assms(1,2,4) work(2,3) disjI1 [OF refl], of s' "ru_lock s"] show ?thesis
    by (simp add: work(1))
next
  case (abort p t a defs e fs')
  from process_law [OF assms(1,2,4) abort(2,3) disjI2 [OF refl], of s' None] show ?thesis
    by (simp add: abort(1))
next
  case (others fs')
  have same: "file_at fs' (AutoDefs, n) = file_at (ru_files s) (AutoDefs, n)" for n using others(2) by blast
  have ev: "every_reading env n P fs' = every_reading env n P (ru_files s)" for n P
    by (rule every_reading_same [OF same])
  have "is_reading env fs' a = is_reading env (ru_files s) a" for a by (rule is_reading_same [OF same])
  with ev assms(4) show ?thesis by (simp add: others(1) jobs_law_def in_order_def named_files_def)
next
  case (release p t)
  from assms(4) have ord: "in_order env s" by (simp add: jobs_law_def)
  then have "named_files env (ru_files s)" by (simp add: in_order_def)
  from in_order_next [OF ord release(2) this, of Idle None "[]" "ru_jobs s"] assms(4) show ?thesis
    by (simp add: release(1) jobs_law_def)
next
  case (killed p t defs)
  from assms(4) have ord: "in_order env s" by (simp add: jobs_law_def)
  then have "named_files env (ru_files s)" by (simp add: in_order_def)
  from in_order_next [OF ord killed(2) this, of Idle None "[]" "ru_jobs s"] assms(4) show ?thesis
    by (simp add: killed(1) jobs_law_def)
qed (use assms(4) in simp)

lemma law_reachable:
  assumes "runner_env_ok env" and "keeps_law env good holds" and "runs_to env (started fs) s"
    and "named_files env fs" and "good []" and "every_reading env (i @ ''.json'') (holds []) fs"
  shows "good (job_times i (ru_jobs s))"
proof -
  have "jobs_law env i good holds s"
    using assms(3) unfolding runs_to_def
  proof (induction rule: rtranclp_induct)
    case base
    show ?case using assms(4-6) by (simp add: jobs_law_def in_order_def started_def)
  next
    case (step s s')
    from law_step [OF assms(1,2) step(2,3)] show ?case .
  qed
  then show ?thesis by (simp add: jobs_law_def)
qed

section \<open>The two laws\<close>

text \<open>A one-shot definition is disabled once it has a job.\<close>

definition one_shot_holds :: "int list \<Rightarrow> automation \<Rightarrow> bool" where
  "one_shot_holds ts a \<longleftrightarrow> (if ts = [] then au_kind a \<in> set one_shot_trigger_kinds else \<not> au_enabled a)"

lemma one_shot_law:
  assumes "plain_coercions (ae_pydantic env)"
  shows "keeps_law env (\<lambda>ts. length ts \<le> 1) one_shot_holds"
  unfolding keeps_law_def
proof (intro allI impI, elim exE)
  fix ts :: "int list" and a t fs gs
  assume h: "one_shot_holds ts a" and d: "due_at a t" and s: "holds_saved a t fs" and r: "is_reading env gs a"
  from h d have ts: "ts = []" and k: "au_kind a \<in> set one_shot_trigger_kinds"
    by (auto simp: one_shot_holds_def due_at_def evaluate_due_automation_def split: if_splits)
  have "every_reading env (au_id a @ ''.json'') (\<lambda>b. \<not> au_enabled b) fs"
    by (rule every_reading_saved [OF s assms is_reading_id [OF r]]) (use k in \<open>simp add: fired_def Let_def\<close>)
  then show "length (ts @ [t]) \<le> 1 \<and> every_reading env (au_id a @ ''.json'') (one_shot_holds (ts @ [t])) fs"
    using ts by (simp add: one_shot_holds_def [abs_def])
qed

text \<open>A recurring definition waits from its last job for its interval.\<close>

definition recurring_holds :: "int \<Rightarrow> int list \<Rightarrow> automation \<Rightarrow> bool" where
  "recurring_holds d ts a \<longleftrightarrow> au_kind a = RecurringInterval \<and> get (au_config a) ''interval_ms'' = PInt d
     \<and> (ts \<noteq> [] \<longrightarrow> au_next_run a = Some (last ts + d))"

lemma interval_config:
  assumes "model_validate pd c u e = Some a" and "au_kind a = RecurringInterval"
    and "validate_trigger_config RecurringInterval (sorted_dict (au_config a)) = Inr cfg"
  shows "get cfg ''interval_ms'' = get (au_config a) ''interval_ms''"
proof -
  from assms(1) obtain b where "cross_field_validation b = Some a"
    unfolding model_validate_def by (auto simp: bind_eq_Some_conv split: if_splits)
  with assms(2) have v: "validate_trigger_config RecurringInterval (au_config a) = Inr (au_config a)"
    using validate_trigger_config_idem by (auto simp: cross_field_iff)
  from validate_trigger_config_sorted [OF wf_validated_config [OF v], of RecurringInterval] v assms(3)
  show ?thesis by simp
qed

lemma sorted_gap_snoc:
  assumes "sorted_wrt (\<lambda>t t'. t + d \<le> t') ts" and "ts \<noteq> [] \<Longrightarrow> last ts + d \<le> (t :: int)" and "0 < d"
  shows "sorted_wrt (\<lambda>t t'. t + d \<le> t') (ts @ [t])"
proof (cases ts rule: rev_cases)
  case (snoc xs u)
  with assms have "x \<in> set xs \<Longrightarrow> x + d \<le> u" "u + d \<le> t" for x by (simp_all add: sorted_wrt_append)
  with assms(1,3) snoc show ?thesis by (force simp: sorted_wrt_append)
qed simp

lemma recurring_law:
  assumes "plain_coercions (ae_pydantic env)" and "0 < d"
  shows "keeps_law env (sorted_wrt (\<lambda>t t'. t + d \<le> t')) (recurring_holds d)"
  unfolding keeps_law_def
proof (intro allI impI, elim exE)
  fix ts :: "int list" and a t fs gs
  assume g: "sorted_wrt (\<lambda>t t'. t + d \<le> t') ts" and h: "recurring_holds d ts a" and due: "due_at a t"
    and s: "holds_saved a t fs" and r: "is_reading env gs a"
  from h due have "ts \<noteq> [] \<Longrightarrow> last ts + d \<le> t"
    by (auto simp: recurring_holds_def due_at_def evaluate_due_automation_def compute_due_anchor_ms_def
        one_shot_trigger_kinds_def split: if_splits)
  then have good: "sorted_wrt (\<lambda>t t'. t + d \<le> t') (ts @ [t])" by (rule sorted_gap_snoc [OF g _ assms(2)])
  from r obtain c u e where v: "model_validate (ae_pydantic env) c u e = Some a" by (auto simp: is_reading_def)
  have k: "au_kind a = RecurringInterval" "get (au_config a) ''interval_ms'' = PInt d"
    using h by (simp_all add: recurring_holds_def)
  have "every_reading env (au_id a @ ''.json'') (recurring_holds d (ts @ [t])) fs"
  proof (rule every_reading_saved [OF s assms(1) is_reading_id [OF r]])
    fix b :: automation and job ref
    assume b: "au_kind b = au_kind a" "au_next_run b = au_next_run (fired a t job ref)"
      "validate_trigger_config (au_kind a) (sorted_dict (au_config a)) = Inr (au_config b)"
    from interval_config [OF v k(1) b(3) [unfolded k(1)]] b(1,2) k show "recurring_holds d (ts @ [t]) b"
      by (simp add: recurring_holds_def fired_def one_shot_trigger_kinds_def Let_def)
  qed
  with good show "sorted_wrt (\<lambda>t t'. t + d \<le> t') (ts @ [t])
      \<and> every_reading env (au_id a @ ''.json'') (recurring_holds d (ts @ [t])) fs" by blast
qed

section \<open>Whole passes\<close>

text \<open>A process that is alone runs \<open>run_due_automations\<close>: the jobs of its pass and of passes one after the
  other.\<close>

fun work_jobs :: "auto_env \<Rightarrow> int \<Rightarrow> automation list \<Rightarrow> files \<Rightarrow> job_log" where
  "work_jobs env t [] fs = []"
| "work_jobs env t (a # defs) fs = (case process_automation_definition env a (Some t) False fs of
     (res, fs') \<Rightarrow> jobs_made t a fs fs' @ (case res of Inl e \<Rightarrow> [] | Inr r \<Rightarrow> work_jobs env t defs fs'))"

definition pass_jobs :: "auto_env \<Rightarrow> int \<Rightarrow> files \<Rightarrow> job_log" where
  "pass_jobs env t fs = (case list_automation_definitions env False fs of
     Inl e \<Rightarrow> [] | Inr defs \<Rightarrow> work_jobs env t defs fs)"

fun jobs_of_passes :: "auto_env \<Rightarrow> int list \<Rightarrow> files \<Rightarrow> job_log" where
  "jobs_of_passes env [] fs = []"
| "jobs_of_passes env (t # ts) fs =
     pass_jobs env t fs @ jobs_of_passes env ts (snd (run_due_automations env (Some t) fs))"

lemma runs_refl [simp]: "runs_to env s s"
  by (simp add: runs_to_def)

lemma runs_step: "runner_step env s s' \<Longrightarrow> runs_to env s' s'' \<Longrightarrow> runs_to env s s''"
  by (simp add: runs_to_def converse_rtranclp_into_rtranclp)

lemma runs_trans: "runs_to env s s' \<Longrightarrow> runs_to env s' s'' \<Longrightarrow> runs_to env s s''"
  unfolding runs_to_def by (rule rtranclp_trans)

definition idle_at :: "files \<Rightarrow> job_log \<Rightarrow> 'p runners" where
  "idle_at fs js = \<lparr>ru_files = fs, ru_lock = None, ru_pc = (\<lambda>p. Idle), ru_jobs = js\<rparr>"

definition running_at :: "'p \<Rightarrow> int \<Rightarrow> automation list \<Rightarrow> files \<Rightarrow> job_log \<Rightarrow> 'p runners" where
  "running_at p t defs fs js = \<lparr>ru_files = fs, ru_lock = Some p, ru_pc = (\<lambda>p. Idle)(p := Running t defs), ru_jobs = js\<rparr>"

lemma idle_upd [simp]: "(\<lambda>p. Idle)(p := Idle) = (\<lambda>p. Idle)"
  by auto

lemma works_through:
  "runs_to env (running_at p t defs fs js)
     (idle_at (snd (collectM defs (\<lambda>a. process_automation_definition env a (Some t) False) fs))
        (js @ work_jobs env t defs fs))"
proof (induction defs arbitrary: fs js)
  case Nil
  have "runner_step env (running_at p t [] fs js) (idle_at fs js)"
    using runner_step.release [of "running_at p t [] fs js" p t env] by (simp add: running_at_def idle_at_def)
  then show ?case using runs_step [OF _ runs_refl] by simp
next
  case (Cons a defs)
  obtain r fs1 where p: "process_automation_definition env a (Some t) False fs = (r, fs1)" by fastforce
  let ?js = "js @ jobs_made t a fs fs1"
  show ?case
  proof (cases r)
    case (Inl e)
    have "runner_step env (running_at p t (a # defs) fs js) (idle_at fs1 ?js)"
      using runner_step.abort [of "running_at p t (a # defs) fs js" p t a defs env e fs1] p Inl
      by (simp add: running_at_def idle_at_def)
    then show ?thesis using runs_step [OF _ runs_refl] p Inl by (simp add: bindM_def)
  next
    case (Inr row)
    have "runner_step env (running_at p t (a # defs) fs js) (running_at p t defs fs1 ?js)"
      using runner_step.work [of "running_at p t (a # defs) fs js" p t a defs env row fs1] p Inr
      by (simp add: running_at_def)
    from runs_step [OF this Cons.IH] p Inr show ?thesis
      by (auto simp: bindM_def split: prod.splits sum.splits)
  qed
qed

lemma pass_reachable:
  assumes "stamp_ok t"
  shows "runs_to env (idle_at fs js :: 'p runners)
    (idle_at (snd (run_due_automations env (Some t) fs)) (js @ pass_jobs env t fs))"
proof -
  obtain defs where defs: "list_automation_definitions env False fs = Inr defs"
    by (simp add: list_automation_definitions_def read_all_lenient)
  fix p :: 'p
  have "runner_step env (idle_at fs js) (running_at p t defs fs js)"
    using runner_step.acquire [of "idle_at fs js" p t env defs] defs assms
    by (simp add: idle_at_def running_at_def)
  from runs_step [OF this works_through] defs show ?thesis
    by (simp add: run_due_automations_def auto_clock_def pass_jobs_def)
qed

lemma passes_reachable:
  "list_all stamp_ok ts \<Longrightarrow>
   \<exists>fs'. runs_to env (idle_at fs js :: 'p runners) (idle_at fs' (js @ jobs_of_passes env ts fs))"
proof (induction ts arbitrary: fs js)
  case Nil
  then show ?case by (intro exI [of _ fs]) simp
next
  case (Cons t ts)
  let ?fs = "snd (run_due_automations env (Some t) fs)" and ?js = "js @ pass_jobs env t fs"
  obtain fs2 where "runs_to env (idle_at ?fs ?js :: 'p runners) (idle_at fs2 (?js @ jobs_of_passes env ts ?fs))"
    using Cons by fastforce
  from runs_trans [OF pass_reachable this] Cons.prems show ?case by (intro exI [of _ fs2]) simp
qed

lemma passes_started:
  "list_all stamp_ok ts \<Longrightarrow>
   \<exists>s :: 'p runners. runs_to env (started fs) s \<and> ru_jobs s = jobs_of_passes env ts fs"
  using passes_reachable [of ts env fs "[]"] by (fastforce simp: started_def idle_at_def)

end
