(* ===== verification/Automation_Theorems.thy ===== *)
theory Automation_Theorems
  imports Automation_Interleaving Queue_Daemon
begin

text \<open>
  The properties of the automation layer with their witnesses, on a sample definition, environment and
  store of files.
\<close>

section \<open>Submission\<close>

lemma first_text_head:
  "clean_or_none (get p k) = Some s \<Longrightarrow> first_text p (k # ks) = Some s"
  by (simp add: first_text_def map_filter_simps)

lemma lineage_string_clean: "sanitize_lineage_string v = clean_or_none v"
  by (cases v) (simp_all add: sanitize_lineage_string_def clean_or_none_def)

lemma request_first_field:
  assumes "request_object p key allowed (\<lambda>raw. bindR (required_str raw k m) (f raw)) = Inr v" and "has_key p key"
  shows "inner_text p key k \<noteq> None"
  using assms
  by (auto simp: request_object_def required_str_def inner_text_def lineage_string_clean result_iff
      split: py.splits if_splits option.splits)

text \<open>Every valid template is accepted by the inbox.\<close>

lemma valid_template_anchor:
  assumes "validate_payload_template p = Inr ()"
  shows "canonical_request_anchor_text p \<noteq> None"
proof -
  from assms have some: "\<exists>k \<in> set automation_request_fields. has_key p k"
    and texts: "template_text p ''mission_id'' = Inr ()" "template_text p ''goal'' = Inr ()"
    and steps: "template_steps p = Inr ()"
    and wr: "has_key p ''write_file'' \<Longrightarrow> \<exists>v. extract_write_file_request p = Inr v"
    and org: "has_key p ''file_organize'' \<Longrightarrow> \<exists>v. extract_file_organize_request p = Inr v"
    by (auto simp: validate_payload_template_def result_iff filter_empty_conv split: if_splits)
  have "inner_text p ''write_file'' ''path'' \<noteq> None"
    if h: "has_key p ''write_file''"
  proof -
    from wr [OF h] obtain v where "extract_write_file_request p = Inr v" by blast
    then show ?thesis unfolding extract_write_file_request_def using h by (rule request_first_field)
  qed
  moreover have "inner_text p ''file_organize'' ''source_path'' \<noteq> None"
    if h: "has_key p ''file_organize''"
  proof -
    from org [OF h] obtain v where "extract_file_organize_request p = Inr v" by blast
    then show ?thesis unfolding extract_file_organize_request_def using h by (rule request_first_field)
  qed
  moreover have "has_key p ''steps'' \<Longrightarrow> is_list (get p ''steps'') \<and> the_list (get p ''steps'') \<noteq> []"
    using steps by (auto simp: template_steps_def split: py.splits if_splits)
  moreover have "has_key p k \<Longrightarrow> k \<in> {''mission_id'', ''goal''} \<Longrightarrow> first_text p (k # ks) \<noteq> None" for k ks
    using texts by (auto simp: template_text_def first_text_head split: if_splits)
  then have "has_key p ''mission_id'' \<Longrightarrow> first_text p [''mission_id'', ''mission''] \<noteq> None"
    "has_key p ''goal'' \<Longrightarrow> first_text p [''goal'', ''plan_goal''] \<noteq> None" by simp_all
  ultimately show ?thesis using some
    by (auto simp: automation_request_fields_def canonical_request_anchor_text_def split: option.splits)
qed

text \<open>The inbox file of a submission and what it holds\<close>

definition submitted_payload :: "automation \<Rightarrow> string \<Rightarrow> dict" where
  "submitted_payload a rid = enrich_queue_job_payload (dmerge [(''id'', PStr rid)] (au_payload a)) ''automation_runner''"

definition disk_works :: "auto_env \<Rightarrow> bool" where
  "disk_works env \<longleftrightarrow> (\<forall>p c fs. ae_write_error env p c fs = None)"

lemma disk_works_parts: "disk_works env \<Longrightarrow> saves_work env" "disk_works env \<Longrightarrow> histories_work env"
  by (simp_all add: disk_works_def saves_work_def histories_work_def)

lemma auto_write_works: "disk_works env \<Longrightarrow>
    auto_write env p c fs = (Inr (), put_file p \<lparr>fl_content = c, fl_mtime = ae_now env fs\<rparr> fs)"
  by (cases p) (simp add: auto_write_def disk_works_def)

lemma emit_works:
  assumes "disk_works env" and "validate_payload_template (au_payload a) = Inr ()" and "id_shape rid"
    and "\<not> exists_file fs (inbox_path rid)"
  shows "emit_queue_job env a rid fs = (Inr (inbox_path rid),
     put_file (inbox_path rid) \<lparr>fl_content = Json (PDict (submitted_payload a rid)), fl_mtime = ae_now env fs\<rparr> fs)"
proof -
  from valid_template_anchor [OF assms(2)] obtain t where "canonical_request_anchor_text (au_payload a) = Some t" by blast
  with assms id_shape_no_space [OF assms(3)] show ?thesis
    by (simp add: emit_queue_job_def add_inbox_payload_def Let_def thenM_def bindM_def auto_write_works
        submitted_payload_def)
qed

lemma save_works:
  assumes "disk_works env" and "id_shape_validator (au_id a) = Some (au_id a)" and "0 < t"
  shows "\<exists>p fs'. save_automation_definition env (fired a t job ref) True (Some t) fs = (Inr p, fs')
    \<and> holds_saved a t fs' \<and> (\<forall>q. fst q = AutoDefs \<or> file_at fs' q = file_at fs q)"
  using save_run [of "fired a t job ref" t env fs] assms
  by (auto simp: disk_works_def Let_def holds_saved_def saved_after_def)

text \<open>What a definition that is due does when the disk works\<close>

lemma process_due:
  assumes "disk_works env" and "valid_automation a" and "0 < t"
    and "id_shape (generate_run_id env (au_id a) t)"
    and "\<not> exists_file fs (inbox_path (generate_run_id env (au_id a) t))"
    and "fst (evaluate_due_automation a t force)"
  shows "\<exists>r fs'. process_automation_definition env a (Some t) force fs = (Inr r, fs')
    \<and> ar_outcome r = Submitted \<and> ar_job r = Some (snd (inbox_path (generate_run_id env (au_id a) t)))
    \<and> map_option fl_content (file_at fs' (inbox_path (generate_run_id env (au_id a) t)))
        = Some (Json (PDict (submitted_payload a (generate_run_id env (au_id a) t))))
    \<and> holds_saved a t fs'"
proof -
  let ?rid = "generate_run_id env (au_id a) t"
  have idv: "id_shape_validator (au_id a) = Some (au_id a)" and tpl: "validate_payload_template (au_payload a) = Inr ()"
    using assms(2) by (simp_all add: valid_automation_def)
  note ids = id_validator_shape [OF idv]
  note em = emit_works [OF assms(1) tpl assms(4,5)]
  let ?fs1 = "put_file (inbox_path ?rid) \<lparr>fl_content = Json (PDict (submitted_payload a ?rid)), fl_mtime = ae_now env fs\<rparr> fs"
  from assms(6) obtain reason where due: "evaluate_due_automation a t force = (True, reason)"
    by (metis prod.collapse)
  from persist_works [OF disk_works_parts(2) [OF assms(1)] ids assms(4), of t Submitted "Some (snd (inbox_path ?rid))" reason ?fs1]
  obtain ref fs2 where h: "persist_history env a ?rid t Submitted (Some (snd (inbox_path ?rid))) reason ?fs1 = (Inr ref, fs2)"
    and fs2: "\<And>q. fst q \<noteq> AutoHistory \<Longrightarrow> file_at fs2 q = file_at ?fs1 q" by auto
  let ?b = "fired a t (snd (inbox_path ?rid)) ref"
  obtain fs3 p where sv: "save_automation_definition env ?b True (Some t) fs2 = (Inr p, fs3)"
    and fs3: "holds_saved a t fs3" "\<And>q. fst q \<noteq> AutoDefs \<Longrightarrow> file_at fs3 q = file_at fs2 q"
    using save_works [OF assms(1) idv assms(3)] by metis
  have "process_automation_definition env a (Some t) force fs
      = (Inr \<lparr>ar_id = au_id a, ar_outcome = Submitted, ar_message = reason, ar_job = Some (snd (inbox_path ?rid)),
          ar_history = Some ref, ar_run_id = Some ?rid, ar_kind = au_kind a\<rparr>, fs3)"
    by (simp add: process_automation_definition_def auto_clock_def due Let_def bindM_def attemptM_def em h sv)
  moreover have "file_at fs3 (inbox_path ?rid) = file_at ?fs1 (inbox_path ?rid)"
    using fs3(2) fs2 by (simp add: inbox_path_def)
  ultimately show ?thesis using fs3(1) by simp
qed

section \<open>Samples\<close>

definition sample_auto :: automation where
  "sample_auto = \<lparr>au_id = ''a'', au_title = ''A'', au_description = [], au_enabled = True, au_kind = OnceAt,
     au_config = [(''run_at_ms'', PInt 5)], au_payload = [(''goal'', PStr ''x'')], au_created = 1, au_updated = 1,
     au_last_run = None, au_next_run = None, au_last_job = None, au_history = [], au_posture = ''standard'',
     au_from = ''cli''\<rparr>"

definition sample_recurring :: automation where
  "sample_recurring = sample_auto\<lparr>au_kind := RecurringInterval, au_config := [(''interval_ms'', PInt 3)]\<rparr>"

definition sample_auto_env :: auto_env where
  "sample_auto_env = \<lparr>ae_root = ''q'',
     ae_pydantic = \<lparr>pd_int = (\<lambda>v. case v of PInt n \<Rightarrow> Some n | _ \<Rightarrow> None),
                    pd_bool = (\<lambda>v. case v of PBool b \<Rightarrow> Some b | _ \<Rightarrow> None)\<rparr>,
     ae_now = (\<lambda>fs. 7), ae_write_error = (\<lambda>p c fs. None), ae_unlink_error = (\<lambda>p fs. None),
     ae_sha1 = (\<lambda>s. ''0a1b2c3d4e''), ae_sha256 = (\<lambda>s. ''0a''), ae_validation_text = (\<lambda>d. []),
     ae_parse_text = (\<lambda>t. []), ae_lock_held = (\<lambda>fs. False)\<rparr>"

definition auto_file :: "automation \<Rightarrow> files" where
  "auto_file a = [((AutoDefs, au_id a @ ''.json''), \<lparr>fl_content = Json (PDict (sorted_dict (model_dump a))), fl_mtime = 0\<rparr>)]"

lemma sample_facts:
  "plain_coercions (ae_pydantic sample_auto_env)" "disk_works sample_auto_env" "saves_work sample_auto_env"
  "runner_env_ok sample_auto_env"
proof -
  have "list_all alnum_char ''0a1b2c3d4e''" by code_simp
  then show "plain_coercions (ae_pydantic sample_auto_env)" "disk_works sample_auto_env" "saves_work sample_auto_env"
    "runner_env_ok sample_auto_env"
    by (simp_all add: runner_env_ok_def digests_plain_def histories_work_def plain_coercions_def disk_works_def
        saves_work_def sample_auto_env_def)
qed

lemma sample_valid: "valid_automation sample_auto" "valid_automation sample_recurring"
  by code_simp+

lemma auto_file_reading:
  assumes "valid_automation a" and "wf_py (PDict (au_payload a))" and "P (a\<lparr>au_payload := sorted_dict (au_payload a)\<rparr>)"
  shows "every_reading sample_auto_env (au_id a @ ''.json'') P (auto_file a)"
  using model_validate_dump [OF assms(1) sample_facts(1) assms(2)] assms(3)
  by (auto simp: every_reading_def auto_file_def file_at_def)

lemma auto_file_named:
  assumes "valid_automation a" and "wf_py (PDict (au_payload a))"
  shows "named_files sample_auto_env (auto_file a)"
  unfolding named_files_def
proof
  fix n
  show "every_reading sample_auto_env n (\<lambda>b. n = au_id b @ ''.json'') (auto_file a)"
  proof (cases "n = au_id a @ ''.json''")
    case True
    with auto_file_reading [OF assms, of "\<lambda>b. n = au_id b @ ''.json''"] show ?thesis by simp
  qed (simp add: every_reading_def auto_file_def file_at_def)
qed

lemma sample_pass: "job_times ''a'' (jobs_of_passes sample_auto_env [7, 8, 9] (auto_file sample_auto)) = [7]"
  by code_simp

lemma sample_recurring_pass:
  "job_times ''a'' (jobs_of_passes sample_auto_env [7, 8, 11] (auto_file sample_recurring)) = [7, 11]"
  by code_simp

lemma sample_stamps: "list_all stamp_ok [7, 8, 9]" "list_all stamp_ok [7, 8, 11]"
  by (simp_all add: stamp_ok_def)

section \<open>Properties\<close>

text \<open>C7 However the locked passes of the runner overlap, end, raise or are killed between two definitions, and
  whatever other programs do to files that are not definitions, a one-shot definition gets at most one job:
  every file that a pass makes in the inbox counts, reported or not. The definitions and the history records
  can be written, the digests are letters and digits, and the files carry the names of their definitions.
  \<open>run-now\<close> and \<open>run-due-once --id\<close>, which take no lock, are left out.\<close>

theorem one_shot_fires_once:
  assumes "runs_to env (started fs :: 'p runners) s" and "runner_env_ok env" and "named_files env fs"
    and "every_reading env (i @ ''.json'') (\<lambda>a. au_kind a \<in> set one_shot_trigger_kinds) fs"
  shows "length (job_times i (ru_jobs s)) \<le> 1"
proof -
  have "plain_coercions (ae_pydantic env)" using assms(2) by (simp add: runner_env_ok_def)
  from law_reachable [OF assms(2) one_shot_law [OF this] assms(1,3)] assms(4) show ?thesis
    by (simp add: one_shot_holds_def [abs_def])
qed

theorem one_shot_fires_once_witness:
  "\<exists>s :: nat runners. runs_to sample_auto_env (started (auto_file sample_auto)) s
     \<and> job_times ''a'' (ru_jobs s) = [7] \<and> length (job_times ''a'' (ru_jobs s)) \<le> 1"
proof -
  obtain s :: "nat runners" where s: "runs_to sample_auto_env (started (auto_file sample_auto)) s"
    "ru_jobs s = jobs_of_passes sample_auto_env [7, 8, 9] (auto_file sample_auto)"
    using passes_started [OF sample_stamps(1), of sample_auto_env "auto_file sample_auto"] by blast
  have wf: "wf_py (PDict (au_payload sample_auto))" by code_simp
  have "every_reading sample_auto_env (''a'' @ ''.json'')
      (\<lambda>a. au_kind a \<in> set one_shot_trigger_kinds) (auto_file sample_auto)"
    using auto_file_reading [OF sample_valid(1) wf, of "\<lambda>a. au_kind a \<in> set one_shot_trigger_kinds"]
    by (simp add: sample_auto_def one_shot_trigger_kinds_def)
  from one_shot_fires_once [OF s(1) sample_facts(4) auto_file_named [OF sample_valid(1) wf] this]
  have "length (job_times ''a'' (ru_jobs s)) \<le> 1" .
  moreover have "job_times ''a'' (ru_jobs s) = [7]" by (simp only: s(2) sample_pass)
  ultimately show ?thesis using s(1) by blast
qed

text \<open>C8 Two jobs that locked passes make of a recurring definition are at least its interval apart, however
  late the passes come and however they overlap: there is no catch-up burst. Every file that a pass makes in
  the inbox counts; the conditions are those of the one-shot definitions.\<close>

theorem recurring_interval_respected:
  assumes "runs_to env (started fs :: 'p runners) s" and "runner_env_ok env" and "named_files env fs" and "0 < d"
    and "every_reading env (i @ ''.json'') (\<lambda>a. au_kind a = RecurringInterval
           \<and> get (au_config a) ''interval_ms'' = PInt d) fs"
  shows "sorted_wrt (\<lambda>t t'. t + d \<le> t') (job_times i (ru_jobs s))"
proof -
  have "plain_coercions (ae_pydantic env)" using assms(2) by (simp add: runner_env_ok_def)
  from law_reachable [OF assms(2) recurring_law [OF this assms(4)] assms(1,3)] assms(5) show ?thesis
    by (simp add: recurring_holds_def [abs_def])
qed

theorem recurring_interval_respected_witness:
  "\<exists>s :: nat runners. job_times ''a'' (ru_jobs s) = [7, 11]
     \<and> sorted_wrt (\<lambda>t t'. t + 3 \<le> t') (job_times ''a'' (ru_jobs s))"
proof -
  obtain s :: "nat runners" where s: "runs_to sample_auto_env (started (auto_file sample_recurring)) s"
    "ru_jobs s = jobs_of_passes sample_auto_env [7, 8, 11] (auto_file sample_recurring)"
    using passes_started [OF sample_stamps(2), of sample_auto_env "auto_file sample_recurring"] by blast
  have wf: "wf_py (PDict (au_payload sample_recurring))" by code_simp
  have "every_reading sample_auto_env (''a'' @ ''.json'')
      (\<lambda>a. au_kind a = RecurringInterval \<and> get (au_config a) ''interval_ms'' = PInt 3) (auto_file sample_recurring)"
    using auto_file_reading [OF sample_valid(2) wf, of "\<lambda>a. au_kind a = RecurringInterval
        \<and> get (au_config a) ''interval_ms'' = PInt 3"]
    by (simp add: sample_auto_def sample_recurring_def)
  from recurring_interval_respected [OF s(1) sample_facts(4) auto_file_named [OF sample_valid(2) wf] _ this]
  have "sorted_wrt (\<lambda>t t'. t + 3 \<le> t') (job_times ''a'' (ru_jobs s))" by simp
  moreover have "job_times ''a'' (ru_jobs s) = [7, 11]" by (simp only: s(2) sample_recurring_pass)
  ultimately show ?thesis by blast
qed

text \<open>C9 When the disk works, a due valid definition is submitted: the pass reports it, the inbox gets a job
  with every field of the template as it was, and the definition is saved as fired.\<close>

theorem due_definition_submitted:
  assumes "disk_works env" and "valid_automation a" and "0 < t"
    and "id_shape (generate_run_id env (au_id a) t)"
    and "\<not> exists_file fs (inbox_path (generate_run_id env (au_id a) t))"
    and "fst (evaluate_due_automation a t force)"
    and "wf_dict (au_payload a)" and "has_key (au_payload a) k" and "k \<noteq> ''job_intent''"
  shows "\<exists>r fs' job. process_automation_definition env a (Some t) force fs = (Inr r, fs')
    \<and> ar_outcome r = Submitted \<and> holds_saved a t fs'
    \<and> map_option fl_content (file_at fs' (inbox_path (generate_run_id env (au_id a) t))) = Some (Json (PDict job))
    \<and> get job k = get (au_payload a) k"
proof -
  let ?d = "dmerge [(''id'', PStr (generate_run_id env (au_id a) t))] (au_payload a)"
  have "map_of ?d k = map_of (au_payload a) k"
    using assms(7,8) by (auto simp: map_of_dmerge has_key_def)
  then have "has_key ?d k" "get ?d k = get (au_payload a) k"
    using assms(8) by (simp_all add: has_key_def get_def get_or_def)
  then have "get (submitted_payload a (generate_run_id env (au_id a) t)) k = get (au_payload a) k"
    using enrich_keeps [OF _ assms(9)] by (simp add: submitted_payload_def)
  with process_due [OF assms(1-6)] show ?thesis by blast
qed

theorem due_definition_submitted_witness:
  "\<exists>r fs'. process_automation_definition sample_auto_env sample_auto (Some 7) False [] = (Inr r, fs')
     \<and> ar_outcome r = Submitted \<and> holds_saved sample_auto 7 fs'"
proof -
  have facts: "id_shape (generate_run_id sample_auto_env (au_id sample_auto) 7)"
    "fst (evaluate_due_automation sample_auto 7 False)" "wf_dict (au_payload sample_auto)"
    "has_key (au_payload sample_auto) ''goal''" "''goal'' \<noteq> ''job_intent''"
    by code_simp+
  have "\<not> exists_file [] (inbox_path (generate_run_id sample_auto_env (au_id sample_auto) 7))"
    by (simp add: exists_file_def file_at_def)
  from due_definition_submitted [OF sample_facts(2) sample_valid(1) _ facts(1) this facts(2-5)]
  show ?thesis by auto
qed

text \<open>C10 The runner is deferred submission and nothing else: outside its own two directories a run changes no
  file that exists and makes new files only in the inbox.\<close>

theorem runner_only_submits:
  "submits_only fs (snd (run_due_automations_locked env now_ms fs))
   \<and> submits_only fs (snd (run_automation_once env i now_ms fs))
   \<and> submits_only fs (snd (run_automation_now env i fs))"
proof -
  have "effect submits_only (run_due_automations_locked env now_ms)"
    unfolding run_due_automations_locked_def by (intro submits.effect_intro run_due_submits)
  moreover have load: "effect submits_only (load_automation_definition env i)"
    by (rule effectI) (simp add: load_automation_definition_def bindM_def definition_path_def submits.refl
        split: sum.split)
  then have "effect submits_only (run_automation_once env i now_ms)" "effect submits_only (run_automation_now env i)"
    unfolding run_automation_once_def run_automation_now_def
    by (intro submits.effect_intro process_submits; assumption)+
  ultimately show ?thesis using effectD by metis
qed

text \<open>C11 A valid definition survives the disk: what is saved loads back as the same definition, with its update
  time refreshed and the keys of its payload sorted.\<close>

theorem automation_roundtrip:
  assumes "valid_automation a" and "plain_coercions (ae_pydantic env)" and "wf_py (PDict (au_payload a))"
    and "saves_work env" and "0 < t"
  shows "fst (load_automation_definition env (au_id a) (snd (save_automation_definition env a True (Some t) fs)))
    = Inr (a\<lparr>au_updated := max (max t (au_created a)) (au_updated a), au_payload := sorted_dict (au_payload a)\<rparr>)"
proof -
  let ?b = "a\<lparr>au_updated := max (max t (au_created a)) (au_updated a)\<rparr>"
  have i: "id_shape_validator (au_id a) = Some (au_id a)" using assms(1) by (simp add: valid_automation_def)
  have "valid_automation ?b" "wf_py (PDict (au_payload ?b))" using assms(1,3) by (auto simp: valid_automation_def)
  from model_validate_dump [OF this(1) assms(2) this(2)]
  have m: "model_validate (ae_pydantic env) c u (sorted_dict (model_dump ?b))
      = Some (a\<lparr>au_updated := max (max t (au_created a)) (au_updated a), au_payload := sorted_dict (au_payload a)\<rparr>)"
    for c u by simp
  show ?thesis
    by (simp add: load_automation_definition_def bindM_def path_of_id [OF i] save_run [OF i assms(5)] Let_def
        assms(4) [unfolded saves_work_def] read_definition_def m)
qed

theorem automation_roundtrip_witness:
  "fst (load_automation_definition sample_auto_env ''a''
      (snd (save_automation_definition sample_auto_env sample_auto True (Some 7) [])))
   = Inr (sample_auto\<lparr>au_updated := 7\<rparr>)"
proof -
  have wf: "wf_py (PDict (au_payload sample_auto))" by code_simp
  from automation_roundtrip [OF sample_valid(1) sample_facts(1) wf sample_facts(3), of 7 "[]"]
  show ?thesis by (simp add: sample_auto_def sorted_dict_def)
qed

end
