(* ===== verification/Queue_Recovery.thy ===== *)
theory Queue_Recovery
  imports Queue_Approvals Queue_Frames
begin

text \<open>
  Startup recovery (\<open>voxera/core/queue_recovery.py\<close>): a pending job with a sidecar of its own was in
  flight when the daemon died. It is moved to failed with an error sidecar, its sidecars and its approval
  go into the quarantine of this start, and so do the approvals and state files of no job. There are no
  symbolic links in the model, and an artifacts directory exists when it has a file.
\<close>

section \<open>Detection\<close>

definition rel_path :: "qpath \<Rightarrow> string" where
  "rel_path p = (if fst p = QueueRoot then snd p else dir_path (fst p) @ ''/'' @ snd p)"

definition state_sidecar :: "string \<Rightarrow> qpath" where
  "state_sidecar stem = (InBucket Pending, stem @ ''.state.json'')"

record inflight =
  if_job :: qpath
  if_states :: "qpath list"
  if_artifacts :: "string list"

definition detected_states :: "files \<Rightarrow> qpath \<Rightarrow> qpath list" where
  "detected_states fs job = filter (exists_file fs) [meta_path (job_stem job), state_sidecar (job_stem job)]"

definition inflight_of :: "files \<Rightarrow> qpath \<Rightarrow> inflight option" where
  "inflight_of fs job =
     (if detected_states fs job = [] then None
      else Some \<lparr>if_job = job, if_states = sort_key rel_path (detected_states fs job),
        if_artifacts = (if dir_names fs (ArtifactsDir (job_stem job)) = [] then []
                        else [dir_path (ArtifactsDir (job_stem job))])\<rparr>)"

definition detected_inflight_pending_jobs :: "'w qenv \<Rightarrow> files \<Rightarrow> inflight list" where
  "detected_inflight_pending_jobs env fs =
     sort_key (\<lambda>i. path_str env (if_job i)) (List.map_filter (inflight_of fs) (primary_jobs_in_bucket env Pending fs))"

text \<open>\<open>artifact.stem.removesuffix(".approval")\<close>\<close>

definition approval_stem :: "qpath \<Rightarrow> string" where
  "approval_stem p = removesuffix (name_stem (snd p)) ''.approval''"

definition collect_orphan_approval_files :: "files \<Rightarrow> qpath list" where
  "collect_orphan_approval_files fs =
     sort_key snd (filter (\<lambda>p. \<not> exists_file fs (InBucket Pending, approval_stem p @ ''.json'')) (approval_artifacts fs))"

definition buckets :: "bucket list" where
  "buckets = [Inbox, Pending, Done, Failed, Canceled]"

definition existing_jobs :: "'w qenv \<Rightarrow> files \<Rightarrow> string list" where
  "existing_jobs env fs = concat (map (\<lambda>b. map snd (primary_jobs_in_bucket env b fs)) buckets)"

definition state_files :: "files \<Rightarrow> qdir \<Rightarrow> qpath list" where
  "state_files fs d = map (Pair d) (filter (\<lambda>n. ends_with n ''.state.json'') (dir_names fs d))"

definition collect_orphan_state_files :: "'w qenv \<Rightarrow> files \<Rightarrow> qpath list" where
  "collect_orphan_state_files env fs =
     sort_key (path_str env)
       (filter (\<lambda>p. removesuffix (snd p) ''.state.json'' @ ''.json'' \<notin> set (existing_jobs env fs))
         (concat (map (state_files fs) (QueueRoot # map InBucket buckets))))"

section \<open>Quarantine\<close>

definition quarantine_path :: "int \<Rightarrow> qpath \<Rightarrow> qpath" where
  "quarantine_path ts p = (RecoveryDir ts (fst p), snd p)"

text \<open>The paths that exist are moved; the answer is where they went.\<close>

fun quarantine :: "int \<Rightarrow> qpath list \<Rightarrow> (string list, 'w daemon) prog" where
  "quarantine ts [] = retM []"
| "quarantine ts (p # ps) = bindM (exists_now p) (\<lambda>present.
     if \<not> present then quarantine ts ps
     else thenM (queue_modify (\<lambda>q. q\<lparr>q_files := rename_file p (quarantine_path ts p) (q_files q)\<rparr>))
       (bindM (quarantine ts ps) (\<lambda>qs. retM (rel_path (quarantine_path ts p) # qs))))"

section \<open>Recovery\<close>

definition startup_recovery_reason :: string where
  "startup_recovery_reason = ''recovered_after_restart''"

definition startup_recovery_message :: string where
  "startup_recovery_message = ''daemon recovered from unclean shutdown; job marked failed deterministically''"

text \<open>The fields a failed job's sidecar and its entry in the report share\<close>

definition recovery_detail :: "inflight \<Rightarrow> dict" where
  "recovery_detail i = [(''reason'', PStr startup_recovery_reason), (''message'', PStr startup_recovery_message),
     (''original_bucket'', PStr ''pending''), (''detected_state_files'', pstrs (map rel_path (if_states i))),
     (''detected_artifacts_paths'', pstrs (if_artifacts i))]"

record recovered_job =
  rj_path :: qpath
  rj_detail :: dict
  rj_quarantined :: "string list"

text \<open>A job once it has its place in failed: the error sidecar, its files into the quarantine\<close>

definition settle_recovered :: "'w qenv \<Rightarrow> int \<Rightarrow> inflight \<Rightarrow> qpath \<Rightarrow> (recovered_job option, 'w daemon) prog" where
  "settle_recovered env ts i target =
     thenM (write_failed_error_sidecar env target
       (startup_recovery_reason @ '': '' @ startup_recovery_message) (Some (recovery_detail i)))
     (bindM (quarantine ts (if_states i)) (\<lambda>states.
      bindM (quarantine ts [approval_path (job_stem (if_job i))]) (\<lambda>approvals.
      retM (Some \<lparr>rj_path = target,
        rj_detail = [(''job_id'', PStr (job_stem target)), (''failed_path'', PStr (rel_path target))]
          @ recovery_detail i,
        rj_quarantined = states @ approvals\<rparr>))))"

definition recover_job :: "'w qenv \<Rightarrow> int \<Rightarrow> inflight \<Rightarrow> (recovered_job option, 'w daemon) prog" where
  "recover_job env ts i =
     bindM (exists_now (if_job i)) (\<lambda>present.
     if \<not> present then retM None
     else bindM (queue_get (\<lambda>q. deterministic_target_path (q_files q) (InBucket Failed) (snd (if_job i)) ''recovered''))
       (\<lambda>found. case found of
          None \<Rightarrow> raiseM (Exc RuntimeError ''no free name'')
        | Some target \<Rightarrow>
            bindM (move_job env (if_job i) (fst target)) (\<lambda>moved. case moved of
              None \<Rightarrow> retM None
            | Some m \<Rightarrow>
                thenM (whenM (m \<noteq> target) (queue_modify (\<lambda>q. q\<lparr>q_files := rename_file m target (q_files q)\<rparr>)))
                  (settle_recovered env ts i target))))"

fun recover_jobs :: "'w qenv \<Rightarrow> int \<Rightarrow> inflight list \<Rightarrow> (recovered_job list, 'w daemon) prog" where
  "recover_jobs env ts [] = retM []"
| "recover_jobs env ts (i # is) = bindM (recover_job env ts i) (\<lambda>r.
     bindM (recover_jobs env ts is) (\<lambda>rs. retM (case r of None \<Rightarrow> rs | Some x \<Rightarrow> x # rs)))"

definition recovery_counts :: "nat \<Rightarrow> nat \<Rightarrow> nat \<Rightarrow> nat \<Rightarrow> dict" where
  "recovery_counts failed approvals states quarantined =
     [(''jobs_failed'', PInt (int failed)), (''orphan_approvals_quarantined'', PInt (int approvals)),
      (''orphan_state_files_quarantined'', PInt (int states)), (''total_quarantined'', PInt (int quarantined))]"

definition recovery_summary :: "nat \<Rightarrow> nat \<Rightarrow> nat \<Rightarrow> string" where
  "recovery_summary failed approvals states = ''startup recovery complete: jobs_failed='' @ nat_str failed
     @ '', orphan_approvals_quarantined='' @ nat_str approvals
     @ '', orphan_state_files_quarantined='' @ nat_str states"

definition recovery_report :: "int \<Rightarrow> recovered_job list \<Rightarrow> dict \<Rightarrow> string list \<Rightarrow> dict" where
  "recovery_report ts rs counts quarantined =
     [(''ts_ms'', PInt ts), (''policy'', PStr ''fail_fast''), (''reason'', PStr startup_recovery_reason),
      (''message'', PStr startup_recovery_message), (''counts'', PDict counts),
      (''jobs_failed'', pstrs (sort (map (\<lambda>r. job_stem (rj_path r)) rs))),
      (''failed_details'', PList (map (\<lambda>r. PDict (rj_detail r)) (sort_key (\<lambda>r. job_stem (rj_path r)) rs))),
      (''quarantined_paths'', pstrs (sort quarantined)),
      (''recovery_dir'', if quarantined = [] then PNone else PStr (''recovery/startup-'' @ int_str ts))]"

definition increment_health_by :: "string \<Rightarrow> nat \<Rightarrow> (unit, 'w daemon) prog" where
  "increment_health_by key amount =
     whenM (amount \<noteq> 0) (health [(''counter'', PStr key), (''amount'', PInt (int amount))])"

text \<open>The counters, the health record, the event of the log and the report\<close>

definition publish_recovery ::
  "int \<Rightarrow> recovered_job list \<Rightarrow> nat \<Rightarrow> nat \<Rightarrow> string list \<Rightarrow> (dict, 'w daemon) prog" where
  "publish_recovery ts rs approvals states quarantined =
     (let counts = recovery_counts (length rs) approvals states (length quarantined);
          summary = recovery_summary (length rs) approvals states;
          report = recovery_report ts rs counts quarantined in
      thenM (increment_health_counter ''startup_recovery_runs'')
      (thenM (increment_health_by ''startup_recovery_jobs_failed'' (length rs))
      (thenM (increment_health_by ''startup_recovery_orphans_quarantined'' (length quarantined))
      (thenM (health [(''last_startup_recovery_ts'', PInt ts), (''last_startup_recovery_counts'', PDict counts),
         (''last_startup_recovery_summary'', PStr summary)])
      (thenM (log ([(''event'', PStr ''daemon_startup_recovery''), (''ts_ms'', PInt ts), (''policy'', PStr ''fail_fast''),
         (''reason'', PStr startup_recovery_reason), (''message'', PStr startup_recovery_message),
         (''counts'', PDict counts), (''jobs_failed'', get report ''jobs_failed''),
         (''quarantined_paths'', get report ''quarantined_paths''), (''recovery_dir'', get report ''recovery_dir''),
         (''summary'', PStr summary)]))
      (thenM (whenM (rs \<noteq> []) (health [(''last_shutdown_outcome'', PStr ''startup_recovered''),
         (''reason'', PStr startup_recovery_reason), (''job'', PStr (job_stem (rj_path (last rs))))]))
       (retM report)))))))"

text \<open>After the jobs: the orphans, then the publication\<close>

definition finish_recovery :: "'w qenv \<Rightarrow> int \<Rightarrow> recovered_job list \<Rightarrow> (dict, 'w daemon) prog" where
  "finish_recovery env ts rs =
     bindM (queue_get (\<lambda>q. collect_orphan_approval_files (q_files q))) (\<lambda>approvals.
     bindM (queue_get (\<lambda>q. collect_orphan_state_files env (q_files q))) (\<lambda>states.
     bindM (quarantine ts (approvals @ states)) (\<lambda>moved.
       publish_recovery ts rs (length approvals) (length states) (concat (map rj_quarantined rs) @ moved))))"

definition recover_on_startup :: "'w qenv \<Rightarrow> int option \<Rightarrow> (dict, 'w daemon) prog" where
  "recover_on_startup env now_ms =
     bindM (case now_ms of None \<Rightarrow> now env | Some n \<Rightarrow> retM n) (\<lambda>ts.
     bindM (queue_get (\<lambda>q. detected_inflight_pending_jobs env (q_files q))) (\<lambda>is.
     bindM (recover_jobs env ts is) (finish_recovery env ts)))"

end
