(* ===== verification/Recovery_Laws.thy ===== *)
theory Recovery_Laws
  imports Queue_Recovery Job_Laws Guarantees
begin

text \<open>
  Laws of the startup recovery: every job file survives it, an in-flight one in failed; nothing is left in
  flight; the outer world is not touched. A file is job-like when it is in a bucket and not a sidecar.
\<close>

section \<open>Jobs survive\<close>

definition job_like :: "qpath \<Rightarrow> bool" where
  "job_like p \<longleftrightarrow> (\<exists>b. fst p = InBucket b) \<and> \<not> is_metadata_sidecar (snd p)"

definition job_files :: "files \<Rightarrow> qpath set" where
  "job_files fs = {p. job_like p \<and> exists_file fs p}"

text \<open>Every job file is still there with its content and time, at its place or, from pending, in failed; no
  two of them became one.\<close>

definition jobs_survive :: "files \<Rightarrow> files \<Rightarrow> bool" where
  "jobs_survive fs fs' \<longleftrightarrow> (\<exists>g. inj_on g (job_files fs) \<and> (\<forall>p \<in> job_files fs. job_like (g p)
     \<and> file_at fs' (g p) = file_at fs p
     \<and> (g p = p \<or> (fst p = InBucket Pending \<and> fst (g p) = InBucket Failed))))"

lemma jobs_surviveI:
  assumes "inj_on g (job_files fs)" and "\<And>p. p \<in> job_files fs \<Longrightarrow> job_like (g p)"
    and "\<And>p. p \<in> job_files fs \<Longrightarrow> file_at fs' (g p) = file_at fs p"
    and "\<And>p. p \<in> job_files fs \<Longrightarrow> g p = p \<or> (fst p = InBucket Pending \<and> fst (g p) = InBucket Failed)"
  shows "jobs_survive fs fs'"
  unfolding jobs_survive_def using assms by blast

lemma jobs_survive_same:
  "(\<And>p. job_like p \<Longrightarrow> file_at fs' p = file_at fs p) \<Longrightarrow> jobs_survive fs fs'"
  by (rule jobs_surviveI [of "\<lambda>p. p"]) (auto simp: job_files_def)

lemma jobs_survive_trans:
  assumes "jobs_survive fs fs1" and "jobs_survive fs1 fs2"
  shows "jobs_survive fs fs2"
proof -
  obtain g where g: "inj_on g (job_files fs)" "\<And>p. p \<in> job_files fs \<Longrightarrow> job_like (g p)
     \<and> file_at fs1 (g p) = file_at fs p
     \<and> (g p = p \<or> (fst p = InBucket Pending \<and> fst (g p) = InBucket Failed))"
    using assms(1) unfolding jobs_survive_def by blast
  obtain h where h: "inj_on h (job_files fs1)" "\<And>p. p \<in> job_files fs1 \<Longrightarrow> job_like (h p)
     \<and> file_at fs2 (h p) = file_at fs1 p
     \<and> (h p = p \<or> (fst p = InBucket Pending \<and> fst (h p) = InBucket Failed))"
    using assms(2) unfolding jobs_survive_def by blast
  have sub: "g ` job_files fs \<subseteq> job_files fs1"
  proof
    fix q assume "q \<in> g ` job_files fs"
    then obtain p where "p \<in> job_files fs" "q = g p" by blast
    with g(2) [of p] show "q \<in> job_files fs1" by (auto simp: job_files_def exists_file_def)
  qed
  show ?thesis
  proof (rule jobs_surviveI [of "h \<circ> g"])
    show "inj_on (h \<circ> g) (job_files fs)" using g(1) inj_on_subset [OF h(1) sub] by (rule comp_inj_on)
  next
    fix p assume p: "p \<in> job_files fs"
    then have gp: "g p \<in> job_files fs1" using sub by blast
    show "job_like ((h \<circ> g) p)" "file_at fs2 ((h \<circ> g) p) = file_at fs p" using h(2) [OF gp] g(2) [OF p] by simp_all
    show "(h \<circ> g) p = p \<or> (fst p = InBucket Pending \<and> fst ((h \<circ> g) p) = InBucket Failed)"
      using h(2) [OF gp] g(2) [OF p] by auto
  qed
qed

definition surviving :: "'w daemon \<Rightarrow> 'w daemon \<Rightarrow> bool" where
  "surviving s s' \<longleftrightarrow> jobs_survive (files s) (files s')"

interpretation survival: guarantee surviving
  by unfold_locales (auto simp: surviving_def intro: jobs_survive_same jobs_survive_trans)

section \<open>Names\<close>

lemma metadata_sidecars:
  "is_metadata_sidecar (s @ ''.pending.json'')" "is_metadata_sidecar (s @ ''.state.json'')"
  "is_metadata_sidecar (s @ ''.error.json'')" "is_metadata_sidecar (s @ ''.approval.json'')"
  by (simp_all add: is_metadata_sidecar_def metadata_suffixes_def)

lemma not_job_like:
  "\<not> job_like (state_of p)" "\<not> job_like (error_sidecar p)" "\<not> job_like (meta_path s)" "\<not> job_like (state_sidecar s)"
  "\<not> job_like (ApprovalsDir, n)" "\<not> job_like (RecoveryDir ts d, n)" "\<not> job_like (QueueRoot, n)"
  by (auto simp: job_like_def state_of_def error_sidecar_def meta_path_def state_sidecar_def sibling_def state_name_def
      metadata_sidecars)

lemma state_of_dir [simp]: "fst (state_of p) = fst p"
  by (simp add: state_of_def sibling_def)

text \<open>An indexed name ends, before its suffix, with a digit.\<close>

lemma last_digits: "is_digit (last (digits_of n))"
  using digits_of_digits [of "last (digits_of n)" n] by simp

lemma split_last_dot:
  assumes "CHR ''.'' \<notin> set e" "CHR ''.'' \<notin> set e'" and "a @ CHR ''.'' # e = b @ CHR ''.'' # e'"
  shows "a = b \<and> e = e'"
proof -
  from assms(3) have "rev e @ CHR ''.'' # rev a = rev e' @ CHR ''.'' # rev b"
    by (metis append.assoc append_Cons append_Nil rev.simps(2) rev_append)
  moreover have "takeWhile (\<lambda>c. c \<noteq> CHR ''.'') (rev e @ CHR ''.'' # x) = rev e" if "CHR ''.'' \<notin> set e" for e x
  proof -
    have "takeWhile (\<lambda>c. c \<noteq> CHR ''.'') (rev e @ CHR ''.'' # x) = rev e @ takeWhile (\<lambda>c. c \<noteq> CHR ''.'') (CHR ''.'' # x)"
      by (rule takeWhile_append2) (use that in auto)
    then show ?thesis by simp
  qed
  ultimately have "rev e = rev e'" using assms(1,2) by metis
  then have "e = e'" by (simp only: rev_is_rev_conv)
  with assms(3) show ?thesis by simp
qed

definition sidecar_kinds :: "string list" where
  "sidecar_kinds = [''.pending'', ''.approval'', ''.error'', ''.state'', ''.tmp'', ''.partial'']"

lemma sidecar_kinds_last:
  assumes "k \<in> set sidecar_kinds"
  shows "k \<noteq> [] \<and> \<not> is_digit (last k)"
proof -
  have "list_all (\<lambda>k. k \<noteq> [] \<and> \<not> is_digit (last k)) sidecar_kinds" by code_simp
  with assms show ?thesis unfolding list_all_iff by blast
qed

lemma sidecar_kind: "is_metadata_sidecar n \<longleftrightarrow> (\<exists>k \<in> set sidecar_kinds. ends_with n (k @ ''.json''))"
  by (simp add: is_metadata_sidecar_def metadata_suffixes_def sidecar_kinds_def)

lemma digit_not_sidecar:
  assumes d: "s \<noteq> []" "is_digit (last s)"
  shows "\<not> is_metadata_sidecar (s @ name_suffix base)"
proof
  assume "is_metadata_sidecar (s @ name_suffix base)"
  then obtain k t where k: "k \<in> set sidecar_kinds" and t: "s @ name_suffix base = t @ k @ ''.json''"
    unfolding sidecar_kind by (auto simp only: ends_with_iff)
  note k_last = sidecar_kinds_last [OF k]
  show False
  proof (cases "name_suffix base = []")
    case True
    with t have "s = t @ k @ ''.json''" by simp
    then have "last s = last (t @ k @ ''.json'')" by (rule arg_cong)
    then have "last s = CHR ''n''" by simp
    with d show False by (simp add: is_digit_def code_def)
  next
    case False
    then obtain e where e: "name_suffix base = CHR ''.'' # e" "CHR ''.'' \<notin> set e"
      unfolding name_suffix_def after_last_dot_def Let_def by (auto dest: set_takeWhileD split: if_splits)
    have eq: "s @ CHR ''.'' # e = (t @ k) @ CHR ''.'' # ''json''" using t e(1) by simp
    have "CHR ''.'' \<notin> set ''json''" by simp
    from split_last_dot [OF e(2) this eq] have "s = t @ k" by (rule conjunct1)
    then have "last s = last k" using k_last by simp
    with d k_last show False by simp
  qed
qed

lemma indexed_not_sidecar: "\<not> is_metadata_sidecar (indexed_name base tag i)"
  using digit_not_sidecar [of "name_stem base @ ''-'' @ tag @ ''-'' @ digits_of i" base] last_digits
  by (simp add: indexed_name_def nat_str_def)

definition stamped :: "string \<Rightarrow> int \<Rightarrow> string" where
  "stamped name ts = name_stem name @ ''-'' @ int_str ts @ name_suffix name"

lemma stamped_not_sidecar: "\<not> is_metadata_sidecar (stamped name ts)"
  using digit_not_sidecar [of "name_stem name @ ''-'' @ int_str ts" name] last_digits
  by (simp add: stamped_def int_str_def nat_str_def)

section \<open>One job\<close>

text \<open>The clock is later than every time stamp in the name of a job.\<close>

definition stamp_fresh :: "'w qenv \<Rightarrow> bool" where
  "stamp_fresh env \<longleftrightarrow> (\<forall>q b name. \<not> exists_file (q_files q) (InBucket b, stamped name (qe_now env q)))"

definition flat_name :: "qpath \<Rightarrow> bool" where
  "flat_name p \<longleftrightarrow> path_name (snd p) = snd p"

lemma moved_free:
  assumes "stamp_fresh env"
  shows "\<not> exists_file (q_files q) (InBucket b, moved_name env (InBucket b) name q)"
  using assms by (auto simp: stamp_fresh_def moved_name_def stamped_def)

lemma moved_job_like:
  "\<not> is_metadata_sidecar name \<Longrightarrow> job_like (InBucket b, moved_name env (InBucket b) name q)"
  using stamped_not_sidecar [of name "qe_now env q"] by (simp add: job_like_def moved_name_def stamped_def)

lemma target_job_like:
  assumes "deterministic_target_path fs (InBucket b) name tag = Some p" and "path_name name = name"
    and "\<not> is_metadata_sidecar name" and "name \<noteq> []"
  shows "fst p = InBucket b" "job_like p" "\<not> exists_file fs p" "snd p \<noteq> []"
proof -
  obtain n where p: "p = (InBucket b, n)" "\<not> exists_file fs p"
    using assms(1) target_path_free [of fs "InBucket b" name tag] by auto
  then show "fst p = InBucket b" "\<not> exists_file fs p" by simp_all
  have "job_like p \<and> snd p \<noteq> []"
  proof (cases "exists_file fs (InBucket b, name)")
    case False
    with assms p show ?thesis by (simp add: deterministic_target_path_def job_like_def)
  next
    case True
    with assms p obtain i where "n = indexed_name name tag i"
      by (auto simp: deterministic_target_path_def simp del: free_index.simps dest!: free_index_Some)
    with p indexed_not_sidecar show ?thesis by (auto simp: job_like_def indexed_name_def)
  qed
  then show "job_like p" "snd p \<noteq> []" by simp_all
qed

text \<open>A job renamed within the files: the renaming is the injection.\<close>

lemma jobs_survive_renamed:
  assumes src: "job_like src" "fst src = InBucket Pending" "file_at fs src = Some f"
    and dst: "job_like dst" "fst dst = InBucket Failed" "\<not> exists_file fs dst"
    and all: "\<And>q. job_like q \<Longrightarrow>
       file_at fs' q = (if q = dst then Some f else if q = src then None else file_at fs q)"
  shows "jobs_survive fs fs'"
proof (rule jobs_surviveI [of "\<lambda>p. if p = src then dst else p"])
  show "inj_on (\<lambda>p. if p = src then dst else p) (job_files fs)"
    using dst(3) by (intro inj_onI) (auto simp: job_files_def split: if_splits)
next
  fix p assume p: "p \<in> job_files fs"
  then have "job_like p" "p \<noteq> dst" using dst(3) by (auto simp: job_files_def)
  then show "job_like (if p = src then dst else p)"
    "file_at fs' (if p = src then dst else p) = file_at fs p"
    "(if p = src then dst else p) = p \<or> (fst p = InBucket Pending \<and> fst (if p = src then dst else p) = InBucket Failed)"
    using src dst all [of dst] all [of p] by (auto split: if_splits)
qed

text \<open>The move out of pending, with the second rename to the chosen name\<close>

lemma recovered_files:
  assumes src: "job_like src" "fst src = InBucket Pending" "file_at fs src = Some f"
    and m: "\<not> exists_file fs m" "fst m = InBucket Failed" "\<not> is_metadata_sidecar (snd m)"
    and target: "\<not> exists_file fs target" "fst target = InBucket Failed" "job_like target"
    and q: "job_like q"
  shows "file_at (if m \<noteq> target then rename_file m target (move_files src m fs) else move_files src m fs) q =
      (if q = target then Some f else if q = src then None else file_at fs q)"
proof -
  have other: "state_of src \<noteq> m" "state_of m \<noteq> m" "q \<noteq> state_of src" "q \<noteq> state_of m" "src \<noteq> m" "src \<noteq> target"
    "target \<noteq> state_of m" "target \<noteq> state_of src"
    using src(2) m target q not_job_like(1) [of src] not_job_like(1) [of m]
    by (auto simp: job_like_def state_of_def sibling_def) (metis prod.collapse snd_conv)+
  have m_at: "file_at fs m = None" "file_at fs target = None" using m(1) target(1) by (simp_all add: exists_file_def)
  have one: "file_at (move_files src m fs) r =
      (if r = m then Some f else if r = src then None else file_at fs r)" if "r \<noteq> state_of src" "r \<noteq> state_of m" for r
    using that other src(3) by (auto simp: move_files_eq disk.at_move split: option.split)
  show ?thesis
    using other m_at one [of m] one [of q] by (auto simp: disk.at_move)
qed

text \<open>No name appears in pending.\<close>

definition fewer_pending :: "files \<Rightarrow> files \<Rightarrow> bool" where
  "fewer_pending fs fs' \<longleftrightarrow> (\<forall>n. exists_file fs' (InBucket Pending, n) \<longrightarrow> exists_file fs (InBucket Pending, n))"

lemma fewer_rename: "fst dst \<noteq> InBucket Pending \<Longrightarrow> fewer_pending fs (rename_file src dst fs)"
  by (auto simp: fewer_pending_def exists_file_def disk.at_move split: option.splits if_splits)

lemma fewer_trans: "fewer_pending fs fs1 \<Longrightarrow> fewer_pending fs1 fs2 \<Longrightarrow> fewer_pending fs fs2"
  by (simp add: fewer_pending_def)

lemma recovered_pending:
  assumes "fst m = InBucket Failed" "fst target = InBucket Failed"
  shows "fewer_pending fs (if m \<noteq> target then rename_file m target (move_files src m fs) else move_files src m fs)"
proof -
  have "fewer_pending fs (move_files src m fs)"
    unfolding move_files_eq using assms by (intro fewer_trans [OF fewer_rename fewer_rename]) simp_all
  moreover have "fewer_pending fs1 (rename_file m target fs1)" for fs1 using assms by (simp add: fewer_rename)
  ultimately show ?thesis using fewer_trans by auto
qed

section \<open>Beside the jobs\<close>

text \<open>The job files are untouched and no name appears in pending.\<close>

definition aside :: "'w daemon \<Rightarrow> 'w daemon \<Rightarrow> bool" where
  "aside s s' \<longleftrightarrow> (\<forall>p. job_like p \<longrightarrow> file_at (files s') p = file_at (files s) p)
     \<and> fewer_pending (files s) (files s')"

interpretation beside: guarantee aside
  by unfold_locales (auto simp: aside_def fewer_pending_def)

lemma aside_survives: "effect aside m \<Longrightarrow> effect surviving m"
  using jobs_survive_same by (auto simp: effect_def aside_def surviving_def)

lemma aside_get: "effect aside (queue_get f)" "effect aside (exists_now p)"
    "effect aside (content_now p)" "effect aside (now env)"
  and aside_log: "effect aside (log e)" "effect aside (health h)" "effect aside (increment_health_counter k)"
  by (simp_all add: effect_def aside_def queue_get_def exists_now_def content_now_def now_def log_def health_def
      increment_health_counter_def queue_modify_def files_def log_event_def fewer_pending_def)

lemma aside_sidecar:
  "fst job = InBucket Failed \<Longrightarrow> effect aside (write_failed_error_sidecar env job err payload)"
  using not_job_like(2) [of job] unfolding write_failed_error_sidecar_def
  by (intro beside.effect_intro aside_get)
    (auto simp: effect_def aside_def write_file_def queue_modify_def files_def fewer_pending_def exists_file_def
      error_sidecar_def sibling_def)

lemma aside_quarantine_one:
  assumes "\<not> job_like p"
  shows "effect aside (queue_modify (\<lambda>q. q\<lparr>q_files := rename_file p (quarantine_path ts p) (q_files q)\<rparr>)
      :: (unit, 'w daemon) prog)"
proof (rule effectI)
  fix s :: "'w daemon"
  have "\<not> job_like (quarantine_path ts p)" by (simp add: quarantine_path_def not_job_like)
  with assms have "\<forall>q. job_like q \<longrightarrow> file_at (rename_file p (quarantine_path ts p) (files s)) q = file_at (files s) q"
    by (auto simp: disk.at_move split: option.split)
  moreover have "fewer_pending (files s) (rename_file p (quarantine_path ts p) (files s))"
    by (rule fewer_rename) (simp add: quarantine_path_def)
  ultimately show "aside s (snd (queue_modify (\<lambda>q. q\<lparr>q_files := rename_file p (quarantine_path ts p) (q_files q)\<rparr>) s))"
    by (simp add: aside_def queue_modify_def files_def)
qed

lemma aside_quarantine:
  "\<forall>p \<in> set ps. \<not> job_like p \<Longrightarrow> effect aside (quarantine ts ps :: (string list, 'w daemon) prog)"
  by (induction ps) (auto intro!: beside.effect_intro aside_get aside_quarantine_one)

definition well_detected :: "inflight \<Rightarrow> bool" where
  "well_detected i \<longleftrightarrow> (\<exists>n. if_job i = (InBucket Pending, n) \<and> path_name n = n \<and> n \<noteq> [] \<and> \<not> is_metadata_sidecar n)
     \<and> set (if_states i) \<subseteq> {meta_path (job_stem (if_job i)), state_sidecar (job_stem (if_job i))}"

lemma aside_settle:
  "well_detected i \<Longrightarrow> fst target = InBucket Failed \<Longrightarrow>
   effect aside (settle_recovered env ts i target :: (recovered_job option, 'w daemon) prog)"
  unfolding settle_recovered_def approval_path_def well_detected_def
  by (intro beside.effect_intro aside_sidecar aside_quarantine) (auto simp: not_job_like)

lemma recover_job_run:
  assumes i: "well_detected i" and fresh: "stamp_fresh env" and there: "file_at (files s) (if_job i) = Some f"
  obtains target s1 where "recover_job env ts i s = settle_recovered env ts i target s1"
    "\<not> exists_file (files s) target" "fst target = InBucket Failed" "job_like target" "snd target \<noteq> []"
    "\<forall>q. job_like q \<longrightarrow> file_at (files s1) q =
       (if q = target then Some f else if q = if_job i then None else file_at (files s) q)"
    "fewer_pending (files s) (files s1)"
proof -
  from i obtain n where n: "if_job i = (InBucket Pending, n)" "path_name n = n" "\<not> is_metadata_sidecar n" "n \<noteq> []"
    by (auto simp: well_detected_def)
  obtain target where t: "deterministic_target_path (files s) (InBucket Failed) n ''recovered'' = Some target"
    using target_path_free by blast
  note target = target_job_like [OF t n(2,3,4)]
  let ?m = "(InBucket Failed, moved_name env (InBucket Failed) n (rs_world s))"
  let ?fs = "move_files (if_job i) ?m (files s)"
  let ?s1 = "s\<lparr>rs_world := (rs_world s)\<lparr>q_files := if ?m \<noteq> target then rename_file ?m target ?fs else ?fs\<rparr>\<rparr>"
  have m: "\<not> exists_file (files s) ?m" "\<not> is_metadata_sidecar (snd ?m)"
    using moved_free [OF fresh, of "rs_world s" Failed n] moved_job_like [OF n(3), of Failed env "rs_world s"]
    by (simp_all add: files_def job_like_def)
  have src: "job_like (if_job i)" "fst (if_job i) = InBucket Pending" using n by (simp_all add: job_like_def)
  have "recover_job env ts i s = settle_recovered env ts i target ?s1"
    using there n(1) t target(1)
    by (simp add: recover_job_def exists_now_def queue_get_def queue_modify_def move_job_run files_def
        bindM_def thenM_def exists_file_def)
  then show thesis
    using that [of target ?s1] target recovered_files [OF src there m(1) _ m(2) target(3,1,2)]
      recovered_pending [of ?m target "files s" "if_job i"] by (simp add: files_def)
qed

lemma survive_recover_job:
  fixes env :: "'w qenv"
  assumes i: "well_detected i" and fresh: "stamp_fresh env"
  shows "effect surviving (recover_job env ts i)"
proof (rule effectI)
  fix s :: "'w daemon"
  show "surviving s (snd (recover_job env ts i s))"
  proof (cases "file_at (files s) (if_job i)")
    case (Some f)
    from recover_job_run [OF i fresh this, of ts] obtain target s1
      where run: "recover_job env ts i s = settle_recovered env ts i target s1"
        and target: "\<not> exists_file (files s) target" "fst target = InBucket Failed" "job_like target"
        and "snd target \<noteq> []" and at1: "\<forall>q. job_like q \<longrightarrow> file_at (files s1) q =
          (if q = target then Some f else if q = if_job i then None else file_at (files s) q)" by metis
    have "job_like (if_job i)" "fst (if_job i) = InBucket Pending"
      using i by (auto simp: well_detected_def job_like_def)
    from jobs_survive_renamed [OF this Some target(3,2,1)] at1 [rule_format] have "surviving s s1"
      unfolding surviving_def by blast
    from survival.trans [OF this effectD [OF aside_survives [OF aside_settle [OF i target(2)]]]] show ?thesis by (simp add: run)
  next
    case None
    then show ?thesis
      by (simp add: recover_job_def exists_now_def queue_get_def files_def survival.refl exists_file_def)
  qed
qed

lemma survive_recover_jobs:
  "\<forall>i \<in> set is. well_detected i \<Longrightarrow> stamp_fresh env \<Longrightarrow> effect surviving (recover_jobs env ts is)"
  by (induction "is") (auto intro!: survival.effect_intro survive_recover_job)

section \<open>Start-up\<close>

lemma inflight_of_Some:
  "inflight_of fs job = Some i \<Longrightarrow>
   if_job i = job \<and> detected_states fs job \<noteq> [] \<and> set (if_states i) \<subseteq> {meta_path (job_stem job), state_sidecar (job_stem job)}"
  by (auto simp: inflight_of_def detected_states_def split: if_splits)

lemma detected_iff:
  "i \<in> set (detected_inflight_pending_jobs env fs) \<longleftrightarrow> fst (if_job i) = InBucket Pending
     \<and> exists_file fs (if_job i) \<and> is_primary_job_json env (if_job i) \<and> inflight_of fs (if_job i) = Some i"
proof -
  have "i \<in> set (List.map_filter g ps) \<longleftrightarrow> (\<exists>p \<in> set ps. g p = Some i)" for g :: "qpath \<Rightarrow> inflight option" and ps
    by (force simp: List.map_filter_def)
  moreover have "p \<in> set (primary_jobs_in_bucket env Pending fs) \<longleftrightarrow>
      fst p = InBucket Pending \<and> exists_file fs p \<and> is_primary_job_json env p" for p
    by (cases p) (auto simp: primary_jobs_in_bucket_def dir_names_iff)
  ultimately show ?thesis
    using inflight_of_Some unfolding detected_inflight_pending_jobs_def set_sort by metis
qed

lemma detected_distinct: "distinct (map if_job (detected_inflight_pending_jobs env fs))"
proof -
  have "map if_job (List.map_filter (inflight_of fs) ps) = filter (\<lambda>p. inflight_of fs p \<noteq> None) ps" for ps
    by (induction ps) (auto simp: map_filter_simps dest: inflight_of_Some split: option.split)
  moreover have "distinct (primary_jobs_in_bucket env Pending fs)"
    by (simp add: primary_jobs_in_bucket_def distinct_map inj_on_def dir_names_def)
  ultimately have "distinct (map if_job (List.map_filter (inflight_of fs) (primary_jobs_in_bucket env Pending fs)))"
    by simp
  then show ?thesis unfolding detected_inflight_pending_jobs_def
    by (metis distinct_map distinct_sort set_sort)
qed

lemma detected_well:
  assumes "i \<in> set (detected_inflight_pending_jobs env fs)" and "\<forall>p. exists_file fs p \<longrightarrow> flat_name p"
  shows "well_detected i"
proof -
  from assms have i: "fst (if_job i) = InBucket Pending" "is_primary_job_json env (if_job i)"
      "inflight_of fs (if_job i) = Some i" "flat_name (if_job i)"
    unfolding detected_iff by blast+
  then have "snd (if_job i) \<noteq> []" by (auto simp: is_primary_job_json_def ends_with_iff)
  with i inflight_of_Some [OF i(3)] show ?thesis
    by (cases "if_job i") (auto simp: well_detected_def is_primary_job_json_def flat_name_def)
qed

lemma orphans_not_job_like:
  "p \<in> set (collect_orphan_approval_files fs) \<Longrightarrow> \<not> job_like p"
  "p \<in> set (collect_orphan_state_files env fs) \<Longrightarrow> \<not> job_like p"
  using metadata_sidecars(2)
  by (auto simp: collect_orphan_approval_files_def approval_artifacts_def collect_orphan_state_files_def
      state_files_def job_like_def ends_with_iff)

lemma effect_query: "(\<And>q. effect R (k (f q))) \<Longrightarrow> effect R (bindM (queue_get f) k)"
  by (simp add: effect_def queue_get_def)

lemma recover_on_startup_eq:
  "recover_on_startup env now_ms s =
     (let ts = (case now_ms of None \<Rightarrow> qe_now env (rs_world s) | Some n \<Rightarrow> n) in
      bindM (recover_jobs env ts (detected_inflight_pending_jobs env (files s))) (finish_recovery env ts) s)"
  by (cases now_ms) (simp_all add: recover_on_startup_def now_def queue_get_def files_def Let_def)

lemma aside_publish: "effect aside (publish_recovery ts rs a b qs)"
  unfolding publish_recovery_def increment_health_by_def Let_def by (intro beside.effect_intro aside_log)

lemma aside_finish: "effect aside (finish_recovery env ts rs)"
  unfolding finish_recovery_def
proof (rule effect_query, rule effect_query, rule beside.effect_bind)
  fix q q' :: "'a queue"
  show "effect aside (quarantine ts (collect_orphan_approval_files (q_files q)
     @ collect_orphan_state_files env (q_files q')) :: (string list, 'a daemon) prog)"
    by (rule aside_quarantine) (auto dest: orphans_not_job_like)
qed (rule aside_publish)

lemma recovery_survive:
  assumes "stamp_fresh env" and "\<forall>p. exists_file (files s) p \<longrightarrow> flat_name p"
  shows "surviving s (snd (recover_on_startup env now_ms s))"
proof -
  have "\<forall>i \<in> set (detected_inflight_pending_jobs env (files s)). well_detected i"
    using detected_well assms(2) by blast
  from survive_recover_jobs [OF this assms(1)] aside_survives [OF aside_finish] show ?thesis
    unfolding recover_on_startup_eq Let_def by (rule effectD [OF survival.effect_bind])
qed

section \<open>Nothing is left in flight\<close>

definition epoch_clock :: "'w qenv \<Rightarrow> bool" where
  "epoch_clock env \<longleftrightarrow> (\<forall>q. failed_timestamp_min \<le> qe_now env q)"

lemma quarantine_returns: "\<exists>qs t. quarantine ts ps s = (Inr qs, t)"
proof (induction ps arbitrary: s)
  case (Cons p ps)
  let ?t = "s\<lparr>rs_world := (rs_world s)\<lparr>q_files := rename_file p (quarantine_path ts p) (q_files (rs_world s))\<rparr>\<rparr>"
  from Cons [of s] Cons [of ?t] show ?case
    by (auto simp: exists_now_def queue_get_def queue_modify_def bindM_def thenM_def)
qed simp

lemma settle_returns:
  assumes "epoch_clock env" and "snd target \<noteq> []"
  shows "\<exists>x t. settle_recovered env ts i target s = (Inr (Some x), t)"
proof -
  let ?err = "startup_recovery_reason @ '': '' @ startup_recovery_message"
  have "fst (write_failed_error_sidecar env target ?err (Some (recovery_detail i)) s) = Inr ()"
    by (rule failed_sidecar_roundtrip(1)) (use assms in \<open>simp_all add: epoch_clock_def startup_recovery_reason_def\<close>)
  then obtain s1 where one: "write_failed_error_sidecar env target ?err (Some (recovery_detail i)) s = (Inr (), s1)"
    by (metis prod.collapse)
  obtain qs s2 where two: "quarantine ts (if_states i) s1 = (Inr qs, s2)" using quarantine_returns by blast
  obtain qs' s3 where "quarantine ts [approval_path (job_stem (if_job i))] s2 = (Inr qs', s3)"
    using quarantine_returns by blast
  with one two show ?thesis by (simp add: settle_recovered_def thenM_def bindM_def del: quarantine.simps)
qed

lemma recover_job_outcome:
  assumes i: "well_detected i" and env: "stamp_fresh env" "epoch_clock env"
    and there: "exists_file (files s) (if_job i)"
  shows "\<exists>x t. recover_job env ts i s = (Inr (Some x), t) \<and> fewer_pending (files s) (files t)
    \<and> \<not> exists_file (files t) (if_job i)
    \<and> (\<forall>q. job_like q \<and> fst q = InBucket Pending \<and> q \<noteq> if_job i \<longrightarrow> file_at (files t) q = file_at (files s) q)"
proof -
  from there obtain f where f: "file_at (files s) (if_job i) = Some f" by (auto simp: exists_file_def)
  from recover_job_run [OF i env(1) f, of ts] obtain target s1
    where run: "recover_job env ts i s = settle_recovered env ts i target s1"
      and target: "fst target = InBucket Failed" "snd target \<noteq> []"
      and s1: "\<forall>q. job_like q \<longrightarrow> file_at (files s1) q =
        (if q = target then Some f else if q = if_job i then None else file_at (files s) q)"
      and fewer: "fewer_pending (files s) (files s1)" by metis
  obtain x t where t: "settle_recovered env ts i target s1 = (Inr (Some x), t)"
    using settle_returns [OF env(2) target(2)] by blast
  with effectD [OF aside_settle [OF i target(1), of env ts], of s1] have "aside s1 t" by simp
  moreover have "job_like (if_job i)" "fst (if_job i) = InBucket Pending"
    using i by (auto simp: well_detected_def job_like_def)
  moreover have "file_at (files t) q = file_at (files s1) q" if "job_like q" for q
    using that \<open>aside s1 t\<close> unfolding aside_def by blast
  moreover have "q \<noteq> target" if "fst q = InBucket Pending" for q using that target(1) by auto
  ultimately have t_at: "file_at (files t) (if_job i) = None" "fewer_pending (files s1) (files t)"
      "job_like q \<and> fst q = InBucket Pending \<and> q \<noteq> if_job i \<Longrightarrow> file_at (files t) q = file_at (files s) q" for q
    using s1 [rule_format, of "if_job i"] s1 [rule_format, of q] by (simp_all add: aside_def)
  from run t have "recover_job env ts i s = (Inr (Some x), t)" by simp
  with t_at fewer_trans [OF fewer] show ?thesis unfolding exists_file_def by blast
qed

lemma recover_jobs_outcome:
  assumes "\<forall>i \<in> set is. well_detected i \<and> exists_file (files s) (if_job i)" and "distinct (map if_job is)"
    and env: "stamp_fresh env" "epoch_clock env"
  shows "\<exists>rs t. recover_jobs env ts is s = (Inr rs, t) \<and> length rs = length is \<and> fewer_pending (files s) (files t)
    \<and> (\<forall>i \<in> set is. \<not> exists_file (files t) (if_job i))"
  using assms(1,2)
proof (induction "is" arbitrary: s)
  case Nil
  then show ?case by (simp add: fewer_pending_def)
next
  case (Cons i "is")
  then have i: "well_detected i" "exists_file (files s) (if_job i)" by simp_all
  obtain x t where t: "recover_job env ts i s = (Inr (Some x), t)" "fewer_pending (files s) (files t)"
      "\<not> exists_file (files t) (if_job i)"
      "\<forall>q. job_like q \<and> fst q = InBucket Pending \<and> q \<noteq> if_job i \<longrightarrow> file_at (files t) q = file_at (files s) q"
    using recover_job_outcome [OF i(1) env i(2), of ts] by blast
  have "\<forall>j \<in> set is. well_detected j \<and> exists_file (files t) (if_job j)"
  proof
    fix j assume j: "j \<in> set is"
    with Cons.prems have "well_detected j" "exists_file (files s) (if_job j)" "if_job j \<noteq> if_job i"
      by (simp_all, metis image_eqI)
    then show "well_detected j \<and> exists_file (files t) (if_job j)"
      using t(4) by (auto simp: well_detected_def job_like_def exists_file_def)
  qed
  with Cons.IH [of t] Cons.prems(2) obtain rs u where u: "recover_jobs env ts is t = (Inr rs, u)"
      "length rs = length is" "fewer_pending (files t) (files u)" "\<forall>i \<in> set is. \<not> exists_file (files u) (if_job i)"
    by auto
  have "\<not> exists_file (files u) (if_job i)"
    using i(1) t(3) u(3) by (auto simp: well_detected_def fewer_pending_def)
  then show ?case using t u fewer_trans [OF t(2) u(3)] by (simp add: bindM_def)
qed

lemma publish_returns:
  "\<exists>t. publish_recovery ts rs a b qs s = (Inr (recovery_report ts rs (recovery_counts (length rs) a b (length qs)) qs), t)"
  by (simp add: publish_recovery_def Let_def increment_health_by_def increment_health_counter_def health_def log_def
      queue_modify_def thenM_def bindM_def whenM_def)

lemma finish_returns:
  "\<exists>report t. finish_recovery env ts rs s = (Inr report, t) \<and>
     (\<exists>a b c qs. report = recovery_report ts rs (recovery_counts (length rs) a b c) qs)"
proof -
  let ?as = "collect_orphan_approval_files (files s)" and ?bs = "collect_orphan_state_files env (files s)"
  obtain qs t where q: "quarantine ts (?as @ ?bs) s = (Inr qs, t)" using quarantine_returns by blast
  obtain u where "publish_recovery ts rs (length ?as) (length ?bs) (concat (map rj_quarantined rs) @ qs) t =
    (Inr (recovery_report ts rs (recovery_counts (length rs) (length ?as) (length ?bs)
       (length (concat (map rj_quarantined rs) @ qs))) (concat (map rj_quarantined rs) @ qs)), u)"
    using publish_returns by blast
  with q show ?thesis by (auto simp: finish_recovery_def queue_get_def files_def bindM_run(2))
qed

lemma recovery_outcome:
  assumes flat: "\<forall>p. exists_file (files s) p \<longrightarrow> flat_name p" and env: "stamp_fresh env" "epoch_clock env"
  shows "\<exists>report t. recover_on_startup env now_ms s = (Inr report, t)
    \<and> get (the_dict (get report ''counts'')) ''jobs_failed'' = PInt (int (length (detected_inflight_pending_jobs env (files s))))
    \<and> detected_inflight_pending_jobs env (files t) = []"
proof -
  let ?is = "detected_inflight_pending_jobs env (files s)"
  let ?ts = "case now_ms of None \<Rightarrow> qe_now env (rs_world s) | Some n \<Rightarrow> n"
  have "\<forall>i \<in> set ?is. well_detected i \<and> exists_file (files s) (if_job i)"
    using detected_well [OF _ flat] detected_iff by blast
  from recover_jobs_outcome [OF this detected_distinct env, of ?ts] obtain rs t
    where t: "recover_jobs env ?ts ?is s = (Inr rs, t)" "length rs = length ?is" "fewer_pending (files s) (files t)"
      "\<forall>i \<in> set ?is. \<not> exists_file (files t) (if_job i)" by blast
  obtain report u a b c qs where u: "finish_recovery env ?ts rs t = (Inr report, u)"
      "report = recovery_report ?ts rs (recovery_counts (length rs) a b c) qs"
    using finish_returns by blast
  have run: "recover_on_startup env now_ms s = (Inr report, u)"
    unfolding recover_on_startup_eq Let_def using t(1) u(1) by (simp add: bindM_run(2))
  from effectD [OF aside_finish [of env ?ts rs], of t] u(1) have tu: "fewer_pending (files t) (files u)"
    by (simp add: aside_def)
  have "i \<notin> set (detected_inflight_pending_jobs env (files u))" for i
  proof
    assume "i \<in> set (detected_inflight_pending_jobs env (files u))"
    then have i: "fst (if_job i) = InBucket Pending" "exists_file (files u) (if_job i)"
        "is_primary_job_json env (if_job i)" "detected_states (files u) (if_job i) \<noteq> []"
      using inflight_of_Some by (auto simp: detected_iff)
    have pending: "exists_file (files s) p" if "exists_file (files u) p" "fst p = InBucket Pending" for p
      using that t(3) tu by (cases p) (simp add: fewer_pending_def)
    have "detected_states (files s) (if_job i) \<noteq> []"
      using i(4) pending [of "meta_path (job_stem (if_job i))"] pending [of "state_sidecar (job_stem (if_job i))"]
      by (auto simp: detected_states_def meta_path_def state_sidecar_def split: if_splits)
    then obtain i' where "inflight_of (files s) (if_job i) = Some i'" by (auto simp: inflight_of_def)
    with i pending [of "if_job i"] have "i' \<in> set ?is \<and> if_job i' = if_job i"
      using inflight_of_Some [of "files s" "if_job i" i'] by (simp add: detected_iff)
    with t(4) i(1,2) tu show False by (cases "if_job i") (auto simp: fewer_pending_def)
  qed
  then have "detected_inflight_pending_jobs env (files u) = []" by (meson last_in_set)
  with run u(2) t(2) show ?thesis by (simp add: recovery_report_def recovery_counts_def get_def)
qed

end
