(* ===== verification/Recovery_Theorems.thy ===== *)
theory Recovery_Theorems
  imports Recovery_Laws Samples
begin

text \<open>
  The properties of the startup recovery with their witnesses: a daemon that died with one job in flight
  and the name of that job already taken in failed, under a clock that is later than every stamp.
\<close>

section \<open>The outer world\<close>

lemma core_quarantine [core_frames]: "frame core (quarantine ts ps)"
proof (induction ps)
  case (Cons p ps)
  then show ?case unfolding quarantine.simps by (intro frame_intro core_frames core_modify) simp_all
qed (simp only: quarantine.simps frame_pure)

lemma core_recover_job [core_frames]: "frame core (recover_job env ts i)"
  unfolding recover_job_def settle_recovered_def
  by (intro frame_intro core_frames core_modify) simp_all

lemma core_recover_jobs [core_frames]: "frame core (recover_jobs env ts is)"
  by (induction "is") (simp_all only: recover_jobs.simps, (intro frame_intro core_frames; assumption)+)

lemma core_finish [core_frames]: "frame core (finish_recovery env ts rs)"
  unfolding finish_recovery_def publish_recovery_def increment_health_by_def Let_def
  by (intro frame_intro core_frames)

lemma core_recovery: "frame core (recover_on_startup env now_ms)"
  unfolding recover_on_startup_def by (intro frame_intro core_frames)

section \<open>A clock later than every stamp\<close>

definition name_lengths :: "files \<Rightarrow> nat" where
  "name_lengths fs = sum_list (map (\<lambda>f. length (snd (fst f))) fs)"

definition late_env :: "world qenv" where
  "late_env = sample_env\<lparr>qe_now := (\<lambda>q. 10 ^ (12 + name_lengths (q_files q)))\<rparr>"

lemma late_env_now: "qe_now late_env q = 10 ^ (12 + name_lengths (q_files q))"
  by (simp add: late_env_def)

lemma digits_of_length: "10 ^ k \<le> n \<Longrightarrow> k < length (digits_of n)"
proof (induction k arbitrary: n)
  case (Suc k)
  then have "10 ^ k \<le> n div 10" by simp
  with Suc.IH have "k < length (digits_of (n div 10))" by blast
  moreover have "10 \<le> n" using Suc.prems by (metis le_trans one_le_numeral power_Suc self_le_power zero_less_Suc)
  ultimately show ?case by (subst digits_of.simps) simp
qed simp

lemma exists_name_length: "exists_file fs (d, n) \<Longrightarrow> length n \<le> name_lengths fs"
proof -
  assume "exists_file fs (d, n)"
  then obtain f where "((d, n), f) \<in> set fs" by (auto simp: exists_file_def file_at_def dest: map_of_SomeD)
  then have "length n \<in> set (map (\<lambda>f. length (snd (fst f))) fs)" by force
  then show ?thesis unfolding name_lengths_def by (simp add: member_le_sum_list)
qed

lemma late_env_fresh: "stamp_fresh late_env"
  unfolding stamp_fresh_def
proof (intro allI notI)
  fix q :: "world queue" and b name
  let ?k = "12 + name_lengths (q_files q)"
  assume "exists_file (q_files q) (InBucket b, stamped name (qe_now late_env q))"
  then have "length (stamped name (10 ^ ?k)) \<le> name_lengths (q_files q)"
    using exists_name_length by (simp add: late_env_now)
  moreover have "?k < length (digits_of (10 ^ ?k))" by (rule digits_of_length) simp
  moreover have "int_str (10 ^ ?k) = digits_of (10 ^ ?k)" by (simp add: int_str_def nat_power_eq)
  ultimately show False by (simp add: stamped_def)
qed

lemma late_env_epoch: "epoch_clock late_env"
  unfolding epoch_clock_def late_env_now failed_timestamp_min_def
proof
  fix q :: "world queue"
  have "(10::int) ^ 12 \<le> 10 ^ (12 + name_lengths (q_files q))" by (rule power_increasing) simp_all
  then show "1000000000000 \<le> (10::int) ^ (12 + name_lengths (q_files q))" by simp
qed

definition crashed :: "world daemon" where
  "crashed = sample_state [((InBucket Pending, ''a.json''), json_file []),
     ((InBucket Pending, ''a.state.json''), json_file []), ((InBucket Failed, ''a.json''), json_file [])]"

lemma crashed_flat: "exists_file (files crashed) p \<Longrightarrow> flat_name p"
proof -
  assume "exists_file (files crashed) p"
  then have "snd p = ''a.json'' \<or> snd p = ''a.state.json''"
    by (auto simp: crashed_def sample_state_def files_def exists_file_def file_at_def split: if_splits)
  moreover have "path_name ''a.json'' = ''a.json''" "path_name ''a.state.json'' = ''a.state.json''" by code_simp+
  ultimately show ?thesis by (auto simp: flat_name_def)
qed

section \<open>Properties\<close>

text \<open>C21 The startup recovery loses no job: every job file of the queue is there afterwards with its content and
  time, at its own path or, when it was pending, at a path in failed, and no two jobs end at one path. It
  holds however the recovery ends.\<close>

theorem recovery_keeps_jobs:
  assumes "stamp_fresh env" and "\<forall>p. exists_file (files s) p \<longrightarrow> flat_name p"
  shows "jobs_survive (files s) (files (snd (recover_on_startup env now_ms s)))"
  using recovery_survive [OF assms] by (simp add: surviving_def)

theorem recovery_keeps_jobs_witness:
  "jobs_survive (files crashed) (files (snd (recover_on_startup late_env None crashed)))"
  by (rule recovery_keeps_jobs) (use late_env_fresh crashed_flat in auto)

text \<open>C22 The startup recovery returns, and then nothing is in flight any more: no pending job has a sidecar of an
  interrupted run. Its report counts every job that was in flight, and the outer world, the approvals and
  the current job are as they were.\<close>

theorem recovery_clears_inflight:
  assumes "stamp_fresh env" and "epoch_clock env" and "\<forall>p. exists_file (files s) p \<longrightarrow> flat_name p"
  shows "\<exists>report t. recover_on_startup env now_ms s = (Inr report, t)
    \<and> get (the_dict (get report ''counts'')) ''jobs_failed'' = PInt (int (length (detected_inflight_pending_jobs env (files s))))
    \<and> detected_inflight_pending_jobs env (files t) = [] \<and> core t = core s"
  using recovery_outcome [OF assms(3,1,2), of now_ms] frameD [OF core_recovery [of env now_ms], of s] by auto

theorem recovery_clears_inflight_witness:
  "\<exists>report t. recover_on_startup late_env None crashed = (Inr report, t)
    \<and> get (the_dict (get report ''counts'')) ''jobs_failed'' = PInt 1
    \<and> detected_inflight_pending_jobs late_env (files t) = [] \<and> core t = core crashed"
proof -
  have "length (detected_inflight_pending_jobs late_env (files crashed)) = 1" by code_simp
  with recovery_clears_inflight [of late_env crashed None] late_env_fresh late_env_epoch crashed_flat
  show ?thesis by simp
qed

end
