(* ===== verification/Health_Snapshot.thy ===== *)
theory Health_Snapshot
  imports Step_Monad Json_Text
begin

text \<open>
  The health snapshot (\<open>voxera/health.py\<close>): one JSON file shared by the daemon and the panel, normalised
  on every read and write. The state of a program here is the parsed file, \<open>None\<close> when it is missing or
  not JSON. Conversion of a number to a float, the two environment variables of the back-off and the
  clock are parameters; the time is an argument, in seconds as a float value or in milliseconds.
\<close>

section \<open>Numbers\<close>

record health_env =
  he_float :: "py \<Rightarrow> py result"
  he_backoff_base :: "string option"
  he_backoff_max :: "string option"

definition safe_int :: "py \<Rightarrow> int \<Rightarrow> int result" where
  "safe_int v dflt = (case py_int v of
     Inr n \<Rightarrow> Inr n
   | Inl e \<Rightarrow> if class_of e \<in> {TypeError, ValueError} then Inr dflt else Inl e)"

definition read_env_int :: "string option \<Rightarrow> int \<Rightarrow> int result" where
  "read_env_int v dflt = safe_int (popt v) dflt"

definition backoff_tier :: "int \<Rightarrow> int \<Rightarrow> int" where
  "backoff_tier failures base =
     (if failures \<ge> 10 then 15 * base else if failures \<ge> 5 then 4 * base else if failures \<ge> 3 then base else 0)"

definition compute_brain_backoff_s :: "health_env \<Rightarrow> py \<Rightarrow> int result" where
  "compute_brain_backoff_s env v =
     bindR (safe_int v 0) (\<lambda>n.
     bindR (read_env_int (he_backoff_base env) 2) (\<lambda>base.
     bindR (read_env_int (he_backoff_max env) 60) (\<lambda>mx.
       Inr (min (max (backoff_tier (max n 0) (max base 0)) 0) (max mx 0)))))"

section \<open>Normalisation\<close>

text \<open>\<open>_safe_int(x or 0, 0)\<close> cut at zero; \<open>_safe_int(x, 0) or None\<close>; a float or None; text or None\<close>

definition count_field :: "py \<Rightarrow> py result" where
  "count_field v = bindR (safe_int (por v (PInt 0)) 0) (\<lambda>n. Inr (PInt (max n 0)))"

definition stamp_field :: "py \<Rightarrow> py result" where
  "stamp_field v = bindR (safe_int v 0) (\<lambda>n. Inr (if n = 0 then PNone else PInt n))"

definition float_field :: "health_env \<Rightarrow> py \<Rightarrow> py result" where
  "float_field env v = (case v of
     PInt _ \<Rightarrow> he_float env v | PBool _ \<Rightarrow> he_float env v | PFloat _ \<Rightarrow> he_float env v | _ \<Rightarrow> Inr PNone)"

definition str_field :: "py \<Rightarrow> py result" where
  "str_field v = Inr (if truthy v then PStr (py_str v) else PNone)"

definition text_or_none :: "string \<Rightarrow> py" where
  "text_or_none s = (if s = [] then PNone else PStr s)"

definition text_field :: "py \<Rightarrow> py result" where
  "text_field v = Inr (text_or_none (strip (str_or_empty v)))"

definition lock_field :: "py \<Rightarrow> py result" where
  "lock_field v = Inr (text_or_none (lower (strip (str_or_empty v))))"

definition state_field :: "py \<Rightarrow> py result" where
  "state_field v = (let s = lower (py_str (por v (PStr ''healthy''))) in
     Inr (PStr (if s \<in> {''healthy'', ''degraded''} then s else ''healthy'')))"

definition shutdown_outcomes :: "string list" where
  "shutdown_outcomes = [''clean'', ''failed_shutdown'', ''startup_recovered'']"

definition outcome_field :: "py \<Rightarrow> py result" where
  "outcome_field v = bindR (in_str_set v shutdown_outcomes) (\<lambda>known. Inr (if known then v else PNone))"

definition dict_field :: "py \<Rightarrow> py result" where
  "dict_field v = Inr (if is_dict v then v else PDict [])"

text \<open>The three fields about the planner come first: two of them depend on the first.\<close>

definition normalize_brain :: "health_env \<Rightarrow> dict \<Rightarrow> dict result" where
  "normalize_brain env d =
     bindR (count_field (get d ''consecutive_brain_failures'')) (\<lambda>c.
     bindR (compute_brain_backoff_s env c) (\<lambda>w.
       Inr (dput (dput (dput d ''consecutive_brain_failures'' c) ''brain_backoff_wait_s'' (PInt w))
         ''brain_backoff_active'' (PBool (w > 0)))))"

text \<open>Every other field is normalised by itself, in this order.\<close>

definition health_fields :: "health_env \<Rightarrow> (string \<times> (py \<Rightarrow> py result)) list" where
  "health_fields env = [
     (''daemon_state'', state_field), (''degraded_since_ts'', float_field env), (''degraded_reason'', str_field),
     (''brain_backoff_last_applied_s'', count_field), (''brain_backoff_last_applied_ts'', float_field env),
     (''last_shutdown_outcome'', outcome_field), (''last_shutdown_ts'', float_field env),
     (''last_shutdown_reason'', str_field), (''last_shutdown_job'', str_field),
     (''daemon_started_at_ms'', stamp_field), (''daemon_pid'', stamp_field), (''updated_at_ms'', stamp_field),
     (''lock_state'', lock_field), (''last_error'', text_field), (''last_error_ts_ms'', stamp_field),
     (''last_ok_event'', text_field), (''last_ok_ts_ms'', stamp_field), (''last_fallback_reason'', text_field),
     (''last_fallback_from'', text_field), (''last_fallback_to'', text_field), (''last_fallback_ts_ms'', stamp_field),
     (''counters'', dict_field), (''panel_auth'', dict_field)]"

fun run_fields :: "(string \<times> (py \<Rightarrow> py result)) list \<Rightarrow> dict \<Rightarrow> dict result" where
  "run_fields [] d = Inr d"
| "run_fields ((k, f) # fs) d = bindR (f (get d k)) (\<lambda>v. run_fields fs (dput d k v))"

definition normalize_health :: "health_env \<Rightarrow> dict \<Rightarrow> dict result" where
  "normalize_health env d = bindR (normalize_brain env d) (run_fields (health_fields env))"

section \<open>The file\<close>

type_synonym 'a health_op = "('a, py option) prog"

definition file_dict :: "py option \<Rightarrow> dict" where
  "file_dict f = (case f of Some (PDict d) \<Rightarrow> d | _ \<Rightarrow> [])"

definition read_health :: "health_env \<Rightarrow> dict health_op" where
  "read_health env = bindM (getM (\<lambda>f. f)) (\<lambda>f. liftR (normalize_health env (file_dict f)))"

definition write_health :: "health_env \<Rightarrow> dict \<Rightarrow> unit health_op" where
  "write_health env d = bindM (liftR (normalize_health env d)) (\<lambda>n. modifyM (\<lambda>_. Some (sort_keys (PDict n))))"

definition update_health :: "health_env \<Rightarrow> (dict \<Rightarrow> dict result) \<Rightarrow> dict health_op" where
  "update_health env upd =
     bindM (read_health env) (\<lambda>current.
     bindM (liftR (upd current)) (\<lambda>updated.
     bindM (liftR (normalize_health env updated)) (\<lambda>final.
     thenM (write_health env final) (retM final))))"

section \<open>Degradation\<close>

definition degraded_threshold :: int where
  "degraded_threshold = 3"

definition update_degradation_state :: "health_env \<Rightarrow> py \<Rightarrow> bool \<Rightarrow> bool \<Rightarrow> dict \<Rightarrow> dict result" where
  "update_degradation_state env now_s fallback_event mission_success state =
     bindR (normalize_health env state) (\<lambda>d.
     if mission_success then
       Inr (dput (dput (dput (dput d ''consecutive_brain_failures'' (PInt 0)) ''daemon_state'' (PStr ''healthy''))
         ''degraded_since_ts'' PNone) ''degraded_reason'' PNone)
     else if \<not> fallback_event then Inr d
     else bindR (int_or_zero (get d ''consecutive_brain_failures'')) (\<lambda>n.
       let e = dput d ''consecutive_brain_failures'' (PInt (n + 1)) in
       if n + 1 \<ge> degraded_threshold then
         bindR (if get e ''daemon_state'' \<noteq> PStr ''degraded'' then
                  bindR (he_float env now_s) (\<lambda>t. Inr (dput e ''degraded_since_ts'' t)) else Inr e) (\<lambda>f.
           Inr (dput (dput f ''daemon_state'' (PStr ''degraded'')) ''degraded_reason'' (PStr ''brain_fallbacks'')))
       else Inr e))"

definition stamp_update :: "int \<Rightarrow> dict \<Rightarrow> dict" where
  "stamp_update now_ms d = dput d ''updated_at_ms'' (PInt now_ms)"

definition record_brain_fallback_attempt :: "health_env \<Rightarrow> py \<Rightarrow> int \<Rightarrow> dict health_op" where
  "record_brain_fallback_attempt env now_s now_ms = update_health env (\<lambda>d.
     bindR (update_degradation_state env now_s True False d) (\<lambda>e. Inr (stamp_update now_ms e)))"

definition record_mission_success :: "health_env \<Rightarrow> py \<Rightarrow> int \<Rightarrow> dict health_op" where
  "record_mission_success env now_s now_ms = update_health env (\<lambda>d.
     bindR (update_degradation_state env now_s False True d) (\<lambda>e. Inr (stamp_update now_ms e)))"

definition record_brain_backoff_applied :: "health_env \<Rightarrow> py \<Rightarrow> py \<Rightarrow> dict health_op" where
  "record_brain_backoff_applied env wait_s now_ts = update_health env (\<lambda>d.
     bindR (safe_int wait_s 0) (\<lambda>w. bindR (he_float env now_ts) (\<lambda>t.
       Inr (dput (dput d ''brain_backoff_last_applied_s'' (PInt (max w 0))) ''brain_backoff_last_applied_ts'' t))))"

section \<open>Shutdown, errors, counters\<close>

definition squeeze :: "string \<Rightarrow> string" where
  "squeeze s = join '' '' (words s)"

definition last_shutdown_reason_max_len :: nat where
  "last_shutdown_reason_max_len = 240"

text \<open>The cut marks with one character that is not Latin-1 (U+2026); it stands here as the argument.\<close>

definition compact_reason :: "char \<Rightarrow> string option \<Rightarrow> py" where
  "compact_reason ellipsis reason = (case reason of
     None \<Rightarrow> PNone
   | Some r \<Rightarrow> (let c = strip (squeeze r) in
       if c = [] then PNone
       else if length c \<le> last_shutdown_reason_max_len then PStr c
       else PStr (take (last_shutdown_reason_max_len - 1) c @ [ellipsis])))"

definition record_last_shutdown ::
  "health_env \<Rightarrow> char \<Rightarrow> py \<Rightarrow> string \<Rightarrow> string option \<Rightarrow> string option \<Rightarrow> dict health_op" where
  "record_last_shutdown env ellipsis now_s outcome reason job =
     (let o' = (if outcome \<in> set shutdown_outcomes then outcome else ''failed_shutdown'') in
      update_health env (\<lambda>d. bindR (he_float env now_s) (\<lambda>t.
        Inr (dput (dput (dput (dput d ''last_shutdown_outcome'' (PStr o')) ''last_shutdown_ts'' t)
          ''last_shutdown_reason'' (compact_reason ellipsis reason))
          ''last_shutdown_job'' (case job of Some j \<Rightarrow> text_or_none j | None \<Rightarrow> PNone)))))"

definition bump :: "dict \<Rightarrow> string \<Rightarrow> int \<Rightarrow> dict result" where
  "bump counters key amount =
     bindR (int_or_zero (get_or counters key (PInt 0))) (\<lambda>n. Inr (dput counters key (PInt (n + amount))))"

definition increment_health_counter_file ::
  "health_env \<Rightarrow> int \<Rightarrow> string \<Rightarrow> int \<Rightarrow> string option \<Rightarrow> dict health_op" where
  "increment_health_counter_file env now_ms key amount last_error = update_health env (\<lambda>d.
     bindR (bump (the_dict (get d ''counters'')) key amount) (\<lambda>c.
     let e = stamp_update now_ms (dput d ''counters'' (PDict c)) in
     Inr (if last_error \<noteq> None \<and> last_error \<noteq> Some []
          then dput (dput e ''last_error'' (popt last_error)) ''last_error_ts_ms'' (PInt now_ms) else e)))"

definition record_health_ok :: "health_env \<Rightarrow> int \<Rightarrow> string \<Rightarrow> dict health_op" where
  "record_health_ok env now_ms event_name = update_health env (\<lambda>d.
     Inr (stamp_update now_ms (dput (dput d ''last_ok_event''
       (PStr (if event_name = [] then ''ok'' else strip event_name))) ''last_ok_ts_ms'' (PInt now_ms))))"

definition record_health_error :: "health_env \<Rightarrow> int \<Rightarrow> string \<Rightarrow> dict health_op" where
  "record_health_error env now_ms msg = update_health env (\<lambda>d.
     Inr (stamp_update now_ms (dput (dput d ''last_error''
       (PStr (if msg = [] then ''error'' else squeeze msg))) ''last_error_ts_ms'' (PInt now_ms))))"

definition record_fallback_transition ::
  "health_env \<Rightarrow> int \<Rightarrow> string \<Rightarrow> string \<Rightarrow> string \<Rightarrow> dict health_op" where
  "record_fallback_transition env now_ms from_tier to_tier reason = update_health env (\<lambda>d.
     bindR (bump (the_dict (get d ''counters'')) ''brain_fallback_count'' 1) (\<lambda>c1.
     bindR (bump c1 (''brain_fallback_reason_'' @ lower reason) 1) (\<lambda>c2.
     Inr (stamp_update now_ms (dput (dput (dput (dput (dput d ''counters'' (PDict c2))
       ''last_fallback_reason'' (PStr reason)) ''last_fallback_from'' (PStr from_tier))
       ''last_fallback_to'' (PStr to_tier)) ''last_fallback_ts_ms'' (PInt now_ms))))))"

text \<open>\<open>_update_daemon_health_state(**values)\<close> of the daemon\<close>

definition update_daemon_health_state :: "health_env \<Rightarrow> int \<Rightarrow> dict \<Rightarrow> dict health_op" where
  "update_daemon_health_state env now_ms values = update_health env (\<lambda>d. Inr (stamp_update now_ms (dmerge d values)))"

end
