(* ===== verification/Health_Laws.thy ===== *)
theory Health_Laws
  imports Health_Snapshot Arg_Normalizer
begin

text \<open>
  Laws of the health snapshot: the normal form is a fixed point, a written snapshot is read back unchanged
  but for the order of its keys, an update changes the fields it names, and the degraded state is that of
  the failures since the last success.
\<close>

section \<open>Fields\<close>

lemma dput_get: "has_key d k \<Longrightarrow> dput d k (get d k) = d"
proof (induction d)
  case (Cons kv d)
  then show ?case by (cases kv) (auto simp: dput_def)
qed simp

lemma run_fields_other:
  "run_fields fs d = Inr d' \<Longrightarrow> k \<notin> fst ` set fs \<Longrightarrow> get d' k = get d k \<and> has_key d' k = has_key d k"
  by (induction fs d rule: run_fields.induct) (auto simp: result_iff)

lemma run_fields_get:
  "run_fields fs d = Inr d' \<Longrightarrow> distinct (map fst fs) \<Longrightarrow> (k, f) \<in> set fs \<Longrightarrow>
   f (get d k) = Inr (get d' k) \<and> has_key d' k"
proof (induction fs d rule: run_fields.induct)
  case (2 k' f' fs d)
  then obtain v where v: "f' (get d k') = Inr v" "run_fields fs (dput d k' v) = Inr d'" by (auto simp: result_iff)
  show ?case
  proof (cases "(k, f) = (k', f')")
    case True
    with 2 run_fields_other [OF v(2), of k'] v(1) show ?thesis by auto
  next
    case False
    with 2 have "(k, f) \<in> set fs" "k \<noteq> k'" by force+
    with 2(1) [OF v(1) v(2)] 2(3) show ?thesis by simp
  qed
qed simp

lemma run_fields_wf: "run_fields fs d = Inr d' \<Longrightarrow> wf_dict d \<Longrightarrow> wf_dict d'"
  by (induction fs d rule: run_fields.induct) (auto simp: result_iff)

lemma run_fields_fixed:
  "(\<And>k f. (k, f) \<in> set fs \<Longrightarrow> has_key d k \<and> f (get d k) = Inr (get d k)) \<Longrightarrow> run_fields fs d = Inr d"
proof (induction fs)
  case (Cons kf fs)
  obtain k f where kf: "kf = (k, f)" by (cases kf)
  with Cons.prems [of k f] have "has_key d k" "f (get d k) = Inr (get d k)" by simp_all
  with dput_get [of d k] have "dput d k (get d k) = d" by simp
  moreover have "run_fields fs d = Inr d" by (rule Cons.IH) (rule Cons.prems, simp)
  ultimately show ?case using kf \<open>f (get d k) = Inr (get d k)\<close> by simp
qed simp

text \<open>\<open>float()\<close> gives a float, and a float unchanged.\<close>

definition float_ok :: "health_env \<Rightarrow> bool" where
  "float_ok env \<longleftrightarrow> (\<forall>v w. he_float env v = Inr w \<longrightarrow> (\<exists>x. w = PFloat x)) \<and> (\<forall>x. he_float env (PFloat x) = Inr (PFloat x))"

definition float_text :: "py \<Rightarrow> bool" where
  "float_text v \<longleftrightarrow> (\<forall>r. v \<noteq> PFloat (Finite r []))"

definition settled_value :: "(py \<Rightarrow> py result) \<Rightarrow> bool" where
  "settled_value f \<longleftrightarrow> (\<forall>v w. float_text v \<longrightarrow> f v = Inr w \<longrightarrow> f w = Inr w \<and> f (sort_keys w) = Inr (sort_keys w))"

lemma safe_int_PInt [simp]: "safe_int (PInt n) z = Inr n" "safe_int PNone z = Inr z"
  by (simp_all add: safe_int_def raise_type_def)

lemma count_field_PInt [simp]: "count_field (PInt n) = Inr (PInt (max n 0))"
  by (simp add: count_field_def por_def)

lemma stamp_field_PInt [simp]: "stamp_field (PInt n) = Inr (if n = 0 then PNone else PInt n)" "stamp_field PNone = Inr PNone"
  by (simp_all add: stamp_field_def)

lemma settled_numbers: "settled_value count_field" "settled_value stamp_field"
proof -
  have "count_field v = Inr w \<Longrightarrow> \<exists>n. w = PInt (max n 0)" for v w
    by (auto simp: count_field_def result_iff)
  then show "settled_value count_field" unfolding settled_value_def by fastforce
  have "stamp_field v = Inr w \<Longrightarrow> w = PNone \<or> (\<exists>n. n \<noteq> 0 \<and> w = PInt n)" for v w
    by (auto simp: stamp_field_def result_iff split: if_splits)
  then show "settled_value stamp_field" unfolding settled_value_def by fastforce
qed

lemma py_str_truthy: "truthy v \<Longrightarrow> float_text v \<Longrightarrow> py_str v \<noteq> []"
proof (cases v)
  case (PFloat x)
  assume "truthy v" "float_text v"
  with PFloat show ?thesis by (cases x) (auto simp: float_text_def)
qed (auto simp: int_str_def)

lemma text_value: "text_or_none s = PNone \<or> (s \<noteq> [] \<and> text_or_none s = PStr s)"
  by (simp add: text_or_none_def)

lemma settled_texts: "settled_value str_field" "settled_value text_field" "settled_value lock_field"
proof -
  show "settled_value str_field"
    using py_str_truthy by (auto simp: settled_value_def str_field_def)
  have tf: "text_field PNone = Inr PNone" "text_field (PStr s) = Inr (text_or_none (strip s))" for s
    by (simp_all add: text_field_def text_or_none_def)
  show "settled_value text_field"
    unfolding settled_value_def
  proof (intro allI impI)
    fix v w assume "text_field v = Inr w"
    then have "w = text_or_none (strip (str_or_empty v))" by (simp add: text_field_def)
    then show "text_field w = Inr w \<and> text_field (sort_keys w) = Inr (sort_keys w)"
      using tf text_value [of "strip (str_or_empty v)"] by auto
  qed
  have lock: "lock_field PNone = Inr PNone" "lock_field (PStr s) = Inr (text_or_none (lower (strip s)))" for s
    by (simp_all add: lock_field_def text_or_none_def lower_def)
  show "settled_value lock_field"
    unfolding settled_value_def
  proof (intro allI impI)
    fix v w assume "lock_field v = Inr w"
    then have "w = text_or_none (lower (strip (str_or_empty v)))" by (simp add: lock_field_def)
    then show "lock_field w = Inr w \<and> lock_field (sort_keys w) = Inr (sort_keys w)"
      using lock text_value [of "lower (strip (str_or_empty v))"] by (auto simp: strip_lower)
  qed
qed

lemma settled_state: "settled_value state_field"
proof -
  have "state_field (PStr ''healthy'') = Inr (PStr ''healthy'')" "state_field (PStr ''degraded'') = Inr (PStr ''degraded'')"
    by code_simp+
  moreover have "state_field v = Inr w \<Longrightarrow> w = PStr ''healthy'' \<or> w = PStr ''degraded''" for v w
    by (auto simp: state_field_def Let_def split: if_splits)
  ultimately show ?thesis unfolding settled_value_def by fastforce
qed

lemma settled_outcome: "settled_value outcome_field"
proof -
  have "outcome_field v = Inr w \<Longrightarrow> w = PNone \<or> (\<exists>s \<in> set shutdown_outcomes. w = PStr s)" for v w
    by (cases v) (auto simp: outcome_field_def in_str_set_def hashable_def result_iff split: if_splits)
  moreover have "outcome_field PNone = Inr PNone" "s \<in> set shutdown_outcomes \<Longrightarrow> outcome_field (PStr s) = Inr (PStr s)" for s
    by (simp_all add: outcome_field_def in_str_set_def hashable_def)
  ultimately show ?thesis unfolding settled_value_def by fastforce
qed

lemma settled_dict: "settled_value dict_field"
  by (auto simp: settled_value_def dict_field_def sorted_dict_def is_dict_iff split: if_splits)

lemma settled_float:
  assumes "float_ok env"
  shows "settled_value (float_field env)"
proof -
  have "float_field env v = Inr w \<Longrightarrow> w = PNone \<or> (\<exists>x. w = PFloat x)" for v w
    using assms by (auto simp: float_field_def float_ok_def split: py.splits)
  moreover have "float_field env PNone = Inr PNone" "float_field env (PFloat x) = Inr (PFloat x)" for x
    using assms by (auto simp: float_field_def float_ok_def)
  ultimately show ?thesis unfolding settled_value_def by fastforce
qed

lemma settled_fields: "float_ok env \<Longrightarrow> (k, f) \<in> set (health_fields env) \<Longrightarrow> settled_value f"
  using settled_numbers settled_texts settled_state settled_outcome settled_dict settled_float [of env]
  by (auto simp: health_fields_def)

lemma health_fields_distinct: "distinct (map fst (health_fields env))"
  by (simp add: health_fields_def)


section \<open>The normal form\<close>

text \<open>A snapshot in normal form but for the three fields of the planner, and these for \<open>n\<close> failures\<close>

definition settled :: "health_env \<Rightarrow> dict \<Rightarrow> bool" where
  "settled env d \<longleftrightarrow> (\<forall>(k, f) \<in> set (health_fields env). has_key d k \<and> f (get d k) = Inr (get d k))"

definition backoff :: "health_env \<Rightarrow> int \<Rightarrow> int" where
  "backoff env n = (case compute_brain_backoff_s env (PInt n) of Inr w \<Rightarrow> w | Inl _ \<Rightarrow> 0)"

definition refreshed :: "health_env \<Rightarrow> int \<Rightarrow> dict \<Rightarrow> dict" where
  "refreshed env n d = dput (dput (dput d ''consecutive_brain_failures'' (PInt n)) ''brain_backoff_wait_s''
     (PInt (backoff env n))) ''brain_backoff_active'' (PBool (backoff env n > 0))"

lemma read_env_ok: "\<exists>n. read_env_int v z = Inr n"
proof (cases v)
  case (Some s)
  then show ?thesis by (cases "read_int s") (simp_all add: read_env_int_def safe_int_def raise_value_def)
qed (simp add: read_env_int_def)

lemma compute_backoff: "compute_brain_backoff_s env (PInt n) = Inr (backoff env n)"
proof -
  obtain b m where "read_env_int (he_backoff_base env) 2 = Inr b" "read_env_int (he_backoff_max env) 60 = Inr m"
    using read_env_ok by metis
  then show ?thesis by (simp add: backoff_def compute_brain_backoff_s_def)
qed

lemma normalize_brain_eq:
  "normalize_brain env d = bindR (count_field (get d ''consecutive_brain_failures'')) (\<lambda>c. Inr (refreshed env (case c of PInt n \<Rightarrow> n | _ \<Rightarrow> 0) d))"
proof (cases "count_field (get d ''consecutive_brain_failures'')")
  case (Inr c)
  then obtain n where "c = PInt n" by (auto simp: count_field_def result_iff)
  with Inr show ?thesis by (simp add: normalize_brain_def compute_backoff refreshed_def)
qed (simp add: normalize_brain_def)

lemma refreshed_get:
  "get (refreshed env n d) k = (if k = ''consecutive_brain_failures'' then PInt n
     else if k = ''brain_backoff_wait_s'' then PInt (backoff env n)
     else if k = ''brain_backoff_active'' then PBool (backoff env n > 0) else get d k)"
  by (auto simp: refreshed_def)

lemma refreshed_wf: "wf_dict d \<Longrightarrow> wf_dict (refreshed env n d)"
  by (simp add: refreshed_def)

lemma settled_other: "settled env d \<Longrightarrow> k \<notin> fst ` set (health_fields env) \<Longrightarrow> settled env (dput d k v)"
  unfolding settled_def by (force simp: image_iff)

lemma settled_own:
  assumes "settled env d" and "(k, f) \<in> set (health_fields env)" and "f v = Inr v"
  shows "settled env (dput d k v)"
  unfolding settled_def
proof (clarify, rule conjI)
  fix k' f' assume f': "(k', f') \<in> set (health_fields env)"
  show "has_key (dput d k v) k'" using assms(1) f' by (auto simp: settled_def)
  show "f' (get (dput d k v) k') = Inr (get (dput d k v) k')"
  proof (cases "k' = k")
    case True
    with assms(2) f' health_fields_distinct [of env] have "f' = f" by (auto dest: eq_key_imp_eq_value)
    with True assms(3) show ?thesis by simp
  next
    case False
    with assms(1) f' show ?thesis by (auto simp: settled_def)
  qed
qed

lemma settled_refreshed: "settled env d \<Longrightarrow> settled env (refreshed env n d)"
  unfolding refreshed_def by (intro settled_other) (simp_all add: health_fields_def)

lemma normalize_settled:
  assumes "settled env d" and "get d ''consecutive_brain_failures'' = PInt n" and "0 \<le> n"
  shows "normalize_health env d = Inr (refreshed env n d)"
proof -
  have "settled env (refreshed env n d)" using assms(1) by (rule settled_refreshed)
  then have "run_fields (health_fields env) (refreshed env n d) = Inr (refreshed env n d)"
    by (intro run_fields_fixed) (auto simp: settled_def)
  then show ?thesis using assms(2,3) by (simp add: normalize_health_def normalize_brain_eq max_def)
qed

text \<open>The result of a normalisation: settled, with the planner's fields refreshed.\<close>

definition normal :: "health_env \<Rightarrow> dict \<Rightarrow> bool" where
  "normal env d \<longleftrightarrow> settled env d \<and> (\<exists>n \<ge> 0. get d ''consecutive_brain_failures'' = PInt n \<and> refreshed env n d = d)"

lemma refreshed_id:
  assumes "has_key d ''consecutive_brain_failures''" "has_key d ''brain_backoff_wait_s''" "has_key d ''brain_backoff_active''"
    and "get d ''consecutive_brain_failures'' = PInt n" "get d ''brain_backoff_wait_s'' = PInt (backoff env n)"
    and "get d ''brain_backoff_active'' = PBool (backoff env n > 0)"
  shows "refreshed env n d = d"
  using dput_get [OF assms(1)] dput_get [OF assms(2)] dput_get [OF assms(3)] assms(4,5,6)
  by (simp add: refreshed_def)

lemma normal_fixed: "normal env d \<Longrightarrow> normalize_health env d = Inr d"
  using normalize_settled by (fastforce simp: normal_def)

lemma refreshed_keys:
  "has_key (refreshed env n d) ''consecutive_brain_failures''" "has_key (refreshed env n d) ''brain_backoff_wait_s''"
  "has_key (refreshed env n d) ''brain_backoff_active''"
  by (simp_all add: refreshed_def)

lemma refreshed_normal: "settled env d \<Longrightarrow> 0 \<le> n \<Longrightarrow> normal env (refreshed env n d)"
  unfolding normal_def
  by (intro conjI settled_refreshed exI [of _ n] refreshed_id refreshed_keys) (simp_all add: refreshed_get)

text \<open>No top-level value is a float without text.\<close>

definition float_texts :: "dict \<Rightarrow> bool" where
  "float_texts d \<longleftrightarrow> (\<forall>k. float_text (get d k))"

lemma normalize_normal:
  assumes ok: "float_ok env" and texts: "float_texts d" and n: "normalize_health env d = Inr e"
  shows "normal env e"
proof -
  from n obtain c where c: "count_field (get d ''consecutive_brain_failures'') = Inr (PInt c)" "0 \<le> c"
    and run: "run_fields (health_fields env) (refreshed env c d) = Inr e"
    by (auto simp: normalize_health_def normalize_brain_eq count_field_def result_iff)
  have own: "has_key e k \<and> f (get e k) = Inr (get e k)" if f: "(k, f) \<in> set (health_fields env)" for k f
  proof -
    have "f (get (refreshed env c d) k) = Inr (get e k)" and key: "has_key e k"
      using run_fields_get [OF run health_fields_distinct f] by simp_all
    moreover have "float_text (get (refreshed env c d) k)"
      using texts by (simp add: refreshed_get float_texts_def float_text_def)
    ultimately show ?thesis using settled_fields [OF ok f] by (auto simp: settled_value_def)
  qed
  then have settled: "settled env e" by (auto simp: settled_def)
  have other: "get e k = get (refreshed env c d) k \<and> has_key e k = has_key (refreshed env c d) k"
    if "k \<notin> fst ` set (health_fields env)" for k
    using run_fields_other [OF run that] .
  have "refreshed env c e = e"
    by (rule refreshed_id) (simp_all add: other refreshed_keys refreshed_get health_fields_def)
  moreover have "get e ''consecutive_brain_failures'' = PInt c" by (simp add: other refreshed_get health_fields_def)
  ultimately show ?thesis using settled c(2) by (auto simp: normal_def)
qed

lemma normalize_wf: "normalize_health env d = Inr e \<Longrightarrow> wf_dict d \<Longrightarrow> wf_dict e"
  unfolding normalize_health_def normalize_brain_eq bindR_eq_Inr using run_fields_wf refreshed_wf by fast

text \<open>Only the order of the keys changes in the file.\<close>

lemma settled_sorted_value:
  assumes "float_ok env" "(k, f) \<in> set (health_fields env)" "f v = Inr v"
  shows "f (sort_keys v) = Inr (sort_keys v)"
proof (cases "float_text v")
  case True
  with settled_fields [OF assms(1,2)] assms(3) show ?thesis unfolding settled_value_def by blast
next
  case False
  with assms(3) show ?thesis by (auto simp: float_text_def)
qed

lemma normal_sorted:
  assumes ok: "float_ok env" and d: "normal env d" "wf_dict d"
  shows "normal env (sorted_dict d)"
proof -
  from d obtain n where n: "settled env d" "0 \<le> n" "get d ''consecutive_brain_failures'' = PInt n" "refreshed env n d = d"
    by (auto simp: normal_def)
  have "settled env (sorted_dict d)"
    using n(1) d(2) settled_sorted_value [OF ok] by (auto simp: settled_def get_sorted)
  moreover have "refreshed env n (sorted_dict d) = sorted_dict d"
  proof (rule refreshed_id)
    show "has_key (sorted_dict d) ''consecutive_brain_failures''" "has_key (sorted_dict d) ''brain_backoff_wait_s''"
      "has_key (sorted_dict d) ''brain_backoff_active''"
      using refreshed_keys [of env n d] n(4) d(2) by simp_all
    show "get (sorted_dict d) ''consecutive_brain_failures'' = PInt n"
      "get (sorted_dict d) ''brain_backoff_wait_s'' = PInt (backoff env n)"
      "get (sorted_dict d) ''brain_backoff_active'' = PBool (0 < backoff env n)"
      using n(3,4) refreshed_get [of env n d "''brain_backoff_wait_s''"] refreshed_get [of env n d "''brain_backoff_active''"] d(2)
      by (simp_all add: get_sorted)
  qed
  ultimately show ?thesis using n(2,3) d(2) by (auto simp: normal_def get_sorted)
qed

section \<open>Updates of the file\<close>

definition healthy_file :: "health_env \<Rightarrow> py option \<Rightarrow> bool" where
  "healthy_file env f \<longleftrightarrow> (\<exists>d. f = Some (PDict d) \<and> normal env d \<and> wf_dict d)"

lemma read_health_run: "read_health env f = (normalize_health env (file_dict f), f)"
  by (simp add: read_health_def)

lemma read_healthy: "healthy_file env f \<Longrightarrow> read_health env f = (Inr (file_dict f), f)"
  by (auto simp: read_health_run healthy_file_def file_dict_def normal_fixed)

lemma update_health_run:
  assumes "normalize_health env (file_dict f) = Inr c" and "upd c = Inr u" and "normalize_health env u = Inr n"
    and "normal env n"
  shows "update_health env upd f = (Inr n, Some (PDict (sorted_dict n)))"
  using assms(1,2,3) normal_fixed [OF assms(4)]
  by (simp add: update_health_def read_health_run write_health_def thenM_def bindM_def)

text \<open>From a settled dictionary with \<open>n\<close> failures\<close>

lemma update_health_settled:
  assumes "normalize_health env (file_dict f) = Inr c" and "upd c = Inr u"
    and "settled env u" "get u ''consecutive_brain_failures'' = PInt n" "0 \<le> n"
  shows "update_health env upd f = (Inr (refreshed env n u), Some (PDict (sorted_dict (refreshed env n u))))"
  by (rule update_health_run [of env f c upd u]) (use assms normalize_settled refreshed_normal in blast)+

lemma healthy_sorted: "float_ok env \<Longrightarrow> normal env d \<Longrightarrow> wf_dict d \<Longrightarrow> healthy_file env (Some (PDict (sorted_dict d)))"
  by (simp add: healthy_file_def normal_sorted)

text \<open>An empty file\<close>

lemma run_fields_ok:
  "distinct (map fst fs) \<Longrightarrow> (\<And>k f. (k, f) \<in> set fs \<Longrightarrow> \<exists>v. f (get d k) = Inr v) \<Longrightarrow> \<exists>e. run_fields fs d = Inr e"
proof (induction fs d rule: run_fields.induct)
  case (2 k f fs d)
  then obtain v where v: "f (get d k) = Inr v" by force
  have "\<exists>e. run_fields fs (dput d k v) = Inr e"
    by (rule 2(1) [OF v]) (use 2(2) in simp, use 2(2,3) in \<open>force simp: image_iff\<close>)
  with v show ?case by simp
qed simp

lemma normalize_empty:
  obtains d where "normalize_health env [] = Inr d" "wf_dict d" "get d ''consecutive_brain_failures'' = PInt 0"
    "get d ''daemon_state'' = PStr ''healthy''" "get d ''degraded_since_ts'' = PNone"
    "get d ''counters'' = PDict []" "get d ''panel_auth'' = PDict []"
proof -
  let ?r = "refreshed env 0 []"
  have fields: "f (get ?r k) = f PNone" if "(k, f) \<in> set (health_fields env)" for k f
    using that by (auto simp: health_fields_def refreshed_get)
  have none: "\<exists>v. f PNone = Inr v" if "(k, f) \<in> set (health_fields env)" for k f
    using that by (auto simp: health_fields_def state_field_def float_field_def str_field_def count_field_def por_def
        outcome_field_def in_str_set_def hashable_def lock_field_def text_field_def dict_field_def Let_def)
  obtain d where d: "run_fields (health_fields env) ?r = Inr d"
    using run_fields_ok [OF health_fields_distinct [of env], of ?r] fields none by metis
  have n: "normalize_health env [] = Inr d"
    using d by (simp add: normalize_health_def normalize_brain_eq count_field_def por_def)
  have own: "f PNone = Inr (get d k)" if "(k, f) \<in> set (health_fields env)" for k f
    using run_fields_get [OF d health_fields_distinct that] fields [OF that] by simp
  have "lower ''healthy'' = ''healthy''" by code_simp
  then have st: "state_field PNone = Inr (PStr ''healthy'')" by (simp add: state_field_def por_def)
  show thesis
  proof (rule that [OF n normalize_wf [OF n wf_dict_Nil]])
    show "get d ''consecutive_brain_failures'' = PInt 0"
      using run_fields_other [OF d, of "''consecutive_brain_failures''"] by (simp add: health_fields_def refreshed_get)
    show "get d ''daemon_state'' = PStr ''healthy''"
      using own [of "''daemon_state''" state_field] st by (simp add: health_fields_def)
    show "get d ''degraded_since_ts'' = PNone"
      using own [of "''degraded_since_ts''" "float_field env"] by (simp add: health_fields_def float_field_def)
    show "get d ''counters'' = PDict []" "get d ''panel_auth'' = PDict []"
      using own [of "''counters''" dict_field] own [of "''panel_auth''" dict_field]
      by (simp_all add: health_fields_def dict_field_def)
  qed
qed

section \<open>Counters\<close>

lemma text_field_fixed: "strip s = s \<Longrightarrow> s \<noteq> [] \<Longrightarrow> text_field (PStr s) = Inr (PStr s)"
  by (simp add: text_field_def text_or_none_def)

text \<open>The counters are integers.\<close>

definition counts :: "dict \<Rightarrow> bool" where
  "counts C \<longleftrightarrow> wf_dict C \<and> (\<forall>k. get C k = PNone \<or> (\<exists>n. get C k = PInt n))"

lemma counts_sorted: "counts C \<Longrightarrow> counts (sorted_dict C)"
  by (auto simp: counts_def get_sorted)

lemma bump_counts:
  assumes "counts C"
  obtains D where "bump C key amount = Inr D" "counts D"
proof -
  have "get_or C key (PInt 0) = PInt 0 \<or> get_or C key (PInt 0) = get C key"
    by (simp add: get_def get_or_def split: option.split)
  then obtain n where "int_or_zero (get_or C key (PInt 0)) = Inr n"
    using assms unfolding counts_def by (metis int_or_zero_PInt int_or_zero_PNone)
  with assms show thesis by (intro that [of "dput C key (PInt (n + amount))"]) (auto simp: bump_def counts_def)
qed

end
