(* ===== verification/Simulation.thy ===== *)
theory Simulation
  imports Main
begin

text \<open>
  The refinement of an abstract state machine by a concrete one, step by step: a relation that one step on
  each side keeps is kept by every run.
\<close>

locale simulation =
  fixes rel :: "'c \<Rightarrow> 'a \<Rightarrow> bool"
    and admissible :: "'e \<Rightarrow> bool"
    and cstep :: "'e \<Rightarrow> 'c \<Rightarrow> 'c"
    and astep :: "'e \<Rightarrow> 'a \<Rightarrow> 'a"
  assumes step: "rel c a \<Longrightarrow> admissible e \<Longrightarrow> rel (cstep e c) (astep e a)"
begin

lemma run: "rel c a \<Longrightarrow> list_all admissible es \<Longrightarrow> rel (fold cstep es c) (fold astep es a)"
  by (induction es arbitrary: c a) (simp_all add: step)

text \<open>What the abstract runs keep, the concrete ones have, read through the relation.\<close>

lemma transfer:
  assumes "\<And>a e. I a \<Longrightarrow> admissible e \<Longrightarrow> I (astep e a)" and "I a" and "rel c a" and "list_all admissible es"
  shows "\<exists>b. rel (fold cstep es c) b \<and> I b"
proof -
  have "list_all admissible es \<Longrightarrow> I (fold astep es a)"
    using assms(1,2) by (induction es arbitrary: a) simp_all
  with run [OF assms(3,4)] assms(4) show ?thesis by blast
qed

end

end
