(* ===== verification/Health_Degradation.thy ===== *)
theory Health_Degradation
  imports Health_Laws Simulation
begin

text \<open>
  The degraded state as a state machine: the failures since the last success and the time of the third of
  them. The recorded events on the health file refine it.
\<close>

section \<open>Events\<close>

text \<open>A planner that fell back, or a mission that succeeded, with the time in seconds and milliseconds\<close>

datatype brain_event = Fell py int | Succeeded py int

fun admissible_event :: "brain_event \<Rightarrow> bool" where
  "admissible_event (Fell t ms) = ((\<exists>x. t = PFloat x) \<and> ms \<noteq> 0)"
| "admissible_event (Succeeded t ms) = (ms \<noteq> 0)"

fun record_event :: "health_env \<Rightarrow> brain_event \<Rightarrow> dict health_op" where
  "record_event env (Fell t ms) = record_brain_fallback_attempt env t ms"
| "record_event env (Succeeded t ms) = record_mission_success env t ms"

definition file_after :: "health_env \<Rightarrow> brain_event \<Rightarrow> py option \<Rightarrow> py option" where
  "file_after env e f = snd (record_event env e f)"

section \<open>The abstract machine\<close>

fun degrade :: "brain_event \<Rightarrow> int \<times> py \<Rightarrow> int \<times> py" where
  "degrade (Fell t ms) (n, since) = (n + 1, if n + 1 = degraded_threshold then t else since)"
| "degrade (Succeeded t ms) s = (0, PNone)"

text \<open>The failures since the last success\<close>

fun fell :: "brain_event \<Rightarrow> bool" where
  "fell (Fell _ _) = True" | "fell (Succeeded _ _) = False"

fun fell_at :: "brain_event \<Rightarrow> py" where
  "fell_at (Fell t _) = t" | "fell_at (Succeeded t _) = t"

definition recent :: "brain_event list \<Rightarrow> brain_event list" where
  "recent es = rev (takeWhile fell (rev es))"

lemma recent_snoc: "recent (es @ [e]) = (if fell e then recent es @ [e] else [])"
  by (simp add: recent_def)

lemma degrade_run:
  "fold degrade es (0, PNone) =
     (int (length (recent es)), if 3 \<le> length (recent es) then fell_at (recent es ! 2) else PNone)"
proof (induction es rule: rev_induct)
  case (snoc e es)
  then show ?case
    by (cases e) (auto simp: recent_snoc degraded_threshold_def nth_append)
qed (simp add: recent_def)

section \<open>The refinement\<close>

definition level :: "int \<Rightarrow> py" where
  "level n = PStr (if degraded_threshold \<le> n then ''degraded'' else ''healthy'')"

definition shows_state :: "dict \<Rightarrow> int \<times> py \<Rightarrow> bool" where
  "shows_state d a \<longleftrightarrow> get d ''consecutive_brain_failures'' = PInt (fst a) \<and> 0 \<le> fst a
     \<and> get d ''daemon_state'' = level (fst a) \<and> get d ''degraded_since_ts'' = snd a
     \<and> (snd a = PNone \<or> (\<exists>x. snd a = PFloat x))"

definition tracks :: "health_env \<Rightarrow> py option \<Rightarrow> int \<times> py \<Rightarrow> bool" where
  "tracks env f a \<longleftrightarrow> healthy_file env f \<and> shows_state (file_dict f) a"

lemma healthy_own:
  "(''updated_at_ms'', stamp_field) \<in> set (health_fields env)"
  "(''daemon_state'', state_field) \<in> set (health_fields env)" "(''degraded_reason'', str_field) \<in> set (health_fields env)"
  "(''degraded_since_ts'', float_field env) \<in> set (health_fields env)"
  by (simp_all add: health_fields_def)

lemma settled_own_values:
  "state_field (level n) = Inr (level n)" "str_field (PStr ''brain_fallbacks'') = Inr (PStr ''brain_fallbacks'')"
  "str_field PNone = Inr PNone" "float_field env PNone = Inr PNone"
  "float_ok env \<Longrightarrow> float_field env (PFloat x) = Inr (PFloat x)" "ms \<noteq> 0 \<Longrightarrow> stamp_field (PInt ms) = Inr (PInt ms)"
proof -
  have "lower ''healthy'' = ''healthy''" "lower ''degraded'' = ''degraded''" by code_simp+
  then show "state_field (level n) = Inr (level n)" by (simp add: state_field_def level_def por_def)
qed (simp_all add: str_field_def float_field_def float_ok_def)

text \<open>What an update leaves in the file, for a settled dictionary that shows a state\<close>

lemma update_tracks:
  assumes ok: "float_ok env" and c: "normalize_health env (file_dict f) = Inr c" and u: "upd c = Inr u"
    and s: "settled env u" "shows_state u a" "wf_dict u"
  shows "tracks env (snd (update_health env upd f)) a"
proof -
  let ?n = "refreshed env (fst a) u"
  have n: "normal env ?n" "wf_dict ?n" using s by (auto simp: shows_state_def intro: refreshed_normal refreshed_wf)
  have "snd (update_health env upd f) = Some (PDict (sorted_dict ?n))"
    using update_health_settled [of env f c upd u "fst a"] c u s(1,2) by (simp add: shows_state_def)
  moreover have "shows_state (sorted_dict ?n) a"
    using s(2) n(2) by (auto simp: shows_state_def get_sorted refreshed_get level_def)
  ultimately show ?thesis using healthy_sorted [OF ok n] by (simp add: tracks_def file_dict_def)
qed

text \<open>The two events on a normal dictionary\<close>

lemma degradation_step:
  assumes ok: "float_ok env" and d: "normal env d" "wf_dict d" "shows_state d a" and e: "admissible_event e"
  shows "\<exists>u. (case e of Fell t ms \<Rightarrow> bindR (update_degradation_state env t True False d) (\<lambda>x. Inr (stamp_update ms x))
       | Succeeded t ms \<Rightarrow> bindR (update_degradation_state env t False True d) (\<lambda>x. Inr (stamp_update ms x))) = Inr u
     \<and> settled env u \<and> shows_state u (degrade e a) \<and> wf_dict u"
proof -
  have s: "settled env d" using d(1) by (simp add: normal_def)
  note n = normal_fixed [OF d(1)]
  obtain k since where a: "a = (k, since)" by (cases a)
  have k: "get d ''consecutive_brain_failures'' = PInt k" "0 \<le> k" "get d ''daemon_state'' = level k"
    "get d ''degraded_since_ts'' = since" "since = PNone \<or> (\<exists>x. since = PFloat x)"
    using d(3) a by (auto simp: shows_state_def)
  note put = settled_own [OF _ healthy_own(1)] settled_own [OF _ healthy_own(2)]
    settled_own [OF _ healthy_own(3)] settled_own [OF _ healthy_own(4)]
  have cnt: "settled env x \<Longrightarrow> settled env (dput x ''consecutive_brain_failures'' v)" for x v
    by (rule settled_other) (simp_all add: health_fields_def)
  show ?thesis
  proof (cases e)
    case (Succeeded t ms)
    let ?u = "stamp_update ms (dput (dput (dput (dput d ''consecutive_brain_failures'' (PInt 0)) ''daemon_state''
      (PStr ''healthy'')) ''degraded_since_ts'' PNone) ''degraded_reason'' PNone)"
    have "settled env ?u" unfolding stamp_update_def
      using e Succeeded s settled_own_values(1) [of 0]
      by (intro put cnt) (simp_all add: settled_own_values level_def degraded_threshold_def)
    moreover have "shows_state ?u (degrade e a)"
      by (simp add: Succeeded a shows_state_def stamp_update_def level_def degraded_threshold_def)
    ultimately show ?thesis using d(2)
      by (intro exI [of _ ?u]) (simp add: Succeeded update_degradation_state_def n stamp_update_def)
  next
    case (Fell t ms)
    then obtain x where t: "t = PFloat x" and ms: "ms \<noteq> 0" using e by auto
    let ?e = "dput d ''consecutive_brain_failures'' (PInt (k + 1))"
    let ?f = "if level k \<noteq> PStr ''degraded'' then dput ?e ''degraded_since_ts'' t else ?e"
    let ?g = "if degraded_threshold \<le> k + 1
      then dput (dput ?f ''daemon_state'' (PStr ''degraded'')) ''degraded_reason'' (PStr ''brain_fallbacks'') else ?e"
    have float: "he_float env t = Inr t" using ok t by (simp add: float_ok_def)
    have ff: "float_field env t = Inr t" using ok t settled_own_values(5) by simp
    have run: "update_degradation_state env t True False d = Inr ?g"
      by (simp add: update_degradation_state_def n k float Let_def)
    have "settled env ?f"
      using s ff by (auto intro!: put cnt)
    then have "settled env (stamp_update ms ?g)" unfolding stamp_update_def
      using ms s ff settled_own_values(1) [of 3] by (auto intro!: put cnt simp: settled_own_values level_def degraded_threshold_def)
    moreover have "shows_state (stamp_update ms ?g) (degrade e a)"
      using k t by (auto simp: Fell a shows_state_def stamp_update_def level_def degraded_threshold_def)
    ultimately show ?thesis using d(2) run
      by (intro exI [of _ "stamp_update ms ?g"]) (simp add: Fell stamp_update_def)
  qed
qed

interpretation degradation: simulation "tracks env" "\<lambda>e. float_ok env \<and> admissible_event e" "file_after env" degrade
  for env
proof
  fix f a e
  assume f: "tracks env f a" and e: "float_ok env \<and> admissible_event e"
  then obtain d where d: "f = Some (PDict d)" "normal env d" "wf_dict d" "shows_state d a"
    by (auto simp: tracks_def healthy_file_def file_dict_def)
  from degradation_step [of env d a e] d e obtain u
    where u: "(case e of Fell t ms \<Rightarrow> bindR (update_degradation_state env t True False d) (\<lambda>x. Inr (stamp_update ms x))
       | Succeeded t ms \<Rightarrow> bindR (update_degradation_state env t False True d) (\<lambda>x. Inr (stamp_update ms x))) = Inr u"
      "settled env u" "shows_state u (degrade e a)" "wf_dict u" by blast
  have c: "normalize_health env (file_dict f) = Inr d" using d by (simp add: file_dict_def normal_fixed)
  show "tracks env (file_after env e f) (degrade e a)"
    using update_tracks [of env f d _ u "degrade e a"] c u e
    by (cases e) (auto simp: file_after_def record_brain_fallback_attempt_def record_mission_success_def)
qed

end
