(* ===== verification/Panel_Auth.thy ===== *)
theory Panel_Auth
  imports Health_Snapshot
begin

text \<open>
  The operator authentication of the panel (\<open>voxera/panel/auth_enforcement.py\<close>): the failures and lockouts
  per address kept in the health snapshot (\<open>panel/auth_state_store.py\<close>), Basic authentication and the
  guard of mutations with its CSRF token. Text from a header is decoded to code points. The value a form,
  query or JSON body gives for the token is a field of the request; the response headers are left out.
\<close>

section \<open>The state store\<close>

definition panel_auth_fail_threshold :: int where
  "panel_auth_fail_threshold = 10"

definition window_ms :: int where
  "window_ms = 60 * 1000"

definition lockout_ms :: int where
  "lockout_ms = 60 * 1000"

definition prune_ttl_ms :: int where
  "prune_ttl_ms = 10 * 60 * 1000"

definition max_tracked_ips :: nat where
  "max_tracked_ips = 200"

definition ip_key :: "string \<Rightarrow> string" where
  "ip_key ip = (if strip ip = [] then ''unknown'' else strip ip)"

definition int_value :: "py \<Rightarrow> int \<Rightarrow> int result" where
  "int_value v dflt = py_int (por v (PInt dflt))"

definition row_int :: "dict \<Rightarrow> string \<Rightarrow> int result" where
  "row_int row k = int_value (get row k) 0"

text \<open>The rows that stay: the objects whose age is within the limit\<close>

fun keep_rows :: "(dict \<Rightarrow> int result) \<Rightarrow> int \<Rightarrow> dict \<Rightarrow> dict result" where
  "keep_rows age cutoff [] = Inr []"
| "keep_rows age cutoff ((ip, v) # rows) = (case v of
     PDict row \<Rightarrow> bindR (age row) (\<lambda>t. bindR (keep_rows age cutoff rows) (\<lambda>rest.
       Inr (if t < cutoff then rest else (ip, v) # rest)))
   | _ \<Rightarrow> keep_rows age cutoff rows)"

text \<open>At most the limit of rows: the oldest go\<close>

definition cap_rows :: "string \<Rightarrow> dict \<Rightarrow> dict result" where
  "cap_rows k rows =
     (if length rows \<le> max_tracked_ips then Inr rows
      else bindR (mapR (\<lambda>(ip, v). bindR (row_int (the_dict v) k) (\<lambda>t. Inr (t, ip))) rows) (\<lambda>ts.
        let gone = map snd (take (length rows - max_tracked_ips) (sort_key fst ts))
        in Inr (filter (\<lambda>(ip, v). ip \<notin> set gone) rows)))"

definition failure_age :: "dict \<Rightarrow> int result" where
  "failure_age row = row_int row ''last_ts_ms''"

definition lockout_age :: "dict \<Rightarrow> int result" where
  "lockout_age row = bindR (row_int row ''last_event_ts_ms'') (\<lambda>l. bindR (row_int row ''until_ts_ms'') (\<lambda>u. Inr (max l u)))"

definition sub_dict :: "dict \<Rightarrow> string \<Rightarrow> dict" where
  "sub_dict d k = the_dict (get d k)"

definition prune_panel_auth_maps :: "int \<Rightarrow> dict \<Rightarrow> dict result" where
  "prune_panel_auth_maps now_ms store =
     bindR (keep_rows failure_age (now_ms - prune_ttl_ms) (sub_dict store ''failures_by_ip'')) (\<lambda>f.
     bindR (cap_rows ''last_ts_ms'' f) (\<lambda>failures.
     bindR (keep_rows lockout_age (now_ms - prune_ttl_ms) (sub_dict store ''lockouts_by_ip'')) (\<lambda>l.
     bindR (cap_rows ''last_event_ts_ms'' l) (\<lambda>lockouts.
       Inr (dput (dput store ''failures_by_ip'' (PDict failures)) ''lockouts_by_ip'' (PDict lockouts))))))"

definition put_auth :: "dict \<Rightarrow> dict \<Rightarrow> int \<Rightarrow> dict" where
  "put_auth payload auth now_ms = dput (dput payload ''panel_auth'' (PDict auth)) ''updated_at_ms'' (PInt now_ms)"

definition apply_panel_auth_state_prune :: "int \<Rightarrow> dict \<Rightarrow> dict result" where
  "apply_panel_auth_state_prune now_ms payload =
     bindR (prune_panel_auth_maps now_ms (sub_dict payload ''panel_auth'')) (\<lambda>a. Inr (put_auth payload a now_ms))"

text \<open>A success forgets the failures and an expired lockout; a failure counts within its window and locks at
  the threshold.\<close>

definition forget_success :: "string \<Rightarrow> int \<Rightarrow> dict \<Rightarrow> dict \<Rightarrow> (dict \<times> dict) result" where
  "forget_success ip now_ms failures lockouts = (case get lockouts ip of
     PDict row \<Rightarrow> bindR (row_int row ''until_ts_ms'') (\<lambda>u.
       Inr (dpop failures ip, if now_ms \<ge> u then dpop lockouts ip else lockouts))
   | _ \<Rightarrow> Inr (dpop failures ip, lockouts))"

definition failure_row :: "int \<Rightarrow> int \<Rightarrow> int \<Rightarrow> py" where
  "failure_row count first latest = PDict [(''count'', PInt count), (''first_ts_ms'', PInt first), (''last_ts_ms'', PInt latest)]"

definition lockout_row :: "int \<Rightarrow> int \<Rightarrow> int \<Rightarrow> py" where
  "lockout_row until count latest = PDict [(''until_ts_ms'', PInt until), (''count'', PInt count), (''last_event_ts_ms'', PInt latest)]"

definition count_failure :: "string \<Rightarrow> int \<Rightarrow> dict \<Rightarrow> dict \<Rightarrow> (dict \<times> dict) result" where
  "count_failure ip now_ms failures lockouts =
     (let row = (case get failures ip of PDict r \<Rightarrow> r | _ \<Rightarrow> the_dict (failure_row 0 now_ms now_ms)) in
      bindR (int_value (get row ''first_ts_ms'') now_ms) (\<lambda>first_ts.
      bindR (row_int row ''count'') (\<lambda>n.
      let (count, first) = (if now_ms - first_ts > window_ms then (1, now_ms) else (n + 1, first_ts));
          failures' = dput failures ip (failure_row count first now_ms) in
      if count \<ge> panel_auth_fail_threshold then
        bindR (case get lockouts ip of PDict prev \<Rightarrow> row_int prev ''count'' | _ \<Rightarrow> Inr 0) (\<lambda>prev_count.
          Inr (failures', dput lockouts ip (lockout_row (now_ms + lockout_ms) (prev_count + 1) now_ms)))
      else Inr (failures', lockouts))))"

definition apply_panel_auth_state_update :: "string \<Rightarrow> int \<Rightarrow> bool \<Rightarrow> dict \<Rightarrow> dict result" where
  "apply_panel_auth_state_update ip now_ms auth_success payload =
     bindR (prune_panel_auth_maps now_ms (sub_dict payload ''panel_auth'')) (\<lambda>auth.
     bindR ((if auth_success then forget_success else count_failure) (ip_key ip) now_ms
         (sub_dict auth ''failures_by_ip'') (sub_dict auth ''lockouts_by_ip'')) (\<lambda>(f, l).
       Inr (put_auth payload (dput (dput auth ''failures_by_ip'' (PDict f)) ''lockouts_by_ip'' (PDict l)) now_ms)))"

definition active_lockout_until_ms :: "string \<Rightarrow> int \<Rightarrow> dict \<Rightarrow> int option result" where
  "active_lockout_until_ms ip now_ms auth = (case get (sub_dict auth ''lockouts_by_ip'') (ip_key ip) of
     PDict row \<Rightarrow> bindR (row_int row ''until_ts_ms'') (\<lambda>u. Inr (if now_ms < u then Some u else None))
   | _ \<Rightarrow> Inr None)"

definition auth_failure_snapshot :: "string \<Rightarrow> dict \<Rightarrow> (int \<times> int) result" where
  "auth_failure_snapshot ip auth =
     bindR (row_int (the_dict (get (sub_dict auth ''failures_by_ip'') (ip_key ip))) ''count'') (\<lambda>n.
     bindR (case get (sub_dict auth ''lockouts_by_ip'') (ip_key ip) of
         PDict row \<Rightarrow> row_int row ''until_ts_ms'' | _ \<Rightarrow> Inr 0) (\<lambda>u. Inr (n, u)))"

section \<open>Credentials\<close>

text \<open>\<open>base64.b64decode\<close> of a string: characters outside the alphabet are skipped, a complete padding ends
  the input, an incomplete last group is an error.\<close>

definition base64_value :: "nat \<Rightarrow> nat option" where
  "base64_value n = (if 65 \<le> n \<and> n \<le> 90 then Some (n - 65) else if 97 \<le> n \<and> n \<le> 122 then Some (n - 71)
     else if 48 \<le> n \<and> n \<le> 57 then Some (n + 4) else if n = 43 then Some 62 else if n = 47 then Some 63 else None)"

fun a2b_base64 :: "nat \<Rightarrow> nat \<Rightarrow> nat \<Rightarrow> nat list \<Rightarrow> nat list option" where
  "a2b_base64 quad left pads [] = (if quad = 0 then Some [] else None)"
| "a2b_base64 quad left pads (n # ns) =
     (if n = 61 then
        if quad \<ge> 2 then (if quad + pads + 1 \<ge> 4 then Some [] else a2b_base64 quad left (pads + 1) ns)
        else a2b_base64 quad left pads ns
      else case base64_value n of
        None \<Rightarrow> a2b_base64 quad left pads ns
      | Some v \<Rightarrow>
          if quad = 0 then a2b_base64 1 v 0 ns
          else if quad = 1 then map_option ((#) (left * 4 + v div 16)) (a2b_base64 2 (v mod 16) 0 ns)
          else if quad = 2 then map_option ((#) (left * 16 + v div 4)) (a2b_base64 3 (v mod 4) 0 ns)
          else map_option ((#) (left * 64 + v)) (a2b_base64 0 0 0 ns))"

definition b64decode :: "string \<Rightarrow> nat list option" where
  "b64decode s = (if list_all (\<lambda>c. code c < 128) s then a2b_base64 0 0 0 (map code s) else None)"

text \<open>Strict UTF-8: no overlong form, no surrogate, nothing above U+10FFFF\<close>

definition tail_byte :: "nat \<Rightarrow> bool" where
  "tail_byte n = (128 \<le> n \<and> n < 192)"

fun utf8_decode :: "nat list \<Rightarrow> nat list option" where
  "utf8_decode [] = Some []"
| "utf8_decode (a # bs) =
     (if a < 128 then map_option ((#) a) (utf8_decode bs)
      else if 194 \<le> a \<and> a < 224 then (case bs of
          b # cs \<Rightarrow> if tail_byte b then map_option ((#) ((a - 192) * 64 + (b - 128))) (utf8_decode cs) else None
        | [] \<Rightarrow> None)
      else if 224 \<le> a \<and> a < 240 then (case bs of
          b # c # ds \<Rightarrow> if tail_byte b \<and> tail_byte c \<and> (a = 224 \<longrightarrow> 160 \<le> b) \<and> (a = 237 \<longrightarrow> b < 160)
            then map_option ((#) ((a - 224) * 4096 + (b - 128) * 64 + (c - 128))) (utf8_decode ds) else None
        | _ \<Rightarrow> None)
      else if 240 \<le> a \<and> a < 245 then (case bs of
          b # c # d # es \<Rightarrow> if tail_byte b \<and> tail_byte c \<and> tail_byte d \<and> (a = 240 \<longrightarrow> 144 \<le> b) \<and> (a = 244 \<longrightarrow> b < 144)
            then map_option ((#) ((a - 240) * 262144 + (b - 128) * 4096 + (c - 128) * 64 + (d - 128))) (utf8_decode es)
            else None
        | _ \<Rightarrow> None)
      else None)"

definition decode_token :: "string \<Rightarrow> nat list option" where
  "decode_token t = Option.bind (b64decode t) utf8_decode"

text \<open>\<open>partition\<close> at the first separator\<close>

definition partition_at :: "'a \<Rightarrow> 'a list \<Rightarrow> 'a list \<times> 'a list" where
  "partition_at c xs = (takeWhile (\<lambda>x. x \<noteq> c) xs, drop 1 (dropWhile (\<lambda>x. x \<noteq> c) xs))"

text \<open>\<open>secrets.compare_digest\<close> of two strings raises unless both are ASCII.\<close>

definition compare_digest :: "nat list \<Rightarrow> nat list \<Rightarrow> bool result" where
  "compare_digest a b = (if list_all (\<lambda>n. n < 128) (a @ b) then Inr (a = b)
     else raise_type ''comparing strings with non-ASCII characters is not supported'')"

section \<open>The panel\<close>

record request =
  rq_authorization :: "string option"
  rq_forwarded :: string
  rq_client :: "string option"
  rq_path :: string
  rq_method :: string
  rq_cookie :: string
  rq_csrf_header :: string
  rq_csrf_value :: string
  rq_now_ms :: int

record panel_env =
  pe_health :: health_env
  pe_clock :: "py option \<Rightarrow> int"
  pe_trust_proxy :: string
  pe_user :: string
  pe_password :: "string option"
  pe_csrf :: bool

record panel =
  pn_file :: "py option"
  pn_log :: "dict list"

definition on_file :: "'a health_op \<Rightarrow> ('a, panel) prog" where
  "on_file m s = (case m (pn_file s) of (r, f) \<Rightarrow> (r, s\<lparr>pn_file := f\<rparr>))"

definition http_error :: "nat \<Rightarrow> string \<Rightarrow> ('a, panel) prog" where
  "http_error status detail = raiseM (Exc (OtherError (''HTTPException '' @ nat_str status)) detail)"

definition client_ip :: "panel_env \<Rightarrow> request \<Rightarrow> string" where
  "client_ip env rq =
     (let forwarded = strip (takeWhile (\<lambda>c. c \<noteq> CHR '','') (rq_forwarded rq));
          direct = (case rq_client rq of Some h \<Rightarrow> h | None \<Rightarrow> ''unknown'') in
      if lower (strip (pe_trust_proxy env)) \<in> {''1'', ''true'', ''yes'', ''on''} \<and> forwarded \<noteq> [] then forwarded
      else direct)"

definition panel_clock :: "panel_env \<Rightarrow> (int, panel) prog" where
  "panel_clock env = getM (\<lambda>s. pe_clock env (pn_file s))"

definition panel_security_counter_incr :: "panel_env \<Rightarrow> string \<Rightarrow> string option \<Rightarrow> (unit, panel) prog" where
  "panel_security_counter_incr env key last_error = bindM (panel_clock env) (\<lambda>now.
     bindM (on_file (increment_health_counter_file (pe_health env) now key 1 last_error)) (\<lambda>_. retM ()))"

definition panel_log :: "dict \<Rightarrow> (unit, panel) prog" where
  "panel_log e = modifyM (\<lambda>s. s\<lparr>pn_log := pn_log s @ [e]\<rparr>)"

definition log_panel_security_event :: "panel_env \<Rightarrow> request \<Rightarrow> string \<Rightarrow> string \<Rightarrow> int \<Rightarrow> (unit, panel) prog" where
  "log_panel_security_event env rq event reason status = bindM (panel_clock env) (\<lambda>now.
     panel_log [(''event'', PStr event), (''ts_ms'', PInt now), (''path'', PStr (rq_path rq)),
       (''method'', PStr (rq_method rq)),
       (''remote'', PStr (case rq_client rq of Some h \<Rightarrow> h | None \<Rightarrow> ''unknown'')),
       (''reason'', PStr reason), (''status_code'', PInt status)])"

definition panel_auth_state_update :: "panel_env \<Rightarrow> request \<Rightarrow> bool \<Rightarrow> (dict, panel) prog" where
  "panel_auth_state_update env rq ok = on_file (update_health (pe_health env)
     (apply_panel_auth_state_update (client_ip env rq) (rq_now_ms rq) ok))"

definition active_lockout :: "panel_env \<Rightarrow> request \<Rightarrow> (int option, panel) prog" where
  "active_lockout env rq =
     bindM (on_file (update_health (pe_health env) (apply_panel_auth_state_prune (rq_now_ms rq)))) (\<lambda>payload.
       liftR (active_lockout_until_ms (client_ip env rq) (rq_now_ms rq) (sub_dict payload ''panel_auth'')))"

definition no_password :: "panel_env \<Rightarrow> request \<Rightarrow> (string \<times> string, panel) prog" where
  "no_password env rq =
     thenM (panel_security_counter_incr env ''panel_401_count'' (Some ''operator password missing''))
     (thenM (log_panel_security_event env rq ''panel_operator_config_error'' ''operator_password_missing'' 503)
     (http_error 503 ''VOXERA_PANEL_OPERATOR_PASSWORD must be set''))"

definition operator_credentials :: "panel_env \<Rightarrow> request \<Rightarrow> (string \<times> string, panel) prog" where
  "operator_credentials env rq = (case pe_password env of
     Some p \<Rightarrow> if p \<noteq> [] then retM (pe_user env, p) else no_password env rq
   | None \<Rightarrow> no_password env rq)"

text \<open>A refused header: the failure is counted, then the counters, the event and the answer\<close>

definition refuse_header :: "panel_env \<Rightarrow> request \<Rightarrow> string \<Rightarrow> string \<Rightarrow> (unit, panel) prog" where
  "refuse_header env rq detail reason =
     thenM (panel_auth_state_update env rq False)
     (thenM (panel_security_counter_incr env ''panel_auth_invalid'' (Some detail))
     (thenM (panel_security_counter_incr env ''panel_401_count'' None)
     (thenM (log_panel_security_event env rq ''panel_auth_invalid'' reason 401)
     (http_error 401 detail))))"

definition too_many :: "(unit, panel) prog" where
  "too_many = http_error 429 ''too many authentication attempts''"

definition refuse_credentials :: "panel_env \<Rightarrow> request \<Rightarrow> (unit, panel) prog" where
  "refuse_credentials env rq =
     bindM (panel_auth_state_update env rq False) (\<lambda>payload.
     bindM (liftR (auth_failure_snapshot (client_ip env rq) (sub_dict payload ''panel_auth''))) (\<lambda>(count, until).
     if rq_now_ms rq < until then
       thenM (panel_security_counter_incr env ''panel_429_count'' None)
       (thenM (panel_log [(''event'', PStr ''panel_auth_lockout''), (''ts_ms'', PInt (rq_now_ms rq)),
          (''ip'', PStr (client_ip env rq)), (''attempt_count'', PInt count), (''window_s'', PInt 60),
          (''lockout_s'', PInt 60)])
       too_many)
     else
       thenM (panel_security_counter_incr env ''panel_auth_invalid'' (Some ''invalid operator credentials''))
       (thenM (panel_security_counter_incr env ''panel_401_count'' None)
       (thenM (log_panel_security_event env rq ''panel_auth_invalid'' ''invalid_credentials'' 401)
       (http_error 401 ''invalid operator credentials'')))))"

definition credentials_match :: "nat list \<Rightarrow> string \<Rightarrow> string \<Rightarrow> bool result" where
  "credentials_match decoded user password =
     (let (got_user, got_password) = partition_at 58 decoded in
      bindR (compare_digest got_user (map code user)) (\<lambda>u.
        if u then compare_digest got_password (map code password) else Inr False))"

definition missing_authorization :: "panel_env \<Rightarrow> request \<Rightarrow> (unit, panel) prog" where
  "missing_authorization env rq =
     thenM (panel_auth_state_update env rq False)
     (thenM (panel_security_counter_incr env ''panel_401_count'' (Some ''missing authorization''))
     (thenM (log_panel_security_event env rq ''panel_auth_missing'' ''missing_authorization'' 401)
     (http_error 401 ''operator authentication required'')))"

definition check_credentials :: "panel_env \<Rightarrow> request \<Rightarrow> string \<Rightarrow> string \<Rightarrow> (unit, panel) prog" where
  "check_credentials env rq user password = (case rq_authorization rq of
     None \<Rightarrow> missing_authorization env rq
   | Some a \<Rightarrow>
       if a = [] then missing_authorization env rq
       else let (scheme, token) = partition_at CHR '' '' a in
         if lower scheme \<noteq> ''basic'' \<or> token = [] then
           refuse_header env rq ''invalid authentication scheme'' ''invalid_scheme''
         else (case decode_token token of
             None \<Rightarrow> refuse_header env rq ''invalid authorization header'' ''invalid_header''
           | Some decoded \<Rightarrow>
               bindM (liftR (credentials_match decoded user password)) (\<lambda>ok.
                 if ok then thenM (panel_auth_state_update env rq True) (retM ()) else refuse_credentials env rq)))"

definition require_operator_basic_auth :: "panel_env \<Rightarrow> request \<Rightarrow> (unit, panel) prog" where
  "require_operator_basic_auth env rq =
     bindM (operator_credentials env rq) (\<lambda>(user, password).
     bindM (active_lockout env rq) (\<lambda>lockout.
     if lockout \<noteq> None then thenM (panel_security_counter_incr env ''panel_429_count'' None) too_many
     else check_credentials env rq user password))"

section \<open>Mutations\<close>

definition allow_mutation :: "panel_env \<Rightarrow> request \<Rightarrow> string \<Rightarrow> (unit, panel) prog" where
  "allow_mutation env rq reason =
     thenM (panel_security_counter_incr env ''panel_mutation_allowed'' None)
       (log_panel_security_event env rq ''panel_mutation_allowed'' reason 200)"

definition refuse_csrf :: "panel_env \<Rightarrow> request \<Rightarrow> string \<Rightarrow> string \<Rightarrow> string \<Rightarrow> (unit, panel) prog" where
  "refuse_csrf env rq err event reason =
     thenM (panel_security_counter_incr env ''panel_403_count'' (Some err))
     (thenM (panel_security_counter_incr env event None)
     (thenM (log_panel_security_event env rq event reason 403)
     (http_error 403 ''csrf validation failed'')))"

definition request_token :: "request \<Rightarrow> string" where
  "request_token rq = (if strip (rq_csrf_header rq) \<noteq> [] then strip (rq_csrf_header rq) else strip (rq_csrf_value rq))"

definition require_mutation_guard :: "panel_env \<Rightarrow> request \<Rightarrow> (unit, panel) prog" where
  "require_mutation_guard env rq =
     thenM (require_operator_basic_auth env rq)
     (if \<not> pe_csrf env then allow_mutation env rq ''auth_valid_csrf_disabled''
      else if rq_cookie rq = [] \<or> request_token rq = [] then
        refuse_csrf env rq ''csrf token missing'' ''panel_csrf_missing'' ''csrf_token_missing''
      else bindM (liftR (compare_digest (map code (rq_cookie rq)) (map code (request_token rq)))) (\<lambda>same.
        if \<not> same then refuse_csrf env rq ''csrf token mismatch'' ''panel_csrf_invalid'' ''csrf_token_mismatch''
        else allow_mutation env rq ''auth_and_csrf_valid''))"

end
