(* ===== verification/Panel_Machine.thy ===== *)
theory Panel_Machine
  imports Panel_Auth
begin

text \<open>
  The abstract machine of one address: how many failures its window has, when the window began and until
  when it is locked out. A locked address is not heard. The bound on guesses is proved here.
\<close>

section \<open>The machine\<close>

type_synonym guard_state = "int \<times> int \<times> int"

datatype attempt = Wrong | Right | Aside

definition fail_step :: "int \<Rightarrow> guard_state \<Rightarrow> guard_state" where
  "fail_step t g = (case g of (c, f, u) \<Rightarrow>
     let (c', f') = (if c = 0 \<or> t - f > window_ms then (1, t) else (c + 1, f)) in
     (c', f', if c' \<ge> panel_auth_fail_threshold then t + lockout_ms else u))"

definition locked :: "int \<Rightarrow> guard_state \<Rightarrow> bool" where
  "locked t g \<longleftrightarrow> t < snd (snd g)"

fun guard_step :: "attempt \<Rightarrow> int \<Rightarrow> guard_state \<Rightarrow> guard_state" where
  "guard_step k t (c, f, u) =
     (if t < u then (c, f, u)
      else case k of Aside \<Rightarrow> (c, f, u) | Right \<Rightarrow> (0, f, u) | Wrong \<Rightarrow> fail_step t (c, f, u))"

text \<open>The times of the wrong attempts that were heard, the newest first\<close>

definition heard :: "attempt \<Rightarrow> int \<Rightarrow> guard_state \<Rightarrow> int list" where
  "heard k t g = (if k = Wrong \<and> \<not> locked t g then [t] else [])"

fun guard_run :: "(attempt \<times> int) list \<Rightarrow> guard_state \<times> int list \<Rightarrow> guard_state \<times> int list" where
  "guard_run [] s = s"
| "guard_run ((k, t) # es) (g, H) = guard_run es (guard_step k t g, heard k t g @ H)"

section \<open>The bound\<close>

definition in_window :: "int \<Rightarrow> int list \<Rightarrow> nat" where
  "in_window t H = length (filter (\<lambda>x. t - window_ms < x \<and> x \<le> t) H)"

text \<open>The window holds the newest failures \<open>B\<close>; the ones before it, \<open>R\<close>, are older, and at most nine of
  them are less than a window before its beginning.\<close>

definition bounded :: "int \<Rightarrow> guard_state \<Rightarrow> int list \<Rightarrow> bool" where
  "bounded T g H \<longleftrightarrow> (case g of (c, f, u) \<Rightarrow> \<exists>B R. H = B @ R
     \<and> 0 \<le> c \<and> int (length B) = c \<and> (\<forall>x \<in> set B. f \<le> x \<and> x \<le> T) \<and> (\<forall>x \<in> set R. x \<le> T \<and> (0 < c \<longrightarrow> x \<le> f))
     \<and> (0 < c \<longrightarrow> length (filter (\<lambda>x. f - window_ms < x) R) \<le> 9)
     \<and> (c = 0 \<longrightarrow> R = [])
     \<and> (panel_auth_fail_threshold \<le> c \<longrightarrow> (\<forall>x \<in> set H. x + lockout_ms \<le> u)))"

lemma filter_le: "(\<And>x. x \<in> set xs \<Longrightarrow> P x \<Longrightarrow> Q x) \<Longrightarrow> length (filter P xs) \<le> length (filter Q xs)"
  by (induction xs) (auto intro: le_SucI)

lemma fail_bounded:
  assumes b: "bounded T (c, f, u) H" and t: "T \<le> t" "u \<le> t"
  shows "bounded t (fail_step t (c, f, u)) (t # H)" and "length (filter (\<lambda>x. t - window_ms < x) (t # H)) \<le> 19"
proof -
  obtain B R where H: "H = B @ R" and c: "0 \<le> c" "int (length B) = c"
    and B: "\<forall>x \<in> set B. f \<le> x \<and> x \<le> T" and R: "\<forall>x \<in> set R. x \<le> T \<and> (0 < c \<longrightarrow> x \<le> f)"
    and near: "0 < c \<longrightarrow> length (filter (\<lambda>x. f - window_ms < x) R) \<le> 9" and empty: "c = 0 \<longrightarrow> R = []"
    and full: "panel_auth_fail_threshold \<le> c \<longrightarrow> (\<forall>x \<in> set H. x + lockout_ms \<le> u)"
    using b by (auto simp: bounded_def)
  have le: "\<forall>x \<in> set H. x \<le> t" using B R t(1) H by auto
  let ?near = "\<lambda>xs. length (filter (\<lambda>x. t - window_ms < x) xs)"
  have far: "?near H = 0" if "panel_auth_fail_threshold \<le> c"
    using full that t(2) by (auto simp: filter_empty_conv lockout_ms_def window_ms_def)
  have small: "?near B \<le> 9" if "\<not> panel_auth_fail_threshold \<le> c"
  proof -
    have "length B \<le> 9" using that c by (simp add: panel_auth_fail_threshold_def)
    with length_filter_le show ?thesis by (rule order_trans)
  qed
  have apart: "?near H \<le> 9" if "c = 0 \<or> t - f > window_ms"
  proof (cases "c = 0")
    case True
    then show ?thesis using c empty H by simp
  next
    case False
    then have "?near R = 0" using that R c by (auto simp: filter_empty_conv)
    then show ?thesis using far small H by (cases "panel_auth_fail_threshold \<le> c") auto
  qed
  have start: "f \<le> t" if "c \<noteq> 0" using that B c t(1) by (cases B) auto
  have joined: "?near H \<le> 18" if "\<not> (c = 0 \<or> t - f > window_ms)"
  proof -
    have "?near R \<le> length (filter (\<lambda>x. f - window_ms < x) R)" by (rule filter_le) (use that start in auto)
    then have "?near R \<le> 9" using near that c by simp
    then show ?thesis using far small H by (cases "panel_auth_fail_threshold \<le> c") auto
  qed
  show "?near (t # H) \<le> 19" using apart joined by (cases "c = 0 \<or> t - f > window_ms") (auto simp: window_ms_def)
  show "bounded t (fail_step t (c, f, u)) (t # H)"
  proof (cases "c = 0 \<or> t - f > window_ms")
    case True
    then have "fail_step t (c, f, u) = (1, t, u)" by (simp add: fail_step_def panel_auth_fail_threshold_def)
    moreover have "bounded t (1, t, u) (t # H)" unfolding bounded_def prod.case
      by (rule exI [of _ "[t]"], rule exI [of _ H]) (use le apart [OF True] in \<open>simp add: panel_auth_fail_threshold_def\<close>)
    ultimately show ?thesis by simp
  next
    case False
    let ?u = "if c + 1 \<ge> panel_auth_fail_threshold then t + lockout_ms else u"
    have "fail_step t (c, f, u) = (c + 1, f, ?u)" using False by (simp add: fail_step_def)
    moreover have "bounded t (c + 1, f, ?u) (t # H)" unfolding bounded_def prod.case
    proof (rule exI [of _ "t # B"], rule exI [of _ R], intro conjI)
      show "\<forall>x \<in> set (t # B). f \<le> x \<and> x \<le> t" using start False B t(1) by auto
      show "\<forall>x \<in> set R. x \<le> t \<and> (0 < c + 1 \<longrightarrow> x \<le> f)" using False c R t(1) by fastforce
    qed (use False c H near le in \<open>simp_all add: panel_auth_fail_threshold_def\<close>)
    ultimately show ?thesis by simp
  qed
qed

lemma bounded_later:
  assumes "bounded T (c, f, u) H" and "T \<le> t"
  shows "bounded t (c, f, u) H"
proof -
  obtain B R where s: "H = B @ R" "0 \<le> c \<and> int (length B) = c" "\<forall>x \<in> set B. f \<le> x \<and> x \<le> T"
    "\<forall>x \<in> set R. x \<le> T \<and> (0 < c \<longrightarrow> x \<le> f)" "0 < c \<longrightarrow> length (filter (\<lambda>x. f - window_ms < x) R) \<le> 9" "c = 0 \<longrightarrow> R = []"
    "panel_auth_fail_threshold \<le> c \<longrightarrow> (\<forall>x \<in> set H. x + lockout_ms \<le> u)"
    using assms(1) unfolding bounded_def by auto
  with assms(2) have "\<forall>x \<in> set B. f \<le> x \<and> x \<le> t" "\<forall>x \<in> set R. x \<le> t \<and> (0 < c \<longrightarrow> x \<le> f)" by fastforce+
  with s show ?thesis unfolding bounded_def prod.case by blast
qed

lemma wrong_run_bound:
  assumes "sorted (T # map snd es)" and "\<forall>e \<in> set es. fst e \<noteq> Right" and "bounded T g H" and "\<forall>t. in_window t H \<le> 19"
  shows "\<forall>t. in_window t (snd (guard_run es (g, H))) \<le> 19"
  using assms
proof (induction es arbitrary: T g H)
  case (Cons e es)
  obtain k t where e: "e = (k, t)" by (cases e)
  obtain c f u where g: "g = (c, f, u)" by (cases g)
  have t: "T \<le> t" "sorted (t # map snd es)" using Cons.prems(1) e by auto
  have later: "bounded t g H" using bounded_later Cons.prems(3) t(1) g by blast
  show ?case
  proof (cases "k = Wrong \<and> \<not> locked t g")
    case True
    then have step: "guard_step k t g = fail_step t g" "heard k t g = [t]" by (simp_all add: g locked_def heard_def)
    have u: "u \<le> t" using True by (simp add: g locked_def)
    note b = fail_bounded [OF Cons.prems(3) [unfolded g] t(1) u, folded g]
    have "in_window s (t # H) \<le> 19" for s
    proof (cases "t \<le> s")
      case True
      have "in_window s (t # H) \<le> length (filter (\<lambda>x. t - window_ms < x) (t # H))"
        unfolding in_window_def by (rule filter_le) (use True in auto)
      with b(2) show ?thesis by simp
    next
      case False
      with Cons.prems(4) show ?thesis by (simp add: in_window_def)
    qed
    then have "\<forall>s. in_window s (t # H) \<le> 19" by blast
    from Cons.IH [OF t(2) _ b(1) this] Cons.prems(2) show ?thesis by (simp del: guard_step.simps add: e step)
  next
    case False
    then have "guard_step k t g = g" "heard k t g = []"
      using Cons.prems(2) e by (cases k; auto simp: g locked_def heard_def)+
    with Cons.IH [OF t(2) _ later Cons.prems(4)] Cons.prems(2) show ?thesis by (simp add: e)
  qed
qed simp

section \<open>The lockout\<close>

lemma wrong_count_up:
  assumes "es \<noteq> []" and "1 \<le> c" and "c + int (length es) = panel_auth_fail_threshold" and "u \<le> t0"
    and "\<forall>e \<in> set es. fst e = Wrong \<and> t0 \<le> snd e \<and> snd e \<le> t0 + window_ms"
  shows "fst (guard_run es ((c, t0, u), H)) = (panel_auth_fail_threshold, t0, snd (last es) + lockout_ms)"
  using assms
proof (induction es arbitrary: c H)
  case (Cons e es)
  obtain t where e: "e = (Wrong, t)" "t0 \<le> t" "t \<le> t0 + window_ms" using Cons.prems(5) by (cases e) auto
  have heard: "\<not> t < u" "\<not> t - t0 > window_ms" "c \<noteq> 0" using e Cons.prems(2,4) by auto
  show ?case
  proof (cases "es = []")
    case True
    then show ?thesis using Cons.prems(3) heard e by (simp add: fail_step_def)
  next
    case False
    then have "\<not> panel_auth_fail_threshold \<le> c + 1" using Cons.prems(3) by (cases es) auto
    then show ?thesis using Cons.IH [OF False, of "c + 1" "heard Wrong t (c, t0, u) @ H"] Cons.prems heard e False
      by (simp add: fail_step_def)
  qed
qed simp

text \<open>Ten that begin a window: no failure is counted yet, or the counted ones are more than a window old.\<close>

lemma ten_wrong_lock:
  assumes "int (length es) = panel_auth_fail_threshold" and "u \<le> t0" and "snd (hd es) = t0"
    and "c = 0 \<or> t0 - f > window_ms"
    and "\<forall>e \<in> set es. fst e = Wrong \<and> t0 \<le> snd e \<and> snd e \<le> t0 + window_ms"
  shows "fst (guard_run es ((c, f, u), H)) = (panel_auth_fail_threshold, t0, snd (last es) + lockout_ms)"
proof -
  obtain es' where es: "es = (Wrong, t0) # es'" "es' \<noteq> []"
    using assms(1,3,5) by (cases es; cases "tl es") (auto simp: panel_auth_fail_threshold_def)
  have "fail_step t0 (c, f, u) = (1, t0, u)" using assms(4) by (auto simp: fail_step_def panel_auth_fail_threshold_def)
  with wrong_count_up [of es' 1 u t0 "heard Wrong t0 (c, f, u) @ H"] assms es show ?thesis by simp
qed

lemma guard_run_append: "guard_run (es @ fs) s = guard_run fs (guard_run es s)"
  by (induction es s rule: guard_run.induct) simp_all

lemma locked_stays: "\<forall>e \<in> set es. snd e < u \<Longrightarrow> fst (guard_run es ((c, f, u), H)) = (c, f, u)"
proof (induction es arbitrary: H)
  case (Cons e es)
  then show ?case by (cases e) simp
qed simp

text \<open>Attempts up to \<open>T\<close> leave a window that began by then and a lockout that ends a minute after it.\<close>

lemma guard_run_before:
  assumes "\<forall>e \<in> set es. snd e \<le> T" and "c = 0 \<or> f \<le> T" and "u \<le> T + lockout_ms"
  shows "case fst (guard_run es ((c, f, u), H)) of (c', f', u') \<Rightarrow> (c' = 0 \<or> f' \<le> T) \<and> u' \<le> T + lockout_ms"
  using assms
proof (induction es arbitrary: c f u H)
  case (Cons e es)
  obtain k t where e: "e = (k, t)" "t \<le> T" using Cons.prems(1) by (cases e) auto
  obtain c' f' u' where s: "guard_step k t (c, f, u) = (c', f', u')" by (cases "guard_step k t (c, f, u)")
  have "(c' = 0 \<or> f' \<le> T) \<and> u' \<le> T + lockout_ms"
    using s e(2) Cons.prems(2,3) by (cases k) (auto simp: fail_step_def Let_def split: if_splits)
  then show ?case using Cons.IH [of c' f' u' "heard k t (c, f, u) @ H"] Cons.prems(1)
    by (simp del: guard_step.simps add: e(1) s)
qed simp

text \<open>Ten wrong attempts within a window, after a minute without any, and whatever comes before the lockout
  ends\<close>

lemma lockout_holds:
  assumes ten: "int (length ten) = panel_auth_fail_threshold" and s: "sorted (map snd (ten @ rest))" "0 < snd (hd ten)"
    and quiet: "\<forall>e \<in> set early. snd e + window_ms < snd (hd ten)"
    and w: "\<forall>e \<in> set ten. fst e = Wrong \<and> snd e \<le> snd (hd ten) + window_ms"
    and m: "\<forall>e \<in> set rest. snd e < snd (last ten) + lockout_ms" and t: "t < snd (last ten) + lockout_ms"
  shows "locked t (fst (guard_run (early @ ten @ rest) ((0, 0, 0), H)))"
proof -
  obtain e es where es: "ten = e # es" using ten by (cases ten) (auto simp: panel_auth_fail_threshold_def)
  then have from_hd: "\<forall>x \<in> set ten. snd (hd ten) \<le> snd x" using s by (auto simp: sorted_append)
  let ?T = "snd (hd ten) - window_ms - 1"
  obtain c f u H0 where e0: "guard_run early ((0, 0, 0), H) = ((c, f, u), H0)" by (metis prod.exhaust)
  have "(c = 0 \<or> f \<le> ?T) \<and> u \<le> ?T + lockout_ms"
    using guard_run_before [of early ?T 0 0 0 H] quiet s(2) e0
    by (fastforce simp: window_ms_def lockout_ms_def)
  then have open_door: "u \<le> snd (hd ten)" "c = 0 \<or> snd (hd ten) - f > window_ms"
    by (auto simp: window_ms_def lockout_ms_def)
  obtain g H' where run: "guard_run ten ((c, f, u), H0) = (g, H')" by (cases "guard_run ten ((c, f, u), H0)")
  moreover have "fst (guard_run ten ((c, f, u), H0)) = (panel_auth_fail_threshold, snd (hd ten), snd (last ten) + lockout_ms)"
    by (rule ten_wrong_lock [OF ten open_door(1) refl open_door(2)]) (use w from_hd in auto)
  ultimately have "g = (panel_auth_fail_threshold, snd (hd ten), snd (last ten) + lockout_ms)" by simp
  with run e0 locked_stays [OF m] t show ?thesis by (simp add: guard_run_append locked_def)
qed

end
