(* ===== verification/Panel_Store_Laws.thy ===== *)
theory Panel_Store_Laws
  imports Panel_Machine Health_Laws
begin

text \<open>
  Laws of the panel's state store, as long as it tracks no more addresses than its limit: what it shows of
  one address is a small state, pruning does not change it, and a failure or a success changes it as the
  abstract machine does.
\<close>

section \<open>Rows\<close>

definition int_fields :: "string list \<Rightarrow> dict \<Rightarrow> bool" where
  "int_fields ks r \<longleftrightarrow> wf_dict r \<and> (\<forall>k \<in> set ks. \<exists>n. get r k = PInt n)"

definition tracked :: "string set \<Rightarrow> string list \<Rightarrow> dict \<Rightarrow> bool" where
  "tracked S ks rows \<longleftrightarrow> wf_dict rows \<and> (\<forall>i. has_key rows i \<longrightarrow> i \<in> S \<and> (\<exists>r. get rows i = PDict r \<and> int_fields ks r))"

definition failure_keys :: "string list" where
  "failure_keys = [''count'', ''first_ts_ms'', ''last_ts_ms'']"

definition lockout_keys :: "string list" where
  "lockout_keys = [''until_ts_ms'', ''count'', ''last_event_ts_ms'']"

lemma int_value_PInt [simp]: "int_value (PInt n) z = Inr (if n = 0 then z else n)"
  by (simp add: int_value_def por_def)

lemma row_int_PInt [simp]: "get r k = PInt n \<Longrightarrow> row_int r k = Inr n"
  by (simp add: row_int_def)

lemma tracked_Nil [simp]: "tracked S ks []"
  by (simp add: tracked_def)

lemma get_member: "wf_dict d \<Longrightarrow> (k, v) \<in> set d \<Longrightarrow> get d k = v \<and> has_key d k"
  by (simp add: wf_dict_def get_def get_or_def has_key_def)

lemma tracked_get: "tracked S ks rows \<Longrightarrow> get rows i = PNone \<or> (\<exists>r. get rows i = PDict r \<and> int_fields ks r)"
  using get_no_key by (auto simp: tracked_def)

lemma tracked_row: "tracked S ks rows \<Longrightarrow> x \<in> set rows \<Longrightarrow> \<exists>r. snd x = PDict r \<and> int_fields ks r"
  using get_member [of rows "fst x" "snd x"] unfolding tracked_def by (metis prod.collapse)

lemma tracked_dput: "tracked S ks rows \<Longrightarrow> i \<in> S \<Longrightarrow> \<exists>r. v = PDict r \<and> int_fields ks r \<Longrightarrow> tracked S ks (dput rows i v)"
  by (auto simp: tracked_def)

lemma tracked_dpop: "tracked S ks rows \<Longrightarrow> tracked S ks (dpop rows i)"
  by (auto simp: tracked_def)

lemma int_fields_sorted: "int_fields ks r \<Longrightarrow> int_fields ks (sorted_dict r)"
  by (auto simp: int_fields_def get_sorted)

lemma tracked_sorted: "tracked S ks rows \<Longrightarrow> tracked S ks (sorted_dict rows)"
  using int_fields_sorted by (fastforce simp: tracked_def get_sorted)

section \<open>Pruning\<close>

lemma keep_rows_filter:
  "\<forall>x \<in> set rows. \<exists>r. snd x = PDict r \<and> age r = Inr (old (snd x)) \<Longrightarrow>
   keep_rows age cutoff rows = Inr (filter (\<lambda>x. cutoff \<le> old (snd x)) rows)"
  by (induction rows) auto

lemma map_of_filter_snd:
  "distinct (map fst d) \<Longrightarrow> map_of (filter (\<lambda>x. P (snd x)) d) i = (case map_of d i of None \<Rightarrow> None | Some v \<Rightarrow> if P v then Some v else None)"
proof (induction d)
  case (Cons x d)
  have "map_of d (fst x) = None" using Cons.prems by (simp add: map_of_eq_None_iff)
  with Cons show ?case by (cases x) auto
qed simp

lemma get_filter:
  "wf_dict d \<Longrightarrow> get (filter (\<lambda>x. P (snd x)) d) i = (if has_key d i \<and> P (get d i) then get d i else PNone)"
  "wf_dict d \<Longrightarrow> has_key (filter (\<lambda>x. P (snd x)) d) i \<longleftrightarrow> has_key d i \<and> P (get d i)"
  by (auto simp: wf_dict_def get_def get_or_def has_key_def map_of_filter_snd split: option.splits)

lemma tracked_filter: "tracked S ks rows \<Longrightarrow> tracked S ks (filter (\<lambda>x. P (snd x)) rows)"
proof -
  assume t: "tracked S ks rows"
  then have "wf_dict rows" by (simp add: tracked_def)
  moreover from this have "wf_dict (filter (\<lambda>x. P (snd x)) rows)" by (simp add: wf_dict_def distinct_map_filter)
  ultimately show ?thesis using t by (simp add: tracked_def get_filter)
qed

lemma tracked_length: "tracked S ks rows \<Longrightarrow> finite S \<Longrightarrow> length rows \<le> card S"
proof -
  assume t: "tracked S ks rows" and S: "finite S"
  have "has_key rows i \<longleftrightarrow> i \<in> set (map fst rows)" for i
    by (simp add: has_key_def map_of_eq_None_iff)
  with t have "set (map fst rows) \<subseteq> S" by (auto simp: tracked_def)
  with S have "card (set (map fst rows)) \<le> card S" by (rule card_mono)
  then show ?thesis using t by (simp add: tracked_def wf_dict_def distinct_card del: set_map)
qed

definition few :: "string set \<Rightarrow> bool" where
  "few S \<longleftrightarrow> finite S \<and> card S \<le> max_tracked_ips"

lemma cap_rows_few: "tracked S ks rows \<Longrightarrow> few S \<Longrightarrow> cap_rows k rows = Inr rows"
  using tracked_length [of S ks rows] by (simp add: cap_rows_def few_def)

text \<open>The age of a row of either table\<close>

definition row_num :: "py \<Rightarrow> string \<Rightarrow> int" where
  "row_num v k = (case get (the_dict v) k of PInt n \<Rightarrow> n | _ \<Rightarrow> 0)"

definition old_failure :: "py \<Rightarrow> int" where
  "old_failure v = row_num v ''last_ts_ms''"

definition old_lockout :: "py \<Rightarrow> int" where
  "old_lockout v = max (row_num v ''last_event_ts_ms'') (row_num v ''until_ts_ms'')"

lemma int_fieldsD: "int_fields ks r \<Longrightarrow> k \<in> set ks \<Longrightarrow> row_int r k = Inr (row_num (PDict r) k)"
  by (auto simp: int_fields_def row_num_def)

lemma ages:
  "int_fields failure_keys r \<Longrightarrow> failure_age r = Inr (old_failure (PDict r))"
  "int_fields lockout_keys r \<Longrightarrow> lockout_age r = Inr (old_lockout (PDict r))"
  using int_fieldsD [of failure_keys r "''last_ts_ms''"] int_fieldsD [of lockout_keys r "''last_event_ts_ms''"]
    int_fieldsD [of lockout_keys r "''until_ts_ms''"]
  by (simp_all add: failure_age_def lockout_age_def old_failure_def old_lockout_def failure_keys_def lockout_keys_def)

lemma tracked_ages:
  "tracked S failure_keys rows \<Longrightarrow> \<forall>x \<in> set rows. \<exists>r. snd x = PDict r \<and> failure_age r = Inr (old_failure (snd x))"
  "tracked S lockout_keys rows \<Longrightarrow> \<forall>x \<in> set rows. \<exists>r. snd x = PDict r \<and> lockout_age r = Inr (old_lockout (snd x))"
  using tracked_row ages by metis+

definition auth_ok :: "string set \<Rightarrow> dict \<Rightarrow> bool" where
  "auth_ok S A \<longleftrightarrow> wf_dict A \<and> tracked S failure_keys (sub_dict A ''failures_by_ip'')
     \<and> tracked S lockout_keys (sub_dict A ''lockouts_by_ip'')"

definition pruned :: "int \<Rightarrow> dict \<Rightarrow> dict" where
  "pruned t A = dput (dput A ''failures_by_ip'' (PDict (filter (\<lambda>x. t - prune_ttl_ms \<le> old_failure (snd x)) (sub_dict A ''failures_by_ip''))))
     ''lockouts_by_ip'' (PDict (filter (\<lambda>x. t - prune_ttl_ms \<le> old_lockout (snd x)) (sub_dict A ''lockouts_by_ip'')))"

lemma prune_maps_run:
  assumes "auth_ok S A" and "few S"
  shows "prune_panel_auth_maps t A = Inr (pruned t A)" and "auth_ok S (pruned t A)"
proof -
  let ?F = "sub_dict A ''failures_by_ip''" and ?L = "sub_dict A ''lockouts_by_ip''"
  have F: "tracked S failure_keys ?F" and L: "tracked S lockout_keys ?L" and A: "wf_dict A"
    using assms(1) by (simp_all add: auth_ok_def)
  have kf: "keep_rows failure_age c ?F = Inr (filter (\<lambda>x. c \<le> old_failure (snd x)) ?F)" for c
    by (rule keep_rows_filter) (rule tracked_ages(1) [OF F])
  have kl: "keep_rows lockout_age c ?L = Inr (filter (\<lambda>x. c \<le> old_lockout (snd x)) ?L)" for c
    by (rule keep_rows_filter) (rule tracked_ages(2) [OF L])
  show "prune_panel_auth_maps t A = Inr (pruned t A)"
    using cap_rows_few [OF tracked_filter [OF F, of "\<lambda>v. t - prune_ttl_ms \<le> old_failure v"] assms(2)]
      cap_rows_few [OF tracked_filter [OF L, of "\<lambda>v. t - prune_ttl_ms \<le> old_lockout v"] assms(2)]
    by (simp add: prune_panel_auth_maps_def kf kl pruned_def)
  show "auth_ok S (pruned t A)"
    using A tracked_filter [OF F, of "\<lambda>v. t - prune_ttl_ms \<le> old_failure v"]
      tracked_filter [OF L, of "\<lambda>v. t - prune_ttl_ms \<le> old_lockout v"] by (simp add: auth_ok_def pruned_def sub_dict_def)
qed

section \<open>What the store shows of one address\<close>

definition shows_failures :: "dict \<Rightarrow> string \<Rightarrow> int \<Rightarrow> int \<Rightarrow> int \<Rightarrow> bool" where
  "shows_failures rows i T c f \<longleftrightarrow> (case get rows i of
     PDict r \<Rightarrow> get r ''count'' = PInt c \<and> get r ''first_ts_ms'' = PInt f \<and> 0 < c \<and> 0 < f
       \<and> f \<le> old_failure (PDict r) \<and> old_failure (PDict r) \<le> T
   | _ \<Rightarrow> c = 0 \<or> window_ms < T - f)"

definition shows_lockout :: "dict \<Rightarrow> string \<Rightarrow> int \<Rightarrow> int \<Rightarrow> bool" where
  "shows_lockout rows i T u \<longleftrightarrow> (case get rows i of PDict r \<Rightarrow> get r ''until_ts_ms'' = PInt u | _ \<Rightarrow> u \<le> T)"

definition shows_guard :: "dict \<Rightarrow> string \<Rightarrow> int \<Rightarrow> guard_state \<Rightarrow> bool" where
  "shows_guard A i T g \<longleftrightarrow> (case g of (c, f, u) \<Rightarrow> 0 \<le> c
     \<and> shows_failures (sub_dict A ''failures_by_ip'') i T c f \<and> shows_lockout (sub_dict A ''lockouts_by_ip'') i T u)"

lemma shows_later:
  "shows_failures rows i T c f \<Longrightarrow> T \<le> t \<Longrightarrow> shows_failures rows i t c f"
  "shows_lockout rows i T u \<Longrightarrow> T \<le> t \<Longrightarrow> shows_lockout rows i t u"
  by (auto simp: shows_failures_def shows_lockout_def split: py.splits)

lemma get_PDict_key: "get d i = PDict r \<Longrightarrow> has_key d i"
  using get_no_key by fastforce

lemma shows_filter_failures:
  assumes "wf_dict rows" and "shows_failures rows i T c f" and "T \<le> t"
  shows "shows_failures (filter (\<lambda>x. t - prune_ttl_ms \<le> old_failure (snd x)) rows) i t c f"
proof (cases "get rows i")
  case (PDict r)
  then have r: "0 < c" "f \<le> old_failure (PDict r)" "old_failure (PDict r) \<le> T"
    "get r ''count'' = PInt c" "get r ''first_ts_ms'' = PInt f" "0 < f"
    using assms(2) by (auto simp: shows_failures_def)
  show ?thesis
    unfolding shows_failures_def
      get_filter(1) [OF assms(1), of "\<lambda>v. t - prune_ttl_ms \<le> old_failure v" i] PDict
    using r assms(3) get_PDict_key [OF PDict] by (simp add: prune_ttl_ms_def window_ms_def)
qed (use assms get_filter(1) [OF assms(1), of "\<lambda>v. t - prune_ttl_ms \<le> old_failure v" i] in
    \<open>auto simp: shows_failures_def split: if_splits\<close>)

lemma shows_filter_lockouts:
  assumes "wf_dict rows" and "shows_lockout rows i T u" and "T \<le> t"
  shows "shows_lockout (filter (\<lambda>x. t - prune_ttl_ms \<le> old_lockout (snd x)) rows) i t u"
proof (cases "get rows i")
  case (PDict r)
  then have "get r ''until_ts_ms'' = PInt u" using assms(2) by (auto simp: shows_lockout_def)
  then show ?thesis
    unfolding shows_lockout_def
      get_filter(1) [OF assms(1), of "\<lambda>v. t - prune_ttl_ms \<le> old_lockout v" i] PDict
    using get_PDict_key [OF PDict] by (simp add: prune_ttl_ms_def old_lockout_def row_num_def le_max_iff_disj)
qed (use assms get_filter(1) [OF assms(1), of "\<lambda>v. t - prune_ttl_ms \<le> old_lockout v" i] in
    \<open>auto simp: shows_lockout_def split: if_splits\<close>)

lemma pruned_sub [simp]:
  "sub_dict (pruned t A) ''failures_by_ip'' = filter (\<lambda>x. t - prune_ttl_ms \<le> old_failure (snd x)) (sub_dict A ''failures_by_ip'')"
  "sub_dict (pruned t A) ''lockouts_by_ip'' = filter (\<lambda>x. t - prune_ttl_ms \<le> old_lockout (snd x)) (sub_dict A ''lockouts_by_ip'')"
  by (simp_all add: pruned_def sub_dict_def)

lemma shows_pruned:
  assumes "auth_ok S A" and "shows_guard A i T g" and "T \<le> t"
  shows "shows_guard (pruned t A) i t g"
proof -
  obtain c f u where g: "g = (c, f, u)" by (cases g)
  have wf: "wf_dict (sub_dict A ''failures_by_ip'')" "wf_dict (sub_dict A ''lockouts_by_ip'')"
    using assms(1) by (simp_all add: auth_ok_def tracked_def)
  have "0 \<le> c" "shows_failures (sub_dict A ''failures_by_ip'') i T c f" "shows_lockout (sub_dict A ''lockouts_by_ip'') i T u"
    using assms(2) by (simp_all add: g shows_guard_def)
  then show ?thesis
    unfolding shows_guard_def g prod.case pruned_sub
    using shows_filter_failures [OF wf(1) _ assms(3)] shows_filter_lockouts [OF wf(2) _ assms(3)] by blast
qed

text \<open>An active lockout is seen, and only an active one.\<close>

lemma lockout_seen:
  assumes "shows_guard A (ip_key ip) T g" and "T \<le> t"
  shows "active_lockout_until_ms ip t A = Inr (if locked t g then Some (snd (snd g)) else None)"
proof -
  obtain c f u where g: "g = (c, f, u)" by (cases g)
  have "shows_lockout (sub_dict A ''lockouts_by_ip'') (ip_key ip) T u" using assms(1) by (simp add: g shows_guard_def)
  with assms(2) show ?thesis
    by (cases "get (sub_dict A ''lockouts_by_ip'') (ip_key ip)")
      (simp_all add: g shows_lockout_def active_lockout_until_ms_def locked_def)
qed

section \<open>Updates\<close>

lemma int_fields_three:
  "distinct [a, b, c] \<Longrightarrow> int_fields [a, b, c] [(a, PInt x), (b, PInt y), (c, PInt z)]"
  by (auto simp: int_fields_def wf_dict_def)

lemma row_fields:
  "\<exists>r. failure_row c f l = PDict r \<and> int_fields failure_keys r"
  "\<exists>r. lockout_row u n l = PDict r \<and> int_fields lockout_keys r"
proof -
  show "\<exists>r. failure_row c f l = PDict r \<and> int_fields failure_keys r"
    unfolding failure_row_def failure_keys_def by (rule exI, rule conjI [OF refl], rule int_fields_three) simp
  show "\<exists>r. lockout_row u n l = PDict r \<and> int_fields lockout_keys r"
    unfolding lockout_row_def lockout_keys_def by (rule exI, rule conjI [OF refl], rule int_fields_three) simp
qed

text \<open>A failure of the address itself: first the row that is read\<close>

definition failure_of :: "dict \<Rightarrow> string \<Rightarrow> int \<Rightarrow> dict" where
  "failure_of F i t = (case get F i of PDict r \<Rightarrow> r | _ \<Rightarrow> the_dict (failure_row 0 t t))"

lemma failure_reading:
  assumes "tracked S failure_keys F" and "shows_failures F i T c f" and "T \<le> t" "0 < t"
  obtains n f0 where "int_value (get (failure_of F i t) ''first_ts_ms'') t = Inr f0"
    "row_int (failure_of F i t) ''count'' = Inr n"
    "(if t - f0 > window_ms then (1, t) else (n + 1, f0)) = (if c = 0 \<or> t - f > window_ms then (1, t) else (c + 1, f))"
proof (cases "get F i = PNone")
  case True
  have "c = 0 \<or> t - f > window_ms" using assms(2,3) True by (auto simp: shows_failures_def)
  moreover have "int_value (get (failure_of F i t) ''first_ts_ms'') t = Inr t" "row_int (failure_of F i t) ''count'' = Inr 0"
    using True assms(4) by (simp_all add: failure_of_def failure_row_def)
  ultimately show thesis by (intro that [of t 0]) (auto simp: window_ms_def)
next
  case False
  then obtain r where r: "get F i = PDict r" using tracked_get [OF assms(1), of i] by blast
  then have "get r ''count'' = PInt c" "get r ''first_ts_ms'' = PInt f" "0 < c" "0 < f"
    using assms(2) by (simp_all add: shows_failures_def)
  then show thesis using r by (intro that [of f c]) (auto simp: failure_of_def)
qed

lemma failure_present:
  "shows_failures F i T c f \<Longrightarrow> c \<noteq> 0 \<Longrightarrow> \<not> window_ms < t - f \<Longrightarrow> T \<le> t \<Longrightarrow> 0 < f \<and> f \<le> t"
  by (cases "get F i") (simp_all add: shows_failures_def)

lemma count_failure_run:
  assumes F: "tracked S failure_keys F" and L: "tracked S lockout_keys L" and i: "i \<in> S"
    and sh: "shows_failures F i T c f" "shows_lockout L i T u" "0 \<le> c" and t: "T \<le> t" "0 < t"
  shows "\<exists>F' L'. count_failure i t F L = Inr (F', L') \<and> tracked S failure_keys F' \<and> tracked S lockout_keys L'
    \<and> (case fail_step t (c, f, u) of (c', f', u') \<Rightarrow> 0 \<le> c' \<and> shows_failures F' i t c' f' \<and> shows_lockout L' i t u')
    \<and> (\<forall>j. j \<noteq> i \<longrightarrow> get F' j = get F j \<and> get L' j = get L j)"
proof -
  obtain c' f' where cf: "(if c = 0 \<or> t - f > window_ms then (1, t) else (c + 1, f)) = (c', f')" by fastforce
  let ?F = "dput F i (failure_row c' f' t)"
  let ?full = "c' \<ge> panel_auth_fail_threshold"
  obtain n0 f0 where read: "int_value (get (failure_of F i t) ''first_ts_ms'') t = Inr f0"
      "row_int (failure_of F i t) ''count'' = Inr n0"
      "(if t - f0 > window_ms then (1, t) else (n0 + 1, f0)) = (c', f')"
    using failure_reading [OF F sh(1) t] cf by metis
  have cnt: "count_failure i t F L = (if ?full then
      bindR (case get L i of PDict prev \<Rightarrow> row_int prev ''count'' | _ \<Rightarrow> Inr 0) (\<lambda>n.
        Inr (?F, dput L i (lockout_row (t + lockout_ms) (n + 1) t)))
      else Inr (?F, L))"
    unfolding count_failure_def Let_def failure_of_def [symmetric] read(1,2) bindR_Inr read(3) prod.case ..
  obtain n where n: "(case get L i of PDict prev \<Rightarrow> row_int prev ''count'' | _ \<Rightarrow> Inr 0) = Inr n"
    using tracked_get [OF L, of i] by (auto simp: int_fields_def lockout_keys_def)
  let ?L = "if ?full then dput L i (lockout_row (t + lockout_ms) (n + 1) t) else L"
  have run: "count_failure i t F L = Inr (?F, ?L)" using n by (simp add: cnt)
  have "tracked S failure_keys ?F"
    by (rule tracked_dput [OF F i row_fields(1)])
  moreover have "tracked S lockout_keys ?L"
    using tracked_dput [OF L i row_fields(2)] L by simp
  moreover have c': "0 < c'" "0 < f'" "f' \<le> t"
  proof -
    have "0 < f \<and> f \<le> t" if "c \<noteq> 0" "\<not> t - f > window_ms"
      using failure_present [OF sh(1) _ _ t(1)] that by simp
    then show "0 < c'" "0 < f'" "f' \<le> t" using cf sh(3) t by (auto split: if_splits)
  qed
  moreover from c' have "shows_failures ?F i t c' f'"
    by (simp add: shows_failures_def failure_row_def old_failure_def row_num_def)
  moreover have "shows_lockout ?L i t (if ?full then t + lockout_ms else u)"
    using shows_later(2) [OF sh(2) t(1)] by (simp add: shows_lockout_def lockout_row_def)
  moreover have "fail_step t (c, f, u) = (c', f', if ?full then t + lockout_ms else u)"
    unfolding fail_step_def prod.case cf Let_def ..
  moreover have "\<forall>j. j \<noteq> i \<longrightarrow> get ?F j = get F j \<and> get ?L j = get L j" by simp
  ultimately show ?thesis using run by (intro exI [of _ ?F] exI [of _ ?L]) simp
qed

text \<open>A success of the address itself\<close>

lemma forget_success_run:
  assumes F: "tracked S failure_keys F" and L: "tracked S lockout_keys L"
    and sh: "shows_lockout L i T u" and t: "T \<le> t" "u \<le> t"
  shows "\<exists>F' L'. forget_success i t F L = Inr (F', L') \<and> tracked S failure_keys F' \<and> tracked S lockout_keys L'
    \<and> shows_failures F' i t 0 f \<and> shows_lockout L' i t u
    \<and> (\<forall>j. j \<noteq> i \<longrightarrow> get F' j = get F j \<and> get L' j = get L j)"
proof -
  have "shows_failures (dpop F i) i t 0 f" by (simp add: shows_failures_def)
  moreover have "shows_lockout (dpop L i) i t u" using t by (simp add: shows_lockout_def)
  moreover have "forget_success i t F L = Inr (dpop F i, if get L i = PNone then L else dpop L i)"
    using sh t(2) tracked_get [OF L, of i] by (auto simp: forget_success_def shows_lockout_def)
  moreover have "get L i = PNone \<Longrightarrow> shows_lockout L i t u" using t by (simp add: shows_lockout_def)
  ultimately show ?thesis using tracked_dpop [OF F] tracked_dpop [OF L] L by auto
qed

end
