(* ===== verification/Panel_Laws.thy ===== *)
theory Panel_Laws
  imports Panel_Store_Laws Simulation Guarantees
begin

text \<open>
  The requests to the panel refine the abstract machines of their addresses: the health file shows, for
  every address, the state of its machine, whatever counters and events are recorded in between.
\<close>

section \<open>The store as a whole\<close>

definition shows_all :: "dict \<Rightarrow> int \<Rightarrow> (string \<Rightarrow> guard_state) \<Rightarrow> bool" where
  "shows_all A T G \<longleftrightarrow> (\<forall>i. shows_guard A i T (G i))"

lemma shows_all_parts:
  "shows_all A T G \<longleftrightarrow> (\<forall>i. 0 \<le> fst (G i) \<and> shows_failures (sub_dict A ''failures_by_ip'') i T (fst (G i)) (fst (snd (G i)))
     \<and> shows_lockout (sub_dict A ''lockouts_by_ip'') i T (snd (snd (G i))))"
  by (simp add: shows_all_def shows_guard_def case_prod_beta)

lemma shows_all_empty: "0 \<le> T \<Longrightarrow> shows_all [] T (\<lambda>_. (0, 0, 0))"
  by (simp add: shows_all_parts sub_dict_def shows_failures_def shows_lockout_def)

lemma shows_all_pruned: "auth_ok S A \<Longrightarrow> shows_all A T G \<Longrightarrow> T \<le> t \<Longrightarrow> shows_all (pruned t A) t G"
  unfolding shows_all_def using shows_pruned by blast

lemma shows_unchanged:
  "get rows' i = get rows i \<Longrightarrow> shows_failures rows' i T c f = shows_failures rows i T c f"
  "get rows' i = get rows i \<Longrightarrow> shows_lockout rows' i T u = shows_lockout rows i T u"
  by (simp_all add: shows_failures_def shows_lockout_def)

definition with_maps :: "dict \<Rightarrow> dict \<Rightarrow> dict \<Rightarrow> dict" where
  "with_maps A F L = dput (dput A ''failures_by_ip'' (PDict F)) ''lockouts_by_ip'' (PDict L)"

lemma with_maps_sub [simp]:
  "sub_dict (with_maps A F L) ''failures_by_ip'' = F" "sub_dict (with_maps A F L) ''lockouts_by_ip'' = L"
  by (simp_all add: with_maps_def sub_dict_def)

lemma auth_ok_with_maps:
  "auth_ok S A \<Longrightarrow> tracked S failure_keys F \<Longrightarrow> tracked S lockout_keys L \<Longrightarrow> auth_ok S (with_maps A F L)"
  by (simp add: auth_ok_def) (simp add: with_maps_def)

text \<open>The new maps differ from the old ones at one address, where they show its new state.\<close>

lemma shows_all_with_maps:
  assumes "shows_all A T G" and "T \<le> t" and "0 \<le> fst g" "shows_failures F j t (fst g) (fst (snd g))" "shows_lockout L j t (snd (snd g))"
    and same: "\<forall>i. i \<noteq> j \<longrightarrow> get F i = get (sub_dict A ''failures_by_ip'') i \<and> get L i = get (sub_dict A ''lockouts_by_ip'') i"
  shows "shows_all (with_maps A F L) t (G(j := g))"
  unfolding shows_all_parts with_maps_sub
proof
  fix i
  have later: "0 \<le> fst (G i)" "shows_failures (sub_dict A ''failures_by_ip'') i t (fst (G i)) (fst (snd (G i)))"
    "shows_lockout (sub_dict A ''lockouts_by_ip'') i t (snd (snd (G i)))"
    using assms(1,2) shows_later unfolding shows_all_parts by blast+
  show "0 \<le> fst ((G(j := g)) i) \<and> shows_failures F i t (fst ((G(j := g)) i)) (fst (snd ((G(j := g)) i)))
     \<and> shows_lockout L i t (snd (snd ((G(j := g)) i)))"
  proof (cases "i = j")
    case False
    with later same show ?thesis
      using shows_unchanged(1) [of F i "sub_dict A ''failures_by_ip''" t "fst (G i)" "fst (snd (G i))"]
        shows_unchanged(2) [of L i "sub_dict A ''lockouts_by_ip''" t "snd (snd (G i))"] by simp
  qed (use assms(3-5) in simp)
qed

definition heard_step :: "bool \<Rightarrow> int \<Rightarrow> guard_state \<Rightarrow> guard_state" where
  "heard_step ok t g = (if ok then (0, snd g) else fail_step t g)"

lemma update_auth:
  assumes A: "auth_ok S A" "few S" "ip_key ip \<in> S" and G: "shows_all A T G" "T \<le> t" "0 < t"
    and open_door: "ok \<Longrightarrow> \<not> locked t (G (ip_key ip))"
    and payload: "sub_dict d ''panel_auth'' = A"
  shows "\<exists>A'. apply_panel_auth_state_update ip t ok d = Inr (put_auth d A' t) \<and> auth_ok S A'
    \<and> shows_all A' t (G(ip_key ip := heard_step ok t (G (ip_key ip))))"
proof -
  let ?P = "pruned t A" and ?i = "ip_key ip"
  let ?F = "sub_dict ?P ''failures_by_ip''" and ?L = "sub_dict ?P ''lockouts_by_ip''"
  note P = prune_maps_run [OF A(1,2), of t] and PG = shows_all_pruned [OF A(1) G(1,2)]
  obtain c f u where g: "G ?i = (c, f, u)" by (cases "G ?i")
  have F: "tracked S failure_keys ?F" and L: "tracked S lockout_keys ?L" using P(2) by (simp_all only: auth_ok_def)
  have sh: "shows_failures ?F ?i t c f" "shows_lockout ?L ?i t u" "0 \<le> c"
    using PG g unfolding shows_all_parts by (metis fst_conv snd_conv)+
  have maps: "\<exists>F' L'. (if ok then forget_success else count_failure) ?i t ?F ?L = Inr (F', L')
      \<and> tracked S failure_keys F' \<and> tracked S lockout_keys L'
      \<and> 0 \<le> fst (heard_step ok t (c, f, u))
      \<and> shows_failures F' ?i t (fst (heard_step ok t (c, f, u))) (fst (snd (heard_step ok t (c, f, u))))
      \<and> shows_lockout L' ?i t (snd (snd (heard_step ok t (c, f, u))))
      \<and> (\<forall>j. j \<noteq> ?i \<longrightarrow> get F' j = get ?F j \<and> get L' j = get ?L j)"
  proof (cases ok)
    case True
    then have "u \<le> t" using open_door g by (simp add: locked_def)
    from forget_success_run [OF F L sh(2) order_refl this, of f] True show ?thesis
      by (simp only: heard_step_def if_True fst_conv snd_conv) blast
  next
    case False
    from count_failure_run [OF F L A(3) sh order_refl G(3)] False show ?thesis
      by (simp only: heard_step_def if_False case_prod_beta) blast
  qed
  then obtain F' L' where run: "(if ok then forget_success else count_failure) ?i t ?F ?L = Inr (F', L')"
      and F': "tracked S failure_keys F'" and L': "tracked S lockout_keys L'"
      and new: "0 \<le> fst (heard_step ok t (G ?i))"
        "shows_failures F' ?i t (fst (heard_step ok t (G ?i))) (fst (snd (heard_step ok t (G ?i))))"
        "shows_lockout L' ?i t (snd (snd (heard_step ok t (G ?i))))"
      and same: "\<forall>j. j \<noteq> ?i \<longrightarrow> get F' j = get ?F j \<and> get L' j = get ?L j" unfolding g by blast
  have "apply_panel_auth_state_update ip t ok d = Inr (put_auth d (with_maps ?P F' L') t)"
    unfolding apply_panel_auth_state_update_def payload P(1) bindR_Inr run prod.case with_maps_def ..
  moreover have "auth_ok S (with_maps ?P F' L')" by (rule auth_ok_with_maps [OF P(2) F' L'])
  moreover have "shows_all (with_maps ?P F' L') t (G(?i := heard_step ok t (G ?i)))"
    by (rule shows_all_with_maps [OF PG order_refl new same])
  ultimately show ?thesis by blast
qed

section \<open>Sorted keys\<close>

lemma sub_sorted: "wf_dict A \<Longrightarrow> sub_dict (sorted_dict A) k = sorted_dict (sub_dict A k)"
proof -
  have nil: "sorted_dict [] = []" by simp
  show "wf_dict A \<Longrightarrow> sub_dict (sorted_dict A) k = sorted_dict (sub_dict A k)"
    by (cases "get A k") (simp_all add: sub_dict_def get_sorted nil)
qed

lemma auth_ok_sorted: "auth_ok S A \<Longrightarrow> auth_ok S (sorted_dict A)"
  by (simp add: auth_ok_def sub_sorted tracked_sorted)

lemma row_num_sorted: "wf_dict r \<Longrightarrow> get r k = PInt n \<Longrightarrow> row_num (PDict (sorted_dict r)) k = row_num (PDict r) k"
  by (simp add: row_num_def get_sorted)

lemma shows_sorted:
  "tracked S failure_keys F \<Longrightarrow> shows_failures F i T c f \<Longrightarrow> shows_failures (sorted_dict F) i T c f"
  "tracked S lockout_keys L \<Longrightarrow> shows_lockout L i T u \<Longrightarrow> shows_lockout (sorted_dict L) i T u"
proof -
  assume F: "tracked S failure_keys F" "shows_failures F i T c f"
  then have wf: "wf_dict F" by (simp add: tracked_def)
  show "shows_failures (sorted_dict F) i T c f"
  proof (cases "get F i = PNone")
    case False
    then obtain r where r: "get F i = PDict r" "int_fields failure_keys r" using tracked_get [OF F(1), of i] by blast
    then have "wf_dict r" "\<exists>n. get r ''last_ts_ms'' = PInt n" by (simp_all add: int_fields_def failure_keys_def)
    then have "old_failure (PDict (sorted_dict r)) = old_failure (PDict r)"
      unfolding old_failure_def using row_num_sorted by blast
    with F(2) r \<open>wf_dict r\<close> wf show ?thesis by (simp add: shows_failures_def get_sorted)
  qed (use F wf in \<open>simp add: shows_failures_def get_sorted\<close>)
next
  assume L: "tracked S lockout_keys L" "shows_lockout L i T u"
  then have wf: "wf_dict L" by (simp add: tracked_def)
  show "shows_lockout (sorted_dict L) i T u"
  proof (cases "get L i = PNone")
    case False
    then obtain r where r: "get L i = PDict r" "int_fields lockout_keys r" using tracked_get [OF L(1), of i] by blast
    then have "wf_dict r" by (simp add: int_fields_def)
    with L(2) r wf show ?thesis by (simp add: shows_lockout_def get_sorted)
  qed (use L wf in \<open>simp add: shows_lockout_def get_sorted\<close>)
qed

lemma shows_all_sorted: "auth_ok S A \<Longrightarrow> shows_all A T G \<Longrightarrow> shows_all (sorted_dict A) T G"
  unfolding shows_all_parts auth_ok_def using shows_sorted by (simp add: sub_sorted) blast

section \<open>The file\<close>

definition panel_dict :: "health_env \<Rightarrow> string set \<Rightarrow> int \<Rightarrow> (string \<Rightarrow> guard_state) \<Rightarrow> dict \<Rightarrow> bool" where
  "panel_dict env S T G d \<longleftrightarrow> auth_ok S (sub_dict d ''panel_auth'') \<and> shows_all (sub_dict d ''panel_auth'') T G
     \<and> counts (sub_dict d ''counters'')"

definition panel_file :: "health_env \<Rightarrow> string set \<Rightarrow> int \<Rightarrow> (string \<Rightarrow> guard_state) \<Rightarrow> py option \<Rightarrow> bool" where
  "panel_file env S T G f \<longleftrightarrow> (\<exists>d. normalize_health env (file_dict f) = Inr d \<and> normal env d \<and> wf_dict d
     \<and> panel_dict env S T G d)"

text \<open>An update of a health file from a settled dictionary\<close>

lemma panel_update:
  assumes ok: "float_ok env" and f: "normalize_health env (file_dict f) = Inr d" "normal env d" and u: "upd d = Inr u"
    and s: "settled env u" "get u ''consecutive_brain_failures'' = get d ''consecutive_brain_failures''" "wf_dict u"
    and p: "panel_dict env S T G u"
  shows "\<exists>n. update_health env upd f = (Inr n, Some (PDict (sorted_dict n))) \<and> sub_dict n ''panel_auth'' = sub_dict u ''panel_auth''
    \<and> panel_file env S T G (Some (PDict (sorted_dict n)))"
proof -
  obtain k where k: "0 \<le> k" "get d ''consecutive_brain_failures'' = PInt k" using f(2) by (auto simp: normal_def)
  let ?n = "refreshed env k u"
  have n: "normal env ?n" "wf_dict ?n" using s k by (auto intro: refreshed_normal refreshed_wf)
  have same: "sub_dict ?n ''panel_auth'' = sub_dict u ''panel_auth''" "sub_dict ?n ''counters'' = sub_dict u ''counters''"
    by (simp_all add: sub_dict_def refreshed_get)
  have "update_health env upd f = (Inr ?n, Some (PDict (sorted_dict ?n)))"
    by (rule update_health_settled [where upd = upd and u = u, OF f(1)]) (use u s(1,2) k in simp_all)
  moreover have "panel_dict env S T G (sorted_dict ?n)"
    unfolding panel_dict_def sub_sorted [OF n(2)] same
    using p auth_ok_sorted shows_all_sorted counts_sorted unfolding panel_dict_def by blast
  then have "panel_file env S T G (Some (PDict (sorted_dict ?n)))"
    using normal_fixed [OF normal_sorted [OF ok n]] normal_sorted [OF ok n] n(2)
    by (auto simp: panel_file_def file_dict_def)
  ultimately show ?thesis using same by blast
qed

lemma own_fields:
  "(''panel_auth'', dict_field) \<in> set (health_fields env)" "(''counters'', dict_field) \<in> set (health_fields env)"
  "(''updated_at_ms'', stamp_field) \<in> set (health_fields env)" "(''last_error'', text_field) \<in> set (health_fields env)"
  "(''last_error_ts_ms'', stamp_field) \<in> set (health_fields env)"
  by (simp_all add: health_fields_def)

lemma settled_put_auth: "settled env d \<Longrightarrow> t \<noteq> 0 \<Longrightarrow> settled env (put_auth d A t)"
  unfolding put_auth_def
  by (intro settled_own [OF _ own_fields(3)] settled_own [OF _ own_fields(1)]) (simp_all add: dict_field_def)

lemma put_auth_sub [simp]:
  "sub_dict (put_auth d A t) ''panel_auth'' = A" "sub_dict (put_auth d A t) ''counters'' = sub_dict d ''counters''"
  by (simp_all add: put_auth_def sub_dict_def)

lemma panel_auth_put:
  assumes ok: "float_ok env" and f: "normalize_health env (file_dict f) = Inr d" "normal env d" "wf_dict d" and t: "t \<noteq> 0"
    and u: "upd d = Inr (put_auth d A t)" and A: "auth_ok S A" "shows_all A t G" and c: "counts (sub_dict d ''counters'')"
  shows "\<exists>n f'. update_health env upd f = (Inr n, f') \<and> sub_dict n ''panel_auth'' = A \<and> panel_file env S t G f'"
proof -
  have "settled env d" using f(2) by (simp add: normal_def)
  then have "settled env (put_auth d A t)" using t by (rule settled_put_auth)
  moreover have "get (put_auth d A t) ''consecutive_brain_failures'' = get d ''consecutive_brain_failures''"
    "wf_dict (put_auth d A t)" using f(3) by (simp_all add: put_auth_def)
  moreover have "panel_dict env S t G (put_auth d A t)" using A c by (simp add: panel_dict_def)
  ultimately show ?thesis using panel_update [where upd = upd and u = "put_auth d A t", OF ok f(1,2) u] by fastforce
qed

text \<open>Pruning at the door, and counting an attempt\<close>

lemma prune_file:
  assumes "float_ok env" "few S" "panel_file env S T G f" "T \<le> t" "0 < t"
  shows "\<exists>n f'. update_health env (apply_panel_auth_state_prune t) f = (Inr n, f') \<and> panel_file env S t G f'
    \<and> shows_all (sub_dict n ''panel_auth'') t G"
proof -
  obtain d where d: "normalize_health env (file_dict f) = Inr d" "normal env d" "wf_dict d"
    and A: "auth_ok S (sub_dict d ''panel_auth'')" "shows_all (sub_dict d ''panel_auth'') T G"
    and c: "counts (sub_dict d ''counters'')"
    using assms(3) by (auto simp: panel_file_def panel_dict_def)
  note P = prune_maps_run [OF A(1) assms(2), of t] and PG = shows_all_pruned [OF A assms(4)]
  have "apply_panel_auth_state_prune t d = Inr (put_auth d (pruned t (sub_dict d ''panel_auth'')) t)"
    unfolding apply_panel_auth_state_prune_def P(1) by simp
  from panel_auth_put [where upd = "apply_panel_auth_state_prune t", OF assms(1) d _ this P(2) PG c] assms(5) PG show ?thesis by fastforce
qed

lemma attempt_file:
  assumes "float_ok env" "few S" "ip_key ip \<in> S" "panel_file env S T G f" "T \<le> t" "0 < t"
    and "ok \<Longrightarrow> \<not> locked t (G (ip_key ip))"
  shows "\<exists>n f'. update_health env (apply_panel_auth_state_update ip t ok) f = (Inr n, f')
    \<and> panel_file env S t (G(ip_key ip := heard_step ok t (G (ip_key ip)))) f'
    \<and> shows_all (sub_dict n ''panel_auth'') t (G(ip_key ip := heard_step ok t (G (ip_key ip))))"
proof -
  obtain d where d: "normalize_health env (file_dict f) = Inr d" "normal env d" "wf_dict d"
    and A: "auth_ok S (sub_dict d ''panel_auth'')" "shows_all (sub_dict d ''panel_auth'') T G"
    and c: "counts (sub_dict d ''counters'')"
    using assms(4) by (auto simp: panel_file_def panel_dict_def)
  from update_auth [OF A(1) assms(2,3) A(2) assms(5,6,7) refl] obtain A'
    where u: "apply_panel_auth_state_update ip t ok d = Inr (put_auth d A' t)" and A': "auth_ok S A'"
      "shows_all A' t (G(ip_key ip := heard_step ok t (G (ip_key ip))))" by blast
  from panel_auth_put [where upd = "apply_panel_auth_state_update ip t ok", OF assms(1) d _ u A' c] assms(6) A'(2) show ?thesis by fastforce
qed

end
