(* ===== verification/Panel_Requests.thy ===== *)
theory Panel_Requests
  imports Panel_Laws
begin

text \<open>
  Whole requests: counters and events leave the panel's state alone, a request moves the machine of its
  address by one step and every other one not at all, and it is answered only when its credentials are
  right and its address is not locked.
\<close>

section \<open>Programs that leave the state of the panel alone\<close>

definition clock_ok :: "panel_env \<Rightarrow> bool" where
  "clock_ok env \<longleftrightarrow> float_ok (pe_health env) \<and> (\<forall>f. pe_clock env f \<noteq> 0)"

lemma counter_file:
  assumes ok: "float_ok env" and f: "panel_file env S T G f" and t: "now_ms \<noteq> 0"
    and err: "\<And>e. last_error = Some e \<Longrightarrow> strip e = e \<and> e \<noteq> []"
  obtains n f' where "increment_health_counter_file env now_ms key amount last_error f = (Inr n, f')" "panel_file env S T G f'"
proof -
  obtain d where d: "normalize_health env (file_dict f) = Inr d" "normal env d" "wf_dict d" and p: "panel_dict env S T G d"
    using f by (auto simp: panel_file_def)
  obtain c where c: "bump (the_dict (get d ''counters'')) key amount = Inr c" "counts c"
    using p unfolding panel_dict_def sub_dict_def by (metis bump_counts)
  let ?e = "stamp_update now_ms (dput d ''counters'' (PDict c))"
  let ?u = "if last_error \<noteq> None \<and> last_error \<noteq> Some []
    then dput (dput ?e ''last_error'' (popt last_error)) ''last_error_ts_ms'' (PInt now_ms) else ?e"
  have "settled env d" using d(2) by (simp add: normal_def)
  then have e: "settled env ?e" unfolding stamp_update_def
    using t by (intro settled_own [OF _ own_fields(3)] settled_own [OF _ own_fields(2)]) (simp_all add: dict_field_def)
  have u: "settled env ?u"
  proof (cases last_error)
    case (Some le)
    with err text_field_fixed [of le] e t show ?thesis
      by (simp add: settled_own [OF settled_own [OF e own_fields(4)] own_fields(5)])
  qed (use e in simp)
  have same: "sub_dict ?u ''panel_auth'' = sub_dict d ''panel_auth''" "sub_dict ?u ''counters'' = c"
    by (simp_all add: stamp_update_def sub_dict_def)
  have "panel_dict env S T G ?u" using p c(2) unfolding panel_dict_def same by blast
  moreover have "get ?u ''consecutive_brain_failures'' = get d ''consecutive_brain_failures''" "wf_dict ?u"
    using d(3) by (simp_all add: stamp_update_def)
  ultimately have "\<exists>n f'. increment_health_counter_file env now_ms key amount last_error f = (Inr n, f') \<and> panel_file env S T G f'"
    using panel_update [where upd = "\<lambda>d. bindR (bump (the_dict (get d ''counters'')) key amount) (\<lambda>c.
      let e = stamp_update now_ms (dput d ''counters'' (PDict c)) in
      Inr (if last_error \<noteq> None \<and> last_error \<noteq> Some []
        then dput (dput e ''last_error'' (popt last_error)) ''last_error_ts_ms'' (PInt now_ms) else e))"
      and u = ?u, OF ok d(1,2) _ u] c(1)
    unfolding increment_health_counter_file_def Let_def by fastforce
  with that show thesis by blast
qed

lemma on_file_run: "on_file m s = (fst (m (pn_file s)), s\<lparr>pn_file := snd (m (pn_file s))\<rparr>)"
  by (simp add: on_file_def case_prod_beta)

definition answers :: "health_env \<Rightarrow> string set \<Rightarrow> int \<Rightarrow> (string \<Rightarrow> guard_state) \<Rightarrow> ('a, panel) prog \<Rightarrow> 'a result \<Rightarrow> bool" where
  "answers env S T G m r \<longleftrightarrow> (\<forall>s. panel_file env S T G (pn_file s) \<longrightarrow>
     fst (m s) = r \<and> panel_file env S T G (pn_file (snd (m s))))"

lemma answers_then: "answers env S T G m (Inr x) \<Longrightarrow> answers env S T G n r \<Longrightarrow> answers env S T G (thenM m n) r"
  unfolding answers_def thenM_def bindM_def by (auto simp: case_prod_beta split: sum.split)

lemma answers_counter:
  assumes "clock_ok env" and "\<And>e. last_error = Some e \<Longrightarrow> strip e = e \<and> e \<noteq> []"
  shows "answers (pe_health env) S T G (panel_security_counter_incr env key last_error) (Inr ())"
  unfolding answers_def
proof (intro allI impI)
  fix s :: panel assume "panel_file (pe_health env) S T G (pn_file s)"
  from counter_file [OF _ this _ assms(2)] assms(1) obtain n f'
    where "increment_health_counter_file (pe_health env) (pe_clock env (pn_file s)) key 1 last_error (pn_file s) = (Inr n, f')"
      "panel_file (pe_health env) S T G f'" unfolding clock_ok_def by metis
  then show "fst (panel_security_counter_incr env key last_error s) = Inr ()
    \<and> panel_file (pe_health env) S T G (pn_file (snd (panel_security_counter_incr env key last_error s)))"
    by (simp add: panel_security_counter_incr_def panel_clock_def bindM_def on_file_run)
qed

definition http :: "nat \<Rightarrow> string \<Rightarrow> 'a result" where
  "http status detail = Inl (Exc (OtherError (''HTTPException '' @ nat_str status)) detail)"

lemma answers_event:
  "answers henv S T G (panel_log e) (Inr ())"
  "answers henv S T G (log_panel_security_event env rq ev reason status) (Inr ())"
  "answers henv S T G (http_error n d) (http n d)"
  by (simp_all add: answers_def panel_log_def log_panel_security_event_def panel_clock_def http_error_def http_def)

lemma last_errors:
  "Some ''operator password missing'' = Some e \<Longrightarrow> strip e = e \<and> e \<noteq> []"
  "Some ''missing authorization'' = Some e \<Longrightarrow> strip e = e \<and> e \<noteq> []"
  "Some ''invalid authentication scheme'' = Some e \<Longrightarrow> strip e = e \<and> e \<noteq> []"
  "Some ''invalid authorization header'' = Some e \<Longrightarrow> strip e = e \<and> e \<noteq> []"
  "Some ''invalid operator credentials'' = Some e \<Longrightarrow> strip e = e \<and> e \<noteq> []"
  "None = Some e \<Longrightarrow> strip e = e \<and> e \<noteq> []"
proof -
  have "strip ''operator password missing'' = ''operator password missing'' \<and>
    strip ''missing authorization'' = ''missing authorization'' \<and>
    strip ''invalid authentication scheme'' = ''invalid authentication scheme'' \<and>
    strip ''invalid authorization header'' = ''invalid authorization header'' \<and>
    strip ''invalid operator credentials'' = ''invalid operator credentials''"
    by code_simp
  then show "Some ''operator password missing'' = Some e \<Longrightarrow> strip e = e \<and> e \<noteq> []"
    "Some ''missing authorization'' = Some e \<Longrightarrow> strip e = e \<and> e \<noteq> []"
    "Some ''invalid authentication scheme'' = Some e \<Longrightarrow> strip e = e \<and> e \<noteq> []"
    "Some ''invalid authorization header'' = Some e \<Longrightarrow> strip e = e \<and> e \<noteq> []"
    "Some ''invalid operator credentials'' = Some e \<Longrightarrow> strip e = e \<and> e \<noteq> []" by auto
qed simp

lemma answers_counters:
  assumes "clock_ok env"
  shows "answers (pe_health env) S T G (panel_security_counter_incr env key (Some ''operator password missing'')) (Inr ())"
    "answers (pe_health env) S T G (panel_security_counter_incr env key (Some ''missing authorization'')) (Inr ())"
    "answers (pe_health env) S T G (panel_security_counter_incr env key (Some ''invalid authentication scheme'')) (Inr ())"
    "answers (pe_health env) S T G (panel_security_counter_incr env key (Some ''invalid authorization header'')) (Inr ())"
    "answers (pe_health env) S T G (panel_security_counter_incr env key (Some ''invalid operator credentials'')) (Inr ())"
    "answers (pe_health env) S T G (panel_security_counter_incr env key None) (Inr ())"
  by (rule answers_counter [OF assms], rule last_errors, assumption)+

section \<open>What never answers\<close>

definition never :: "('a, 's) prog \<Rightarrow> bool" where
  "never m \<longleftrightarrow> (\<forall>s x. fst (m s) \<noteq> Inr x)"

lemma never_bind: "(\<And>x. never (k x)) \<Longrightarrow> never (bindM m k)"
  unfolding never_def bindM_def by (auto split: prod.split sum.split)

lemma never_then: "never n \<Longrightarrow> never (thenM m n)"
  unfolding thenM_def by (rule never_bind)

lemma never_http: "never (http_error n d)"
  by (simp add: never_def http_error_def)

lemma never_refused:
  "never too_many" "never (missing_authorization env rq)" "never (refuse_header env rq d r)"
  "never (refuse_credentials env rq)" "never (no_password env rq)" "never (refuse_csrf env rq e v r)"
  unfolding too_many_def missing_authorization_def refuse_header_def refuse_credentials_def no_password_def refuse_csrf_def
  by (intro never_http never_then never_bind; simp add: case_prod_beta; intro conjI impI never_then never_http)+

section \<open>One request\<close>

text \<open>What a request is to the machine of its address: Aside when the panel has no password, or when the
  comparison raises.\<close>

definition attempt_of :: "panel_env \<Rightarrow> request \<Rightarrow> attempt" where
  "attempt_of env rq = (case pe_password env of None \<Rightarrow> Aside | Some pw \<Rightarrow> if pw = [] then Aside else
     (case rq_authorization rq of None \<Rightarrow> Wrong | Some a \<Rightarrow> if a = [] then Wrong else
       let (scheme, token) = partition_at CHR '' '' a in
       if lower scheme \<noteq> ''basic'' \<or> token = [] then Wrong
       else (case decode_token token of None \<Rightarrow> Wrong | Some decoded \<Rightarrow>
         (case credentials_match decoded (pe_user env) pw of Inl e \<Rightarrow> Aside | Inr ok \<Rightarrow> if ok then Right else Wrong))))"

text \<open>The answer to a wrong attempt, when the failure was counted and its address is locked or not\<close>

definition refusal :: "request \<Rightarrow> bool \<Rightarrow> unit result" where
  "refusal rq now_locked = (case rq_authorization rq of None \<Rightarrow> http 401 ''operator authentication required''
   | Some a \<Rightarrow> if a = [] then http 401 ''operator authentication required''
     else let (scheme, token) = partition_at CHR '' '' a in
       if lower scheme \<noteq> ''basic'' \<or> token = [] then http 401 ''invalid authentication scheme''
       else if decode_token token = None then http 401 ''invalid authorization header''
       else if now_locked then http 429 ''too many authentication attempts''
       else http 401 ''invalid operator credentials'')"

definition counts_failure :: "panel_env \<Rightarrow> request \<Rightarrow> (unit, panel) prog \<Rightarrow> (bool \<Rightarrow> unit result) \<Rightarrow> bool" where
  "counts_failure env rq m r \<longleftrightarrow> (\<exists>k. m = bindM (panel_auth_state_update env rq False) k
     \<and> (\<forall>S G n. shows_all (sub_dict n ''panel_auth'') (rq_now_ms rq) G \<longrightarrow>
         answers (pe_health env) S (rq_now_ms rq) G (k n) (r (locked (rq_now_ms rq) (G (ip_key (client_ip env rq)))))))"

lemma counts_then:
  "(\<And>S G. answers (pe_health env) S (rq_now_ms rq) G n r) \<Longrightarrow>
   counts_failure env rq (thenM (panel_auth_state_update env rq False) n) (\<lambda>_. r)"
  unfolding counts_failure_def thenM_def by blast

lemma snapshot_seen:
  assumes "shows_guard A (ip_key ip) t g" and "0 < t"
  obtains c u where "auth_failure_snapshot ip A = Inr (c, u)" "t < u \<longleftrightarrow> locked t g"
proof -
  obtain n f v where g: "g = (n, f, v)" by (cases g)
  have sh: "shows_failures (sub_dict A ''failures_by_ip'') (ip_key ip) t n f" "shows_lockout (sub_dict A ''lockouts_by_ip'') (ip_key ip) t v"
    using assms(1) by (simp_all add: g shows_guard_def)
  have "\<exists>c. row_int (the_dict (get (sub_dict A ''failures_by_ip'') (ip_key ip))) ''count'' = Inr c"
    using sh(1) by (cases "get (sub_dict A ''failures_by_ip'') (ip_key ip)") (auto simp: shows_failures_def row_int_def int_value_def por_def)
  moreover have "\<exists>u. (case get (sub_dict A ''lockouts_by_ip'') (ip_key ip) of PDict row \<Rightarrow> row_int row ''until_ts_ms'' | _ \<Rightarrow> Inr 0) = Inr u
     \<and> (t < u \<longleftrightarrow> locked t g)"
    using sh(2) assms(2) by (cases "get (sub_dict A ''lockouts_by_ip'') (ip_key ip)") (auto simp: g locked_def shows_lockout_def)
  ultimately show thesis using that by (auto simp: auth_failure_snapshot_def)
qed

lemma refusals_count:
  assumes "clock_ok env" and t: "0 < rq_now_ms rq"
  shows "counts_failure env rq (missing_authorization env rq) (\<lambda>_. http 401 ''operator authentication required'')"
    "counts_failure env rq (refuse_header env rq ''invalid authentication scheme'' r) (\<lambda>_. http 401 ''invalid authentication scheme'')"
    "counts_failure env rq (refuse_header env rq ''invalid authorization header'' r) (\<lambda>_. http 401 ''invalid authorization header'')"
    "counts_failure env rq (refuse_credentials env rq) (\<lambda>l. if l then http 429 ''too many authentication attempts''
       else http 401 ''invalid operator credentials'')"
proof -
  note rules = answers_then answers_counters [OF assms(1)] answers_event
  show "counts_failure env rq (missing_authorization env rq) (\<lambda>_. http 401 ''operator authentication required'')"
    unfolding missing_authorization_def by (rule counts_then) (rule rules)+
  show "counts_failure env rq (refuse_header env rq ''invalid authentication scheme'' r) (\<lambda>_. http 401 ''invalid authentication scheme'')"
    "counts_failure env rq (refuse_header env rq ''invalid authorization header'' r) (\<lambda>_. http 401 ''invalid authorization header'')"
    unfolding refuse_header_def by (rule counts_then; (rule rules)+)+
  show "counts_failure env rq (refuse_credentials env rq) (\<lambda>l. if l then http 429 ''too many authentication attempts''
       else http 401 ''invalid operator credentials'')"
    unfolding counts_failure_def refuse_credentials_def
  proof (intro exI conjI allI impI, rule refl)
    fix S and G :: "string \<Rightarrow> guard_state" and n :: dict
    let ?g = "G (ip_key (client_ip env rq))"
    assume "shows_all (sub_dict n ''panel_auth'') (rq_now_ms rq) G"
    then have "shows_guard (sub_dict n ''panel_auth'') (ip_key (client_ip env rq)) (rq_now_ms rq) ?g" by (simp add: shows_all_def)
    then obtain c u where cu: "auth_failure_snapshot (client_ip env rq) (sub_dict n ''panel_auth'') = Inr (c, u)"
      "rq_now_ms rq < u \<longleftrightarrow> locked (rq_now_ms rq) ?g" by (rule snapshot_seen [OF _ t])
    show "answers (pe_health env) S (rq_now_ms rq) G
       (bindM (liftR (auth_failure_snapshot (client_ip env rq) (sub_dict n ''panel_auth''))) (\<lambda>(count, until).
        if rq_now_ms rq < until then
          thenM (panel_security_counter_incr env ''panel_429_count'' None)
          (thenM (panel_log [(''event'', PStr ''panel_auth_lockout''), (''ts_ms'', PInt (rq_now_ms rq)),
            (''ip'', PStr (client_ip env rq)), (''attempt_count'', PInt count), (''window_s'', PInt 60),
            (''lockout_s'', PInt 60)]) too_many)
        else
          thenM (panel_security_counter_incr env ''panel_auth_invalid'' (Some ''invalid operator credentials''))
          (thenM (panel_security_counter_incr env ''panel_401_count'' None)
          (thenM (log_panel_security_event env rq ''panel_auth_invalid'' ''invalid_credentials'' 401)
          (http_error 401 ''invalid operator credentials'')))))
       (if locked (rq_now_ms rq) ?g then http 429 ''too many authentication attempts''
        else http 401 ''invalid operator credentials'')"
      unfolding cu(1) bindM_simps prod.case cu(2) too_many_def
      by (cases "locked (rq_now_ms rq) ?g"; simp only: if_True if_False; (rule rules)+)
  qed
qed

lemma check_cases:
  assumes ok: "clock_ok env" "0 < rq_now_ms rq" and pw: "pe_password env = Some pw" "pw \<noteq> []"
  shows "case attempt_of env rq of
      Wrong \<Rightarrow> counts_failure env rq (check_credentials env rq (pe_user env) pw) (refusal rq)
    | Right \<Rightarrow> check_credentials env rq (pe_user env) pw = thenM (panel_auth_state_update env rq True) (retM ())
    | Aside \<Rightarrow> check_credentials env rq (pe_user env) pw =
        raiseM (Exc TypeError ''comparing strings with non-ASCII characters is not supported'')"
proof (cases "rq_authorization rq")
  case None
  then have "refusal rq = (\<lambda>_. http 401 ''operator authentication required'')" by (simp add: refusal_def fun_eq_iff)
  with None show ?thesis using pw refusals_count(1) [OF ok] by (simp add: attempt_of_def check_credentials_def)
next
  case (Some a)
  note a = Some
  obtain scheme token where st: "partition_at CHR '' '' a = (scheme, token)" by fastforce
  show ?thesis
  proof (cases "a = []")
    case True
    then have "refusal rq = (\<lambda>_. http 401 ''operator authentication required'')" using a by (simp add: refusal_def fun_eq_iff)
    with True show ?thesis using a pw refusals_count(1) [OF ok] by (simp add: attempt_of_def check_credentials_def)
  next
    case False
    note ne = False
    show ?thesis
    proof (cases "lower scheme \<noteq> ''basic'' \<or> token = []")
      case True
      then have "refusal rq = (\<lambda>_. http 401 ''invalid authentication scheme'')" using a st ne
        by (simp add: refusal_def fun_eq_iff)
      moreover have "attempt_of env rq = Wrong"
        "check_credentials env rq (pe_user env) pw = refuse_header env rq ''invalid authentication scheme'' ''invalid_scheme''"
        using True a st ne pw by (simp_all add: attempt_of_def check_credentials_def)
      ultimately show ?thesis using refusals_count(2) [OF ok] by simp
    next
      case False
      note sch = False
      show ?thesis
      proof (cases "decode_token token")
        case None
        then have "refusal rq = (\<lambda>_. http 401 ''invalid authorization header'')" using a st ne sch
          by (simp add: refusal_def fun_eq_iff)
        moreover have "attempt_of env rq = Wrong"
          "check_credentials env rq (pe_user env) pw = refuse_header env rq ''invalid authorization header'' ''invalid_header''"
          using None a st ne sch pw by (simp_all add: attempt_of_def check_credentials_def)
        ultimately show ?thesis using refusals_count(3) [OF ok] by simp
      next
        case (Some decoded)
        then have "refusal rq = (\<lambda>l. if l then http 429 ''too many authentication attempts''
            else http 401 ''invalid operator credentials'')" using a st ne sch by (simp add: refusal_def fun_eq_iff)
        moreover have "attempt_of env rq = (case credentials_match decoded (pe_user env) pw of
            Inl e \<Rightarrow> Aside | Inr ok \<Rightarrow> if ok then Right else Wrong)"
          "check_credentials env rq (pe_user env) pw = bindM (liftR (credentials_match decoded (pe_user env) pw)) (\<lambda>ok.
                 if ok then thenM (panel_auth_state_update env rq True) (retM ()) else refuse_credentials env rq)"
          using Some a st ne sch pw by (simp_all add: attempt_of_def check_credentials_def)
        moreover have "credentials_match decoded (pe_user env) pw = Inl e \<Longrightarrow>
            e = Exc TypeError ''comparing strings with non-ASCII characters is not supported''" for e
          by (auto simp: credentials_match_def compare_digest_def raise_type_def result_iff case_prod_beta split: if_splits)
        ultimately show ?thesis using refusals_count(4) [OF ok]
          by (cases "credentials_match decoded (pe_user env) pw") simp_all
      qed
    qed
  qed
qed

text \<open>No operator password: the same answer to everything, and no attempt counted\<close>

lemma never_stops:
  assumes "never m"
  shows "snd (bindM m k s) = snd (m s)" and "fst (bindM m k s) \<noteq> Inr x"
proof -
  have "fst (m s) \<noteq> Inr y" for y using assms by (simp add: never_def)
  then obtain e s1 where "m s = (Inl e, s1)" by (cases "m s"; cases "fst (m s)") auto
  then show "snd (bindM m k s) = snd (m s)" "fst (bindM m k s) \<noteq> Inr x" by (simp_all add: bindM_def)
qed

lemma no_password_shape:
  "pe_password env = None \<or> pe_password env = Some [] \<Longrightarrow> \<exists>k. require_operator_basic_auth env rq = bindM (no_password env rq) k"
  by (auto simp: require_operator_basic_auth_def operator_credentials_def)

lemma no_password_refused:
  assumes "pe_password env = None \<or> pe_password env = Some []"
  shows "fst (require_operator_basic_auth env rq s) \<noteq> Inr x"
proof -
  obtain k where m: "require_operator_basic_auth env rq = bindM (no_password env rq) k"
    using no_password_shape [OF assms] by blast
  show ?thesis unfolding m by (rule never_stops(2) [OF never_refused(5)])
qed

lemma no_password_answers:
  assumes "clock_ok env" and "pe_password env = None \<or> pe_password env = Some []"
  shows "answers (pe_health env) S T G (require_operator_basic_auth env rq)
    (http 503 ''VOXERA_PANEL_OPERATOR_PASSWORD must be set'')"
proof -
  obtain k where m: "require_operator_basic_auth env rq = bindM (no_password env rq) k"
    using no_password_shape [OF assms(2)] by blast
  have stop: "answers henv S T G m (Inl e) \<Longrightarrow> answers henv S T G (bindM m k) (Inl e)"
    for henv and m :: "('x, panel) prog" and e and k :: "'x \<Rightarrow> (unit, panel) prog"
    unfolding answers_def bindM_def by (auto simp: case_prod_beta split: sum.split)
  have "answers (pe_health env) S T G (no_password env rq) (http 503 ''VOXERA_PANEL_OPERATOR_PASSWORD must be set'')"
    unfolding no_password_def
    by (rule answers_then answers_counters [OF assms(1)] answers_event)+
  then show ?thesis unfolding m http_def by (rule stop)
qed

section \<open>Steps\<close>

lemma panel_file_later: "panel_file env S T G f \<Longrightarrow> T \<le> t \<Longrightarrow> panel_file env S t G f"
  unfolding panel_file_def panel_dict_def shows_all_parts using shows_later by blast

lemma door_run:
  assumes "clock_ok env" "few S" "panel_file (pe_health env) S T G (pn_file s)" "T \<le> rq_now_ms rq" "0 < rq_now_ms rq"
  obtains s1 where "active_lockout env rq s =
      (Inr (if locked (rq_now_ms rq) (G (ip_key (client_ip env rq)))
            then Some (snd (snd (G (ip_key (client_ip env rq))))) else None), s1)"
    "panel_file (pe_health env) S (rq_now_ms rq) G (pn_file s1)"
proof -
  have ok: "float_ok (pe_health env)" using assms(1) by (simp add: clock_ok_def)
  from prune_file [OF ok assms(2-5)] obtain n f' where n:
    "update_health (pe_health env) (apply_panel_auth_state_prune (rq_now_ms rq)) (pn_file s) = (Inr n, f')"
    "panel_file (pe_health env) S (rq_now_ms rq) G f'" "shows_all (sub_dict n ''panel_auth'') (rq_now_ms rq) G" by blast
  then have "shows_guard (sub_dict n ''panel_auth'') (ip_key (client_ip env rq)) (rq_now_ms rq) (G (ip_key (client_ip env rq)))"
    by (simp add: shows_all_def)
  from lockout_seen [OF this order_refl] n show thesis
    by (intro that [of "s\<lparr>pn_file := f'\<rparr>"]) (simp_all add: active_lockout_def bindM_def on_file_run liftR_def)
qed

text \<open>The machines after an attempt of one address\<close>

definition after :: "panel_env \<Rightarrow> request \<Rightarrow> bool \<Rightarrow> (string \<Rightarrow> guard_state) \<Rightarrow> string \<Rightarrow> guard_state" where
  "after env rq ok G = G(ip_key (client_ip env rq) := heard_step ok (rq_now_ms rq) (G (ip_key (client_ip env rq))))"

lemma attempt_run:
  assumes "clock_ok env" "few S" "ip_key (client_ip env rq) \<in> S" "panel_file (pe_health env) S T G (pn_file s)"
    "T \<le> rq_now_ms rq" "0 < rq_now_ms rq" "ok \<Longrightarrow> \<not> locked (rq_now_ms rq) (G (ip_key (client_ip env rq)))"
  obtains n s1 where "panel_auth_state_update env rq ok s = (Inr n, s1)"
    "panel_file (pe_health env) S (rq_now_ms rq) (after env rq ok G) (pn_file s1)"
    "shows_all (sub_dict n ''panel_auth'') (rq_now_ms rq) (after env rq ok G)"
proof -
  have "float_ok (pe_health env)" using assms(1) by (simp add: clock_ok_def)
  from attempt_file [OF this assms(2-7)] obtain n f' where
    "update_health (pe_health env) (apply_panel_auth_state_update (client_ip env rq) (rq_now_ms rq) ok) (pn_file s) = (Inr n, f')"
    "panel_file (pe_health env) S (rq_now_ms rq) (after env rq ok G) f'"
    "shows_all (sub_dict n ''panel_auth'') (rq_now_ms rq) (after env rq ok G)" unfolding after_def by blast
  then show thesis
    by (intro that [of n "s\<lparr>pn_file := f'\<rparr>"]) (simp_all add: panel_auth_state_update_def on_file_run)
qed

text \<open>A refusal: the failure is counted, nothing else about the panel changes, and the answer follows.\<close>

lemma refusal_run:
  assumes m: "counts_failure env rq m r"
    and a: "clock_ok env" "few S" "ip_key (client_ip env rq) \<in> S" "panel_file (pe_health env) S T G (pn_file s)"
      "T \<le> rq_now_ms rq" "0 < rq_now_ms rq"
  shows "fst (m s) = r (locked (rq_now_ms rq) (fail_step (rq_now_ms rq) (G (ip_key (client_ip env rq)))))
    \<and> panel_file (pe_health env) S (rq_now_ms rq) (after env rq False G) (pn_file (snd (m s)))"
proof -
  obtain k where k: "m = bindM (panel_auth_state_update env rq False) k"
    "\<And>n G. shows_all (sub_dict n ''panel_auth'') (rq_now_ms rq) G \<Longrightarrow>
         answers (pe_health env) S (rq_now_ms rq) G (k n) (r (locked (rq_now_ms rq) (G (ip_key (client_ip env rq)))))"
    using m unfolding counts_failure_def by blast
  obtain n s1 where run: "panel_auth_state_update env rq False s = (Inr n, s1)"
    and s1: "panel_file (pe_health env) S (rq_now_ms rq) (after env rq False G) (pn_file s1)"
      "shows_all (sub_dict n ''panel_auth'') (rq_now_ms rq) (after env rq False G)"
    by (rule attempt_run [OF a, of False]) simp
  have "m s = k n s1" using run by (simp add: k(1) bindM_def)
  with s1(1) k(2) [OF s1(2)] show ?thesis by (simp add: answers_def after_def heard_step_def)
qed

text \<open>The whole check: its answer, and the one step of the machine of its address\<close>

definition response :: "panel_env \<Rightarrow> request \<Rightarrow> guard_state \<Rightarrow> unit result" where
  "response env rq g =
     (if pe_password env = None \<or> pe_password env = Some [] then http 503 ''VOXERA_PANEL_OPERATOR_PASSWORD must be set''
      else if locked (rq_now_ms rq) g then http 429 ''too many authentication attempts''
      else case attempt_of env rq of
        Right \<Rightarrow> Inr ()
      | Wrong \<Rightarrow> refusal rq (locked (rq_now_ms rq) (fail_step (rq_now_ms rq) g))
      | Aside \<Rightarrow> Inl (Exc TypeError ''comparing strings with non-ASCII characters is not supported''))"

lemma request_step:
  assumes "clock_ok env" "few S" "ip_key (client_ip env rq) \<in> S" "panel_file (pe_health env) S T G (pn_file s)"
    "T \<le> rq_now_ms rq" "0 < rq_now_ms rq"
  defines "i \<equiv> ip_key (client_ip env rq)"
  shows "fst (require_operator_basic_auth env rq s) = response env rq (G i)
    \<and> panel_file (pe_health env) S (rq_now_ms rq) (G(i := guard_step (attempt_of env rq) (rq_now_ms rq) (G i)))
      (pn_file (snd (require_operator_basic_auth env rq s)))"
proof -
  let ?t = "rq_now_ms rq" and ?m = "require_operator_basic_auth env rq" and ?a = "attempt_of env rq"
  obtain c f u where g: "G i = (c, f, u)" by (cases "G i")
  show ?thesis
  proof (cases "pe_password env = None \<or> pe_password env = Some []")
    case True
    then have a: "?a = Aside" by (auto simp: attempt_of_def)
    have "panel_file (pe_health env) S ?t G (pn_file s)" using panel_file_later assms(4,5) by blast
    with no_password_answers [OF assms(1) True] True a g show ?thesis by (simp add: answers_def response_def fun_upd_idem)
  next
    case False
    then obtain pw where pw: "pe_password env = Some pw" "pw \<noteq> []" by (cases "pe_password env") auto
    obtain s1 where door: "active_lockout env rq s = (Inr (if locked ?t (G i) then Some (snd (snd (G i))) else None), s1)"
      and s1: "panel_file (pe_health env) S ?t G (pn_file s1)"
      using door_run [OF assms(1,2,4-6)] unfolding i_def by blast
    show ?thesis
    proof (cases "locked ?t (G i)")
      case True
      then have m: "?m s = thenM (panel_security_counter_incr env ''panel_429_count'' None) too_many s1"
        using pw door by (simp add: require_operator_basic_auth_def operator_credentials_def bindM_def retM_def)
      have "answers (pe_health env) S ?t G (thenM (panel_security_counter_incr env ''panel_429_count'' None) too_many)
          (http 429 ''too many authentication attempts'')"
        unfolding too_many_def by (rule answers_then answers_counters [OF assms(1)] answers_event)+
      moreover have "guard_step ?a ?t (G i) = G i" using True by (simp add: g locked_def)
      ultimately show ?thesis using True s1 pw by (simp add: m answers_def response_def fun_upd_idem)
    next
      case False
      then have m: "?m s = check_credentials env rq (pe_user env) pw s1"
        using pw door by (simp add: require_operator_basic_auth_def operator_credentials_def bindM_def retM_def)
      note cases = check_cases [OF assms(1,6) pw]
      show ?thesis
      proof (cases ?a)
        case Wrong
        with cases have "counts_failure env rq (check_credentials env rq (pe_user env) pw) (refusal rq)" by simp
        note r = refusal_run [OF this assms(1-3) s1 order_refl assms(6), folded i_def]
        have "guard_step ?a ?t (G i) = fail_step ?t (G i)" using Wrong False by (simp add: g locked_def)
        with r Wrong False pw show ?thesis by (simp add: m after_def heard_step_def response_def i_def)
      next
        case Right
        obtain n s2 where "panel_auth_state_update env rq True s1 = (Inr n, s2)"
          "panel_file (pe_health env) S ?t (G(i := heard_step True ?t (G i))) (pn_file s2)"
          using attempt_run [OF assms(1-3) s1 order_refl assms(6), of True] False unfolding i_def after_def by blast
        moreover from cases Right have "check_credentials env rq (pe_user env) pw = thenM (panel_auth_state_update env rq True) (retM ())"
          by simp
        moreover have "guard_step ?a ?t (G i) = heard_step True ?t (G i)"
          using Right False by (simp add: g locked_def heard_step_def)
        ultimately show ?thesis using Right False pw by (simp add: m thenM_def bindM_def retM_def response_def)
      next
        case Aside
        with cases have "check_credentials env rq (pe_user env) pw =
            raiseM (Exc TypeError ''comparing strings with non-ASCII characters is not supported'')" by simp
        with Aside False s1 pw show ?thesis by (simp add: m g raiseM_def locked_def fun_upd_idem response_def)
      qed
    qed
  qed
qed

end
