(* ===== verification/Panel_Runs.thy ===== *)
theory Panel_Runs
  imports Panel_Requests
begin

text \<open>
  Sequences of requests: the panel refines the machines of all its addresses, and the machine of one address
  depends on the requests of that address only.
\<close>

section \<open>The refinement\<close>

definition request_op :: "panel_env \<Rightarrow> request \<Rightarrow> panel \<Rightarrow> panel" where
  "request_op env rq s = snd (require_operator_basic_auth env rq s)"

definition address :: "panel_env \<Rightarrow> request \<Rightarrow> string" where
  "address env rq = ip_key (client_ip env rq)"

text \<open>The machines of all addresses and the time; nothing is said once the clock has gone back.\<close>

fun machine_step :: "panel_env \<Rightarrow> request \<Rightarrow> (int \<times> (string \<Rightarrow> guard_state)) option \<Rightarrow> (int \<times> (string \<Rightarrow> guard_state)) option" where
  "machine_step env rq (Some (T, G)) =
     (if T \<le> rq_now_ms rq
      then Some (rq_now_ms rq, G(address env rq := guard_step (attempt_of env rq) (rq_now_ms rq) (G (address env rq))))
      else None)"
| "machine_step env rq None = None"

definition shows_panel :: "panel_env \<Rightarrow> string set \<Rightarrow> panel \<Rightarrow> (int \<times> (string \<Rightarrow> guard_state)) option \<Rightarrow> bool" where
  "shows_panel env S s a \<longleftrightarrow> (case a of None \<Rightarrow> True | Some (T, G) \<Rightarrow> panel_file (pe_health env) S T G (pn_file s))"

definition known :: "panel_env \<Rightarrow> string set \<Rightarrow> request \<Rightarrow> bool" where
  "known env S rq \<longleftrightarrow> clock_ok env \<and> few S \<and> address env rq \<in> S \<and> 0 < rq_now_ms rq"

interpretation requests: simulation "shows_panel env S" "known env S" "request_op env" "machine_step env"
  for env S
proof
  fix s a rq
  assume s: "shows_panel env S s a" and k: "known env S rq"
  show "shows_panel env S (request_op env rq s) (machine_step env rq a)"
  proof (cases a)
    case (Some TG)
    obtain T G where a: "a = Some (T, G)" using Some by (cases TG) simp
    show ?thesis
    proof (cases "T \<le> rq_now_ms rq")
      case True
      have "panel_file (pe_health env) S T G (pn_file s)" using s a by (simp add: shows_panel_def)
      from request_step [OF _ _ _ this True] k a True show ?thesis
        by (simp add: known_def address_def shows_panel_def request_op_def)
    qed (use a in \<open>simp add: shows_panel_def\<close>)
  qed (simp add: shows_panel_def)
qed

section \<open>One address\<close>

text \<open>The attempts of one address, and the state of its machine after them\<close>

definition hits :: "panel_env \<Rightarrow> string \<Rightarrow> request list \<Rightarrow> (attempt \<times> int) list" where
  "hits env i rqs = map (\<lambda>rq. (attempt_of env rq, rq_now_ms rq)) (filter (\<lambda>rq. address env rq = i) rqs)"

lemma hits_simps [simp]:
  "hits env i [] = []"
  "hits env i (rq # rqs) = (if address env rq = i then (attempt_of env rq, rq_now_ms rq) # hits env i rqs else hits env i rqs)"
  by (simp_all add: hits_def)

lemma guard_run_fst: "fst (guard_run es (g, H)) = fst (guard_run es (g, K))"
proof (induction es arbitrary: g H K)
  case (Cons e es)
  then show ?case by (cases e) (simp add: Cons)
qed simp

lemma machine_run:
  assumes "sorted (T # map rq_now_ms rqs)"
  shows "fold (machine_step env) rqs (Some (T, G)) =
    Some (last (T # map rq_now_ms rqs), \<lambda>i. fst (guard_run (hits env i rqs) (G i, [])))"
  using assms
proof (induction rqs arbitrary: T G)
  case (Cons rq rqs)
  let ?t = "rq_now_ms rq"
  let ?G = "G(address env rq := guard_step (attempt_of env rq) ?t (G (address env rq)))"
  have "fold (machine_step env) rqs (Some (?t, ?G)) =
    Some (last (?t # map rq_now_ms rqs), \<lambda>i. fst (guard_run (hits env i rqs) (?G i, [])))"
    by (rule Cons.IH) (use Cons.prems in simp)
  moreover have "fst (guard_run (hits env i rqs) (?G i, [])) = fst (guard_run (hits env i (rq # rqs)) (G i, []))" for i
    using guard_run_fst [of "hits env i rqs" "guard_step (attempt_of env rq) ?t (G i)" "[]"]
    by (cases "address env rq = i") auto
  ultimately show ?case using Cons.prems by simp
qed simp

definition no_guard :: guard_state where
  "no_guard = (0, 0, 0)"

definition guard_after :: "panel_env \<Rightarrow> string \<Rightarrow> request list \<Rightarrow> guard_state" where
  "guard_after env i rqs = fst (guard_run (hits env i rqs) (no_guard, []))"

section \<open>A panel without a health file\<close>

lemma fresh_file:
  assumes "float_ok env"
  shows "panel_file env S 0 (\<lambda>_. no_guard) None"
proof -
  obtain d where d: "normalize_health env [] = Inr d" "wf_dict d" "get d ''panel_auth'' = PDict []" "get d ''counters'' = PDict []"
    by (rule normalize_empty)
  moreover have "normal env d"
    by (rule normalize_normal [OF assms _ d(1)]) (simp add: float_texts_def float_text_def)
  moreover have "shows_all [] 0 (\<lambda>_. no_guard)" unfolding no_guard_def by (rule shows_all_empty) simp
  moreover have "auth_ok S []" "counts []" by (simp_all add: auth_ok_def sub_dict_def tracked_def counts_def)
  ultimately show ?thesis by (simp add: panel_file_def panel_dict_def file_dict_def sub_dict_def)
qed

text \<open>Requests that come in the order of their times, from a bounded set of addresses\<close>

definition orderly :: "panel_env \<Rightarrow> string set \<Rightarrow> request list \<Rightarrow> bool" where
  "orderly env S rqs \<longleftrightarrow> sorted (map rq_now_ms rqs) \<and> list_all (known env S) rqs"

lemma orderly_append: "orderly env S (rqs @ [rq]) \<Longrightarrow> orderly env S rqs \<and> known env S rq"
  by (simp add: orderly_def sorted_append)

lemma orderly_from_zero: "orderly env S rqs \<Longrightarrow> sorted (0 # map rq_now_ms rqs)"
  by (auto simp: orderly_def list_all_iff known_def less_imp_le)

lemma panel_after:
  assumes "orderly env S rqs" and "clock_ok env" and "pn_file s = None"
  shows "panel_file (pe_health env) S (last (0 # map rq_now_ms rqs)) (\<lambda>i. guard_after env i rqs)
    (pn_file (fold (request_op env) rqs s))"
proof -
  have "shows_panel env S s (Some (0, \<lambda>_. no_guard))"
    using fresh_file [of "pe_health env" S] assms(2,3) by (simp add: shows_panel_def clock_ok_def)
  from requests.run [OF this] assms(1) have "shows_panel env S (fold (request_op env) rqs s)
      (fold (machine_step env) rqs (Some (0, \<lambda>_. no_guard)))" by (simp add: orderly_def)
  then show ?thesis unfolding machine_run [OF orderly_from_zero [OF assms(1)]]
    by (simp add: shows_panel_def guard_after_def)
qed

lemma last_before:
  assumes "orderly env S (rqs @ [rq])"
  shows "last (0 # map rq_now_ms rqs) \<le> rq_now_ms rq"
proof -
  have "sorted (0 # map rq_now_ms (rqs @ [rq]))" by (rule orderly_from_zero [OF assms])
  then show ?thesis by (cases rqs rule: rev_cases) (auto simp: sorted_append)
qed

text \<open>The answer to a request after any orderly sequence\<close>

lemma answer_after:
  assumes "orderly env S (rqs @ [rq])" and "pn_file s = None"
  shows "fst (require_operator_basic_auth env rq (fold (request_op env) rqs s)) = response env rq (guard_after env (address env rq) rqs)"
proof -
  note o = orderly_append [OF assms(1)]
  then have k: "clock_ok env" "few S" "ip_key (client_ip env rq) \<in> S" "0 < rq_now_ms rq" by (auto simp: known_def address_def)
  from request_step [OF k(1-3) panel_after [OF _ k(1) assms(2)] last_before [OF assms(1)] k(4)] o show ?thesis
    by (simp add: address_def)
qed

section \<open>Mutations\<close>

definition csrf_response :: "panel_env \<Rightarrow> request \<Rightarrow> unit result" where
  "csrf_response env rq =
     (if \<not> pe_csrf env then Inr ()
      else if rq_cookie rq = [] \<or> request_token rq = [] then http 403 ''csrf validation failed''
      else case compare_digest (map code (rq_cookie rq)) (map code (request_token rq)) of
        Inl e \<Rightarrow> Inl e
      | Inr same \<Rightarrow> if same then Inr () else http 403 ''csrf validation failed'')"

lemma csrf_errors:
  "strip ''csrf token missing'' = ''csrf token missing''" "strip ''csrf token mismatch'' = ''csrf token mismatch''"
  by code_simp+

lemma mutation_answers:
  assumes "clock_ok env"
  shows "answers (pe_health env) S T G (allow_mutation env rq r) (Inr ())"
    "answers (pe_health env) S T G (refuse_csrf env rq ''csrf token missing'' e r) (http 403 ''csrf validation failed'')"
    "answers (pe_health env) S T G (refuse_csrf env rq ''csrf token mismatch'' e r) (http 403 ''csrf validation failed'')"
proof -
  have err: "answers (pe_health env) S T G (panel_security_counter_incr env k (Some ''csrf token missing'')) (Inr ())"
    "answers (pe_health env) S T G (panel_security_counter_incr env k (Some ''csrf token mismatch'')) (Inr ())" for k
    by (rule answers_counter [OF assms], use csrf_errors in auto)+
  note rules = answers_then answers_counters [OF assms] err answers_event
  show "answers (pe_health env) S T G (allow_mutation env rq r) (Inr ())"
    unfolding allow_mutation_def by (rule rules)+
  show "answers (pe_health env) S T G (refuse_csrf env rq ''csrf token missing'' e r) (http 403 ''csrf validation failed'')"
    "answers (pe_health env) S T G (refuse_csrf env rq ''csrf token mismatch'' e r) (http 403 ''csrf validation failed'')"
    unfolding refuse_csrf_def by (rule rules)+
qed

lemma mutation_answer_after:
  assumes "orderly env S (rqs @ [rq])" and "pn_file s = None"
  shows "fst (require_mutation_guard env rq (fold (request_op env) rqs s)) =
    bindR (response env rq (guard_after env (address env rq) rqs)) (\<lambda>_. csrf_response env rq)"
proof -
  note o = orderly_append [OF assms(1)]
  then have k: "clock_ok env" "few S" "ip_key (client_ip env rq) \<in> S" "0 < rq_now_ms rq" by (auto simp: known_def address_def)
  let ?s = "fold (request_op env) rqs s"
  from request_step [OF k(1-3) panel_after [OF _ k(1) assms(2)] last_before [OF assms(1)] k(4)] o
  obtain G where step: "fst (require_operator_basic_auth env rq ?s) = response env rq (guard_after env (address env rq) rqs)"
    and keep: "panel_file (pe_health env) S (rq_now_ms rq) G (pn_file (snd (require_operator_basic_auth env rq ?s)))"
    unfolding address_def by blast
  note a = mutation_answers [OF k(1), of S "rq_now_ms rq" G, unfolded answers_def, rule_format, OF keep, THEN conjunct1]
  show ?thesis
  proof (cases "response env rq (guard_after env (address env rq) rqs)")
    case (Inr u)
    with step obtain s1 where s1: "require_operator_basic_auth env rq ?s = (Inr (), s1)"
      by (cases "require_operator_basic_auth env rq ?s") auto
    then have "thenM (require_operator_basic_auth env rq) n ?s = n s1" for n :: "(unit, panel) prog"
      by (simp add: thenM_def bindM_def)
    then have "fst (require_mutation_guard env rq ?s) = csrf_response env rq"
      using a unfolding s1 snd_conv require_mutation_guard_def
      by (cases "compare_digest (map code (rq_cookie rq)) (map code (request_token rq))")
        (simp_all add: csrf_response_def)
    then show ?thesis by (simp add: Inr)
  next
    case (Inl e)
    with step show ?thesis by (cases "require_operator_basic_auth env rq ?s") (simp add: require_mutation_guard_def thenM_def bindM_def)
  qed
qed

section \<open>The wrong guesses that are heard\<close>

definition hears :: "panel_env \<Rightarrow> request \<Rightarrow> panel \<Rightarrow> bool" where
  "hears env rq s \<longleftrightarrow> attempt_of env rq = Wrong \<and> fst (active_lockout env rq s) = Inr None"

text \<open>The times of the wrong guesses of one address that the panel compared, the newest first\<close>

fun guesses :: "panel_env \<Rightarrow> string \<Rightarrow> request list \<Rightarrow> panel \<Rightarrow> int list \<Rightarrow> int list" where
  "guesses env i [] s H = H"
| "guesses env i (rq # rqs) s H = guesses env i rqs (request_op env rq s)
     (if address env rq = i \<and> hears env rq s then rq_now_ms rq # H else H)"

lemma guesses_run:
  assumes "sorted (T # map rq_now_ms rqs)" and "list_all (known env S) rqs"
    and "panel_file (pe_health env) S T G (pn_file s)"
  shows "guesses env i rqs s H = snd (guard_run (hits env i rqs) (G i, H))"
  using assms
proof (induction rqs arbitrary: T G s H)
  case (Cons rq rqs)
  let ?t = "rq_now_ms rq" and ?j = "address env rq"
  let ?G = "G(?j := guard_step (attempt_of env rq) ?t (G ?j))"
  have k: "clock_ok env" "few S" "ip_key (client_ip env rq) \<in> S" "0 < ?t" "T \<le> ?t"
    using Cons.prems(1,2) by (simp_all add: known_def address_def)
  have step: "panel_file (pe_health env) S ?t ?G (pn_file (request_op env rq s))"
    using request_step [OF k(1-3) Cons.prems(3) k(5,4)] by (simp add: request_op_def address_def)
  have "fst (active_lockout env rq s) = Inr None \<longleftrightarrow> \<not> locked ?t (G ?j)"
    using door_run [OF k(1,2) Cons.prems(3) k(5,4)] unfolding address_def by (smt (verit) fst_conv option.distinct(1) sum.inject(2))
  then have heard: "(if hears env rq s then rq_now_ms rq # H else H) = heard (attempt_of env rq) ?t (G ?j) @ H"
    by (simp add: hears_def heard_def)
  have IH: "guesses env i rqs (request_op env rq s) K = snd (guard_run (hits env i rqs) (?G i, K))" for K
    by (rule Cons.IH [OF _ _ step]) (use Cons.prems in simp_all)
  show ?case using heard by (cases "?j = i") (simp_all add: IH)
qed simp

lemma guesses_fresh:
  assumes "orderly env S rqs" and "pn_file s = None"
  shows "guesses env i rqs s [] = snd (guard_run (hits env i rqs) (no_guard, []))"
proof (cases "rqs = []")
  case False
  then have "clock_ok env" using assms(1) by (cases rqs) (auto simp: orderly_def known_def)
  then have "panel_file (pe_health env) S 0 (\<lambda>_. no_guard) (pn_file s)"
    using fresh_file [of "pe_health env" S] assms(2) by (simp add: clock_ok_def)
  from guesses_run [OF orderly_from_zero [OF assms(1)] _ this] assms(1) show ?thesis by (simp add: orderly_def)
qed simp

lemma hits_times:
  assumes "orderly env S rqs"
  shows "sorted (map snd (hits env i rqs))" and "\<forall>e \<in> set (hits env i rqs). 0 < snd e"
proof -
  have "map snd (hits env i rqs) = map rq_now_ms (filter (\<lambda>rq. address env rq = i) rqs)" by (simp add: hits_def)
  then show "sorted (map snd (hits env i rqs))" using assms sorted_filter [of rq_now_ms rqs] by (simp add: orderly_def)
  show "\<forall>e \<in> set (hits env i rqs). 0 < snd e" using assms by (auto simp: hits_def orderly_def known_def list_all_iff)
qed

lemma hits_before:
  assumes "orderly env S (rqs @ [rq])"
  shows "\<forall>e \<in> set (hits env i rqs). snd e \<le> rq_now_ms rq"
  using assms by (auto simp: hits_def orderly_def sorted_append)

end
