(* ===== verification/Health_Samples.thy ===== *)
theory Health_Samples
  imports Health_Degradation
begin

text \<open>A health environment for the witnesses: integers as floats, no back-off variables.\<close>

definition sample_health :: health_env where
  "sample_health = \<lparr>he_float = (\<lambda>v. case v of PFloat x \<Rightarrow> Inr v | PInt n \<Rightarrow> Inr (PFloat (Finite (of_int n) (int_str n)))
     | _ \<Rightarrow> raise_type ''float''), he_backoff_base = None, he_backoff_max = None\<rparr>"

lemma sample_float: "float_ok sample_health"
  by (auto simp: float_ok_def sample_health_def raise_type_def split: py.splits)

end
