(* ===== verification/Panel_Theorems.thy ===== *)
theory Panel_Theorems
  imports Panel_Runs Health_Samples
begin

text \<open>
  The properties of the operator authentication of the panel with their witnesses: a panel with the operator
  \<open>op\<close> and the password \<open>pw\<close>, and requests from two addresses.
\<close>

section \<open>A sample panel\<close>

definition sample_panel :: panel_env where
  "sample_panel = \<lparr>pe_health = sample_health, pe_clock = (\<lambda>f. 1700000000000), pe_trust_proxy = ''0'',
     pe_user = ''op'', pe_password = Some ''pw'', pe_csrf = True\<rparr>"

definition sample_request :: "string option \<Rightarrow> string \<Rightarrow> int \<Rightarrow> request" where
  "sample_request authorization host ms = \<lparr>rq_authorization = authorization, rq_forwarded = [], rq_client = Some host,
     rq_path = ''/jobs'', rq_method = ''POST'', rq_cookie = ''t'', rq_csrf_header = ''t'', rq_csrf_value = [],
     rq_now_ms = ms\<rparr>"

definition sample_hosts :: "string set" where
  "sample_hosts = {''a'', ''b''}"

definition right_header :: "string option" where
  "right_header = Some ''Basic b3A6cHc=''"

lemma sample_clock: "clock_ok sample_panel"
  by (auto simp: clock_ok_def float_ok_def sample_panel_def sample_health_def raise_type_def split: py.splits)

lemma sample_few: "few sample_hosts"
  by (simp add: few_def sample_hosts_def max_tracked_ips_def)

lemma sample_address: "address sample_panel (sample_request h ''a'' ms) = ''a''" "address sample_panel (sample_request h ''b'' ms) = ''b''"
proof -
  have "strip ''a'' = ''a''" "strip ''b'' = ''b''" "strip [] = []" "strip ''0'' = ''0''" by code_simp+
  then show "address sample_panel (sample_request h ''a'' ms) = ''a''" "address sample_panel (sample_request h ''b'' ms) = ''b''"
    by (simp_all add: address_def client_ip_def sample_panel_def sample_request_def ip_key_def)
qed

lemma sample_known: "host \<in> sample_hosts \<Longrightarrow> 0 < ms \<Longrightarrow> known sample_panel sample_hosts (sample_request h host ms)"
  using sample_address [of h ms] sample_clock sample_few
  by (auto simp: known_def sample_hosts_def) (simp_all add: sample_request_def)

lemma sample_attempts:
  "attempt_of sample_panel (sample_request None host ms) = Wrong"
  "attempt_of sample_panel (sample_request right_header host ms) = Right"
proof -
  show "attempt_of sample_panel (sample_request None host ms) = Wrong"
    by (simp add: attempt_of_def sample_panel_def sample_request_def)
  have "partition_at CHR '' '' ''Basic b3A6cHc='' = (''Basic'', ''b3A6cHc='')" "lower ''Basic'' = ''basic''"
    "decode_token ''b3A6cHc='' = Some [111, 112, 58, 112, 119]"
    "credentials_match [111, 112, 58, 112, 119] ''op'' ''pw'' = Inr True" by code_simp+
  then show "attempt_of sample_panel (sample_request right_header host ms) = Right"
    by (simp add: attempt_of_def sample_panel_def sample_request_def right_header_def)
qed

section \<open>Who gets in\<close>

lemma partition_at_some: "partition_at c xs = (a, b) \<Longrightarrow> b \<noteq> [] \<Longrightarrow> xs = a @ c # b \<and> c \<notin> set a"
proof -
  assume p: "partition_at c xs = (a, b)" "b \<noteq> []"
  have "c \<in> set xs"
  proof (rule ccontr)
    assume "c \<notin> set xs"
    then have "dropWhile (\<lambda>x. x \<noteq> c) xs = []" by auto
    with p show False by (simp add: partition_at_def)
  qed
  then obtain ys zs where xs: "xs = ys @ c # zs" "c \<notin> set ys" by (blast dest: split_list_first)
  have "takeWhile (\<lambda>x. x \<noteq> c) (ys @ c # zs) = ys \<and> dropWhile (\<lambda>x. x \<noteq> c) (ys @ c # zs) = c # zs"
    using xs(2) by (induction ys) auto
  then have "takeWhile (\<lambda>x. x \<noteq> c) xs = ys" "dropWhile (\<lambda>x. x \<noteq> c) xs = c # zs" by (simp_all add: xs(1))
  with p xs show "xs = a @ c # b \<and> c \<notin> set a" by (auto simp: partition_at_def)
qed

lemma credentials_matched:
  assumes "credentials_match decoded user pw = Inr True" and "pw \<noteq> []"
  shows "decoded = map code user @ 58 # map code pw"
proof -
  obtain a b where p: "partition_at 58 decoded = (a, b)" by fastforce
  with assms(1) have "a = map code user" "b = map code pw"
    by (auto simp: credentials_match_def compare_digest_def raise_type_def result_iff split: if_splits)
  with partition_at_some [OF p] assms(2) show ?thesis by simp
qed

definition authenticates :: "panel_env \<Rightarrow> request \<Rightarrow> bool" where
  "authenticates env rq \<longleftrightarrow> (\<exists>pw scheme token. pe_password env = Some pw \<and> pw \<noteq> []
     \<and> rq_authorization rq = Some (scheme @ '' '' @ token) \<and> lower scheme = ''basic'' \<and> CHR '' '' \<notin> set scheme
     \<and> decode_token token = Some (map code (pe_user env) @ 58 # map code pw))"

lemma right_authenticates:
  assumes "attempt_of env rq = Right"
  shows "authenticates env rq"
proof -
  from assms obtain pw a where pw: "pe_password env = Some pw" "pw \<noteq> []" "rq_authorization rq = Some a" "a \<noteq> []"
    by (auto simp: attempt_of_def split: option.splits if_splits)
  obtain scheme token where st: "partition_at CHR '' '' a = (scheme, token)" by fastforce
  from assms pw st obtain decoded where d: "lower scheme = ''basic''" "token \<noteq> []" "decode_token token = Some decoded"
    "credentials_match decoded (pe_user env) pw = Inr True"
    by (auto simp: attempt_of_def split: option.splits if_splits sum.splits)
  from partition_at_some [OF st d(2)] credentials_matched [OF d(4) pw(2)] pw d show ?thesis
    unfolding authenticates_def by auto
qed

lemma check_passed:
  assumes "check_credentials env rq (pe_user env) pw s = (Inr (), s')" "pe_password env = Some pw" "pw \<noteq> []"
  shows "attempt_of env rq = Right"
proof -
  have never: "never (missing_authorization env rq)" "never (refuse_header env rq d r)" "never (refuse_credentials env rq)" for d r
    by (rule never_refused)+
  then have not: "\<not> missing_authorization env rq s = (Inr (), s')" "\<not> refuse_header env rq d r s = (Inr (), s')"
    "\<not> refuse_credentials env rq s = (Inr (), s')" for d r s unfolding never_def by (metis fst_conv)+
  obtain a where a: "rq_authorization rq = Some a" "a \<noteq> []"
    using assms(1) not by (cases "rq_authorization rq") (auto simp: check_credentials_def split: if_splits)
  obtain scheme token where st: "partition_at CHR '' '' a = (scheme, token)" by fastforce
  have h: "lower scheme = ''basic''" "token \<noteq> []"
    using assms(1) not a st by (auto simp: check_credentials_def split: if_splits)
  obtain decoded where d: "decode_token token = Some decoded"
    using assms(1) not a st h by (cases "decode_token token") (auto simp: check_credentials_def)
  have "credentials_match decoded (pe_user env) pw = Inr True"
    using assms(1) not a st h d
    by (cases "credentials_match decoded (pe_user env) pw") (auto simp: check_credentials_def split: if_splits)
  with a st h d assms(2,3) show ?thesis by (simp add: attempt_of_def)
qed

lemma operator_passed:
  assumes "require_operator_basic_auth env rq s = (Inr (), s')"
  shows "attempt_of env rq = Right" and "fst (active_lockout env rq s) = Inr None"
proof -
  have "fst (require_operator_basic_auth env rq s) = Inr ()" using assms by simp
  then obtain pw where pw: "pe_password env = Some pw" "pw \<noteq> []"
    using no_password_refused [of env rq s] by (cases "pe_password env") auto
  have "require_operator_basic_auth env rq = bindM (active_lockout env rq) (\<lambda>lockout.
     if lockout \<noteq> None then thenM (panel_security_counter_incr env ''panel_429_count'' None) too_many
     else check_credentials env rq (pe_user env) pw)"
    using pw by (simp add: require_operator_basic_auth_def operator_credentials_def)
  with assms obtain x t where x: "active_lockout env rq s = (Inr x, t)"
    "(if x \<noteq> None then thenM (panel_security_counter_incr env ''panel_429_count'' None) too_many
     else check_credentials env rq (pe_user env) pw) t = (Inr (), s')" by (auto simp: bindM_Inr_iff)
  have "x = None"
  proof (rule ccontr)
    assume "x \<noteq> None"
    with x(2) have "thenM (panel_security_counter_incr env ''panel_429_count'' None) too_many t = (Inr (), s')" by simp
    with never_then [OF never_refused(1)] show False unfolding never_def by (metis fst_conv)
  qed
  with x check_passed [OF _ pw] show "attempt_of env rq = Right" "fst (active_lockout env rq s) = Inr None" by simp_all
qed

text \<open>C23 Whatever the health file says, the panel lets a request pass as the operator's only if a non-empty
  password is configured, the header is the Basic scheme with the exact name and password, and the address
  is not locked out.\<close>
theorem operator_authenticated:
  assumes "require_operator_basic_auth env rq s = (Inr (), s')"
  shows "authenticates env rq \<and> fst (active_lockout env rq s) = Inr None"
  using operator_passed [OF assms] right_authenticates by blast

lemma sample_orderly:
  "host \<in> sample_hosts \<Longrightarrow> orderly sample_panel sample_hosts [sample_request h host 1]"
  using sample_known [of host 1] by (simp add: orderly_def)

lemma sample_let_in: "fst (require_operator_basic_auth sample_panel (sample_request right_header ''a'' 1) \<lparr>pn_file = None, pn_log = []\<rparr>) = Inr ()"
proof -
  have "fst (require_operator_basic_auth sample_panel (sample_request right_header ''a'' 1) \<lparr>pn_file = None, pn_log = []\<rparr>) =
      response sample_panel (sample_request right_header ''a'' 1) no_guard"
    using answer_after [of sample_panel sample_hosts "[]" "sample_request right_header ''a'' 1" "\<lparr>pn_file = None, pn_log = []\<rparr>"]
      sample_orderly [of "''a''"] by (simp add: guard_after_def sample_hosts_def)
  also have "\<dots> = Inr ()"
    using sample_attempts(2) [of "''a''" 1] by (simp add: response_def no_guard_def locked_def sample_request_def sample_panel_def)
  finally show ?thesis .
qed

theorem operator_authenticated_witness:
  "authenticates sample_panel (sample_request right_header ''a'' 1)
   \<and> fst (active_lockout sample_panel (sample_request right_header ''a'' 1) \<lparr>pn_file = None, pn_log = []\<rparr>) = Inr None"
proof -
  obtain s' where "require_operator_basic_auth sample_panel (sample_request right_header ''a'' 1) \<lparr>pn_file = None, pn_log = []\<rparr> = (Inr (), s')"
    using sample_let_in by (cases "require_operator_basic_auth sample_panel (sample_request right_header ''a'' 1) \<lparr>pn_file = None, pn_log = []\<rparr>") simp
  then show ?thesis by (rule operator_authenticated)
qed

lemma csrf_matched: "compare_digest (map code a) (map code b) = Inr True \<Longrightarrow> a = b"
proof -
  have inj: "inj code" by (rule injI) (simp add: code_def)
  assume "compare_digest (map code a) (map code b) = Inr True"
  then have "map code a = map code b" unfolding compare_digest_def raise_type_def by (simp split: if_splits)
  with inj show "a = b" by (simp only: inj_map_eq_map)
qed

text \<open>C24 A mutation passes the guard only as the operator's and, unless the CSRF check is switched off, with a
  non-empty token equal to its cookie; whatever the health file says.\<close>
theorem mutation_guarded:
  assumes "require_mutation_guard env rq s = (Inr (), s')"
  shows "authenticates env rq \<and> fst (active_lockout env rq s) = Inr None
    \<and> (pe_csrf env \<longrightarrow> rq_cookie rq \<noteq> [] \<and> request_token rq = rq_cookie rq)"
proof -
  obtain s1 where s1: "require_operator_basic_auth env rq s = (Inr (), s1)"
    and rest: "(if \<not> pe_csrf env then allow_mutation env rq ''auth_valid_csrf_disabled''
      else if rq_cookie rq = [] \<or> request_token rq = [] then
        refuse_csrf env rq ''csrf token missing'' ''panel_csrf_missing'' ''csrf_token_missing''
      else bindM (liftR (compare_digest (map code (rq_cookie rq)) (map code (request_token rq)))) (\<lambda>same.
        if \<not> same then refuse_csrf env rq ''csrf token mismatch'' ''panel_csrf_invalid'' ''csrf_token_mismatch''
        else allow_mutation env rq ''auth_and_csrf_valid'')) s1 = (Inr (), s')"
    using assms unfolding require_mutation_guard_def thenM_Inr_iff by auto
  have refused: "refuse_csrf env rq e v r s1 \<noteq> (Inr (), s')" for e v r
    using never_refused(6) [of env rq e v r] unfolding never_def by (metis fst_conv)
  have "rq_cookie rq \<noteq> [] \<and> request_token rq = rq_cookie rq" if "pe_csrf env"
  proof -
    have ne: "rq_cookie rq \<noteq> []" "request_token rq \<noteq> []" using rest that refused by (auto split: if_splits)
    then have "compare_digest (map code (rq_cookie rq)) (map code (request_token rq)) = Inr True"
      using rest that refused
      by (cases "compare_digest (map code (rq_cookie rq)) (map code (request_token rq))") (auto split: if_splits)
    with ne csrf_matched show ?thesis by metis
  qed
  with operator_passed [OF s1] right_authenticates show ?thesis by blast
qed

lemma sample_mutation:
  "fst (require_mutation_guard sample_panel (sample_request right_header ''a'' 1) \<lparr>pn_file = None, pn_log = []\<rparr>) = Inr ()"
proof -
  have "strip ''t'' = ''t''" "compare_digest (map code ''t'') (map code ''t'') = Inr True" by code_simp+
  then have "csrf_response sample_panel (sample_request right_header ''a'' 1) = Inr ()"
    by (simp add: csrf_response_def request_token_def sample_request_def)
  moreover have "response sample_panel (sample_request right_header ''a'' 1) no_guard = Inr ()"
    using sample_attempts(2) [of "''a''" 1] by (simp add: response_def no_guard_def locked_def sample_request_def sample_panel_def)
  ultimately show ?thesis
    using mutation_answer_after [of sample_panel sample_hosts "[]" "sample_request right_header ''a'' 1" "\<lparr>pn_file = None, pn_log = []\<rparr>"]
      sample_orderly [of "''a''"] by (simp add: guard_after_def sample_hosts_def)
qed

theorem mutation_guarded_witness:
  "authenticates sample_panel (sample_request right_header ''a'' 1)
   \<and> rq_cookie (sample_request right_header ''a'' 1) \<noteq> []
   \<and> request_token (sample_request right_header ''a'' 1) = rq_cookie (sample_request right_header ''a'' 1)"
proof -
  obtain s' where "require_mutation_guard sample_panel (sample_request right_header ''a'' 1) \<lparr>pn_file = None, pn_log = []\<rparr> = (Inr (), s')"
    using sample_mutation by (cases "require_mutation_guard sample_panel (sample_request right_header ''a'' 1) \<lparr>pn_file = None, pn_log = []\<rparr>") simp
  from mutation_guarded [OF this] show ?thesis by (simp add: sample_panel_def)
qed

section \<open>Sequences of requests\<close>

text \<open>The panel starts without a health file; the requests come from at most as many addresses as it tracks.\<close>

definition sample_wrong :: "nat \<Rightarrow> request list" where
  "sample_wrong n = map (\<lambda>k. sample_request None ''a'' (int k)) [1..<n + 1]"

lemma sample_request_now [simp]: "rq_now_ms (sample_request h host ms) = ms"
  by (simp add: sample_request_def)

lemma sample_hits: "hits sample_panel ''a'' (sample_wrong n) = map (\<lambda>k. (Wrong, int k)) [1..<n + 1]"
  by (simp add: hits_def sample_wrong_def filter_map comp_def sample_address sample_attempts del: upt_Suc)

lemma sample_wrong_orderly:
  "n < m \<Longrightarrow> host \<in> sample_hosts \<Longrightarrow> orderly sample_panel sample_hosts (sample_wrong n @ [sample_request h host (int m)])"
  using sample_known [of host "int m" h] sample_known [of "''a''" _ None]
  by (auto simp: orderly_def sample_wrong_def sample_hosts_def list_all_iff sorted_append comp_def sorted_map simp del: upt_Suc)

lemma fresh_panel: "pn_file \<lparr>pn_file = None, pn_log = l\<rparr> = None"
  by simp

text \<open>C25 The panel refines the machine of each address: after any orderly requests, the answer to the next is
  the one that the failures and the lockout of its own address, and its header and token, give it.\<close>
theorem panel_answers:
  assumes "orderly env S (rqs @ [rq])" and "pn_file s = None"
  shows "fst (require_operator_basic_auth env rq (fold (request_op env) rqs s)) = response env rq (guard_after env (address env rq) rqs)
    \<and> fst (require_mutation_guard env rq (fold (request_op env) rqs s)) =
      bindR (response env rq (guard_after env (address env rq) rqs)) (\<lambda>_. csrf_response env rq)"
  using answer_after [OF assms] mutation_answer_after [OF assms] by blast

theorem panel_answers_witness:
  "fst (require_operator_basic_auth sample_panel (sample_request None ''b'' 3)
     (fold (request_op sample_panel) (sample_wrong 2) \<lparr>pn_file = None, pn_log = []\<rparr>)) = http 401 ''operator authentication required''"
proof -
  have o: "orderly sample_panel sample_hosts (sample_wrong 2 @ [sample_request None ''b'' 3])"
    using sample_wrong_orderly [of 2 3 "''b''" None] by (simp add: sample_hosts_def)
  have "hits sample_panel ''b'' (sample_wrong 2) = []" by (simp add: sample_wrong_def hits_def sample_address)
  then have "response sample_panel (sample_request None ''b'' 3) (guard_after sample_panel ''b'' (sample_wrong 2)) =
      http 401 ''operator authentication required''"
    using sample_attempts(1) [of "''b''" 3]
    by (simp add: guard_after_def no_guard_def response_def locked_def refusal_def)
      (simp add: sample_panel_def sample_request_def)
  with panel_answers [OF o fresh_panel] show ?thesis by (simp add: sample_address)
qed

text \<open>C26 Ten wrong attempts of an address within a minute, which are its first or come after a minute without
  any attempt of it, lock it out: until a minute after the tenth it is refused whatever it sends, the right
  password included, and whatever came from it in between. The failures are counted in a window that begins
  with the first of them, so ten that go on from an older window need not lock the address out. The requests
  are orderly: at most 200 addresses, in the order of their times, from a panel without a health file.\<close>
theorem ten_wrong_lock_out:
  assumes "orderly env S (rqs @ [rq])" and "pn_file s = None" and "pe_password env = Some pw" "pw \<noteq> []"
    and "hits env (address env rq) rqs = early @ ten @ rest" and "length ten = 10"
    and "\<forall>e \<in> set early. snd e + 60000 < snd (hd ten)"
    and "\<forall>e \<in> set ten. fst e = Wrong \<and> snd e \<le> snd (hd ten) + 60000" and "rq_now_ms rq < snd (last ten) + 60000"
  shows "fst (require_operator_basic_auth env rq (fold (request_op env) rqs s)) = http 429 ''too many authentication attempts''"
proof -
  have o: "orderly env S rqs" using orderly_append [OF assms(1)] by simp
  have ten: "int (length ten) = panel_auth_fail_threshold" using assms(6) by (simp add: panel_auth_fail_threshold_def)
  then have "hd ten \<in> set ten" by (cases ten) (simp_all add: panel_auth_fail_threshold_def)
  then have times: "sorted (map snd (ten @ rest))" "0 < snd (hd ten)" "\<forall>e \<in> set rest. snd e < snd (last ten) + lockout_ms"
    using hits_times [OF o, of "address env rq"] hits_before [OF assms(1), of "address env rq"] assms(5,9)
    unfolding lockout_ms_def by (simp_all add: ball_Un sorted_append) (metis le_less_trans)
  have "locked (rq_now_ms rq) (guard_after env (address env rq) rqs)"
    unfolding guard_after_def no_guard_def assms(5)
    by (rule lockout_holds [OF ten times(1,2) _ _ times(3)]) (use assms(7-9) in \<open>simp_all add: window_ms_def lockout_ms_def\<close>)
  with answer_after [OF assms(1,2)] assms(3,4) show ?thesis by (simp add: response_def)
qed

theorem ten_wrong_lock_out_witness:
  "fst (require_operator_basic_auth sample_panel (sample_request right_header ''a'' 11)
     (fold (request_op sample_panel) (sample_wrong 10) \<lparr>pn_file = None, pn_log = []\<rparr>)) = http 429 ''too many authentication attempts''"
proof -
  have o: "orderly sample_panel sample_hosts (sample_wrong 10 @ [sample_request right_header ''a'' 11])"
    using sample_wrong_orderly [of 10 11 "''a''" right_header] by (simp add: sample_hosts_def)
  have h: "hits sample_panel (address sample_panel (sample_request right_header ''a'' 11)) (sample_wrong 10) =
      [] @ map (\<lambda>k. (Wrong, int k)) [1..<11] @ []"
    by (simp add: sample_address sample_hits del: upt_Suc)
  show ?thesis
    by (rule ten_wrong_lock_out [where pw = "''pw''", OF o fresh_panel _ _ h]) (simp_all add: sample_panel_def last_map hd_map)
qed

text \<open>C27 An address that does not know the password can have at most nineteen guesses checked in any minute,
  when the requests are orderly: at most 200 addresses, in the order of their times, and the panel starts
  without a health file.\<close>
theorem guesses_bounded:
  assumes "orderly env S rqs" and "pn_file s = None" and "\<forall>e \<in> set (hits env i rqs). fst e \<noteq> Right"
  shows "length (filter (\<lambda>x. t - 60000 < x \<and> x \<le> t) (guesses env i rqs s [])) \<le> 19"
proof -
  have "sorted (0 # map snd (hits env i rqs))" using hits_times [OF assms(1), of i] by (auto simp: less_imp_le)
  moreover have "bounded 0 no_guard []" by (simp add: bounded_def no_guard_def panel_auth_fail_threshold_def)
  moreover have "\<forall>t. in_window t [] \<le> 19" by (simp add: in_window_def)
  ultimately have "\<forall>t. in_window t (snd (guard_run (hits env i rqs) (no_guard, []))) \<le> 19"
    using wrong_run_bound assms(3) by blast
  then show ?thesis unfolding guesses_fresh [OF assms(1,2)] in_window_def window_ms_def by simp
qed

theorem guesses_bounded_witness:
  "length (filter (\<lambda>x. 3 - 60000 < x \<and> x \<le> 3)
     (guesses sample_panel ''a'' (sample_wrong 10 @ [sample_request None ''b'' 11]) \<lparr>pn_file = None, pn_log = []\<rparr> [])) \<le> 19"
proof -
  have o: "orderly sample_panel sample_hosts (sample_wrong 10 @ [sample_request None ''b'' 11])"
    using sample_wrong_orderly [of 10 11 "''b''" None] by (simp add: sample_hosts_def)
  have "hits sample_panel ''a'' (sample_wrong 10 @ [sample_request None ''b'' 11]) = map (\<lambda>k. (Wrong, int k)) [1..<11]"
    using sample_hits [of 10] by (simp add: hits_def sample_address del: upt_Suc)
  then show ?thesis by (intro guesses_bounded [OF o fresh_panel]) simp
qed

end
