(* ===== verification/Health_Theorems.thy ===== *)
theory Health_Theorems
  imports Health_Degradation Panel_Theorems
begin

text \<open>The properties of the health snapshot with their witnesses.\<close>

section \<open>The first event\<close>

lemma first_event:
  assumes "float_ok env" and "admissible_event e"
  shows "tracks env (file_after env e None) (degrade e (0, PNone))"
proof -
  obtain d where d: "normalize_health env [] = Inr d" "wf_dict d" "get d ''consecutive_brain_failures'' = PInt 0"
    "get d ''daemon_state'' = PStr ''healthy''" "get d ''degraded_since_ts'' = PNone"
    by (rule normalize_empty)
  have n: "normal env d" by (rule normalize_normal [OF assms(1) _ d(1)]) (simp add: float_texts_def float_text_def)
  have s: "shows_state d (0, PNone)" using d by (simp add: shows_state_def level_def degraded_threshold_def)
  from degradation_step [OF assms(1) n d(2) s assms(2)] obtain u
    where u: "(case e of Fell t ms \<Rightarrow> bindR (update_degradation_state env t True False d) (\<lambda>x. Inr (stamp_update ms x))
       | Succeeded t ms \<Rightarrow> bindR (update_degradation_state env t False True d) (\<lambda>x. Inr (stamp_update ms x))) = Inr u"
      "settled env u" "shows_state u (degrade e (0, PNone))" "wf_dict u" by blast
  have c: "normalize_health env (file_dict None) = Inr d" using d by (simp add: file_dict_def)
  show ?thesis
    using update_tracks [OF assms(1) c _ u(2,3,4)] u(1)
    by (cases e) (auto simp: file_after_def record_brain_fallback_attempt_def record_mission_success_def)
qed

lemma events_track:
  assumes "float_ok env" and "\<forall>e \<in> set es. admissible_event e" and "es \<noteq> []"
  shows "tracks env (fold (file_after env) es None) (fold degrade es (0, PNone))"
proof -
  obtain e es' where es: "es = e # es'" using assms(3) by (cases es) auto
  with assms(1,2) have "tracks env (file_after env e None) (degrade e (0, PNone))" by (intro first_event) simp_all
  from degradation.run [OF this, of es'] assms(1,2) show ?thesis by (simp add: es list_all_iff)
qed

section \<open>Properties\<close>

text \<open>C28 The health file is degraded exactly when three or more planner calls fell back since the last mission
  success; it counts them and keeps the time of the third, from any sequence of events.\<close>
theorem degraded_after_three_failures:
  assumes "float_ok env" and "\<forall>e \<in> set es. admissible_event e" and "es \<noteq> []"
  shows "let d = file_dict (fold (file_after env) es None); n = length (recent es) in
    get d ''consecutive_brain_failures'' = PInt (int n)
    \<and> get d ''daemon_state'' = PStr (if 3 \<le> n then ''degraded'' else ''healthy'')
    \<and> get d ''degraded_since_ts'' = (if 3 \<le> n then fell_at (recent es ! 2) else PNone)"
  using events_track [OF assms] unfolding degrade_run tracks_def
  by (auto simp: shows_state_def level_def degraded_threshold_def Let_def)

definition sample_events :: "brain_event list" where
  "sample_events = [Fell (PFloat (Finite 1 ''1.0'')) 1000, Succeeded (PFloat (Finite 2 ''2.0'')) 2000,
     Fell (PFloat (Finite 3 ''3.0'')) 3000, Fell (PFloat (Finite 4 ''4.0'')) 4000,
     Fell (PFloat (Finite 5 ''5.0'')) 5000, Fell (PFloat (Finite 6 ''6.0'')) 6000]"

theorem degraded_after_three_failures_witness:
  "let d = file_dict (fold (file_after sample_health) sample_events None) in
    get d ''consecutive_brain_failures'' = PInt 4 \<and> get d ''daemon_state'' = PStr ''degraded''
    \<and> get d ''degraded_since_ts'' = PFloat (Finite 5 ''5.0'')"
proof -
  have r: "recent sample_events = drop 2 sample_events" by (simp add: sample_events_def recent_def)
  have "\<forall>e \<in> set sample_events. admissible_event e" "sample_events \<noteq> []" by (simp_all add: sample_events_def)
  from degraded_after_three_failures [OF sample_float this] show ?thesis
    unfolding r Let_def by (simp add: sample_events_def)
qed

text \<open>Normalising is idempotent and the file holds the normal form: what is written is read back, but for the
  order of its keys, and reading it again changes nothing.\<close>
theorem snapshot_normal_form:
  assumes "float_ok env" and "float_texts d" "wf_dict d" and "normalize_health env d = Inr n"
  shows "normalize_health env n = Inr n
    \<and> write_health env d f = (Inr (), Some (PDict (sorted_dict n)))
    \<and> read_health env (Some (PDict (sorted_dict n))) = (Inr (sorted_dict n), Some (PDict (sorted_dict n)))"
proof -
  have n: "normal env n" by (rule normalize_normal [OF assms(1,2,4)])
  have "normal env (sorted_dict n)" by (rule normal_sorted [OF assms(1) n normalize_wf [OF assms(4,3)]])
  with n assms(4) show ?thesis
    by (simp add: normal_fixed read_health_run write_health_def file_dict_def)
qed

theorem snapshot_normal_form_witness:
  "\<exists>n. normalize_health sample_health [(''degraded_reason'', PStr ''x'')] = Inr n \<and> normalize_health sample_health n = Inr n"
proof -
  let ?d = "[(''degraded_reason'', PStr ''x'')]"
  have "isl (normalize_health sample_health ?d) = False" by code_simp
  then obtain n where n: "normalize_health sample_health ?d = Inr n" by (cases "normalize_health sample_health ?d") simp_all
  have "float_texts ?d" "wf_dict ?d" by (auto simp: float_texts_def float_text_def get_def get_or_def wf_dict_def)
  from snapshot_normal_form [OF sample_float this n] n show ?thesis by blast
qed

lemma backoff_eq:
  "\<exists>b m. \<forall>n. compute_brain_backoff_s env (PInt n) = Inr (min (max (backoff_tier (max n 0) (max b 0)) 0) (max m 0))"
proof -
  obtain b m where "read_env_int (he_backoff_base env) 2 = Inr b" "read_env_int (he_backoff_max env) 60 = Inr m"
    using read_env_ok by metis
  then show ?thesis by (intro exI [of _ b] exI [of _ m]) (simp add: compute_brain_backoff_s_def)
qed

lemma tier_mono: "0 \<le> b \<Longrightarrow> m \<le> n \<Longrightarrow> backoff_tier m b \<le> backoff_tier n b"
  by (auto simp: backoff_tier_def)

text \<open>C3 The back-off never raises, whatever its two variables hold, is never negative, grows with the
  failures, and is nothing before the third.\<close>
theorem backoff_grows:
  assumes "m \<le> n"
  shows "\<exists>v w. compute_brain_backoff_s env (PInt m) = Inr v \<and> compute_brain_backoff_s env (PInt n) = Inr w
    \<and> 0 \<le> v \<and> v \<le> w \<and> (m < 3 \<longrightarrow> v = 0)"
proof -
  obtain b x where c: "\<forall>n. compute_brain_backoff_s env (PInt n) = Inr (min (max (backoff_tier (max n 0) (max b 0)) 0) (max x 0))"
    using backoff_eq by blast
  define w where "w = (\<lambda>n. min (max (backoff_tier (max n 0) (max b 0)) 0) (max x 0))"
  have "backoff_tier (max m 0) (max b 0) \<le> backoff_tier (max n 0) (max b 0)"
    by (rule tier_mono) (use assms in \<open>simp_all add: max.mono\<close>)
  then have "w m \<le> w n" unfolding w_def by (intro min.mono max.mono order_refl)
  moreover have "0 \<le> w m" unfolding w_def by simp
  moreover have "m < 3 \<longrightarrow> w m = 0"
  proof
    assume "m < 3"
    then have "backoff_tier (max m 0) (max b 0) = 0" by (simp add: backoff_tier_def le_max_iff_disj)
    then show "w m = 0" by (simp add: w_def)
  qed
  moreover have "compute_brain_backoff_s env (PInt k) = Inr (w k)" for k using c by (simp add: w_def)
  ultimately show ?thesis by blast
qed

theorem backoff_grows_witness:
  "\<exists>v w. compute_brain_backoff_s sample_health (PInt 2) = Inr v \<and> compute_brain_backoff_s sample_health (PInt 7) = Inr w
    \<and> 0 \<le> v \<and> v \<le> w \<and> v = 0"
proof -
  have "(2::int) \<le> 7" "(2::int) < 3" by simp_all
  from backoff_grows [OF this(1), of sample_health] this(2) show ?thesis by blast
qed

end
