(* ===== verification/Regex.thy ===== *)
theory Regex
  imports PyValue
begin

text \<open>
  The regular expressions of Python's \<open>re\<close> that the program uses, as a backtracking matcher: a pattern maps a
  position of the text to the list of positions it can end at, the preferred one first. Literals ignore case
  when asked to; classes are predicates. Strings are Latin-1.
\<close>

section \<open>Patterns\<close>

datatype pat = Here | Lit char | Cls "char \<Rightarrow> bool" | Seq pat pat | Alt pat pat
  | Rep bool nat "nat option" pat | Named string pat | Begin | End | Bound | NotAhead pat

text \<open>A position: the character before it, the text after it, the groups, the latest first\<close>

type_synonym pos = "char option \<times> string \<times> (string \<times> string) list"

definition ahead :: "pos \<Rightarrow> string" where
  "ahead p = fst (snd p)"

definition is_word :: "char \<Rightarrow> bool" where
  "is_word c = (let n = code c in (48 \<le> n \<and> n \<le> 57) \<or> (65 \<le> n \<and> n \<le> 90) \<or> (97 \<le> n \<and> n \<le> 122) \<or> n = 95
     \<or> n \<in> {170, 178, 179, 181, 185, 186, 188, 189, 190} \<or> (192 \<le> n \<and> n \<noteq> 215 \<and> n \<noteq> 247))"

definition at_bound :: "pos \<Rightarrow> bool" where
  "at_bound p = (case p of (b, s, g) \<Rightarrow>
     (case b of None \<Rightarrow> False | Some c \<Rightarrow> is_word c) \<noteq> (case s of [] \<Rightarrow> False | c # _ \<Rightarrow> is_word c))"

definition step_if :: "(char \<Rightarrow> bool) \<Rightarrow> pos \<Rightarrow> pos list" where
  "step_if f p = (case p of (b, s, g) \<Rightarrow> (case s of [] \<Rightarrow> [] | c # cs \<Rightarrow> if f c then [(Some c, cs, g)] else []))"

text \<open>At most \<open>n\<close> more repetitions, each of which has to advance; the greedy ones are preferred first, the
  lazy ones last.\<close>

fun repeat_upto :: "bool \<Rightarrow> (pos \<Rightarrow> pos list) \<Rightarrow> nat \<Rightarrow> pos \<Rightarrow> pos list" where
  "repeat_upto greedy f 0 p = [p]"
| "repeat_upto greedy f (Suc n) p =
     (let further = concat (map (\<lambda>q. if length (ahead q) < length (ahead p) then repeat_upto greedy f n q else []) (f p))
      in if greedy then further @ [p] else p # further)"

fun repeat_exactly :: "(pos \<Rightarrow> pos list) \<Rightarrow> nat \<Rightarrow> pos \<Rightarrow> pos list" where
  "repeat_exactly f 0 p = [p]"
| "repeat_exactly f (Suc n) p = concat (map (repeat_exactly f n) (f p))"

definition repetitions :: "nat \<Rightarrow> nat option \<Rightarrow> pos \<Rightarrow> nat" where
  "repetitions lo hi p = (case hi of None \<Rightarrow> length (ahead p) | Some h \<Rightarrow> h - lo)"

fun ends :: "bool \<Rightarrow> pat \<Rightarrow> pos \<Rightarrow> pos list" where
  "ends ic Here p = [p]"
| "ends ic (Lit c) p = step_if (\<lambda>x. if ic then lower_char x = lower_char c else x = c) p"
| "ends ic (Cls f) p = step_if f p"
| "ends ic (Seq r q) p = concat (map (ends ic q) (ends ic r p))"
| "ends ic (Alt r q) p = ends ic r p @ ends ic q p"
| "ends ic (Rep greedy lo hi r) p =
     concat (map (\<lambda>q. repeat_upto greedy (ends ic r) (repetitions lo hi q) q) (repeat_exactly (ends ic r) lo p))"
| "ends ic (Named n r) p =
     map (\<lambda>q. (fst q, ahead q, (n, take (length (ahead p) - length (ahead q)) (ahead p)) # snd (snd q))) (ends ic r p)"
| "ends ic Begin p = (if fst p = None then [p] else [])"
| "ends ic End p = (if ahead p = [] \<or> ahead p = [CHR 0x0A] then [p] else [])"
| "ends ic Bound p = (if at_bound p then [p] else [])"
| "ends ic (NotAhead r) p = (if ends ic r p = [] then [p] else [])"

section \<open>Searching\<close>

definition first_end :: "bool \<Rightarrow> pat \<Rightarrow> pos \<Rightarrow> pos option" where
  "first_end ic r p = (case ends ic r p of [] \<Rightarrow> None | q # _ \<Rightarrow> Some q)"

definition re_match :: "bool \<Rightarrow> pat \<Rightarrow> string \<Rightarrow> pos option" where
  "re_match ic r s = first_end ic r (None, s, [])"

definition re_fullmatch :: "bool \<Rightarrow> pat \<Rightarrow> string \<Rightarrow> pos option" where
  "re_fullmatch ic r s = List.find (\<lambda>q. ahead q = []) (ends ic r (None, s, []))"

text \<open>The text before the leftmost match, and where the match ends\<close>

fun search_from :: "bool \<Rightarrow> pat \<Rightarrow> char option \<Rightarrow> string \<Rightarrow> (string \<times> pos) option" where
  "search_from ic r b [] = map_option (Pair []) (first_end ic r (b, [], []))"
| "search_from ic r b (c # cs) = (case first_end ic r (b, c # cs, []) of
     Some q \<Rightarrow> Some ([], q)
   | None \<Rightarrow> map_option (map_prod ((#) c) id) (search_from ic r (Some c) cs))"

definition re_search :: "bool \<Rightarrow> pat \<Rightarrow> string \<Rightarrow> (string \<times> pos) option" where
  "re_search ic r s = search_from ic r None s"

definition found :: "bool \<Rightarrow> pat \<Rightarrow> string \<Rightarrow> bool" where
  "found ic r s \<longleftrightarrow> re_search ic r s \<noteq> None"

definition group_of :: "pos \<Rightarrow> string \<Rightarrow> string option" where
  "group_of q n = map_of (snd (snd q)) n"

text \<open>\<open>re.sub(pattern, "", s, count=n)\<close>: the fuel is the length of the text, as every round removes a
  match that is not empty or passes over one character.\<close>

fun remove_matches :: "nat \<Rightarrow> bool \<Rightarrow> pat \<Rightarrow> char option \<Rightarrow> string \<Rightarrow> string" where
  "remove_matches 0 ic r b s = s"
| "remove_matches (Suc n) ic r b s = (case search_from ic r b s of
     None \<Rightarrow> s
   | Some (pre, q) \<Rightarrow>
       if length (ahead q) + length pre < length s then pre @ remove_matches n ic r (fst q) (ahead q)
       else (case ahead q of [] \<Rightarrow> s | c # cs \<Rightarrow> pre @ c # remove_matches n ic r (Some c) cs))"

definition re_delete :: "bool \<Rightarrow> pat \<Rightarrow> string \<Rightarrow> string" where
  "re_delete ic r s = remove_matches (length s) ic r None s"

section \<open>Building patterns\<close>

fun seq :: "pat list \<Rightarrow> pat" where
  "seq [] = Here" | "seq [r] = r" | "seq (r # rs) = Seq r (seq rs)"

fun alts :: "pat list \<Rightarrow> pat" where
  "alts [] = Cls (\<lambda>_. False)" | "alts [r] = r" | "alts (r # rs) = Alt r (alts rs)"

definition lits :: "string \<Rightarrow> pat" where
  "lits s = seq (map Lit s)"

definition star :: "pat \<Rightarrow> pat" where "star r = Rep True 0 None r"
definition some_of :: "pat \<Rightarrow> pat" where "some_of r = Rep True 1 None r"
definition maybe :: "pat \<Rightarrow> pat" where "maybe r = Rep True 0 (Some 1) r"
definition space :: pat where "space = Cls is_space"
definition spaces :: pat where "spaces = star space"
definition gap :: pat where "gap = some_of space"
definition solid :: pat where "solid = Cls (\<lambda>c. \<not> is_space c)"
definition any_char :: pat where "any_char = Cls (\<lambda>c. c \<noteq> CHR 0x0A)"

text \<open>Words with a gap between them\<close>

definition phrase :: "string list \<Rightarrow> pat" where
  "phrase ws = (case ws of [] \<Rightarrow> Here | w # ws \<Rightarrow> seq (lits w # concat (map (\<lambda>v. [gap, lits v]) ws)))"

section \<open>Facts\<close>

text \<open>A match ends inside the text it began in.\<close>

definition inside :: "pos \<Rightarrow> pos \<Rightarrow> bool" where
  "inside p q \<longleftrightarrow> (\<exists>t. ahead p = t @ ahead q)"

lemma inside_refl: "inside p p"
  by (simp add: inside_def)

lemma inside_trans: "inside p q \<Longrightarrow> inside q r \<Longrightarrow> inside p r"
  by (force simp: inside_def)

lemma step_if_inside: "q \<in> set (step_if f p) \<Longrightarrow> inside p q"
  by (cases p) (auto simp: step_if_def inside_def ahead_def split: list.splits if_splits)

lemma repeat_upto_inside:
  assumes "\<And>p q. q \<in> set (f p) \<Longrightarrow> inside p q"
  shows "q \<in> set (repeat_upto g f n p) \<Longrightarrow> inside p q"
proof (induction n arbitrary: p q)
  case (Suc n)
  then have "q = p \<or> (\<exists>r \<in> set (f p). q \<in> set (repeat_upto g f n r))"
    by (auto simp: Let_def split: if_splits)
  with Suc.IH assms show ?case using inside_refl inside_trans by blast
qed (simp add: inside_refl)

lemma repeat_exactly_inside:
  assumes "\<And>p q. q \<in> set (f p) \<Longrightarrow> inside p q"
  shows "q \<in> set (repeat_exactly f n p) \<Longrightarrow> inside p q"
proof (induction n arbitrary: p q)
  case (Suc n)
  then obtain r where "r \<in> set (f p)" "q \<in> set (repeat_exactly f n r)" by auto
  with Suc.IH assms show ?case using inside_trans by blast
qed (simp add: inside_refl)

lemma ends_inside: "q \<in> set (ends ic r p) \<Longrightarrow> inside p q"
proof (induction r arbitrary: p q)
  case (Seq r1 r2)
  then obtain m where "m \<in> set (ends ic r1 p)" "q \<in> set (ends ic r2 m)" by auto
  with Seq.IH show ?case using inside_trans by blast
next
  case (Rep greedy lo hi r)
  then obtain m where m: "m \<in> set (repeat_exactly (ends ic r) lo p)"
    "q \<in> set (repeat_upto greedy (ends ic r) (repetitions lo hi m) m)" by auto
  have "inside p m" by (rule repeat_exactly_inside [OF Rep.IH m(1)])
  moreover have "inside m q" by (rule repeat_upto_inside [OF Rep.IH m(2)])
  ultimately show ?case by (rule inside_trans)
next
  case (Named n r)
  then obtain m where "m \<in> set (ends ic r p)" "ahead q = ahead m" by (auto simp: ahead_def)
  with Named.IH [of m p] show ?case by (simp add: inside_def)
qed (auto simp: inside_refl split: if_splits dest: step_if_inside)

lemma group_latest: "q \<in> set (ends ic (Named n r) p) \<Longrightarrow> \<exists>t. group_of q n = Some t \<and> ahead p = t @ ahead q"
proof -
  assume "q \<in> set (ends ic (Named n r) p)"
  then obtain m where m: "m \<in> set (ends ic r p)"
    "q = (fst m, ahead m, (n, take (length (ahead p) - length (ahead m)) (ahead p)) # snd (snd m))" by auto
  from ends_inside [OF m(1)] obtain t where "ahead p = t @ ahead m" by (auto simp: inside_def)
  with m(2) show ?thesis by (auto simp: group_of_def ahead_def)
qed

end
