(* ===== verification/Intent_Classifier.thy ===== *)
theory Intent_Classifier
  imports Simple_Intent Regex
begin

text \<open>
  The classifier of \<open>voxera/core/simple_intent.py\<close>: a cascade of regular expressions on the goal of a job.
  All of them ignore case.
\<close>

section \<open>The patterns\<close>

definition lead :: "pat \<Rightarrow> pat" where
  "lead r = seq [Begin, spaces, r]"

definition ended :: "pat \<Rightarrow> pat" where
  "ended r = Seq r Bound"

definition either :: "string list \<Rightarrow> pat" where
  "either ws = alts (map lits ws)"

definition then_gap :: "pat \<Rightarrow> pat" where
  "then_gap r = Seq r gap"

definition re_write_verb :: pat where
  "re_write_verb = lead (ended (alts [lits ''write'', phrase [''append'', ''to''],
     seq [lits ''save'', gap, some_of any_char, gap, lits ''to''],
     seq [lits ''create'', gap, star (then_gap (either [''a'', ''an'', ''new'', ''empty''])), lits ''file'']]))"

definition tilde_or_slash :: pat where
  "tilde_or_slash = Cls (\<lambda>c. c = CHR ''~'' \<or> c = CHR ''/'')"

definition read_head :: pat where
  "read_head = alts [
     seq [maybe (then_gap (phrase [''open'', ''and''])), lits ''read'', maybe (Seq gap (lits ''the'')), gap,
       maybe (then_gap (lits ''file''))],
     then_gap (lits ''cat''), then_gap (lits ''display''), then_gap (lits ''view''),
     seq [lits ''show'', gap, lits ''content'', maybe (Lit CHR ''s''), gap, then_gap (lits ''of'')]]"

definition re_read_verb :: pat where
  "re_read_verb = lead (Seq read_head tilde_or_slash)"

definition re_read_path :: pat where
  "re_read_path = lead (Seq read_head (Named ''path'' (Seq tilde_or_slash (some_of solid))))"

definition re_write_called :: pat where
  "re_write_called = seq [Bound, lits ''calle'', maybe (Lit CHR ''d''), gap, Named ''name'' (some_of solid), spaces, End]"

definition re_run_verb :: pat where
  "re_run_verb = lead (alts [ended (phrase [''run'', ''command'']), ended (lits ''execute''), ended (lits ''exec''),
     seq [lits ''run'', gap, maybe (then_gap (lits ''the'')), maybe (then_gap (lits ''command'')), Lit CHR 0x60]])"

definition re_question_verb :: pat where
  "re_question_verb = lead (alts [ended (phrase [''what'', ''is'']), ended (phrase [''what'', ''are'']),
     ended (lits (''what'' @ [CHR 0x27] @ ''s'')), ended (phrase [''how'', ''do'']), ended (phrase [''how'', ''can'']),
     ended (phrase [''tell'', ''me'']), ended (phrase [''show'', ''me'']), ended (lits ''describe''), ended (lits ''explain''),
     ended (seq [either [''get'', ''fetch'', ''check'', ''show''], gap, maybe (then_gap (lits ''current'')),
       phrase [''system'', ''status'']]),
     ended (seq [phrase [''what'', ''is''], gap, maybe (then_gap (lits ''my'')), maybe (then_gap (lits ''current'')),
       phrase [''system'', ''status'']])])"

definition re_status_phrase :: pat where
  "re_status_phrase = seq [Bound, alts [phrase [''system'', ''status''], phrase [''current'', ''status''],
     phrase [''health'', ''status'']], Bound]"

definition re_leading_polite :: pat where
  "re_leading_polite = lead (alts [then_gap (lits ''please''), then_gap (lits ''kindly'')])"

definition re_compound_split :: pat where
  "re_compound_split = seq [gap, alts [phrase [''and'', ''then''], lits ''and'', lits ''then''], gap]"

definition re_meta_prefix :: pat where
  "re_meta_prefix = lead (alts [ended (phrase [''how'', ''do'', ''i'']), ended (phrase [''how'', ''should'']),
     ended (lits ''why''), ended (phrase [''when'', ''i'', ''say'']), ended (then_gap (phrase [''help'', ''me''])),
     ended (seq [lits ''the'', gap, either [''phrase'', ''command'']]),
     ended (seq [lits ''write'', gap, maybe (then_gap (lits ''a'')), phrase [''script'', ''that'']])])"

definition re_meta_any :: pat where
  "re_meta_any = seq [Bound, alts [phrase [''how'', ''do'', ''i''], phrase [''why'', ''does''],
     phrase [''phrase'', ''open'', ''terminal''], phrase [''command'', ''open'', ''terminal'', ''is'', ''broken''],
     lits ''misrouted''], Bound]"

definition file_char :: "char \<Rightarrow> bool" where
  "file_char c = (let n = code c in (97 \<le> n \<and> n \<le> 122) \<or> (65 \<le> n \<and> n \<le> 90) \<or> (48 \<le> n \<and> n \<le> 57)
     \<or> c \<in> {CHR ''.'', CHR ''_'', CHR ''-''})"

definition url_head :: pat where
  "url_head = seq [lits ''http'', maybe (Lit CHR ''s''), lits ''://'']"

definition re_quoted_action :: pat where
  "re_quoted_action = seq [Cls (\<lambda>c. c = CHR 0x27 \<or> c = CHR 0x22), spaces, lits ''open'', gap,
     alts [lits ''terminal'', url_head, some_of (Cls file_char)]]"

definition re_open_terminal_direct :: pat where
  "re_open_terminal_direct = lead (ended (seq [either [''open'', ''launch'', ''start''], gap,
     maybe (alts [then_gap (lits ''the''), then_gap (lits ''a''), then_gap (lits ''an'')]), lits ''terminal'']))"

definition re_open_url_direct :: pat where
  "re_open_url_direct = lead (seq [either [''open'', ''launch''], gap,
     maybe (alts [seq [phrase [''this'', ''url''], spaces, Lit CHR '':'', spaces], then_gap (phrase [''the'', ''site''])]),
     Named ''url'' (Seq url_head (some_of solid))])"

definition re_open_app_direct :: pat where
  "re_open_app_direct = lead (ended (seq [either [''open'', ''launch'', ''start''], gap,
     Named ''name'' (alts [phrase [''gnome'', ''calculator''], lits ''gnome-calculator'', lits ''calculator'', lits ''firefox'',
       phrase [''gnome'', ''terminal''], lits ''terminal''])]))"

definition re_open_app_vague :: pat where
  "re_open_app_vague = lead (ended (seq [either [''open'', ''launch'', ''start''], gap,
     alts [phrase [''an'', ''app''], lits ''something'', phrase [''my'', ''work'', ''stuff'']]]))"

section \<open>The classifier\<close>

text \<open>\<open>rstrip\<close> and \<open>strip\<close> of given characters\<close>

definition rstrip_of :: "string \<Rightarrow> string \<Rightarrow> string" where
  "rstrip_of cs s = rev (dropWhile (\<lambda>c. c \<in> set cs) (rev s))"

definition strip_of :: "string \<Rightarrow> string \<Rightarrow> string" where
  "strip_of cs s = rstrip_of cs (dropWhile (\<lambda>c. c \<in> set cs) s)"

definition end_marks :: string where
  "end_marks = ''.,;:!?'' @ [CHR 0x22, CHR 0x27]"

definition meta_or_explanatory :: "string \<Rightarrow> bool" where
  "meta_or_explanatory text = (re_match True re_meta_prefix (lower text) \<noteq> None
     \<or> found True re_meta_any (lower text) \<or> found True re_quoted_action text)"

definition normalize_goal :: "string \<Rightarrow> string" where
  "normalize_goal text = strip (re_delete True re_leading_polite text)"

definition split_compound :: "string \<Rightarrow> string \<times> string option" where
  "split_compound text = (case re_search True re_compound_split text of
     None \<Rightarrow> (strip text, None)
   | Some (pre, q) \<Rightarrow> (strip pre, if strip (ahead q) = [] then None else Some (strip (ahead q))))"

definition classify_open_clause :: "string \<Rightarrow> intent_kind option \<times> string list \<times> string \<times> string option" where
  "classify_open_clause clause =
     (if re_match True re_open_terminal_direct clause \<noteq> None then
        (Some OpenTerminal, open_terminal_skills, ''direct_open_terminal'', Some ''terminal'')
      else case re_match True re_open_url_direct clause of
        Some q \<Rightarrow> (Some OpenUrl, open_url_skills, ''direct_open_url'',
          map_option (rstrip_of (''.,;:!?)'' @ [CHR 0x22, CHR 0x27])) (group_of q ''url''))
      | None \<Rightarrow>
          if re_match True re_open_app_vague clause \<noteq> None then (None, no_constraint, ''open_phrase_too_vague'', None)
          else case re_match True re_open_app_direct clause of
            Some q \<Rightarrow> (Some OpenApp, open_app_skills, ''direct_open_app'', map_option strip (group_of q ''name''))
          | None \<Rightarrow> (None, no_constraint, ''not_direct_open_clause'', None))"

definition read_target :: "string \<Rightarrow> string option" where
  "read_target goal = (case re_match True re_read_path goal of
     None \<Rightarrow> None
   | Some q \<Rightarrow> (case group_of q ''path'' of None \<Rightarrow> None | Some raw \<Rightarrow>
       let path = strip (rstrip_of end_marks raw) in
       if path \<noteq> [] \<and> is_safe_read_target path then Some path else None))"

definition write_target :: "string \<Rightarrow> string option" where
  "write_target goal = (case re_search True re_write_called goal of
     None \<Rightarrow> None
   | Some (pre, q) \<Rightarrow> (case group_of q ''name'' of None \<Rightarrow> None | Some raw \<Rightarrow>
       let name = strip_of end_marks raw in
       if name \<noteq> [] \<and> CHR ''/'' \<notin> set name \<and> CHR 0x5C \<notin> set name then Some (''~/VoxeraOS/notes/'' @ name) else None))"

definition classify_goal :: "string \<Rightarrow> simple_intent" where
  "classify_goal goal =
     (if re_match True re_question_verb goal \<noteq> None then
        intent_result AssistantQuestion True advisory_skills ''goal_starts_with_question_verb'' True None
      else if found True re_status_phrase goal \<and> length (words goal) \<le> 12 then
        intent_result AssistantQuestion True advisory_skills ''goal_contains_status_phrase'' True None
      else if re_match True re_read_verb goal \<noteq> None then
        intent_result ReadFile True read_skills ''goal_starts_with_read_verb_and_path'' True (read_target goal)
      else if re_match True re_write_verb goal \<noteq> None then
        intent_result WriteFile True write_skills ''goal_starts_with_write_verb'' True (write_target goal)
      else if re_match True re_run_verb goal \<noteq> None then
        intent_result RunCommand True run_skills ''goal_starts_with_run_verb'' True None
      else let (clause, remainder) = split_compound goal in
        case classify_open_clause clause of
          (Some k, allowed, reason, target) \<Rightarrow>
            (intent_result k True allowed reason True target)\<lparr>si_compound := remainder \<noteq> None,
              si_first_only := remainder \<noteq> None, si_first_kind := (if remainder \<noteq> None then Some k else None),
              si_remainder := remainder\<rparr>
        | (None, _) \<Rightarrow>
            make_unknown (if remainder \<noteq> None then ''compound_but_non_actionable_prefix'' else ''ambiguous_simple_intent''))"

definition classify_simple_operator_intent :: "string option \<Rightarrow> simple_intent" where
  "classify_simple_operator_intent goal = (case goal of
     None \<Rightarrow> make_unknown ''ambiguous_simple_intent''
   | Some g \<Rightarrow>
       if strip g = [] then make_unknown ''ambiguous_simple_intent''
       else if meta_or_explanatory (strip g) then make_unknown ''meta_or_explanatory_request''
       else classify_goal (normalize_goal (strip g)))"

section \<open>What a classification says\<close>

definition well_routed :: "simple_intent \<Rightarrow> bool" where
  "well_routed i \<longleftrightarrow> si_deterministic i = (si_kind i \<noteq> UnknownOrAmbiguous) \<and> si_fail_closed i = si_deterministic i
     \<and> si_allowed i = intent_allowed_skills (si_kind i)
     \<and> (si_kind i \<in> {ReadFile, WriteFile} \<longrightarrow> (\<forall>t. si_target i = Some t \<longrightarrow> is_safe_read_target t))
     \<and> si_compound i = (si_remainder i \<noteq> None) \<and> si_first_only i = si_compound i
     \<and> si_first_kind i = (if si_compound i then Some (si_kind i) else None)"

lemma unknown_routed: "well_routed (make_unknown reason)"
  by (simp add: well_routed_def make_unknown_def intent_result_def)

lemma direct_routed:
  "k \<noteq> UnknownOrAmbiguous \<Longrightarrow> allowed = intent_allowed_skills k \<Longrightarrow>
   (k \<in> {ReadFile, WriteFile} \<Longrightarrow> \<forall>t. target = Some t \<longrightarrow> is_safe_read_target t) \<Longrightarrow>
   well_routed (intent_result k True allowed reason True target)"
  by (auto simp: well_routed_def intent_result_def)

lemma read_target_safe: "read_target goal = Some t \<Longrightarrow> is_safe_read_target t"
  by (auto simp: read_target_def Let_def split: option.splits if_splits)

lemma rstrip_of_last: "rstrip_of cs s \<noteq> [] \<Longrightarrow> last (rstrip_of cs s) \<notin> set cs"
  using hd_dropWhile [of "\<lambda>c. c \<in> set cs" "rev s"] by (simp add: rstrip_of_def last_rev)

lemma split_on_none: "c \<notin> set s \<Longrightarrow> split_on c s = [s]"
  by (induction s) auto

lemma named_target_safe:
  assumes "CHR ''/'' \<notin> set name" "CHR 0x5C \<notin> set name" "name \<noteq> ''..''"
  shows "is_safe_read_target (''~/VoxeraOS/notes/'' @ name)"
proof -
  have same: "map (\<lambda>c. if c = CHR 0x5C then CHR ''/'' else c) name = name"
    by (rule map_idI) (use assms(2) in auto)
  have "split_on CHR ''/'' name = [name]" using assms(1) by (rule split_on_none)
  then have "split_on CHR ''/'' (''~/VoxeraOS/notes/'' @ name) = [''~'', ''VoxeraOS'', ''notes'', name]" by simp
  moreover have "map (\<lambda>c. if c = CHR 0x5C then CHR ''/'' else c) (''~/VoxeraOS/notes/'' @ name) = ''~/VoxeraOS/notes/'' @ name"
    using same by simp
  ultimately have "\<not> contains_parent_traversal (''~/VoxeraOS/notes/'' @ name)"
    unfolding contains_parent_traversal_def using assms(3) by (simp only:) simp
  then show ?thesis by (simp add: is_safe_read_target_def starts_with_def)
qed

lemma write_target_safe:
  assumes "write_target goal = Some t"
  shows "is_safe_read_target t"
proof -
  from assms obtain name raw where n: "name = strip_of end_marks raw" "name \<noteq> []" "CHR ''/'' \<notin> set name" "CHR 0x5C \<notin> set name"
    "t = ''~/VoxeraOS/notes/'' @ name" by (auto simp: write_target_def Let_def split: option.splits if_splits)
  have "CHR ''.'' \<in> set end_marks" by (simp add: end_marks_def)
  with n(1,2) rstrip_of_last have "last name \<noteq> CHR ''.''" unfolding strip_of_def by metis
  then have "name \<noteq> ''..''" by auto
  with n show ?thesis using named_target_safe by simp
qed

lemma open_clause_kind: "classify_open_clause c = (Some k, allowed, reason, target) \<Longrightarrow>
    k \<in> {OpenTerminal, OpenUrl, OpenApp} \<and> allowed = intent_allowed_skills k"
  by (auto simp: classify_open_clause_def split: option.splits if_splits)

lemma classify_goal_routed: "well_routed (classify_goal goal)"
proof -
  obtain clause rest where s: "split_compound goal = (clause, rest)" by fastforce
  obtain ko allowed reason target where c: "classify_open_clause clause = (ko, allowed, reason, target)"
    by (cases "classify_open_clause clause")
  have "well_routed (case ko of Some k \<Rightarrow> (intent_result k True allowed reason True target)\<lparr>si_compound := rest \<noteq> None,
            si_first_only := rest \<noteq> None, si_first_kind := (if rest \<noteq> None then Some k else None), si_remainder := rest\<rparr>
     | None \<Rightarrow> make_unknown (if rest \<noteq> None then ''compound_but_non_actionable_prefix'' else ''ambiguous_simple_intent''))"
  proof (cases ko)
    case (Some k)
    with c open_clause_kind have "k \<in> {OpenTerminal, OpenUrl, OpenApp}" "allowed = intent_allowed_skills k" by blast+
    then show ?thesis by (auto simp: Some well_routed_def intent_result_def)
  qed (simp only: option.case unknown_routed)
  then show ?thesis
    unfolding classify_goal_def s c prod.case Let_def
    by (auto intro!: direct_routed dest: read_target_safe write_target_safe simp: c split: option.splits)
qed

lemma classified_routed: "well_routed (classify_simple_operator_intent goal)"
  unfolding classify_simple_operator_intent_def
  by (auto intro: unknown_routed classify_goal_routed split: option.splits)

end
