(* ===== verification/Planner_Goals.thy ===== *)
theory Planner_Goals
  imports Intent_Classifier Missions
begin

text \<open>
  What the mission planner reads off the text of a goal (\<open>voxera/core/mission_planner.py\<close>): the
  deterministic notes and reads, what a goal asks for, and its sanitised form for the prompt. Where a path
  points to is a parameter, as it depends on the home directory and symbolic links. The curly quotes that
  \<open>_strip_matching_quotes\<close> also knows are not Latin-1.
\<close>

section \<open>Sanitised goals\<close>

definition esc :: char where
  "esc = CHR 0x1B"

definition between :: "nat \<Rightarrow> nat \<Rightarrow> char \<Rightarrow> bool" where
  "between a b c = (a \<le> code c \<and> code c \<le> b)"

definition any_at_all :: pat where
  "any_at_all = Cls (\<lambda>_. True)"

definition ansi_csi :: pat where
  "ansi_csi = seq [Lit esc, Lit CHR ''['', star (Cls (between 0x30 0x3F)), star (Cls (between 0x20 0x2F)), Cls (between 0x40 0x7E)]"

definition ansi_osc :: pat where
  "ansi_osc = seq [Lit esc, Lit CHR '']'', Rep False 0 None any_at_all, Alt (Lit CHR 0x07) (seq [Lit esc, Lit CHR 0x5C])]"

definition ansi_single :: pat where
  "ansi_single = seq [Lit esc, Cls (\<lambda>c. between 0x40 0x5A c \<or> between 0x5C 0x5F c)]"

definition is_control :: "char \<Rightarrow> bool" where
  "is_control c = (code c \<le> 0x1F \<or> code c = 0x7F)"

definition strip_ansi :: "string \<Rightarrow> string" where
  "strip_ansi text = re_delete False ansi_single (re_delete False ansi_csi (re_delete False ansi_osc text))"

definition sanitize_goal_for_prompt :: "string \<Rightarrow> string" where
  "sanitize_goal_for_prompt goal = join '' '' (words (re_delete False (Cls is_control) (strip_ansi goal)))"

section \<open>Paths in the notes\<close>

record notes_env =
  ne_resolve :: "string \<Rightarrow> string list option"
  ne_notes :: "string list"

text \<open>The parts of the resolved path, \<open>None\<close> when that raises; the root of the notes, resolved\<close>

definition is_safe_notes_path :: "notes_env \<Rightarrow> string \<Rightarrow> bool" where
  "is_safe_notes_path ne raw = (case ne_resolve ne raw of None \<Rightarrow> False | Some p \<Rightarrow> prefix (ne_notes ne) p)"

section \<open>Texts\<close>

definition quote_marks :: "char list" where
  "quote_marks = [CHR 0x22, CHR 0x27]"

definition strip_matching_quotes :: "string \<Rightarrow> string" where
  "strip_matching_quotes value = (let text = strip value in
     if length text \<ge> 2 \<and> hd text \<in> set quote_marks \<and> last text = hd text then strip (butlast (tl text)) else text)"

definition has_any :: "string list \<Rightarrow> string \<Rightarrow> bool" where
  "has_any ws s = list_ex (contains s) ws"

definition looks_like_append :: "string \<Rightarrow> bool" where
  "looks_like_append goal = found False (seq [Bound, lits ''append'', maybe (either [''ing'', ''ed'']), Bound]) (lower goal)"

definition write_mode_of :: "string \<Rightarrow> string" where
  "write_mode_of goal = (if looks_like_append goal then ''append'' else ''overwrite'')"

definition write_args :: "string \<Rightarrow> string \<Rightarrow> string \<Rightarrow> dict" where
  "write_args path text mode = [(''path'', PStr path), (''text'', PStr text), (''mode'', PStr mode)]"

definition implies_notes_directory :: "string \<Rightarrow> bool" where
  "implies_notes_directory goal = has_any [''allowed notes directory'', ''under notes directory'', ''under the notes directory'',
     ''in notes directory'', ''in the notes directory'', ''under ~/voxeraos/notes''] (lower goal)"

definition mentions_explicit_path :: "string \<Rightarrow> bool" where
  "mentions_explicit_path goal = has_any [''~/'', ''/'', [CHR 0x5C], ''.txt'', ''.md'', ''path:''] (lower goal)"

definition saying :: pat where
  "saying = alts [lits ''saying'', seq [lits ''that'', gap, lits ''say'', maybe (Lit CHR ''s'')]]"

definition some_text :: "string \<Rightarrow> pat" where
  "some_text n = Named n (Rep False 1 None any_at_all)"

definition extract_allowed_notes_write_args :: "string \<Rightarrow> dict option" where
  "extract_allowed_notes_write_args goal =
     (if \<not> implies_notes_directory goal \<or> mentions_explicit_path goal then None
      else let m = re_search True (seq [saying, spaces, maybe (Lit CHR '':''), spaces, Named ''1'' (some_of any_at_all), End]) (strip goal);
               said = (case m of Some (_, q) \<Rightarrow> the (group_of q ''1'') | None \<Rightarrow> ''ok'');
               text = strip (strip_matching_quotes (strip said)) in
        Some (write_args ''ok.txt'' (if text = [] then ''ok'' else text) (write_mode_of goal)))"

definition checkin_sections :: "string \<Rightarrow> string list" where
  "checkin_sections lowered =
     (let found_sections = (if contains lowered ''priorit'' then [''- Priorities:''] else [])
        @ (if contains lowered ''blocker'' then [''- Blockers:''] else []) in
      if found_sections = [] then [''- Priorities:'', ''- Blockers:''] else found_sections)"

definition extract_checkin_note_write_args :: "string \<Rightarrow> dict option" where
  "extract_checkin_note_write_args goal =
     (let text = strip goal; lowered = lower text in
      if text = [] \<or> mentions_explicit_path text then None
      else if \<not> (has_any [''write'', ''create'', ''draft''] lowered \<and> has_any [''check-in'', ''check in'', ''checkin''] lowered
          \<and> contains lowered ''note'') then None
      else Some (write_args ''daily-check-in.md''
        (join [CHR 0x0A] (''# Daily Check-in'' # checkin_sections lowered) @ [CHR 0x0A]) (write_mode_of text)))"

definition name_char :: "char \<Rightarrow> bool" where
  "name_char c = (between 48 57 c \<or> between 65 90 c \<or> between 97 122 c)"

definition re_planner_write_called :: pat where
  "re_planner_write_called = lead (seq [either [''write'', ''create'', ''make''], gap,
     maybe (alts [then_gap (lits ''a''), then_gap (lits ''an'')]), maybe (alts [then_gap (lits ''new''), then_gap (lits ''empty'')]),
     either [''note'', ''file''], gap, lits ''calle'', maybe (Lit CHR ''d''), gap,
     Named ''name'' (Seq (Cls name_char) (Rep True 0 (Some 63) (Cls (\<lambda>c. name_char c \<or> c \<in> {CHR ''_'', CHR ''-'', CHR ''.''})))),
     spaces, End])"

definition extract_named_file_write_args :: "notes_env \<Rightarrow> string \<Rightarrow> dict option" where
  "extract_named_file_write_args ne goal = (case re_match True re_planner_write_called (strip goal) of
     None \<Rightarrow> None
   | Some q \<Rightarrow> (let name = strip (the (group_of q ''name'')); path = ''~/VoxeraOS/notes/'' @ name in
       if name = [] \<or> \<not> is_safe_notes_path ne path then None else Some (write_args path [] ''overwrite'')))"

definition re_planner_read_path :: pat where
  "re_planner_read_path = lead (Seq read_head (Named ''path'' (Seq tilde_or_slash (some_of solid))))"

definition extract_simple_read_args :: "notes_env \<Rightarrow> string \<Rightarrow> dict option" where
  "extract_simple_read_args ne goal = (case re_match True re_planner_read_path (strip goal) of
     None \<Rightarrow> None
   | Some q \<Rightarrow> (let path = strip (rstrip_of end_marks (the (group_of q ''path''))) in
       if path = [] \<or> \<not> is_safe_notes_path ne path then None else Some [(''path'', PStr path)]))"

definition please :: pat where
  "please = maybe (then_gap (lits ''please''))"

definition write_patterns :: "pat list" where
  "write_patterns = [
     lead (seq [please, lits ''write'', gap, maybe (then_gap (lits ''a'')), either [''note'', ''file''], gap, either [''to'', ''at''],
       gap, some_text ''path'', gap, saying, spaces, maybe (Lit CHR '':''), spaces, some_text ''text'', spaces, End]),
     lead (seq [please, lits ''write'', gap, some_text ''text'', gap, lits ''to'', gap, some_text ''path'', spaces, End]),
     lead (seq [please, lits ''create'', gap, maybe (then_gap (lits ''a'')), either [''note'', ''file''], gap, either [''at'', ''to''],
       gap, some_text ''path'', gap, lits ''with'', gap, some_text ''text'', spaces, End])]"

fun simple_write_of :: "notes_env \<Rightarrow> string \<Rightarrow> pat list \<Rightarrow> dict option" where
  "simple_write_of ne text [] = None"
| "simple_write_of ne text (r # rs) = (case re_match True r text of
     None \<Rightarrow> simple_write_of ne text rs
   | Some q \<Rightarrow>
       (let path = rstrip_of '',;'' (strip (strip_matching_quotes (the (group_of q ''path''))));
            body = strip (strip_matching_quotes (the (group_of q ''text''))) in
        if path = [] \<or> \<not> is_safe_notes_path ne path \<or> body = [] then simple_write_of ne text rs
        else Some (write_args path body (write_mode_of text))))"

definition extract_simple_write_args :: "notes_env \<Rightarrow> string \<Rightarrow> dict option" where
  "extract_simple_write_args ne goal = (if strip goal = [] then None else simple_write_of ne (strip goal) write_patterns)"

section \<open>What a goal asks for\<close>

definition goal_requests_file_write :: "notes_env \<Rightarrow> string \<Rightarrow> bool" where
  "goal_requests_file_write ne goal = (extract_simple_write_args ne goal \<noteq> None \<or> extract_allowed_notes_write_args goal \<noteq> None
     \<or> (has_any [''write'', ''create'', ''append'', ''save'', ''update''] (lower goal)
        \<and> has_any [''note'', ''file'', ''.txt'', ''.md'', ''markdown'', ''document''] (lower goal)))"

definition goal_requests_file_read :: "string \<Rightarrow> bool" where
  "goal_requests_file_read goal = (has_any [''read'', ''show'', ''view'', ''open''] (lower goal)
     \<and> has_any [''note'', ''file'', ''content'', ''text'', ''.txt'', ''.md'', ''document''] (lower goal))"

definition sandbox_disallowed_tooling :: "string list" where
  "sandbox_disallowed_tooling = [''xdotool'', ''wmctrl'', ''xprop'', ''gdbus'', ''curl'', ''wget'']"

definition shell_verbs :: pat where
  "shell_verbs = either [''run'', ''execute'', ''use'', ''call'']"

definition shell_nouns :: pat where
  "shell_nouns = either [''command'', ''shell'', ''bash'', ''terminal'', ''sandbox.exec'']"

definition near :: "pat \<Rightarrow> pat \<Rightarrow> pat" where
  "near r q = seq [Bound, r, Bound, Rep True 0 (Some 32) any_at_all, Bound, q, Bound]"

definition goal_requests_shell :: "string \<Rightarrow> bool" where
  "goal_requests_shell goal = (found False (near shell_verbs shell_nouns) (lower goal) \<or> found False (near shell_nouns shell_verbs) (lower goal)
     \<or> found False (seq [Bound, either [''run'', ''execute''], gap, lits ''this'', Bound]) (lower goal)
     \<or> has_any sandbox_disallowed_tooling (lower goal))"

text \<open>The deterministic write, if the goal is one\<close>

definition direct_write_args :: "notes_env \<Rightarrow> string \<Rightarrow> dict option" where
  "direct_write_args ne goal = (case extract_simple_write_args ne goal of Some a \<Rightarrow> Some a | None \<Rightarrow>
     (case extract_allowed_notes_write_args goal of Some a \<Rightarrow> Some a | None \<Rightarrow>
     (case extract_checkin_note_write_args goal of Some a \<Rightarrow> Some a | None \<Rightarrow> extract_named_file_write_args ne goal)))"

section \<open>Facts\<close>

lemma search_class:
  "search_from ic (Cls f) b s = (case dropWhile (\<lambda>x. \<not> f x) s of [] \<Rightarrow> None
     | c # cs \<Rightarrow> Some (takeWhile (\<lambda>x. \<not> f x) s, (Some c, cs, [])))"
proof (induction s arbitrary: b)
  case (Cons c cs)
  show ?case
  proof (cases "f c")
    case False
    have "search_from ic (Cls f) b (c # cs) = map_option (map_prod ((#) c) id) (search_from ic (Cls f) (Some c) cs)"
      using False by (simp add: first_end_def step_if_def)
    also have "\<dots> = map_option (map_prod ((#) c) id) (case dropWhile (\<lambda>x. \<not> f x) cs of [] \<Rightarrow> None
       | c # cs' \<Rightarrow> Some (takeWhile (\<lambda>x. \<not> f x) cs, (Some c, cs', [])))" by (simp only: Cons.IH)
    finally show ?thesis using False
      by (cases "dropWhile (\<lambda>x. \<not> f x) cs") (simp_all del: search_from.simps dropWhile_eq_Nil_conv)
  qed (simp add: first_end_def step_if_def)
qed (simp add: first_end_def step_if_def)

lemma remove_class: "length s \<le> n \<Longrightarrow> remove_matches n ic (Cls f) b s = filter (\<lambda>x. \<not> f x) s"
proof (induction n arbitrary: b s)
  case (Suc n)
  show ?case
  proof (cases "dropWhile (\<lambda>x. \<not> f x) s")
    case Nil
    then have "search_from ic (Cls f) b s = None" by (simp only: search_class list.case)
    moreover have "filter (\<lambda>x. \<not> f x) s = s" using Nil by (simp add: filter_id_conv dropWhile_eq_Nil_conv)
    ultimately show ?thesis by simp
  next
    case (Cons c cs)
    define pre where "pre = takeWhile (\<lambda>x. \<not> f x) s"
    have s: "s = pre @ c # cs" using takeWhile_dropWhile_id [of "\<lambda>x. \<not> f x" s] Cons by (simp add: pre_def)
    have fc: "f c" using Cons hd_dropWhile [of "\<lambda>x. \<not> f x" s] by simp
    have pre: "\<forall>x \<in> set pre. \<not> f x" by (auto simp: pre_def dest: set_takeWhileD)
    have run: "search_from ic (Cls f) b s = Some (pre, (Some c, cs, []))" by (simp add: search_class Cons pre_def)
    have "length cs \<le> n" using Suc.prems s by simp
    from Suc.IH [OF this] show ?thesis
      using run s fc pre by (simp add: ahead_def filter_id_conv)
  qed
qed simp

lemma words_chars: "w \<in> set (words s) \<Longrightarrow> set w \<subseteq> set s"
proof (induction s arbitrary: w)
  case (Cons c cs)
  show ?case
  proof (cases "is_space c")
    case True
    then show ?thesis using Cons by fastforce
  next
    case False
    show ?thesis
    proof (cases cs)
      case Nil
      then show ?thesis using False Cons.prems by simp
    next
      case (Cons d ds)
      obtain ws where ws: "words cs = ws" by simp
      have "words (c # cs) = (if is_space d then [c] # ws else (case ws of [] \<Rightarrow> [[c]] | v # vs \<Rightarrow> (c # v) # vs))"
        by (simp only: words.simps(2) [of c cs] ws False if_False) (simp add: Cons)
      then have "w = [c] \<or> w \<in> set ws \<or> (\<exists>v \<in> set ws. w = c # v)"
        using \<open>w \<in> set (words (c # cs))\<close> by (cases ws) (auto split: if_splits)
      then show ?thesis unfolding ws [symmetric]
        using \<open>\<And>w. w \<in> set (words cs) \<Longrightarrow> set w \<subseteq> set cs\<close> by (metis empty_iff empty_set insert_mono list.simps(15) subset_insertI2 subset_refl empty_subsetI)
    qed
  qed
qed simp

lemma join_chars: "set (join sep ws) \<subseteq> set sep \<union> \<Union> (set ` set ws)"
  by (induction sep ws rule: join.induct) auto

lemma sanitized_chars: "c \<in> set (sanitize_goal_for_prompt goal) \<Longrightarrow> \<not> is_control c"
proof -
  define s where "s = re_delete False (Cls is_control) (strip_ansi goal)"
  assume "c \<in> set (sanitize_goal_for_prompt goal)"
  then have "c \<in> set (join '' '' (words s))" by (simp add: sanitize_goal_for_prompt_def s_def)
  with join_chars have "c \<in> set '' '' \<union> \<Union> (set ` set (words s))" by blast
  then have "c = CHR '' '' \<or> c \<in> set s" using words_chars by fastforce
  moreover have "x \<in> set s \<Longrightarrow> \<not> is_control x" for x by (simp add: s_def re_delete_def remove_class)
  moreover have "\<not> is_control CHR '' ''" by code_simp
  ultimately show "\<not> is_control c" by blast
qed

text \<open>A direct write goes to a fixed name or to a path in the notes.\<close>

definition good_write :: "notes_env \<Rightarrow> dict \<Rightarrow> bool" where
  "good_write ne a \<longleftrightarrow> (\<exists>p t m. a = write_args p t m \<and> (p \<in> {''ok.txt'', ''daily-check-in.md''} \<or> is_safe_notes_path ne p))"

lemma simple_write_good: "simple_write_of ne text rs = Some a \<Longrightarrow> good_write ne a"
  by (induction rs) (auto simp: good_write_def Let_def split: option.splits if_splits)

lemma direct_write_good:
  assumes "direct_write_args ne goal = Some a"
  shows "good_write ne a"
proof -
  consider "extract_simple_write_args ne goal = Some a" | "extract_allowed_notes_write_args goal = Some a"
    | "extract_checkin_note_write_args goal = Some a" | "extract_named_file_write_args ne goal = Some a"
    using assms by (auto simp: direct_write_args_def split: option.splits)
  then show ?thesis
  proof cases
    case 1
    then show ?thesis using simple_write_good by (simp add: extract_simple_write_args_def split: if_splits)
  qed (auto simp: extract_allowed_notes_write_args_def extract_checkin_note_write_args_def
      extract_named_file_write_args_def Let_def good_write_def split: option.splits if_splits)
qed

lemma direct_read_good:
  "extract_simple_read_args ne goal = Some a \<Longrightarrow> \<exists>p. a = [(''path'', PStr p)] \<and> is_safe_notes_path ne p"
  by (auto simp: extract_simple_read_args_def Let_def split: option.splits if_splits)

end
