(* ===== verification/Mission_Planner.thy ===== *)
theory Mission_Planner
  imports Planner_Goals Mission_Builder Health_Snapshot
begin

text \<open>
  The mission planner (\<open>voxera/core/mission_planner.py\<close>) with the classification of provider errors
  (\<open>voxera/brain/fallback.py\<close>). A language model is a function of the outer world that answers with text or
  raises; of the prompt only the sanitised goal varies. The parser of JSON, the tests of an exception
  against library classes, the skill manifests and the signatures of their entrypoints are parameters.
\<close>

section \<open>The environment\<close>

record 'w candidate =
  ca_name :: string
  ca_model :: string
  ca_generate :: "string \<Rightarrow> 'w \<Rightarrow> string result \<times> 'w"

record 'w provider =
  pv_model :: string
  pv_create :: "(string \<Rightarrow> 'w \<Rightarrow> string result \<times> 'w) result"

record 'w planner_env =
  pl_notes :: notes_env
  pl_cloud_allowed :: bool
  pl_brain :: "(string \<times> 'w provider) list"
  pl_discover :: "string list result"
  pl_expected_args :: "string \<Rightarrow> string list result"
  pl_json :: "string \<Rightarrow> py option"
  pl_is_a :: "string \<Rightarrow> exc \<Rightarrow> bool"
  pl_health :: health_env
  pl_now_ms :: "'w \<Rightarrow> int"
  pl_now_s :: "'w \<Rightarrow> py"
  pl_latency_ms :: "'w \<Rightarrow> int"
  pl_plan_id :: string
  pl_source :: string
  pl_job :: "string option"
  pl_allowed_apps :: "string list"
  pl_close_matches :: "string \<Rightarrow> string list \<Rightarrow> string list"

record 'w planning =
  pg_health :: "py option"
  pg_log :: "dict list"
  pg_outer :: 'w

record plan =
  pn_title :: py
  pn_goal :: string
  pn_steps :: "mission_step list"
  pn_notes :: py

definition planner_error :: "string \<Rightarrow> 'a result" where
  "planner_error msg = Inl (Exc (OtherError ''MissionPlannerError'') msg)"

definition max_steps :: nat where
  "max_steps = 5"

definition goal_max_len :: nat where
  "goal_max_len = 2000"

section \<open>Errors of providers\<close>

definition classify_planner_error :: "'w planner_env \<Rightarrow> exc \<Rightarrow> string" where
  "classify_planner_error env e = (let message = lower (str_exc e) in
     if pl_is_a env ''TimeoutError'' e \<or> contains message ''timed out'' then ''timeout''
     else if contains message ''rate limit'' \<or> contains message ''429'' then ''rate_limit''
     else if contains message ''non-json output'' \<or> (contains message ''json'' \<and> contains message ''planner'')
       \<or> contains message ''malformed provider output'' then ''malformed_json''
     else if class_of e = OtherError ''MissionPlannerError'' then ''planner_error''
     else ''provider_error'')"

definition is_auth :: "'w planner_env \<Rightarrow> exc \<Rightarrow> string \<Rightarrow> bool" where
  "is_auth env e message =
     (if pl_is_a env ''httpx.HTTPStatusError'' e then pl_is_a env ''status 401 or 403'' e
      else found False (seq [Bound, either [''401'', ''403''], Bound]) message
        \<or> has_any [''unauthorized'', ''forbidden'', ''auth''] message)"

definition classify_fallback_reason :: "'w planner_env \<Rightarrow> exc \<Rightarrow> string" where
  "classify_fallback_reason env e = (let message = lower (str_exc e) in
     if pl_is_a env ''TimeoutError'' e \<or> pl_is_a env ''httpx.TimeoutException'' e
       \<or> has_any [''timed out'', ''timeout'', ''deadline exceeded''] message then ''TIMEOUT''
     else if has_any [''429'', ''rate limit'', ''rate_limit''] message then ''RATE_LIMIT''
     else if is_auth env e message then ''AUTH''
     else if pl_is_a env ''JSONDecodeError'' e \<or> has_any [''json'', ''decode'', ''malformed'', ''invalid schema'', ''non-json'',
       ''schema_mismatch''] message then ''MALFORMED''
     else if pl_is_a env ''httpx.ConnectError'' e \<or> pl_is_a env ''ConnectionError'' e
       \<or> has_any [''dns'', ''name resolution'', ''connection refused'', ''connection reset'', ''connect error'',
         ''network unreachable'', ''no route'', ''broken pipe''] message then ''NETWORK''
     else ''UNKNOWN'')"

definition planner_failure_message :: "(string \<times> string \<times> string) list \<Rightarrow> string" where
  "planner_failure_message errs = ''Planner failed after fallbacks: '' @
     (if errs = [] then ''unknown error'' else join '', '' (map (\<lambda>(p, e, _). p @ '':'' @ e) errs))"

section \<open>Steps of a plan\<close>

definition expand_alias :: "string list \<Rightarrow> string \<times> string \<Rightarrow> dict \<Rightarrow> dict" where
  "expand_alias expected al d = (case al of (alias, canonical) \<Rightarrow>
     if canonical \<in> set expected \<and> \<not> has_key d canonical \<and> has_key d alias then dput d canonical (get d alias) else d)"

definition arg_aliases :: "(string \<times> string) list" where
  "arg_aliases = [(''content'', ''text''), (''body'', ''text''), (''argv'', ''command''), (''cmd'', ''command'')]"

definition normalize_step_args :: "py \<Rightarrow> string list \<Rightarrow> dict" where
  "normalize_step_args raw expected = (case raw of
     PDict d \<Rightarrow>
       if expected = [] then d
       else let normalized = filter (\<lambda>(k, v). k \<in> set expected) (fold (expand_alias expected) arg_aliases d) in
         if normalized \<noteq> [] then normalized
         else (case (expected, d) of ([k], [(k', v)]) \<Rightarrow> [(k, v)] | _ \<Rightarrow> [])
   | _ \<Rightarrow> [])"

definition clipboard_step :: "string \<Rightarrow> mission_step" where
  "clipboard_step message = mk_step ''clipboard.copy'' [(''text'', PStr message)]"

definition blank_free :: "py \<Rightarrow> string option" where
  "blank_free v = (case v of PStr s \<Rightarrow> if strip s = [] then None else Some s | _ \<Rightarrow> None)"

definition rewrite_write :: "mission_step \<Rightarrow> mission_step" where
  "rewrite_write st = (if mst_skill st \<noteq> ''files.write_text'' then st
     else clipboard_step (case blank_free (get (mst_args st) ''text'') of
         Some text \<Rightarrow> strip text
       | None \<Rightarrow> (case blank_free (get (mst_args st) ''path'') of
           Some path \<Rightarrow> ''Planner requested writing to '' @ path @ ''; switched to clipboard.copy for safety.''
         | None \<Rightarrow> ''Planner requested a file write; switched to clipboard.copy for safety.'')))"

definition rewrite_non_explicit_file_writes :: "notes_env \<Rightarrow> string \<Rightarrow> mission_step list \<Rightarrow> mission_step list" where
  "rewrite_non_explicit_file_writes ne goal steps =
     (if goal_requests_file_write ne goal then steps else map rewrite_write steps)"

definition rewrite_read :: "mission_step \<Rightarrow> mission_step" where
  "rewrite_read st = (if mst_skill st \<noteq> ''files.read_text'' then st
     else clipboard_step (case blank_free (get (mst_args st) ''path'') of
         Some path \<Rightarrow> ''Planner requested reading '' @ path @ ''; switched to clipboard.copy for safety.''
       | None \<Rightarrow> ''Planner requested a file read; switched to clipboard.copy for safety.''))"

definition rewrite_non_explicit_file_reads :: "string \<Rightarrow> mission_step list \<Rightarrow> mission_step list" where
  "rewrite_non_explicit_file_reads goal steps =
     (if goal_requests_file_read goal then steps else map rewrite_read steps)"

definition step_path :: "mission_step \<Rightarrow> string" where
  "step_path st = (case get (mst_args st) ''path'' of PStr s \<Rightarrow> strip s | _ \<Rightarrow> [])"

definition with_path :: "mission_step \<Rightarrow> string \<Rightarrow> mission_step" where
  "with_path st path = mk_step (mst_skill st) (dput (mst_args st) ''path'' (PStr path))"

definition normalize_write_step_for_allowed_notes_goal :: "string \<Rightarrow> mission_step \<Rightarrow> mission_step" where
  "normalize_write_step_for_allowed_notes_goal goal st =
     (if mst_skill st \<noteq> ''files.write_text'' \<or> \<not> implies_notes_directory goal then st
      else if step_path st \<in> {[], ''/path/to/notes.txt'', ''/path/to/note.txt'', ''notes.txt'', ''note.txt''}
        \<or> starts_with (step_path st) ''/path/to/'' then with_path st ''ok.txt''
      else st)"

definition normalize_file_step_paths :: "notes_env \<Rightarrow> mission_step \<Rightarrow> mission_step" where
  "normalize_file_step_paths ne st =
     (if mst_skill st \<notin> {''files.write_text'', ''files.read_text''} then st
      else if step_path st = [] then
        (if mst_skill st = ''files.write_text'' then with_path st ''ok.txt''
         else clipboard_step ''Planner requested a file read without a path; manual confirmation required.'')
      else if is_safe_notes_path ne (step_path st) then st
      else if mst_skill st = ''files.write_text'' then with_path st ''ok.txt''
      else clipboard_step (''Planner requested reading outside allowlist ('' @ step_path st @ ''); manual confirmation required.''))"

definition normalize_sandbox_exec_step :: "mission_step \<Rightarrow> mission_step result" where
  "normalize_sandbox_exec_step st =
     (if mst_skill st \<noteq> ''sandbox.exec'' then Inr st
      else (case canonicalize_argv (mst_args st) of
        Inl e \<Rightarrow> if class_of e = ValueError then planner_error (str_exc e) else Inl e
      | Inr argv \<Rightarrow> Inr (mk_step (mst_skill st) (dput (mst_args st) ''command'' (pstrs argv)))))"

definition command_text :: "mission_step \<Rightarrow> string" where
  "command_text st = (case get (mst_args st) ''command'' of PList xs \<Rightarrow> join '' '' (map py_str xs) | _ \<Rightarrow> [])"

definition uses_disallowed_tooling :: "mission_step \<Rightarrow> bool" where
  "uses_disallowed_tooling st = (mst_skill st = ''sandbox.exec'' \<and> (case get (mst_args st) ''command'' of
     PList (x # xs) \<Rightarrow> has_any sandbox_disallowed_tooling (lower (command_text st)) | _ \<Rightarrow> False))"

definition quoted_grep :: pat where
  "quoted_grep = seq [lits ''grep'', gap, Cls (\<lambda>c. c \<in> set quote_marks), Named ''1'' (some_of (Cls (\<lambda>c. c \<notin> set quote_marks))),
     Cls (\<lambda>c. c \<in> set quote_marks)]"

definition rewrite_sandbox :: "mission_step \<Rightarrow> mission_step" where
  "rewrite_sandbox st = (if \<not> uses_disallowed_tooling st then st
     else clipboard_step (case re_search False quoted_grep (command_text st) of
         Some (_, q) \<Rightarrow> ''Please confirm the page/window title contains '' @ quoted (the (group_of q ''1'')) @ '' (manual check).''
       | None \<Rightarrow> ''Please manually confirm the expected result for this verification step.''))"

definition rewrite_non_explicit_sandbox_steps :: "string \<Rightarrow> mission_step list \<Rightarrow> mission_step list" where
  "rewrite_non_explicit_sandbox_steps goal steps = (if goal_requests_shell goal then steps else map rewrite_sandbox steps)"

section \<open>From the payload to the steps\<close>

definition planned_step :: "'w planner_env \<Rightarrow> string list \<Rightarrow> py \<Rightarrow> mission_step result" where
  "planned_step env known item = (case item of
     PDict d \<Rightarrow> (case get d ''skill_id'' of
         PStr sid \<Rightarrow>
           if sid \<notin> set known then planner_error (''Planner referenced unknown skill: '' @ sid)
           else bindR (pl_expected_args env sid) (\<lambda>expected.
             bindR (canonicalize_args sid (normalize_step_args (get d ''args'') expected)) (\<lambda>args. Inr (mk_step sid args)))
       | _ \<Rightarrow> planner_error ''Planner returned a step without a valid skill_id.'')
   | _ \<Rightarrow> planner_error ''Planner returned an invalid step object.'')"

definition rewritten_steps :: "'w planner_env \<Rightarrow> string \<Rightarrow> mission_step list \<Rightarrow> mission_step list result" where
  "rewritten_steps env goal steps =
     (let writes = rewrite_non_explicit_file_writes (pl_notes env) goal steps;
          reads = rewrite_non_explicit_file_reads goal writes;
          placed = map (normalize_file_step_paths (pl_notes env)) (map (normalize_write_step_for_allowed_notes_goal goal) reads)
      in bindR (mapR normalize_sandbox_exec_step placed) (\<lambda>sandboxed.
        Inr (rewrite_non_explicit_sandbox_steps goal sandboxed)))"

definition plan_of_payload :: "'w planner_env \<Rightarrow> string \<Rightarrow> string \<Rightarrow> dict \<Rightarrow> plan result" where
  "plan_of_payload env goal planner payload =
     (let unknown = filter (\<lambda>k. k \<notin> {''title'', ''goal'', ''notes'', ''steps''}) (map fst payload) in
      if unknown \<noteq> [] then planner_error (''Planner returned unsupported keys: '' @ join '', '' (sorted_set unknown))
      else (case get payload ''steps'' of
        PList (x # xs) \<Rightarrow>
          if length (x # xs) > max_steps then
            planner_error (''Planner returned too many steps ('' @ nat_str (length (x # xs)) @ '' > '' @ nat_str max_steps @ '').'')
          else bindR (pl_discover env) (\<lambda>known.
            bindR (mapR (planned_step env known) (x # xs)) (\<lambda>planned.
            bindR (rewritten_steps env goal planned) (\<lambda>steps.
            bindR (check_open_apps (pl_close_matches env) (pl_allowed_apps env) steps) (\<lambda>_.
              Inr \<lparr>pn_title = por (get payload ''title'') (PStr ''Cloud Planned Mission''), pn_goal = goal, pn_steps = steps,
                pn_notes = por (get payload ''notes'') (PStr (''Generated by configured cloud brain ('' @ planner @ '').''))\<rparr>))))
      | _ \<Rightarrow> planner_error ''Planner returned no mission steps.''))"

section \<open>Asking the providers\<close>

definition log_plan :: "dict \<Rightarrow> (unit, 'w planning) prog" where
  "log_plan e = modifyM (\<lambda>s. s\<lparr>pg_log := pg_log s @ [e]\<rparr>)"

definition provider_event :: "'w planner_env \<Rightarrow> string \<Rightarrow> string \<Rightarrow> string \<Rightarrow> nat \<Rightarrow> string \<Rightarrow> int \<Rightarrow> bool \<Rightarrow> dict" where
  "provider_event env event provider model attempt error_class latency fallback =
     [(''event'', PStr event), (''plan_id'', PStr (pl_plan_id env)), (''provider'', PStr provider), (''model'', PStr model),
      (''attempt'', PInt (int attempt)), (''error_class'', PStr error_class), (''latency_ms'', PInt latency),
      (''fallback_used'', PBool fallback)]"

definition ordered_providers :: "(string \<times> 'w provider) list \<Rightarrow> (string \<times> 'w provider) list" where
  "ordered_providers ps =
     (let first = List.map_filter (\<lambda>k. map_option (Pair k) (map_of ps k)) [''primary'', ''fast'', ''fallback''] in
      first @ filter (\<lambda>(k, p). k \<notin> {''primary'', ''fast'', ''fallback''}) ps)"

definition build_brain_candidates :: "'w planner_env \<Rightarrow> 'w candidate list result" where
  "build_brain_candidates env =
     (if \<not> pl_cloud_allowed env then planner_error ''Cloud planning is disabled by privacy.cloud_allowed=false''
      else if pl_brain env = [] then
        planner_error (''No brain provider is configured. Run '' @ quoted ''voxera setup'' @ '' first.'')
      else mapR (\<lambda>(k, p). bindR (pv_create p) (\<lambda>g.
        Inr \<lparr>ca_name = k, ca_model = pv_model p, ca_generate = g\<rparr>)) (ordered_providers (pl_brain env)))"

definition parse_planner_json :: "'w planner_env \<Rightarrow> string \<Rightarrow> dict result" where
  "parse_planner_json env raw = (case pl_json env (strip raw) of
     None \<Rightarrow> planner_error (''Planner returned non-JSON output: '' @ take 200 (strip raw))
   | Some (PDict d) \<Rightarrow> Inr d
   | Some _ \<Rightarrow> planner_error ''Planner must return a JSON object.'')"

text \<open>A time-out of the model becomes the planner's error.\<close>

definition ask_candidate :: "'w planner_env \<Rightarrow> string \<Rightarrow> 'w candidate \<Rightarrow> (string, 'w planning) prog" where
  "ask_candidate env goal c = tryM
     (\<lambda>s. case ca_generate c (sanitize_goal_for_prompt goal) (pg_outer s) of (r, w) \<Rightarrow> (r, s\<lparr>pg_outer := w\<rparr>))
     (\<lambda>e. if pl_is_a env ''TimeoutError'' e then liftR (planner_error ''Planner timed out after 25s'') else raiseM e)"

definition plan_payload :: "'w planner_env \<Rightarrow> string \<Rightarrow> 'w candidate \<Rightarrow> (dict, 'w planning) prog" where
  "plan_payload env goal c = bindM (liftR (pl_discover env)) (\<lambda>_.
     bindM (ask_candidate env goal c) (\<lambda>text. liftR (parse_planner_json env text)))"

definition on_health :: "'a health_op \<Rightarrow> ('a, 'w planning) prog" where
  "on_health m s = (case m (pg_health s) of (r, f) \<Rightarrow> (r, s\<lparr>pg_health := f\<rparr>))"

definition suppress_os_error :: "'w planner_env \<Rightarrow> (unit, 'w planning) prog \<Rightarrow> (unit, 'w planning) prog" where
  "suppress_os_error env m = tryM m (\<lambda>e. if pl_is_a env ''OSError'' e then retM () else raiseM e)"

definition record_fallback :: "'w planner_env \<Rightarrow> string \<Rightarrow> string \<Rightarrow> string \<Rightarrow> (unit, 'w planning) prog" where
  "record_fallback env from_tier to_tier reason = suppress_os_error env
     (bindM (getM (\<lambda>s. (pl_now_ms env (pg_outer s), pl_now_s env (pg_outer s)))) (\<lambda>(ms, t).
      bindM (on_health (record_fallback_transition (pl_health env) ms from_tier to_tier reason)) (\<lambda>_.
      bindM (on_health (record_brain_fallback_attempt (pl_health env) t ms)) (\<lambda>_. retM ()))))"

definition log_failed_attempt :: "'w planner_env \<Rightarrow> 'w candidate \<Rightarrow> string \<Rightarrow> nat \<Rightarrow> exc \<Rightarrow> (unit, 'w planning) prog" where
  "log_failed_attempt env c next_tier i e = bindM (getM (\<lambda>s. pl_latency_ms env (pg_outer s))) (\<lambda>latency.
     thenM (log_plan (provider_event env ''planner_fallback'' (ca_name c) (ca_model c) i (classify_planner_error env e) latency (1 < i)
       @ [(''error_type'', PStr (class_name (class_of e))), (''error'', PStr (str_exc e))]))
     (log_plan [(''event'', PStr ''brain_fallback_transition''), (''plan_id'', PStr (pl_plan_id env)),
       (''from_tier'', PStr (ca_name c)), (''to_tier'', PStr next_tier), (''reason'', PStr (classify_fallback_reason env e)),
       (''attempt_index'', PInt (int i - 1)), (''latency_ms'', PInt latency), (''provider'', PStr (ca_name c)),
       (''model'', PStr (ca_model c)), (''error_summary'', PStr (take 120 (squeeze (str_exc e))))]))"

text \<open>The first answer with the provider it came from, and the providers that failed before it with the class and
  the text of their errors\<close>

fun try_candidates :: "'w planner_env \<Rightarrow> string \<Rightarrow> nat \<Rightarrow> 'w candidate list \<Rightarrow> (string \<times> string \<times> string) list \<Rightarrow>
    ((dict \<times> 'w candidate \<times> nat) option \<times> (string \<times> string \<times> string) list, 'w planning) prog" where
  "try_candidates env goal i [] errs = retM (None, errs)"
| "try_candidates env goal i (c # cs) errs =
     bindM (attemptM (plan_payload env goal c)) (\<lambda>r. case r of
       Inr payload \<Rightarrow>
         bindM (getM (\<lambda>s. pl_latency_ms env (pg_outer s))) (\<lambda>latency.
         thenM (log_plan (provider_event env ''planner_selected'' (ca_name c) (ca_model c) i ''none'' latency (1 < i)))
           (retM (Some (payload, c, i), errs)))
     | Inl e \<Rightarrow>
         let next_tier = (case cs of [] \<Rightarrow> ''none'' | d # _ \<Rightarrow> ca_name d) in
         thenM (log_failed_attempt env c next_tier i e)
         (thenM (record_fallback env (ca_name c) next_tier (classify_fallback_reason env e))
           (try_candidates env goal (i + 1) cs (errs @ [(ca_name c, classify_planner_error env e, str_exc e)]))))"

definition cloud_plan :: "'w planner_env \<Rightarrow> string \<Rightarrow> (plan, 'w planning) prog" where
  "cloud_plan env goal =
     bindM (liftR (build_brain_candidates env)) (\<lambda>cs.
     bindM (try_candidates env goal 1 cs []) (\<lambda>(answer, errs). case answer of
       None \<Rightarrow>
         thenM (log_plan (provider_event env ''plan_failed'' ''none'' ''none'' (length cs)
             (if errs = [] then ''unknown'' else fst (snd (last errs))) 0 (1 < length cs)
             @ [(''error'', PStr (if errs = [] \<or> snd (snd (last errs)) = [] then ''unknown error'' else snd (snd (last errs))))]))
           (liftR (planner_error (planner_failure_message errs)))
     | Some (payload, c, i) \<Rightarrow>
         bindM (liftR (plan_of_payload env goal (ca_name c) payload)) (\<lambda>plan.
         thenM (log_plan (provider_event env ''plan_built'' (ca_name c) (ca_model c) i ''none'' 0 (ca_name c \<noteq> ''primary'')
             @ [(''steps'', PInt (int (length (pn_steps plan))))]))
           (retM plan))))"

definition direct_plan :: "'w planner_env \<Rightarrow> string \<Rightarrow> string \<Rightarrow> string \<Rightarrow> string \<Rightarrow> string \<Rightarrow> dict \<Rightarrow> (plan, 'w planning) prog" where
  "direct_plan env goal provider title notes sid args =
     thenM (log_plan (provider_event env ''planner_selected'' provider ''deterministic'' 1 ''none'' 0 False))
     (thenM (log_plan (provider_event env ''plan_built'' provider ''deterministic'' 1 ''none'' 0 False @ [(''steps'', PInt 1)]))
     (retM \<lparr>pn_title = PStr title, pn_goal = goal, pn_steps = [mk_step sid args], pn_notes = PStr notes\<rparr>))"

definition plan_mission :: "'w planner_env \<Rightarrow> string \<Rightarrow> (plan, 'w planning) prog" where
  "plan_mission env goal =
     (if length goal > goal_max_len then
        liftR (planner_error (''Goal is too long ('' @ nat_str (length goal) @ '' chars). Max is 2000. ''
          @ ''Tip: put long logs/config into an attachment/artifact and reference it.''))
      else thenM (log_plan [(''event'', PStr ''plan_start''), (''plan_id'', PStr (pl_plan_id env)),
          (''source'', PStr (pl_source env)), (''goal'', PStr goal), (''job'', popt (pl_job env))])
        (case direct_write_args (pl_notes env) goal of
          Some args \<Rightarrow> direct_plan env goal ''deterministic_simple_write'' ''Deterministic Note Write''
            ''Deterministic simple-write planning path.'' ''files.write_text'' args
        | None \<Rightarrow> (case extract_simple_read_args (pl_notes env) goal of
            Some args \<Rightarrow> direct_plan env goal ''deterministic_simple_read'' ''Deterministic File Read''
              ''Deterministic simple-read planning path.'' ''files.read_text'' args
          | None \<Rightarrow> cloud_plan env goal)))"

text \<open>\<open>_apply_brain_backoff_before_plan_attempt\<close> of the queue\<close>

definition apply_brain_backoff :: "'w planner_env \<Rightarrow> (int \<Rightarrow> 'w \<Rightarrow> 'w) \<Rightarrow> (unit, 'w planning) prog" where
  "apply_brain_backoff env sleep =
     bindM (on_health (read_health (pl_health env))) (\<lambda>d.
     bindM (liftR (compute_brain_backoff_s (pl_health env) (get_or d ''consecutive_brain_failures'' (PInt 0)))) (\<lambda>wait.
     if wait \<le> 0 then retM ()
     else thenM (modifyM (\<lambda>s. s\<lparr>pg_outer := sleep wait (pg_outer s)\<rparr>))
       (bindM (getM (\<lambda>s. pl_now_s env (pg_outer s))) (\<lambda>t.
        bindM (on_health (record_brain_backoff_applied (pl_health env) (PInt wait) t)) (\<lambda>_. retM ())))))"

end
