(* ===== verification/Planner_Laws.thy ===== *)
theory Planner_Laws
  imports Mission_Planner Health_Degradation
begin

text \<open>
  Facts of the mission planner. The rewriting of a plan acts on every step by itself and leaves each one
  within what the goal asks for; the providers are asked in order until one answers, and the health file
  follows the failures before that answer.
\<close>

section \<open>Rewriting, step by step\<close>

definition rewritten_step :: "'w planner_env \<Rightarrow> string \<Rightarrow> mission_step \<Rightarrow> mission_step result" where
  "rewritten_step env goal st =
     (let w = (if goal_requests_file_write (pl_notes env) goal then st else rewrite_write st);
          r = (if goal_requests_file_read goal then w else rewrite_read w);
          p = normalize_file_step_paths (pl_notes env) (normalize_write_step_for_allowed_notes_goal goal r)
      in bindR (normalize_sandbox_exec_step p) (\<lambda>x. Inr (if goal_requests_shell goal then x else rewrite_sandbox x)))"

lemma rewritten_steps_each:
  assumes "rewritten_steps env goal steps = Inr out"
  shows "list_all2 (\<lambda>st st'. rewritten_step env goal st = Inr st') steps out"
proof -
  define w where "w = (if goal_requests_file_write (pl_notes env) goal then id else rewrite_write)"
  define r where "r = (if goal_requests_file_read goal then id else rewrite_read)"
  define x where "x = (if goal_requests_shell goal then id else rewrite_sandbox)"
  define p where "p = (\<lambda>st. normalize_file_step_paths (pl_notes env) (normalize_write_step_for_allowed_notes_goal goal (r (w st))))"
  have whole: "rewritten_steps env goal steps = bindR (mapR normalize_sandbox_exec_step (map p steps)) (\<lambda>ys. Inr (map x ys))"
    by (simp add: rewritten_steps_def rewrite_non_explicit_file_writes_def rewrite_non_explicit_file_reads_def
        rewrite_non_explicit_sandbox_steps_def w_def r_def x_def p_def comp_def)
  have each: "rewritten_step env goal st = bindR (normalize_sandbox_exec_step (p st)) (\<lambda>y. Inr (x y))" for st
    by (simp add: rewritten_step_def w_def r_def x_def p_def Let_def)
  from assms obtain ys where "mapR normalize_sandbox_exec_step (map p steps) = Inr ys" "out = map x ys"
    by (auto simp: whole result_iff)
  then have "list_all2 (\<lambda>st y. normalize_sandbox_exec_step (p st) = Inr y) steps ys"
    by (simp add: mapR_list_all2 list_all2_map1)
  then show ?thesis unfolding \<open>out = map x ys\<close> list_all2_map2
    by (rule list_all2_mono) (simp add: each)
qed

text \<open>What a goal lets a step do\<close>

definition path_of :: "mission_step \<Rightarrow> string" where
  "path_of st = the_str (get (mst_args st) ''path'')"

definition argv_of :: "mission_step \<Rightarrow> string list" where
  "argv_of st = (case get (mst_args st) ''command'' of PList xs \<Rightarrow> map the_str xs | _ \<Rightarrow> [])"

definition in_notes :: "notes_env \<Rightarrow> string \<Rightarrow> bool" where
  "in_notes ne p \<longleftrightarrow> is_safe_notes_path ne p \<or> is_safe_notes_path ne (strip p)"

definition step_within_goal :: "'w planner_env \<Rightarrow> string \<Rightarrow> mission_step \<Rightarrow> bool" where
  "step_within_goal env goal st \<longleftrightarrow>
     (mst_skill st = ''files.write_text'' \<longrightarrow>
        (goal_requests_file_write (pl_notes env) goal \<or> direct_write_args (pl_notes env) goal \<noteq> None)
        \<and> (path_of st \<in> {''ok.txt'', ''daily-check-in.md''} \<or> in_notes (pl_notes env) (path_of st)))
   \<and> (mst_skill st = ''files.read_text'' \<longrightarrow>
        (goal_requests_file_read goal \<or> extract_simple_read_args (pl_notes env) goal \<noteq> None)
        \<and> in_notes (pl_notes env) (path_of st))
   \<and> (mst_skill st = ''sandbox.exec'' \<longrightarrow> argv_of st \<noteq> [] \<and> get (mst_args st) ''command'' = pstrs (argv_of st)
        \<and> (goal_requests_shell goal \<or> \<not> has_any sandbox_disallowed_tooling (lower (join '' '' (argv_of st)))))"

lemma clipboard_within [simp]: "mst_skill (clipboard_step m) = ''clipboard.copy''" "step_within_goal env goal (clipboard_step m)"
  by (simp_all add: clipboard_step_def step_within_goal_def mk_step_def)

lemma with_path_simps [simp]:
  "mst_skill (with_path st p) = mst_skill st" "get (mst_args (with_path st p)) ''path'' = PStr p"
  "path_of (with_path st p) = p"
  by (simp_all add: with_path_def mk_step_def path_of_def)

lemma rewrite_skills:
  "mst_skill (rewrite_write st) \<noteq> ''files.write_text''" "mst_skill (rewrite_read st) \<noteq> ''files.read_text''"
  "mst_skill st \<noteq> ''files.write_text'' \<Longrightarrow> mst_skill (rewrite_read st) \<noteq> ''files.write_text''"
  "mst_skill (normalize_write_step_for_allowed_notes_goal goal st) = mst_skill st"
  by (auto simp: rewrite_write_def rewrite_read_def normalize_write_step_for_allowed_notes_goal_def)

lemma skill_kept:
  "mst_skill (rewrite_write st) \<in> {mst_skill st, ''clipboard.copy''}" "mst_skill (rewrite_read st) \<in> {mst_skill st, ''clipboard.copy''}"
  "mst_skill (normalize_file_step_paths ne st) \<in> {mst_skill st, ''clipboard.copy''}"
  "mst_skill (rewrite_sandbox st) \<in> {mst_skill st, ''clipboard.copy''}"
  "normalize_sandbox_exec_step st = Inr st' \<Longrightarrow> mst_skill st' = mst_skill st"
  by (auto simp: rewrite_write_def rewrite_read_def normalize_file_step_paths_def rewrite_sandbox_def
      normalize_sandbox_exec_step_def mk_step_def planner_error_def split: sum.splits if_splits)

lemma rewritten_stepE:
  assumes "rewritten_step env goal st = Inr st'"
  obtains w r p x where "w = (if goal_requests_file_write (pl_notes env) goal then st else rewrite_write st)"
    "r = (if goal_requests_file_read goal then w else rewrite_read w)"
    "p = normalize_file_step_paths (pl_notes env) (normalize_write_step_for_allowed_notes_goal goal r)"
    "normalize_sandbox_exec_step p = Inr x" "st' = (if goal_requests_shell goal then x else rewrite_sandbox x)"
  using assms unfolding rewritten_step_def Let_def result_iff
  by (elim exE conjE) (rule that [OF refl refl refl], assumption, simp)

lemma rewritten_skill:
  assumes "rewritten_step env goal st = Inr st'"
  shows "mst_skill st' \<in> {mst_skill st, ''clipboard.copy''}"
proof -
  from assms obtain w r p x where steps: "w = (if goal_requests_file_write (pl_notes env) goal then st else rewrite_write st)"
    "r = (if goal_requests_file_read goal then w else rewrite_read w)"
    "p = normalize_file_step_paths (pl_notes env) (normalize_write_step_for_allowed_notes_goal goal r)"
    "normalize_sandbox_exec_step p = Inr x" "st' = (if goal_requests_shell goal then x else rewrite_sandbox x)"
    by (rule rewritten_stepE)
  have "mst_skill w \<in> {mst_skill st, ''clipboard.copy''}" "mst_skill r \<in> {mst_skill w, ''clipboard.copy''}"
    "mst_skill p \<in> {mst_skill r, ''clipboard.copy''}" "mst_skill st' \<in> {mst_skill x, ''clipboard.copy''}"
    using skill_kept(1,2,4) skill_kept(3) [of _ "normalize_write_step_for_allowed_notes_goal goal r"]
    by (simp_all add: steps rewrite_skills(4))
  then show ?thesis using skill_kept(5) [OF steps(4)] by auto
qed

lemma step_path_of: "step_path st = strip (path_of st)"
  by (cases "get (mst_args st) ''path''") (simp_all add: step_path_def path_of_def)

lemma placed_within:
  assumes "p = normalize_file_step_paths ne n"
  shows "mst_skill p = ''files.write_text'' \<Longrightarrow> mst_skill n = ''files.write_text'' \<and> (path_of p = ''ok.txt'' \<or> in_notes ne (path_of p))"
    and "mst_skill p = ''files.read_text'' \<Longrightarrow> mst_skill n = ''files.read_text'' \<and> in_notes ne (path_of p)"
  using assms by (auto simp: normalize_file_step_paths_def in_notes_def step_path_of split: if_splits)

lemma sandbox_within:
  assumes "normalize_sandbox_exec_step p = Inr x"
  shows "if mst_skill p = ''sandbox.exec'' then argv_of x \<noteq> [] \<and> get (mst_args x) ''command'' = pstrs (argv_of x) else x = p"
proof (cases "mst_skill p = ''sandbox.exec''")
  case True
  then obtain argv where "canonicalize_argv (mst_args p) = Inr argv" "x = mk_step (mst_skill p) (dput (mst_args p) ''command'' (pstrs argv))"
    using assms by (auto simp: normalize_sandbox_exec_step_def planner_error_def split: sum.splits if_splits)
  moreover from this(1) have "argv \<noteq> []" by (auto simp: canonicalize_argv_def result_iff split: option.splits if_splits)
  ultimately show ?thesis using True by (simp add: argv_of_def mk_step_def pstrs_def comp_def)
qed (use assms in \<open>simp add: normalize_sandbox_exec_step_def\<close>)

lemma sandbox_rewritten:
  assumes "mst_skill (rewrite_sandbox x) = ''sandbox.exec''" and "get (mst_args x) ''command'' = pstrs (argv_of x)" "argv_of x \<noteq> []"
  shows "\<not> has_any sandbox_disallowed_tooling (lower (join '' '' (argv_of (rewrite_sandbox x))))"
proof -
  have cmd: "command_text x = join '' '' (argv_of x)"
    using assms(2) by (simp add: command_text_def pstrs_def comp_def)
  have "\<not> uses_disallowed_tooling x" "rewrite_sandbox x = x"
    using assms(1) by (simp_all add: rewrite_sandbox_def split: if_splits)
  then show ?thesis using assms cmd
    by (cases "argv_of x") (auto simp: uses_disallowed_tooling_def pstrs_def)
qed

lemma rewritten_within:
  assumes "rewritten_step env goal st = Inr st'"
  shows "step_within_goal env goal st'"
proof -
  from assms obtain w r p x where steps: "w = (if goal_requests_file_write (pl_notes env) goal then st else rewrite_write st)"
    "r = (if goal_requests_file_read goal then w else rewrite_read w)"
    "p = normalize_file_step_paths (pl_notes env) (normalize_write_step_for_allowed_notes_goal goal r)"
    "normalize_sandbox_exec_step p = Inr x" "st' = (if goal_requests_shell goal then x else rewrite_sandbox x)"
    by (rule rewritten_stepE)
  have asked: "mst_skill r = ''files.write_text'' \<Longrightarrow> goal_requests_file_write (pl_notes env) goal"
    "mst_skill r = ''files.read_text'' \<Longrightarrow> goal_requests_file_read goal"
    using rewrite_skills(1-3) by (auto simp: steps(1,2) split: if_splits)
  note placed = placed_within [OF steps(3), unfolded rewrite_skills(4)]
  note sand = sandbox_within [OF steps(4)]
  have same: "mst_skill x = mst_skill p" by (rule skill_kept(5) [OF steps(4)])
  have kept: "rewrite_sandbox x = x \<or> mst_skill (rewrite_sandbox x) = ''clipboard.copy''"
    by (simp add: rewrite_sandbox_def)
  show ?thesis
  proof (cases "mst_skill st' = ''clipboard.copy''")
    case True
    then show ?thesis by (simp add: step_within_goal_def)
  next
    case False
    then have x: "st' = x" using kept steps(5) by (auto split: if_splits)
    show ?thesis
    proof (cases "mst_skill p = ''sandbox.exec''")
      case True
      with False kept steps(5) x same have "goal_requests_shell goal \<or> rewrite_sandbox x = x" by (auto split: if_splits)
      then have "goal_requests_shell goal \<or> \<not> has_any sandbox_disallowed_tooling (lower (join '' '' (argv_of x)))"
        using sandbox_rewritten [of x] sand True same by auto
      then show ?thesis using True sand same x by (simp add: step_within_goal_def)
    next
      case False
      then have "st' = p" using sand x by simp
      with False placed asked show ?thesis by (auto simp: step_within_goal_def)
    qed
  qed
qed

section \<open>Plans\<close>

text \<open>The application a step would open, and whether a skill was discovered\<close>

definition opened_app :: "mission_step \<Rightarrow> string" where
  "opened_app st = lower (strip (py_str (get_or (canonical_open_app (mst_args st)) ''name'' (get_or (mst_args st) ''app'' (PStr [])))))"

definition offered :: "'w planner_env \<Rightarrow> string \<Rightarrow> bool" where
  "offered env sid = (case pl_discover env of Inr known \<Rightarrow> sid \<in> set known | Inl _ \<Rightarrow> False)"

lemma open_app_allowed:
  assumes "check_open_apps fuzzy apps steps = Inr u" and "st \<in> set steps" and "mst_skill st = ''system.open_app''"
  shows "opened_app st \<in> set apps"
proof -
  obtain n where n: "n < length steps" "steps ! n = st" using assms(2) by (auto simp: in_set_conv_nth)
  obtain us where us: "mapR (\<lambda>(i, st). check_open_app fuzzy apps i st) (List.enumerate 1 steps) = Inr us"
    using assms(1) by (auto simp: check_open_apps_def result_iff)
  then have "list_all2 (\<lambda>x y. (case x of (i, st) \<Rightarrow> check_open_app fuzzy apps i st) = Inr y) (List.enumerate 1 steps) us"
    by (simp add: mapR_list_all2)
  then have "check_open_app fuzzy apps (1 + n) st = Inr (us ! n)"
    using n by (auto dest!: list_all2_nthD [where p = n] simp: nth_enumerate_eq length_enumerate)
  then show ?thesis using assms(3)
    by (simp add: check_open_app_def canonicalize_args_def opened_app_def Let_def split: if_splits)
qed

definition sound_step :: "'w planner_env \<Rightarrow> string \<Rightarrow> mission_step \<Rightarrow> bool" where
  "sound_step env goal st \<longleftrightarrow> step_within_goal env goal st
     \<and> (mst_skill st \<in> {''files.write_text'', ''files.read_text'', ''clipboard.copy''} \<or> offered env (mst_skill st))
     \<and> (mst_skill st = ''system.open_app'' \<longrightarrow> opened_app st \<in> set (pl_allowed_apps env))"

lemma list_all2_source: "list_all2 R xs ys \<Longrightarrow> y \<in> set ys \<Longrightarrow> \<exists>x \<in> set xs. R x y"
  by (induction xs ys rule: list_all2_induct) auto

lemma planned_step_known: "planned_step env known item = Inr st \<Longrightarrow> mst_skill st \<in> set known"
  by (auto simp: planned_step_def mk_step_def planner_error_def result_iff split: py.splits if_splits)

lemma payload_plan_sound:
  assumes "plan_of_payload env goal planner payload = Inr plan"
  shows "pn_goal plan = goal \<and> 1 \<le> length (pn_steps plan) \<and> length (pn_steps plan) \<le> max_steps
    \<and> (\<forall>st \<in> set (pn_steps plan). sound_step env goal st)"
proof -
  obtain x xs known planned steps u where run: "length (x # xs) \<le> max_steps" "pl_discover env = Inr known"
    "mapR (planned_step env known) (x # xs) = Inr planned" "rewritten_steps env goal planned = Inr steps"
    "check_open_apps (pl_close_matches env) (pl_allowed_apps env) steps = Inr u" "pn_goal plan = goal" "pn_steps plan = steps"
    using assms
    by (auto simp: plan_of_payload_def Let_def planner_error_def result_iff not_less simp del: mapR.simps intro: that
        split: py.splits list.splits if_splits)
  note all = rewritten_steps_each [OF run(4)]
  have len: "length steps = length (x # xs)" using list_all2_lengthD [OF all] mapR_length [OF run(3)] by simp
  have "sound_step env goal st" if st: "st \<in> set steps" for st
  proof -
    obtain st0 where st0: "st0 \<in> set planned" "rewritten_step env goal st0 = Inr st"
      using list_all2_source [OF all st] by blast
    obtain item where item: "planned_step env known item = Inr st0"
      using list_all2_source [OF run(3) [unfolded mapR_list_all2] st0(1)] by blast
    have "mst_skill st = ''clipboard.copy'' \<or> offered env (mst_skill st)"
      using planned_step_known [OF item] rewritten_skill [OF st0(2)] run(2) by (auto simp: offered_def)
    then show ?thesis
      using rewritten_within [OF st0(2)] open_app_allowed [OF run(5) st] by (auto simp: sound_step_def)
  qed
  then show ?thesis using run(1,6,7) len by simp
qed

lemma direct_write_sound:
  "direct_write_args (pl_notes env) goal = Some args \<Longrightarrow> sound_step env goal (mk_step ''files.write_text'' args)"
  using direct_write_good [of "pl_notes env" goal args]
  by (auto simp: good_write_def sound_step_def step_within_goal_def mk_step_def path_of_def in_notes_def write_args_def
      get_def get_or_def)

lemma direct_read_sound:
  "extract_simple_read_args (pl_notes env) goal = Some args \<Longrightarrow> sound_step env goal (mk_step ''files.read_text'' args)"
  using direct_read_good [of "pl_notes env" goal args]
  by (auto simp: sound_step_def step_within_goal_def mk_step_def path_of_def in_notes_def get_def get_or_def)

end
