(* ===== verification/Planner_Fallback.thy ===== *)
theory Planner_Fallback
  imports Planner_Laws
begin

text \<open>
  Asking the providers, as an abstract process on the outer world alone, and the refinement of it by the
  planner: what the health file records of it is the run of the degradation machine over its failures.
\<close>

section \<open>The health file\<close>

text \<open>A health file, also one that does not exist yet, that shows a state and whose counters are integers\<close>

definition recorded :: "health_env \<Rightarrow> py option \<Rightarrow> int \<times> py \<Rightarrow> bool" where
  "recorded env f a \<longleftrightarrow> (\<exists>d. normalize_health env (file_dict f) = Inr d \<and> normal env d \<and> wf_dict d
     \<and> shows_state d a \<and> counts (the_dict (get d ''counters'')))"

lemma recorded_none: "float_ok env \<Longrightarrow> recorded env None (0, PNone)"
proof -
  assume ok: "float_ok env"
  obtain d where d: "normalize_health env [] = Inr d" "wf_dict d" "get d ''consecutive_brain_failures'' = PInt 0"
    "get d ''daemon_state'' = PStr ''healthy''" "get d ''degraded_since_ts'' = PNone" "get d ''counters'' = PDict []"
    by (rule normalize_empty)
  have "normal env d" by (rule normalize_normal [OF ok _ d(1)]) (simp add: float_texts_def float_text_def)
  with d show ?thesis
    by (auto simp: recorded_def file_dict_def shows_state_def level_def degraded_threshold_def counts_def)
qed

lemma update_recorded:
  assumes ok: "float_ok env" and c: "normalize_health env (file_dict f) = Inr c" and u: "upd c = Inr u"
    and s: "settled env u" "shows_state u a" "wf_dict u" "counts (the_dict (get u ''counters''))"
  obtains x f' where "update_health env upd f = (Inr x, f')" "recorded env f' a"
proof -
  let ?n = "refreshed env (fst a) u"
  have n: "normal env ?n" "wf_dict ?n" using s by (auto simp: shows_state_def intro: refreshed_normal refreshed_wf)
  have run: "update_health env upd f = (Inr ?n, Some (PDict (sorted_dict ?n)))"
    using update_health_settled [of env f c upd u "fst a"] c u s(1,2) by (simp add: shows_state_def)
  have sorted: "normal env (sorted_dict ?n)" "wf_dict (sorted_dict ?n)" using normal_sorted [OF ok n] n(2) by simp_all
  have "shows_state (sorted_dict ?n) a"
    using s(2) n(2) by (auto simp: shows_state_def get_sorted refreshed_get level_def)
  moreover have "counts (the_dict (get (sorted_dict ?n) ''counters''))"
    using s(4) n(2) counts_sorted by (cases "get u ''counters''") (simp_all add: get_sorted refreshed_get)
  ultimately have "recorded env (Some (PDict (sorted_dict ?n))) a"
    using sorted normal_fixed [OF sorted(1)] by (auto simp: recorded_def file_dict_def)
  with that run show thesis by blast
qed

definition plain :: "string \<Rightarrow> bool" where
  "plain s \<longleftrightarrow> s \<noteq> [] \<and> strip s = s"

lemma transition_recorded:
  assumes ok: "float_ok env" and f: "recorded env f a" and ms: "ms \<noteq> 0" and plain: "plain from_tier" "plain to_tier" "plain reason"
  obtains x f' where "record_fallback_transition env ms from_tier to_tier reason f = (Inr x, f')" "recorded env f' a"
proof -
  obtain d where d: "normalize_health env (file_dict f) = Inr d" "normal env d" "wf_dict d" "shows_state d a"
    "counts (the_dict (get d ''counters''))" using f by (auto simp: recorded_def)
  obtain c1 where c1: "bump (the_dict (get d ''counters'')) ''brain_fallback_count'' 1 = Inr c1" "counts c1"
    using bump_counts [OF d(5)] by blast
  obtain c2 where c2: "bump c1 (''brain_fallback_reason_'' @ lower reason) 1 = Inr c2" "counts c2"
    using bump_counts [OF c1(2)] by blast
  let ?u = "stamp_update ms (dput (dput (dput (dput (dput d ''counters'' (PDict c2)) ''last_fallback_reason'' (PStr reason))
    ''last_fallback_from'' (PStr from_tier)) ''last_fallback_to'' (PStr to_tier)) ''last_fallback_ts_ms'' (PInt ms))"
  have own: "(''counters'', dict_field) \<in> set (health_fields env)" "(''last_fallback_reason'', text_field) \<in> set (health_fields env)"
    "(''last_fallback_from'', text_field) \<in> set (health_fields env)" "(''last_fallback_to'', text_field) \<in> set (health_fields env)"
    "(''last_fallback_ts_ms'', stamp_field) \<in> set (health_fields env)" by (simp_all add: health_fields_def)
  have s: "settled env ?u" unfolding stamp_update_def
    using d(2) ms plain
    by (intro settled_own [OF _ healthy_own(1)] settled_own [OF _ own(1)] settled_own [OF _ own(2)] settled_own [OF _ own(3)]
        settled_own [OF _ own(4)] settled_own [OF _ own(5)]) (simp_all add: normal_def plain_def text_field_fixed dict_field_def)
  have v: "shows_state ?u a" "wf_dict ?u" "counts (the_dict (get ?u ''counters''))"
    using d(3,4) c2(2) by (simp_all add: shows_state_def stamp_update_def)
  let ?upd = "\<lambda>d. bindR (bump (the_dict (get d ''counters'')) ''brain_fallback_count'' 1) (\<lambda>c1.
     bindR (bump c1 (''brain_fallback_reason_'' @ lower reason) 1) (\<lambda>c2.
     Inr (stamp_update ms (dput (dput (dput (dput (dput d ''counters'' (PDict c2))
       ''last_fallback_reason'' (PStr reason)) ''last_fallback_from'' (PStr from_tier))
       ''last_fallback_to'' (PStr to_tier)) ''last_fallback_ts_ms'' (PInt ms)))))"
  have "?upd d = Inr ?u" by (simp only: c1(1) c2(1) bindR_Inr)
  from update_recorded [of env f d ?upd ?u, OF ok d(1) this s v] obtain x f'
    where "update_health env ?upd f = (Inr x, f')" "recorded env f' a" by blast
  with that show thesis unfolding record_fallback_transition_def by blast
qed

text \<open>The two records of one failure\<close>

lemma attempt_recorded:
  assumes ok: "float_ok env" and f: "recorded env f a" and t: "admissible_event (Fell t ms)"
  obtains x f' where "record_brain_fallback_attempt env t ms f = (Inr x, f')" "recorded env f' (degrade (Fell t ms) a)"
proof -
  obtain d where d: "normalize_health env (file_dict f) = Inr d" "normal env d" "wf_dict d" "shows_state d a"
    "counts (the_dict (get d ''counters''))" using f by (auto simp: recorded_def)
  let ?upd = "\<lambda>d. bindR (update_degradation_state env t True False d) (\<lambda>e. Inr (stamp_update ms e))"
  obtain u where u: "?upd d = Inr u" "settled env u" "shows_state u (degrade (Fell t ms) a)" "wf_dict u"
    using degradation_step [OF ok d(2,3,4) t] by auto
  have "the_dict (get u ''counters'') = the_dict (get d ''counters'')"
    using u(1) normal_fixed [OF d(2)]
    by (auto simp: update_degradation_state_def stamp_update_def result_iff Let_def split: if_splits)
  with d(5) have c: "counts (the_dict (get u ''counters''))" by simp
  from update_recorded [of env f d ?upd u, OF ok d(1) u(1,2,3,4) c] obtain x f'
    where "update_health env ?upd f = (Inr x, f')" "recorded env f' (degrade (Fell t ms) a)" by blast
  with that show thesis unfolding record_brain_fallback_attempt_def by blast
qed

section \<open>The abstract process\<close>

definition answer_of :: "'w planner_env \<Rightarrow> string \<Rightarrow> 'w candidate \<Rightarrow> 'w \<Rightarrow> dict result \<times> 'w" where
  "answer_of env goal c w =
     (case pl_discover env of Inl e \<Rightarrow> (Inl e, w) | Inr _ \<Rightarrow>
       (case ca_generate c (sanitize_goal_for_prompt goal) w of
          (Inr text, w') \<Rightarrow> (parse_planner_json env text, w')
        | (Inl e, w') \<Rightarrow> (if pl_is_a env ''TimeoutError'' e then planner_error ''Planner timed out after 25s'' else Inl e, w')))"

text \<open>The first answer with its provider; before it, the failed ones with their errors and the world they left\<close>

fun first_answer :: "'w planner_env \<Rightarrow> string \<Rightarrow> 'w candidate list \<Rightarrow> 'w \<Rightarrow>
    (dict \<times> 'w candidate) option \<times> ('w candidate \<times> exc \<times> 'w) list \<times> 'w" where
  "first_answer env goal [] w = (None, [], w)"
| "first_answer env goal (c # cs) w = (case answer_of env goal c w of
     (Inr d, w') \<Rightarrow> (Some (d, c), [], w')
   | (Inl e, w') \<Rightarrow> (case first_answer env goal cs w' of (r, fails, w'') \<Rightarrow> (r, (c, e, w') # fails, w'')))"

lemma first_answer_shape:
  "first_answer env goal cs w = (r, fails, w') \<Longrightarrow>
   map fst fails = take (length fails) cs
   \<and> (case r of None \<Rightarrow> length fails = length cs | Some (d, c) \<Rightarrow> length fails < length cs \<and> c = cs ! length fails)"
  by (induction cs arbitrary: w r fails) (fastforce split: prod.splits sum.splits option.splits)+

definition failure_event :: "'w planner_env \<Rightarrow> 'w candidate \<times> exc \<times> 'w \<Rightarrow> brain_event" where
  "failure_event env x = (case x of (c, e, w) \<Rightarrow> Fell (pl_now_s env w) (pl_now_ms env w))"

definition failure_error :: "'w planner_env \<Rightarrow> 'w candidate \<times> exc \<times> 'w \<Rightarrow> string \<times> string \<times> string" where
  "failure_error env x = (case x of (c, e, w) \<Rightarrow> (ca_name c, classify_planner_error env e, str_exc e))"

section \<open>The refinement\<close>

definition recording_ok :: "'w planner_env \<Rightarrow> bool" where
  "recording_ok env \<longleftrightarrow> float_ok (pl_health env) \<and> (\<forall>w. (\<exists>x. pl_now_s env w = PFloat x) \<and> pl_now_ms env w \<noteq> 0)"

lemma ask_run:
  "plan_payload env goal c s = (fst (answer_of env goal c (pg_outer s)), s\<lparr>pg_outer := snd (answer_of env goal c (pg_outer s))\<rparr>)"
  by (cases "pl_discover env"; cases "ca_generate c (sanitize_goal_for_prompt goal) (pg_outer s)")
    (auto simp: plan_payload_def ask_candidate_def answer_of_def tryM_def bindM_def Let_def planner_error_def split: sum.splits)

lemma reason_plain: "plain (classify_fallback_reason env e)"
proof -
  have "plain ''TIMEOUT''" "plain ''RATE_LIMIT''" "plain ''AUTH''" "plain ''MALFORMED''" "plain ''NETWORK''" "plain ''UNKNOWN''"
    by code_simp+
  then show ?thesis by (simp add: classify_fallback_reason_def Let_def)
qed

lemma record_fallback_run:
  assumes ok: "recording_ok env" and f: "recorded (pl_health env) (pg_health s) a"
    and plain: "plain from_tier" "plain to_tier" "plain reason"
  obtains f' where "record_fallback env from_tier to_tier reason s = (Inr (), s\<lparr>pg_health := f'\<rparr>)"
    "recorded (pl_health env) f' (degrade (Fell (pl_now_s env (pg_outer s)) (pl_now_ms env (pg_outer s))) a)"
proof -
  let ?ms = "pl_now_ms env (pg_outer s)" and ?t = "pl_now_s env (pg_outer s)"
  have fl: "float_ok (pl_health env)" and ms: "?ms \<noteq> 0" and e: "admissible_event (Fell ?t ?ms)"
    using ok by (simp_all add: recording_ok_def)
  obtain x f1 where 1: "record_fallback_transition (pl_health env) ?ms from_tier to_tier reason (pg_health s) = (Inr x, f1)"
    "recorded (pl_health env) f1 a" by (rule transition_recorded [OF fl f ms plain])
  obtain y f2 where 2: "record_brain_fallback_attempt (pl_health env) ?t ?ms f1 = (Inr y, f2)"
    "recorded (pl_health env) f2 (degrade (Fell ?t ?ms) a)" by (rule attempt_recorded [OF fl 1(2) e])
  have "record_fallback env from_tier to_tier reason s = (Inr (), s\<lparr>pg_health := f2\<rparr>)"
    using 1(1) 2(1) by (simp add: record_fallback_def suppress_os_error_def tryM_def bindM_def on_health_def)
  with that 2(2) show thesis by blast
qed

lemma log_failed_run:
  obtains l where "log_failed_attempt env c next i e s = (Inr (), s\<lparr>pg_log := l\<rparr>)"
  by (simp add: log_failed_attempt_def log_plan_def)

lemma try_candidates_refines:
  assumes ok: "recording_ok env" and "\<forall>c \<in> set cs. plain (ca_name c)" and "recorded (pl_health env) (pg_health s) a"
    and "first_answer env goal cs (pg_outer s) = (ans, fails, w)"
  shows "\<exists>s'. try_candidates env goal i cs errs s =
      (Inr (map_option (\<lambda>(d, c). (d, c, i + length fails)) ans, errs @ map (failure_error env) fails), s')
    \<and> pg_outer s' = w \<and> recorded (pl_health env) (pg_health s') (fold degrade (map (failure_event env) fails) a)"
  using assms(2-)
proof (induction cs arbitrary: s a i errs ans fails w)
  case (Cons c cs)
  obtain r w1 where ans: "answer_of env goal c (pg_outer s) = (r, w1)" by fastforce
  have ask: "attemptM (plan_payload env goal c) s = (Inr r, s\<lparr>pg_outer := w1\<rparr>)"
    by (simp add: attemptM_def ask_run ans)
  show ?case
  proof (cases r)
    case (Inr d)
    then show ?thesis using Cons.prems ask ans by (auto simp: bindM_def log_plan_def)
  next
    case (Inl e)
    let ?next = "case cs of [] \<Rightarrow> ''none'' | d # _ \<Rightarrow> ca_name d"
    obtain fs where rest: "first_answer env goal cs w1 = (ans, fs, w)" "fails = (c, e, w1) # fs"
      using Cons.prems(3) ans Inl by (auto split: prod.splits)
    have "plain ''none''" by code_simp
    then have pl: "plain (ca_name c)" "plain ?next" using Cons.prems(1) by (auto split: list.split)
    let ?s1 = "s\<lparr>pg_outer := w1\<rparr>"
    obtain l where l: "log_failed_attempt env c ?next i e ?s1 = (Inr (), ?s1\<lparr>pg_log := l\<rparr>)" by (rule log_failed_run)
    let ?s2 = "?s1\<lparr>pg_log := l\<rparr>"
    have "recorded (pl_health env) (pg_health ?s2) a" using Cons.prems(2) by simp
    from record_fallback_run [OF ok this pl reason_plain [of env e]] obtain f' where f'':
        "record_fallback env (ca_name c) ?next (classify_fallback_reason env e) ?s2 = (Inr (), ?s2\<lparr>pg_health := f'\<rparr>)"
        "recorded (pl_health env) f' (degrade (Fell (pl_now_s env (pg_outer ?s2)) (pl_now_ms env (pg_outer ?s2))) a)" .
    then have f': "record_fallback env (ca_name c) ?next (classify_fallback_reason env e) ?s2 = (Inr (), ?s2\<lparr>pg_health := f'\<rparr>)"
      "recorded (pl_health env) f' (degrade (failure_event env (c, e, w1)) a)"
      by (simp_all add: failure_event_def)
    let ?s3 = "?s2\<lparr>pg_health := f'\<rparr>"
    have step: "try_candidates env goal i (c # cs) errs s =
      try_candidates env goal (i + 1) cs (errs @ [failure_error env (c, e, w1)]) ?s3"
      using ask l f'(1) by (simp add: bindM_def thenM_def Inl failure_error_def Let_def)
    have "\<forall>c \<in> set cs. plain (ca_name c)" "recorded (pl_health env) (pg_health ?s3) (degrade (failure_event env (c, e, w1)) a)"
      "first_answer env goal cs (pg_outer ?s3) = (ans, fs, w)"
      using Cons.prems(1) f'(2) rest by simp_all
    from Cons.IH [OF this, of "i + 1" "errs @ [failure_error env (c, e, w1)]"] show ?thesis
      unfolding step rest(2) by simp
  qed
qed auto

end
