(* ===== verification/Planner_Theorems.thy ===== *)
theory Planner_Theorems
  imports Planner_Fallback Health_Samples
begin

text \<open>The properties of the mission planner and of the classification of goals, with their witnesses.\<close>

section \<open>A sample\<close>

definition sample_planner :: "unit planner_env" where
  "sample_planner =
     \<lparr>pl_notes = \<lparr>ne_resolve = (\<lambda>p. Some [p]), ne_notes = [''notes'']\<rparr>, pl_cloud_allowed = True,
      pl_brain = [(''fast'', \<lparr>pv_model = ''m2'', pv_create = Inr (\<lambda>p w. (Inr ''{}'', w))\<rparr>),
        (''primary'', \<lparr>pv_model = ''m1'', pv_create = Inr (\<lambda>p w. (Inl (Exc RuntimeError ''x''), w))\<rparr>)],
      pl_discover = Inr [''files.write_text''], pl_expected_args = (\<lambda>_. Inr []),
      pl_json = (\<lambda>_. Some (PDict [(''steps'', PList [PDict [(''skill_id'', PStr ''files.write_text''),
        (''args'', PDict [(''text'', PStr ''a'')])]])])),
      pl_is_a = (\<lambda>_ _. False), pl_health = sample_health, pl_now_ms = (\<lambda>_. 1), pl_now_s = (\<lambda>_. PFloat (Finite 1 ''1.0'')),
      pl_latency_ms = (\<lambda>_. 1), pl_plan_id = ''p'', pl_source = ''queue'', pl_job = None, pl_allowed_apps = [],
      pl_close_matches = (\<lambda>_ _. [])\<rparr>"

definition sample_planning :: "unit planning" where
  "sample_planning = \<lparr>pg_health = None, pg_log = [], pg_outer = ()\<rparr>"

section \<open>Plans\<close>

text \<open>C12 Whatever the model answers, a plan has one to five steps for the goal it was asked for. A step writes a file
  only when the goal asks for a write, and then to the notes or to one of two fixed names; it reads a file only when
  the goal asks for a read, and then from the notes; a sandbox step has an argument list and, unless the goal asks
  for the shell, none of the refused tools; an application is opened only from the allowed ones. The skill of every
  step is a discovered one, or one of the three that the planner puts in itself: writing or reading a note and the
  clipboard. The steps of other discovered skills are not tied to the goal: the policy decides about them.\<close>
theorem planned_steps_safe:
  assumes "plan_mission env goal s = (Inr plan, s')"
  shows "pn_goal plan = goal \<and> 1 \<le> length (pn_steps plan) \<and> length (pn_steps plan) \<le> max_steps
    \<and> (\<forall>st \<in> set (pn_steps plan). sound_step env goal st)"
proof (cases "direct_write_args (pl_notes env) goal")
  case (Some args)
  then show ?thesis using assms direct_write_sound [OF Some]
    by (auto simp: plan_mission_def direct_plan_def log_plan_def max_steps_def planner_error_def thenM_def split: if_splits)
next
  case no_write: None
  show ?thesis
  proof (cases "extract_simple_read_args (pl_notes env) goal")
    case (Some args)
    then show ?thesis using assms no_write direct_read_sound [OF Some]
      by (auto simp: plan_mission_def direct_plan_def log_plan_def max_steps_def planner_error_def thenM_def split: if_splits)
  next
    case None
    then obtain provider payload where "plan_of_payload env goal provider payload = Inr plan"
      using assms no_write
      by (auto simp: plan_mission_def cloud_plan_def log_plan_def planner_error_def thenM_def bindM_Inr_iff liftR_def retM_def
          split: if_splits option.splits prod.splits)
    then show ?thesis by (rule payload_plan_sound)
  qed
qed

lemma sample_names:
  "\<not> goal_max_len < length ''hi''" "direct_write_args (pl_notes sample_planner) ''hi'' = None"
  "extract_simple_read_args (pl_notes sample_planner) ''hi'' = None"
  by code_simp+

definition sample_candidate :: "string \<Rightarrow> string \<Rightarrow> string result \<Rightarrow> unit candidate" where
  "sample_candidate k m r = \<lparr>ca_name = k, ca_model = m, ca_generate = (\<lambda>p w. (r, w))\<rparr>"

lemma sample_candidates:
  "build_brain_candidates sample_planner =
     Inr [sample_candidate ''primary'' ''m1'' (Inl (Exc RuntimeError ''x'')), sample_candidate ''fast'' ''m2'' (Inr ''{}'')]"
  by (simp add: build_brain_candidates_def sample_planner_def ordered_providers_def List.map_filter_def sample_candidate_def)

theorem planned_steps_safe_witness:
  "\<exists>plan s'. plan_mission sample_planner ''hi'' sample_planning = (Inr plan, s')
    \<and> (\<forall>st \<in> set (pn_steps plan). sound_step sample_planner ''hi'' st)"
proof -
  have "isl (fst (plan_mission sample_planner ''hi'' sample_planning)) = False" by code_simp
  then obtain plan s' where "plan_mission sample_planner ''hi'' sample_planning = (Inr plan, s')"
    by (cases "plan_mission sample_planner ''hi'' sample_planning"; cases "fst (plan_mission sample_planner ''hi'' sample_planning)") auto
  with planned_steps_safe [OF this] show ?thesis by blast
qed

section \<open>Providers\<close>

text \<open>C13 For a goal that is not planned directly, the planner refines the abstract process of asking the providers in
  order: the first answer alone is turned into the plan and, when all failed, the error lists each of them with its
  class; the health file goes through the degradation machine once per provider that failed before it.\<close>
theorem planner_asks_in_order:
  assumes ok: "recording_ok env" and goal: "length goal \<le> goal_max_len" "direct_write_args (pl_notes env) goal = None"
      "extract_simple_read_args (pl_notes env) goal = None"
    and cs: "build_brain_candidates env = Inr cs" "\<forall>c \<in> set cs. plain (ca_name c)"
    and h: "recorded (pl_health env) (pg_health s) a"
    and asked: "first_answer env goal cs (pg_outer s) = (answer, fails, w)"
  shows "fst (plan_mission env goal s) = (case answer of
       Some (payload, c) \<Rightarrow> plan_of_payload env goal (ca_name c) payload
     | None \<Rightarrow> planner_error (planner_failure_message (map (failure_error env) fails)))
   \<and> pg_outer (snd (plan_mission env goal s)) = w
   \<and> recorded (pl_health env) (pg_health (snd (plan_mission env goal s))) (fold degrade (map (failure_event env) fails) a)
   \<and> map fst fails = take (length fails) cs
   \<and> (case answer of None \<Rightarrow> length fails = length cs | Some (d, c) \<Rightarrow> length fails < length cs \<and> c = cs ! length fails)"
proof -
  let ?s = "s\<lparr>pg_log := pg_log s @ [[(''event'', PStr ''plan_start''), (''plan_id'', PStr (pl_plan_id env)),
          (''source'', PStr (pl_source env)), (''goal'', PStr goal), (''job'', popt (pl_job env))]]\<rparr>"
  have start: "plan_mission env goal s = cloud_plan env goal ?s"
    using goal by (simp add: plan_mission_def log_plan_def)
  obtain s' where run: "try_candidates env goal 1 cs [] ?s =
      (Inr (map_option (\<lambda>(d, c). (d, c, 1 + length fails)) answer, [] @ map (failure_error env) fails), s')"
    "pg_outer s' = w" "recorded (pl_health env) (pg_health s') (fold degrade (map (failure_event env) fails) a)"
    using try_candidates_refines [OF ok cs(2), of ?s a goal answer fails w 1 "[]"] h asked by auto
  have "fst (cloud_plan env goal ?s) = (case answer of
       Some (payload, c) \<Rightarrow> plan_of_payload env goal (ca_name c) payload
     | None \<Rightarrow> planner_error (planner_failure_message (map (failure_error env) fails)))
   \<and> pg_outer (snd (cloud_plan env goal ?s)) = pg_outer s' \<and> pg_health (snd (cloud_plan env goal ?s)) = pg_health s'"
    unfolding cloud_plan_def cs(1)
    using run(1) by (auto simp: bindM_def thenM_def log_plan_def planner_error_def split: option.splits sum.splits)
  then show ?thesis unfolding start using run(2,3) first_answer_shape [OF asked] by simp
qed

theorem planner_asks_in_order_witness:
  "\<exists>d c e w. first_answer sample_planner ''hi'' [sample_candidate ''primary'' ''m1'' (Inl (Exc RuntimeError ''x'')),
       sample_candidate ''fast'' ''m2'' (Inr ''{}'')] () = (Some (d, c), [e], w) \<and> ca_name c = ''fast''
    \<and> fst (plan_mission sample_planner ''hi'' sample_planning) = plan_of_payload sample_planner ''hi'' ''fast'' d
    \<and> recorded sample_health (pg_health (snd (plan_mission sample_planner ''hi'' sample_planning))) (1, PNone)"
proof -
  let ?cs = "[sample_candidate ''primary'' ''m1'' (Inl (Exc RuntimeError ''x'')), sample_candidate ''fast'' ''m2'' (Inr ''{}'')]"
  obtain d e where asked: "first_answer sample_planner ''hi'' ?cs () = (Some (d, ?cs ! 1), [e], ())"
    by (simp add: answer_of_def sample_planner_def sample_candidate_def parse_planner_json_def)
  have ok: "recording_ok sample_planner" using sample_float by (simp add: recording_ok_def sample_planner_def)
  have names: "\<forall>c \<in> set ?cs. plain (ca_name c)" by (simp add: sample_candidate_def) code_simp
  have h: "recorded (pl_health sample_planner) (pg_health sample_planning) (0, PNone)"
    using recorded_none [OF sample_float] by (simp add: sample_planner_def sample_planning_def)
  have w: "pg_outer sample_planning = ()" by simp
  have ev: "fold degrade (map (failure_event sample_planner) [e]) (0, PNone) = (1, PNone)"
    by (cases e) (simp add: failure_event_def degraded_threshold_def)
  have env: "pl_health sample_planner = sample_health" "ca_name (?cs ! 1) = ''fast''"
    by (simp_all add: sample_planner_def sample_candidate_def)
  have len: "length ''hi'' \<le> goal_max_len" using sample_names(1) by simp
  note all = planner_asks_in_order [OF ok len sample_names(2,3) sample_candidates names h, unfolded w, OF asked]
  have "fst (plan_mission sample_planner ''hi'' sample_planning) = plan_of_payload sample_planner ''hi'' ''fast'' d"
    using conjunct1 [OF all] by (simp only: option.case prod.case env(2))
  moreover have "recorded sample_health (pg_health (snd (plan_mission sample_planner ''hi'' sample_planning))) (1, PNone)"
    using conjunct1 [OF conjunct2 [OF conjunct2 [OF all]]] by (simp only: ev env(1))
  ultimately show ?thesis using asked env(2) by blast
qed

section \<open>The goal in the prompt\<close>

lemma search_absent: "c \<notin> set s \<Longrightarrow> search_from False (Seq (Lit c) r) b s = None"
  by (induction s arbitrary: b) (auto simp: first_end_def step_if_def)

lemma delete_absent: "esc \<notin> set s \<Longrightarrow> re_delete False (Seq (Lit esc) r) s = s"
  unfolding re_delete_def by (cases "length s") (simp_all add: search_absent)

lemma strip_ansi_absent: "esc \<notin> set s \<Longrightarrow> strip_ansi s = s"
  by (simp add: strip_ansi_def ansi_single_def ansi_csi_def ansi_osc_def delete_absent)

definition solid_word :: "string \<Rightarrow> bool" where
  "solid_word w \<longleftrightarrow> w \<noteq> [] \<and> (\<forall>c \<in> set w. \<not> is_space c)"

lemma words_step:
  "\<not> is_space c \<Longrightarrow> \<not> is_space d \<Longrightarrow> words (d # v) = w # ws \<Longrightarrow> words (c # d # v) = (c # w) # ws"
  by (subst words.simps(2)) (simp del: words.simps)

lemma words_alone: "solid_word w \<Longrightarrow> words w = [w]"
proof (induction w)
  case (Cons c w)
  then show ?case
    by (cases w) (auto simp: solid_word_def intro: words_step simp del: words.simps(2), simp)
qed (simp add: solid_word_def)

lemma words_append: "solid_word w \<Longrightarrow> words (w @ CHR '' '' # t) = w # words t"
proof (induction w)
  case (Cons c w)
  have sp: "is_space CHR '' ''" by code_simp
  show ?case
  proof (cases w)
    case Nil
    then show ?thesis using Cons.prems sp by (simp add: solid_word_def)
  next
    case (Cons d v)
    then have "words (w @ CHR '' '' # t) = w # words t" "\<not> is_space c" "\<not> is_space d"
      using Cons.IH Cons.prems by (simp_all add: solid_word_def del: words.simps)
    then show ?thesis using Cons words_step by simp
  qed
qed (simp add: solid_word_def)

lemma words_solid: "w \<in> set (words s) \<Longrightarrow> solid_word w"
proof (induction s arbitrary: w)
  case (Cons c cs)
  show ?case
  proof (cases "is_space c")
    case False
    obtain ws where ws: "words cs = ws" by simp
    have one: "solid_word [c]" using False by (simp add: solid_word_def)
    have longer: "solid_word v \<Longrightarrow> solid_word (c # v)" for v using False by (simp add: solid_word_def)
    show ?thesis
    proof (cases cs)
      case Nil
      then show ?thesis using False Cons.prems one by simp
    next
      case (Cons d ds)
      have "words (c # cs) = (if is_space d then [c] # ws else (case ws of [] \<Rightarrow> [[c]] | v # vs \<Rightarrow> (c # v) # vs))"
        by (simp only: words.simps(2) [of c cs] ws False if_False) (simp add: Cons)
      then have "w = [c] \<or> w \<in> set ws \<or> (\<exists>v \<in> set ws. w = c # v)"
        using \<open>w \<in> set (words (c # cs))\<close> by (cases ws) (auto split: if_splits)
      then show ?thesis
        using one longer \<open>\<And>w. w \<in> set (words cs) \<Longrightarrow> solid_word w\<close> unfolding ws by blast
    qed
  qed (use Cons in simp)
qed simp

lemma words_join: "\<forall>w \<in> set ws. solid_word w \<Longrightarrow> words (join '' '' ws) = ws"
  by (induction "'' ''" ws rule: join.induct) (simp_all add: words_alone words_append del: words.simps(2))

text \<open>The goal that is put into the prompt has no control character, so it stays on its line, and is a normal form:
  sanitising it again changes nothing.\<close>
theorem sanitized_goal_normal:
  "list_all (\<lambda>c. \<not> is_control c) (sanitize_goal_for_prompt goal)
   \<and> sanitize_goal_for_prompt (sanitize_goal_for_prompt goal) = sanitize_goal_for_prompt goal"
proof -
  let ?g = "sanitize_goal_for_prompt goal"
  have clean: "\<forall>c \<in> set ?g. \<not> is_control c" using sanitized_chars by blast
  have "is_control esc" by code_simp
  with clean have "strip_ansi ?g = ?g" by (intro strip_ansi_absent) blast
  moreover have "re_delete False (Cls is_control) ?g = ?g"
    using clean by (simp add: re_delete_def remove_class filter_id_conv)
  moreover have "words ?g = words (re_delete False (Cls is_control) (strip_ansi goal))"
    unfolding sanitize_goal_for_prompt_def by (rule words_join) (blast intro: words_solid)
  ultimately have "sanitize_goal_for_prompt ?g = ?g" by (simp add: sanitize_goal_for_prompt_def del: words.simps)
  with clean show ?thesis by (simp add: list_all_iff)
qed

section \<open>The intent of a goal\<close>

text \<open>C14 The classification of a goal is coherent: it is deterministic and fails closed exactly when it names a kind, its
  allowed skills are those of the kind, a path to read or write is a safe one, and the remainder of a compound goal
  is reported exactly when there is one.\<close>
theorem intent_well_routed:
  "well_routed (classify_simple_operator_intent goal)"
  by (rule classified_routed)

end
