(* ===== verification/Vera_Session.thy ===== *)
theory Vera_Session
  imports Automation_Store
begin

text \<open>
  The session store of the Vera assistant (\<open>voxera/vera/session_store.py\<close>), one JSON file per session, and
  the updates of the shared context (\<open>voxera/vera/context_lifecycle.py\<close>). A session file is missing, not
  JSON (\<open>None\<close>; both read as nothing) or a value. A write may raise; it opens the file for writing, so a failed
  write may leave a file that is not JSON. What counts as a saveable artifact is a parameter.
\<close>

section \<open>State and environment\<close>

record vera =
  ve_sessions :: "(string \<times> py option) list"
  ve_files :: files

record vera_env =
  vn_auto :: auto_env
  vn_now :: "vera \<Rightarrow> int"
  vn_write_error :: "string \<Rightarrow> py \<Rightarrow> vera \<Rightarrow> exc option"
  vn_torn :: "string \<Rightarrow> py \<Rightarrow> vera \<Rightarrow> bool"
  vn_artifact :: "string \<Rightarrow> dict option"

definition max_linked_job_track :: nat where "max_linked_job_track = 64"
definition max_saveable_artifacts :: nat where "max_saveable_artifacts = 8"
definition max_ambiguity_flags :: nat where "max_ambiguity_flags = 8"
definition max_routing_history :: nat where "max_routing_history = 8"

text \<open>\<open>xs[-n:]\<close>\<close>

definition last_n :: "nat \<Rightarrow> 'a list \<Rightarrow> 'a list" where
  "last_n n xs = drop (length xs - n) xs"

section \<open>Payloads\<close>

definition session_path :: "string \<Rightarrow> string" where
  "session_path sid = path_name sid"

definition session_file :: "vera \<Rightarrow> string \<Rightarrow> py option option" where
  "session_file s sid = map_of (ve_sessions s) (session_path sid)"

definition put_session :: "string \<Rightarrow> py option \<Rightarrow> vera \<Rightarrow> vera" where
  "put_session sid x s = s\<lparr>ve_sessions := AList.update (session_path sid) x (ve_sessions s)\<rparr>"

definition read_session_payload :: "vera \<Rightarrow> string \<Rightarrow> dict" where
  "read_session_payload s sid = (if sid = [] then [] else case session_file s sid of
     Some (Some (PDict d)) \<Rightarrow> d | _ \<Rightarrow> [])"

definition write_session_payload :: "vera_env \<Rightarrow> string \<Rightarrow> dict \<Rightarrow> (unit, vera) prog" where
  "write_session_payload env sid d s = (case vn_write_error env (session_path sid) (PDict d) s of
       None \<Rightarrow> (Inr (), put_session sid (Some (PDict d)) s)
     | Some e \<Rightarrow> (Inl e, if vn_torn env (session_path sid) (PDict d) s then put_session sid None s else s))"

definition default_session_payload :: "vera_env \<Rightarrow> string \<Rightarrow> vera \<Rightarrow> dict" where
  "default_session_payload env sid s =
     [(''session_id'', PStr sid), (''updated_at_ms'', PInt (vn_now env s)), (''turns'', PList [])]"

definition load_or_default_payload :: "vera_env \<Rightarrow> string \<Rightarrow> vera \<Rightarrow> dict" where
  "load_or_default_payload env sid s = (let d = read_session_payload s sid in
     if d \<noteq> [] then d else default_session_payload env sid s)"

definition write_session_field :: "vera_env \<Rightarrow> string \<Rightarrow> string \<Rightarrow> dict option \<Rightarrow> (unit, vera) prog" where
  "write_session_field env sid fld v = bindM (getM (\<lambda>s. dput (load_or_default_payload env sid s) ''updated_at_ms'' (PInt (vn_now env s))))
     (\<lambda>d. write_session_payload env sid (case v of None \<Rightarrow> dpop d fld | Some x \<Rightarrow> dput d fld (PDict x)))"

definition read_dict_field :: "vera \<Rightarrow> string \<Rightarrow> string \<Rightarrow> dict option" where
  "read_dict_field s sid fld = (case get (read_session_payload s sid) fld of PDict d \<Rightarrow> Some d | _ \<Rightarrow> None)"

section \<open>Turns\<close>

definition turn_of :: "py \<Rightarrow> dict option" where
  "turn_of turn = (case turn of
     PDict t \<Rightarrow>
       (let role = clean_lower (get t ''role''); body = clean_str (get t ''text''); origin = clean_lower (get t ''input_origin'') in
        if role \<in> {''user'', ''assistant''} \<and> body \<noteq> [] then
          Some ([(''role'', PStr role), (''text'', PStr body)]
            @ (if role = ''user'' \<and> origin \<in> {''typed'', ''voice_transcript''} then [(''input_origin'', PStr origin)] else []))
        else None)
   | _ \<Rightarrow> None)"

definition read_session_turns :: "vera \<Rightarrow> string \<Rightarrow> dict list" where
  "read_session_turns s sid = (case get (read_session_payload s sid) ''turns'' of
     PList xs \<Rightarrow> List.map_filter turn_of xs | _ \<Rightarrow> [])"

definition read_session_updated_at_ms :: "vera \<Rightarrow> string \<Rightarrow> int" where
  "read_session_updated_at_ms s sid = (case get (read_session_payload s sid) ''updated_at_ms'' of
     PInt n \<Rightarrow> max 0 n | PStr t \<Rightarrow> (case py_int (PStr t) of Inr n \<Rightarrow> max 0 n | Inl _ \<Rightarrow> 0) | _ \<Rightarrow> 0)"

definition artifact_item :: "py \<Rightarrow> dict option" where
  "artifact_item item = (case item of
     PDict d \<Rightarrow> (let body = clean_str (get d ''content''); kind = clean_str (get d ''artifact_type'') in
       if body = [] \<or> kind = [] then None else Some [(''content'', PStr body), (''artifact_type'', PStr kind)])
   | _ \<Rightarrow> None)"

definition read_saveable_artifacts :: "vera \<Rightarrow> string \<Rightarrow> dict list" where
  "read_saveable_artifacts s sid = (case get (read_session_payload s sid) ''recent_saveable_assistant_artifacts'' of
     PList xs \<Rightarrow> last_n max_saveable_artifacts (List.map_filter artifact_item xs) | _ \<Rightarrow> [])"

definition preserved_keys :: "string list" where
  "preserved_keys = [''pending_job_preview'', ''handoff'', ''last_enrichment'', ''last_investigation'',
     ''last_derived_investigation_output'', ''weather_context'', ''recent_saveable_assistant_artifacts'', ''linked_queue_jobs'',
     ''conversational_planning_active'', ''last_user_input_origin'', ''last_automation_preview'', ''walkthrough_state'',
     ''shared_context'', ''routing_debug'', ''pending_content_suggestion'']"

definition preserved :: "dict \<Rightarrow> dict \<Rightarrow> dict" where
  "preserved previous base = fold (\<lambda>k d. let v = get previous k in
     if is_dict v \<or> (k = ''recent_saveable_assistant_artifacts'' \<and> is_list v) \<or> (k = ''conversational_planning_active'' \<and> is_bool v)
     then dput d k v else d) preserved_keys base"

definition with_artifact :: "dict list \<Rightarrow> dict \<Rightarrow> dict list" where
  "with_artifact current a = last_n max_saveable_artifacts
     (filter (\<lambda>i. get i ''content'' \<noteq> get a ''content'' \<or> get i ''artifact_type'' \<noteq> get a ''artifact_type'') current @ [a])"

definition spoken_origin :: "string \<Rightarrow> string option \<Rightarrow> string option" where
  "spoken_origin role input_origin = (let origin = lower (strip (case input_origin of None \<Rightarrow> [] | Some t \<Rightarrow> t)) in
     if lower (strip role) = ''user'' \<and> origin \<in> {''typed'', ''voice_transcript''} then Some origin else None)"

definition turn_payload :: "string \<Rightarrow> string \<Rightarrow> string option \<Rightarrow> dict" where
  "turn_payload role body input_origin = [(''role'', PStr (lower (strip role))), (''text'', PStr (strip body))]
     @ (case spoken_origin role input_origin of None \<Rightarrow> [] | Some origin \<Rightarrow> [(''input_origin'', PStr origin)])"

definition append_session_turn :: "vera_env \<Rightarrow> string \<Rightarrow> string \<Rightarrow> string \<Rightarrow> string option \<Rightarrow> (dict list, vera) prog" where
  "append_session_turn env sid role body input_origin = bindM (getM (\<lambda>s. s)) (\<lambda>s.
     let turns = read_session_turns s sid @ [turn_payload role body input_origin];
         d = preserved (read_session_payload s sid)
           [(''session_id'', PStr sid), (''updated_at_ms'', PInt (vn_now env s)), (''turns'', PList (map PDict turns))];
         e = (case (if lower (strip role) = ''assistant'' then vn_artifact env body else None) of
           None \<Rightarrow> d
         | Some a \<Rightarrow> dput d ''recent_saveable_assistant_artifacts'' (PList (map PDict (with_artifact (read_saveable_artifacts s sid) a))));
         f = (case spoken_origin role input_origin of None \<Rightarrow> e
           | Some origin \<Rightarrow> dput e ''last_user_input_origin'' (PDict [(''value'', PStr origin)]))
     in thenM (write_session_payload env sid f) (retM turns))"

definition read_last_user_input_origin :: "vera \<Rightarrow> string \<Rightarrow> string" where
  "read_last_user_input_origin s sid = (case read_dict_field s sid ''last_user_input_origin'' of
     None \<Rightarrow> ''typed''
   | Some d \<Rightarrow> (let v = clean_lower (get d ''value'') in if v \<in> {''typed'', ''voice_transcript''} then v else ''typed''))"

definition clear_session_turns :: "string \<Rightarrow> (unit, vera) prog" where
  "clear_session_turns sid = modifyM (\<lambda>s. s\<lparr>ve_sessions := AList.delete (session_path sid) (ve_sessions s)\<rparr>)"

definition write_saveable_artifacts :: "vera_env \<Rightarrow> string \<Rightarrow> dict list \<Rightarrow> (unit, vera) prog" where
  "write_saveable_artifacts env sid items = bindM (getM (\<lambda>s. dput (load_or_default_payload env sid s) ''updated_at_ms'' (PInt (vn_now env s))))
     (\<lambda>d. write_session_payload env sid (if items \<noteq> []
        then dput d ''recent_saveable_assistant_artifacts'' (PList (map PDict (last_n max_saveable_artifacts items)))
        else dpop d ''recent_saveable_assistant_artifacts''))"

section \<open>Fields\<close>

definition read_session_preview :: "vera \<Rightarrow> string \<Rightarrow> dict option" where
  "read_session_preview s sid = read_dict_field s sid ''pending_job_preview''"

definition write_session_preview :: "vera_env \<Rightarrow> string \<Rightarrow> dict option \<Rightarrow> (unit, vera) prog" where
  "write_session_preview env sid v = write_session_field env sid ''pending_job_preview'' v"

definition handoff_state :: "vera_env \<Rightarrow> vera \<Rightarrow> bool \<Rightarrow> string \<Rightarrow> string \<Rightarrow> string option \<Rightarrow> string option \<Rightarrow> dict" where
  "handoff_state env s attempted queue_path status job_id error =
     [(''attempted'', PBool attempted), (''queue_path'', PStr queue_path), (''status'', PStr status),
      (''job_id'', popt job_id), (''error'', popt error), (''updated_at_ms'', PInt (vn_now env s))]"

definition write_session_handoff_state ::
  "vera_env \<Rightarrow> string \<Rightarrow> bool \<Rightarrow> string \<Rightarrow> string \<Rightarrow> string option \<Rightarrow> string option \<Rightarrow> (unit, vera) prog" where
  "write_session_handoff_state env sid attempted queue_path status job_id error =
     bindM (getM (\<lambda>s. handoff_state env s attempted queue_path status job_id error)) (\<lambda>v.
       write_session_field env sid ''handoff'' (Some v))"

definition read_session_handoff_state :: "vera \<Rightarrow> string \<Rightarrow> dict option" where
  "read_session_handoff_state s sid = read_dict_field s sid ''handoff''"

definition write_conversational_planning :: "vera_env \<Rightarrow> string \<Rightarrow> bool \<Rightarrow> (unit, vera) prog" where
  "write_conversational_planning env sid active = bindM (getM (\<lambda>s. dput (load_or_default_payload env sid s) ''updated_at_ms'' (PInt (vn_now env s))))
     (\<lambda>d. write_session_payload env sid (if active then dput d ''conversational_planning_active'' (PBool True)
        else dpop d ''conversational_planning_active''))"

definition read_conversational_planning :: "vera \<Rightarrow> string \<Rightarrow> bool" where
  "read_conversational_planning s sid = (get (read_session_payload s sid) ''conversational_planning_active'' = PBool True)"

text \<open>What the other lanes of the assistant remember\<close>

definition read_enrichment :: "vera \<Rightarrow> string \<Rightarrow> dict option" where
  "read_enrichment s sid = read_dict_field s sid ''last_enrichment''"

definition write_enrichment :: "vera_env \<Rightarrow> string \<Rightarrow> dict option \<Rightarrow> (unit, vera) prog" where
  "write_enrichment env sid v = write_session_field env sid ''last_enrichment'' v"

definition read_investigation :: "vera \<Rightarrow> string \<Rightarrow> dict option" where
  "read_investigation s sid = read_dict_field s sid ''last_investigation''"

definition write_investigation :: "vera_env \<Rightarrow> string \<Rightarrow> dict option \<Rightarrow> (unit, vera) prog" where
  "write_investigation env sid v = write_session_field env sid ''last_investigation'' v"

definition read_weather_context :: "vera \<Rightarrow> string \<Rightarrow> dict option" where
  "read_weather_context s sid = read_dict_field s sid ''weather_context''"

definition write_weather_context :: "vera_env \<Rightarrow> string \<Rightarrow> dict option \<Rightarrow> (unit, vera) prog" where
  "write_weather_context env sid v = write_session_field env sid ''weather_context'' v"

definition read_last_automation_preview :: "vera \<Rightarrow> string \<Rightarrow> dict option" where
  "read_last_automation_preview s sid = read_dict_field s sid ''last_automation_preview''"

definition write_last_automation_preview :: "vera_env \<Rightarrow> string \<Rightarrow> dict option \<Rightarrow> (unit, vera) prog" where
  "write_last_automation_preview env sid v = write_session_field env sid ''last_automation_preview'' v"

definition read_derived_investigation_output :: "vera \<Rightarrow> string \<Rightarrow> dict option" where
  "read_derived_investigation_output s sid = read_dict_field s sid ''last_derived_investigation_output''"

definition write_derived_investigation_output :: "vera_env \<Rightarrow> string \<Rightarrow> dict option \<Rightarrow> (unit, vera) prog" where
  "write_derived_investigation_output env sid v = write_session_field env sid ''last_derived_investigation_output'' v"

definition read_pending_content_suggestion :: "vera \<Rightarrow> string \<Rightarrow> dict option" where
  "read_pending_content_suggestion s sid = read_dict_field s sid ''pending_content_suggestion''"

definition write_pending_content_suggestion :: "vera_env \<Rightarrow> string \<Rightarrow> dict option \<Rightarrow> (unit, vera) prog" where
  "write_pending_content_suggestion env sid v = write_session_field env sid ''pending_content_suggestion'' v"

definition clear_pending_content_suggestion :: "vera_env \<Rightarrow> string \<Rightarrow> (unit, vera) prog" where
  "clear_pending_content_suggestion env sid = write_pending_content_suggestion env sid None"

definition read_session_walkthrough :: "vera \<Rightarrow> string \<Rightarrow> dict option" where
  "read_session_walkthrough s sid = (case read_dict_field s sid ''walkthrough_state'' of
     Some d \<Rightarrow> if get d ''active'' = PBool True then Some d else None | None \<Rightarrow> None)"

definition write_session_walkthrough :: "vera_env \<Rightarrow> string \<Rightarrow> dict option \<Rightarrow> (unit, vera) prog" where
  "write_session_walkthrough env sid v = write_session_field env sid ''walkthrough_state'' v"

section \<open>Linked jobs\<close>

definition read_linked_job_registry :: "vera \<Rightarrow> string \<Rightarrow> dict" where
  "read_linked_job_registry s sid = (case read_dict_field s sid ''linked_queue_jobs'' of
     Some d \<Rightarrow> d | None \<Rightarrow> [(''tracked'', PList []), (''completions'', PList []), (''notification_outbox'', PList [])])"

definition write_linked_job_registry :: "vera_env \<Rightarrow> string \<Rightarrow> dict \<Rightarrow> (unit, vera) prog" where
  "write_linked_job_registry env sid registry = write_session_field env sid ''linked_queue_jobs'' (Some registry)"

definition is_link_to :: "string \<Rightarrow> py \<Rightarrow> bool" where
  "is_link_to ref item = (case item of PDict d \<Rightarrow> str_or_empty (get d ''job_ref'') = ref | _ \<Rightarrow> False)"

text \<open>The first entry of the job is updated in place, else one is added.\<close>

fun link_job :: "string \<Rightarrow> string \<Rightarrow> int \<Rightarrow> py list \<Rightarrow> py list" where
  "link_job sid ref t [] = [PDict [(''job_ref'', PStr ref), (''linked_session_id'', PStr sid), (''linked_thread_id'', PStr sid),
     (''linked_at_ms'', PInt t), (''completion_ingested'', PBool False)]]"
| "link_job sid ref t (x # xs) = (if is_link_to ref x
     then PDict (dput (dput (dput (the_dict x) ''linked_session_id'' (PStr sid)) ''linked_thread_id'' (PStr sid)) ''updated_at_ms'' (PInt t)) # xs
     else x # link_job sid ref t xs)"

definition list_field :: "dict \<Rightarrow> string \<Rightarrow> dict" where
  "list_field d k = (if is_list (get d k) then d else dput d k (PList []))"

definition register_session_linked_job :: "vera_env \<Rightarrow> string \<Rightarrow> string \<Rightarrow> (unit, vera) prog" where
  "register_session_linked_job env sid job_ref = (let ref = strip (path_name job_ref) in
     if ref = [] then retM ()
     else bindM (getM (\<lambda>s. (read_linked_job_registry s sid, vn_now env s))) (\<lambda>(registry, t).
       let tracked = last_n max_linked_job_track (link_job sid ref t (the_list (get registry ''tracked''))) in
       write_linked_job_registry env sid
         (list_field (list_field (dput registry ''tracked'' (PList tracked)) ''completions'') ''notification_outbox'')))"

definition linked_ref :: "py \<Rightarrow> string option" where
  "linked_ref item = (case item of
     PDict d \<Rightarrow> (let raw = clean_str (get d ''job_ref'') in if raw = [] then None else Some (path_name raw))
   | _ \<Rightarrow> None)"

definition read_linked_job_refs :: "vera \<Rightarrow> string \<Rightarrow> string list" where
  "read_linked_job_refs s sid = (case get (read_linked_job_registry s sid) ''tracked'' of
     PList xs \<Rightarrow> List.map_filter linked_ref xs | _ \<Rightarrow> [])"

definition read_linked_job_completions :: "vera \<Rightarrow> string \<Rightarrow> dict list" where
  "read_linked_job_completions s sid = (case get (read_linked_job_registry s sid) ''completions'' of
     PList xs \<Rightarrow> map the_dict (filter is_dict xs) | _ \<Rightarrow> [])"

section \<open>The shared context\<close>

definition context_refs :: "string list" where
  "context_refs = [''active_draft_ref'', ''active_preview_ref'', ''last_submitted_job_ref'', ''last_completed_job_ref'',
     ''last_reviewed_job_ref'', ''last_saved_file_ref'', ''active_topic'']"

definition empty_shared_context :: dict where
  "empty_shared_context = map (\<lambda>k. (k, PNone)) context_refs @ [(''ambiguity_flags'', PList []), (''updated_at_ms'', PInt 0)]"

definition context_ref :: "py \<Rightarrow> py" where
  "context_ref v = (case v of PStr t \<Rightarrow> if strip t = [] then PNone else PStr (strip t) | _ \<Rightarrow> PNone)"

definition context_flags :: "py \<Rightarrow> py" where
  "context_flags v = (case v of
     PList xs \<Rightarrow> PList (map PStr (filter (\<lambda>f. f \<noteq> []) (map (\<lambda>x. strip (py_str x)) (take max_ambiguity_flags xs))))
   | _ \<Rightarrow> PList [])"

text \<open>A Boolean is an int in Python.\<close>

definition context_stamp :: "py \<Rightarrow> py" where
  "context_stamp v = (case v of PInt n \<Rightarrow> if 0 < n then v else PInt 0 | PBool True \<Rightarrow> v | _ \<Rightarrow> PInt 0)"

definition normalize_shared_context :: "py \<Rightarrow> dict" where
  "normalize_shared_context raw = (case raw of
     PDict d \<Rightarrow> map (\<lambda>k. (k, context_ref (get d k))) context_refs
       @ [(''ambiguity_flags'', context_flags (get d ''ambiguity_flags'')), (''updated_at_ms'', context_stamp (get d ''updated_at_ms''))]
   | _ \<Rightarrow> empty_shared_context)"

definition read_session_context :: "vera \<Rightarrow> string \<Rightarrow> dict" where
  "read_session_context s sid = normalize_shared_context (get (read_session_payload s sid) ''shared_context'')"

text \<open>The write returns the context it wrote, which the code returns for an update.\<close>

definition write_session_context :: "vera_env \<Rightarrow> string \<Rightarrow> dict \<Rightarrow> (dict, vera) prog" where
  "write_session_context env sid context =
     bindM (getM (\<lambda>s. dput (normalize_shared_context (PDict context)) ''updated_at_ms'' (PInt (vn_now env s)))) (\<lambda>d.
     thenM (write_session_field env sid ''shared_context'' (Some d)) (retM d))"

definition merge_context :: "dict \<Rightarrow> dict \<Rightarrow> dict" where
  "merge_context ctx updates = fold (\<lambda>(k, v) d. if k \<in> set (map fst empty_shared_context) \<and> k \<noteq> ''updated_at_ms'' then dput d k v else d)
     updates ctx"

definition update_session_context :: "vera_env \<Rightarrow> string \<Rightarrow> dict \<Rightarrow> (dict, vera) prog" where
  "update_session_context env sid updates =
     bindM (getM (\<lambda>s. merge_context (read_session_context s sid) updates)) (\<lambda>ctx. write_session_context env sid ctx)"

definition clear_session_context :: "vera_env \<Rightarrow> string \<Rightarrow> (unit, vera) prog" where
  "clear_session_context env sid = write_session_field env sid ''shared_context'' None"

text \<open>The events of the workflow; an empty string and \<open>None\<close> count alike where the code tests for truth.\<close>

definition set_text :: "string \<Rightarrow> string option \<Rightarrow> dict" where
  "set_text k v = (case v of Some t \<Rightarrow> if t = [] then [] else [(k, PStr t)] | None \<Rightarrow> [])"

definition context_on_preview_created :: "vera_env \<Rightarrow> string \<Rightarrow> string \<Rightarrow> (dict, vera) prog" where
  "context_on_preview_created env sid draft_ref =
     update_session_context env sid [(''active_draft_ref'', PStr draft_ref), (''active_preview_ref'', PStr ''preview'')]"

definition context_on_preview_cleared :: "vera_env \<Rightarrow> string \<Rightarrow> (dict, vera) prog" where
  "context_on_preview_cleared env sid = update_session_context env sid [(''active_draft_ref'', PNone), (''active_preview_ref'', PNone)]"

definition context_on_handoff_submitted :: "vera_env \<Rightarrow> string \<Rightarrow> string \<Rightarrow> string option \<Rightarrow> (dict, vera) prog" where
  "context_on_handoff_submitted env sid job_id saved_file_ref = update_session_context env sid
     ([(''active_preview_ref'', PNone), (''active_draft_ref'', PNone), (''last_submitted_job_ref'', PStr job_id)]
      @ set_text ''last_saved_file_ref'' saved_file_ref)"

definition context_on_completion_ingested :: "vera_env \<Rightarrow> string \<Rightarrow> string \<Rightarrow> (dict, vera) prog" where
  "context_on_completion_ingested env sid job_id = update_session_context env sid [(''last_completed_job_ref'', PStr job_id)]"

definition context_on_review_performed :: "vera_env \<Rightarrow> string \<Rightarrow> string \<Rightarrow> (dict, vera) prog" where
  "context_on_review_performed env sid job_id = update_session_context env sid [(''last_reviewed_job_ref'', PStr job_id)]"

definition context_on_followup_preview_prepared :: "vera_env \<Rightarrow> string \<Rightarrow> string \<Rightarrow> string option \<Rightarrow> (dict, vera) prog" where
  "context_on_followup_preview_prepared env sid draft_ref source_job_id = update_session_context env sid
     ([(''active_draft_ref'', PStr draft_ref), (''active_preview_ref'', PStr ''preview'')] @ set_text ''last_reviewed_job_ref'' source_job_id)"

definition context_on_automation_saved :: "vera_env \<Rightarrow> string \<Rightarrow> string \<Rightarrow> (dict, vera) prog" where
  "context_on_automation_saved env sid automation_id = update_session_context env sid
     [(''active_draft_ref'', PNone), (''active_preview_ref'', PNone), (''last_submitted_job_ref'', PStr automation_id),
      (''active_topic'', PStr (''automation:'' @ automation_id))]"

definition context_on_automation_lifecycle_action :: "vera_env \<Rightarrow> string \<Rightarrow> string option \<Rightarrow> bool \<Rightarrow> (dict, vera) prog" where
  "context_on_automation_lifecycle_action env sid automation_id deleted = update_session_context env sid
     (if deleted then [(''active_topic'', PNone)]
      else case automation_id of Some a \<Rightarrow> if a = [] then [] else [(''active_topic'', PStr (''automation:'' @ a))] | None \<Rightarrow> [])"

section \<open>The trace of routing decisions\<close>

definition routing_entry :: "py \<Rightarrow> dict option" where
  "routing_entry e = (case e of
     PDict d \<Rightarrow> (let status = clean_str (get d ''route_status''); source = clean_str (get d ''dispatch_source'') in
       if status = [] then None
       else Some [(''route_status'', PStr status), (''dispatch_source'', PStr (if source = [] then ''unknown'' else source)),
         (''matched_early_exit'', PBool (get d ''matched_early_exit'' = PBool True)),
         (''turn_index'', if is_int (get d ''turn_index'') then get d ''turn_index'' else PNone),
         (''timestamp_ms'', if is_int (get d ''timestamp_ms'') then get d ''timestamp_ms'' else PInt 0)])
   | _ \<Rightarrow> None)"

definition read_routing_debug :: "vera \<Rightarrow> string \<Rightarrow> dict list \<times> py" where
  "read_routing_debug s sid = (case read_dict_field s sid ''routing_debug'' of
     None \<Rightarrow> ([], PInt 0)
   | Some raw \<Rightarrow> (case get raw ''entries'' of
       PList xs \<Rightarrow> (List.map_filter routing_entry (last_n max_routing_history xs), get_or raw ''updated_at_ms'' (PInt 0))
     | _ \<Rightarrow> ([], PInt 0)))"

definition append_routing_debug_entry :: "vera_env \<Rightarrow> string \<Rightarrow> string \<Rightarrow> string \<Rightarrow> bool \<Rightarrow> py \<Rightarrow> (unit, vera) prog" where
  "append_routing_debug_entry env sid status source matched turn_index =
     bindM (getM (\<lambda>s. (fst (read_routing_debug s sid), vn_now env s))) (\<lambda>(entries, t).
     let entry = [(''route_status'', PStr (strip status)),
           (''dispatch_source'', PStr (if strip source = [] then ''unknown'' else strip source)),
           (''matched_early_exit'', PBool matched), (''turn_index'', turn_index), (''timestamp_ms'', PInt t)] in
     write_session_field env sid ''routing_debug''
       (Some [(''entries'', PList (map PDict (last_n max_routing_history (entries @ [entry])))), (''updated_at_ms'', PInt t)]))"

definition clear_session_routing_debug :: "vera_env \<Rightarrow> string \<Rightarrow> (unit, vera) prog" where
  "clear_session_routing_debug env sid = write_session_field env sid ''routing_debug'' None"

end
