(* ===== verification/Vera_Submission.thy ===== *)
theory Vera_Submission
  imports Vera_Session Intent_Classifier
begin

text \<open>
  The preview of the Vera assistant: who may change it (\<open>voxera/vera/preview_ownership.py\<close>), what asks for
  its submission, its normal form and its handoff to the queue (\<open>voxera/vera/preview_submission.py\<close>), with
  the handoff of the web application (\<open>_submit_handoff\<close> of \<open>voxera/vera_web/app.py\<close>). A curly apostrophe of
  a reply is a straight one here.
\<close>

section \<open>Phrases\<close>

definition said :: "pat list \<Rightarrow> pat" where
  "said rs = seq ([Bound] @ rs @ [Bound])"

definition it_this_that :: pat where
  "it_this_that = either [''it'', ''this'', ''that'']"

definition handoff_patterns :: "pat list" where
  "handoff_patterns = map (\<lambda>ws. said [phrase ws]) [[''hand'', ''it'', ''off''], [''handoff''], [''submit'', ''it''], [''submit'', ''to'', ''voxeraos''],
       [''send'', ''it'', ''to'', ''voxeraos''], [''queue'', ''it''], [''enqueue'', ''it''], [''push'', ''it'', ''through'']]
     @ [seq [said [alts [phrase [''do'', ''it''], phrase [''go'', ''ahead''], lits ''proceed'']], star any_char,
          said [maybe (either [''voxeraos'', ''submit'', ''send'', ''queue''])]],
        seq [said [alts [lits ''submit'', lits ''send'', phrase [''hand'', ''off'']]], star any_char,
          said [either [''job'', ''request'', ''it'', ''this'', ''queue'', ''voxeraos'', ''now'', ''please'']]]]"

definition active_preview_patterns :: "pat list" where
  "active_preview_patterns = map (\<lambda>ws. said [phrase ws]) [[''yes'', ''please''], [''yes'', ''go'', ''ahead''],
       [''that'', ''looks'', ''good'', ''now''], [''use'', ''it''], [''use'', ''this'', ''preview''], [''use'', ''the'', ''current'', ''preview''],
       [''this'', ''preview'', ''is'', ''correct''], [''okay'', ''now'', ''use'', ''it''], [''that'', ''json'', ''is'', ''right''],
       [''send'', ''this'', ''version''], [''submit'', ''this'', ''one''], [''go'', ''with'', ''this''], [''create'', ''it''],
       [''save'', ''it''], [''save'', ''this'']]
     @ [said [lits ''let'', maybe (Lit CHR 0x27), lits ''s'', gap, lits ''save'', gap, it_this_that],
        said [lits ''write'', gap, it_this_that, gap, lits ''to'', gap, maybe (then_gap (lits ''a'')), either [''file'', ''disk'']]]"

definition closing_marks :: pat where
  "closing_marks = star (Cls (\<lambda>c. c \<in> {CHR ''.'', CHR ''!'', CHR ''?''}))"

definition natural_confirmation :: pat where
  "natural_confirmation = Seq (alts [Seq (lits ''yes'') (maybe (Seq gap (lits ''please''))), phrase [''yes'', ''go'', ''ahead''],
     phrase [''go'', ''ahead''], phrase [''do'', ''it''], phrase [''send'', ''it''], phrase [''submit'', ''it''],
     phrase [''hand'', ''it'', ''off'']]) closing_marks"

definition near_submit :: pat where
  "near_submit = (let its = Seq (some_of (Lit CHR ''i'')) (Lit CHR ''t'') in
     seq [Begin, alts [seq [lits ''send'', gap, its], phrase [''sen'', ''it''], phrase [''sned'', ''it''], lits ''sendit'',
       phrase [''submt'', ''it''], phrase [''sumbit'', ''it''], phrase [''sbumit'', ''it''],
       seq [lits ''submit'', maybe (Lit CHR ''t''), gap, its], phrase [''sedn'', ''it''], phrase [''send'', ''ti'']], closing_marks, End])"

definition rename_request :: pat where
  "rename_request = said [alts [seq [lits ''save'', gap, maybe it_this_that, spaces, lits ''as''], lits ''rename'',
     seq [lits ''name'', gap, alts [lits ''it'', lits ''that'',
       seq [either [''the'', ''this''], gap, either [''note'', ''file'', ''draft'', ''document'', ''doc'']]]],
     seq [lits ''call'', gap, either [''it'', ''that'']],
     seq [lits ''change'', gap, maybe (then_gap (lits ''the'')), alts [lits ''name'', lits ''filename'', phrase [''file'', ''name'']]]]]"

definition found_any :: "pat list \<Rightarrow> string \<Rightarrow> bool" where
  "found_any rs s = list_ex (\<lambda>r. found False r s) rs"

definition looks_like_rename :: "string \<Rightarrow> bool" where
  "looks_like_rename message = (lower (strip message) \<noteq> [] \<and> found False rename_request (lower (strip message)))"

definition is_explicit_handoff_request :: "string \<Rightarrow> bool" where
  "is_explicit_handoff_request message = (lower (strip message) \<noteq> [] \<and> found_any handoff_patterns (lower (strip message)))"

definition is_active_preview_submit_request :: "string \<Rightarrow> bool" where
  "is_active_preview_submit_request message = (let m = lower (strip message) in
     m \<noteq> [] \<and> \<not> looks_like_rename m \<and> found_any active_preview_patterns m)"

definition is_natural_confirmation :: "string \<Rightarrow> bool" where
  "is_natural_confirmation message = (lower (strip message) \<noteq> []
     \<and> re_fullmatch True natural_confirmation (lower (strip message)) \<noteq> None)"

definition is_preview_submission_request :: "string \<Rightarrow> bool" where
  "is_preview_submission_request message =
     (is_natural_confirmation message \<or> is_explicit_handoff_request message \<or> is_active_preview_submit_request message)"

definition is_near_miss_submit_phrase :: "string \<Rightarrow> bool" where
  "is_near_miss_submit_phrase message = (lower (strip message) \<noteq> [] \<and> \<not> is_preview_submission_request message
     \<and> re_fullmatch True near_submit (lower (strip message)) \<noteq> None)"

definition should_submit_active_preview :: "string \<Rightarrow> bool \<Rightarrow> bool" where
  "should_submit_active_preview message available = (available \<and> \<not> looks_like_rename (lower (strip message))
     \<and> (is_explicit_handoff_request message \<or> is_active_preview_submit_request message))"

section \<open>The normal form of a preview\<close>

definition notes_root :: string where
  "notes_root = ''~/VoxeraOS/notes''"

text \<open>\<open>is_safe_notes_path\<close> of \<open>voxera/core/file_intent.py\<close>\<close>

definition safe_notes_text :: "string \<Rightarrow> bool" where
  "safe_notes_text path = (let normalized = rstrip_of ''/'' path;
       after_root = dropWhile (\<lambda>c. c = CHR ''/'') (drop (length notes_root) normalized) in
     \<not> contains_parent_traversal path \<and> starts_with normalized notes_root
     \<and> after_root \<noteq> ''queue'' \<and> \<not> starts_with after_root ''queue/'')"

definition allowed_top_level_keys :: "string list" where
  "allowed_top_level_keys = [''goal'', ''title'', ''mission_id'', ''parent_job_id'', ''root_job_id'', ''orchestration_depth'',
     ''sequence_index'', ''lineage_role'', ''enqueue_child'', ''write_file'', ''file_organize'', ''steps'']"

definition check :: "bool \<Rightarrow> string \<Rightarrow> unit result" where
  "check b msg = (if b then Inr () else raise_value msg)"

definition stripped_or_dropped :: "string \<Rightarrow> dict \<Rightarrow> dict" where
  "stripped_or_dropped k d = (if \<not> has_key d k then d
     else if strip (py_str (get d k)) = [] then dpop d k else dput d k (PStr (strip (py_str (get d k)))))"

definition on_object :: "string \<Rightarrow> (dict \<Rightarrow> dict result) \<Rightarrow> dict \<Rightarrow> dict result" where
  "on_object k f d = (case get d k of
     PNone \<Rightarrow> Inr d
   | PDict r \<Rightarrow> bindR (f r) (\<lambda>x. Inr (dput d k (PDict x)))
   | _ \<Rightarrow> raise_value (k @ '' must be an object''))"

definition preview_child :: "dict \<Rightarrow> dict result" where
  "preview_child r = bindR (check (clean_str (get r ''goal'') \<noteq> []) ''enqueue_child.goal is required'') (\<lambda>_.
     Inr ([(''goal'', PStr (clean_str (get r ''goal'')))]
       @ (if clean_str (get r ''title'') = [] then [] else [(''title'', PStr (clean_str (get r ''title'')))])))"

definition clean_mode :: "py \<Rightarrow> string \<Rightarrow> string" where
  "clean_mode v dflt = lower (strip (py_str (por v (PStr dflt))))"

definition preview_write_file :: "dict \<Rightarrow> dict result" where
  "preview_write_file r = (let path = clean_str (get r ''path''); mode = clean_mode (get r ''mode'') ''overwrite'' in
     bindR (check (path \<noteq> []) ''write_file.path is required'') (\<lambda>_.
     bindR (check (safe_notes_text path) (''write_file.path must be within ~/VoxeraOS/notes/ ''
       @ ''and must not contain parent traversal or target the queue control-plane'')) (\<lambda>_.
     bindR (check (is_str (get r ''content'')) ''write_file.content must be a string'') (\<lambda>_.
     bindR (check (mode \<in> {''overwrite'', ''append''}) ''write_file.mode must be overwrite or append'') (\<lambda>_.
       Inr [(''path'', PStr path), (''content'', get r ''content''), (''mode'', PStr mode)])))))"

definition preview_file_organize :: "dict \<Rightarrow> dict result" where
  "preview_file_organize r = (let source = clean_str (get r ''source_path''); dest = clean_str (get r ''destination_dir'');
       mode = clean_mode (get r ''mode'') ''copy''; overwrite = get_or r ''overwrite'' (PBool False);
       delete = get_or r ''delete_original'' (PBool False) in
     bindR (check (source \<noteq> []) ''file_organize.source_path is required'') (\<lambda>_.
     bindR (check (dest \<noteq> []) ''file_organize.destination_dir is required'') (\<lambda>_.
     bindR (check (mode \<in> {''copy'', ''move''}) ''file_organize.mode must be copy or move'') (\<lambda>_.
     bindR (check (is_bool overwrite) ''file_organize.overwrite must be a boolean'') (\<lambda>_.
     bindR (check (is_bool delete) ''file_organize.delete_original must be a boolean'') (\<lambda>_.
       Inr [(''source_path'', PStr source), (''destination_dir'', PStr dest), (''mode'', PStr mode),
         (''overwrite'', overwrite), (''delete_original'', delete)]))))))"

definition preview_step :: "nat \<Rightarrow> py \<Rightarrow> py result" where
  "preview_step idx step = (case step of
     PDict d \<Rightarrow>
       bindR (check (clean_str (get d ''skill_id'') \<noteq> []) (''step '' @ nat_str idx @ '' requires a non-empty skill_id'')) (\<lambda>_.
       bindR (check (is_dict (get_or d ''args'' (PDict []))) (''step '' @ nat_str idx @ '' args must be an object'')) (\<lambda>_.
         Inr (PDict [(''skill_id'', PStr (clean_str (get d ''skill_id''))), (''args'', get_or d ''args'' (PDict []))])))
   | _ \<Rightarrow> raise_value (''step '' @ nat_str idx @ '' must be an object''))"

definition preview_steps :: "dict \<Rightarrow> dict result" where
  "preview_steps d = (case get d ''steps'' of
     PNone \<Rightarrow> Inr d
   | PList (x # xs) \<Rightarrow> bindR (mapR (\<lambda>(i, st). preview_step i st) (List.enumerate 1 (x # xs))) (\<lambda>ys. Inr (dput d ''steps'' (PList ys)))
   | _ \<Rightarrow> raise_value ''steps must be a non-empty list'')"

text \<open>\<open>ks\<close> is the order in which Python iterates over the set of the allowed keys.\<close>

definition normalize_preview_payload :: "string list \<Rightarrow> dict \<Rightarrow> dict result" where
  "normalize_preview_payload ks payload =
     (let cleaned = map (\<lambda>k. (k, get payload k)) (filter (has_key payload) ks); goal = clean_str (get cleaned ''goal'') in
      if goal = [] then raise_value ''goal is required''
      else let named = stripped_or_dropped ''title'' (stripped_or_dropped ''mission_id''
             ((''goal'', PStr goal) # filter (\<lambda>(k, v). k \<noteq> ''goal'') cleaned)) in
        bindR (on_object ''enqueue_child'' preview_child named) (\<lambda>d1.
        bindR (on_object ''write_file'' preview_write_file d1) (\<lambda>d2.
        bindR (on_object ''file_organize'' preview_file_organize d2) (\<lambda>d3. preview_steps d3))))"

section \<open>Ownership\<close>

definition derive_preview_draft_ref :: "dict \<Rightarrow> string" where
  "derive_preview_draft_ref payload =
     (let path = (case get payload ''write_file'' of PDict w \<Rightarrow> clean_str (get w ''path'') | _ \<Rightarrow> []);
          goal = clean_str (get payload ''goal'') in
      if path \<noteq> [] then path else if goal \<noteq> [] then take 80 goal else ''preview'')"

definition effective_ref :: "string option \<Rightarrow> dict \<Rightarrow> string" where
  "effective_ref draft_ref payload = (case draft_ref of
     Some r \<Rightarrow> if strip r \<noteq> [] then r else derive_preview_draft_ref payload | None \<Rightarrow> derive_preview_draft_ref payload)"

definition mark_preview_ready :: "vera_env \<Rightarrow> string \<Rightarrow> (unit, vera) prog" where
  "mark_preview_ready env sid = write_session_handoff_state env sid False (ae_root (vn_auto env)) ''preview_ready'' None None"

definition reset_active_preview :: "vera_env \<Rightarrow> string \<Rightarrow> dict \<Rightarrow> string option \<Rightarrow> bool \<Rightarrow> (unit, vera) prog" where
  "reset_active_preview env sid payload draft_ref mark =
     thenM (write_session_preview env sid (Some payload))
     (thenM (whenM mark (mark_preview_ready env sid))
     (thenM (context_on_preview_created env sid (effective_ref draft_ref payload)) (retM ())))"

definition record_followup_preview :: "vera_env \<Rightarrow> string \<Rightarrow> dict \<Rightarrow> string option \<Rightarrow> string option \<Rightarrow> (unit, vera) prog" where
  "record_followup_preview env sid payload source_job_id draft_ref =
     thenM (write_session_preview env sid (Some payload))
     (thenM (mark_preview_ready env sid)
     (thenM (context_on_followup_preview_prepared env sid (effective_ref draft_ref payload) source_job_id) (retM ())))"

definition clear_active_preview :: "vera_env \<Rightarrow> string \<Rightarrow> (unit, vera) prog" where
  "clear_active_preview env sid = thenM (write_session_preview env sid None) (thenM (context_on_preview_cleared env sid) (retM ()))"

definition record_submit_success :: "vera_env \<Rightarrow> string \<Rightarrow> (unit, vera) prog" where
  "record_submit_success env sid = write_session_preview env sid None"

section \<open>Handoff\<close>

text \<open>Equality of JSON values: numbers by value, objects without order\<close>

fun num_of :: "py \<Rightarrow> rat option" where
  "num_of (PBool b) = Some (if b then 1 else 0)"
| "num_of (PInt n) = Some (of_int n)"
| "num_of (PFloat (Finite r _)) = Some r"
| "num_of _ = None"

function (sequential) py_eq :: "py \<Rightarrow> py \<Rightarrow> bool" where
  "py_eq (PList xs) (PList ys) = (length xs = length ys \<and> list_all (\<lambda>(x, y). py_eq x y) (zip xs ys))"
| "py_eq (PDict a) (PDict b) = (length a = length b
     \<and> list_all (\<lambda>(k, v). case map_of b k of None \<Rightarrow> False | Some w \<Rightarrow> py_eq v w) a)"
| "py_eq x y = (case (num_of x, num_of y) of (Some m, Some n) \<Rightarrow> m = n | _ \<Rightarrow> x = y \<and> x \<noteq> PFloat NotANumber)"
  by pat_completeness auto
termination
proof (relation "measure (\<lambda>(x, y). size x)", goal_cases)
  case (2 xs ys p x y)
  then show ?case by (auto dest!: set_zip_leftD size_list_estimation' [of _ xs "size _" size, OF _ order_refl])
next
  case (3 a b p k v w)
  then show ?case by (auto dest!: size_list_estimation' [of _ a _ "size_prod (\<lambda>_. 0) size", OF _ order_refl])
qed simp

definition on_queue :: "('a, files) prog \<Rightarrow> ('a, vera) prog" where
  "on_queue m s = (case m (ve_files s) of (r, fs) \<Rightarrow> (r, s\<lparr>ve_files := fs\<rparr>))"

definition submit_ack :: "string \<Rightarrow> string" where
  "submit_ack job_id = ''I submitted the job to VoxeraOS. Job id: '' @ job_id @ ''. ''
     @ ''The request is now in the queue. Execution has not completed yet. ''
     @ ''VoxeraOS will handle planning, policy/approval, execution, and evidence.''"

definition submit_preview :: "vera_env \<Rightarrow> dict \<Rightarrow> (dict, vera) prog" where
  "submit_preview env payload =
     bindM (on_queue (add_inbox_payload (vn_auto env) payload None ''vera_handoff'')) (\<lambda>created.
     bindM (getM (\<lambda>s. exists_file (ve_files s) created)) (\<lambda>present.
       let path = full_path (vn_auto env) created; job_id = removeprefix (name_stem (snd created)) ''inbox-'' in
       if \<not> present then raiseM (Exc RuntimeError (''queue write was not confirmed at '' @ path))
       else retM [(''job_id'', PStr job_id), (''job_path'', PStr path), (''queue_path'', PStr (ae_root (vn_auto env))),
         (''ack'', PStr (submit_ack job_id))]))"

definition accept_handoff :: "vera_env \<Rightarrow> string \<Rightarrow> (string \<Rightarrow> (unit, vera) prog) option \<Rightarrow> dict \<Rightarrow> (string \<times> string, vera) prog" where
  "accept_handoff env sid register ack = (let job_id = clean_str (get ack ''job_id'') in
     if job_id = [] then raiseM (Exc RuntimeError ''queue accepted payload but returned no job id'')
     else thenM (write_session_handoff_state env sid True (py_str (por (get ack ''queue_path'') (PStr (ae_root (vn_auto env)))))
          ''submitted'' (Some job_id) None)
       (thenM (case register of None \<Rightarrow> retM () | Some f \<Rightarrow> f (''inbox-'' @ job_id @ ''.json''))
       (thenM (write_session_preview env sid None)
         (if has_key ack ''ack'' then retM (py_str (get ack ''ack''), ''handoff_submitted'')
          else raiseM (Exc KeyError ''ack'')))))"

definition refuse_handoff :: "vera_env \<Rightarrow> string \<Rightarrow> string \<Rightarrow> string \<Rightarrow> string \<Rightarrow> string \<Rightarrow> (string \<times> string, vera) prog" where
  "refuse_handoff env sid status error reply outcome =
     thenM (write_session_handoff_state env sid False (ae_root (vn_auto env)) status None (Some error)) (retM (reply, outcome))"

definition submit_active_preview ::
  "vera_env \<Rightarrow> string \<Rightarrow> dict option \<Rightarrow> (string \<Rightarrow> (unit, vera) prog) option \<Rightarrow> (dict \<Rightarrow> (dict, vera) prog) \<Rightarrow> (string \<times> string, vera) prog" where
  "submit_active_preview env sid preview register hook = bindM (getM (\<lambda>s. read_session_preview s sid)) (\<lambda>canonical.
     if (case (canonical, preview) of (Some c, Some p) \<Rightarrow> \<not> py_eq (PDict p) (PDict c) | _ \<Rightarrow> False) then
       refuse_handoff env sid ''ambiguous_preview_state'' ''Provided preview does not match canonical active preview state''
         (''I did not submit anything because the active preview state was ambiguous. '' @ ''Please review the current preview and submit again.'')
         ''handoff_ambiguous_preview_state''
     else (case (case canonical of Some c \<Rightarrow> Some c | None \<Rightarrow> preview) of
       None \<Rightarrow> refuse_handoff env sid ''missing_preview'' ''No prepared preview found''
         ([CHR ''I'', CHR '' '', CHR ''d'', CHR ''o'', CHR ''n'', CHR 0x27] @ ''t have a prepared preview in this session yet, so I did not submit anything to VoxeraOS.'')
         ''handoff_missing_preview''
     | Some payload \<Rightarrow> tryM (bindM (hook payload) (accept_handoff env sid register))
         (\<lambda>e. thenM (write_session_handoff_state env sid True (ae_root (vn_auto env)) ''submit_failed'' None (Some (str_exc e)))
           (retM (''I could not submit that job to VoxeraOS, so nothing was queued. Submission failed with: '' @ str_exc e,
             ''handoff_submit_failed'')))))"

text \<open>\<open>_submit_handoff\<close> of the web application\<close>

definition saved_file_ref :: "dict option \<Rightarrow> string option" where
  "saved_file_ref preview = (case preview of None \<Rightarrow> None | Some p \<Rightarrow> (case get p ''write_file'' of
     PDict w \<Rightarrow> (let path = clean_str (get w ''path'') in if path = [] then None else Some path) | _ \<Rightarrow> None))"

definition finish_submission :: "vera_env \<Rightarrow> string \<Rightarrow> dict option \<Rightarrow> (unit, vera) prog" where
  "finish_submission env sid preview = bindM (getM (\<lambda>s. read_session_walkthrough s sid)) (\<lambda>walk.
     thenM (whenM (walk \<noteq> None) (write_session_walkthrough env sid None))
     (bindM (getM (\<lambda>s. case read_session_handoff_state s sid of Some h \<Rightarrow> clean_str (get h ''job_id'') | None \<Rightarrow> [])) (\<lambda>job_id.
      thenM (if job_id \<noteq> [] then context_on_handoff_submitted env sid job_id (saved_file_ref preview)
             else context_on_preview_cleared env sid)
        (retM ()))))"

definition submit_handoff :: "vera_env \<Rightarrow> string \<Rightarrow> dict option \<Rightarrow> (string \<times> string, vera) prog" where
  "submit_handoff env sid preview =
     bindM (submit_active_preview env sid preview (Some (register_session_linked_job env sid)) (submit_preview env)) (\<lambda>(reply, status).
       thenM (whenM (status = ''handoff_submitted'') (finish_submission env sid preview)) (retM (reply, status)))"

end
