(* ===== verification/Vera_Laws.thy ===== *)
theory Vera_Laws
  imports Vera_Submission Guarantees
begin

text \<open>
  Facts of the assistant's sessions while their files can be written: what an operation leaves alone, and
  the run of a handoff.
\<close>

section \<open>What a session operation leaves alone\<close>

definition writes_ok :: "vera_env \<Rightarrow> bool" where
  "writes_ok env \<longleftrightarrow> (\<forall>p d s. vn_write_error env p d s = None)"

text \<open>The queue is the same, and the session keeps its fields but for the named ones.\<close>

definition touches :: "string \<Rightarrow> string list \<Rightarrow> vera \<Rightarrow> vera \<Rightarrow> bool" where
  "touches sid ks s s' \<longleftrightarrow> ve_files s' = ve_files s
     \<and> (\<forall>k \<in> set preserved_keys. k \<notin> set ks \<longrightarrow> read_dict_field s' sid k = read_dict_field s sid k)"

interpretation session: guarantee "touches sid ks" for sid ks
  by unfold_locales (simp_all add: touches_def)

lemma touches_mono: "effect (touches sid ks) m \<Longrightarrow> set ks \<subseteq> set ls \<Longrightarrow> effect (touches sid ls) m"
  by (erule effect_mono) (auto simp: touches_def)

lemma touchesD: "effect (touches sid ks) m \<Longrightarrow> k \<in> set preserved_keys \<Longrightarrow> k \<notin> set ks \<Longrightarrow>
    read_dict_field (snd (m s)) sid k = read_dict_field s sid k"
  and touches_files: "effect (touches sid ks) m \<Longrightarrow> ve_files (snd (m s)) = ve_files s"
  using effectD [of "touches sid ks" m s] by (simp_all add: touches_def)

definition returns :: "('a, 's) prog \<Rightarrow> bool" where
  "returns m \<longleftrightarrow> (\<forall>s. \<exists>x s'. m s = (Inr x, s'))"

lemma returns_intro:
  "returns (retM x)" "returns (getM f)" "returns (modifyM g)"
  "returns m \<Longrightarrow> (\<And>x. returns (k x)) \<Longrightarrow> returns (bindM m k)"
  "returns w \<Longrightarrow> returns z \<Longrightarrow> returns (thenM w z)"
  "(b \<Longrightarrow> returns m) \<Longrightarrow> (\<not> b \<Longrightarrow> returns n) \<Longrightarrow> returns (if b then m else n)"
  "(b \<Longrightarrow> returns u) \<Longrightarrow> returns (whenM b u)"
  "(\<And>x y. v = (x, y) \<Longrightarrow> returns (f2 x y)) \<Longrightarrow> returns (case v of (x, y) \<Rightarrow> f2 x y)"
proof -
  show b: "returns m \<Longrightarrow> (\<And>x. returns (k x)) \<Longrightarrow> returns (bindM m k)" for m k
    unfolding returns_def by (metis bindM_run(2))
  show "returns w \<Longrightarrow> returns z \<Longrightarrow> returns (thenM w z)"
    unfolding returns_def thenM_def by (metis bindM_run(2))
qed (auto simp: returns_def whenM_def split: prod.splits)

lemma returnsD: "returns m \<Longrightarrow> \<exists>x. m s = (Inr x, snd (m s))"
  unfolding returns_def by (metis snd_conv)

section \<open>The operations\<close>

lemma own_fields_preserved:
  "''session_id'' \<notin> set preserved_keys" "''updated_at_ms'' \<notin> set preserved_keys" "''turns'' \<notin> set preserved_keys"
  by (simp_all add: preserved_keys_def)

lemma payload_run:
  "writes_ok env \<Longrightarrow> write_session_payload env sid d s =
     (Inr (), put_session sid (Some (PDict d)) s)"
  by (simp add: write_session_payload_def writes_ok_def)

lemma read_written:
  "sid \<noteq> [] \<Longrightarrow> read_session_payload (put_session sid (Some (PDict d)) s) sid = d"
  by (simp add: read_session_payload_def session_file_def put_session_def update_conv')

lemma put_session_files [simp]: "ve_files (put_session sid x s) = ve_files s"
  by (simp add: put_session_def)

lemma load_fields: "k \<in> set preserved_keys \<Longrightarrow> get (load_or_default_payload env sid s) k = get (read_session_payload s sid) k"
  using own_fields_preserved by (auto simp: load_or_default_payload_def default_session_payload_def Let_def)

lemma field_run:
  assumes "writes_ok env" and "sid \<noteq> []" and "fld \<in> set preserved_keys"
  obtains s' where "write_session_field env sid fld v s = (Inr (), s')" "ve_files s' = ve_files s"
    "read_dict_field s' sid fld = v" "touches sid [fld] s s'"
proof -
  let ?d = "dput (load_or_default_payload env sid s) ''updated_at_ms'' (PInt (vn_now env s))"
  let ?e = "case v of None \<Rightarrow> dpop ?d fld | Some x \<Rightarrow> dput ?d fld (PDict x)"
  let ?s = "put_session sid (Some (PDict ?e)) s"
  have run: "write_session_field env sid fld v s = (Inr (), ?s)"
    using assms(1) by (simp add: write_session_field_def payload_run)
  have own: "fld \<noteq> ''updated_at_ms''" using assms(3) own_fields_preserved by auto
  have fields: "get ?e k = (if k = fld then (case v of None \<Rightarrow> PNone | Some x \<Rightarrow> PDict x) else get (read_session_payload s sid) k)"
    if "k \<in> set preserved_keys" for k
    using that own own_fields_preserved load_fields [OF that] by (auto split: option.splits)
  have "read_dict_field ?s sid fld = v"
    unfolding read_dict_field_def read_written [OF assms(2)] by (simp only: fields [OF assms(3)] if_True) (simp split: option.split)
  moreover have "touches sid [fld] s ?s"
    unfolding touches_def read_dict_field_def read_written [OF assms(2)] by (simp add: fields)
  ultimately show thesis using that [OF run] by simp
qed

lemma field_returns: "writes_ok env \<Longrightarrow> returns (write_session_field env sid fld v)"
  by (simp add: returns_def write_session_field_def payload_run)

lemma field_touches:
  assumes "writes_ok env" and "sid \<noteq> []" and "fld \<in> set preserved_keys"
  shows "effect (touches sid [fld]) (write_session_field env sid fld v)"
proof (rule effectI)
  fix s
  show "touches sid [fld] s (snd (write_session_field env sid fld v s))"
    by (rule field_run [OF assms, of v s]) simp
qed

lemma field_reads:
  assumes "writes_ok env" and "sid \<noteq> []" and "fld \<in> set preserved_keys"
  shows "read_dict_field (snd (write_session_field env sid fld v s)) sid fld = v"
  by (rule field_run [OF assms, of v s]) simp

lemma keys:
  "''pending_job_preview'' \<in> set preserved_keys" "''handoff'' \<in> set preserved_keys" "''linked_queue_jobs'' \<in> set preserved_keys"
  "''shared_context'' \<in> set preserved_keys" "''walkthrough_state'' \<in> set preserved_keys" "''routing_debug'' \<in> set preserved_keys"
  by (simp_all add: preserved_keys_def)

lemma handoff_touches:
  "writes_ok env \<Longrightarrow> sid \<noteq> [] \<Longrightarrow> effect (touches sid [''handoff'']) (write_session_handoff_state env sid a q st j e)"
  unfolding write_session_handoff_state_def by (intro session.effect_intro field_touches keys)

lemma link_touches:
  "writes_ok env \<Longrightarrow> sid \<noteq> [] \<Longrightarrow> effect (touches sid [''linked_queue_jobs'']) (register_session_linked_job env sid ref)"
  unfolding register_session_linked_job_def Let_def write_linked_job_registry_def
  by (intro session.effect_intro field_touches keys)

lemma context_touches:
  "writes_ok env \<Longrightarrow> sid \<noteq> [] \<Longrightarrow> effect (touches sid [''shared_context'']) (update_session_context env sid us)"
  unfolding update_session_context_def write_session_context_def by (intro session.effect_intro field_touches keys)

lemma preview_touches:
  "writes_ok env \<Longrightarrow> sid \<noteq> [] \<Longrightarrow> effect (touches sid [''pending_job_preview'']) (write_session_preview env sid v)"
  unfolding write_session_preview_def by (intro field_touches keys)

lemma routing_touches:
  "writes_ok env \<Longrightarrow> sid \<noteq> [] \<Longrightarrow> effect (touches sid [''routing_debug'']) (append_routing_debug_entry env sid st src m t)"
  unfolding append_routing_debug_entry_def Let_def by (intro session.effect_intro field_touches keys)

lemma context_events:
  "writes_ok env \<Longrightarrow> sid \<noteq> [] \<Longrightarrow> effect (touches sid [''shared_context'']) (context_on_preview_created env sid r)"
  "writes_ok env \<Longrightarrow> sid \<noteq> [] \<Longrightarrow> effect (touches sid [''shared_context'']) (context_on_preview_cleared env sid)"
  "writes_ok env \<Longrightarrow> sid \<noteq> [] \<Longrightarrow> effect (touches sid [''shared_context'']) (context_on_handoff_submitted env sid j f)"
  "writes_ok env \<Longrightarrow> sid \<noteq> [] \<Longrightarrow> effect (touches sid [''shared_context'']) (context_on_followup_preview_prepared env sid r src)"
  by (simp_all add: context_on_preview_created_def context_on_preview_cleared_def context_on_handoff_submitted_def
      context_on_followup_preview_prepared_def context_touches)

lemma session_returns:
  "writes_ok env \<Longrightarrow> returns (write_session_handoff_state env sid a q st j e)"
  "writes_ok env \<Longrightarrow> returns (register_session_linked_job env sid ref)"
  "writes_ok env \<Longrightarrow> returns (update_session_context env sid us)"
  "writes_ok env \<Longrightarrow> returns (write_session_preview env sid v)"
proof -
  assume ok: "writes_ok env"
  note rules = returns_intro field_returns [OF ok]
  show "returns (write_session_handoff_state env sid a q st j e)"
    unfolding write_session_handoff_state_def by (intro rules)
  show "returns (register_session_linked_job env sid ref)"
    unfolding register_session_linked_job_def Let_def write_linked_job_registry_def by (intro rules)
  show "returns (update_session_context env sid us)"
    unfolding update_session_context_def write_session_context_def by (intro rules)
  show "returns (write_session_preview env sid v)"
    unfolding write_session_preview_def by (intro rules)
qed

lemma preview_after:
  "writes_ok env \<Longrightarrow> sid \<noteq> [] \<Longrightarrow> read_session_preview (snd (write_session_preview env sid v s)) sid = v"
  by (simp add: read_session_preview_def write_session_preview_def field_reads keys)

text \<open>A turn keeps every field that is an object, but for the two it writes.\<close>

lemma kept_fold:
  "distinct ks \<Longrightarrow> get (fold (\<lambda>k d. if P k then dput d k (v k) else d) ks base) k
     = (if k \<in> set ks \<and> P k then v k else get base k)"
  by (induction ks arbitrary: base) auto

lemma preserved_dict:
  assumes "k \<in> set preserved_keys" and "get base k = PNone"
  shows "get (preserved previous base) k = PDict d \<longleftrightarrow> get previous k = PDict d"
proof -
  have "distinct preserved_keys" by (simp add: preserved_keys_def)
  with assms show ?thesis
    by (auto simp: preserved_def Let_def kept_fold)
qed

lemma preserved_other: "k \<notin> set preserved_keys \<Longrightarrow> get (preserved previous base) k = get base k"
proof -
  have "distinct preserved_keys" by (simp add: preserved_keys_def)
  then show "k \<notin> set preserved_keys \<Longrightarrow> ?thesis" by (simp add: preserved_def Let_def kept_fold)
qed

lemma same_object:
  "(\<And>d. v = PDict d \<longleftrightarrow> w = PDict d) \<Longrightarrow> (case v of PDict d \<Rightarrow> Some d | _ \<Rightarrow> None) = (case w of PDict d \<Rightarrow> Some d | _ \<Rightarrow> None)"
  by (cases v; cases w) (simp_all, blast+)

lemma turn_run:
  assumes "writes_ok env" and "sid \<noteq> []"
  obtains s' where "append_session_turn env sid role body origin s = (Inr (read_session_turns s sid @ [turn_payload role body origin]), s')"
    "touches sid [''recent_saveable_assistant_artifacts'', ''last_user_input_origin''] s s'"
    "get (read_session_payload s' sid) ''turns'' = PList (map PDict (read_session_turns s sid @ [turn_payload role body origin]))"
proof -
  define ts where "ts = read_session_turns s sid @ [turn_payload role body origin]"
  let ?base = "[(''session_id'', PStr sid), (''updated_at_ms'', PInt (vn_now env s)), (''turns'', PList (map PDict ts))]"
  define d where "d = preserved (read_session_payload s sid) ?base"
  define e where "e = (case (if lower (strip role) = ''assistant'' then vn_artifact env body else None) of None \<Rightarrow> d
    | Some a \<Rightarrow> dput d ''recent_saveable_assistant_artifacts'' (PList (map PDict (with_artifact (read_saveable_artifacts s sid) a))))"
  define f where "f = (case spoken_origin role origin of None \<Rightarrow> e | Some t \<Rightarrow> dput e ''last_user_input_origin'' (PDict [(''value'', PStr t)]))"
  let ?s = "put_session sid (Some (PDict f)) s"
  have run: "append_session_turn env sid role body origin s = (Inr ts, ?s)"
    unfolding append_session_turn_def Let_def bindM_state ts_def [symmetric] d_def [symmetric] e_def [symmetric] f_def [symmetric]
    by (simp add: thenM_def bindM_def payload_run [OF assms(1)])
  have e: "e = d \<or> (\<exists>v. e = dput d ''recent_saveable_assistant_artifacts'' v)" and f: "f = e \<or> (\<exists>v. f = dput e ''last_user_input_origin'' v)"
    by (auto simp: e_def f_def split: option.split)
  have base: "k \<in> set preserved_keys \<Longrightarrow> get ?base k = PNone" for k using own_fields_preserved by auto
  have fields: "get f k = PDict d \<longleftrightarrow> get (read_session_payload s sid) k = PDict d"
    if "k \<in> set preserved_keys" "k \<notin> {''recent_saveable_assistant_artifacts'', ''last_user_input_origin''}" for k d
    using that e f preserved_dict [OF that(1) base [OF that(1)]] by (auto simp: d_def)
  have "read_dict_field ?s sid k = read_dict_field s sid k"
    if "k \<in> set preserved_keys" "k \<notin> {''recent_saveable_assistant_artifacts'', ''last_user_input_origin''}" for k
    unfolding read_dict_field_def read_written [OF assms(2)] by (intro same_object fields that)
  then have touched: "touches sid [''recent_saveable_assistant_artifacts'', ''last_user_input_origin''] s ?s" by (simp add: touches_def)
  have "get d ''turns'' = PList (map PDict ts)"
    using own_fields_preserved(3) by (simp add: d_def preserved_other)
  then have "get f ''turns'' = PList (map PDict ts)" using e f by auto
  then show thesis using that [OF run [unfolded ts_def] touched] by (simp add: read_written [OF assms(2)] ts_def)
qed

lemma turn_touches:
  assumes "writes_ok env" and "sid \<noteq> []"
  shows "effect (touches sid [''recent_saveable_assistant_artifacts'', ''last_user_input_origin'']) (append_session_turn env sid role body origin)"
proof (rule effectI)
  fix s
  show "touches sid [''recent_saveable_assistant_artifacts'', ''last_user_input_origin''] s (snd (append_session_turn env sid role body origin s))"
    by (rule turn_run [OF assms, of role body origin s]) simp
qed

end
