(* ===== verification/Vera_Handoff.thy ===== *)
theory Vera_Handoff
  imports Vera_Laws
begin

text \<open>
  The handoff of a preview while the sessions can be written: it is refused without a trace in the queue, or
  it puts one new job into the inbox and empties the preview.
\<close>

section \<open>The inbox\<close>

lemma name_stem_json: "x \<noteq> [] \<Longrightarrow> name_stem (x @ ''.json'') = x"
  by (simp add: name_stem_def name_suffix_def after_last_dot_def)

lemma add_inbox_run:
  assumes "add_inbox_payload env payload None lane fs = (r, fs')"
  shows "case r of Inl e \<Rightarrow> fs' = fs
    | Inr q \<Rightarrow> \<exists>rid f. q = inbox_path rid \<and> rid \<noteq> [] \<and> strip rid = rid \<and> \<not> exists_file fs q \<and> fs' = put_file q f fs"
proof (cases "canonical_request_anchor_text payload")
  case None
  then show ?thesis using assms by (auto simp: add_inbox_payload_def)
next
  case (Some anchor)
  define rid where "rid = strip (generate_inbox_id env anchor (ae_now env fs))"
  define d where "d = PDict (enrich_queue_job_payload (dmerge [(''id'', PStr rid)] payload) lane)"
  have run: "add_inbox_payload env payload None lane fs =
     (if rid = [] then (Inl (Exc ValueError ''job id cannot be empty''), fs)
      else if exists_file fs (inbox_path rid) then (Inl (Exc (OtherError ''FileExistsError'') (''inbox job already exists: '' @ full_path env (inbox_path rid))), fs)
      else thenM (auto_write env (inbox_path rid) (Json d)) (retM (inbox_path rid)) fs)"
    by (simp add: add_inbox_payload_def Some rid_def d_def Let_def)
  have strip: "strip rid = rid" by (simp add: rid_def)
  have "case r of Inl e \<Rightarrow> fs' = fs
    | Inr q \<Rightarrow> q = inbox_path rid \<and> rid \<noteq> [] \<and> \<not> exists_file fs q \<and> (\<exists>f. fs' = put_file q f fs)"
    using assms unfolding run by (auto simp: thenM_def bindM_def auto_write_def split: if_splits option.splits)
  with strip show ?thesis by (cases r) auto
qed

definition inbox_target :: "vera_env \<Rightarrow> dict \<Rightarrow> vera \<Rightarrow> qpath result \<times> files" where
  "inbox_target env payload s = add_inbox_payload (vn_auto env) payload None ''vera_handoff'' (ve_files s)"

lemma submit_preview_run:
  assumes "inbox_target env payload s = (r, fs')"
  shows "case r of Inl e \<Rightarrow> submit_preview env payload s = (Inl e, s) \<and> fs' = ve_files s
    | Inr q \<Rightarrow> \<exists>rid ack. q = inbox_path rid \<and> \<not> exists_file (ve_files s) q \<and> exists_file fs' q \<and> clean_str (get ack ''job_id'') = rid \<and> rid \<noteq> []
        \<and> has_key ack ''ack'' \<and> submit_preview env payload s = (Inr ack, s\<lparr>ve_files := fs'\<rparr>)"
proof (cases r)
  case (Inl e)
  then have "fs' = ve_files s" using add_inbox_run assms by (fastforce simp: inbox_target_def)
  then show ?thesis using assms Inl by (simp add: submit_preview_def bindM_def on_queue_def inbox_target_def)
next
  case (Inr q)
  then obtain rid f where q: "q = inbox_path rid" "rid \<noteq> []" "strip rid = rid" "\<not> exists_file (ve_files s) q" "fs' = put_file q f (ve_files s)"
    using add_inbox_run [of "vn_auto env" payload "''vera_handoff''" "ve_files s" r fs'] assms by (auto simp: inbox_target_def)
  have there: "exists_file fs' q" by (simp add: q(5) exists_file_def)
  have name: "snd q = (''inbox-'' @ rid) @ ''.json''" by (simp add: q(1) inbox_path_def)
  have stem: "removeprefix (name_stem (snd q)) ''inbox-'' = rid"
  proof -
    have "''inbox-'' @ rid \<noteq> []" by simp
    from name_stem_json [OF this] show ?thesis unfolding name by (simp only: removeprefix_append)
  qed
  let ?ack = "[(''job_id'', PStr rid), (''job_path'', PStr (full_path (vn_auto env) q)),
    (''queue_path'', PStr (ae_root (vn_auto env))), (''ack'', PStr (submit_ack rid))]"
  have "submit_preview env payload s = (Inr ?ack, s\<lparr>ve_files := fs'\<rparr>)"
    using assms Inr there by (simp add: submit_preview_def bindM_def on_queue_def inbox_target_def Let_def stem)
  moreover have "clean_str (get ?ack ''job_id'') = rid" using q(2,3) by (simp add: clean_str_def str_or_empty_def por_def)
  moreover have "has_key ?ack ''ack''" by simp
  ultimately show ?thesis using q(1,2,4) there Inr by auto
qed

section \<open>The handoff\<close>

text \<open>The preview that is offered to the queue: none when it is missing or ambiguous\<close>

definition offered :: "dict option \<Rightarrow> dict option \<Rightarrow> dict option" where
  "offered canonical preview = (case canonical of
     None \<Rightarrow> preview
   | Some c \<Rightarrow> (case preview of None \<Rightarrow> Some c | Some p \<Rightarrow> if py_eq (PDict p) (PDict c) then Some c else None))"

definition handoff_shows :: "dict option \<Rightarrow> string \<Rightarrow> string option \<Rightarrow> bool" where
  "handoff_shows h status job \<longleftrightarrow> (\<exists>d. h = Some d \<and> get d ''status'' = PStr status \<and> get d ''job_id'' = popt job)"

lemma handoff_run:
  assumes "writes_ok env" and "sid \<noteq> []"
  obtains s' where "write_session_handoff_state env sid a q st j e s = (Inr (), s')" "touches sid [''handoff''] s s'"
    "handoff_shows (read_session_handoff_state s' sid) st j"
proof -
  let ?v = "handoff_state env s a q st j e"
  obtain s' where "write_session_field env sid ''handoff'' (Some ?v) s = (Inr (), s')" "read_dict_field s' sid ''handoff'' = Some ?v"
    "touches sid [''handoff''] s s'" by (rule field_run [OF assms keys(2)])
  with that show thesis
    by (simp add: write_session_handoff_state_def handoff_shows_def read_session_handoff_state_def handoff_state_def)
qed

text \<open>What a submission leaves: the queue, the preview and the recorded state of the handoff\<close>

definition left :: "string \<Rightarrow> files \<Rightarrow> dict option \<Rightarrow> string \<Rightarrow> string option \<Rightarrow> vera \<Rightarrow> bool" where
  "left sid fs preview status job s' \<longleftrightarrow> ve_files s' = fs \<and> read_session_preview s' sid = preview
     \<and> handoff_shows (read_session_handoff_state s' sid) status job"

lemma touches_handoff_left:
  "touches sid [''handoff''] s s' \<Longrightarrow> handoff_shows (read_session_handoff_state s' sid) st j \<Longrightarrow>
   left sid (ve_files s) (read_session_preview s sid) st j s'"
  by (simp add: left_def touches_def read_session_preview_def keys)

lemma refuse_run:
  assumes "writes_ok env" and "sid \<noteq> []"
  obtains s' where "refuse_handoff env sid st e reply out s = (Inr (reply, out), s')"
    "left sid (ve_files s) (read_session_preview s sid) st None s'"
proof -
  obtain s' where s': "write_session_handoff_state env sid False (ae_root (vn_auto env)) st None (Some e) s = (Inr (), s')"
    "touches sid [''handoff''] s s'" "handoff_shows (read_session_handoff_state s' sid) st None" by (rule handoff_run [OF assms])
  have "refuse_handoff env sid st e reply out s = (Inr (reply, out), s')"
    by (simp add: refuse_handoff_def thenM_def bindM_def s'(1))
  with that touches_handoff_left [OF s'(2,3)] show thesis by blast
qed

lemma accept_run:
  assumes "writes_ok env" and "sid \<noteq> []" and ack: "clean_str (get ack ''job_id'') = rid" "rid \<noteq> []" "has_key ack ''ack''"
  obtains s' where "accept_handoff env sid (Some (register_session_linked_job env sid)) ack s = (Inr (py_str (get ack ''ack''), ''handoff_submitted''), s')"
    "left sid (ve_files s) None ''submitted'' (Some rid) s'"
proof -
  obtain s1 where s1: "write_session_handoff_state env sid True (py_str (por (get ack ''queue_path'') (PStr (ae_root (vn_auto env)))))
      ''submitted'' (Some rid) None s = (Inr (), s1)" "touches sid [''handoff''] s s1"
    "handoff_shows (read_session_handoff_state s1 sid) ''submitted'' (Some rid)" by (rule handoff_run [OF assms(1,2)])
  define ref where "ref = ''inbox-'' @ rid @ ''.json''"
  obtain s2 where s2: "register_session_linked_job env sid ref s1 = (Inr (), s2)"
    using returnsD [OF session_returns(2) [OF assms(1)], of sid ref s1] by auto
  have t2: "touches sid [''linked_queue_jobs''] s1 s2"
    using effectD [OF link_touches [OF assms(1,2), of ref], of s1] s2 by simp
  obtain s3 where s3: "write_session_preview env sid None s2 = (Inr (), s3)" "touches sid [''pending_job_preview''] s2 s3"
    "read_session_preview s3 sid = None"
    by (rule field_run [OF assms(1,2) keys(1), of None s2]) (simp add: write_session_preview_def read_session_preview_def)
  have "accept_handoff env sid (Some (register_session_linked_job env sid)) ack s = (Inr (py_str (get ack ''ack''), ''handoff_submitted''), s3)"
    unfolding accept_handoff_def ack(1) Let_def ref_def [symmetric] if_not_P [OF ack(2)] option.case
    by (simp add: thenM_def bindM_def s1(1) s2 s3(1) ack(3))
  moreover have "left sid (ve_files s) None ''submitted'' (Some rid) s3"
    using s1(2,3) t2 s3(2,3) by (simp add: left_def touches_def read_session_handoff_state_def keys)
  ultimately show thesis using that by blast
qed

lemma submit_run:
  assumes ok: "writes_ok env" "sid \<noteq> []"
  obtains reply status s' where
    "submit_active_preview env sid preview (Some (register_session_linked_job env sid)) (submit_preview env) s = (Inr (reply, status), s')"
    "case offered (read_session_preview s sid) preview of
       None \<Rightarrow> status \<noteq> ''handoff_submitted'' \<and> (\<exists>st. left sid (ve_files s) (read_session_preview s sid) st None s')
     | Some payload \<Rightarrow> (case inbox_target env payload s of
         (Inl e, fs') \<Rightarrow> status = ''handoff_submit_failed'' \<and> left sid (ve_files s) (read_session_preview s sid) ''submit_failed'' None s'
       | (Inr q, fs') \<Rightarrow> status = ''handoff_submitted'' \<and> \<not> exists_file (ve_files s) q \<and> exists_file fs' q
           \<and> (\<exists>rid. q = inbox_path rid \<and> left sid fs' None ''submitted'' (Some rid) s'))"
proof -
  let ?canonical = "read_session_preview s sid"
  let ?run = "submit_active_preview env sid preview (Some (register_session_linked_job env sid)) (submit_preview env) s"
  show thesis
  proof (cases "offered ?canonical preview")
    case None
    then have "\<exists>st e reply out. ?run = refuse_handoff env sid st e reply out s \<and> out \<noteq> ''handoff_submitted''"
      by (auto simp: submit_active_preview_def offered_def split: option.splits if_splits)
    then obtain st e reply out where r: "?run = refuse_handoff env sid st e reply out s" "out \<noteq> ''handoff_submitted''" by blast
    obtain s' where "refuse_handoff env sid st e reply out s = (Inr (reply, out), s')" "left sid (ve_files s) ?canonical st None s'"
      by (rule refuse_run [OF ok])
    with r None show thesis by (intro that [of reply out s']) auto
  next
    case (Some payload)
    then have r: "?run = tryM (bindM (submit_preview env payload) (accept_handoff env sid (Some (register_session_linked_job env sid))))
         (\<lambda>e. thenM (write_session_handoff_state env sid True (ae_root (vn_auto env)) ''submit_failed'' None (Some (str_exc e)))
           (retM (''I could not submit that job to VoxeraOS, so nothing was queued. Submission failed with: '' @ str_exc e,
             ''handoff_submit_failed''))) s"
      by (auto simp: submit_active_preview_def offered_def split: option.splits if_splits)
    obtain res fs' where t: "inbox_target env payload s = (res, fs')" by fastforce
    show thesis
    proof (cases res)
      case (Inl e)
      then have f: "submit_preview env payload s = (Inl e, s)" using submit_preview_run [OF t] by simp
      obtain s' where s': "write_session_handoff_state env sid True (ae_root (vn_auto env)) ''submit_failed'' None (Some (str_exc e)) s = (Inr (), s')"
        "touches sid [''handoff''] s s'" "handoff_shows (read_session_handoff_state s' sid) ''submit_failed'' None" by (rule handoff_run [OF ok])
      have "?run = (Inr (''I could not submit that job to VoxeraOS, so nothing was queued. Submission failed with: '' @ str_exc e,
             ''handoff_submit_failed''), s')"
        unfolding r by (simp add: tryM_def bindM_def thenM_def f s'(1))
      then show thesis using that Some t Inl touches_handoff_left [OF s'(2,3)] by simp
    next
      case (Inr q)
      then obtain rid ack where a: "q = inbox_path rid" "\<not> exists_file (ve_files s) q" "exists_file fs' q"
        "clean_str (get ack ''job_id'') = rid" "rid \<noteq> []" "has_key ack ''ack''" "submit_preview env payload s = (Inr ack, s\<lparr>ve_files := fs'\<rparr>)"
        using submit_preview_run [OF t] by auto
      obtain s' where s': "accept_handoff env sid (Some (register_session_linked_job env sid)) ack (s\<lparr>ve_files := fs'\<rparr>)
          = (Inr (py_str (get ack ''ack''), ''handoff_submitted''), s')" "left sid (ve_files (s\<lparr>ve_files := fs'\<rparr>)) None ''submitted'' (Some rid) s'"
        by (rule accept_run [OF ok a(4,5,6)])
      have "?run = (Inr (py_str (get ack ''ack''), ''handoff_submitted''), s')"
        unfolding r by (simp add: tryM_def bindM_def a(7) s'(1))
      then show thesis using that Some t Inr a(1,2,3) s'(2) by auto
    qed
  qed
qed

text \<open>The web application then only ends a walkthrough and updates the shared context.\<close>

lemma left_touches:
  "left sid fs p st j s \<Longrightarrow> touches sid ks s s' \<Longrightarrow> ''handoff'' \<notin> set ks \<Longrightarrow> ''pending_job_preview'' \<notin> set ks \<Longrightarrow> left sid fs p st j s'"
  by (simp add: left_def touches_def read_session_preview_def read_session_handoff_state_def keys)

lemma then_return:
  "returns w \<Longrightarrow> effect T w \<Longrightarrow> \<exists>s'. thenM w (retM x) s = (Inr x, s') \<and> T s s'"
proof -
  assume w: "returns w" "effect T w"
  obtain y where "w s = (Inr y, snd (w s))" using returnsD [OF w(1)] by blast
  from thenM_run(1) [where m = w and s = s, OF this, of "retM x"] effectD [OF w(2), of s] show ?thesis by simp
qed

lemma finish_submission_run:
  assumes ok: "writes_ok env" "sid \<noteq> []"
  shows "returns (finish_submission env sid preview)"
    "effect (touches sid [''walkthrough_state'', ''shared_context'']) (finish_submission env sid preview)"
proof -
  note defs = finish_submission_def write_session_walkthrough_def context_on_handoff_submitted_def context_on_preview_cleared_def
  show "returns (finish_submission env sid preview)"
    unfolding defs by (intro returns_intro field_returns [OF ok(1)] session_returns(3) [OF ok(1)])
  let ?T = "touches sid [''walkthrough_state'', ''shared_context'']"
  have "effect ?T (write_session_field env sid ''walkthrough_state'' None)"
    by (rule touches_mono [OF field_touches [OF ok keys(5)]]) simp
  moreover have "effect ?T (update_session_context env sid us)" for us
    by (rule touches_mono [OF context_touches [OF ok]]) simp
  ultimately show "effect ?T (finish_submission env sid preview)"
    unfolding defs by (intro session.effect_intro)
qed

lemma web_submit_run:
  assumes ok: "writes_ok env" "sid \<noteq> []"
  obtains reply status s' where "submit_handoff env sid preview s = (Inr (reply, status), s')"
    "case offered (read_session_preview s sid) preview of
       None \<Rightarrow> status \<noteq> ''handoff_submitted'' \<and> (\<exists>st. left sid (ve_files s) (read_session_preview s sid) st None s')
     | Some payload \<Rightarrow> (case inbox_target env payload s of
         (Inl e, fs') \<Rightarrow> status = ''handoff_submit_failed'' \<and> left sid (ve_files s) (read_session_preview s sid) ''submit_failed'' None s'
       | (Inr q, fs') \<Rightarrow> status = ''handoff_submitted'' \<and> \<not> exists_file (ve_files s) q \<and> exists_file fs' q
           \<and> (\<exists>rid. q = inbox_path rid \<and> left sid fs' None ''submitted'' (Some rid) s'))"
proof -
  obtain reply status s1 where r:
    "submit_active_preview env sid preview (Some (register_session_linked_job env sid)) (submit_preview env) s = (Inr (reply, status), s1)"
    and c: "case offered (read_session_preview s sid) preview of
       None \<Rightarrow> status \<noteq> ''handoff_submitted'' \<and> (\<exists>st. left sid (ve_files s) (read_session_preview s sid) st None s1)
     | Some payload \<Rightarrow> (case inbox_target env payload s of
         (Inl e, fs') \<Rightarrow> status = ''handoff_submit_failed'' \<and> left sid (ve_files s) (read_session_preview s sid) ''submit_failed'' None s1
       | (Inr q, fs') \<Rightarrow> status = ''handoff_submitted'' \<and> \<not> exists_file (ve_files s) q \<and> exists_file fs' q
           \<and> (\<exists>rid. q = inbox_path rid \<and> left sid fs' None ''submitted'' (Some rid) s1))"
    by (rule submit_run [OF ok])
  show thesis
  proof (cases "status = ''handoff_submitted''")
    case False
    with r have "submit_handoff env sid preview s = (Inr (reply, status), s1)"
      by (simp add: submit_handoff_def bindM_def thenM_def whenM_def)
    with that c show thesis by blast
  next
    case True
    obtain s2 where s2: "thenM (finish_submission env sid preview) (retM (reply, status)) s1 = (Inr (reply, status), s2)"
      "touches sid [''walkthrough_state'', ''shared_context''] s1 s2"
      using then_return [where x = "(reply, status)" and s = s1, OF finish_submission_run [OF ok, of preview]] by (elim exE conjE)
    have run: "submit_handoff env sid preview s = (Inr (reply, status), s2)"
      using s2(1) True by (simp add: submit_handoff_def whenM_def bindM_run(2) [where m = "submit_active_preview env sid preview (Some (register_session_linked_job env sid)) (submit_preview env)"
        and s = s and s' = s1, OF r])
    have keep: "left sid fs p st j s1 \<Longrightarrow> left sid fs p st j s2" for fs p st j
      by (rule left_touches [OF _ s2(2)]) simp_all
    show thesis
      by (rule that [OF run]) (use c in \<open>auto intro: keep split: option.splits prod.splits sum.splits\<close>)
  qed
qed

end
