(* ===== verification/Vera_Runs.thy ===== *)
theory Vera_Runs
  imports Vera_Handoff
begin

text \<open>
  Sequences of operations on one session: previews are installed, revised, discarded and handed over, turns
  are added. Each handed-over preview was installed before and is handed over once.
\<close>

section \<open>Events\<close>

datatype session_event = Install dict "string option" | Followup dict "string option" "string option" | Discard
  | Say string string "string option" | Route string string | HandOver

fun session_op :: "vera_env \<Rightarrow> string \<Rightarrow> session_event \<Rightarrow> (bool, vera) prog" where
  "session_op env sid (Install p ref) = thenM (reset_active_preview env sid p ref True) (retM False)"
| "session_op env sid (Followup p src ref) = thenM (record_followup_preview env sid p src ref) (retM False)"
| "session_op env sid Discard = thenM (clear_active_preview env sid) (retM False)"
| "session_op env sid (Say role body origin) = thenM (append_session_turn env sid role body origin) (retM False)"
| "session_op env sid (Route st src) = thenM (append_routing_debug_entry env sid st src False PNone) (retM False)"
| "session_op env sid HandOver = bindM (getM (\<lambda>s. read_session_preview s sid)) (\<lambda>p.
     bindM (submit_handoff env sid p) (\<lambda>(reply, status). retM (status = ''handoff_submitted'')))"

fun installs :: "session_event \<Rightarrow> bool" where
  "installs (Install _ _) = True" | "installs (Followup _ _ _) = True" | "installs _ = False"

text \<open>The handoffs that were reported as submitted\<close>

fun session_run :: "vera_env \<Rightarrow> string \<Rightarrow> session_event list \<Rightarrow> vera \<Rightarrow> nat \<times> vera" where
  "session_run env sid [] s = (0, s)"
| "session_run env sid (e # es) s = (case session_op env sid e s of (r, s1) \<Rightarrow>
     (case session_run env sid es s1 of (n, s2) \<Rightarrow> ((if r = Inr True then n + 1 else n), s2)))"

section \<open>One event\<close>

definition inbox_jobs :: "vera \<Rightarrow> nat" where
  "inbox_jobs s = card {n. exists_file (ve_files s) (InBucket Inbox, n)}"

definition slot :: "string \<Rightarrow> vera \<Rightarrow> nat" where
  "slot sid s = (if read_session_preview s sid = None then 0 else 1)"

lemma inbox_finite: "finite {n. exists_file fs (d, n)}"
proof -
  have "{n. exists_file fs (d, n)} \<subseteq> snd ` fst ` set fs"
    by (auto simp: exists_file_def file_at_def image_iff dest!: map_of_SomeD) force
  then show ?thesis by (rule finite_subset) simp
qed

lemma inbox_put:
  assumes "\<not> exists_file fs (d, m)"
  shows "card {n. exists_file (put_file (d, m) f fs) (d, n)} = Suc (card {n. exists_file fs (d, n)})"
proof -
  have "{n. exists_file (put_file (d, m) f fs) (d, n)} = insert m {n. exists_file fs (d, n)}"
    by (auto simp: exists_file_def)
  then show ?thesis using assms inbox_finite by simp
qed

text \<open>An event that does not hand over leaves the queue, and fills the slot only when it installs.\<close>

lemma quiet_step:
  assumes op: "session_op env sid e = thenM m (retM False)" and run: "session_op env sid e s = (r, s')"
    and m: "effect (touches sid ks) m" "returns m" and slot: "''pending_job_preview'' \<notin> set ks \<or> installs e \<or> slot sid s' = 0"
  shows "inbox_jobs s' = inbox_jobs s + (if r = Inr True then 1 else 0)
    \<and> slot sid s' + (if r = Inr True then 1 else 0) \<le> slot sid s + (if installs e then 1 else 0)"
proof -
  obtain x where x: "m s = (Inr x, snd (m s))" using returnsD [OF m(2)] by blast
  have "thenM m (retM False) s = (Inr False, snd (m s))"
    using thenM_run(1) [where m = m and s = s, OF x, of "retM False"] by simp
  then have r: "r = Inr False" "s' = snd (m s)" using run op by simp_all
  have t: "touches sid ks s s'" unfolding r(2) by (rule effectD [OF m(1)])
  then have "inbox_jobs s' = inbox_jobs s" by (simp add: inbox_jobs_def touches_def)
  moreover have "''pending_job_preview'' \<notin> set ks \<Longrightarrow> slot sid s' = slot sid s"
    using t by (simp add: slot_def touches_def read_session_preview_def keys)
  moreover have "slot sid s' \<le> 1" by (simp add: slot_def)
  ultimately show ?thesis using r(1) slot by auto
qed

lemma turn_returns: "writes_ok env \<Longrightarrow> returns (append_session_turn env sid role body origin)"
  unfolding append_session_turn_def Let_def
  by (intro returns_intro) (simp add: returns_def payload_run)

lemma routing_returns: "writes_ok env \<Longrightarrow> returns (append_routing_debug_entry env sid st src m t)"
  unfolding append_routing_debug_entry_def Let_def by (intro returns_intro field_returns)

lemma preview_programs:
  assumes "writes_ok env" and "sid \<noteq> []"
  shows "returns (reset_active_preview env sid p ref b)" "returns (record_followup_preview env sid p src ref)"
    "returns (clear_active_preview env sid)"
    "effect (touches sid [''pending_job_preview'', ''handoff'', ''shared_context'']) (reset_active_preview env sid p ref b)"
    "effect (touches sid [''pending_job_preview'', ''handoff'', ''shared_context'']) (record_followup_preview env sid p src ref)"
    "effect (touches sid [''pending_job_preview'', ''shared_context'']) (clear_active_preview env sid)"
proof -
  note defs = mark_preview_ready_def context_on_preview_created_def context_on_preview_cleared_def context_on_followup_preview_prepared_def
  note rules = returns_intro session_returns [OF assms(1)]
  show "returns (reset_active_preview env sid p ref b)" "returns (record_followup_preview env sid p src ref)"
    "returns (clear_active_preview env sid)"
    unfolding reset_active_preview_def record_followup_preview_def clear_active_preview_def defs by (intro rules)+
  let ?K = "[''pending_job_preview'', ''handoff'', ''shared_context'']"
  have t: "effect (touches sid ?K) (write_session_preview env sid v)" "effect (touches sid ?K) (write_session_handoff_state env sid a q st j e)"
    "effect (touches sid ?K) (update_session_context env sid us)" for v a q st j e us
    by (rule touches_mono [OF preview_touches [OF assms]] touches_mono [OF handoff_touches [OF assms]]
        touches_mono [OF context_touches [OF assms]]; simp)+
  show "effect (touches sid ?K) (reset_active_preview env sid p ref b)" "effect (touches sid ?K) (record_followup_preview env sid p src ref)"
    unfolding reset_active_preview_def record_followup_preview_def defs by (intro session.effect_intro t)+
  let ?L = "[''pending_job_preview'', ''shared_context'']"
  have u: "effect (touches sid ?L) (write_session_preview env sid v)" "effect (touches sid ?L) (update_session_context env sid us)" for v us
    by (rule touches_mono [OF preview_touches [OF assms]] touches_mono [OF context_touches [OF assms]]; simp)+
  show "effect (touches sid ?L) (clear_active_preview env sid)"
    unfolding clear_active_preview_def defs by (intro session.effect_intro u)
qed

lemma clear_empties:
  assumes "writes_ok env" and "sid \<noteq> []"
  shows "read_session_preview (snd (clear_active_preview env sid s)) sid = None"
proof -
  obtain u where u: "write_session_preview env sid None s = (Inr (), u)" "read_session_preview u sid = None"
    by (rule field_run [OF assms keys(1), of None s]) (simp add: write_session_preview_def read_session_preview_def)
  have e: "effect (touches sid [''shared_context'']) (thenM (context_on_preview_cleared env sid) (retM ()))"
    by (intro session.effect_intro context_events assms)
  have "clear_active_preview env sid s = thenM (context_on_preview_cleared env sid) (retM ()) u"
    unfolding clear_active_preview_def by (rule thenM_run(1) [where m = "write_session_preview env sid None" and s = s, OF u(1)])
  then show ?thesis using touchesD [OF e keys(1), of u] u(2) by (simp add: read_session_preview_def)
qed

lemma session_step:
  assumes ok: "writes_ok env" "sid \<noteq> []" and run: "session_op env sid e s = (r, s')"
  shows "inbox_jobs s' = inbox_jobs s + (if r = Inr True then 1 else 0)
    \<and> slot sid s' + (if r = Inr True then 1 else 0) \<le> slot sid s + (if installs e then 1 else 0)"
proof -
  show ?thesis
  proof (cases e)
    case (Install p ref)
    show ?thesis by (rule quiet_step [OF _ run preview_programs(4) [OF ok] preview_programs(1) [OF ok]]) (simp_all add: Install)
  next
    case (Followup p src ref)
    show ?thesis by (rule quiet_step [OF _ run preview_programs(5) [OF ok] preview_programs(2) [OF ok]]) (simp_all add: Followup)
  next
    case Discard
    have "s' = snd (clear_active_preview env sid s)"
      using run returnsD [OF preview_programs(3) [OF ok], of s]
      by (auto simp: Discard thenM_def bindM_def split: prod.splits sum.splits)
    then have "slot sid s' = 0" using clear_empties [OF ok] by (simp add: slot_def)
    then show ?thesis by (intro quiet_step [OF _ run preview_programs(6) [OF ok] preview_programs(3) [OF ok]]) (simp_all add: Discard)
  next
    case (Say role body origin)
    show ?thesis by (rule quiet_step [OF _ run turn_touches [OF ok] turn_returns [OF ok(1)]]) (simp_all add: Say)
  next
    case (Route st src)
    show ?thesis by (rule quiet_step [OF _ run routing_touches [OF ok] routing_returns [OF ok(1)]]) (simp_all add: Route)
  next
    case HandOver
    let ?p = "read_session_preview s sid"
    obtain reply status t where h: "submit_handoff env sid ?p s = (Inr (reply, status), t)"
      "case offered ?p ?p of
         None \<Rightarrow> status \<noteq> ''handoff_submitted'' \<and> (\<exists>st. left sid (ve_files s) ?p st None t)
       | Some payload \<Rightarrow> (case inbox_target env payload s of
           (Inl e, fs') \<Rightarrow> status = ''handoff_submit_failed'' \<and> left sid (ve_files s) ?p ''submit_failed'' None t
         | (Inr q, fs') \<Rightarrow> status = ''handoff_submitted'' \<and> \<not> exists_file (ve_files s) q \<and> exists_file fs' q
             \<and> (\<exists>rid. q = inbox_path rid \<and> left sid fs' None ''submitted'' (Some rid) t))"
      by (rule web_submit_run [OF ok])
    have r: "r = Inr (status = ''handoff_submitted'')" "s' = t"
      using run h(1) by (simp_all add: HandOver bindM_def)
    show ?thesis
    proof (cases "status = ''handoff_submitted''")
      case False
      then have "ve_files t = ve_files s \<and> read_session_preview t sid = ?p"
        using h(2) by (auto simp: left_def split: option.splits prod.splits sum.splits)
      with False r show ?thesis by (simp add: inbox_jobs_def slot_def)
    next
      case True
      then obtain payload q fs' where a: "?p = Some payload \<or> ?p \<noteq> None" "inbox_target env payload s = (Inr q, fs')"
        "\<not> exists_file (ve_files s) q" "ve_files t = fs'" "read_session_preview t sid = None"
        using h(2) by (auto simp: left_def offered_def split: option.splits prod.splits sum.splits if_splits)
      obtain rid f where q: "q = inbox_path rid" "fs' = put_file q f (ve_files s)"
        using add_inbox_run [OF a(2) [unfolded inbox_target_def]] by auto
      have "inbox_jobs t = inbox_jobs s + 1"
        using inbox_put a(3,4) q by (simp add: inbox_jobs_def inbox_path_def)
      moreover have "slot sid s = 1" "slot sid t = 0" using a(1,5) by (auto simp: slot_def)
      ultimately show ?thesis using r True by simp
    qed
  qed
qed

section \<open>Runs\<close>

lemma session_run_counts:
  assumes ok: "writes_ok env" "sid \<noteq> []"
  shows "session_run env sid es s = (n, s') \<Longrightarrow>
    inbox_jobs s' = inbox_jobs s + n \<and> n + slot sid s' \<le> length (filter installs es) + slot sid s"
proof (induction es arbitrary: s n)
  case (Cons e es)
  obtain r s1 where e: "session_op env sid e s = (r, s1)" by fastforce
  obtain k t where k: "session_run env sid es s1 = (k, t)" by fastforce
  have n: "n = (if r = Inr True then k + 1 else k)" "s' = t" using Cons.prems e k by simp_all
  from Cons.IH [of s1 k] k n(2) session_step [OF ok e] show ?case
    by (auto simp: n(1) split: if_splits)
qed simp

end
