(* ===== verification/Vera_Contract.thy ===== *)
theory Vera_Contract
  imports Vera_Handoff
begin

text \<open>
  A preview in normal form meets the contracts of the queue: the extractors of \<open>Queue_Contracts\<close> take its
  requests as they are. With it, the normal form of the shared context and the registry of linked jobs.
\<close>

section \<open>Previews and requests\<close>

lemma on_object_run:
  assumes "on_object k f d = Inr d'"
  shows "(\<forall>k'. k' \<noteq> k \<longrightarrow> get d' k' = get d k') \<and> (\<forall>k'. has_key d' k' = has_key d k')
    \<and> (\<forall>x. get d' k = PDict x \<longrightarrow> (\<exists>r. f r = Inr x))"
proof -
  have key: "get d k \<noteq> PNone \<Longrightarrow> has_key d k" using get_no_key by blast
  show ?thesis
  proof (cases "get d k")
    case (PDict r)
    then obtain x where "f r = Inr x" "d' = dput d k (PDict x)" using assms by (auto simp: on_object_def result_iff)
    then show ?thesis using key PDict by auto
  qed (use assms in \<open>simp_all add: on_object_def\<close>)
qed

lemma steps_run:
  assumes "preview_steps d = Inr d'"
  shows "(\<forall>k'. k' \<noteq> ''steps'' \<longrightarrow> get d' k' = get d k') \<and> (\<forall>k'. has_key d' k' = has_key d k')"
proof (cases "get d ''steps''")
  case (PList xs)
  then have key: "has_key d ''steps''" using get_no_key [of d "''steps''"] by auto
  obtain ys where "d' = dput d ''steps'' (PList ys)"
    using assms PList by (auto simp: preview_steps_def result_iff simp del: mapR.simps split: list.splits)
  then show ?thesis using key by auto
qed (use assms in \<open>simp_all add: preview_steps_def\<close>)

lemma normal_preview:
  assumes "normalize_preview_payload ks p = Inr q"
  shows "\<exists>goal. get q ''goal'' = PStr goal \<and> goal \<noteq> [] \<and> strip goal = goal"
    and "get q ''enqueue_child'' = PDict x \<Longrightarrow> \<exists>r. preview_child r = Inr x"
    and "get q ''write_file'' = PDict x \<Longrightarrow> \<exists>r. preview_write_file r = Inr x"
    and "get q ''file_organize'' = PDict x \<Longrightarrow> \<exists>r. preview_file_organize r = Inr x"
proof -
  define cleaned where "cleaned = map (\<lambda>k. (k, get p k)) (filter (has_key p) ks)"
  define goal where "goal = clean_str (get cleaned ''goal'')"
  define named where "named = stripped_or_dropped ''title'' (stripped_or_dropped ''mission_id''
             ((''goal'', PStr goal) # filter (\<lambda>(k, v). k \<noteq> ''goal'') cleaned))"
  obtain d1 d2 d3 where d: "goal \<noteq> []" "on_object ''enqueue_child'' preview_child named = Inr d1"
    "on_object ''write_file'' preview_write_file d1 = Inr d2" "on_object ''file_organize'' preview_file_organize d2 = Inr d3"
    "preview_steps d3 = Inr q"
    using assms by (auto simp: normalize_preview_payload_def Let_def result_iff cleaned_def [symmetric] goal_def [symmetric]
        named_def [symmetric] split: if_splits)
  note r = on_object_run [OF d(2)] on_object_run [OF d(3)] on_object_run [OF d(4)] steps_run [OF d(5)]
  have "get named ''goal'' = PStr goal" by (simp add: named_def stripped_or_dropped_def)
  then have "get q ''goal'' = PStr goal" using r by simp
  moreover have "strip goal = goal" by (simp add: goal_def clean_str_def)
  ultimately show "\<exists>goal. get q ''goal'' = PStr goal \<and> goal \<noteq> [] \<and> strip goal = goal" using d(1) by blast
  show "get q ''enqueue_child'' = PDict x \<Longrightarrow> \<exists>r. preview_child r = Inr x"
    "get q ''write_file'' = PDict x \<Longrightarrow> \<exists>r. preview_write_file r = Inr x"
    "get q ''file_organize'' = PDict x \<Longrightarrow> \<exists>r. preview_file_organize r = Inr x"
    using r by simp_all
qed

lemma lineage_string: "s \<noteq> [] \<Longrightarrow> strip s = s \<Longrightarrow> sanitize_lineage_string (PStr s) = Some s"
  by (simp add: sanitize_lineage_string_def)

lemma lower_modes: "lower ''overwrite'' = ''overwrite''" "lower ''append'' = ''append''" "lower ''copy'' = ''copy''" "lower ''move'' = ''move''"
  "strip ''overwrite'' = ''overwrite''" "strip ''append'' = ''append''" "strip ''copy'' = ''copy''" "strip ''move'' = ''move''"
  by code_simp+

lemma keyed: "get q k = PDict w \<Longrightarrow> has_key q k"
  using get_no_key [of q k] by auto

lemma unknown_none: "set (map fst w) \<subseteq> set allowed \<Longrightarrow> unknown_keys w allowed = []"
proof -
  assume "set (map fst w) \<subseteq> set allowed"
  then have none: "filter (\<lambda>k. k \<notin> set allowed) (map fst w) = []" by (auto simp: filter_empty_conv)
  show ?thesis unfolding unknown_keys_def none by (simp add: sorted_set_def)
qed

lemma write_file_accepted:
  assumes "get q ''write_file'' = PDict w" and "preview_write_file r = Inr w"
  shows "extract_write_file_request q = Inr (PDict w) \<and> safe_notes_text (the_str (get w ''path''))"
proof -
  define path where "path = clean_str (get r ''path'')"
  define mode where "mode = clean_mode (get r ''mode'') ''overwrite''"
  have w: "path \<noteq> []" "safe_notes_text path" "is_str (get r ''content'')" "mode \<in> {''overwrite'', ''append''}"
    "w = [(''path'', PStr path), (''content'', get r ''content''), (''mode'', PStr mode)]"
    using assms(2) by (auto simp: preview_write_file_def Let_def check_def result_iff path_def [symmetric] mode_def [symmetric] split: if_splits)
  obtain body where body: "get r ''content'' = PStr body" using w(3) by (auto simp: is_str_iff)
  have path: "sanitize_lineage_string (PStr path) = Some path" using w(1) by (intro lineage_string) (simp_all add: path_def clean_str_def)
  have mode: "request_mode (PStr mode) ''overwrite'' [''overwrite'', ''append''] ''write_file.mode must be overwrite or append'' = Inr mode"
    using w(4) by (auto simp: request_mode_def lineage_string lower_modes)
  have none: "unknown_keys w [''path'', ''content'', ''mode''] = []" by (rule unknown_none) (simp add: w(5))
  show ?thesis
    using keyed [OF assms(1)] assms(1) none w(2)
    by (simp add: extract_write_file_request_def request_object_def required_str_def w(5) body path mode)
qed

lemma file_organize_accepted:
  assumes "get q ''file_organize'' = PDict w" and "preview_file_organize r = Inr w"
  shows "extract_file_organize_request q = Inr (PDict w)"
proof -
  define src where "src = clean_str (get r ''source_path'')"
  define dst where "dst = clean_str (get r ''destination_dir'')"
  define mode where "mode = clean_mode (get r ''mode'') ''copy''"
  define ov where "ov = get_or r ''overwrite'' (PBool False)"
  define del where "del = get_or r ''delete_original'' (PBool False)"
  have w: "src \<noteq> []" "dst \<noteq> []" "mode \<in> {''copy'', ''move''}" "is_bool ov" "is_bool del"
    "w = [(''source_path'', PStr src), (''destination_dir'', PStr dst), (''mode'', PStr mode), (''overwrite'', ov), (''delete_original'', del)]"
    using assms(2) by (auto simp: preview_file_organize_def Let_def check_def result_iff src_def [symmetric] dst_def [symmetric]
        mode_def [symmetric] ov_def [symmetric] del_def [symmetric] split: if_splits)
  obtain a b where ab: "ov = PBool a" "del = PBool b" using w(4,5) by (auto simp: is_bool_iff)
  have texts: "sanitize_lineage_string (PStr src) = Some src" "sanitize_lineage_string (PStr dst) = Some dst"
    using w(1,2) by (intro lineage_string; simp add: src_def dst_def clean_str_def)+
  have mode: "request_mode (PStr mode) ''copy'' [''copy'', ''move''] ''file_organize.mode must be copy or move'' = Inr mode"
    using w(3) by (auto simp: request_mode_def lineage_string lower_modes)
  have none: "unknown_keys w [''source_path'', ''destination_dir'', ''mode'', ''overwrite'', ''delete_original''] = []"
    by (rule unknown_none) (simp add: w(6))
  show ?thesis
    using keyed [OF assms(1)] assms(1) none
    by (simp add: extract_file_organize_request_def request_object_def required_str_def request_flag_def w(6) ab texts mode)
qed

lemma child_accepted:
  assumes "get q ''enqueue_child'' = PDict w" and "preview_child r = Inr w"
  shows "extract_enqueue_child_request q = Inr (PDict [(''goal'', get w ''goal''), (''title'', get w ''title'')])"
proof -
  define goal where "goal = clean_str (get r ''goal'')"
  define title where "title = clean_str (get r ''title'')"
  have w: "goal \<noteq> []" "w = (''goal'', PStr goal) # (if title = [] then [] else [(''title'', PStr title)])"
    using assms(2) by (auto simp: preview_child_def check_def result_iff goal_def [symmetric] title_def [symmetric] split: if_splits)
  have goal: "sanitize_lineage_string (PStr goal) = Some goal" using w(1) by (intro lineage_string) (simp_all add: goal_def clean_str_def)
  have title: "sanitize_lineage_string (PStr title) = Some title" if "title \<noteq> []"
    using that by (intro lineage_string) (simp_all add: title_def clean_str_def)
  have none: "unknown_keys w [''goal'', ''title''] = []" by (rule unknown_none) (use w in auto)
  show ?thesis
    using keyed [OF assms(1)] assms(1) none goal title
    by (simp add: extract_enqueue_child_request_def request_object_def required_str_def w(2) sanitize_lineage_string_def)
qed

section \<open>The shared context\<close>

lemma context_ref_idem: "context_ref (context_ref v) = context_ref v"
  by (cases v) (simp_all add: context_ref_def)

lemma context_flags_idem: "context_flags (context_flags v) = context_flags v"
proof (cases v)
  case (PList xs)
  define fs where "fs = filter (\<lambda>f. f \<noteq> []) (map (\<lambda>x. strip (py_str x)) (take max_ambiguity_flags xs))"
  have len: "length fs \<le> max_ambiguity_flags"
    unfolding fs_def by (rule order_trans [OF length_filter_le]) simp
  have "map (\<lambda>x. strip (py_str x)) (map PStr fs) = fs" by (auto simp: fs_def comp_def intro!: map_idI)
  moreover have "filter (\<lambda>f. f \<noteq> []) fs = fs" by (simp add: fs_def)
  ultimately show ?thesis using len by (simp add: context_flags_def PList fs_def [symmetric])
qed (simp_all add: context_flags_def)

lemma context_fixed:
  assumes "0 < t" and "d = dput (normalize_shared_context v) ''updated_at_ms'' (PInt t)"
  shows "normalize_shared_context (PDict d) = d"
proof -
  obtain f where f: "f = (\<lambda>k. case v of PDict c \<Rightarrow> context_ref (get c k) | _ \<Rightarrow> PNone)" by simp
  obtain g where g: "g = (case v of PDict c \<Rightarrow> context_flags (get c ''ambiguity_flags'') | _ \<Rightarrow> PList [])" by simp
  have d: "d = map (\<lambda>k. (k, f k)) context_refs @ [(''ambiguity_flags'', g), (''updated_at_ms'', PInt t)]"
    unfolding assms(2) f g
    by (cases v) (simp_all add: normalize_shared_context_def empty_shared_context_def context_refs_def dput_def)
  have "context_ref (f k) = f k" for k by (simp add: f context_ref_idem split: py.split) (simp add: context_ref_def)
  moreover have "context_flags g = g" by (simp add: g context_flags_idem split: py.split) (simp add: context_flags_def)
  ultimately show ?thesis using assms(1)
    by (simp add: normalize_shared_context_def d context_refs_def context_stamp_def)
qed

section \<open>Linked jobs\<close>

text \<open>At most 64 entries, one per job\<close>

definition entry_ref :: "py \<Rightarrow> string" where
  "entry_ref x = the_str (get (the_dict x) ''job_ref'')"

definition link_entry :: "py \<Rightarrow> bool" where
  "link_entry x \<longleftrightarrow> (\<exists>d r. x = PDict d \<and> get d ''job_ref'' = PStr r \<and> r \<noteq> [] \<and> strip r = r \<and> path_name r = r)"

definition well_linked :: "py list \<Rightarrow> bool" where
  "well_linked xs \<longleftrightarrow> length xs \<le> max_linked_job_track \<and> list_all link_entry xs \<and> distinct (map entry_ref xs)"

definition tracked_jobs :: "vera \<Rightarrow> string \<Rightarrow> py list" where
  "tracked_jobs s sid = the_list (get (read_linked_job_registry s sid) ''tracked'')"

lemma is_link_entry: "link_entry x \<Longrightarrow> is_link_to ref x \<longleftrightarrow> entry_ref x = ref"
  by (auto simp: link_entry_def is_link_to_def entry_ref_def str_or_empty_def por_def)

lemma link_job_entries:
  assumes "list_all link_entry xs" and "ref \<noteq> []" "strip ref = ref" "path_name ref = ref"
  shows "list_all link_entry (link_job sid ref t xs)
    \<and> map entry_ref (link_job sid ref t xs) = (if ref \<in> set (map entry_ref xs) then map entry_ref xs else map entry_ref xs @ [ref])"
  using assms(1)
proof (induction xs)
  case Nil
  then show ?case using assms(2-4) by (auto simp: link_entry_def entry_ref_def)
next
  case (Cons x xs)
  then have x: "link_entry x" and IH: "list_all link_entry (link_job sid ref t xs)"
    "map entry_ref (link_job sid ref t xs) = (if ref \<in> set (map entry_ref xs) then map entry_ref xs else map entry_ref xs @ [ref])"
    by simp_all
  show ?case
  proof (cases "is_link_to ref x")
    case True
    have "link_entry (PDict (dput (dput (dput (the_dict x) ''linked_session_id'' (PStr sid)) ''linked_thread_id'' (PStr sid)) ''updated_at_ms'' (PInt t)))"
      using x by (auto simp: link_entry_def)
    then show ?thesis using True Cons.prems is_link_entry [OF x] by (simp add: entry_ref_def)
  next
    case False
    then have "entry_ref x \<noteq> ref" using is_link_entry [OF x] by simp
    then show ?thesis using False x IH by auto
  qed
qed

lemma linked_refs: "list_all link_entry xs \<Longrightarrow> List.map_filter linked_ref xs = map entry_ref xs"
  by (induction xs) (auto simp: List.map_filter_def link_entry_def linked_ref_def clean_str_def str_or_empty_def por_def entry_ref_def Let_def)

lemma last_n_snoc: "length xs \<le> n \<Longrightarrow> last_n n xs = xs"
  by (simp add: last_n_def)

lemma link_step:
  assumes xs: "well_linked xs" and ref: "ref \<noteq> []" "strip ref = ref" "path_name ref = ref"
  shows "well_linked (last_n max_linked_job_track (link_job sid ref t xs)) \<and> ref \<in> set (map entry_ref (last_n max_linked_job_track (link_job sid ref t xs)))"
proof -
  define ys where "ys = link_job sid ref t xs"
  have ys: "list_all link_entry ys" "map entry_ref ys = (if ref \<in> set (map entry_ref xs) then map entry_ref xs else map entry_ref xs @ [ref])"
    using link_job_entries [of xs ref sid t] xs ref by (simp_all add: ys_def well_linked_def)
  then have d: "distinct (map entry_ref ys)" using xs by (auto simp: well_linked_def)
  have n: "length (last_n max_linked_job_track ys) \<le> max_linked_job_track" by (simp add: last_n_def)
  have all: "list_all link_entry (last_n max_linked_job_track ys)"
    using ys(1) by (auto simp: last_n_def list_all_iff dest: in_set_dropD)
  have dd: "distinct (map entry_ref (last_n max_linked_job_track ys))" using d by (simp add: last_n_def drop_map [symmetric] distinct_drop)
  have mem: "ref \<in> set (map entry_ref (last_n max_linked_job_track ys))"
  proof (cases "ref \<in> set (map entry_ref xs)")
    case True
    then have "map entry_ref ys = map entry_ref xs" using ys(2) by simp
    then have "length ys \<le> max_linked_job_track" using xs by (metis length_map well_linked_def)
    then show ?thesis using True \<open>map entry_ref ys = map entry_ref xs\<close> by (simp only: last_n_snoc)
  next
    case False
    then have e: "map entry_ref ys = map entry_ref xs @ [ref]" using ys(2) by simp
    then have "length ys = Suc (length xs)" by (metis length_append_singleton length_map)
    moreover have "0 < max_linked_job_track" by (simp add: max_linked_job_track_def)
    ultimately show ?thesis unfolding last_n_def drop_map [symmetric] e by auto
  qed
  show ?thesis using n all dd mem by (simp add: well_linked_def ys_def)
qed

lemma register_run:
  assumes "writes_ok env" and "sid \<noteq> []" and ref: "ref = strip (path_name job_ref)" "ref \<noteq> []"
  shows "tracked_jobs (snd (register_session_linked_job env sid job_ref s)) sid
    = last_n max_linked_job_track (link_job sid ref (vn_now env s) (tracked_jobs s sid))"
proof -
  let ?reg = "read_linked_job_registry s sid"
  let ?xs = "last_n max_linked_job_track (link_job sid ref (vn_now env s) (the_list (get ?reg ''tracked'')))"
  let ?new = "list_field (list_field (dput ?reg ''tracked'' (PList ?xs)) ''completions'') ''notification_outbox''"
  have "register_session_linked_job env sid job_ref s = write_session_field env sid ''linked_queue_jobs'' (Some ?new) s"
    using ref(2) by (simp add: register_session_linked_job_def write_linked_job_registry_def Let_def ref(1) [symmetric])
  then have "read_linked_job_registry (snd (register_session_linked_job env sid job_ref s)) sid = ?new"
    by (simp add: read_linked_job_registry_def field_reads [OF assms(1,2) keys(3)])
  then show ?thesis by (simp add: tracked_jobs_def list_field_def)
qed

end
