(* ===== verification/Vera_Completions.thy ===== *)
theory Vera_Completions
  imports Vera_Session "HOL-Library.Product_Lexorder"
begin

text \<open>
  The completions of linked jobs (\<open>voxera/vera/linked_completions.py\<close>): a job of the queue that has ended is
  taken into the registry of the session, and its message is delivered once, live into the chat or with the
  next turn. The evidence of a job (its bucket, structured execution, state sidecar and payload), the lines of
  its diagnostics and the text of its result are parameters. The notifications are objects that two lists of
  the code share: here a notification carries the number of its object.
\<close>

section \<open>Environment\<close>

record evidence =
  ev_bucket :: string
  ev_structured :: dict
  ev_state :: dict
  ev_job :: dict

record completion_env =
  ce_vera :: vera_env
  ce_evidence :: "files \<Rightarrow> string \<Rightarrow> evidence option"
  ce_diagnostics :: "dict \<Rightarrow> string \<Rightarrow> string list"
  ce_value_text :: "dict \<Rightarrow> string \<Rightarrow> string option"

definition max_linked_completions :: nat where "max_linked_completions = 64"
definition max_linked_notifications :: nat where "max_linked_notifications = 128"

section \<open>Eligibility and policy\<close>

definition is_true_terminal_completion :: "dict \<Rightarrow> bool result" where
  "is_true_terminal_completion c =
     (let quiet = Inr (\<not> list_ex (contains (clean_lower (get c ''stop_reason''))) [''enqueue_child'', ''delegat'', ''handoff_child'']) in
      bindR (int_or_zero (get c ''child_refs_count'')) (\<lambda>refs.
        case get c ''child_summary'' of
          PDict cs \<Rightarrow>
            bindR (mapR (\<lambda>k. int_or_zero (get cs k)) [''pending'', ''awaiting_approval'', ''unknown'']) (\<lambda>ns.
              if 0 < sum_list ns then Inr False
              else bindR (int_or_zero (get cs ''total'')) (\<lambda>total. if 0 < refs \<and> total \<le> 0 then Inr False else quiet))
        | _ \<Rightarrow> if 0 < refs then Inr False else quiet))"

definition delivery_eligible :: "dict \<Rightarrow> bool result" where
  "delivery_eligible c = (let policy = clean_lower (get c ''surfacing_policy''); outcome = clean_lower (get c ''terminal_outcome'') in
     if policy = ''read_only_success'' then Inr (outcome = ''succeeded'')
     else if policy = ''approval_blocked'' then Inr (outcome \<in> {''blocked'', ''failed''})
     else if policy = ''failed'' then Inr (outcome = ''failed'')
     else if policy = ''mutating_success'' \<and> outcome = ''succeeded'' then is_true_terminal_completion c
     else Inr False)"

definition classify_surfacing_policy :: "dict \<Rightarrow> string" where
  "classify_surfacing_policy p =
     (let outcome = clean_lower (get p ''terminal_outcome''); cls = clean_lower (get p ''normalized_outcome_class'');
          kind = clean_lower (get p ''request_kind'') in
      if clean_lower (get p ''approval_status'') = ''pending'' \<or> cls = ''approval_blocked'' then ''approval_blocked''
      else if outcome = ''canceled'' then ''canceled''
      else if outcome \<in> {''failed'', ''blocked''} then
        (if cls \<in> {''policy_denied'', ''capability_boundary_mismatch'', ''path_blocked_scope''} then ''manual_only'' else ''failed'')
      else if 480 < length (str_or_empty (get p ''latest_summary'')) \<or> 6 \<le> length (the_list (get p ''result_highlights''))
        then ''noisy_large_result''
      else if outcome = ''succeeded'' then
        (if get p ''read_only_requested'' = PBool True then ''read_only_success''
         else if clean_lower (get p ''side_effect_class'') \<in> {''write'', ''execute'', ''mutating''} then ''mutating_success''
         else if kind \<in> {''write_file'', ''file_organize'', ''open_url'', ''open_app'', ''run_command''} then ''mutating_success''
         else ''read_only_success'')
      else ''manual_only'')"

section \<open>The completion of a job\<close>

definition stripped_texts :: "py list \<Rightarrow> string list" where
  "stripped_texts xs = filter (\<lambda>t. t \<noteq> []) (map (\<lambda>x. strip (py_str x)) xs)"

definition child_parts :: "dict \<Rightarrow> string list" where
  "child_parts cs = map (\<lambda>(k, v). k @ '':'' @ int_str (case py_int v of Inr n \<Rightarrow> n | Inl _ \<Rightarrow> 0))
     (filter (\<lambda>(k, v). is_int v \<and> k \<in> {''done'', ''failed'', ''pending'', ''canceled''}) cs)"

definition normalize_result_highlights :: "dict \<Rightarrow> string list" where
  "normalize_result_highlights st =
     (let compact = join '', '' (stripped_texts (take 4 (the_list (get st ''artifact_families''))));
          parts = child_parts (the_dict (get st ''child_summary'')) in
      take 6 ((if compact = [] then [] else [''artifact_families='' @ compact])
        @ (if parts = [] then [] else [''child_summary='' @ join '', '' parts])))"

definition is_terminal_queue_state :: "string \<Rightarrow> string \<Rightarrow> string \<Rightarrow> bool" where
  "is_terminal_queue_state lifecycle outcome bucket =
     (bucket \<in> {''done'', ''failed'', ''canceled''} \<or> lower (strip lifecycle) \<in> {''done'', ''failed'', ''canceled''}
      \<or> lower (strip outcome) \<in> {''succeeded'', ''failed'', ''blocked'', ''canceled''})"

definition pdict_or_none :: "py \<Rightarrow> py" where
  "pdict_or_none v = (if is_dict v then v else PNone)"

definition completion_payload :: "completion_env \<Rightarrow> string \<Rightarrow> int \<Rightarrow> string \<Rightarrow> evidence \<Rightarrow> dict" where
  "completion_payload env sid t job_ref e =
     (let st = ev_structured e; job = ev_job e; intent = the_dict (get job ''job_intent'');
          mission = clean_str (por (get intent ''mission_id'') (get job ''mission_id''));
          either_of = (\<lambda>k. por (get st k) (get (ev_state e) k));
          caps = the_dict (get st ''execution_capabilities'');
          p = [(''job_ref'', PStr job_ref), (''linked_session_id'', PStr sid), (''linked_thread_id'', PStr sid),
            (''lifecycle_state'', PStr (clean_str (either_of ''lifecycle_state''))),
            (''terminal_outcome'', PStr (clean_str (either_of ''terminal_outcome''))),
            (''approval_status'', PStr (strip (py_str (por (either_of ''approval_status'') (PStr ''none''))))),
            (''normalized_outcome_class'', PStr (clean_str (get st ''normalized_outcome_class''))),
            (''request_kind'', PStr (py_str (por (get intent ''request_kind'') (por (get job ''request_kind'') (por (get job ''kind'') (PStr ''unknown'')))))),
            (''read_only_requested'', PBool (get job ''read_only'' = PBool True \<or> get intent ''read_only'' = PBool True)),
            (''mission_id'', popt (if mission = [] then None else Some mission)),
            (''latest_summary'', PStr (clean_str (get st ''latest_summary''))),
            (''failure_summary'', PStr (clean_str (get st ''error''))),
            (''operator_note'', PStr (clean_str (get st ''operator_note''))),
            (''next_action_hint'', PStr (clean_str (get st ''next_action_hint''))),
            (''result_highlights'', pstrs (normalize_result_highlights st)),
            (''diagnostics_values'', pstrs (ce_diagnostics env st mission)),
            (''side_effect_class'', PStr (clean_str (get caps ''side_effect_class''))),
            (''lineage'', pdict_or_none (get st ''lineage'')),
            (''child_refs_count'', PInt (int (length (the_list (get st ''child_refs''))))),
            (''child_summary'', pdict_or_none (get st ''child_summary'')),
            (''stop_reason'', PStr (clean_str (get st ''stop_reason''))),
            (''queue_bucket'', PStr (ev_bucket e)), (''completion_detected_at_ms'', PInt t),
            (''surfaced_in_chat'', PBool False), (''surfaced_at_ms'', PNone),
            (''value_forward_text'', popt (ce_value_text env st mission))]
      in p @ [(''surfacing_policy'', PStr (classify_surfacing_policy p))])"

section \<open>Messages\<close>

definition with_hint :: "string \<Rightarrow> string \<Rightarrow> string" where
  "with_hint message hint = (if hint \<noteq> [] \<and> length hint \<le> 220 then message @ '' Next action: '' @ hint else message)"

definition approval_message :: "string \<Rightarrow> string \<Rightarrow> string" where
  "approval_message summary hint = (let message = ''Your linked request is paused pending approval in VoxeraOS.'' in
     strip (message @ (if summary \<noteq> [] then '' Latest summary: '' @ summary
       else if hint \<noteq> [] then '' Next action: '' @ hint
       else '' Approve or reject it in VoxeraOS to continue.'')))"

definition failure_message :: "string \<Rightarrow> string \<Rightarrow> string \<Rightarrow> string" where
  "failure_message kind summary hint = strip (with_hint (''Your linked '' @ kind @ '' job failed.''
     @ (if summary \<noteq> [] then '' Failure summary: '' @ summary else [])) hint)"

definition success_message :: "string \<Rightarrow> string \<Rightarrow> string \<Rightarrow> string \<Rightarrow> string" where
  "success_message kind diagnostics summary highlights = strip (''Your linked '' @ kind @ '' job completed successfully.''
     @ (if diagnostics \<noteq> [] then '' Diagnostics snapshot: '' @ diagnostics @ ''.''
        else if summary \<noteq> [] then '' '' @ summary
        else if highlights \<noteq> [] then '' Canonical evidence highlights: '' @ highlights @ ''.''
        else '' I have the canonical result available for follow-up.''))"

definition completion_message :: "dict \<Rightarrow> string" where
  "completion_message c =
     (let kind = replace ''_'' '' '' (strip (py_str (por (get c ''request_kind'') (PStr ''request''))));
          summary = clean_str (get c ''latest_summary''); failure = clean_str (get c ''failure_summary'');
          note = clean_str (get c ''operator_note''); hint = clean_str (get c ''next_action_hint'');
          policy = clean_lower (get c ''surfacing_policy''); forward = clean_str (get c ''value_forward_text'') in
      if policy = ''approval_blocked'' then approval_message summary hint
      else if policy = ''failed'' then failure_message kind (if failure \<noteq> [] then failure else summary) (if hint \<noteq> [] then hint else note)
      else if forward \<noteq> [] then forward
      else success_message kind (join ''; '' (stripped_texts (take 4 (the_list (get c ''diagnostics_values''))))) summary
        (join ''; '' (stripped_texts (take 2 (the_list (get c ''result_highlights''))))))"

section \<open>Ingestion\<close>

definition completion_of :: "completion_env \<Rightarrow> string \<Rightarrow> int \<Rightarrow> files \<Rightarrow> string \<Rightarrow> dict option" where
  "completion_of env sid t fs job_ref = (case ce_evidence env fs job_ref of
     None \<Rightarrow> None
   | Some e \<Rightarrow> if is_terminal_queue_state (str_or_empty (por (get (ev_structured e) ''lifecycle_state'') (get (ev_state e) ''lifecycle_state'')))
         (str_or_empty (por (get (ev_structured e) ''terminal_outcome'') (get (ev_state e) ''terminal_outcome''))) (ev_bucket e)
       then Some (completion_payload env sid t job_ref e) else None)"

text \<open>The tracked entries as they are left, and the new completions\<close>

fun ingest_tracked :: "(string \<Rightarrow> dict option) \<Rightarrow> int \<Rightarrow> string option \<Rightarrow> string set \<Rightarrow> py list \<Rightarrow> py list \<times> dict list" where
  "ingest_tracked f t only seen [] = ([], [])"
| "ingest_tracked f t only seen (x # xs) =
     (let ref = clean_str (get (the_dict x) ''job_ref'') in
      case (if \<not> is_dict x \<or> (case only of Some r \<Rightarrow> r \<noteq> [] \<and> ref \<noteq> r | None \<Rightarrow> False) \<or> ref = [] \<or> ref \<in> seen then None else f ref) of
        None \<Rightarrow> (case ingest_tracked f t only seen xs of (ys, cs) \<Rightarrow> (x # ys, cs))
      | Some c \<Rightarrow> (case ingest_tracked f t only (insert ref seen) xs of (ys, cs) \<Rightarrow>
          (PDict (dput (dput (the_dict x) ''completion_ingested'' (PBool True)) ''completion_detected_at_ms'' (PInt t)) # ys, c # cs)))"

definition item_ref :: "py \<Rightarrow> string" where
  "item_ref x = str_or_empty (get (the_dict x) ''job_ref'')"

definition completion_refs :: "py list \<Rightarrow> string set" where
  "completion_refs xs = item_ref ` {x \<in> set xs. is_dict x}"

definition ingest_linked_job_completions :: "completion_env \<Rightarrow> string \<Rightarrow> string option \<Rightarrow> (dict list, vera) prog" where
  "ingest_linked_job_completions env sid only_job_ref = bindM (getM (\<lambda>s. s)) (\<lambda>s.
     let registry = read_linked_job_registry s sid; t = vn_now (ce_vera env) s;
         only = (case only_job_ref of Some r \<Rightarrow> if r = [] then None else Some (strip (path_name r)) | None \<Rightarrow> None);
         completions = the_list (get registry ''completions'') in
     case ingest_tracked (completion_of env sid t (ve_files s)) t only (completion_refs completions) (the_list (get registry ''tracked'')) of
       (tracked, created) \<Rightarrow>
         thenM (whenM (created \<noteq> []) (write_linked_job_registry (ce_vera env) sid
           (dput (dput registry ''tracked'' (PList (last_n max_linked_job_track tracked)))
             ''completions'' (PList (last_n max_linked_completions (completions @ map PDict created))))))
         (retM created))"

section \<open>Notifications\<close>

text \<open>The list of the caller and the list in the registry, one list object at first; both hold the same notification
  objects, named by number.\<close>

type_synonym note_list = "(nat \<times> py) list"

record outbox =
  ob_fresh :: nat
  ob_mine :: note_list
  ob_registry :: note_list
  ob_shared :: bool

definition outbox_of :: "dict \<Rightarrow> outbox" where
  "outbox_of registry = (let xs = the_list (get registry ''notification_outbox'') in
     \<lparr>ob_fresh = length xs, ob_mine = List.enumerate 0 xs, ob_registry = List.enumerate 0 xs,
      ob_shared = is_list (get registry ''notification_outbox'')\<rparr>)"

definition revise :: "nat \<Rightarrow> (dict \<Rightarrow> dict) \<Rightarrow> note_list \<Rightarrow> note_list" where
  "revise k f = map (\<lambda>(i, x). (i, if i = k then PDict (f (the_dict x)) else x))"

definition revise_note :: "nat \<Rightarrow> (dict \<Rightarrow> dict) \<Rightarrow> outbox \<Rightarrow> outbox" where
  "revise_note k f ob = ob\<lparr>ob_mine := revise k f (ob_mine ob), ob_registry := revise k f (ob_registry ob)\<rparr>"

definition surfaced :: "dict \<Rightarrow> bool" where
  "surfaced c = (get c ''surfaced_in_chat'' = PBool True)"

definition build_notification :: "string \<Rightarrow> int \<Rightarrow> dict \<Rightarrow> dict result" where
  "build_notification sid t c =
     bindR (py_int (por (get c ''completion_detected_at_ms'') (PInt t))) (\<lambda>created.
     bindR (delivery_eligible c) (\<lambda>eligible.
       let root = (case get c ''lineage'' of PDict l \<Rightarrow> clean_str (get l ''root_job_id'') | _ \<Rightarrow> []);
           cls = clean_str (get c ''normalized_outcome_class'') in
       Inr [(''notification_id'', PStr (sid @ '':'' @ py_str (get c ''job_ref'') @ '':'' @ int_str created)),
         (''job_id'', PStr (str_or_empty (get c ''job_ref''))), (''session_id'', PStr sid),
         (''root_job_id'', popt (if root = [] then None else Some root)),
         (''outcome_class'', popt (if cls = [] then None else Some cls)),
         (''is_user_terminal'', PBool eligible), (''message'', PStr (completion_message c)),
         (''created_at_ms'', PInt created), (''delivery_status'', PStr ''pending''),
         (''surfaced_in_chat'', PBool (surfaced c)), (''surfaced_at_ms'', get c ''surfaced_at_ms''),
         (''fallback_pending'', PBool (\<not> surfaced c))]))"

definition refresh_notification :: "bool \<Rightarrow> dict \<Rightarrow> dict \<Rightarrow> dict" where
  "refresh_notification eligible c n =
     (let n1 = dput (dput (dput (dput n ''is_user_terminal'' (PBool eligible)) ''message'' (PStr (completion_message c)))
            ''surfaced_in_chat'' (PBool (surfaced c))) ''surfaced_at_ms'' (get c ''surfaced_at_ms'');
          n2 = dput n1 ''fallback_pending'' (PBool (\<not> surfaced c)) in
      if surfaced c \<and> clean_lower (get n2 ''delivery_status'') = ''pending'' then dput n2 ''delivery_status'' (PStr ''delivered'') else n2)"

definition upsert_notification :: "string \<Rightarrow> int \<Rightarrow> dict \<Rightarrow> outbox \<Rightarrow> (nat \<times> outbox) result" where
  "upsert_notification sid t c ob =
     (let ref = str_or_empty (get c ''job_ref''); k = ob_fresh ob in
      case find (\<lambda>(i, x). is_dict x \<and> str_or_empty (get (the_dict x) ''job_id'') = ref) (ob_registry ob) of
        None \<Rightarrow> bindR (build_notification sid t c) (\<lambda>n. let xs = ob_registry ob @ [(k, PDict n)] in
          Inr (k, \<lparr>ob_fresh = Suc k, ob_mine = (if ob_shared ob then xs else ob_mine ob),
            ob_registry = last_n max_linked_notifications xs, ob_shared = False\<rparr>))
      | Some (i, x) \<Rightarrow> bindR (delivery_eligible c) (\<lambda>eligible. let ob' = revise_note i (refresh_notification eligible c) ob in
          Inr (i, ob'\<lparr>ob_registry := last_n max_linked_notifications (ob_registry ob'), ob_shared := False\<rparr>)))"

definition delivered_fields :: "int \<Rightarrow> string \<Rightarrow> dict \<Rightarrow> dict" where
  "delivered_fields t status n = dput (dput (dput (dput n ''delivery_status'' (PStr status)) ''fallback_pending'' (PBool False))
     ''surfaced_in_chat'' (PBool True)) ''surfaced_at_ms'' (PInt t)"

definition mark_surfaced :: "int \<Rightarrow> dict \<Rightarrow> dict" where
  "mark_surfaced t c = dput (dput c ''surfaced_in_chat'' (PBool True)) ''surfaced_at_ms'' (PInt t)"

definition put_outbox :: "note_list \<Rightarrow> py list \<Rightarrow> dict \<Rightarrow> dict" where
  "put_outbox ns completions registry =
     dput (dput registry ''notification_outbox'' (PList (map snd (last_n max_linked_notifications ns))))
       ''completions'' (PList (last_n max_linked_completions completions))"

section \<open>Delivery with the next turn\<close>

definition handoff_ref :: "vera \<Rightarrow> string \<Rightarrow> string" where
  "handoff_ref s sid = (let job_id = (case read_session_handoff_state s sid of Some h \<Rightarrow> clean_str (get h ''job_id'') | None \<Rightarrow> []) in
     if job_id = [] then [] else ''inbox-'' @ job_id @ ''.json'')"

text \<open>The job that was handed over last is still running.\<close>

definition handoff_pending :: "string \<Rightarrow> dict \<Rightarrow> bool" where
  "handoff_pending latest registry =
     (let is_latest = (\<lambda>x. is_dict x \<and> clean_str (get (the_dict x) ''job_ref'') = latest) in
      latest \<noteq> [] \<and> \<not> list_ex is_latest (the_list (get registry ''completions''))
      \<and> list_ex (\<lambda>x. is_latest x \<and> get (the_dict x) ''completion_ingested'' \<noteq> PBool True) (the_list (get registry ''tracked'')))"

definition completion_priority :: "string \<Rightarrow> dict \<Rightarrow> (nat \<times> int) result" where
  "completion_priority latest c = bindR (int_or_zero (get c ''completion_detected_at_ms'')) (\<lambda>t.
     Inr (if latest \<noteq> [] \<and> clean_str (get c ''job_ref'') = latest then 1 else 0, t))"

text \<open>\<open>sorted(..., reverse=True)\<close> keeps the order of equal keys.\<close>

definition surface_order :: "string \<Rightarrow> py list \<Rightarrow> (nat \<times> dict) list result" where
  "surface_order latest completions =
     (let cs = map (\<lambda>(i, x). (i, the_dict x)) (filter (\<lambda>(i, x). is_dict x
            \<and> (latest \<noteq> [] \<longrightarrow> clean_str (get (the_dict x) ''job_ref'') = latest)) (List.enumerate 0 completions)) in
      bindR (mapR (\<lambda>(i, c). bindR (completion_priority latest c) (\<lambda>p. Inr (p, i, c))) cs) (\<lambda>keyed.
        Inr (map snd (rev (sort_key fst (rev keyed))))))"

fun surface_first :: "string \<Rightarrow> int \<Rightarrow> (nat \<times> dict) list \<Rightarrow> outbox \<Rightarrow> (nat \<times> dict \<times> nat \<times> outbox) option result" where
  "surface_first sid t [] ob = Inr None"
| "surface_first sid t ((i, c) # cs) ob = bindR (upsert_notification sid t c ob) (\<lambda>(k, ob').
     if surfaced c then surface_first sid t cs ob'
     else bindR (delivery_eligible c) (\<lambda>eligible.
       if eligible then Inr (Some (i, c, k, ob')) else surface_first sid t cs ob'))"

definition maybe_auto_surface :: "completion_env \<Rightarrow> string \<Rightarrow> (string option, vera) prog" where
  "maybe_auto_surface env sid = bindM (getM (\<lambda>s. s)) (\<lambda>s.
     let registry = read_linked_job_registry s sid; latest = handoff_ref s sid; t = vn_now (ce_vera env) s;
         completions = the_list (get registry ''completions'') in
     if handoff_pending latest registry then retM None
     else bindM (liftR (bindR (surface_order latest completions) (\<lambda>cs. surface_first sid t cs (outbox_of registry)))) (\<lambda>found. case found of
       None \<Rightarrow> retM None
     | Some (i, c, k, ob) \<Rightarrow>
         thenM (write_linked_job_registry (ce_vera env) sid
           (put_outbox (revise k (delivered_fields t ''fallback_delivered'') (ob_mine ob)) (completions[i := PDict (mark_surfaced t c)]) registry))
         (retM (Some (completion_message c)))))"

section \<open>Live delivery\<close>

text \<open>Whether it was delivered, the completion as it is left, and the change of its notification\<close>

definition undelivered :: "string \<Rightarrow> dict \<Rightarrow> dict" where
  "undelivered status n = dput (dput n ''delivery_status'' (PStr status)) ''fallback_pending'' (PBool True)"

definition attempt_live_delivery :: "completion_env \<Rightarrow> string \<Rightarrow> dict \<Rightarrow> (bool \<times> dict \<times> (dict \<Rightarrow> dict), vera) prog" where
  "attempt_live_delivery env sid c =
     (if surfaced c then retM (True, c, \<lambda>n. dput (dput n ''delivery_status'' (PStr ''delivered'')) ''fallback_pending'' (PBool False))
      else bindM (liftR (delivery_eligible c)) (\<lambda>eligible.
        if \<not> eligible then retM (False, c, undelivered ''pending'')
        else bindM (getM (\<lambda>s. session_file s sid \<noteq> None)) (\<lambda>present.
          if \<not> present then retM (False, c, undelivered ''unavailable'')
          else bindM (attemptM (append_session_turn (ce_vera env) sid ''assistant'' (completion_message c) None)) (\<lambda>r. case r of
            Inl e \<Rightarrow> retM (False, c, undelivered ''unavailable'')
          | Inr turns \<Rightarrow> bindM (getM (vn_now (ce_vera env))) (\<lambda>t. retM (True, mark_surfaced t c, delivered_fields t ''delivered''))))))"

text \<open>The completions of the job in turn: those left, the notifications, whether there was one, whether one was delivered\<close>

fun deliver_each :: "completion_env \<Rightarrow> string \<Rightarrow> string \<Rightarrow> py list \<Rightarrow> outbox \<Rightarrow> (py list \<times> outbox \<times> bool \<times> bool, vera) prog" where
  "deliver_each env sid ref [] ob = retM ([], ob, False, False)"
| "deliver_each env sid ref (x # xs) ob = (if \<not> is_dict x \<or> item_ref x \<noteq> ref
     then bindM (deliver_each env sid ref xs ob) (\<lambda>(ys, ob', changed, delivered). retM (x # ys, ob', changed, delivered))
     else bindM (bindM (getM (\<lambda>s. s)) (\<lambda>s. liftR (upsert_notification sid (vn_now (ce_vera env) s) (the_dict x) ob))) (\<lambda>(k, ob1).
          bindM (attempt_live_delivery env sid (the_dict x)) (\<lambda>(now, c, f).
          bindM (deliver_each env sid ref xs (revise_note k f ob1)) (\<lambda>(ys, ob', changed, delivered).
            retM (PDict c # ys, ob', True, now \<or> delivered)))))"

definition maybe_deliver_live :: "completion_env \<Rightarrow> string \<Rightarrow> string \<Rightarrow> (bool, vera) prog" where
  "maybe_deliver_live env sid job_ref =
     thenM (ingest_linked_job_completions env sid (Some job_ref))
     (bindM (getM (\<lambda>s. read_linked_job_registry s sid)) (\<lambda>registry.
      bindM (deliver_each env sid (path_name job_ref) (the_list (get registry ''completions'')) (outbox_of registry))
        (\<lambda>(completions, ob, changed, delivered).
        thenM (whenM changed (write_linked_job_registry (ce_vera env) sid (put_outbox (ob_registry ob) completions registry)))
          (retM delivered))))"

text \<open>The sessions in the order of their files\<close>

definition session_ids :: "vera \<Rightarrow> string list" where
  "session_ids s = filter (\<lambda>i. i \<noteq> []) (map (\<lambda>n. strip (name_stem n)) (sorted_set (map (\<lambda>(n, _). n @ ''.json'') (ve_sessions s))))"

definition session_tracks :: "string \<Rightarrow> vera \<Rightarrow> string \<Rightarrow> bool" where
  "session_tracks ref s sid = list_ex (is_link_to ref) (the_list (get (read_linked_job_registry s sid) ''tracked''))"

fun deliver_sessions :: "completion_env \<Rightarrow> string \<Rightarrow> string list \<Rightarrow> (nat, vera) prog" where
  "deliver_sessions env ref [] = retM 0"
| "deliver_sessions env ref (sid # sids) = bindM (getM (\<lambda>s. session_tracks ref s sid)) (\<lambda>tracked.
     bindM (if tracked then maybe_deliver_live env sid ref else retM False) (\<lambda>delivered.
     bindM (deliver_sessions env ref sids) (\<lambda>n. retM ((if delivered then 1 else 0) + n))))"

definition maybe_deliver_live_for_job :: "completion_env \<Rightarrow> string \<Rightarrow> (nat, vera) prog" where
  "maybe_deliver_live_for_job env job_ref = (let ref = strip (path_name job_ref) in
     if ref = [] then retM 0 else bindM (getM session_ids) (\<lambda>sids. deliver_sessions env ref sids))"

end
