(* ===== verification/Vera_Delivery.thy ===== *)
theory Vera_Delivery
  imports Vera_Contract Vera_Completions
begin

text \<open>
  The completions of a session's jobs along sequences of links, ingestions and deliveries: a job has one
  completion, and its message is delivered once.
\<close>

section \<open>Turns\<close>

lemma turn_fixed: "turn_of x = Some t \<Longrightarrow> turn_of (PDict t) = Some t"
proof -
  have plain: "clean_lower (PStr ''user'') = ''user''" "clean_lower (PStr ''assistant'') = ''assistant''"
    "clean_lower (PStr ''typed'') = ''typed''" "clean_lower (PStr ''voice_transcript'') = ''voice_transcript''" "clean_lower PNone = []" by code_simp+
  have strip: "clean_str (PStr (clean_str v)) = clean_str v" for v by (simp add: clean_str_def)
  assume "turn_of x = Some t"
  then show "turn_of (PDict t) = Some t"
    by (auto simp: turn_of_def Let_def plain strip split: py.splits if_splits)
qed

lemma turns_fixed: "List.map_filter turn_of (map PDict (read_session_turns s sid)) = read_session_turns s sid"
proof -
  have "List.map_filter turn_of (map PDict (List.map_filter turn_of xs)) = List.map_filter turn_of xs" for xs
    by (induction xs) (auto simp: List.map_filter_simps turn_fixed split: option.split)
  then show ?thesis by (auto simp: read_session_turns_def List.map_filter_simps split: py.split)
qed

lemma turns_after_turn:
  assumes "writes_ok env" and "sid \<noteq> []"
  shows "read_session_turns (snd (append_session_turn env sid role body origin s)) sid
    = read_session_turns s sid @ (case turn_of (PDict (turn_payload role body origin)) of None \<Rightarrow> [] | Some t \<Rightarrow> [t])"
proof -
  obtain s' where s': "append_session_turn env sid role body origin s = (Inr (read_session_turns s sid @ [turn_payload role body origin]), s')"
    "get (read_session_payload s' sid) ''turns'' = PList (map PDict (read_session_turns s sid @ [turn_payload role body origin]))"
    by (rule turn_run [OF assms])
  have "read_session_turns s' sid = List.map_filter turn_of (map PDict (read_session_turns s sid @ [turn_payload role body origin]))"
    unfolding read_session_turns_def [of s'] s'(2) by simp
  also have "\<dots> = read_session_turns s sid @ List.map_filter turn_of [PDict (turn_payload role body origin)]"
    using turns_fixed [of s sid] by (simp add: List.map_filter_def)
  finally show ?thesis by (simp add: s'(1) List.map_filter_simps split: option.split)
qed

lemma turns_after_field:
  assumes "writes_ok env" and "sid \<noteq> []" and "fld \<noteq> ''turns''"
  shows "read_session_turns (snd (write_session_field env sid fld v s)) sid = read_session_turns s sid"
proof -
  let ?d = "dput (load_or_default_payload env sid s) ''updated_at_ms'' (PInt (vn_now env s))"
  let ?e = "case v of None \<Rightarrow> dpop ?d fld | Some x \<Rightarrow> dput ?d fld (PDict x)"
  have "snd (write_session_field env sid fld v s) = put_session sid (Some (PDict ?e)) s"
    using assms(1) by (simp add: write_session_field_def payload_run)
  moreover have "get ?e ''turns'' = get (load_or_default_payload env sid s) ''turns''"
    using assms(3) by (auto split: option.split)
  ultimately show ?thesis
    by (auto simp: read_session_turns_def read_written [OF assms(2)] load_or_default_payload_def default_session_payload_def
        Let_def List.map_filter_simps split: py.split)
qed

section \<open>The registry\<close>

definition completions_of :: "vera \<Rightarrow> string \<Rightarrow> py list" where
  "completions_of s sid = the_list (get (read_linked_job_registry s sid) ''completions'')"

lemma registry_run:
  assumes "writes_ok env" and "sid \<noteq> []"
  obtains s' where "write_linked_job_registry env sid r s = (Inr (), s')" "read_linked_job_registry s' sid = r"
    "read_session_turns s' sid = read_session_turns s sid" "ve_files s' = ve_files s"
proof -
  obtain s' where s': "write_session_field env sid ''linked_queue_jobs'' (Some r) s = (Inr (), s')" "ve_files s' = ve_files s"
    "read_dict_field s' sid ''linked_queue_jobs'' = Some r" by (rule field_run [OF assms keys(3)])
  have "read_session_turns s' sid = read_session_turns s sid"
    using turns_after_field [OF assms, of "''linked_queue_jobs''" "Some r" s] by (simp add: s'(1))
  with that s' show thesis by (simp add: write_linked_job_registry_def read_linked_job_registry_def)
qed

text \<open>Every completion and every tracked entry is of a job in \<open>L\<close>, and a job has one completion.\<close>

definition one_each :: "string set \<Rightarrow> py list \<Rightarrow> bool" where
  "one_each L xs \<longleftrightarrow> list_all is_dict xs \<and> distinct (map item_ref xs) \<and> item_ref ` set xs \<subseteq> L"

definition tracks :: "string set \<Rightarrow> py list \<Rightarrow> bool" where
  "tracks L xs \<longleftrightarrow> list_all (\<lambda>x. is_dict x \<and> clean_str (get (the_dict x) ''job_ref'') \<in> L) xs"

definition registered :: "string set \<Rightarrow> string \<Rightarrow> vera \<Rightarrow> bool" where
  "registered L sid s \<longleftrightarrow> one_each L (completions_of s sid) \<and> tracks L (tracked_jobs s sid)"

definition shown :: "py list \<Rightarrow> nat" where
  "shown xs = length (filter (\<lambda>x. surfaced (the_dict x)) xs)"

lemma one_each_length: "one_each L xs \<Longrightarrow> finite L \<Longrightarrow> length xs \<le> card L"
  by (metis card_mono distinct_card length_map list.set_map one_each_def)

lemma tracks_last: "tracks L xs \<Longrightarrow> tracks L (last_n n xs)"
  by (auto simp: tracks_def last_n_def list_all_iff dest: in_set_dropD)

lemma tracks_link: "tracks L xs \<Longrightarrow> ref \<in> L \<Longrightarrow> ref \<noteq> [] \<Longrightarrow> strip ref = ref \<Longrightarrow> tracks L (link_job sid ref t xs)"
  by (induction xs) (auto simp: tracks_def clean_str_def)

section \<open>Ingestion\<close>

lemma completion_fields:
  "completion_of env sid t fs ref = Some c \<Longrightarrow> item_ref (PDict c) = ref \<and> \<not> surfaced c"
  by (auto simp: completion_of_def completion_payload_def Let_def item_ref_def surfaced_def split: option.splits if_splits)

lemma ingest_tracked_run:
  assumes "\<And>ref c. f ref = Some c \<Longrightarrow> item_ref (PDict c) = ref \<and> \<not> surfaced c"
  shows "ingest_tracked f t only seen xs = (ys, cs) \<Longrightarrow> tracks L xs \<Longrightarrow>
    tracks L ys \<and> one_each (L - seen) (map PDict cs) \<and> shown (map PDict cs) = 0"
proof (induction xs arbitrary: seen ys cs)
  case Nil
  then show ?case by (simp add: tracks_def one_each_def shown_def)
next
  case (Cons x xs)
  define ref where "ref = clean_str (get (the_dict x) ''job_ref'')"
  define new where "new = (if \<not> is_dict x \<or> (case only of Some r \<Rightarrow> r \<noteq> [] \<and> ref \<noteq> r | None \<Rightarrow> False) \<or> ref = [] \<or> ref \<in> seen
    then None else f ref)"
  have x: "is_dict x" "ref \<in> L" "tracks L xs" using Cons.prems(2) by (simp_all add: tracks_def ref_def)
  show ?case
  proof (cases new)
    case None
    obtain zs ds where z: "ingest_tracked f t only seen xs = (zs, ds)" by fastforce
    have "ys = x # zs \<and> cs = ds" using Cons.prems(1) None z by (simp add: Let_def new_def ref_def [symmetric])
    with Cons.IH [OF z x(3)] x show ?thesis by (simp add: tracks_def ref_def)
  next
    case (Some c)
    obtain zs ds where z: "ingest_tracked f t only (insert ref seen) xs = (zs, ds)" by fastforce
    have e: "ys = PDict (dput (dput (the_dict x) ''completion_ingested'' (PBool True)) ''completion_detected_at_ms'' (PInt t)) # zs"
      "cs = c # ds" using Cons.prems(1) Some z by (simp_all add: Let_def new_def ref_def [symmetric])
    have c: "item_ref (PDict c) = ref" "\<not> surfaced c" "ref \<notin> seen" using Some assms by (simp_all add: new_def split: if_splits)
    show ?thesis using Cons.IH [OF z x(3)] x c
      by (auto simp: e tracks_def one_each_def shown_def ref_def [symmetric])
  qed
qed

lemma one_each_append:
  assumes "one_each L xs" and "one_each (L - completion_refs xs) ys"
  shows "one_each L (xs @ ys)"
proof -
  have "completion_refs xs = item_ref ` set xs" using assms(1) by (auto simp: one_each_def completion_refs_def list_all_iff)
  with assms show ?thesis unfolding one_each_def by auto
qed

lemma ingest_run:
  assumes ok: "writes_ok (ce_vera env)" "sid \<noteq> []" and L: "finite L" "card L \<le> max_linked_completions" and inv: "registered L sid s"
  obtains cs s' where "ingest_linked_job_completions env sid only s = (Inr cs, s')" "registered L sid s'"
    "shown (completions_of s' sid) = shown (completions_of s sid)" "read_session_turns s' sid = read_session_turns s sid"
    "completions_of s' sid = completions_of s sid @ map PDict cs"
proof -
  let ?reg = "read_linked_job_registry s sid"
  define t where "t = vn_now (ce_vera env) s"
  define o' where "o' = (case only of Some r \<Rightarrow> if r = [] then None else Some (strip (path_name r)) | None \<Rightarrow> None)"
  obtain ys cs where i: "ingest_tracked (completion_of env sid t (ve_files s)) t o' (completion_refs (completions_of s sid)) (tracked_jobs s sid) = (ys, cs)"
    by fastforce
  have run: "ingest_linked_job_completions env sid only s = thenM (whenM (cs \<noteq> []) (write_linked_job_registry (ce_vera env) sid
      (dput (dput ?reg ''tracked'' (PList (last_n max_linked_job_track ys)))
        ''completions'' (PList (last_n max_linked_completions (completions_of s sid @ map PDict cs)))))) (retM cs) s"
    using i by (simp add: ingest_linked_job_completions_def Let_def t_def o'_def completions_of_def tracked_jobs_def)
  have tr: "tracks L (tracked_jobs s sid)" and one: "one_each L (completions_of s sid)" using inv by (simp_all add: registered_def)
  have new: "tracks L ys" "one_each (L - completion_refs (completions_of s sid)) (map PDict cs)" "shown (map PDict cs) = 0"
    using ingest_tracked_run [OF completion_fields i tr] by simp_all
  have all: "one_each L (completions_of s sid @ map PDict cs)" by (rule one_each_append [OF one new(2)])
  have uncut: "last_n max_linked_completions (completions_of s sid @ map PDict cs) = completions_of s sid @ map PDict cs"
    using one_each_length [OF all L(1)] L(2) by (intro last_n_snoc) simp
  show thesis
  proof (cases "cs = []")
    case True
    then show thesis using that [of cs s] run inv by (simp add: whenM_def shown_def)
  next
    case False
    let ?new = "dput (dput ?reg ''tracked'' (PList (last_n max_linked_job_track ys)))
        ''completions'' (PList (completions_of s sid @ map PDict cs))"
    obtain s' where s': "write_linked_job_registry (ce_vera env) sid ?new s = (Inr (), s')" "read_linked_job_registry s' sid = ?new"
      "read_session_turns s' sid = read_session_turns s sid" by (rule registry_run [OF ok])
    have c: "completions_of s' sid = completions_of s sid @ map PDict cs" "tracked_jobs s' sid = last_n max_linked_job_track ys"
      by (simp_all add: completions_of_def tracked_jobs_def s'(2))
    have "ingest_linked_job_completions env sid only s = (Inr cs, s')"
      using run False s'(1) by (simp add: uncut whenM_def thenM_def bindM_def)
    moreover have "registered L sid s'" using all tracks_last [OF new(1)] by (simp add: registered_def c)
    moreover have "shown (completions_of s' sid) = shown (completions_of s sid)" using new(3) by (simp add: c shown_def)
    ultimately show thesis using that s'(3) c(1) by blast
  qed
qed

section \<open>Delivery with the next turn\<close>

lemma filter_set: "i < length xs \<Longrightarrow> \<not> P (xs ! i) \<Longrightarrow> P y \<Longrightarrow> length (filter P (xs[i := y])) = Suc (length (filter P xs))"
  by (induction xs arbitrary: i) (auto split: nat.splits)

lemma surface_first_some:
  "surface_first sid t cs ob = Inr (Some (i, c, k, ob')) \<Longrightarrow> (i, c) \<in> set cs \<and> \<not> surfaced c"
proof (induction cs arbitrary: ob)
  case (Cons x cs)
  then show ?case by (cases x) (auto simp: bindR_def split: sum.splits if_splits dest: Cons.IH)
qed simp

lemma mapR_keeps: "mapR f xs = Inr ys \<Longrightarrow> y \<in> set ys \<Longrightarrow> \<exists>x \<in> set xs. f x = Inr y"
  by (induction xs arbitrary: ys) (auto simp: bindR_def split: sum.splits)

lemma surface_order_members:
  assumes "surface_order latest xs = Inr cs" and "(i, c) \<in> set cs"
  shows "i < length xs \<and> xs ! i = PDict c"
proof -
  define zs where "zs = map (\<lambda>(i, x). (i, the_dict x)) (filter (\<lambda>(i, x). is_dict x
    \<and> (latest \<noteq> [] \<longrightarrow> clean_str (get (the_dict x) ''job_ref'') = latest)) (List.enumerate 0 xs))"
  obtain ks where ks: "mapR (\<lambda>(i, c). bindR (completion_priority latest c) (\<lambda>p. Inr (p, i, c))) zs = Inr ks"
    "cs = map snd (rev (sort_key fst (rev ks)))"
    using assms(1) by (auto simp: surface_order_def zs_def [symmetric] bindR_def split: sum.splits)
  then obtain p where "(p, i, c) \<in> set ks" using assms(2) by auto
  then have "(i, c) \<in> set zs" using mapR_keeps [OF ks(1)] by (fastforce simp: bindR_def split: sum.splits)
  then show ?thesis by (auto simp: zs_def in_set_enumerate_eq is_dict_iff)
qed

lemma one_each_update:
  assumes "one_each L xs" and "i < length xs" and "xs ! i = PDict c" and "item_ref (PDict d) = item_ref (PDict c)"
  shows "one_each L (xs[i := PDict d])"
proof -
  have "map item_ref (xs[i := PDict d]) = map item_ref xs"
    using assms(2-4) by (simp add: map_update list_update_same_conv)
  then show ?thesis using assms(1) set_update_subset_insert [of xs i "PDict d"]
    unfolding one_each_def list_all_iff set_map [symmetric] by auto
qed

lemma surface_run:
  assumes ok: "writes_ok (ce_vera env)" "sid \<noteq> []" and L: "finite L" "card L \<le> max_linked_completions" and inv: "registered L sid s"
    and run: "maybe_auto_surface env sid s = (r, s')"
  shows "registered L sid s' \<and> read_session_turns s' sid = read_session_turns s sid
    \<and> shown (completions_of s' sid) = shown (completions_of s sid) + (if \<exists>m. r = Inr (Some m) then 1 else 0)"
proof -
  let ?reg = "read_linked_job_registry s sid"
  let ?cs = "completions_of s sid"
  define t where "t = vn_now (ce_vera env) s"
  define found where "found = bindR (surface_order (handoff_ref s sid) ?cs) (\<lambda>cs. surface_first sid t cs (outbox_of ?reg))"
  show ?thesis
  proof (cases "handoff_pending (handoff_ref s sid) ?reg \<or> \<not> (\<exists>x. found = Inr (Some x))")
    case True
    then have "s' = s \<and> \<not> (\<exists>m. r = Inr (Some m))"
      using run by (auto simp: maybe_auto_surface_def Let_def t_def [symmetric] completions_of_def [symmetric] found_def [symmetric]
          bindM_def liftR_def split: sum.splits option.splits if_splits)
    with inv show ?thesis by simp
  next
    case False
    then obtain i c k ob where f: "found = Inr (Some (i, c, k, ob))" by auto
    obtain cs where cs: "surface_order (handoff_ref s sid) ?cs = Inr cs" "surface_first sid t cs (outbox_of ?reg) = Inr (Some (i, c, k, ob))"
      using f by (auto simp: found_def bindR_def split: sum.splits)
    have ic: "(i, c) \<in> set cs" "\<not> surfaced c" using surface_first_some [OF cs(2)] by simp_all
    have at_i: "i < length ?cs" "?cs ! i = PDict c" using surface_order_members [OF cs(1) ic(1)] by simp_all
    let ?new = "?cs[i := PDict (mark_surfaced t c)]"
    have one: "one_each L ?new"
      using inv at_i by (intro one_each_update) (simp_all add: registered_def item_ref_def mark_surfaced_def)
    have uncut: "last_n max_linked_completions ?new = ?new"
      using one_each_length [OF one L(1)] L(2) by (intro last_n_snoc) simp
    let ?out = "put_outbox (revise k (delivered_fields t ''fallback_delivered'') (ob_mine ob)) ?new ?reg"
    obtain u where u: "write_linked_job_registry (ce_vera env) sid ?out s = (Inr (), u)" "read_linked_job_registry u sid = ?out"
      "read_session_turns u sid = read_session_turns s sid" by (rule registry_run [OF ok])
    have "maybe_auto_surface env sid s = (Inr (Some (completion_message c)), u)"
      using False f u(1) by (simp add: maybe_auto_surface_def Let_def t_def [symmetric] completions_of_def [symmetric] found_def [symmetric]
          bindM_def liftR_def thenM_def)
    then have r: "r = Inr (Some (completion_message c))" "s' = u" using run by simp_all
    have c: "completions_of u sid = ?new" "tracked_jobs u sid = tracked_jobs s sid"
      by (simp_all add: completions_of_def tracked_jobs_def u(2) put_outbox_def uncut [unfolded completions_of_def])
    have "shown ?new = Suc (shown ?cs)"
      unfolding shown_def by (rule filter_set) (use at_i ic(2) in \<open>simp_all add: surfaced_def mark_surfaced_def\<close>)
    then show ?thesis using inv one u(3) by (simp add: r registered_def c)
  qed
qed

section \<open>Live delivery\<close>

lemma deliver_none:
  "ref \<notin> item_ref ` set xs \<Longrightarrow> deliver_each env sid ref xs ob = retM (xs, ob, False, False)"
  by (induction xs) auto

lemma live_attempt_run:
  assumes ok: "writes_ok (ce_vera env)" "sid \<noteq> []" and run: "attempt_live_delivery env sid c s = (r, s')"
  shows "read_linked_job_registry s' sid = read_linked_job_registry s sid
    \<and> (case r of Inl e \<Rightarrow> s' = s
       | Inr (nw, d, f) \<Rightarrow> item_ref (PDict d) = item_ref (PDict c) \<and> (surfaced c \<longrightarrow> surfaced d) \<and>
           (s' = s \<or> \<not> surfaced c \<and> surfaced d \<and> (\<exists>ts. length ts \<le> 1 \<and> read_session_turns s' sid = read_session_turns s sid @ ts)))"
proof (cases "\<not> surfaced c \<and> delivery_eligible c = Inr True \<and> session_file s sid \<noteq> None")
  case False
  then show ?thesis using run
    by (auto simp: attempt_live_delivery_def bindM_def liftR_def getM_def retM_def split: sum.splits if_splits)
next
  case True
  let ?m = "append_session_turn (ce_vera env) sid ''assistant'' (completion_message c) None"
  obtain u where u: "?m s = (Inr (read_session_turns s sid @ [turn_payload ''assistant'' (completion_message c) None]), u)"
    "touches sid [''recent_saveable_assistant_artifacts'', ''last_user_input_origin''] s u" by (rule turn_run [OF ok])
  let ?t = "vn_now (ce_vera env) u"
  have "attempt_live_delivery env sid c s = (Inr (True, mark_surfaced ?t c, delivered_fields ?t ''delivered''), u)"
    using True by (simp add: attempt_live_delivery_def attemptM_def bindM_def liftR_def getM_def retM_def u(1))
  then have r: "r = Inr (True, mark_surfaced ?t c, delivered_fields ?t ''delivered'')" "s' = u" using run by simp_all
  have "read_linked_job_registry u sid = read_linked_job_registry s sid"
    using u(2) keys(3) by (simp add: touches_def read_linked_job_registry_def)
  moreover have "\<exists>ts. length ts \<le> 1 \<and> read_session_turns u sid = read_session_turns s sid @ ts"
    using turns_after_turn [OF ok, of "''assistant''" "completion_message c" None s] by (auto simp: u(1) split: option.splits)
  ultimately show ?thesis using True by (simp add: r item_ref_def mark_surfaced_def surfaced_def)
qed

text \<open>Of a job with one completion at most one message is added, and then its completion is marked.\<close>

lemma deliver_each_run:
  assumes ok: "writes_ok (ce_vera env)" "sid \<noteq> []"
  shows "list_all is_dict xs \<Longrightarrow> distinct (map item_ref xs) \<Longrightarrow> deliver_each env sid ref xs ob s = (r, s') \<Longrightarrow>
    read_linked_job_registry s' sid = read_linked_job_registry s sid
    \<and> (case r of Inl e \<Rightarrow> s' = s
       | Inr (ys, ob', changed, delivered) \<Rightarrow> list_all is_dict ys \<and> map item_ref ys = map item_ref xs \<and> (changed \<or> s' = s \<and> ys = xs)
           \<and> (\<exists>ts. read_session_turns s' sid = read_session_turns s sid @ ts \<and> shown xs + length ts \<le> shown ys))"
proof (induction xs arbitrary: ob r)
  case Nil
  then show ?case by (auto simp: retM_def)
next
  case (Cons x xs)
  show ?case
  proof (cases "item_ref x = ref")
    case False
    obtain q where q: "deliver_each env sid ref xs ob s = (q, s')"
      "r = (case q of Inl e \<Rightarrow> Inl e | Inr (ys, ob', changed, delivered) \<Rightarrow> Inr (x # ys, ob', changed, delivered))"
      using Cons.prems(3) False by (auto simp: bindM_def retM_def split: prod.splits sum.splits)
    with Cons.IH [OF _ _ q(1)] Cons.prems(1,2) show ?thesis
      by (auto simp: shown_def split: sum.splits prod.splits)
  next
    case True
    then have rest: "deliver_each env sid ref xs ob1 = retM (xs, ob1, False, False)" for ob1
      using Cons.prems(2) by (intro deliver_none) auto
    have x: "is_dict x" "list_all is_dict xs" using Cons.prems(1) by simp_all
    define up where "up = upsert_notification sid (vn_now (ce_vera env) s) (the_dict x) ob"
    show ?thesis
    proof (cases up)
      case (Inl e)
      then have "r = Inl e \<and> s' = s" using Cons.prems(3) True x(1) by (simp add: up_def bindM_def liftR_def getM_def)
      then show ?thesis by simp
    next
      case (Inr p)
      obtain k ob1 where p: "p = (k, ob1)" by fastforce
      obtain q u where a: "attempt_live_delivery env sid (the_dict x) s = (q, u)" by fastforce
      have e: "(r, s') = (case q of Inl e \<Rightarrow> (Inl e, u) | Inr (nw, c, f) \<Rightarrow> (Inr (PDict c # xs, revise_note k f ob1, True, nw), u))"
        using Cons.prems(3) True x(1) Inr p by (simp add: up_def bindM_def liftR_def getM_def a rest retM_def split: sum.splits prod.splits)
      have x': "PDict (the_dict x) = x" using x(1) by (auto simp: is_dict_iff)
      show ?thesis using e live_attempt_run [OF ok a] x x'
        by (fastforce simp: shown_def split: sum.splits prod.splits)
    qed
  qed
qed

lemma live_run:
  assumes ok: "writes_ok (ce_vera env)" "sid \<noteq> []" and L: "finite L" "card L \<le> max_linked_completions" and inv: "registered L sid s"
    and run: "maybe_deliver_live env sid job_ref s = (r, s')"
  shows "registered L sid s' \<and> (\<exists>ts. read_session_turns s' sid = read_session_turns s sid @ ts
    \<and> shown (completions_of s sid) + length ts \<le> shown (completions_of s' sid))"
proof -
  obtain cs u where u: "ingest_linked_job_completions env sid (Some job_ref) s = (Inr cs, u)" "registered L sid u"
    "shown (completions_of u sid) = shown (completions_of s sid)" "read_session_turns u sid = read_session_turns s sid"
    by (rule ingest_run [OF ok L inv])
  let ?reg = "read_linked_job_registry u sid"
  obtain q v where d: "deliver_each env sid (path_name job_ref) (completions_of u sid) (outbox_of ?reg) u = (q, v)" by fastforce
  have one: "one_each L (completions_of u sid)" using u(2) by (simp add: registered_def)
  have steps: "read_linked_job_registry v sid = ?reg"
    "case q of Inl e \<Rightarrow> v = u
     | Inr (ys, ob', changed, delivered) \<Rightarrow> list_all is_dict ys \<and> map item_ref ys = map item_ref (completions_of u sid) \<and> (changed \<or> v = u \<and> ys = completions_of u sid)
         \<and> (\<exists>ts. read_session_turns v sid = read_session_turns u sid @ ts \<and> shown (completions_of u sid) + length ts \<le> shown ys)"
    using deliver_each_run [OF ok _ _ d] one by (simp_all add: one_each_def)
  have e: "(r, s') = (case q of Inl e \<Rightarrow> (Inl e, v) | Inr (ys, ob, changed, delivered) \<Rightarrow>
      thenM (whenM changed (write_linked_job_registry (ce_vera env) sid (put_outbox (ob_registry ob) ys ?reg))) (retM delivered) v)"
    unfolding run [symmetric] maybe_deliver_live_def thenM_run(1) [where m = "ingest_linked_job_completions env sid (Some job_ref)" and s = s, OF u(1)]
    by (simp add: bindM_def getM_def d [unfolded completions_of_def] split: sum.split prod.split)
  show ?thesis
  proof (cases "\<exists>ys ob delivered. q = Inr (ys, ob, True, delivered)")
    case False
    then have "s' = u" using e steps(2) by (auto simp: whenM_def retM_def split: sum.splits prod.splits)
    then show ?thesis using u by simp
  next
    case True
    then obtain ys ob delivered where q: "q = Inr (ys, ob, True, delivered)" by blast
    obtain ts where ys: "list_all is_dict ys" "map item_ref ys = map item_ref (completions_of u sid)"
      "read_session_turns v sid = read_session_turns u sid @ ts" "shown (completions_of u sid) + length ts \<le> shown ys"
      using steps(2) by (auto simp: q)
    have one': "one_each L ys" using one ys(1,2) unfolding one_each_def set_map [symmetric] by simp
    have uncut: "last_n max_linked_completions ys = ys" using one_each_length [OF one' L(1)] L(2) by (intro last_n_snoc) simp
    let ?out = "put_outbox (ob_registry ob) ys ?reg"
    obtain w where w: "write_linked_job_registry (ce_vera env) sid ?out v = (Inr (), w)" "read_linked_job_registry w sid = ?out"
      "read_session_turns w sid = read_session_turns v sid" by (rule registry_run [OF ok])
    have "s' = w" using e by (simp add: q whenM_def thenM_def bindM_def w(1) retM_def)
    moreover have "completions_of w sid = ys" "tracked_jobs w sid = tracked_jobs u sid"
      by (simp_all add: completions_of_def tracked_jobs_def w(2) put_outbox_def uncut)
    ultimately show ?thesis using u one' ys(3,4) w(3) by (auto simp: registered_def)
  qed
qed

section \<open>Runs\<close>

datatype delivery_event = Link string | Collect "string option" | Surface | Deliver string

fun delivery_op :: "completion_env \<Rightarrow> string \<Rightarrow> delivery_event \<Rightarrow> (bool, vera) prog" where
  "delivery_op env sid (Link r) = thenM (register_session_linked_job (ce_vera env) sid r) (retM False)"
| "delivery_op env sid (Collect only) = thenM (ingest_linked_job_completions env sid only) (retM False)"
| "delivery_op env sid Surface = bindM (maybe_auto_surface env sid) (\<lambda>m. retM (m \<noteq> None))"
| "delivery_op env sid (Deliver r) = thenM (maybe_deliver_live env sid r) (retM False)"

text \<open>The messages of an event: those it answers and the turns it adds\<close>

definition turn_count :: "vera \<Rightarrow> string \<Rightarrow> nat" where
  "turn_count s sid = length (read_session_turns s sid)"

fun delivery_run :: "completion_env \<Rightarrow> string \<Rightarrow> delivery_event list \<Rightarrow> vera \<Rightarrow> nat \<times> vera" where
  "delivery_run env sid [] s = (0, s)"
| "delivery_run env sid (e # es) s = (case delivery_op env sid e s of (r, s1) \<Rightarrow>
     (case delivery_run env sid es s1 of (n, s2) \<Rightarrow> ((if r = Inr True then 1 else 0) + (turn_count s1 sid - turn_count s sid) + n, s2)))"

definition linked_names :: "delivery_event list \<Rightarrow> string set" where
  "linked_names es = {n. \<exists>r. Link r \<in> set es \<and> n = strip (path_name r) \<and> n \<noteq> []}"

lemma linked_finite: "finite (linked_names es)"
proof -
  have "linked_names es \<subseteq> (\<lambda>e. case e of Link r \<Rightarrow> strip (path_name r) | _ \<Rightarrow> []) ` set es"
    by (force simp: linked_names_def split: delivery_event.splits)
  then show ?thesis by (rule finite_subset) simp
qed

lemma link_run:
  assumes ok: "writes_ok env" "sid \<noteq> []" and inv: "registered L sid s" and ref: "strip (path_name r) \<noteq> [] \<Longrightarrow> strip (path_name r) \<in> L"
  shows "registered L sid (snd (register_session_linked_job env sid r s))
    \<and> completions_of (snd (register_session_linked_job env sid r s)) sid = completions_of s sid
    \<and> read_session_turns (snd (register_session_linked_job env sid r s)) sid = read_session_turns s sid"
proof (cases "strip (path_name r) = []")
  case True
  then show ?thesis using inv by (simp add: register_session_linked_job_def retM_def)
next
  case False
  let ?reg = "read_linked_job_registry s sid"
  let ?xs = "last_n max_linked_job_track (link_job sid (strip (path_name r)) (vn_now env s) (the_list (get ?reg ''tracked'')))"
  let ?new = "list_field (list_field (dput ?reg ''tracked'' (PList ?xs)) ''completions'') ''notification_outbox''"
  obtain u where u: "write_linked_job_registry env sid ?new s = (Inr (), u)" "read_linked_job_registry u sid = ?new"
    "read_session_turns u sid = read_session_turns s sid" by (rule registry_run [OF ok])
  have run: "snd (register_session_linked_job env sid r s) = u"
    using False u(1) by (simp add: register_session_linked_job_def Let_def)
  have "tracks L (link_job sid (strip (path_name r)) (vn_now env s) (tracked_jobs s sid))"
    using inv ref [OF False] False by (intro tracks_link) (simp_all add: registered_def)
  then have "tracks L (tracked_jobs u sid)"
    by (auto simp: tracked_jobs_def u(2) list_field_def intro: tracks_last)
  moreover have "completions_of u sid = completions_of s sid"
    by (auto simp: completions_of_def u(2) list_field_def split: py.split elim: is_list.elims)
  ultimately show ?thesis using inv u(3) by (simp add: run registered_def)
qed

lemma delivery_step:
  assumes ok: "writes_ok (ce_vera env)" "sid \<noteq> []" and L: "finite L" "card L \<le> max_linked_completions" "linked_names [e] \<subseteq> L"
    and inv: "registered L sid s" and run: "delivery_op env sid e s = (r, s')"
  shows "registered L sid s' \<and> (if r = Inr True then 1 else 0) + (turn_count s' sid - turn_count s sid) + shown (completions_of s sid)
    \<le> shown (completions_of s' sid)"
proof (cases e)
  case (Link n)
  have ref: "strip (path_name n) \<noteq> [] \<Longrightarrow> strip (path_name n) \<in> L" using L(3) by (auto simp: Link linked_names_def)
  have "s' = snd (register_session_linked_job (ce_vera env) sid n s)" "r \<noteq> Inr True"
    using run by (auto simp: Link thenM_def bindM_def retM_def split: prod.splits sum.splits)
  with link_run [OF ok inv ref] show ?thesis by (simp add: turn_count_def)
next
  case (Collect only)
  obtain cs u where "ingest_linked_job_completions env sid only s = (Inr cs, u)" "registered L sid u"
    "shown (completions_of u sid) = shown (completions_of s sid)" "read_session_turns u sid = read_session_turns s sid"
    by (rule ingest_run [OF ok L(1,2) inv])
  then show ?thesis using run by (auto simp: Collect thenM_def bindM_def retM_def turn_count_def)
next
  case Surface
  obtain q u where q: "maybe_auto_surface env sid s = (q, u)" by fastforce
  have "s' = u \<and> (r = Inr True \<longrightarrow> (\<exists>m. q = Inr (Some m)))"
    using run by (auto simp: Surface bindM_def retM_def q split: sum.splits)
  with surface_run [OF ok L(1,2) inv q] show ?thesis by (auto simp: turn_count_def)
next
  case (Deliver n)
  obtain q u where q: "maybe_deliver_live env sid n s = (q, u)" by fastforce
  have "s' = u \<and> r \<noteq> Inr True" using run by (auto simp: Deliver thenM_def bindM_def retM_def q split: sum.splits)
  with live_run [OF ok L(1,2) inv q] show ?thesis by (auto simp: turn_count_def)
qed

lemma delivery_run_counts:
  assumes ok: "writes_ok (ce_vera env)" "sid \<noteq> []" and L: "finite L" "card L \<le> max_linked_completions"
  shows "delivery_run env sid es s = (n, s') \<Longrightarrow> linked_names es \<subseteq> L \<Longrightarrow> registered L sid s \<Longrightarrow>
    registered L sid s' \<and> n + shown (completions_of s sid) \<le> shown (completions_of s' sid)"
proof (induction es arbitrary: s n)
  case (Cons e es)
  obtain r u where r: "delivery_op env sid e s = (r, u)" by fastforce
  obtain m v where m: "delivery_run env sid es u = (m, v)" by fastforce
  have n: "n = (if r = Inr True then 1 else 0) + (turn_count u sid - turn_count s sid) + m" "s' = v"
    using Cons.prems(1) r m by simp_all
  have names: "linked_names [e] \<subseteq> L" "linked_names es \<subseteq> L" using Cons.prems(2) by (auto simp: linked_names_def)
  have step: "registered L sid u" "(if r = Inr True then 1 else 0) + (turn_count u sid - turn_count s sid) + shown (completions_of s sid) \<le> shown (completions_of u sid)"
    using delivery_step [OF ok L names(1) Cons.prems(3) r] by simp_all
  have "registered L sid v" "m + shown (completions_of u sid) \<le> shown (completions_of v sid)"
    using Cons.IH [of u m] m n(2) names(2) step(1) by simp_all
  with step(2) show ?case unfolding n by linarith
qed simp

lemma shown_bound: "registered L sid s \<Longrightarrow> finite L \<Longrightarrow> shown (completions_of s sid) \<le> card L"
  using one_each_length [of L "completions_of s sid"] length_filter_le order_trans
  unfolding registered_def shown_def by blast

lemma delivery_run_append:
  "delivery_run env sid (es @ fs) s = (case delivery_run env sid es s of (n, u) \<Rightarrow>
     case delivery_run env sid fs u of (m, v) \<Rightarrow> (n + m, v))"
  by (induction es arbitrary: s) (simp_all split: prod.split)

end
