(* ===== verification/Vera_Theorems.thy ===== *)
theory Vera_Theorems
  imports Vera_Runs Vera_Delivery Automation_Theorems
begin

text \<open>The properties of the assistant's previews and sessions, with their witnesses.\<close>

section \<open>A sample session\<close>

definition sample_vera_env :: vera_env where
  "sample_vera_env = \<lparr>vn_auto = sample_auto_env, vn_now = (\<lambda>s. 5), vn_write_error = (\<lambda>p d s. None),
     vn_torn = (\<lambda>p d s. False), vn_artifact = (\<lambda>t. None)\<rparr>"

definition sample_vera :: vera where
  "sample_vera = \<lparr>ve_sessions = [], ve_files = []\<rparr>"

definition sample_preview :: dict where
  "sample_preview = [(''goal'', PStr ''write a note''), (''write_file'', PDict [(''path'', PStr ''~/VoxeraOS/notes/a.txt''),
     (''content'', PStr ''hello'')])]"

lemma sample_writes: "writes_ok sample_vera_env"
  by (simp add: writes_ok_def sample_vera_env_def)

definition sample_ready :: vera where
  "sample_ready = sample_vera\<lparr>ve_sessions := [(''s'', Some (PDict [(''pending_job_preview'', PDict sample_preview)]))]\<rparr>"

lemma sample_offered: "offered (read_session_preview sample_ready ''s'') None = Some sample_preview"
  "read_session_preview sample_ready ''s'' = Some sample_preview"
  "offered (Some sample_preview) (Some sample_preview) = Some sample_preview"
  by code_simp+

lemma sample_target: obtains q fs' where "inbox_target sample_vera_env sample_preview sample_ready = (Inr q, fs')"
proof -
  have "isl (fst (inbox_target sample_vera_env sample_preview sample_ready)) = False" by code_simp
  with that show thesis by (cases "inbox_target sample_vera_env sample_preview sample_ready"; cases "fst (inbox_target sample_vera_env sample_preview sample_ready)") auto
qed

section \<open>Handoffs\<close>

text \<open>C15 While the session can be written, handing over always answers. A missing or ambiguous preview leaves the queue
  and the preview alone; otherwise the stored preview itself goes to the inbox: when the inbox refuses it, nothing
  changed but the recorded failure, and when it takes it there is one new job and no preview left, and the recorded
  state names the job.\<close>
theorem handoff_outcome:
  assumes "writes_ok env" and "sid \<noteq> []"
  shows "\<exists>reply status s'. submit_handoff env sid preview s = (Inr (reply, status), s')
    \<and> (case offered (read_session_preview s sid) preview of
       None \<Rightarrow> status \<noteq> ''handoff_submitted'' \<and> (\<exists>st. left sid (ve_files s) (read_session_preview s sid) st None s')
     | Some payload \<Rightarrow> (case inbox_target env payload s of
         (Inl e, fs') \<Rightarrow> status = ''handoff_submit_failed'' \<and> left sid (ve_files s) (read_session_preview s sid) ''submit_failed'' None s'
       | (Inr q, fs') \<Rightarrow> status = ''handoff_submitted'' \<and> \<not> exists_file (ve_files s) q \<and> exists_file fs' q
           \<and> (\<exists>rid. q = inbox_path rid \<and> left sid fs' None ''submitted'' (Some rid) s')))"
  by (rule web_submit_run [OF assms]) blast

theorem handoff_outcome_witness:
  "\<exists>reply s' rid. submit_handoff sample_vera_env ''s'' None sample_ready = (Inr (reply, ''handoff_submitted''), s')
     \<and> exists_file (ve_files s') (inbox_path rid) \<and> read_session_preview s' ''s'' = None
     \<and> handoff_shows (read_session_handoff_state s' ''s'') ''submitted'' (Some rid)"
proof -
  obtain q fs' where t: "inbox_target sample_vera_env sample_preview sample_ready = (Inr q, fs')" by (rule sample_target)
  from handoff_outcome [OF sample_writes, of "''s''" None sample_ready]
  obtain reply s' rid where "submit_handoff sample_vera_env ''s'' None sample_ready = (Inr (reply, ''handoff_submitted''), s')"
    "exists_file fs' (inbox_path rid)" "left ''s'' fs' None ''submitted'' (Some rid) s'"
    unfolding sample_offered(1) option.case t prod.case sum.case by blast
  then show ?thesis unfolding left_def by blast
qed

text \<open>C16 While the session can be written: along any sequence of installing, revising, discarding and handing over the
  stored preview and of turns in between, the inbox grows by exactly one job per handoff that is reported as
  submitted, and there are at most as many of them as previews were installed: no preview is handed over twice. A
  handoff offers the preview that is stored; a caller's stale copy and a failing session write are outside.\<close>
theorem previews_handed_over_once:
  assumes "writes_ok env" and "sid \<noteq> []" and "session_run env sid es s = (n, s')"
  shows "inbox_jobs s' = inbox_jobs s + n \<and> n + slot sid s' \<le> length (filter installs es) + slot sid s"
  by (rule session_run_counts [OF assms])

theorem previews_handed_over_once_witness:
  "case session_run sample_vera_env ''s'' [HandOver, HandOver] sample_ready of (n, s') \<Rightarrow>
     n = 1 \<and> inbox_jobs s' = 1 \<and> slot ''s'' s' = 0"
proof -
  obtain n s' where r: "session_run sample_vera_env ''s'' [HandOver, HandOver] sample_ready = (n, s')" by fastforce
  obtain q fs' where t: "inbox_target sample_vera_env sample_preview sample_ready = (Inr q, fs')" by (rule sample_target)
  obtain reply s1 where h: "submit_handoff sample_vera_env ''s'' (Some sample_preview) sample_ready = (Inr (reply, ''handoff_submitted''), s1)"
    using web_submit_run [OF sample_writes, of "''s''" "Some sample_preview" sample_ready]
    unfolding sample_offered option.case t prod.case sum.case by blast
  have "0 < n" using r h by (auto simp: bindM_def sample_offered(2) split: prod.splits)
  moreover have "slot ''s'' sample_ready = 1" "inbox_jobs sample_ready = 0"
    by (simp add: slot_def sample_offered(2)) (simp add: inbox_jobs_def sample_ready_def sample_vera_def exists_file_def file_at_def)
  moreover from previews_handed_over_once [OF sample_writes _ r]
  have "inbox_jobs s' = inbox_jobs sample_ready + n \<and> n + slot ''s'' s' \<le> slot ''s'' sample_ready" by simp
  ultimately show ?thesis using r by simp
qed

section \<open>Completions\<close>

text \<open>C17 While the session can be written: along any sequence of links, ingestions, live deliveries and turns that
  surface a completion, a session that starts without jobs and completions and links at most 64 jobs, as many as it
  keeps, gets at most one message per linked job.\<close>
theorem one_message_per_job:
  assumes "writes_ok (ce_vera env)" and "sid \<noteq> []" and "tracked_jobs s sid = []" and "completions_of s sid = []"
    and "card (linked_names es) \<le> max_linked_completions" and "delivery_run env sid es s = (n, s')"
  shows "n \<le> card (linked_names es)"
proof -
  have fin: "finite (linked_names es)" by (rule linked_finite)
  have "registered (linked_names es) sid s" by (simp add: registered_def one_each_def tracks_def assms(3,4))
  from delivery_run_counts [OF assms(1,2) fin assms(5,6) subset_refl this]
  have "registered (linked_names es) sid s'" "n \<le> shown (completions_of s' sid)" by simp_all
  with shown_bound [OF _ fin] show ?thesis by (meson le_trans)
qed

definition sample_done :: evidence where
  "sample_done = \<lparr>ev_bucket = ''done'', ev_structured = [(''terminal_outcome'', PStr ''succeeded'')], ev_state = [], ev_job = []\<rparr>"

definition sample_completion_env :: completion_env where
  "sample_completion_env = \<lparr>ce_vera = sample_vera_env, ce_evidence = (\<lambda>fs r. Some sample_done),
     ce_diagnostics = (\<lambda>d m. []), ce_value_text = (\<lambda>d m. None)\<rparr>"

lemma sample_delivery: "fst (delivery_run sample_completion_env ''s'' [Link ''j.json'', Collect None, Surface] sample_vera) = 1"
  by code_simp

theorem one_message_per_job_witness:
  "fst (delivery_run sample_completion_env ''s'' ([Link ''j.json'', Collect None, Surface] @ [Surface, Deliver ''j.json'', Link ''j.json'', Surface])
     sample_vera) = 1"
proof -
  let ?es = "[Link ''j.json'', Collect None, Surface] @ [Surface, Deliver ''j.json'', Link ''j.json'', Surface]"
  obtain n s' where r: "delivery_run sample_completion_env ''s'' ?es sample_vera = (n, s')" by fastforce
  have "strip (path_name ''j.json'') = ''j.json''" by code_simp
  then have "linked_names ?es = {''j.json''}" by (auto simp: linked_names_def)
  then have card: "card (linked_names ?es) = 1" by simp
  have "writes_ok (ce_vera sample_completion_env)" by (simp add: sample_completion_env_def sample_writes)
  moreover have "tracked_jobs sample_vera ''s'' = []" "completions_of sample_vera ''s'' = []" by code_simp+
  moreover have "card (linked_names ?es) \<le> max_linked_completions" unfolding card by (simp add: max_linked_completions_def)
  ultimately have "n \<le> 1" using one_message_per_job [OF _ _ _ _ _ r] unfolding card by simp
  moreover have "1 \<le> n" using r sample_delivery unfolding delivery_run_append by (simp split: prod.splits)
  ultimately show ?thesis unfolding r by simp
qed

text \<open>The notification of a completion that surfaces after another one was passed over is not among those stored:
  the caller's list is the one of the registry only until the first of them.\<close>

lemma notification_lost:
  "case surface_first ''s'' 5 [(0, [(''job_ref'', PStr ''a.json''), (''surfacing_policy'', PStr ''manual_only'')]),
       (1, [(''job_ref'', PStr ''b.json''), (''surfacing_policy'', PStr ''failed''), (''terminal_outcome'', PStr ''failed'')])]
       (outbox_of [(''notification_outbox'', PList [])]) of
     Inr (Some (i, c, k, ob)) \<Rightarrow> i = 1 \<and> list_all (\<lambda>(j, n). j \<noteq> k) (ob_mine ob) | _ \<Rightarrow> False"
  by code_simp

section \<open>Contracts\<close>

text \<open>C18 A preview in normal form has a goal to submit, and the queue's extractors take over each of its requests
  that is an object: a \<open>write_file\<close> and a \<open>file_organize\<close> object unchanged, a child with its goal and title. The
  path of a \<open>write_file\<close> object passes the text test of the notes, which a sibling like \<open>~/VoxeraOS/notes-old\<close>
  passes too (\<open>notes_sibling_accepted\<close>). Not covered are a request that is null, which the normal form leaves
  and the extractors reject, and the confinement of the paths of a \<open>file_organize\<close> object and of the steps.\<close>
theorem preview_meets_contract:
  assumes "normalize_preview_payload ks p = Inr q"
  shows "canonical_request_anchor_text q \<noteq> None
    \<and> (\<forall>w. get q ''write_file'' = PDict w \<longrightarrow> extract_write_file_request q = Inr (PDict w) \<and> safe_notes_text (the_str (get w ''path'')))
    \<and> (\<forall>w. get q ''file_organize'' = PDict w \<longrightarrow> extract_file_organize_request q = Inr (PDict w))
    \<and> (\<forall>w. get q ''enqueue_child'' = PDict w \<longrightarrow> extract_enqueue_child_request q =
         Inr (PDict [(''goal'', get w ''goal''), (''title'', get w ''title'')]))"
proof -
  note n = normal_preview [OF assms]
  obtain goal where "get q ''goal'' = PStr goal" "goal \<noteq> []" "strip goal = goal" using n(1) by blast
  then have "first_text q [''goal'', ''plan_goal''] \<noteq> None"
    by (simp add: first_text_def List.map_filter_def clean_or_none_def)
  then have "canonical_request_anchor_text q \<noteq> None"
    by (auto simp: canonical_request_anchor_text_def split: option.splits)
  moreover have "extract_write_file_request q = Inr (PDict w) \<and> safe_notes_text (the_str (get w ''path''))"
    if w: "get q ''write_file'' = PDict w" for w
    using n(3) [OF w] write_file_accepted [OF w] by blast
  moreover have "extract_file_organize_request q = Inr (PDict w)" if w: "get q ''file_organize'' = PDict w" for w
    using n(4) [OF w] file_organize_accepted [OF w] by blast
  moreover have "extract_enqueue_child_request q = Inr (PDict [(''goal'', get w ''goal''), (''title'', get w ''title'')])"
    if w: "get q ''enqueue_child'' = PDict w" for w
    using n(2) [OF w] child_accepted [OF w] by blast
  ultimately show ?thesis by blast
qed

theorem preview_meets_contract_witness:
  "\<exists>q w. normalize_preview_payload [''goal'', ''write_file''] sample_preview = Inr q \<and> get q ''write_file'' = PDict w
     \<and> extract_write_file_request q = Inr (PDict w) \<and> canonical_request_anchor_text q \<noteq> None"
proof -
  have "(case normalize_preview_payload [''goal'', ''write_file''] sample_preview of Inr q \<Rightarrow> is_dict (get q ''write_file'') | Inl e \<Rightarrow> False)"
    by code_simp
  then obtain q w where q: "normalize_preview_payload [''goal'', ''write_file''] sample_preview = Inr q" "get q ''write_file'' = PDict w"
    by (auto split: sum.splits elim: is_dict.elims)
  then show ?thesis using preview_meets_contract [OF q(1)] by blast
qed

section \<open>Sessions\<close>

text \<open>C19 A shared context that is written is read back as it was returned: it is in normal form.\<close>
theorem context_roundtrip:
  assumes "writes_ok env" and "sid \<noteq> []" and "0 < vn_now env s"
  shows "\<exists>d s'. write_session_context env sid c s = (Inr d, s') \<and> read_session_context s' sid = d"
proof -
  let ?d = "dput (normalize_shared_context (PDict c)) ''updated_at_ms'' (PInt (vn_now env s))"
  obtain s' where s': "write_session_field env sid ''shared_context'' (Some ?d) s = (Inr (), s')"
    "read_dict_field s' sid ''shared_context'' = Some ?d" by (rule field_run [OF assms(1,2) keys(4)])
  have "write_session_context env sid c s = (Inr ?d, s')"
    by (simp add: write_session_context_def thenM_def bindM_def s'(1))
  moreover have "get (read_session_payload s' sid) ''shared_context'' = PDict ?d"
    using s'(2) by (auto simp: read_dict_field_def split: py.splits)
  ultimately show ?thesis using context_fixed [OF assms(3) refl] by (simp add: read_session_context_def)
qed

theorem context_roundtrip_witness:
  "\<exists>d s'. write_session_context sample_vera_env ''s'' [(''active_topic'', PStr '' notes '')] sample_vera = (Inr d, s')
     \<and> read_session_context s' ''s'' = d \<and> get d ''active_topic'' = PStr ''notes''"
proof -
  have now: "''s'' \<noteq> []" "0 < vn_now sample_vera_env sample_vera" by (simp_all add: sample_vera_env_def)
  obtain d s' where d: "write_session_context sample_vera_env ''s'' [(''active_topic'', PStr '' notes '')] sample_vera = (Inr d, s')"
    "read_session_context s' ''s'' = d"
    using context_roundtrip [OF sample_writes, of "''s''" sample_vera] now by blast
  have "(case fst (write_session_context sample_vera_env ''s'' [(''active_topic'', PStr '' notes '')] sample_vera) of
      Inr d \<Rightarrow> get d ''active_topic'' = PStr ''notes'' | Inl e \<Rightarrow> False)" by code_simp
  with d show ?thesis by simp
qed

text \<open>C20 The registry of linked jobs keeps at most 64 entries, one per job, and a job that is registered is in it.\<close>
theorem linked_jobs_kept:
  assumes "writes_ok env" and "sid \<noteq> []" and "well_linked (tracked_jobs s sid)"
    and "ref = strip (path_name job_ref)" "ref \<noteq> []" "path_name ref = ref"
  shows "let s' = snd (register_session_linked_job env sid job_ref s) in
    well_linked (tracked_jobs s' sid) \<and> ref \<in> set (read_linked_job_refs s' sid)"
proof -
  let ?s = "snd (register_session_linked_job env sid job_ref s)"
  have t: "tracked_jobs ?s sid = last_n max_linked_job_track (link_job sid ref (vn_now env s) (tracked_jobs s sid))"
    by (rule register_run [OF assms(1,2,4,5)])
  have ref: "strip ref = ref" by (simp add: assms(4))
  have w: "well_linked (tracked_jobs ?s sid) \<and> ref \<in> set (map entry_ref (tracked_jobs ?s sid))"
    unfolding t by (rule link_step [OF assms(3,5) ref assms(6)])
  then have "tracked_jobs ?s sid \<noteq> []" by auto
  then have "get (read_linked_job_registry ?s sid) ''tracked'' = PList (tracked_jobs ?s sid)"
    by (cases "get (read_linked_job_registry ?s sid) ''tracked''") (simp_all add: tracked_jobs_def)
  then have "read_linked_job_refs ?s sid = map entry_ref (tracked_jobs ?s sid)"
    using w by (simp add: read_linked_job_refs_def linked_refs well_linked_def)
  with w show ?thesis by (simp add: Let_def)
qed

theorem linked_jobs_kept_witness:
  "''inbox-1.json'' \<in> set (read_linked_job_refs (snd (register_session_linked_job sample_vera_env ''s'' ''inbox-1.json'' sample_vera)) ''s'')"
proof -
  have "tracked_jobs sample_vera ''s'' = []" "''inbox-1.json'' = strip (path_name ''inbox-1.json'')" "path_name ''inbox-1.json'' = ''inbox-1.json''"
    by code_simp+
  with linked_jobs_kept [OF sample_writes, of "''s''" sample_vera "''inbox-1.json''" "''inbox-1.json''"] show ?thesis
    by (simp add: well_linked_def Let_def)
qed

text \<open>The test of a path in the notes compares texts without a separator, so that a sibling directory passes it.\<close>

lemma notes_sibling_accepted: "safe_notes_text ''~/VoxeraOS/notes-old/x''"
  by code_simp

end
