(* ===== verification/Spec2Isabelle.thy ===== *)
theory Spec2Isabelle
  imports Skill_Theorems Contract_Theorems Queue_Theorems Automation_Theorems Recovery_Theorems
    Health_Theorems Planner_Theorems Vera_Theorems
begin

text \<open>
  A verification development for the execution core of VoxeraOS (\<open>src/src/voxera\<close>): the policy engine,
  the skill runner with its sandbox, the mission runner, the file-based queue daemon with its approval
  workflow and startup recovery, the mission planner and the classifier of intents, the automation runner,
  the health snapshot, the operator authentication of the panel, and the previews and sessions of the Vera
  assistant.

  How the parts interact. A job is a JSON file in \<open>queue/inbox\<close>. A tick of the daemon
  (\<open>process_pending_once\<close>) takes the ready jobs in turn; \<open>process_job_file\<close> loads the payload, normalises
  it, parks it behind the hard approval gate if it demands approval, builds a mission (from steps, a
  structured request, a stored mission or the planner), checks the first step against the recognised
  intent, runs the mission and moves the job to done, failed or pending, with at most a configured number
  of replans. \<open>MissionRunner.run\<close> runs the steps one after the other through \<open>SkillRunner.run\<close>, which
  canonicalises the arguments, enforces the capabilities, asks the policy (\<open>decide\<close>) and, when the answer
  is ask, the queue's approval prompt; a skill then runs in process or in a Podman sandbox. An operator
  resolves a waiting job with \<open>resolve_approval\<close>. When the daemon starts, \<open>recover_on_startup\<close> fails the
  jobs that a former daemon left in flight. The automation runner, a process of its own, submits the jobs
  of due automation definitions to the inbox. The daemon and the panel keep one health snapshot; the panel
  counts in it the failed logins of each address. The Vera assistant keeps a preview of a job in a session
  file; when the user confirms it, \<open>_submit_handoff\<close> puts the preview into the inbox, links the job to the
  session and empties the preview. When a linked job has ended, its completion is ingested into the session and
  its message is added to the chat.

  Theories, in the order of the calls:
  \<^item> Prelude, PyValue: results with exceptions, Python strings and JSON values (\<open>py\<close>), dictionaries as
    association lists in insertion order, \<open>str\<close>, \<open>repr\<close>, \<open>int\<close>, path names. Strings are Latin-1.
  \<^item> Capability_Semantics, Policy: \<open>models.py\<close>, \<open>core/capability_semantics.py\<close>, \<open>policy.py\<close> and
    \<open>core/execution_capabilities.py\<close>.
  \<^item> Arg_Normalizer, Skill_Execution, Skill_Runner: \<open>skills/arg_normalizer.py\<close>,
    \<open>skills/result_contract.py\<close>, \<open>skills/execution.py\<close>, \<open>skills/runner.py\<close>.
  \<^item> Missions, Evaluator: \<open>core/missions.py\<close>, \<open>core/execution_evaluator.py\<close>.
  \<^item> Simple_Intent, Queue_Contracts, Job_Intent, Execution_Result, Queue_State: the data contracts of the
    queue (\<open>core/simple_intent.py\<close>, \<open>queue_contracts.py\<close>, \<open>queue_job_intent.py\<close>, \<open>queue_state.py\<close>).
  \<^item> Step_Monad, Guarantees: stateful programs that may raise, with the frame rules, and the rules for a
    relation between the states before and after a program.
  \<^item> Queue_Store, Queue_Daemon, Queue_Approvals, Mission_Builder, Queue_Execution, Queue_Resolution: the
    daemon (\<open>queue_paths.py\<close>, \<open>queue_daemon.py\<close>, \<open>queue_approvals.py\<close>, \<open>capabilities_snapshot.py\<close>,
    \<open>queue_execution.py\<close>, part of \<open>queue_recovery.py\<close> and \<open>queue_assistant.py\<close>). Queue_Recovery: the
    startup recovery (\<open>queue_recovery.py\<close>).
  \<^item> Queue_Frames, Approval_Laws, File_Laws, Job_Laws, Attempt_Laws, Recovery_Laws: the lemmas about the
    daemon. The interfaces are locales interpreted on its operations: the grant store, the approval gate
    and the store of files.
  \<^item> Json_Text, Automation_Model, Automation_Store, Automation_Runner: the text of JSON with sorted keys, and
    \<open>automation/models.py\<close>, \<open>store.py\<close>, \<open>history.py\<close>, \<open>runner.py\<close>, \<open>core/inbox.py\<close>, the operator's commands of
    \<open>cli_automation.py\<close>. Automation_Laws, Automation_Runs: their lemmas. Automation_Interleaving: locked passes
    of the runner (\<open>automation/lock.py\<close>) that overlap, as a step relation with a log of every job file they make,
    and the invariants of its reachable states.
  \<^item> Simulation: the locale of forward simulations. Health_Snapshot: \<open>health.py\<close>; Health_Laws its normal form,
    Health_Degradation the refinement of the abstract degradation machine by the file.
  \<^item> Panel_Auth: \<open>panel/auth_state_store.py\<close> and \<open>panel/auth_enforcement.py\<close>. Panel_Machine: the abstract
    machine of one address with the bound on guesses and the lockout; Panel_Store_Laws, Panel_Laws,
    Panel_Requests, Panel_Runs: the simulation of the machines of all addresses by requests to the panel.
  \<^item> Regex: the regular expressions of Python, as a backtracking matcher. Intent_Classifier: the classifier of
    \<open>core/simple_intent.py\<close>. Planner_Goals, Mission_Planner: \<open>core/mission_planner.py\<close>, \<open>brain/fallback.py\<close> and
    the back-off before a plan. Planner_Laws: the rewriting of a plan step by step; Planner_Fallback: the
    abstract process of asking the providers, which the planner refines together with the health file.
  \<^item> Vera_Session: \<open>vera/session_store.py\<close> and \<open>vera/context_lifecycle.py\<close>. Vera_Submission:
    \<open>vera/preview_submission.py\<close>, \<open>vera/preview_ownership.py\<close> and \<open>_submit_handoff\<close> of \<open>vera_web/app.py\<close>.
    Vera_Laws: what an operation leaves alone; Vera_Handoff, Vera_Runs: one handoff, and sequences of
    operations; Vera_Contract: previews against the contracts of the queue, the normal form of the context
    and the registry of linked jobs. Vera_Completions: \<open>vera/linked_completions.py\<close>, how the end of a linked job
    is ingested and told once; Vera_Delivery: its lemmas.
  \<^item> Samples, Health_Samples, Skill_Theorems, Contract_Theorems, Queue_Theorems, Automation_Theorems,
    Recovery_Theorems, Panel_Theorems, Health_Theorems, Planner_Theorems, Vera_Theorems: concrete
    environments, and the properties with their witnesses.

  State. The daemon's state (\<open>queue\<close>) has the files of the queue root, the one-shot approvals, the current
  job, the counters, the journal of health updates and the outer world the skills act on, a type
  parameter; \<open>rstate\<close> adds the audit log. The environment (\<open>qenv\<close>) has the configuration and everything
  that is not part of the modelled code: clocks, the skills' own code, the planner, the assistant, the
  delivery of completions, the classifier of intents and the stored missions. The theorems hold for every
  environment. An automation program acts on the same files; a program on the health snapshot has its parsed
  file as the state, missing files included; the panel's state is that file and its log. The assistant's
  state (\<open>vera\<close>) has the session files and the files of the queue; a session file may fail to be written, and the
  theorems about sessions are for writes that succeed (\<open>writes_ok\<close>).

  Bounds. The only loops that are not structural are the replanning loop, whose fuel is one more than the
  configured replans (Attempt_Laws shows it gives the result of the unbounded loop), and the search for
  a free file name, whose fuel is one more than the names in the directory (File_Laws shows it suffices).
  The theorems about sequences of requests to the panel are for at most as many addresses as it tracks
  (200) and times that do not go back. The theorem on messages is for at most the 64 jobs of which a session keeps
  the completion.

  Conditions. The two theorems about the jobs of automation definitions are for passes that take the runner's lock:
  \<open>run-now\<close> and \<open>run-due-once --id\<close> do not. They are for definitions and history records that can be written
  (when a history write fails, the job of a definition is submitted again), digests of letters and digits, clocks of
  at most eighteen digits, definition files that carry the ids of their definitions and are changed by the runner
  alone, and processes that are not killed inside a definition. The gate of a job that demands approval does not
  cover the questions of the assistant, which are handed over before it. \<open>subprocess.run\<close> of the sandbox may end,
  time out or raise any other exception; the writes to the artifacts directory around it are taken to succeed.

  Not modelled: the language-model clients and the prompt around the goal, the built-in mission templates, queue hygiene and inspection, the daemon's lock file and
  polling loop, the operator's reports on the health snapshot, the pages of the panels, the conversation,
  drafting and reviews of the Vera assistant and the debug reports on its sessions, voice and the command
  line. What text of the assistant counts as saveable is a parameter,
  as is the evidence that a job has left (\<open>core/queue_inspect.py\<close>, \<open>core/queue_result_consumers.py\<close>). A write to a file of the queue does not fail, the desktop notification and the
  live delivery do not raise, and two updates of the health snapshot do not overlap.
\<close>

end
